(* ===== verification/Prelude.thy ===== *)
theory Prelude
  imports Complex_Main "HOL-Library.AList"
begin

text \<open>
  What every component shares.

  \<^item> Names for the types of the source: \<open>ident\<close> (a TypeScript string used as an
    identifier), \<open>number\<close> (a TypeScript number, read as a rational: the modelled
    code compares, adds and subtracts times and costs and never depends on rounding).
  \<^item> \<open>nullable\<close>: a TypeScript field of type \<open>T | null | undefined\<close>, where the code
    treats \<open>null\<close> and \<open>undefined\<close> differently. Where it does not (the field is
    \<open>T | undefined\<close>, or is read through \<open>?? undefined\<close>) the model has an \<open>option\<close>.
  \<^item> The string functions of the language the code calls (\<open>startsWith\<close>,
    \<open>endsWith\<close>, \<open>trim\<close>, \<open>slice\<close>), on strings of single-byte characters.
  \<^item> The collections of lemmas the component proofs use.
\<close>

named_theorems js_simps \<open>unfolding rules for the language primitives\<close>
named_theorems js_intros \<open>introduction rules for invariants of the containers\<close>

type_synonym ident = string
type_synonym number = rat

subsection \<open>Absent values\<close>

datatype 'a nullable = Undefined | Null | Value (the_value: 'a)

text \<open>\<open>x ?? undefined\<close>\<close>

fun to_option :: "'a nullable \<Rightarrow> 'a option" where
  "to_option Undefined = None"
| "to_option Null = None"
| "to_option (Value x) = Some x"

text \<open>A value of type \<open>T | undefined\<close> where \<open>T | null | undefined\<close> is expected.\<close>

fun of_option :: "'a option \<Rightarrow> 'a nullable" where
  "of_option None = Undefined"
| "of_option (Some x) = Value x"

lemma to_option_of_option [simp]: "to_option (of_option x) = x"
  by (cases x) auto

lemma of_option_eq_Undefined [simp]: "of_option x = Undefined \<longleftrightarrow> x = None"
  by (cases x) auto

lemma of_option_neq_Null [simp]: "of_option x \<noteq> Null" "Null \<noteq> of_option x"
  by (cases x; simp)+

lemma to_option_Some_iff [simp]: "to_option x = Some y \<longleftrightarrow> x = Value y"
  by (cases x) auto

text \<open>\<open>x ?? d\<close> with a present default, and with a default that may be absent itself.\<close>

definition coalesce :: "'a option \<Rightarrow> 'a \<Rightarrow> 'a" where
  "coalesce x d = (case x of None \<Rightarrow> d | Some y \<Rightarrow> y)"

definition or_else :: "'a option \<Rightarrow> 'a option \<Rightarrow> 'a option" where
  "or_else x y = (case x of None \<Rightarrow> y | Some _ \<Rightarrow> x)"

lemma coalesce_simps [simp]: "coalesce None d = d" "coalesce (Some x) d = x"
  by (simp_all add: coalesce_def)

lemma or_else_simps [simp]: "or_else None y = y" "or_else (Some a) y = Some a" "or_else y None = y"
  by (simp_all add: or_else_def split: option.splits)

subsection \<open>Lists\<close>

text \<open>\<open>findIndex\<close>, with the \<open>-1\<close> of the source as \<open>None\<close>.\<close>

fun find_index :: "('a \<Rightarrow> bool) \<Rightarrow> 'a list \<Rightarrow> nat option" where
  "find_index P [] = None"
| "find_index P (x # xs) = (if P x then Some 0 else map_option Suc (find_index P xs))"

lemma find_index_None_iff: "find_index P xs = None \<longleftrightarrow> (\<forall>x \<in> set xs. \<not> P x)"
  by (induction xs) auto

lemma find_index_SomeD:
  "find_index P xs = Some i \<Longrightarrow> i < length xs \<and> P (xs ! i) \<and> (\<forall>j < i. \<not> P (xs ! j))"
proof (induction xs arbitrary: i)
  case Nil
  then show ?case by simp
next
  case (Cons x xs)
  show ?case
  proof (cases "P x")
    case True
    with Cons.prems show ?thesis by simp
  next
    case False
    with Cons.prems obtain j where "find_index P xs = Some j" "i = Suc j" by auto
    with Cons.IH False show ?thesis
      by (auto simp: less_Suc_eq_0_disj nth_Cons split: nat.splits)
  qed
qed

lemma find_index_append_here:
  "(\<forall>x \<in> set xs. \<not> P x) \<Longrightarrow> P y \<Longrightarrow> find_index P (xs @ y # ys) = Some (length xs)"
  by (induction xs) auto

text \<open>An invariant of the steps is one of the loop; a field written at one position.\<close>

lemma fold_keeps: "(\<And>x s. x \<in> set xs \<Longrightarrow> I s \<Longrightarrow> I (f x s)) \<Longrightarrow> I s \<Longrightarrow> I (fold f xs s)"
  by (induction xs arbitrary: s) auto

lemma all_list_update:
  "\<forall>e \<in> set xs. P e \<Longrightarrow> (k < length xs \<Longrightarrow> P y) \<Longrightarrow> \<forall>e \<in> set (xs[k := y]). P e"
  by (cases "k < length xs")
    (auto simp: list_update_beyond dest!: set_update_subset_insert [THEN subsetD])

text \<open>A set of strings in insertion order, as the language's \<open>Set\<close> keeps it.\<close>

definition set_add :: "'a \<Rightarrow> 'a list \<Rightarrow> 'a list" where
  "set_add x xs = (if x \<in> set xs then xs else xs @ [x])"

definition set_del :: "'a \<Rightarrow> 'a list \<Rightarrow> 'a list" where
  "set_del x xs = filter (\<lambda>y. y \<noteq> x) xs"

lemma set_set_add [simp]: "set (set_add x xs) = insert x (set xs)"
  by (auto simp: set_add_def)

lemma set_set_del [simp]: "set (set_del x xs) = set xs - {x}"
  by (auto simp: set_del_def)

lemma distinct_set_add [js_intros]: "distinct xs \<Longrightarrow> distinct (set_add x xs)"
  by (simp add: set_add_def)

lemma distinct_set_del [js_intros]: "distinct xs \<Longrightarrow> distinct (set_del x xs)"
  by (simp add: set_del_def)

subsection \<open>Strings\<close>

definition starts_with :: "string \<Rightarrow> string \<Rightarrow> bool" where
  "starts_with s p \<longleftrightarrow> take (length p) s = p"

definition ends_with :: "string \<Rightarrow> string \<Rightarrow> bool" where
  "ends_with s p \<longleftrightarrow> length p \<le> length s \<and> drop (length s - length p) s = p"

lemma starts_with_append [simp]: "starts_with (p @ s) p"
  by (simp add: starts_with_def)

lemma starts_with_iff: "starts_with s p \<longleftrightarrow> (\<exists>t. s = p @ t)"
  by (auto simp: starts_with_def) (metis append_take_drop_id)

text \<open>The white space \<open>trim\<close> removes, within single-byte characters.\<close>

definition is_space :: "char \<Rightarrow> bool" where
  "is_space c \<longleftrightarrow> c \<in> {CHR '' '', CHR 0x09, CHR 0x0A, CHR 0x0B, CHR 0x0C, CHR 0x0D, CHR 0xA0}"

definition trim :: "string \<Rightarrow> string" where
  "trim s = rev (dropWhile is_space (rev (dropWhile is_space s)))"

lemma trim_id: "s \<noteq> [] \<Longrightarrow> \<not> is_space (hd s) \<Longrightarrow> \<not> is_space (last s) \<Longrightarrow> trim s = s"
proof -
  assume "s \<noteq> []" "\<not> is_space (hd s)" "\<not> is_space (last s)"
  then have "dropWhile is_space s = s" "dropWhile is_space (rev s) = rev s"
    by (simp_all add: dropWhile_eq_self_iff hd_rev)
  then show "trim s = s" by (simp add: trim_def)
qed

definition lower_char :: "char \<Rightarrow> char" where
  "lower_char c = (if (of_char (CHR ''A'') :: nat) \<le> of_char c \<and> (of_char c :: nat) \<le> of_char (CHR ''Z'')
     then char_of (of_char c + (32 :: nat)) else c)"

definition to_lower :: "string \<Rightarrow> string" where
  "to_lower s = map lower_char s"

definition is_digit :: "char \<Rightarrow> bool" where
  "is_digit c \<longleftrightarrow> (of_char (CHR ''0'') :: nat) \<le> of_char c \<and> (of_char c :: nat) \<le> of_char (CHR ''9'')"

fun str_includes :: "string \<Rightarrow> string \<Rightarrow> bool" where
  "str_includes [] p = starts_with [] p"
| "str_includes (c # s) p = (starts_with (c # s) p \<or> str_includes s p)"

fun join_with :: "string \<Rightarrow> string list \<Rightarrow> string" where
  "join_with sep [] = []"
| "join_with sep [s] = s"
| "join_with sep (s # ss) = s @ sep @ join_with sep ss"

definition digit :: "nat \<Rightarrow> char" where
  "digit n = char_of (48 + n)"

fun nat_string :: "nat \<Rightarrow> string" where
  "nat_string n = (if n < 10 then [digit n] else nat_string (n div 10) @ [digit (n mod 10)])"

declare nat_string.simps [simp del]

text \<open>
  The number a text of digits denotes, as an exact rational; from half a unit above the
  largest finite number on the language reads it as infinite.
\<close>

definition digits_value :: "string \<Rightarrow> number" where
  "digits_value s = foldl (\<lambda>n c. 10 * n + (of_nat (of_char c) - 48)) 0 s"

definition finite_number :: "number option \<Rightarrow> number option" where
  "finite_number v = (case v of None \<Rightarrow> None | Some x \<Rightarrow> if x < 2 ^ 1024 - 2 ^ 970 then Some x else None)"

definition truncate_text :: "string \<Rightarrow> nat \<Rightarrow> string" where
  "truncate_text s n = (if length s \<le> n then s else take n s @ ''...'')"

end
