(* ===== verification/JsMap.thy ===== *)
theory JsMap
  imports Prelude
begin

text \<open>
  The language's \<open>Map\<close>: a dictionary that iterates in insertion order and keeps a key's
  position when its value is replaced. The model is an association list with the
  operations of the library theory AList, which behave so. The interface the components
  rely on is the locale \<open>dictionary\<close>; the components' invariants are statements about
  all entries, so the client lemmas of the locale are about those.
\<close>

type_synonym ('k, 'v) js_map = "('k \<times> 'v) list"

abbreviation js_get :: "('k, 'v) js_map \<Rightarrow> 'k \<Rightarrow> 'v option" where
  "js_get m k \<equiv> map_of m k"

abbreviation js_set :: "'k \<Rightarrow> 'v \<Rightarrow> ('k, 'v) js_map \<Rightarrow> ('k, 'v) js_map" where
  "js_set \<equiv> AList.update"

abbreviation js_delete :: "'k \<Rightarrow> ('k, 'v) js_map \<Rightarrow> ('k, 'v) js_map" where
  "js_delete \<equiv> AList.delete"

abbreviation js_has :: "('k, 'v) js_map \<Rightarrow> 'k \<Rightarrow> bool" where
  "js_has m k \<equiv> map_of m k \<noteq> None"

abbreviation js_keys :: "('k, 'v) js_map \<Rightarrow> 'k list" where
  "js_keys m \<equiv> map fst m"

abbreviation js_values :: "('k, 'v) js_map \<Rightarrow> 'v list" where
  "js_values m \<equiv> map snd m"

definition map_wf :: "('k, 'v) js_map \<Rightarrow> bool" where
  "map_wf m \<longleftrightarrow> distinct (js_keys m)"

subsection \<open>The interface\<close>

locale dictionary =
  fixes emp :: "'m"
    and get :: "'m \<Rightarrow> 'k \<Rightarrow> 'v option"
    and put :: "'k \<Rightarrow> 'v \<Rightarrow> 'm \<Rightarrow> 'm"
    and del :: "'k \<Rightarrow> 'm \<Rightarrow> 'm"
    and wf :: "'m \<Rightarrow> bool"
  assumes get_emp: "get emp k = None"
    and get_put: "get (put k v m) j = (if j = k then Some v else get m j)"
    and get_del: "get (del k m) j = (if j = k then None else get m j)"
    and wf_emp: "wf emp"
    and wf_put: "wf m \<Longrightarrow> wf (put k v m)"
    and wf_del: "wf m \<Longrightarrow> wf (del k m)"
begin

lemma get_put_same: "get (put k v m) k = Some v"
  by (simp add: get_put)

lemma get_put_other: "j \<noteq> k \<Longrightarrow> get (put k v m) j = get m j"
  by (simp add: get_put)

text \<open>A property of all entries survives storing an entry that has it, and deleting.\<close>

lemma all_emp: "\<forall>k v. get emp k = Some v \<longrightarrow> P k v"
  by (simp add: get_emp)

lemma all_put:
  "\<forall>k v. get m k = Some v \<longrightarrow> P k v \<Longrightarrow> P a b \<Longrightarrow> \<forall>k v. get (put a b m) k = Some v \<longrightarrow> P k v"
  by (simp add: get_put)

lemma all_del:
  "\<forall>k v. get m k = Some v \<longrightarrow> P k v \<Longrightarrow> \<forall>k v. get (del a m) k = Some v \<longrightarrow> P k v"
  by (simp add: get_del)

text \<open>Moving an entry to another key: what a rename leaves behind and what it keeps.\<close>

lemma get_rename:
  "a \<noteq> b \<Longrightarrow> get (put b v (del a m)) j = (if j = b then Some v else if j = a then None else get m j)"
  by (simp add: get_put get_del)

lemma wf_rename: "wf m \<Longrightarrow> wf (put b v (del a m))"
  by (intro wf_put wf_del)

end

text \<open>The association lists provide it.\<close>

lemma js_get_set: "js_get (js_set k v m) j = (if j = k then Some v else js_get m j)"
  by (simp add: update_conv')

lemma js_get_delete: "js_get (js_delete k m) j = (if j = k then None else js_get m j)"
  by (simp add: delete_conv')

interpretation jm: dictionary "[]" js_get js_set js_delete map_wf
  by unfold_locales
    (simp_all add: js_get_set js_get_delete map_wf_def distinct_update distinct_delete)

declare js_get_set [simp] js_get_delete [simp]

lemmas map_wf_intros [js_intros] = jm.wf_emp jm.wf_put jm.wf_del

lemma keys_js_set:
  "js_keys (js_set k v m) = (if k \<in> set (js_keys m) then js_keys m else js_keys m @ [k])"
  by (simp add: update_keys)

lemma js_get_in_set: "js_get m k = Some v \<Longrightarrow> (k, v) \<in> set m"
  by (rule map_of_SomeD)

lemma js_has_iff: "js_has m k \<longleftrightarrow> k \<in> set (js_keys m)"
  by (simp add: map_of_eq_None_iff)

lemma entries_js_set: "(a, b) \<in> set (js_set k v m) \<Longrightarrow> b = v \<or> (a, b) \<in> set m"
  by (induction m) (auto split: if_splits)

lemma entries_js_delete: "(a, b) \<in> set (js_delete k m) \<Longrightarrow> (a, b) \<in> set m"
  by (simp add: AList.delete_eq)

lemma js_get_snoc:
  assumes "fst e \<notin> set (js_keys m)"
  shows "js_get (m @ [e]) = (js_get m)(fst e \<mapsto> snd e)"
proof
  fix j
  have "js_get m (fst e) = None" using assms by (simp add: map_of_eq_None_iff)
  then show "js_get (m @ [e]) j = ((js_get m)(fst e \<mapsto> snd e)) j"
    by (cases e; cases "js_get m j") (auto simp: map_add_def)
qed

end
