(* ===== verification/ChatTypes.thy ===== *)
theory ChatTypes
  imports JsMap
begin

text \<open>
  The data of the chat client (app-internal/src/chat/types/index.ts, shared/src/types/index.ts
  and the request types of chat/lib). A record's fields carry a prefix for their record,
  because Isabelle's field names are global; after it they are the source's names. A value
  the code only stores and passes on (a tool's input, stored tool calls) is \<open>json\<close>.
\<close>

datatype json =
    JNull
  | JBool bool
  | JNum number
  | JStr string
  | JArr "json list"
  | JObj "(string \<times> json) list"

text \<open>
  \<open>isRecord\<close> of shared/src/lib/type-guards.ts (which an array satisfies too), and reading
  a named property, which an array does not have.
\<close>

fun isRecord :: "json \<Rightarrow> bool" where
  "isRecord (JObj _) = True"
| "isRecord (JArr _) = True"
| "isRecord _ = False"

fun field_of :: "json \<Rightarrow> string \<Rightarrow> json option" where
  "field_of (JObj fields) k = map_of fields k"
| "field_of _ k = None"

fun as_string :: "json option \<Rightarrow> string option" where
  "as_string (Some (JStr s)) = Some s"
| "as_string _ = None"

fun as_number :: "json option \<Rightarrow> number option" where
  "as_number (Some (JNum n)) = Some n"
| "as_number _ = None"

fun as_bool :: "json option \<Rightarrow> bool option" where
  "as_bool (Some (JBool b)) = Some b"
| "as_bool _ = None"

fun as_array :: "json option \<Rightarrow> json list option" where
  "as_array (Some (JArr xs)) = Some xs"
| "as_array _ = None"

fun as_record :: "json option \<Rightarrow> json option" where
  "as_record (Some (JObj fs)) = Some (JObj fs)"
| "as_record (Some (JArr xs)) = Some (JArr xs)"
| "as_record _ = None"

text \<open>\<open>x ?? y\<close> for a value read from JSON, which may be \<open>null\<close>.\<close>

fun json_or_else :: "json option \<Rightarrow> json option \<Rightarrow> json option" where
  "json_or_else None y = y"
| "json_or_else (Some JNull) y = y"
| "json_or_else (Some v) y = Some v"

lemma as_string_Some_iff [simp]: "as_string v = Some s \<longleftrightarrow> v = Some (JStr s)"
  by (cases v rule: as_string.cases) auto

lemma as_array_Some_iff [simp]: "as_array v = Some xs \<longleftrightarrow> v = Some (JArr xs)"
  by (cases v rule: as_array.cases) auto

text \<open>The errors the modelled code raises or distinguishes.\<close>

datatype js_error =
    TypeError string
  | PlainError string
  | AbortError
  | ApiError nat string

datatype role = User | Assistant

datatype grounding_status = GPending | GSelected | GNoSelection | GFailed

datatype source_type =
    WebsitePage | WebsiteProgram | CatalogPage | CatalogProgram | CatalogCourse
  | TrainingMaterial | CannedResponse

datatype source_usage = USearch | ULookup | URetrievedById | UPrompt

record source_used =
  su_key :: string
  su_type :: source_type
  su_id :: number
  su_title :: string
  su_url :: string
  su_usage :: source_usage
  su_tool_call_id :: string
  su_tool_name :: string
  su_search_query :: "string nullable"
  su_chunk :: "string nullable"
  su_explanation :: "string nullable"

datatype activity_status = InProgress | Complete | ErrorStatus

datatype activity_kind = AgentKind | ToolKind | ThinkingKind

datatype tool_state =
    InputStreaming | InputAvailable | ApprovalRequested | ApprovalResponded
  | OutputAvailable | OutputError | OutputDenied

record activity_item =
  ai_id :: ident
  ai_label :: string
  ai_status :: activity_status
  ai_parentId :: "ident option"
  ai_kind :: "activity_kind option"
  ai_toolState :: "tool_state option"
  ai_toolName :: "string option"
  ai_toolInput :: "json option"
  ai_toolOutput :: "json option"
  ai_toolErrorText :: "string option"
  ai_thinkingContent :: "string option"

record log_entry =
  le_id :: ident
  le_sequence :: nat
  le_label :: string
  le_status :: activity_status
  le_parentId :: "ident option"
  le_kind :: "activity_kind option"
  le_toolState :: "tool_state option"
  le_toolName :: "string option"
  le_toolInput :: "json option"
  le_toolOutput :: "json option"
  le_toolErrorText :: "string option"
  le_thinkingContent :: "string option"
  le_startedAtMs :: "number option"
  le_durationMs :: "number option"

text \<open>A log entry with only the obligatory fields.\<close>

definition blank_entry :: "ident \<Rightarrow> nat \<Rightarrow> log_entry" where
  "blank_entry i n = \<lparr>le_id = i, le_sequence = n, le_label = '''', le_status = InProgress,
     le_parentId = None, le_kind = None, le_toolState = None, le_toolName = None,
     le_toolInput = None, le_toolOutput = None, le_toolErrorText = None,
     le_thinkingContent = None, le_startedAtMs = None, le_durationMs = None\<rparr>"

record response_usage =
  ru_inputTokens :: "number option"
  ru_uncachedInputTokens :: "number option"
  ru_cacheReadInputTokens :: "number option"
  ru_outputTokens :: "number option"

record cost_breakdown =
  cb_inputCost :: "number option"
  cb_cacheReadInputCost :: "number option"
  cb_outputCost :: "number option"

record draft_template =
  dt_filename :: string
  dt_content :: string

record guardrails_failure =
  gf_assistantMessage :: string
  gf_llmGuardrailsFeedback :: "string option"
  gf_invalidUrls :: "string list option"

record generation_timing =
  gt_totalTimeMs :: "number option"
  gt_chatbotTimeMs :: "number option"
  gt_guardrailTimeMs :: "number option"
  gt_chatbotTimesMs :: "number list option"
  gt_guardrailTimesMs :: "number list option"
  gt_chatbotModel :: "string option"
  gt_guardrailModel :: "string option"

datatype reasoning_effort = ENone | ELow | EMedium | EHigh | EXhigh

record model_overrides =
  mo_chatbotModel :: "string option"
  mo_guardrailModel :: "string option"
  mo_chatbotReasoningEffort :: "reasoning_effort option"
  mo_guardrailReasoningEffort :: "reasoning_effort option"

record send_options =
  so_parentMessageId :: "ident nullable"
  so_isRegeneration :: "bool option"
  so_trimToMessageId :: "ident nullable"
  so_draftPromptTemplates :: "draft_template list option"

record retry_request =
  rr_content :: string
  rr_modelOverrides :: "model_overrides option"
  rr_options :: send_options

record message =
  msg_id :: ident
  msg_role :: role
  msg_content :: string
  msg_createdAt :: number
  msg_parentId :: "ident option"
  msg_isError :: "bool option"
  msg_assistantToolCalls :: "json list option"
  msg_generationTimeMs :: "number option"
  msg_generationTiming :: "generation_timing option"
  msg_responseCost :: "number option"
  msg_responseUsage :: "response_usage option"
  msg_responseCostBreakdown :: "cost_breakdown option"
  msg_guardrailsFailures :: "guardrails_failure list option"
  msg_guardrailsBlocked :: "bool option"
  msg_guardrailsBlockedMessage :: "string option"
  msg_toolSourcesUsed :: "source_used list option"
  msg_groundingSourcesUsed :: "source_used list option"
  msg_groundingSourceStatus :: "grounding_status nullable"
  msg_retryRequest :: "retry_request option"

datatype rating = ThumbsUp | ThumbsDown

record feedback =
  fb_id :: ident
  fb_rating :: rating
  fb_text :: "string option"
  fb_user_id :: ident
  fb_user_name :: string
  fb_is_current_user :: bool
  fb_created_at :: string
  fb_updated_at :: string

record chat =
  ch_id :: ident
  ch_title :: "string option"
  ch_summary :: "string option"
  ch_lastMessagePreview :: "string option"
  ch_updatedAt :: number
  ch_isPublic :: bool
  ch_userName :: "string option"
  ch_userEmail :: "string option"
  ch_investigationSourceConversationId :: "ident option"
  ch_investigationSourceMessageId :: "ident option"
  ch_investigationSourceFeedbackId :: "ident option"
  ch_promptSource :: "string option"
  ch_messages :: "message list"
  ch_isLoading :: bool
  ch_hasUnread :: bool
  ch_loadingActivity :: "activity_item list option"
  ch_loadingActivityLog :: "log_entry list option"
  ch_parentMessageId :: "ident option"
  ch_hasPendingGeneration :: "bool option"

record chat_list_item =
  li_id :: ident
  li_title :: "string option"
  li_summary :: "string option"
  li_last_message_preview :: "string option"
  li_message_count :: number
  li_created_at :: string
  li_updated_at :: string
  li_is_public :: bool
  li_prompt_source :: "string option"
  li_user_name :: "string option"
  li_user_email :: "string option"

record server_guardrails_failure =
  sgf_assistant_message :: string
  sgf_llm_guardrails_feedback :: "string option"
  sgf_invalid_urls :: "string list option"

record server_message =
  sm_id :: ident
  sm_role :: role
  sm_content :: string
  sm_guardrails_blocked :: "bool option"
  sm_guardrails_blocked_message :: "string option"
  sm_parent_id :: "ident option"
  sm_created_at :: string
  sm_assistant_tool_calls :: "json list option"
  sm_generation_time_ms :: "number option"
  sm_generation_timing :: "generation_timing option"
  sm_response_cost :: "number option"
  sm_response_usage :: "response_usage option"
  sm_response_cost_breakdown :: "cost_breakdown option"
  sm_guardrails_failures :: "server_guardrails_failure list option"
  sm_tool_sources_used :: "source_used list option"
  sm_grounding_sources_used :: "source_used list option"
  sm_grounding_source_status :: "grounding_status nullable"
  sm_feedback :: "feedback list option"

record chat_detail =
  cd_id :: ident
  cd_title :: "string option"
  cd_summary :: "string option"
  cd_is_public :: bool
  cd_prompt_source :: "string option"
  cd_user_name :: "string option"
  cd_user_email :: "string option"
  cd_investigation_source_conversation_id :: "ident option"
  cd_investigation_source_message_id :: "ident option"
  cd_investigation_source_feedback_id :: "ident option"
  cd_has_pending_generation_attempt :: "bool option"
  cd_messages :: "server_message list"
  cd_created_at :: string
  cd_updated_at :: string

record tree_response_message =
  trm_id :: ident
  trm_role :: role
  trm_content :: string
  trm_parent_id :: "ident option"

record tree_response =
  tr_messages :: "tree_response_message list"
  tr_current_branch_path :: "ident list"

end
