(* ===== verification/RequestTracking.thy ===== *)
theory RequestTracking
  imports JsMap
begin

text \<open>
  Who may still act for a request. Two components of the chat client decide it:

  \<^item> \<open>createActiveRequestTracker\<close> (chat/lib/active-request-tracker.ts): one active
    token per chat key. A handle is current while the map holds its token under its key;
    starting a request under the same key supersedes it, a handle may move to another key
    (the temporary chat id becomes the real one), finish, or be invalidated.
  \<^item> \<open>createLatestRequestCoordinator\<close> (chat/lib/conversation-tree.ts): a generation
    counter; a response is delivered only if no request started, and no invalidation
    happened, since it was issued.

  The contract both give the chat store is the locale \<open>ownership\<close>: an operation never
  makes a request current that was not, so ownership once lost is lost for good.
\<close>

section \<open>The interface\<close>

text \<open>
  \<open>ops\<close> are the state changes anybody may make. \<open>known\<close> are the requests that have
  been issued; an operation may issue new ones.
\<close>

locale ownership =
  fixes current :: "'s \<Rightarrow> 'r \<Rightarrow> bool"
    and known :: "'s \<Rightarrow> 'r \<Rightarrow> bool"
    and wf :: "'s \<Rightarrow> bool"
    and apply_op :: "'op \<Rightarrow> 's \<Rightarrow> 's"
  assumes wf_op: "wf s \<Longrightarrow> wf (apply_op a s)"
    and known_op: "known s r \<Longrightarrow> known (apply_op a s) r"
    and lost_op: "wf s \<Longrightarrow> known s r \<Longrightarrow> current (apply_op a s) r \<Longrightarrow> current s r"
begin

lemma wf_ops: "wf s \<Longrightarrow> wf (fold apply_op as s)"
  by (induction as arbitrary: s) (auto intro: wf_op)

lemma known_ops: "known s r \<Longrightarrow> known (fold apply_op as s) r"
  by (induction as arbitrary: s) (auto intro: known_op)

text \<open>Whatever happens next, a request that has lost its ownership never regains it.\<close>

lemma lost_forever:
  assumes "wf s" "known s r" "\<not> current s r"
  shows "\<not> current (fold apply_op as s) r"
  using assms
proof (induction as arbitrary: s)
  case Nil
  then show ?case by simp
next
  case (Cons a as)
  have "wf (apply_op a s)" "known (apply_op a s) r" "\<not> current (apply_op a s) r"
    using Cons.prems wf_op known_op lost_op by blast+
  then show ?case using Cons.IH by simp
qed

lemma current_throughout:
  assumes "wf s" "known s r" "current (fold apply_op (as @ bs) s) r"
  shows "current (fold apply_op as s) r"
  using assms lost_forever [of "fold apply_op as s" r bs] wf_ops known_ops by auto

end

section \<open>The active-request tracker\<close>

text \<open>
  A handle is the number of its token; \<open>handle_keys\<close> holds each handle's mutable
  \<open>activeKey\<close>. A fresh \<open>Symbol\<close> is a number not used before.
\<close>

record tracker =
  active_tokens :: "(ident, nat) js_map"
  handle_keys :: "ident list"

definition empty_tracker :: tracker where
  "empty_tracker = \<lparr>active_tokens = [], handle_keys = []\<rparr>"

definition active_key :: "tracker \<Rightarrow> nat \<Rightarrow> ident option" where
  "active_key t h = (if h < length (handle_keys t) then Some (handle_keys t ! h) else None)"

definition start_request :: "ident \<Rightarrow> tracker \<Rightarrow> nat \<times> tracker" where
  "start_request key t =
     (let token = length (handle_keys t)
      in (token, t\<lparr>active_tokens := js_set key token (active_tokens t),
                   handle_keys := handle_keys t @ [key]\<rparr>))"

definition is_current :: "tracker \<Rightarrow> nat \<Rightarrow> bool" where
  "is_current t h = (case active_key t h of
     None \<Rightarrow> False
   | Some key \<Rightarrow> js_get (active_tokens t) key = Some h)"

definition move_to :: "ident \<Rightarrow> nat \<Rightarrow> tracker \<Rightarrow> bool \<times> tracker" where
  "move_to next h t = (case active_key t h of
     None \<Rightarrow> (False, t)
   | Some key \<Rightarrow>
       if next = key then (is_current t h, t)
       else
         let was_current = is_current t h;
             t1 = (if was_current
                   then t\<lparr>active_tokens := js_delete key (active_tokens t)\<rparr> else t);
             t2 = t1\<lparr>handle_keys := (handle_keys t1)[h := next]\<rparr>;
             t3 = (if was_current \<and> \<not> js_has (active_tokens t2) next
                   then t2\<lparr>active_tokens := js_set next h (active_tokens t2)\<rparr> else t2)
         in (is_current t3 h, t3))"

definition finish_request :: "nat \<Rightarrow> tracker \<Rightarrow> tracker" where
  "finish_request h t = (case active_key t h of
     None \<Rightarrow> t
   | Some key \<Rightarrow>
       if is_current t h then t\<lparr>active_tokens := js_delete key (active_tokens t)\<rparr> else t)"

definition invalidate_request :: "ident \<Rightarrow> tracker \<Rightarrow> tracker" where
  "invalidate_request key t = t\<lparr>active_tokens := js_delete key (active_tokens t)\<rparr>"

text \<open>
  Invariant: a token in the map belongs to an issued handle whose key it is stored
  under. So a token is stored at most once, and being current is being stored.
\<close>

definition tracker_wf :: "tracker \<Rightarrow> bool" where
  "tracker_wf t \<longleftrightarrow>
     map_wf (active_tokens t) \<and>
     (\<forall>key h. js_get (active_tokens t) key = Some h \<longrightarrow> active_key t h = Some key)"

lemmas tracker_defs = active_key_def start_request_def is_current_def move_to_def
  finish_request_def invalidate_request_def Let_def

lemma tracker_wf_empty [js_intros]: "tracker_wf empty_tracker"
  by (simp add: tracker_wf_def empty_tracker_def map_wf_def)

lemma tracker_wfD:
  "tracker_wf t \<Longrightarrow> js_get (active_tokens t) key = Some h \<Longrightarrow> active_key t h = Some key"
  by (simp add: tracker_wf_def)

lemma is_current_iff:
  assumes "tracker_wf t"
  shows "is_current t h \<longleftrightarrow> (\<exists>key. js_get (active_tokens t) key = Some h)"
proof
  assume "is_current t h"
  then show "\<exists>key. js_get (active_tokens t) key = Some h"
    by (cases "active_key t h") (auto simp: is_current_def)
next
  assume "\<exists>key. js_get (active_tokens t) key = Some h"
  then obtain key where key: "js_get (active_tokens t) key = Some h" by blast
  then show "is_current t h" by (simp add: is_current_def tracker_wfD [OF assms key])
qed

lemma tracker_wfI:
  assumes "map_wf (active_tokens t)"
    and "\<And>key h. js_get (active_tokens t) key = Some h \<Longrightarrow> active_key t h = Some key"
  shows "tracker_wf t"
  using assms by (simp add: tracker_wf_def)

lemma active_key_less: "active_key t h = Some key \<Longrightarrow> h < length (handle_keys t)"
  by (simp add: active_key_def split: if_splits)

lemma start_request_wf:
  assumes "tracker_wf t"
  shows "tracker_wf (snd (start_request key t))"
proof (rule tracker_wfI)
  show "map_wf (active_tokens (snd (start_request key t)))"
    using assms by (simp add: tracker_wf_def start_request_def Let_def jm.wf_put)
next
  fix k h
  assume "js_get (active_tokens (snd (start_request key t))) k = Some h"
  then have *: "if k = key then h = length (handle_keys t) else js_get (active_tokens t) k = Some h"
    by (simp add: start_request_def Let_def split: if_splits)
  show "active_key (snd (start_request key t)) h = Some k"
  proof (cases "k = key")
    case True
    with * show ?thesis by (simp add: active_key_def start_request_def Let_def)
  next
    case False
    with * assms have "active_key t h = Some k" by (simp add: tracker_wfD)
    then show ?thesis
      by (auto simp: active_key_def start_request_def Let_def nth_append split: if_splits)
  qed
qed

lemma start_request_current: "is_current (snd (start_request key t)) (fst (start_request key t))"
  by (simp add: tracker_defs)

lemma tokens_delete_wf:
  "tracker_wf t \<Longrightarrow> tracker_wf (t\<lparr>active_tokens := js_delete key (active_tokens t)\<rparr>)"
  by (rule tracker_wfI)
    (auto simp: tracker_wf_def active_key_def jm.wf_del split: if_splits)

lemma finish_request_wf: "tracker_wf t \<Longrightarrow> tracker_wf (finish_request h t)"
  by (simp add: finish_request_def tokens_delete_wf split: option.split)

lemma invalidate_request_wf: "tracker_wf t \<Longrightarrow> tracker_wf (invalidate_request key t)"
  by (simp add: invalidate_request_def tokens_delete_wf)

text \<open>What \<open>moveTo\<close> does when the key really changes, for an owner and for a loser.\<close>

lemma move_to_same: "active_key t h = Some key \<Longrightarrow> move_to key h t = (is_current t h, t)"
  by (simp add: move_to_def)

lemma move_to_tokens:
  assumes "tracker_wf t" "active_key t h = Some key" "next \<noteq> key"
  shows "active_tokens (snd (move_to next h t)) =
    (if is_current t h
     then (if js_has (active_tokens t) next then js_delete key (active_tokens t)
           else js_set next h (js_delete key (active_tokens t)))
     else active_tokens t)"
  using assms by (auto simp: move_to_def Let_def split: if_splits)

lemma move_to_keys:
  assumes "active_key t h = Some key" "next \<noteq> key"
  shows "handle_keys (snd (move_to next h t)) = (handle_keys t)[h := next]"
  using assms by (auto simp: move_to_def Let_def)

lemma active_key_move_to:
  assumes "active_key t h = Some key" "next \<noteq> key"
  shows "active_key (snd (move_to next h t)) g = (if g = h then Some next else active_key t g)"
  using active_key_less [OF assms(1)]
  by (simp add: active_key_def move_to_keys [OF assms])

lemma move_to_fst:
  "fst (move_to next h t) = is_current (snd (move_to next h t)) h"
  by (simp add: move_to_def is_current_def Let_def split: option.split)

lemma move_to_wf:
  assumes wf: "tracker_wf t"
  shows "tracker_wf (snd (move_to next h t))"
proof (cases "active_key t h")
  case None
  then show ?thesis using wf by (simp add: move_to_def)
next
  case (Some key)
  show ?thesis
  proof (cases "next = key")
    case True
    then show ?thesis using wf Some by (simp add: move_to_same)
  next
    case False
    note tokens = move_to_tokens [OF wf Some False]
    note keys = active_key_move_to [OF Some False]
    have other: "g \<noteq> h" if "js_get (active_tokens t) k = Some g" "k \<noteq> key" for k g
      using tracker_wfD [OF wf that(1)] that(2) Some by auto
    have loser: "g \<noteq> h" if "js_get (active_tokens t) k = Some g" "\<not> is_current t h" for k g
      using that wf by (auto simp: is_current_iff)
    show ?thesis
    proof (rule tracker_wfI)
      show "map_wf (active_tokens (snd (move_to next h t)))"
        using wf by (simp add: tokens tracker_wf_def jm.wf_put jm.wf_del)
    next
      fix k g
      assume "js_get (active_tokens (snd (move_to next h t))) k = Some g"
      then show "active_key (snd (move_to next h t)) g = Some k"
        using other loser tracker_wfD [OF wf]
        by (auto simp: tokens keys split: if_splits)
    qed
  qed
qed

section \<open>Ownership of a stream\<close>

datatype tracker_op =
    Start ident
  | MoveTo ident nat
  | Finish nat
  | Invalidate ident

fun tracker_step :: "tracker_op \<Rightarrow> tracker \<Rightarrow> tracker" where
  "tracker_step (Start key) t = snd (start_request key t)"
| "tracker_step (MoveTo next h) t = snd (move_to next h t)"
| "tracker_step (Finish h) t = finish_request h t"
| "tracker_step (Invalidate key) t = invalidate_request key t"

definition issued :: "tracker \<Rightarrow> nat \<Rightarrow> bool" where
  "issued t h \<longleftrightarrow> h < length (handle_keys t)"

lemma tracker_step_wf: "tracker_wf t \<Longrightarrow> tracker_wf (tracker_step a t)"
  by (cases a) (simp_all add: start_request_wf move_to_wf finish_request_wf invalidate_request_wf)

lemma tracker_step_issued: "issued t h \<Longrightarrow> issued (tracker_step a t) h"
  by (cases a) (auto simp: issued_def tracker_defs split: option.split)

lemma move_to_stored:
  assumes "tracker_wf t" "js_get (active_tokens (snd (move_to next h t))) k = Some g"
  shows "is_current t g"
proof (cases "active_key t h")
  case None
  with assms show ?thesis by (auto simp: move_to_def is_current_iff)
next
  case (Some key)
  show ?thesis
  proof (cases "next = key")
    case True
    with assms Some show ?thesis by (auto simp: move_to_same is_current_iff)
  next
    case False
    with assms show ?thesis
      by (auto simp: move_to_tokens [OF _ Some False] is_current_iff split: if_splits)
  qed
qed

lemma tracker_step_lost:
  assumes "tracker_wf t" "issued t h" "is_current (tracker_step a t) h"
  shows "is_current t h"
proof -
  obtain k where k: "js_get (active_tokens (tracker_step a t)) k = Some h"
    using assms by (auto simp: is_current_iff tracker_step_wf)
  show ?thesis
  proof (cases a)
    case (Start key)
    with k assms show ?thesis
      by (auto simp: start_request_def Let_def is_current_iff issued_def split: if_splits)
  next
    case (MoveTo dest g)
    with k assms show ?thesis by (simp add: move_to_stored)
  next
    case (Finish g)
    with k assms show ?thesis
      by (auto simp: finish_request_def is_current_iff split: option.splits if_splits)
  next
    case (Invalidate key)
    with k assms show ?thesis
      by (auto simp: invalidate_request_def is_current_iff split: if_splits)
  qed
qed

interpretation stream_owner: ownership is_current issued tracker_wf tracker_step
  by unfold_locales (auto intro: tracker_step_wf tracker_step_issued tracker_step_lost)

text \<open>At most one request is current per key, and a new start takes the key over.\<close>

lemma current_key_unique:
  "is_current t g \<Longrightarrow> is_current t h \<Longrightarrow> active_key t g = active_key t h \<Longrightarrow> g = h"
  by (auto simp: is_current_def split: option.splits)

lemma start_supersedes:
  assumes "tracker_wf t" "active_key t h = Some key"
  shows "\<not> is_current (tracker_step (Start key) t) h"
  using assms active_key_less [OF assms(2)]
  by (auto simp: start_request_def Let_def is_current_def active_key_def nth_append
      split: if_splits)

lemma invalidate_supersedes:
  "active_key t h = Some key \<Longrightarrow> \<not> is_current (tracker_step (Invalidate key) t) h"
  by (auto simp: invalidate_request_def is_current_def active_key_def split: if_splits)

lemma finish_supersedes: "\<not> is_current (tracker_step (Finish h) t) h"
  by (auto simp: finish_request_def is_current_def active_key_def split: option.split)

lemma move_to_current_iff:
  assumes "tracker_wf t" "active_key t h = Some key" "next \<noteq> key"
  shows "fst (move_to next h t) \<longleftrightarrow> is_current t h \<and> \<not> js_has (active_tokens t) next"
proof -
  have "is_current (snd (move_to next h t)) h \<longleftrightarrow>
      js_get (active_tokens (snd (move_to next h t))) next = Some h"
    by (simp add: is_current_def active_key_move_to [OF assms(2,3)])
  also have "\<dots> \<longleftrightarrow> is_current t h \<and> \<not> js_has (active_tokens t) next"
    using assms by (auto simp: move_to_tokens [OF assms] is_current_def dest: tracker_wfD)
  finally show ?thesis by (simp add: move_to_fst)
qed

section \<open>Latest request wins\<close>

text \<open>
  The coordinator's state is its generation; a request remembers the generation it
  started. The response is delivered as current or stale, and an error of a stale request
  is swallowed.
\<close>

datatype 'a latest_result = Current 'a | Stale

definition lr_invalidate :: "nat \<Rightarrow> nat" where
  "lr_invalidate generation = generation + 1"

definition lr_begin :: "nat \<Rightarrow> nat \<times> nat" where
  "lr_begin generation = (let g = generation + 1 in (g, g))"

fun lr_settle :: "nat \<Rightarrow> nat \<Rightarrow> 'e + 'a \<Rightarrow> 'e + 'a latest_result" where
  "lr_settle request generation (Inr v) =
     Inr (if request = generation then Current v else Stale)"
| "lr_settle request generation (Inl e) =
     (if request \<noteq> generation then Inr Stale else Inl e)"

datatype coordinator_op = Begin | Drop

fun coordinator_step :: "coordinator_op \<Rightarrow> nat \<Rightarrow> nat" where
  "coordinator_step Begin g = snd (lr_begin g)"
| "coordinator_step Drop g = lr_invalidate g"

lemma coordinator_step_Suc: "coordinator_step a g = Suc g"
  by (cases a) (simp_all add: lr_begin_def lr_invalidate_def Let_def)

interpretation latest_owner: ownership
  "\<lambda>g request. request = g" "\<lambda>g request. request \<le> g" "\<lambda>_. True" coordinator_step
  by unfold_locales (auto simp: coordinator_step_Suc)

lemma lr_settle_delivers:
  "lr_settle request g r = Inr (Current v) \<longleftrightarrow> request = g \<and> r = Inr v"
  by (cases r) auto

lemma lr_settle_raises: "lr_settle request g r = Inl e \<longleftrightarrow> request = g \<and> r = Inl e"
  by (cases r) auto

end
