(* ===== verification/ConversationTree.thy ===== *)
theory ConversationTree
  imports ChatTypes RequestTracking
begin

text \<open>
  The branching conversation (chat/lib/conversation-tree.ts): the server's flat list of
  messages, each naming its parent, becomes an index by id, the children of each parent
  and the list of roots. The lemmas say what the index holds in terms of the list, and
  the two branch tests are characterised on the list: a conversation has branches iff two
  of its messages have the same parent.
\<close>

record tree_message =
  tm_id :: ident
  tm_role :: role
  tm_content :: string
  tm_parentId :: "ident option"

record tree_state =
  messagesById :: "(ident, tree_message) js_map"
  childrenByParent :: "(ident, ident list) js_map"
  rootMessageIds :: "ident list"
  currentBranchPath :: "ident list"

definition tree_message_of :: "tree_response_message \<Rightarrow> tree_message" where
  "tree_message_of m = \<lparr>tm_id = trm_id m, tm_role = trm_role m,
     tm_content = trm_content m, tm_parentId = trm_parent_id m\<rparr>"

text \<open>One turn of the loop of \<open>convertConversationTree\<close>.\<close>

definition add_tree_message :: "tree_response_message \<Rightarrow> tree_state \<Rightarrow> tree_state" where
  "add_tree_message m t =
     (let t1 = t\<lparr>messagesById := js_set (trm_id m) (tree_message_of m) (messagesById t)\<rparr>
      in case trm_parent_id m of
           None \<Rightarrow> t1\<lparr>rootMessageIds := rootMessageIds t1 @ [trm_id m]\<rparr>
         | Some p \<Rightarrow>
             let childIds = coalesce (js_get (childrenByParent t1) p) []
             in t1\<lparr>childrenByParent := js_set p (childIds @ [trm_id m]) (childrenByParent t1)\<rparr>)"

definition convertConversationTree :: "tree_response \<Rightarrow> tree_state" where
  "convertConversationTree response =
     fold add_tree_message (tr_messages response)
       \<lparr>messagesById = [], childrenByParent = [], rootMessageIds = [],
        currentBranchPath = tr_current_branch_path response\<rparr>"

definition hasConversationBranches :: "tree_state option \<Rightarrow> bool" where
  "hasConversationBranches tree = (case tree of
     None \<Rightarrow> False
   | Some t \<Rightarrow> 1 < length (rootMessageIds t) \<or>
       (\<exists>childIds \<in> set (js_values (childrenByParent t)). 1 < length childIds))"

definition hasMessageBranchAlternatives :: "tree_state option \<Rightarrow> ident \<Rightarrow> bool" where
  "hasMessageBranchAlternatives tree messageId = (case tree of
     None \<Rightarrow> False
   | Some t \<Rightarrow> (case js_get (messagesById t) messageId of
       None \<Rightarrow> False
     | Some m \<Rightarrow> (case tm_parentId m of
         None \<Rightarrow> 1 < length (rootMessageIds t)
       | Some p \<Rightarrow> 1 < (case js_get (childrenByParent t) p of
           None \<Rightarrow> 0 | Some childIds \<Rightarrow> length childIds))))"

section \<open>What the index holds\<close>

text \<open>The ids of the messages with a given parent, in the order of the response.\<close>

definition ids_with_parent :: "ident option \<Rightarrow> tree_response_message list \<Rightarrow> ident list" where
  "ids_with_parent p ms = map trm_id (filter (\<lambda>m. trm_parent_id m = p) ms)"

lemma ids_with_parent_simps [simp]:
  "ids_with_parent p [] = []"
  "ids_with_parent p (m # ms) =
     (if trm_parent_id m = p then trm_id m # ids_with_parent p ms else ids_with_parent p ms)"
  by (simp_all add: ids_with_parent_def)

lemma roots_fold:
  "rootMessageIds (fold add_tree_message ms t) = rootMessageIds t @ ids_with_parent None ms"
  by (induction ms arbitrary: t)
    (auto simp: add_tree_message_def Let_def split: option.split)

lemma children_fold:
  "coalesce (js_get (childrenByParent (fold add_tree_message ms t)) p) [] =
   coalesce (js_get (childrenByParent t) p) [] @ ids_with_parent (Some p) ms"
  by (induction ms arbitrary: t)
    (auto simp: add_tree_message_def Let_def split: option.split)

definition no_empty_children :: "tree_state \<Rightarrow> bool" where
  "no_empty_children t \<longleftrightarrow> map_wf (childrenByParent t) \<and>
     (\<forall>p childIds. js_get (childrenByParent t) p = Some childIds \<longrightarrow> childIds \<noteq> [])"

lemma no_empty_children_add: "no_empty_children t \<Longrightarrow> no_empty_children (add_tree_message m t)"
  by (auto simp: no_empty_children_def add_tree_message_def Let_def jm.wf_put
      split: option.splits if_splits)

lemma no_empty_children_fold: "no_empty_children t \<Longrightarrow> no_empty_children (fold add_tree_message ms t)"
  by (induction ms arbitrary: t) (auto intro: no_empty_children_add)

lemma convert_no_empty_children: "no_empty_children (convertConversationTree r)"
  unfolding convertConversationTree_def
  by (rule no_empty_children_fold) (simp add: no_empty_children_def map_wf_def)

lemma messages_fold:
  "js_get (messagesById (fold add_tree_message ms t)) i =
   (case find (\<lambda>m. trm_id m = i) (rev ms) of
      None \<Rightarrow> js_get (messagesById t) i
    | Some m \<Rightarrow> Some (tree_message_of m))"
proof (induction ms arbitrary: t)
  case Nil
  then show ?case by simp
next
  case (Cons m ms)
  have step: "messagesById (add_tree_message m t) =
      js_set (trm_id m) (tree_message_of m) (messagesById t)"
    by (simp add: add_tree_message_def Let_def split: option.split)
  have snoc: "find P (xs @ [x]) = (case find P xs of None \<Rightarrow> if P x then Some x else None | Some y \<Rightarrow> Some y)"
    for P :: "tree_response_message \<Rightarrow> bool" and xs x
    by (induction xs) auto
  show ?case by (auto simp: Cons.IH step snoc split: option.split)
qed

lemma convert_roots: "rootMessageIds (convertConversationTree r) = ids_with_parent None (tr_messages r)"
  by (simp add: convertConversationTree_def roots_fold)

lemma convert_children:
  "js_get (childrenByParent (convertConversationTree r)) p =
   (let ids = ids_with_parent (Some p) (tr_messages r) in if ids = [] then None else Some ids)"
proof -
  have ids: "coalesce (js_get (childrenByParent (convertConversationTree r)) p) [] =
      ids_with_parent (Some p) (tr_messages r)"
    by (simp add: convertConversationTree_def children_fold)
  show ?thesis
  proof (cases "js_get (childrenByParent (convertConversationTree r)) p")
    case None
    with ids show ?thesis by simp
  next
    case (Some cs)
    with convert_no_empty_children [of r] have "cs \<noteq> []" by (auto simp: no_empty_children_def)
    with Some ids show ?thesis by (simp add: Let_def)
  qed
qed

lemma convert_message:
  assumes "distinct (map trm_id (tr_messages r))" "m \<in> set (tr_messages r)"
  shows "js_get (messagesById (convertConversationTree r)) (trm_id m) = Some (tree_message_of m)"
proof -
  have "find (\<lambda>x. trm_id x = trm_id m) (rev (tr_messages r)) = Some m"
    if "distinct (map trm_id ms)" "m \<in> set ms" "ms = rev (tr_messages r)" for ms
    using that(1,2) unfolding that(3) [symmetric] by (induction ms) auto
  then have "find (\<lambda>x. trm_id x = trm_id m) (rev (tr_messages r)) = Some m"
    using assms by (simp add: rev_map [symmetric])
  then show ?thesis by (simp add: convertConversationTree_def messages_fold)
qed

lemma convert_message_None:
  "i \<notin> set (map trm_id (tr_messages r)) \<Longrightarrow>
   js_get (messagesById (convertConversationTree r)) i = None"
proof -
  assume "i \<notin> set (map trm_id (tr_messages r))"
  then have "find (\<lambda>m. trm_id m = i) (rev (tr_messages r)) = None"
    by (auto simp: find_None_iff)
  then show ?thesis by (simp add: convertConversationTree_def messages_fold)
qed

section \<open>Branches\<close>

lemma ids_with_parent_length_1:
  "distinct (map trm_parent_id ms) \<Longrightarrow> length (ids_with_parent p ms) \<le> 1"
proof (induction ms)
  case Nil
  then show ?case by simp
next
  case (Cons m ms)
  then have "\<forall>x \<in> set ms. trm_parent_id x \<noteq> trm_parent_id m"
    by (metis distinct.simps(2) image_eqI list.set_map list.simps(9))
  then have "ids_with_parent (trm_parent_id m) ms = []"
    by (simp add: ids_with_parent_def filter_empty_conv)
  with Cons show ?case by auto
qed

lemma distinct_parents_iff:
  "distinct (map trm_parent_id ms) \<longleftrightarrow> (\<forall>p. length (ids_with_parent p ms) \<le> 1)"
proof
  assume "\<forall>p. length (ids_with_parent p ms) \<le> 1"
  then show "distinct (map trm_parent_id ms)"
  proof (induction ms)
    case Nil
    then show ?case by simp
  next
    case (Cons m ms)
    have "length (ids_with_parent p ms) \<le> 1" for p
      using Cons.prems [rule_format, of p] by (simp split: if_splits)
    moreover have "ids_with_parent (trm_parent_id m) ms = []"
      using Cons.prems [rule_format, of "trm_parent_id m"] by simp
    ultimately show ?case using Cons.IH
      by (auto simp: ids_with_parent_def filter_empty_conv)
  qed
next
  assume "distinct (map trm_parent_id ms)"
  then show "\<forall>p. length (ids_with_parent p ms) \<le> 1"
    using ids_with_parent_length_1 by blast
qed

lemma some_children_branch:
  "(\<exists>cs \<in> set (js_values (childrenByParent (convertConversationTree r))). 1 < length cs) \<longleftrightarrow>
   (\<exists>p. 1 < length (ids_with_parent (Some p) (tr_messages r)))"
  (is "?L \<longleftrightarrow> ?R")
proof
  assume ?L
  then obtain p cs where "(p, cs) \<in> set (childrenByParent (convertConversationTree r))" "1 < length cs"
    by auto
  with convert_no_empty_children [of r]
  have "js_get (childrenByParent (convertConversationTree r)) p = Some cs"
    by (simp add: no_empty_children_def map_wf_def)
  then have "ids_with_parent (Some p) (tr_messages r) = cs"
    by (simp add: convert_children Let_def split: if_splits)
  with \<open>1 < length cs\<close> show ?R by blast
next
  assume ?R
  then obtain p where p: "1 < length (ids_with_parent (Some p) (tr_messages r))" by blast
  then have "js_get (childrenByParent (convertConversationTree r)) p =
      Some (ids_with_parent (Some p) (tr_messages r))"
    by (auto simp: convert_children Let_def)
  with p show ?L by (force dest: js_get_in_set)
qed

lemma hasConversationBranches_lengths:
  "hasConversationBranches (Some (convertConversationTree r)) \<longleftrightarrow>
   (\<exists>p. 1 < length (ids_with_parent p (tr_messages r)))"
  unfolding hasConversationBranches_def option.case some_children_branch convert_roots
  by (metis option.exhaust)

text \<open>
  A converted conversation has branches exactly when two messages of the server's list
  name the same parent (both being roots counts as the same parent).
\<close>

theorem has_branches_iff_shared_parent:
  "hasConversationBranches (Some (convertConversationTree r)) \<longleftrightarrow>
   \<not> distinct (map trm_parent_id (tr_messages r))"
  unfolding hasConversationBranches_lengths distinct_parents_iff by (simp add: not_le)

lemma alternatives_lengths:
  assumes "distinct (map trm_id (tr_messages r))" "m \<in> set (tr_messages r)"
  shows "hasMessageBranchAlternatives (Some (convertConversationTree r)) (trm_id m) \<longleftrightarrow>
    1 < length (ids_with_parent (trm_parent_id m) (tr_messages r))"
  using convert_message [OF assms]
  by (cases "trm_parent_id m")
    (auto simp: hasMessageBranchAlternatives_def tree_message_of_def convert_roots
      convert_children Let_def)

lemma ids_with_parent_in:
  assumes "m \<in> set ms"
  shows "trm_id m \<in> set (ids_with_parent (trm_parent_id m) ms)"
  using assms by (auto simp: ids_with_parent_def)

lemma card_gt_1_iff_other:
  assumes "x \<in> set xs"
  shows "1 < card (set xs) \<longleftrightarrow> set xs \<noteq> {x}"
proof
  assume "set xs \<noteq> {x}"
  with assms have "{x} \<subset> set xs" by blast
  then have "card {x} < card (set xs)" by (intro psubset_card_mono) simp_all
  then show "1 < card (set xs)" by simp
qed auto

lemma two_with_parent:
  assumes "distinct (map trm_id ms)" "m \<in> set ms"
  shows "1 < length (ids_with_parent (trm_parent_id m) ms) \<longleftrightarrow>
    (\<exists>s \<in> set ms. s \<noteq> m \<and> trm_parent_id s = trm_parent_id m)"
    (is "1 < length ?ids \<longleftrightarrow> ?R")
proof -
  have d: "distinct ?ids"
    using assms(1) by (simp add: ids_with_parent_def distinct_map_filter)
  have in_ids: "trm_id m \<in> set ?ids" using assms(2) by (rule ids_with_parent_in)
  have "1 < length ?ids \<longleftrightarrow> 1 < card (set ?ids)" using d by (simp add: distinct_card)
  also have "\<dots> \<longleftrightarrow> set ?ids \<noteq> {trm_id m}"
    using in_ids by (rule card_gt_1_iff_other)
  also have "\<dots> \<longleftrightarrow> ?R"
    using in_ids assms by (auto simp: ids_with_parent_def distinct_map inj_on_def)
  finally show ?thesis .
qed

text \<open>
  With distinct message ids, the branch control of a message offers alternatives
  exactly when another message of the list has the same parent; and some message offers
  alternatives exactly when the conversation is reported as branching.
\<close>

theorem branch_alternatives_iff_sibling:
  assumes "distinct (map trm_id (tr_messages r))"
  shows "(\<forall>m \<in> set (tr_messages r).
      hasMessageBranchAlternatives (Some (convertConversationTree r)) (trm_id m) \<longleftrightarrow>
      (\<exists>s \<in> set (tr_messages r). s \<noteq> m \<and> trm_parent_id s = trm_parent_id m)) \<and>
    ((\<exists>i. hasMessageBranchAlternatives (Some (convertConversationTree r)) i) \<longleftrightarrow>
      hasConversationBranches (Some (convertConversationTree r)))"
proof (intro conjI ballI)
  show "hasMessageBranchAlternatives (Some (convertConversationTree r)) (trm_id m) \<longleftrightarrow>
      (\<exists>s \<in> set (tr_messages r). s \<noteq> m \<and> trm_parent_id s = trm_parent_id m)"
    if "m \<in> set (tr_messages r)" for m
    using alternatives_lengths [OF assms that] two_with_parent [OF assms that] by simp
  show "(\<exists>i. hasMessageBranchAlternatives (Some (convertConversationTree r)) i) \<longleftrightarrow>
      hasConversationBranches (Some (convertConversationTree r))" (is "?L \<longleftrightarrow> ?R")
  proof
    assume ?L
    then obtain i where i: "hasMessageBranchAlternatives (Some (convertConversationTree r)) i" ..
    then have "i \<in> set (map trm_id (tr_messages r))"
      using convert_message_None [of i r]
      by (auto simp: hasMessageBranchAlternatives_def split: option.splits)
    then obtain m where "m \<in> set (tr_messages r)" "i = trm_id m" by auto
    with i alternatives_lengths [OF assms, of m] show ?R
      by (auto simp: hasConversationBranches_lengths)
  next
    assume ?R
    then obtain p where p: "1 < length (ids_with_parent p (tr_messages r))"
      by (auto simp: hasConversationBranches_lengths)
    then have "filter (\<lambda>m. trm_parent_id m = p) (tr_messages r) \<noteq> []"
      by (auto simp: ids_with_parent_def)
    then obtain m where "m \<in> set (tr_messages r)" "trm_parent_id m = p"
      by (auto simp: filter_empty_conv)
    with p alternatives_lengths [OF assms, of m] show ?L by auto
  qed
qed

text \<open>A conversation with one user message and two regenerated answers.\<close>

definition regenerated_example :: tree_response where
  "regenerated_example = \<lparr>tr_messages =
     [\<lparr>trm_id = ''u'', trm_role = User, trm_content = ''hi'', trm_parent_id = None\<rparr>,
      \<lparr>trm_id = ''a1'', trm_role = Assistant, trm_content = ''x'', trm_parent_id = Some ''u''\<rparr>,
      \<lparr>trm_id = ''a2'', trm_role = Assistant, trm_content = ''y'', trm_parent_id = Some ''u''\<rparr>],
     tr_current_branch_path = [''u'', ''a2'']\<rparr>"

theorem branch_alternatives_iff_sibling_witness:
  "distinct (map trm_id (tr_messages regenerated_example)) \<and>
   hasMessageBranchAlternatives (Some (convertConversationTree regenerated_example)) ''a1'' \<and>
   \<not> hasMessageBranchAlternatives (Some (convertConversationTree regenerated_example)) ''u''"
proof -
  have d: "distinct (map trm_id (tr_messages regenerated_example))"
    by (simp add: regenerated_example_def)
  from branch_alternatives_iff_sibling [OF d] d show ?thesis
    by (simp add: regenerated_example_def)
qed

end
