(* ===== verification/MessageLifecycle.thy ===== *)
theory MessageLifecycle
  imports ChatTypes
begin

text \<open>
  The small state machines around one message: the primary outcome of a stream
  (chat/lib/message-stream-lifecycle.ts), the reconciliation of a generation attempt whose
  stream broke (chat/lib/generation-attempt.ts), the retry request and the trimming of a
  transcript (chat/lib/message-retry.ts), and the guardrails failures of a message
  (chat/lib/guardrails.ts). A thrown error is \<open>Inl\<close>.
\<close>

section \<open>Primary outcome of a stream\<close>

datatype stream_outcome = OPending | OAssistant | OGenerationFailure

definition recordPrimaryMessageStreamOutcome ::
  "stream_outcome \<Rightarrow> stream_outcome \<Rightarrow> js_error + stream_outcome" where
  "recordPrimaryMessageStreamOutcome current next_outcome =
     (if current \<noteq> OPending
      then Inl (TypeError ''Message stream produced multiple primary outcomes'')
      else Inr next_outcome)"

definition assertPrimaryMessageStreamCompleted :: "stream_outcome \<Rightarrow> js_error + unit" where
  "assertPrimaryMessageStreamCompleted outcome =
     (if outcome = OPending
      then Inl (TypeError ''Message stream ended before a primary outcome'')
      else Inr ())"

lemma record_outcome_Inr_iff [simp]:
  "recordPrimaryMessageStreamOutcome c n = Inr r \<longleftrightarrow> c = OPending \<and> r = n"
  by (auto simp: recordPrimaryMessageStreamOutcome_def)

section \<open>Generation attempts\<close>

datatype attempt_status = AttemptPending | AttemptCompleted | AttemptFailed

record attempt_record =
  ga_generation_attempt_id :: ident
  ga_status :: attempt_status
  ga_conversation_id :: ident
  ga_user_message_id :: "ident option"
  ga_assistant_message_id :: "ident option"

datatype reconciliation =
    Recovered (rec_conversationId: ident) (rec_detail: chat_detail)
  | Retryable (rec_conversationId: ident)
  | StillPending (rec_conversationId: ident)
  | Unavailable js_error "ident option"

text \<open>
  The two loads are network calls: what they answer is an argument of the model, an error
  or a value. The second one is made for a completed attempt only.
\<close>

definition reconcileGenerationAttempt ::
  "js_error + attempt_record \<Rightarrow> (ident \<Rightarrow> ident \<Rightarrow> js_error + chat_detail) \<Rightarrow> reconciliation" where
  "reconcileGenerationAttempt loadAttempt loadConversationDetail = (case loadAttempt of
     Inl e \<Rightarrow> Unavailable e None
   | Inr attempt \<Rightarrow>
      (case ga_status attempt of
         AttemptFailed \<Rightarrow> Retryable (ga_conversation_id attempt)
       | AttemptPending \<Rightarrow> StillPending (ga_conversation_id attempt)
       | AttemptCompleted \<Rightarrow>
          (case ga_assistant_message_id attempt of
             None \<Rightarrow> Unavailable
               (TypeError ''Completed generation attempt has no assistant message'')
               (Some (ga_conversation_id attempt))
           | Some assistantMessageId \<Rightarrow>
              (case loadConversationDetail (ga_conversation_id attempt) assistantMessageId of
                 Inl e \<Rightarrow> Unavailable e (Some (ga_conversation_id attempt))
               | Inr detail \<Rightarrow>
                   if \<not> list_ex (\<lambda>m. sm_id m = assistantMessageId) (cd_messages detail)
                   then Unavailable
                     (TypeError ''Completed generation attempt response is absent from conversation detail'')
                     (Some (ga_conversation_id attempt))
                   else Recovered (ga_conversation_id attempt) detail))))"

fun reconciled_conversation :: "reconciliation \<Rightarrow> ident option" where
  "reconciled_conversation (Recovered c _) = Some c"
| "reconciled_conversation (Retryable c) = Some c"
| "reconciled_conversation (StillPending c) = Some c"
| "reconciled_conversation (Unavailable _ c) = c"

text \<open>
  The reconciliation of an unknown outcome is right in every case: it is recovered
  exactly when the server says the attempt completed, names its assistant message, and the
  loaded conversation contains that message; it offers a retry exactly when the server says
  the attempt failed, so a completed or running attempt is never sent twice.
\<close>

theorem reconcile_outcomes:
  "(reconcileGenerationAttempt la ld = Recovered c d \<longleftrightarrow>
      (\<exists>a m. la = Inr a \<and> ga_status a = AttemptCompleted \<and> ga_conversation_id a = c \<and>
         ga_assistant_message_id a = Some m \<and> ld c m = Inr d \<and> m \<in> sm_id ` set (cd_messages d))) \<and>
   (reconcileGenerationAttempt la ld = Retryable c \<longleftrightarrow>
      (\<exists>a. la = Inr a \<and> ga_status a = AttemptFailed \<and> ga_conversation_id a = c)) \<and>
   (reconcileGenerationAttempt la ld = StillPending c \<longleftrightarrow>
      (\<exists>a. la = Inr a \<and> ga_status a = AttemptPending \<and> ga_conversation_id a = c))"
  by (cases la)
    (auto simp: reconcileGenerationAttempt_def list_ex_iff image_iff
      split: attempt_status.split option.split sum.split)

lemma reconcile_total:
  "reconciled_conversation (reconcileGenerationAttempt la ld) =
     (case la of Inl _ \<Rightarrow> None | Inr a \<Rightarrow> Some (ga_conversation_id a))"
  by (simp add: reconcileGenerationAttempt_def split: sum.split attempt_status.split option.split)

section \<open>Retry requests and trimming\<close>

record retry_input =
  ri_content :: string
  ri_modelOverrides :: "model_overrides option"
  ri_parentMessageId :: "ident nullable"
  ri_isRegeneration :: bool
  ri_trimToMessageId :: "ident nullable"
  ri_draftPromptTemplates :: "draft_template list option"

definition createMessageRetryRequest :: "retry_input \<Rightarrow> retry_request" where
  "createMessageRetryRequest i = \<lparr>
     rr_content = ri_content i,
     rr_modelOverrides = ri_modelOverrides i,
     rr_options = \<lparr>
       so_parentMessageId = ri_parentMessageId i,
       so_isRegeneration = (if ri_isRegeneration i then Some True else None),
       so_trimToMessageId =
         (if ri_isRegeneration i then ri_trimToMessageId i else ri_parentMessageId i),
       so_draftPromptTemplates = ri_draftPromptTemplates i\<rparr>\<rparr>"

definition trimMessagesToMessageId :: "message list \<Rightarrow> ident nullable \<Rightarrow> message list" where
  "trimMessagesToMessageId messages messageId = (case messageId of
     Undefined \<Rightarrow> messages
   | Null \<Rightarrow> []
   | Value i \<Rightarrow> (case find_index (\<lambda>m. msg_id m = i) messages of
       None \<Rightarrow> messages
     | Some trimIndex \<Rightarrow> take (trimIndex + 1) messages))"

lemma trim_simps [simp]:
  "trimMessagesToMessageId ms Undefined = ms"
  "trimMessagesToMessageId ms Null = []"
  by (simp_all add: trimMessagesToMessageId_def)

lemma trim_absent:
  "i \<notin> msg_id ` set ms \<Longrightarrow> trimMessagesToMessageId ms (Value i) = ms"
proof -
  assume "i \<notin> msg_id ` set ms"
  then have "find_index (\<lambda>m. msg_id m = i) ms = None" by (auto simp: find_index_None_iff)
  then show ?thesis by (simp only: trimMessagesToMessageId_def nullable.case option.case)
qed

lemma trim_at:
  assumes "msg_id m \<notin> msg_id ` set xs"
  shows "trimMessagesToMessageId (xs @ m # ys) (Value (msg_id m)) = xs @ [m]"
proof -
  have "find_index (\<lambda>x. msg_id x = msg_id m) (xs @ m # ys) = Some (length xs)"
    using assms by (intro find_index_append_here) (metis imageI, simp)
  then show ?thesis by (simp add: trimMessagesToMessageId_def)
qed

lemma trim_prefix: "\<exists>ys. ms = trimMessagesToMessageId ms i @ ys"
proof -
  have "\<exists>n. trimMessagesToMessageId ms i = take n ms"
    unfolding trimMessagesToMessageId_def
    by (auto split: nullable.split option.split intro: exI [of _ "length ms"] exI [of _ 0])
  then show ?thesis by (metis append_take_drop_id)
qed

section \<open>Guardrails failures\<close>

definition toGuardrailsFailure :: "server_guardrails_failure \<Rightarrow> guardrails_failure" where
  "toGuardrailsFailure f = \<lparr>gf_assistantMessage = sgf_assistant_message f,
     gf_llmGuardrailsFeedback = sgf_llm_guardrails_feedback f,
     gf_invalidUrls = sgf_invalid_urls f\<rparr>"

definition mapServerGuardrailsFailures ::
  "server_guardrails_failure list option \<Rightarrow> guardrails_failure list option" where
  "mapServerGuardrailsFailures failures = map_option (map toGuardrailsFailure) failures"

fun strings_of :: "json list \<Rightarrow> string list" where
  "strings_of [] = []"
| "strings_of (JStr s # xs) = s # strings_of xs"
| "strings_of (_ # xs) = strings_of xs"

definition parse_failure :: "json \<Rightarrow> guardrails_failure list" where
  "parse_failure item =
     (case as_string (field_of item ''assistant_message'') of
        None \<Rightarrow> []
      | Some am \<Rightarrow> [toGuardrailsFailure \<lparr>
          sgf_assistant_message = am,
          sgf_llm_guardrails_feedback = as_string (field_of item ''llm_guardrails_feedback''),
          sgf_invalid_urls = map_option strings_of (as_array (field_of item ''invalid_urls''))\<rparr>])"

definition parseServerGuardrailsFailures :: "json option \<Rightarrow> guardrails_failure list option" where
  "parseServerGuardrailsFailures v = (case as_array v of
     None \<Rightarrow> None
   | Some items \<Rightarrow>
       let failures = concat (map parse_failure items)
       in if 0 < length failures then Some failures else None)"

text \<open>The JSON the server sends for a failure, for the round trip.\<close>

definition failure_json :: "server_guardrails_failure \<Rightarrow> json" where
  "failure_json f = JObj
     [(''assistant_message'', JStr (sgf_assistant_message f)),
      (''llm_guardrails_feedback'',
         case sgf_llm_guardrails_feedback f of None \<Rightarrow> JNull | Some s \<Rightarrow> JStr s),
      (''invalid_urls'',
         case sgf_invalid_urls f of None \<Rightarrow> JNull | Some us \<Rightarrow> JArr (map JStr us))]"

lemma strings_of_JStr [simp]: "strings_of (map JStr us) = us"
  by (induction us) auto

lemma parse_failure_json: "parse_failure (failure_json f) = [toGuardrailsFailure f]"
  by (cases f) (simp add: parse_failure_def failure_json_def split: option.split)

text \<open>
  C18. Guardrails failures read from a stream event are the ones read from the conversation
  detail: parsing the JSON of a list of server failures gives what
  \<open>mapServerGuardrailsFailures\<close> gives, except that an empty list is reported as absent.
\<close>

theorem guardrails_failures_roundtrip:
  "parseServerGuardrailsFailures (Some (JArr (map failure_json fs))) =
   (if fs = [] then None else mapServerGuardrailsFailures (Some fs))"
proof -
  have "concat (map parse_failure (map failure_json fs)) = map toGuardrailsFailure fs"
    by (induction fs) (simp_all add: parse_failure_json)
  then show ?thesis
    by (simp add: parseServerGuardrailsFailures_def mapServerGuardrailsFailures_def)
qed

end
