(* ===== verification/ChatState.thy ===== *)
theory ChatState
  imports ConversationTree MessageLifecycle
begin

text \<open>
  The state of the chat store (chat/lib/store.ts, \<open>createInitialChatState\<close> and the
  variables \<open>createChatActions\<close> closes over), its selectors, the conversion of the
  server's data and the merge of the chat list (chat/lib/chat-list-state.ts).

  \<open>chat_world\<close> is the zustand state followed by the closure's variables. Objects that are
  shared and mutated are numbered: abort controllers (\<open>aborted\<close> are those on which
  \<open>abort()\<close> has been called) and conversation-tree coordinators (\<open>treeCoordinators\<close>
  is the heap of their generations). \<open>new Date(s).getTime()\<close> is the argument
  \<open>date_ms\<close>, because the language leaves the accepted formats to the host.
\<close>

record tree_result =
  ctr_tree :: "tree_state option"
  ctr_error :: "string option"

record chat_world =
  chats :: "(ident, chat) js_map"
  chatsLoaded :: bool
  chatsError :: "string option"
  conversationTreeResults :: "(ident, tree_result) js_map"
  messageFeedback :: "(ident, feedback list) js_map"
  messageFeedbackLoading :: "ident list"
  messageActivityLog :: "(ident, log_entry list) js_map"
  messageActivityLogLoading :: "ident list"
  currentChatId :: "ident option"
  currentSummary :: "string option"
  abortControllers :: "(ident, nat) js_map"
  drafts :: "(ident, string) js_map"
  activityLogCounter :: nat
  aborted :: "nat list"
  controllerCount :: nat
  chatDetailRequests :: nat
  messageStreamRequests :: tracker
  treeCoordinators :: "nat list"
  conversationTreeRequests :: "(ident, nat) js_map"

definition createInitialChatState :: chat_world where
  "createInitialChatState = \<lparr>chats = [], chatsLoaded = False, chatsError = None,
     conversationTreeResults = [], messageFeedback = [], messageFeedbackLoading = [],
     messageActivityLog = [], messageActivityLogLoading = [], currentChatId = None,
     currentSummary = None, abortControllers = [], drafts = [], activityLogCounter = 0,
     aborted = [], controllerCount = 0, chatDetailRequests = 0,
     messageStreamRequests = empty_tracker, treeCoordinators = [],
     conversationTreeRequests = []\<rparr>"

section \<open>Small helpers of the store\<close>

definition temp_prefix :: string where
  "temp_prefix = ''__temp_''"

definition generateTempId :: "string \<Rightarrow> ident" where
  "generateTempId nano = temp_prefix @ nano"

definition is_temp :: "ident \<Rightarrow> bool" where
  "is_temp chatId = starts_with chatId temp_prefix"

definition getDraftKey :: "ident option \<Rightarrow> ident" where
  "getDraftKey chatId = coalesce chatId ''__new__''"

definition GENERATION_FAILED_MESSAGE :: string where
  "GENERATION_FAILED_MESSAGE = ''The response could not be completed.''"

definition UNKNOWN_RESPONSE_OUTCOME_MESSAGE :: string where
  "UNKNOWN_RESPONSE_OUTCOME_MESSAGE =
     ''The response status could not be confirmed. Refresh the conversation before trying again.''"

definition GENERATION_PENDING_MESSAGE :: string where
  "GENERATION_PENDING_MESSAGE =
     ''The response is still being processed. Refresh the conversation to check again.''"

definition CONVERSATION_BRANCH_LOAD_ERROR :: string where
  "CONVERSATION_BRANCH_LOAD_ERROR = ''Conversation branches could not be loaded.''"

text \<open>A message with only the obligatory fields.\<close>

definition plain_message :: "ident \<Rightarrow> role \<Rightarrow> string \<Rightarrow> number \<Rightarrow> ident option \<Rightarrow> message" where
  "plain_message i r c t p = \<lparr>msg_id = i, msg_role = r, msg_content = c, msg_createdAt = t,
     msg_parentId = p, msg_isError = None, msg_assistantToolCalls = None,
     msg_generationTimeMs = None, msg_generationTiming = None, msg_responseCost = None,
     msg_responseUsage = None, msg_responseCostBreakdown = None, msg_guardrailsFailures = None,
     msg_guardrailsBlocked = None, msg_guardrailsBlockedMessage = None,
     msg_toolSourcesUsed = None, msg_groundingSourcesUsed = None,
     msg_groundingSourceStatus = Undefined, msg_retryRequest = None\<rparr>"

definition createErrorMessage ::
  "string \<Rightarrow> retry_request option \<Rightarrow> string \<Rightarrow> number \<Rightarrow> message" where
  "createErrorMessage content retryRequest nano now =
     (plain_message (''error-'' @ nano) Assistant content now None)
       \<lparr>msg_isError := Some True, msg_retryRequest := retryRequest\<rparr>"

definition getDisplayContent :: "server_message \<Rightarrow> string" where
  "getDisplayContent m =
     (case sm_guardrails_blocked_message m of
        None \<Rightarrow> sm_content m
      | Some blocked \<Rightarrow>
          if sm_guardrails_blocked m = Some True \<and> blocked \<noteq> '''' then blocked else sm_content m)"

definition convertServerMessage :: "(string \<Rightarrow> number) \<Rightarrow> server_message \<Rightarrow> message" where
  "convertServerMessage date_ms m = \<lparr>
     msg_id = sm_id m,
     msg_role = sm_role m,
     msg_content = getDisplayContent m,
     msg_createdAt = date_ms (sm_created_at m),
     msg_parentId = sm_parent_id m,
     msg_isError = None,
     msg_assistantToolCalls = sm_assistant_tool_calls m,
     msg_generationTimeMs = sm_generation_time_ms m,
     msg_generationTiming = sm_generation_timing m,
     msg_responseCost = sm_response_cost m,
     msg_responseUsage = sm_response_usage m,
     msg_responseCostBreakdown = sm_response_cost_breakdown m,
     msg_guardrailsFailures = mapServerGuardrailsFailures (sm_guardrails_failures m),
     msg_guardrailsBlocked = Some (coalesce (sm_guardrails_blocked m) False),
     msg_guardrailsBlockedMessage = sm_guardrails_blocked_message m,
     msg_toolSourcesUsed = sm_tool_sources_used m,
     msg_groundingSourcesUsed = sm_grounding_sources_used m,
     msg_groundingSourceStatus = sm_grounding_source_status m,
     msg_retryRequest = None\<rparr>"

definition last_id :: "server_message list \<Rightarrow> ident option" where
  "last_id ms = (if ms = [] then None else Some (sm_id (last ms)))"

definition convertServerMessages ::
  "(string \<Rightarrow> number) \<Rightarrow> chat_detail \<Rightarrow> message list \<times> ident option" where
  "convertServerMessages date_ms response =
     (map (convertServerMessage date_ms) (cd_messages response), last_id (cd_messages response))"

section \<open>Selectors\<close>

text \<open>
  \<open>createSelectSortedChats\<close> memoises on the identity of the chats map; its result is the
  stable sort by decreasing update time.
\<close>

definition selectSortedChats :: "chat_world \<Rightarrow> chat list" where
  "selectSortedChats w = sort_key (\<lambda>c. - ch_updatedAt c) (js_values (chats w))"

definition selectCurrentChat :: "chat_world \<Rightarrow> chat option" where
  "selectCurrentChat w = (case currentChatId w of None \<Rightarrow> None | Some i \<Rightarrow> js_get (chats w) i)"

definition selectCurrentDraft :: "chat_world \<Rightarrow> string" where
  "selectCurrentDraft w = coalesce (js_get (drafts w) (getDraftKey (currentChatId w))) ''''"

definition selectIsCurrentLoading :: "chat_world \<Rightarrow> bool" where
  "selectIsCurrentLoading w = (case selectCurrentChat w of None \<Rightarrow> False | Some c \<Rightarrow> ch_isLoading c)"

definition getStoredToolCallsForMessage :: "ident \<Rightarrow> chat_world \<Rightarrow> json list option" where
  "getStoredToolCallsForMessage messageId w =
     foldr (\<lambda>c rest. case find (\<lambda>m. msg_id m = messageId) (ch_messages c) of
         None \<Rightarrow> rest
       | Some m \<Rightarrow> or_else (msg_assistantToolCalls m) rest)
     (js_values (chats w)) None"

section \<open>Merging the chat list\<close>

definition item_metadata :: "(string \<Rightarrow> number) \<Rightarrow> chat_list_item \<Rightarrow> chat \<Rightarrow> chat" where
  "item_metadata date_ms item c = c\<lparr>
     ch_id := li_id item,
     ch_title := li_title item,
     ch_summary := li_summary item,
     ch_lastMessagePreview := li_last_message_preview item,
     ch_updatedAt := date_ms (li_updated_at item),
     ch_isPublic := li_is_public item,
     ch_promptSource := li_prompt_source item,
     ch_userName := li_user_name item,
     ch_userEmail := li_user_email item\<rparr>"

definition blank_chat :: "ident \<Rightarrow> chat" where
  "blank_chat i = \<lparr>ch_id = i, ch_title = None, ch_summary = None, ch_lastMessagePreview = None,
     ch_updatedAt = 0, ch_isPublic = False, ch_userName = None, ch_userEmail = None,
     ch_investigationSourceConversationId = None, ch_investigationSourceMessageId = None,
     ch_investigationSourceFeedbackId = None, ch_promptSource = None, ch_messages = [],
     ch_isLoading = False, ch_hasUnread = False, ch_loadingActivity = None,
     ch_loadingActivityLog = None, ch_parentMessageId = None, ch_hasPendingGeneration = None\<rparr>"

definition merge_item ::
  "(string \<Rightarrow> number) \<Rightarrow> (ident, chat) js_map \<Rightarrow> chat_list_item \<Rightarrow> (ident, chat) js_map \<Rightarrow>
   (ident, chat) js_map" where
  "merge_item date_ms existingChats item acc =
     js_set (li_id item)
       (item_metadata date_ms item
         (coalesce (js_get existingChats (li_id item)) (blank_chat (li_id item)))) acc"

definition mergeChatListItems ::
  "(string \<Rightarrow> number) \<Rightarrow> chat_list_item list \<Rightarrow> (ident, chat) js_map \<Rightarrow> (ident, chat) js_map" where
  "mergeChatListItems date_ms items existingChats =
     fold (merge_item date_ms existingChats) items []"

lemma merge_item_get:
  "js_get (merge_item dm ex item acc) i =
   (if i = li_id item
    then Some (item_metadata dm item (coalesce (js_get ex i) (blank_chat i))) else js_get acc i)"
  by (simp add: merge_item_def)

lemma merge_item_keys:
  "li_id item \<notin> set (js_keys acc) \<Longrightarrow>
   js_keys (merge_item dm ex item acc) = js_keys acc @ [li_id item]"
  by (simp add: merge_item_def keys_js_set)

lemma merge_fold_get:
  "js_get (fold (merge_item dm ex) items acc) i =
   (case find (\<lambda>x. li_id x = i) (rev items) of
      None \<Rightarrow> js_get acc i
    | Some item \<Rightarrow> Some (item_metadata dm item (coalesce (js_get ex i) (blank_chat i))))"
proof (induction items arbitrary: acc)
  case Nil
  then show ?case by simp
next
  case (Cons item items)
  have snoc: "find P (xs @ [x]) =
      (case find P xs of None \<Rightarrow> if P x then Some x else None | Some y \<Rightarrow> Some y)"
    for P :: "chat_list_item \<Rightarrow> bool" and xs x
    by (induction xs) auto
  show ?case by (auto simp: Cons.IH merge_item_get snoc split: option.split)
qed

lemma merge_fold_keys:
  "distinct (map li_id items) \<Longrightarrow> set (map li_id items) \<inter> set (js_keys acc) = {} \<Longrightarrow>
   js_keys (fold (merge_item dm ex) items acc) = js_keys acc @ map li_id items"
proof (induction items arbitrary: acc)
  case Nil
  then show ?case by simp
next
  case (Cons item items)
  have keys: "js_keys (merge_item dm ex item acc) = js_keys acc @ [li_id item]"
    using Cons.prems by (intro merge_item_keys) simp
  then have "set (map li_id items) \<inter> set (js_keys (merge_item dm ex item acc)) = {}"
    using Cons.prems by auto
  with Cons.IH have "js_keys (fold (merge_item dm ex) items (merge_item dm ex item acc)) =
      js_keys (merge_item dm ex item acc) @ map li_id items"
    using Cons.prems(1) by simp
  then show ?case using keys by simp
qed

lemma merge_fold_wf: "map_wf acc \<Longrightarrow> map_wf (fold (merge_item dm ex) items acc)"
  by (induction items arbitrary: acc) (auto simp: merge_item_def intro: js_intros)

lemma item_metadata_id [simp]: "ch_id (item_metadata dm item c) = li_id item"
  by (simp add: item_metadata_def)

text \<open>
  Loading the chat list keeps exactly the listed chats, in the list's order, takes their
  metadata from the list, and never loses what was loaded locally: a chat that was known
  keeps its messages, loading flags, unread flag and branch position.
\<close>

theorem merge_chat_list_keeps_local_state:
  assumes "distinct (map li_id items)"
  shows "js_keys (mergeChatListItems dm items ex) = map li_id items \<and>
    (\<forall>item \<in> set items. \<exists>c. js_get (mergeChatListItems dm items ex) (li_id item) = Some c \<and>
       ch_id c = li_id item \<and> ch_title c = li_title item \<and>
       ch_updatedAt c = dm (li_updated_at item) \<and>
       (case js_get ex (li_id item) of
          None \<Rightarrow> ch_messages c = [] \<and> \<not> ch_isLoading c \<and> \<not> ch_hasUnread c
        | Some old \<Rightarrow> ch_messages c = ch_messages old \<and> ch_isLoading c = ch_isLoading old \<and>
            ch_hasUnread c = ch_hasUnread old \<and> ch_parentMessageId c = ch_parentMessageId old \<and>
            ch_hasPendingGeneration c = ch_hasPendingGeneration old))"
proof (intro conjI ballI)
  show "js_keys (mergeChatListItems dm items ex) = map li_id items"
    using assms by (simp add: mergeChatListItems_def merge_fold_keys)
next
  fix item
  assume item: "item \<in> set items"
  have "find (\<lambda>x. li_id x = li_id item) xs = Some item"
    if "distinct (map li_id xs)" "item \<in> set xs" for xs
    using that by (induction xs) auto
  from this [of "rev items"] have "find (\<lambda>x. li_id x = li_id item) (rev items) = Some item"
    using assms item by (simp add: rev_map [symmetric])
  then have "js_get (mergeChatListItems dm items ex) (li_id item) =
      Some (item_metadata dm item (coalesce (js_get ex (li_id item)) (blank_chat (li_id item))))"
    by (simp add: mergeChatListItems_def merge_fold_get)
  then show "\<exists>c. js_get (mergeChatListItems dm items ex) (li_id item) = Some c \<and>
       ch_id c = li_id item \<and> ch_title c = li_title item \<and>
       ch_updatedAt c = dm (li_updated_at item) \<and>
       (case js_get ex (li_id item) of
          None \<Rightarrow> ch_messages c = [] \<and> \<not> ch_isLoading c \<and> \<not> ch_hasUnread c
        | Some old \<Rightarrow> ch_messages c = ch_messages old \<and> ch_isLoading c = ch_isLoading old \<and>
            ch_hasUnread c = ch_hasUnread old \<and> ch_parentMessageId c = ch_parentMessageId old \<and>
            ch_hasPendingGeneration c = ch_hasPendingGeneration old)"
    by (cases "js_get ex (li_id item)") (simp_all add: item_metadata_def blank_chat_def)
qed

definition sample_item :: "ident \<Rightarrow> chat_list_item" where
  "sample_item i = \<lparr>li_id = i, li_title = Some ''Visit'', li_summary = None,
     li_last_message_preview = None, li_message_count = 2, li_created_at = ''t0'',
     li_updated_at = ''t1'', li_is_public = False, li_prompt_source = None,
     li_user_name = None, li_user_email = None\<rparr>"

theorem merge_chat_list_keeps_local_state_witness:
  "js_keys (mergeChatListItems (\<lambda>_. 7) [sample_item ''b'', sample_item ''a'']
     [(''a'', (blank_chat ''a'')\<lparr>ch_isLoading := True\<rparr>)]) = [''b'', ''a'']"
proof -
  have d: "distinct (map li_id [sample_item ''b'', sample_item ''a''])"
    by (simp add: sample_item_def)
  show ?thesis
    using merge_chat_list_keeps_local_state
      [OF d, of "\<lambda>_. 7" "[(''a'', (blank_chat ''a'')\<lparr>ch_isLoading := True\<rparr>)]"]
    by (simp add: sample_item_def)
qed

section \<open>Writing the state\<close>

definition updateChat :: "ident \<Rightarrow> (chat \<Rightarrow> chat) \<Rightarrow> chat_world \<Rightarrow> chat_world" where
  "updateChat i updater w = (case js_get (chats w) i of
     None \<Rightarrow> w
   | Some c \<Rightarrow> w\<lparr>chats := js_set i (updater c) (chats w)\<rparr>)"

lemma chats_updateChat:
  "js_get (chats (updateChat i f w)) j = (if j = i then map_option f (js_get (chats w) i) else js_get (chats w) j)"
  by (simp add: updateChat_def split: option.split)

lemma updateChat_frame [simp]:
  "chatsLoaded (updateChat i f w) = chatsLoaded w"
  "chatsError (updateChat i f w) = chatsError w"
  "conversationTreeResults (updateChat i f w) = conversationTreeResults w"
  "messageFeedback (updateChat i f w) = messageFeedback w"
  "messageFeedbackLoading (updateChat i f w) = messageFeedbackLoading w"
  "messageActivityLog (updateChat i f w) = messageActivityLog w"
  "messageActivityLogLoading (updateChat i f w) = messageActivityLogLoading w"
  "currentChatId (updateChat i f w) = currentChatId w"
  "currentSummary (updateChat i f w) = currentSummary w"
  "abortControllers (updateChat i f w) = abortControllers w"
  "drafts (updateChat i f w) = drafts w"
  "activityLogCounter (updateChat i f w) = activityLogCounter w"
  "aborted (updateChat i f w) = aborted w"
  "controllerCount (updateChat i f w) = controllerCount w"
  "chatDetailRequests (updateChat i f w) = chatDetailRequests w"
  "messageStreamRequests (updateChat i f w) = messageStreamRequests w"
  "treeCoordinators (updateChat i f w) = treeCoordinators w"
  "conversationTreeRequests (updateChat i f w) = conversationTreeRequests w"
  by (simp_all add: updateChat_def split: option.split)

lemma updateChat_absent: "js_get (chats w) i = None \<Longrightarrow> updateChat i f w = w"
  by (simp add: updateChat_def)

section \<open>Well-formed states\<close>

text \<open>
  What every operation keeps: a chat is stored under its own id; a stored draft is not
  empty; abort controllers and tree coordinators that are referred to exist; the stream
  tracker is well-formed; the sets have no duplicates. A chat's live activity has one item
  per id, and its activity log one entry per id, in the order of their sequence numbers,
  which the counter bounds.
\<close>

definition chats_wf :: "(ident, chat) js_map \<Rightarrow> bool" where
  "chats_wf m \<longleftrightarrow> map_wf m \<and> (\<forall>k c. js_get m k = Some c \<longrightarrow> ch_id c = k)"

definition drafts_wf :: "(ident, string) js_map \<Rightarrow> bool" where
  "drafts_wf m \<longleftrightarrow> map_wf m \<and> (\<forall>k d. js_get m k = Some d \<longrightarrow> d \<noteq> '''')"

definition refs_wf :: "(ident, nat) js_map \<Rightarrow> nat \<Rightarrow> bool" where
  "refs_wf m n \<longleftrightarrow> (\<forall>k r. js_get m k = Some r \<longrightarrow> r < n)"

definition log_wf :: "nat \<Rightarrow> log_entry list \<Rightarrow> bool" where
  "log_wf n es \<longleftrightarrow> distinct (map le_id es) \<and> sorted_wrt (<) (map le_sequence es) \<and>
     (\<forall>e \<in> set es. le_sequence e \<le> n)"

definition activity_wf :: "nat \<Rightarrow> chat \<Rightarrow> bool" where
  "activity_wf n c \<longleftrightarrow> distinct (map ai_id (coalesce (ch_loadingActivity c) [])) \<and>
     log_wf n (coalesce (ch_loadingActivityLog c) [])"

definition activities_wf :: "(ident, chat) js_map \<Rightarrow> nat \<Rightarrow> bool" where
  "activities_wf m n \<longleftrightarrow> (\<forall>k c. js_get m k = Some c \<longrightarrow> activity_wf n c)"

definition world_wf :: "chat_world \<Rightarrow> bool" where
  "world_wf w \<longleftrightarrow>
     chats_wf (chats w) \<and> drafts_wf (drafts w) \<and>
     refs_wf (abortControllers w) (controllerCount w) \<and>
     refs_wf (conversationTreeRequests w) (length (treeCoordinators w)) \<and>
     tracker_wf (messageStreamRequests w) \<and>
     distinct (messageFeedbackLoading w) \<and> distinct (messageActivityLogLoading w) \<and>
     activities_wf (chats w) (activityLogCounter w)"

named_theorems wf_intros \<open>preservation of the world invariant and its parts\<close>

lemma chats_wf_set [wf_intros]: "chats_wf m \<Longrightarrow> ch_id c = k \<Longrightarrow> chats_wf (js_set k c m)"
  by (simp add: chats_wf_def jm.wf_put)

lemma chats_wf_delete [wf_intros]: "chats_wf m \<Longrightarrow> chats_wf (js_delete k m)"
  by (simp add: chats_wf_def jm.wf_del)

lemma chats_wfD: "chats_wf m \<Longrightarrow> js_get m k = Some c \<Longrightarrow> ch_id c = k"
  by (simp add: chats_wf_def)

lemma chats_wf_merge [wf_intros]: "chats_wf (mergeChatListItems dm items ex)"
proof -
  have "map_wf (mergeChatListItems dm items ex)"
    unfolding mergeChatListItems_def by (intro merge_fold_wf jm.wf_emp)
  then show ?thesis
    by (auto simp: chats_wf_def mergeChatListItems_def merge_fold_get find_Some_iff
        split: option.splits)
qed

lemma drafts_wf_set [wf_intros]: "drafts_wf m \<Longrightarrow> d \<noteq> '''' \<Longrightarrow> drafts_wf (js_set k d m)"
  by (simp add: drafts_wf_def jm.wf_put)

lemma drafts_wf_delete [wf_intros]: "drafts_wf m \<Longrightarrow> drafts_wf (js_delete k m)"
  by (simp add: drafts_wf_def jm.wf_del)

lemma drafts_wfD: "drafts_wf m \<Longrightarrow> js_get m k = Some d \<Longrightarrow> d \<noteq> ''''"
  by (simp add: drafts_wf_def)

lemma refs_wf_set [wf_intros]: "refs_wf m n \<Longrightarrow> r < n \<Longrightarrow> refs_wf (js_set k r m) n"
  by (simp add: refs_wf_def)

lemma refs_wf_delete [wf_intros]: "refs_wf m n \<Longrightarrow> refs_wf (js_delete k m) n"
  by (simp add: refs_wf_def)

lemma refs_wf_Suc [wf_intros]: "refs_wf m n \<Longrightarrow> refs_wf m (Suc n)"
  by (auto simp: refs_wf_def less_SucI)

lemma refs_wfD: "refs_wf m n \<Longrightarrow> js_get m k = Some r \<Longrightarrow> r < n"
  by (simp add: refs_wf_def)

lemma log_wf_Nil [simp]: "log_wf n []"
  by (simp add: log_wf_def)

lemma log_wf_mono: "log_wf n es \<Longrightarrow> n \<le> k \<Longrightarrow> log_wf k es"
  by (auto simp: log_wf_def)

lemma log_wf_snoc:
  "log_wf n es \<Longrightarrow> le_id e \<notin> le_id ` set es \<Longrightarrow> le_sequence e = Suc n \<Longrightarrow> log_wf (Suc n) (es @ [e])"
  by (auto simp: log_wf_def sorted_wrt_append less_Suc_eq_le)

lemma log_wf_update:
  assumes "log_wf n es" "i < length es" "le_id e = le_id (es ! i)" "le_sequence e = le_sequence (es ! i)"
  shows "log_wf n (es[i := e])"
proof -
  have same: "map le_id (es[i := e]) = map le_id es"
      "map le_sequence (es[i := e]) = map le_sequence es"
    using assms(2-4) by (simp_all add: list_eq_iff_nth_eq nth_list_update)
  have bound: "(\<forall>e \<in> set xs. le_sequence e \<le> n) \<longleftrightarrow> (\<forall>s \<in> set (map le_sequence xs). s \<le> n)" for xs
    by simp
  show ?thesis using assms(1) unfolding log_wf_def bound same .
qed

lemma activity_wf_mono: "activity_wf n c \<Longrightarrow> n \<le> k \<Longrightarrow> activity_wf k c"
  by (auto simp: activity_wf_def intro: log_wf_mono)

lemma activities_wf_set [wf_intros]:
  "activities_wf m n \<Longrightarrow> activity_wf n c \<Longrightarrow> activities_wf (js_set k c m) n"
  by (simp add: activities_wf_def)

lemma activities_wf_delete [wf_intros]: "activities_wf m n \<Longrightarrow> activities_wf (js_delete k m) n"
  by (simp add: activities_wf_def)

lemma activities_wf_mono: "activities_wf m n \<Longrightarrow> n \<le> k \<Longrightarrow> activities_wf m k"
  by (auto simp: activities_wf_def intro: activity_wf_mono)

lemma activities_wfD: "activities_wf m n \<Longrightarrow> js_get m k = Some c \<Longrightarrow> activity_wf n c"
  by (simp add: activities_wf_def)

lemma activity_wf_blank [simp]: "activity_wf n (blank_chat i)"
  by (simp add: activity_wf_def blank_chat_def)

lemma activity_wf_metadata [simp]: "activity_wf n (item_metadata dm item c) = activity_wf n c"
  by (simp add: activity_wf_def item_metadata_def)

lemma activities_wf_merge [wf_intros]:
  "activities_wf ex n \<Longrightarrow> activities_wf (mergeChatListItems dm items ex) n"
  by (auto simp: activities_wf_def mergeChatListItems_def merge_fold_get coalesce_def
      split: option.splits)

lemma world_wfD:
  assumes "world_wf w"
  shows "chats_wf (chats w)" "drafts_wf (drafts w)"
    "refs_wf (abortControllers w) (controllerCount w)"
    "refs_wf (conversationTreeRequests w) (length (treeCoordinators w))"
    "tracker_wf (messageStreamRequests w)"
    "distinct (messageFeedbackLoading w)" "distinct (messageActivityLogLoading w)"
    "activities_wf (chats w) (activityLogCounter w)"
  using assms by (simp_all add: world_wf_def)

lemma world_wf_initial: "world_wf createInitialChatState"
  by (simp add: world_wf_def createInitialChatState_def chats_wf_def drafts_wf_def refs_wf_def
      map_wf_def tracker_wf_empty activities_wf_def)

lemma world_wf_updateChat [wf_intros]:
  assumes "world_wf w" "\<And>c. ch_id (f c) = ch_id c"
    "\<And>c. activity_wf (activityLogCounter w) c \<Longrightarrow> activity_wf (activityLogCounter w) (f c)"
  shows "world_wf (updateChat i f w)"
proof (cases "js_get (chats w) i")
  case None
  with assms show ?thesis by (simp add: updateChat_absent)
next
  case (Some c)
  moreover have "ch_id c = i" "activity_wf (activityLogCounter w) c"
    using Some assms(1) by (auto simp: world_wf_def intro: chats_wfD activities_wfD)
  ultimately show ?thesis using assms
    by (simp add: world_wf_def updateChat_def chats_wf_set activities_wf_set)
qed

end
