(* ===== verification/ChatStore.thy ===== *)
theory ChatStore
  imports ChatState
begin

text \<open>
  The actions of the chat store other than sending (chat/lib/store.ts,
  \<open>createChatActions\<close>). JavaScript runs an action without interruption up to its next
  \<open>await\<close>, so an action that calls the server is two definitions: \<open>_begin\<close>, up to the
  call, and \<open>_end\<close>, which gets the state as it is when the answer arrives, the answer
  (\<open>Inl\<close> an error, \<open>Inr\<close> a value) and what the first part kept in local variables. Other
  actions may run in between. Identifiers from \<open>nanoid\<close> and the time from \<open>Date.now\<close>
  are arguments.
\<close>

section \<open>Opening conversations\<close>

text \<open>The loop over \<open>detail.messages\<close> that resets their feedback.\<close>

definition set_detail_feedback ::
  "server_message list \<Rightarrow> (ident, feedback list) js_map \<Rightarrow> (ident, feedback list) js_map" where
  "set_detail_feedback ms m = fold (\<lambda>x. js_set (sm_id x) (coalesce (sm_feedback x) [])) ms m"

definition applyChatDetail ::
  "(string \<Rightarrow> number) \<Rightarrow> string \<Rightarrow> number \<Rightarrow> ident \<Rightarrow> chat_detail \<Rightarrow> chat_world \<Rightarrow> chat_world" where
  "applyChatDetail date_ms nano now chatId detail w =
     (let (converted, parent) = convertServerMessages date_ms detail;
          pending = (cd_has_pending_generation_attempt detail = Some True);
          messages = (if pending
                      then converted @ [createErrorMessage GENERATION_PENDING_MESSAGE None nano now]
                      else converted);
          old = js_get (chats w) chatId
      in w\<lparr>
        chats := js_set chatId \<lparr>
          ch_id = chatId,
          ch_title = or_else (cd_title detail) (Option.bind old ch_title),
          ch_summary = cd_summary detail,
          ch_lastMessagePreview = Option.bind old ch_lastMessagePreview,
          ch_updatedAt = date_ms (cd_updated_at detail),
          ch_isPublic = cd_is_public detail,
          ch_userName = cd_user_name detail,
          ch_userEmail = cd_user_email detail,
          ch_investigationSourceConversationId = cd_investigation_source_conversation_id detail,
          ch_investigationSourceMessageId = cd_investigation_source_message_id detail,
          ch_investigationSourceFeedbackId = cd_investigation_source_feedback_id detail,
          ch_promptSource = cd_prompt_source detail,
          ch_messages = messages,
          ch_isLoading = False,
          ch_hasUnread = False,
          ch_loadingActivity = Some [],
          ch_loadingActivityLog = Some [],
          ch_parentMessageId = parent,
          ch_hasPendingGeneration = Some pending\<rparr> (chats w),
        messageFeedback := set_detail_feedback (cd_messages detail) (messageFeedback w),
        currentSummary :=
          (if currentChatId w = Some chatId then cd_summary detail else currentSummary w)\<rparr>)"

definition getConversationTreeRequests :: "ident \<Rightarrow> chat_world \<Rightarrow> nat \<times> chat_world" where
  "getConversationTreeRequests chatId w = (case js_get (conversationTreeRequests w) chatId of
     Some c \<Rightarrow> (c, w)
   | None \<Rightarrow>
       let c = length (treeCoordinators w)
       in (c, w\<lparr>treeCoordinators := treeCoordinators w @ [0],
               conversationTreeRequests := js_set chatId c (conversationTreeRequests w)\<rparr>))"

definition clearConversationTreeState :: "ident \<Rightarrow> chat_world \<Rightarrow> chat_world" where
  "clearConversationTreeState chatId w =
     w\<lparr>conversationTreeResults := js_delete chatId (conversationTreeResults w)\<rparr>"

text \<open>A tree request in flight: its coordinator and the generation it started.\<close>

type_synonym tree_request = "nat \<times> nat"

definition fetchAndApplyConversationTree_begin ::
  "ident \<Rightarrow> chat_world \<Rightarrow> tree_request option \<times> chat_world" where
  "fetchAndApplyConversationTree_begin chatId w =
     (if is_temp chatId then (None, w)
      else
        let (c, w1) = getConversationTreeRequests chatId w;
            (request, generation) = lr_begin (treeCoordinators w1 ! c)
        in (Some (c, request),
            w1\<lparr>treeCoordinators := (treeCoordinators w1)[c := generation]\<rparr>))"

definition fetchAndApplyConversationTree_end ::
  "ident \<Rightarrow> tree_request \<Rightarrow> js_error + tree_response \<Rightarrow> chat_world \<Rightarrow> chat_world" where
  "fetchAndApplyConversationTree_end chatId request response w =
     (case lr_settle (snd request) (treeCoordinators w ! fst request)
             (map_sum id convertConversationTree response) of
        Inl e \<Rightarrow> w\<lparr>conversationTreeResults := js_set chatId
             \<lparr>ctr_tree = None, ctr_error = Some CONVERSATION_BRANCH_LOAD_ERROR\<rparr>
             (conversationTreeResults w)\<rparr>
      | Inr Stale \<Rightarrow> w
      | Inr (Current t) \<Rightarrow> w\<lparr>conversationTreeResults := js_set chatId
             \<lparr>ctr_tree = Some t, ctr_error = None\<rparr> (conversationTreeResults w)\<rparr>)"

definition loadConversationTree_begin ::
  "ident \<Rightarrow> chat_world \<Rightarrow> tree_request option \<times> chat_world" where
  "loadConversationTree_begin chatId w =
     fetchAndApplyConversationTree_begin chatId (clearConversationTreeState chatId w)"

definition loadChats_begin :: "chat_world \<Rightarrow> chat_world" where
  "loadChats_begin w = w\<lparr>chatsError := None\<rparr>"

text \<open>\<open>error_message\<close> is \<open>error.message\<close>, absent for a value thrown that is no \<open>Error\<close>.\<close>

definition loadChats_end ::
  "(string \<Rightarrow> number) \<Rightarrow> string option + chat_list_item list \<Rightarrow> chat_world \<Rightarrow> chat_world" where
  "loadChats_end date_ms response w = (case response of
     Inr items \<Rightarrow> w\<lparr>chats := mergeChatListItems date_ms items (chats w), chatsLoaded := True\<rparr>
   | Inl error_message \<Rightarrow>
       w\<lparr>chatsError := Some (coalesce error_message ''Failed to load chats'')\<rparr>)"

definition markCurrentAsRead :: "chat_world \<Rightarrow> chat_world" where
  "markCurrentAsRead w = (case currentChatId w of
     None \<Rightarrow> w
   | Some i \<Rightarrow> (case js_get (chats w) i of
       None \<Rightarrow> w
     | Some c \<Rightarrow>
         if ch_hasUnread c then updateChat i (\<lambda>c. c\<lparr>ch_hasUnread := False\<rparr>) w else w))"

text \<open>
  Selecting a chat. The result names the requests the action has sent: for the detail
  (the generation it started) and for the tree.
\<close>

definition selectChat_begin ::
  "ident option \<Rightarrow> chat_world \<Rightarrow> nat option \<times> tree_request option \<times> chat_world" where
  "selectChat_begin chatId w0 =
     (let w = w0\<lparr>chatDetailRequests := lr_invalidate (chatDetailRequests w0)\<rparr>
      in case chatId of
        None \<Rightarrow> (None, None, w\<lparr>currentChatId := None, currentSummary := None\<rparr>)
      | Some i \<Rightarrow>
          let w1 = markCurrentAsRead (w\<lparr>currentChatId := Some i\<rparr>)
          in if is_temp i then (None, None, w1)
             else
               let (tree, w2) =
                     (if \<not> js_has (conversationTreeResults w1) i
                      then loadConversationTree_begin i w1 else (None, w1))
               in case js_get (chats w0) i of
                    Some existing \<Rightarrow>
                      if 0 < length (ch_messages existing)
                      then (None, tree, w2\<lparr>currentSummary := ch_summary existing\<rparr>)
                      else
                        let (request, g) = lr_begin (chatDetailRequests w2)
                        in (Some request, tree, w2\<lparr>chatDetailRequests := g\<rparr>)
                  | None \<Rightarrow>
                      let (request, g) = lr_begin (chatDetailRequests w2)
                      in (Some request, tree, w2\<lparr>chatDetailRequests := g\<rparr>))"

definition selectChat_end ::
  "(string \<Rightarrow> number) \<Rightarrow> string \<Rightarrow> number \<Rightarrow> ident \<Rightarrow> nat \<Rightarrow> js_error + chat_detail \<Rightarrow>
   chat_world \<Rightarrow> chat_world" where
  "selectChat_end date_ms nano now chatId request response w =
     (case lr_settle request (chatDetailRequests w) response of
        Inl e \<Rightarrow> w
      | Inr Stale \<Rightarrow> w
      | Inr (Current detail) \<Rightarrow> applyChatDetail date_ms nano now chatId detail w)"

definition setActiveBranch_begin :: "ident \<Rightarrow> chat_world \<Rightarrow> chat_world" where
  "setActiveBranch_begin chatId w0 =
     (let w = w0\<lparr>chatDetailRequests := lr_invalidate (chatDetailRequests w0)\<rparr>;
          (c, w1) = getConversationTreeRequests chatId w
      in w1\<lparr>treeCoordinators :=
           (treeCoordinators w1)[c := lr_invalidate (treeCoordinators w1 ! c)]\<rparr>)"

definition setActiveBranch_end ::
  "(string \<Rightarrow> number) \<Rightarrow> string \<Rightarrow> number \<Rightarrow> ident \<Rightarrow> js_error + chat_detail \<Rightarrow> chat_world \<Rightarrow>
   js_error + (tree_request option \<times> chat_world)" where
  "setActiveBranch_end date_ms nano now chatId response w = (case response of
     Inl e \<Rightarrow> Inl e
   | Inr detail \<Rightarrow>
       Inr (loadConversationTree_begin chatId (applyChatDetail date_ms nano now chatId detail w)))"

definition clearCurrentChat :: "chat_world \<Rightarrow> chat_world" where
  "clearCurrentChat w = w\<lparr>chatDetailRequests := lr_invalidate (chatDetailRequests w),
     currentChatId := None, currentSummary := None\<rparr>"

definition abortChat :: "ident option \<Rightarrow> chat_world \<Rightarrow> chat_world" where
  "abortChat chatId w = (case or_else chatId (currentChatId w) of
     None \<Rightarrow> w
   | Some target \<Rightarrow>
       let w1 = w\<lparr>messageStreamRequests := invalidate_request target (messageStreamRequests w)\<rparr>;
           w2 = (case js_get (abortControllers w1) target of
                   None \<Rightarrow> w1
                 | Some controller \<Rightarrow> w1\<lparr>aborted := set_add controller (aborted w1)\<rparr>);
           w3 = w2\<lparr>abortControllers := js_delete target (abortControllers w2)\<rparr>
       in updateChat target (\<lambda>c. c\<lparr>ch_isLoading := False, ch_loadingActivity := Some []\<rparr>) w3)"

section \<open>Deleting, renaming, drafts\<close>

definition deleteChat_begin :: "ident \<Rightarrow> chat_world \<Rightarrow> chat_world" where
  "deleteChat_begin chatId w =
     (let coords = (case js_get (conversationTreeRequests w) chatId of
            None \<Rightarrow> treeCoordinators w
          | Some c \<Rightarrow> (treeCoordinators w)[c := lr_invalidate (treeCoordinators w ! c)]);
          w1 = w\<lparr>chats := js_delete chatId (chats w), drafts := js_delete chatId (drafts w),
                 conversationTreeResults := js_delete chatId (conversationTreeResults w),
                 treeCoordinators := coords,
                 conversationTreeRequests := js_delete chatId (conversationTreeRequests w)\<rparr>
      in if currentChatId w = Some chatId
         then w1\<lparr>chatDetailRequests := lr_invalidate (chatDetailRequests w1),
                 currentChatId := None, currentSummary := None\<rparr>
         else w1)"

text \<open>\<open>oldChat\<close> is the chat as it was when the deletion began.\<close>

definition deleteChat_end ::
  "ident \<Rightarrow> chat option \<Rightarrow> js_error + unit \<Rightarrow> chat_world \<Rightarrow> js_error option \<times> chat_world" where
  "deleteChat_end chatId oldChat response w = (case response of
     Inr _ \<Rightarrow> (None, w)
   | Inl e \<Rightarrow> (Some e, (case oldChat of
       None \<Rightarrow> w
     | Some c \<Rightarrow> w\<lparr>chats := js_set chatId c (chats w)\<rparr>)))"

text \<open>The trimmed title that is sent, or nothing for a blank one.\<close>

definition renameChatTitle_begin :: "string \<Rightarrow> string option" where
  "renameChatTitle_begin title = (let trimmed = trim title in if trimmed = '''' then None else Some trimmed)"

definition renameChatTitle_end :: "ident \<Rightarrow> string \<Rightarrow> chat_world \<Rightarrow> chat_world" where
  "renameChatTitle_end chatId updatedTitle w = updateChat chatId (\<lambda>c. c\<lparr>ch_title := Some updatedTitle\<rparr>) w"

definition regenerateChatTitle_end :: "ident \<Rightarrow> string \<Rightarrow> chat_world \<Rightarrow> chat_world" where
  "regenerateChatTitle_end chatId updatedTitle w = updateChat chatId (\<lambda>c. c\<lparr>ch_title := Some updatedTitle\<rparr>) w"

definition setDraft :: "ident option \<Rightarrow> string \<Rightarrow> chat_world \<Rightarrow> chat_world" where
  "setDraft chatId draft w =
     (let key = getDraftKey chatId;
          current = coalesce (js_get (drafts w) key) ''''
      in if current = draft then w
         else if draft = '''' then w\<lparr>drafts := js_delete key (drafts w)\<rparr>
         else w\<lparr>drafts := js_set key draft (drafts w)\<rparr>)"

section \<open>Source check retry\<close>

definition updateGrounding ::
  "ident \<Rightarrow> ident \<Rightarrow> grounding_status \<Rightarrow> source_used list \<Rightarrow> bool \<Rightarrow> chat_world \<Rightarrow> chat_world" where
  "updateGrounding chatId messageId status sources onlyWhilePending w =
     updateChat chatId (\<lambda>c. c\<lparr>ch_messages := map (\<lambda>m.
         if msg_id m \<noteq> messageId \<or>
            (onlyWhilePending \<and> msg_groundingSourceStatus m \<noteq> Value GPending)
         then m
         else m\<lparr>msg_groundingSourcesUsed := Some sources, msg_groundingSourceStatus := Value status\<rparr>)
       (ch_messages c)\<rparr>) w"

text \<open>The result names the chat in which the check has been started, if it has.\<close>

definition retryGroundingSources_begin :: "ident \<Rightarrow> chat_world \<Rightarrow> ident option \<times> chat_world" where
  "retryGroundingSources_begin messageId w = (case currentChatId w of
     None \<Rightarrow> (None, w)
   | Some chatId \<Rightarrow>
       (case Option.bind (js_get (chats w) chatId)
               (\<lambda>c. find (\<lambda>m. msg_id m = messageId) (ch_messages c)) of
          None \<Rightarrow> (None, w)
        | Some target \<Rightarrow>
            if msg_groundingSourceStatus target \<noteq> Value GFailed then (None, w)
            else (Some chatId, updateGrounding chatId messageId GPending [] False w)))"

record grounding_response =
  gr_assistant_message_id :: ident
  gr_grounding_sources_used :: "source_used list"
  gr_grounding_source_status :: grounding_status

definition retryGroundingSources_end ::
  "ident \<Rightarrow> ident \<Rightarrow> js_error + grounding_response \<Rightarrow> chat_world \<Rightarrow> js_error option \<times> chat_world" where
  "retryGroundingSources_end chatId messageId response w =
     (let recover = updateGrounding chatId messageId GFailed [] True
      in case response of
        Inl e \<Rightarrow> (Some e, recover w)
      | Inr r \<Rightarrow>
          if gr_assistant_message_id r \<noteq> messageId
          then (Some (TypeError ''Grounding retry returned a different assistant message''), recover w)
          else
            let w1 = updateGrounding chatId messageId (gr_grounding_source_status r)
                       (gr_grounding_sources_used r) False w
            in if gr_grounding_source_status r = GFailed
               then (Some (PlainError ''Source check failed''), recover w1)
               else (None, w1))"

section \<open>Message feedback\<close>

definition is_error_id :: "ident \<Rightarrow> bool" where
  "is_error_id messageId = starts_with messageId ''error-''"

definition feedback_loading_add :: "ident \<Rightarrow> chat_world \<Rightarrow> chat_world" where
  "feedback_loading_add i w = w\<lparr>messageFeedbackLoading := set_add i (messageFeedbackLoading w)\<rparr>"

definition feedback_loading_del :: "ident \<Rightarrow> chat_world \<Rightarrow> chat_world" where
  "feedback_loading_del i w = w\<lparr>messageFeedbackLoading := set_del i (messageFeedbackLoading w)\<rparr>"

text \<open>The begin parts say whether a request is sent.\<close>

definition loadMessageFeedback_begin :: "ident \<Rightarrow> chat_world \<Rightarrow> bool \<times> chat_world" where
  "loadMessageFeedback_begin messageId w =
     (if is_error_id messageId \<or> js_has (messageFeedback w) messageId then (False, w)
      else (True, feedback_loading_add messageId w))"

definition loadMessageFeedback_end ::
  "ident \<Rightarrow> js_error + feedback list \<Rightarrow> chat_world \<Rightarrow> chat_world" where
  "loadMessageFeedback_end messageId response w =
     feedback_loading_del messageId
       (w\<lparr>messageFeedback := js_set messageId
            (case response of Inr xs \<Rightarrow> xs | Inl _ \<Rightarrow> []) (messageFeedback w)\<rparr>)"

definition initializeMessageFeedback :: "(ident \<times> feedback list) list \<Rightarrow> chat_world \<Rightarrow> chat_world" where
  "initializeMessageFeedback entries w =
     w\<lparr>messageFeedback :=
         fold (\<lambda>(i, fs) m. if is_error_id i then m else js_set i fs m) entries (messageFeedback w)\<rparr>"

definition submitMessageFeedback_begin :: "ident \<Rightarrow> chat_world \<Rightarrow> bool \<times> chat_world" where
  "submitMessageFeedback_begin messageId w =
     (if is_error_id messageId then (False, w) else (True, feedback_loading_add messageId w))"

definition submitMessageFeedback_end ::
  "ident \<Rightarrow> js_error + feedback \<Rightarrow> chat_world \<Rightarrow> chat_world" where
  "submitMessageFeedback_end messageId response w =
     feedback_loading_del messageId (case response of
       Inl _ \<Rightarrow> w
     | Inr saved \<Rightarrow>
         let existing = coalesce (js_get (messageFeedback w) messageId) [];
             updatedList = filter (\<lambda>f. \<not> fb_is_current_user f) existing @ [saved]
         in w\<lparr>messageFeedback := js_set messageId updatedList (messageFeedback w)\<rparr>)"

text \<open>The list read before the request and the id of the entry to remove.\<close>

definition removeMessageFeedback_begin ::
  "ident \<Rightarrow> chat_world \<Rightarrow> (feedback list \<times> ident) option \<times> chat_world" where
  "removeMessageFeedback_begin messageId w =
     (if is_error_id messageId then (None, w)
      else
        let feedbackList = coalesce (js_get (messageFeedback w) messageId) []
        in case find fb_is_current_user feedbackList of
             None \<Rightarrow> (None, w)
           | Some f \<Rightarrow> (Some (feedbackList, fb_id f), feedback_loading_add messageId w))"

definition removeMessageFeedback_end ::
  "ident \<Rightarrow> feedback list \<Rightarrow> js_error + unit \<Rightarrow> chat_world \<Rightarrow> chat_world" where
  "removeMessageFeedback_end messageId feedbackList response w =
     feedback_loading_del messageId (case response of
       Inl _ \<Rightarrow> w
     | Inr _ \<Rightarrow> w\<lparr>messageFeedback := js_set messageId
           (filter (\<lambda>f. \<not> fb_is_current_user f) feedbackList) (messageFeedback w)\<rparr>)"

section \<open>Activity logs of messages\<close>

text \<open>
  The log of a message is fetched once: not while it is known, and not while it is being
  fetched. The result of the first part is the stored tool calls the rest uses; the log it
  stores at the end is computed from the trace in theory ActivityHydration.
\<close>

definition hydrateMessageActivityLogFromTrace_begin ::
  "ident \<Rightarrow> chat_world \<Rightarrow> json list option option \<times> chat_world" where
  "hydrateMessageActivityLogFromTrace_begin messageId w =
     (if js_has (messageActivityLog w) messageId \<or> messageId \<in> set (messageActivityLogLoading w)
      then (None, w)
      else (Some (getStoredToolCallsForMessage messageId w),
            w\<lparr>messageActivityLogLoading := set_add messageId (messageActivityLogLoading w)\<rparr>))"

definition hydrateMessageActivityLogFromTrace_end ::
  "ident \<Rightarrow> log_entry list \<Rightarrow> chat_world \<Rightarrow> chat_world" where
  "hydrateMessageActivityLogFromTrace_end messageId activityLog w =
     w\<lparr>messageActivityLog := js_set messageId activityLog (messageActivityLog w),
       messageActivityLogLoading := set_del messageId (messageActivityLogLoading w)\<rparr>"

definition loadMessageActivityLog_begin ::
  "ident \<Rightarrow> chat_world \<Rightarrow> json list option option \<times> chat_world" where
  "loadMessageActivityLog_begin messageId w =
     (if is_error_id messageId then (None, w)
      else hydrateMessageActivityLogFromTrace_begin messageId w)"

lemmas hydration_defs = hydrateMessageActivityLogFromTrace_begin_def
  hydrateMessageActivityLogFromTrace_end_def loadMessageActivityLog_begin_def

end
