(* ===== verification/ChatStream.thy ===== *)
theory ChatStream
  imports ChatStore
begin

text \<open>
  Sending a message (chat/lib/store.ts, \<open>sendMessage\<close> and \<open>retryMessage\<close>). One call of
  \<open>sendMessage\<close> owns a stream: \<open>send_ctx\<close> holds the variables its callbacks close over
  (its handle in the request tracker, the chat id it currently writes to, its abort
  controller, the primary outcome). The parts of the action are

  \<^item> \<open>sendMessage_begin\<close>: the guards, the optimistic user message, the new chat;
  \<^item> \<open>onChatId\<close>, \<open>onTitleUpdate\<close>, \<open>onAgentStage\<close>, \<open>onToolCall\<close>, \<open>onThinking\<close>,
    \<open>onAssistantMessage\<close>, \<open>onGroundingSources\<close>, \<open>onError\<close>: the callbacks, called as the
    events of the stream arrive; \<open>applyToolUpdate\<close> is the body of the timer that delays
    the end of a short tool call;
  \<^item> \<open>sendMessage_settle\<close>: the stream has ended or failed; it says whether the outcome has
    to be asked for, and \<open>reconcileUnknownOutcome_end\<close> takes the answer;
  \<^item> \<open>sendMessage_finally\<close>.

  \<open>number_string\<close> is the language's conversion of a number to a string.
\<close>

record send_ctx =
  sc_isNewChat :: bool
  sc_targetId :: ident
  sc_isRegeneration :: bool
  sc_handle :: nat
  sc_realChatId :: ident
  sc_controller :: nat
  sc_optimisticUserMessageId :: ident
  sc_retryRequest :: retry_request
  sc_generationAttemptId :: ident
  sc_primaryOutcome :: stream_outcome
  sc_toolActivityStartTimes :: "(ident, number) js_map"
  sc_thinkingLogIds :: "(ident, ident) js_map"

definition owns_stream :: "send_ctx \<Rightarrow> chat_world \<Rightarrow> bool" where
  "owns_stream ctx w = is_current (messageStreamRequests w) (sc_handle ctx)"

section \<open>Starting\<close>

text \<open>The parent the request names: the override, else the chat's last message.\<close>

definition request_parent ::
  "bool \<Rightarrow> ident \<Rightarrow> ident nullable \<Rightarrow> chat_world \<Rightarrow> ident nullable" where
  "request_parent isNewChat targetId override w =
     (if isNewChat then Undefined
      else if override = Undefined
      then of_option (Option.bind (js_get (chats w) targetId) ch_parentMessageId)
      else override)"

definition no_send_options :: send_options where
  "no_send_options = \<lparr>so_parentMessageId = Undefined, so_isRegeneration = None,
     so_trimToMessageId = Undefined, so_draftPromptTemplates = None\<rparr>"

definition new_chat ::
  "ident \<Rightarrow> string \<Rightarrow> number \<Rightarrow> draft_template list option \<Rightarrow> message \<Rightarrow> chat" where
  "new_chat i content now drafts_opt userMessage = (blank_chat i)\<lparr>
     ch_title := Some (truncate_text content 50),
     ch_updatedAt := now,
     ch_promptSource := (if drafts_opt = None then None else Some ''draft''),
     ch_messages := [userMessage],
     ch_isLoading := True,
     ch_loadingActivity := Some [],
     ch_loadingActivityLog := Some []\<rparr>"

definition send_to_existing ::
  "bool \<Rightarrow> ident nullable \<Rightarrow> message \<Rightarrow> number \<Rightarrow> chat \<Rightarrow> chat" where
  "send_to_existing isRegeneration trimTo userMessage now c =
     (let trimmed = trimMessagesToMessageId (ch_messages c) trimTo
      in c\<lparr>ch_messages := (if isRegeneration then trimmed else trimmed @ [userMessage]),
           ch_isLoading := True, ch_updatedAt := now,
           ch_loadingActivity := Some [], ch_loadingActivityLog := Some []\<rparr>)"

text \<open>
  \<open>tempNano\<close>, \<open>userNano\<close> and \<open>attemptId\<close> are the identifiers generated on the way.
  No context: a guard stopped the action.
\<close>

definition sendMessage_begin ::
  "string \<Rightarrow> string \<Rightarrow> ident \<Rightarrow> number \<Rightarrow> string \<Rightarrow> model_overrides option \<Rightarrow> send_options \<Rightarrow>
   chat_world \<Rightarrow> send_ctx option \<times> chat_world" where
  "sendMessage_begin tempNano userNano attemptId now content modelOverrides options w =
     (if (case selectCurrentChat w of None \<Rightarrow> False | Some c \<Rightarrow> ch_hasPendingGeneration c = Some True)
      then (None, w)
      else
        let isRegeneration = (so_isRegeneration options = Some True);
            isNewChat = (currentChatId w = None);
            targetId = coalesce (currentChatId w) (generateTempId tempNano)
        in if isRegeneration \<and> isNewChat then (None, w)
        else
          let (h, t) = start_request targetId (messageStreamRequests w);
              parent = request_parent isNewChat targetId (so_parentMessageId options) w;
              retry = createMessageRetryRequest \<lparr>ri_content = content,
                ri_modelOverrides = modelOverrides, ri_parentMessageId = parent,
                ri_isRegeneration = isRegeneration,
                ri_trimToMessageId = so_trimToMessageId options,
                ri_draftPromptTemplates = so_draftPromptTemplates options\<rparr>;
              controller = controllerCount w;
              w1 = w\<lparr>messageStreamRequests := t,
                     aborted := (case js_get (abortControllers w) targetId of
                        None \<Rightarrow> aborted w | Some old \<Rightarrow> set_add old (aborted w)),
                     controllerCount := Suc controller,
                     abortControllers := js_set targetId controller (abortControllers w)\<rparr>;
              userMessage = plain_message (''user-'' @ userNano) User content now (to_option parent);
              w2 = (if isNewChat
                    then w1\<lparr>chats := js_set targetId
                               (new_chat targetId content now (so_draftPromptTemplates options) userMessage)
                               (chats w1),
                            currentChatId := Some targetId\<rparr>
                    else updateChat targetId
                           (send_to_existing isRegeneration (so_trimToMessageId options) userMessage now) w1);
              ctx = \<lparr>sc_isNewChat = isNewChat, sc_targetId = targetId,
                sc_isRegeneration = isRegeneration, sc_handle = h, sc_realChatId = targetId,
                sc_controller = controller, sc_optimisticUserMessageId = ''user-'' @ userNano,
                sc_retryRequest = retry, sc_generationAttemptId = attemptId,
                sc_primaryOutcome = OPending, sc_toolActivityStartTimes = [],
                sc_thinkingLogIds = []\<rparr>
          in (Some ctx, w2))"

section \<open>Adopting the real chat id\<close>

text \<open>The temporary chat, its abort controller and its draft move to the server's id.\<close>

definition move_chat ::
  "ident \<Rightarrow> ident \<Rightarrow> string option \<Rightarrow> chat \<Rightarrow> chat_world \<Rightarrow> chat_world" where
  "move_chat targetId chatId chatTitle tempChat w = w\<lparr>
     chats := js_set chatId
       (tempChat\<lparr>ch_id := chatId, ch_title := or_else chatTitle (ch_title tempChat)\<rparr>)
       (js_delete targetId (chats w)),
     abortControllers := (case js_get (abortControllers w) targetId of
        None \<Rightarrow> abortControllers w
      | Some controller \<Rightarrow> js_set chatId controller (js_delete targetId (abortControllers w))),
     drafts := (case js_get (drafts w) targetId of
        None \<Rightarrow> drafts w
      | Some tempDraft \<Rightarrow> js_set chatId tempDraft (js_delete targetId (drafts w))),
     currentChatId := (if currentChatId w = Some targetId then Some chatId else currentChatId w)\<rparr>"

definition adoptRealChatId ::
  "ident \<Rightarrow> string option \<Rightarrow> send_ctx \<Rightarrow> chat_world \<Rightarrow> bool \<times> send_ctx \<times> chat_world" where
  "adoptRealChatId chatId chatTitle ctx w =
     (if \<not> owns_stream ctx w then (False, ctx, w)
      else
        let (moved, t) = move_to chatId (sc_handle ctx) (messageStreamRequests w);
            w1 = w\<lparr>messageStreamRequests := t\<rparr>
        in if \<not> moved then (False, ctx, w1)
        else
          let ctx1 = ctx\<lparr>sc_realChatId := chatId\<rparr>
          in if sc_isNewChat ctx \<and> chatId \<noteq> sc_targetId ctx
             then (case js_get (chats w1) (sc_targetId ctx) of
                 None \<Rightarrow> (False, ctx1, w1)
               | Some tempChat \<Rightarrow>
                   (True, ctx1, move_chat (sc_targetId ctx) chatId chatTitle tempChat w1))
             else (True, ctx1, (case chatTitle of
                 None \<Rightarrow> w1
               | Some title \<Rightarrow> updateChat chatId (\<lambda>c. c\<lparr>ch_title := Some title\<rparr>) w1)))"

definition drop_controller :: "nat \<Rightarrow> ident \<Rightarrow> (ident, nat) js_map \<Rightarrow> (ident, nat) js_map" where
  "drop_controller controller chatId m =
     (if js_get m chatId = Some controller then js_delete chatId m else m)"

definition clearCurrentAbortController :: "send_ctx \<Rightarrow> chat_world \<Rightarrow> chat_world" where
  "clearCurrentAbortController ctx w = w\<lparr>abortControllers :=
     drop_controller (sc_controller ctx) (sc_realChatId ctx)
       (drop_controller (sc_controller ctx) (sc_targetId ctx) (abortControllers w))\<rparr>"

definition appendGenerationError ::
  "string \<Rightarrow> number \<Rightarrow> string \<Rightarrow> retry_request option \<Rightarrow> bool \<Rightarrow> send_ctx \<Rightarrow> chat_world \<Rightarrow> chat_world" where
  "appendGenerationError nano now content retry hasPendingGeneration ctx w =
     updateChat (sc_realChatId ctx) (\<lambda>c. c\<lparr>
       ch_messages := ch_messages c @ [createErrorMessage content retry nano now],
       ch_isLoading := False,
       ch_hasPendingGeneration := Some hasPendingGeneration,
       ch_loadingActivity := Some [],
       ch_hasUnread := (currentChatId w \<noteq> Some (sc_realChatId ctx))\<rparr>) w"

definition applyReconciledDetail ::
  "(string \<Rightarrow> number) \<Rightarrow> string \<Rightarrow> number \<Rightarrow> chat_detail \<Rightarrow> send_ctx \<Rightarrow> chat_world \<Rightarrow>
   tree_request option \<times> chat_world" where
  "applyReconciledDetail date_ms nano now detail ctx w =
     (if \<not> owns_stream ctx w then (None, w)
      else loadConversationTree_begin (sc_realChatId ctx)
             (clearCurrentAbortController ctx
               (applyChatDetail date_ms nano now (sc_realChatId ctx) detail w)))"

definition reconcileUnknownOutcome_end ::
  "(string \<Rightarrow> number) \<Rightarrow> string \<Rightarrow> number \<Rightarrow> reconciliation \<Rightarrow> send_ctx \<Rightarrow> chat_world \<Rightarrow>
   tree_request option \<times> send_ctx \<times> chat_world" where
  "reconcileUnknownOutcome_end date_ms nano now reconciliation ctx w =
     (if \<not> owns_stream ctx w then (None, ctx, w)
      else
        let (adopted, ctx1, w1) = (case reconciled_conversation reconciliation of
               None \<Rightarrow> (True, ctx, w)
             | Some conversationId \<Rightarrow> adoptRealChatId conversationId None ctx w)
        in if \<not> adopted then (None, ctx1, w1)
        else (case reconciliation of
            Recovered _ detail \<Rightarrow>
              let (tree, w2) = applyReconciledDetail date_ms nano now detail ctx1 w1
              in (tree, ctx1, w2)
          | Retryable _ \<Rightarrow>
              (None, ctx1, appendGenerationError nano now GENERATION_FAILED_MESSAGE
                 (Some (sc_retryRequest ctx1)) False ctx1 w1)
          | StillPending _ \<Rightarrow>
              (None, ctx1, appendGenerationError nano now GENERATION_PENDING_MESSAGE None True ctx1 w1)
          | Unavailable _ _ \<Rightarrow>
              (None, ctx1, appendGenerationError nano now UNKNOWN_RESPONSE_OUTCOME_MESSAGE None True
                 ctx1 w1)))"

section \<open>Activity\<close>

datatype agent_stage = ChatbotStage | GuardrailsStage | InvestigationStage

datatype call_status = StartStatus | EndStatus | FailStatus

datatype thinking_status = ThinkStart | ThinkDelta | ThinkEnd

fun AGENT_STAGE_LABELS :: "agent_stage \<Rightarrow> string" where
  "AGENT_STAGE_LABELS ChatbotStage = ''Chatbot agent''"
| "AGENT_STAGE_LABELS GuardrailsStage = ''Guardrails agent''"
| "AGENT_STAGE_LABELS InvestigationStage = ''Investigation agent''"

fun stage_name :: "agent_stage \<Rightarrow> string" where
  "stage_name ChatbotStage = ''chatbot''"
| "stage_name GuardrailsStage = ''guardrails''"
| "stage_name InvestigationStage = ''investigation''"

definition MIN_TOOL_ACTIVITY_MS :: number where
  "MIN_TOOL_ACTIVITY_MS = 800"

fun toActivityStatus :: "call_status \<Rightarrow> activity_status" where
  "toActivityStatus StartStatus = InProgress"
| "toActivityStatus EndStatus = Complete"
| "toActivityStatus FailStatus = ErrorStatus"

definition toToolState :: "call_status \<Rightarrow> bool \<Rightarrow> tool_state" where
  "toToolState status hasError =
     (if status = StartStatus then InputAvailable
      else if status = FailStatus \<or> hasError then OutputError
      else OutputAvailable)"

definition agent_activity_id :: "(number \<Rightarrow> string) \<Rightarrow> agent_stage \<Rightarrow> number option \<Rightarrow> ident" where
  "agent_activity_id number_string stage iteration =
     ''agent:'' @ stage_name stage @
     (case iteration of None \<Rightarrow> '''' | Some n \<Rightarrow> '':'' @ number_string n)"

definition blank_item :: "ident \<Rightarrow> activity_item" where
  "blank_item i = \<lparr>ai_id = i, ai_label = '''', ai_status = InProgress, ai_parentId = None,
     ai_kind = None, ai_toolState = None, ai_toolName = None, ai_toolInput = None,
     ai_toolOutput = None, ai_toolErrorText = None, ai_thinkingContent = None\<rparr>"

text \<open>
  The source passes an object and merges it over an existing one by spreading, which
  overwrites exactly the keys the object has. The model passes the overwriting function;
  applied to a blank item it gives the object itself.
\<close>

definition upsertLoadingActivity ::
  "ident \<Rightarrow> ident \<Rightarrow> (activity_item \<Rightarrow> activity_item) \<Rightarrow> chat_world \<Rightarrow> chat_world" where
  "upsertLoadingActivity chatId itemId patch w = updateChat chatId (\<lambda>c.
     let current = coalesce (ch_loadingActivity c) []
     in c\<lparr>ch_loadingActivity := Some
       (case find_index (\<lambda>e. ai_id e = itemId) current of
          None \<Rightarrow> current @ [patch (blank_item itemId)]
        | Some i \<Rightarrow> current[i := patch (current ! i)])\<rparr>) w"

text \<open>A log entry that is new takes the next sequence number.\<close>

definition upsertActivityLog ::
  "ident \<Rightarrow> ident \<Rightarrow> (log_entry \<Rightarrow> log_entry) \<Rightarrow> chat_world \<Rightarrow> chat_world" where
  "upsertActivityLog chatId entryId patch w = (case js_get (chats w) chatId of
     None \<Rightarrow> w
   | Some c \<Rightarrow>
       let current = coalesce (ch_loadingActivityLog c) []
       in case find_index (\<lambda>e. le_id e = entryId) current of
            None \<Rightarrow>
              let sequence = activityLogCounter w + 1
              in updateChat chatId
                   (\<lambda>c. c\<lparr>ch_loadingActivityLog := Some (current @ [patch (blank_entry entryId sequence)])\<rparr>)
                   (w\<lparr>activityLogCounter := sequence\<rparr>)
          | Some i \<Rightarrow> updateChat chatId
                   (\<lambda>c. c\<lparr>ch_loadingActivityLog := Some (current[i := patch (current ! i)])\<rparr>) w)"

definition getActivityItem :: "ident \<Rightarrow> ident \<Rightarrow> chat_world \<Rightarrow> activity_item option" where
  "getActivityItem chatId itemId w = Option.bind (js_get (chats w) chatId)
     (\<lambda>c. Option.bind (ch_loadingActivity c) (find (\<lambda>e. ai_id e = itemId)))"

definition getActivityLogEntry :: "ident \<Rightarrow> ident \<Rightarrow> chat_world \<Rightarrow> log_entry option" where
  "getActivityLogEntry chatId entryId w = Option.bind (js_get (chats w) chatId)
     (\<lambda>c. Option.bind (ch_loadingActivityLog c) (find (\<lambda>e. le_id e = entryId)))"

record agent_stage_event =
  as_chatId :: ident
  as_stage :: agent_stage
  as_status :: call_status
  as_durationMs :: "number option"
  as_iteration :: "number option"

definition onAgentStage ::
  "(number \<Rightarrow> string) \<Rightarrow> number \<Rightarrow> agent_stage_event \<Rightarrow> send_ctx \<Rightarrow> chat_world \<Rightarrow> chat_world" where
  "onAgentStage number_string now event ctx w =
     (if \<not> owns_stream ctx w then w
      else
        let label = AGENT_STAGE_LABELS (as_stage event);
            activityId = agent_activity_id number_string (as_stage event) (as_iteration event);
            status = toActivityStatus (as_status event);
            existingLog = getActivityLogEntry (as_chatId event) activityId w;
            startedAtMs = (if as_status event = StartStatus then Some now
                           else Option.bind existingLog le_startedAtMs);
            durationMs = (if as_status event = StartStatus then None
                          else or_else (as_durationMs event) (map_option (\<lambda>s. now - s) startedAtMs));
            w1 = upsertLoadingActivity (as_chatId event) activityId
                   (\<lambda>e. e\<lparr>ai_label := label, ai_status := status, ai_kind := Some AgentKind\<rparr>) w
        in upsertActivityLog (as_chatId event) activityId
             (\<lambda>e. e\<lparr>le_label := label, le_status := status, le_kind := Some AgentKind,
                    le_startedAtMs := startedAtMs, le_durationMs := durationMs\<rparr>) w1)"

record tool_call_event =
  te_chatId :: ident
  te_stage :: "agent_stage option"
  te_status :: call_status
  te_toolCallId :: ident
  te_toolName :: "string option"
  te_toolInput :: "json option"
  te_toolOutput :: "json option"
  te_toolErrorText :: "string option"
  te_iteration :: "number option"

text \<open>What a tool event writes; a timer may hold it for a while.\<close>

record tool_update =
  tu_chatId :: ident
  tu_activityId :: ident
  tu_label :: string
  tu_status :: activity_status
  tu_parentId :: "ident option"
  tu_toolState :: tool_state
  tu_toolName :: "string option"
  tu_toolInput :: "json option"
  tu_toolOutput :: "json option"
  tu_toolErrorText :: "string option"

definition applyToolUpdate :: "tool_update \<Rightarrow> send_ctx \<Rightarrow> chat_world \<Rightarrow> chat_world" where
  "applyToolUpdate u ctx w =
     (if \<not> owns_stream ctx w then w
      else
        upsertActivityLog (tu_chatId u) (tu_activityId u)
          (\<lambda>e. e\<lparr>le_label := tu_label u, le_status := tu_status u, le_kind := Some ToolKind,
                 le_parentId := tu_parentId u, le_toolState := Some (tu_toolState u),
                 le_toolName := tu_toolName u, le_toolInput := tu_toolInput u,
                 le_toolOutput := tu_toolOutput u, le_toolErrorText := tu_toolErrorText u\<rparr>)
        (upsertLoadingActivity (tu_chatId u) (tu_activityId u)
          (\<lambda>e. e\<lparr>ai_label := tu_label u, ai_status := tu_status u, ai_parentId := tu_parentId u,
                 ai_kind := Some ToolKind, ai_toolState := Some (tu_toolState u),
                 ai_toolName := tu_toolName u, ai_toolInput := tu_toolInput u,
                 ai_toolOutput := tu_toolOutput u, ai_toolErrorText := tu_toolErrorText u\<rparr>) w))"

definition parent_activity_id ::
  "(number \<Rightarrow> string) \<Rightarrow> agent_stage option \<Rightarrow> number option \<Rightarrow> ident option" where
  "parent_activity_id number_string stage iteration =
     map_option (\<lambda>s. agent_activity_id number_string s iteration) stage"

definition tool_update_of ::
  "(number \<Rightarrow> string) \<Rightarrow> tool_call_event \<Rightarrow> chat_world \<Rightarrow> tool_update" where
  "tool_update_of number_string event w =
     (let activityId = ''tool:'' @ te_toolCallId event;
          existing = getActivityItem (te_chatId event) activityId w;
          toolErrorText = or_else (te_toolErrorText event) (Option.bind existing ai_toolErrorText)
      in \<lparr>tu_chatId = te_chatId event,
          tu_activityId = activityId,
          tu_label = (case te_toolName event of
              Some n \<Rightarrow> if n \<noteq> '''' then ''Using tool: '' @ n
                        else coalesce (map_option ai_label existing) ''Using tool''
            | None \<Rightarrow> coalesce (map_option ai_label existing) ''Using tool''),
          tu_status = toActivityStatus (te_status event),
          tu_parentId = parent_activity_id number_string (te_stage event) (te_iteration event),
          tu_toolState = toToolState (te_status event)
            (case toolErrorText of None \<Rightarrow> False | Some t \<Rightarrow> t \<noteq> ''''),
          tu_toolName = or_else (te_toolName event) (Option.bind existing ai_toolName),
          tu_toolInput = json_or_else (te_toolInput event) (Option.bind existing ai_toolInput),
          tu_toolOutput = json_or_else (te_toolOutput event) (Option.bind existing ai_toolOutput),
          tu_toolErrorText = toolErrorText\<rparr>)"

text \<open>The result's first part is the update left to a timer, with its delay.\<close>

definition onToolCall ::
  "(number \<Rightarrow> string) \<Rightarrow> number \<Rightarrow> tool_call_event \<Rightarrow> send_ctx \<Rightarrow> chat_world \<Rightarrow>
   (tool_update \<times> number) option \<times> send_ctx \<times> chat_world" where
  "onToolCall number_string now event ctx w =
     (if \<not> owns_stream ctx w then (None, ctx, w)
      else
        let u = tool_update_of number_string event w
        in if te_status event = StartStatus
           then let ctx1 = ctx\<lparr>sc_toolActivityStartTimes :=
                      js_set (tu_activityId u) now (sc_toolActivityStartTimes ctx)\<rparr>
                in (None, ctx1, applyToolUpdate u ctx1 w)
           else
             let startedAt = coalesce (js_get (sc_toolActivityStartTimes ctx) (tu_activityId u)) now;
                 delayMs = max 0 (MIN_TOOL_ACTIVITY_MS - (now - startedAt))
             in if delayMs = 0 then (None, ctx, applyToolUpdate u ctx w)
                else (Some (u, delayMs), ctx, w))"

record thinking_event =
  th_chatId :: ident
  th_status :: thinking_status
  th_thinkingId :: ident
  th_content :: "string option"
  th_stage :: "agent_stage option"
  th_iteration :: "number option"

definition onThinking ::
  "(number \<Rightarrow> string) \<Rightarrow> string \<Rightarrow> thinking_event \<Rightarrow> send_ctx \<Rightarrow> chat_world \<Rightarrow> send_ctx \<times> chat_world" where
  "onThinking number_string nano event ctx w =
     (if \<not> owns_stream ctx w then (ctx, w)
      else
        let activityId = ''thinking:'' @ th_thinkingId event;
            existing = getActivityItem (th_chatId event) activityId w;
            label = (case th_stage event of
                None \<Rightarrow> ''Reasoning''
              | Some s \<Rightarrow> AGENT_STAGE_LABELS s @ '' reasoning'');
            parentId = parent_activity_id number_string (th_stage event) (th_iteration event);
            nextStatus = (if th_status event = ThinkEnd then Complete else InProgress);
            nextContent = or_else (th_content event) (Option.bind existing ai_thinkingContent);
            currentLogId = js_get (sc_thinkingLogIds ctx) (th_thinkingId event);
            existingLog = Option.bind currentLogId (\<lambda>i. getActivityLogEntry (th_chatId event) i w);
            shouldStartNew = (th_status event = ThinkStart \<or> currentLogId = None \<or>
              map_option le_status existingLog = Some Complete);
            logId = (if shouldStartNew
              then ''thinking:'' @ th_thinkingId event @ '':'' @ nano
              else coalesce currentLogId '''');
            ctx1 = ctx\<lparr>sc_thinkingLogIds := js_set (th_thinkingId event) logId (sc_thinkingLogIds ctx)\<rparr>;
            shownLabel = coalesce (map_option ai_label existing) label;
            w1 = upsertLoadingActivity (th_chatId event) activityId
                   (\<lambda>e. e\<lparr>ai_label := shownLabel, ai_status := nextStatus, ai_parentId := parentId,
                          ai_kind := Some ThinkingKind, ai_thinkingContent := nextContent\<rparr>) w
        in (ctx1, upsertActivityLog (th_chatId event) logId
                   (\<lambda>e. e\<lparr>le_label := shownLabel, le_status := nextStatus,
                          le_kind := Some ThinkingKind, le_parentId := parentId,
                          le_thinkingContent := nextContent\<rparr>) w1))"

section \<open>The other callbacks\<close>

definition onChatId ::
  "ident \<Rightarrow> string option \<Rightarrow> send_ctx \<Rightarrow> chat_world \<Rightarrow> send_ctx \<times> chat_world" where
  "onChatId chatId chatTitle ctx w = snd (adoptRealChatId chatId chatTitle ctx w)"

definition onTitleUpdate :: "ident \<Rightarrow> string \<Rightarrow> chat_world \<Rightarrow> chat_world" where
  "onTitleUpdate chatId title w = updateChat chatId (\<lambda>c. c\<lparr>ch_title := Some title\<rparr>) w"

record assistant_payload =
  ap_assistantMessageId :: ident
  ap_content :: string
  ap_parentMessageId :: "ident option"
  ap_userMessageId :: "ident option"
  ap_generationTimeMs :: "number option"
  ap_generationTiming :: "generation_timing option"
  ap_responseCost :: "number option"
  ap_responseUsage :: "response_usage option"
  ap_responseCostBreakdown :: "cost_breakdown option"
  ap_guardrailsFailures :: "guardrails_failure list option"
  ap_guardrailsBlocked :: "bool option"
  ap_guardrailsBlockedMessage :: "string option"
  ap_toolSourcesUsed :: "source_used list option"
  ap_groundingSourcesUsed :: "source_used list option"
  ap_groundingSourceStatus :: "grounding_status nullable"

definition assistant_message_of :: "number \<Rightarrow> assistant_payload \<Rightarrow> message" where
  "assistant_message_of now p =
     (plain_message (ap_assistantMessageId p) Assistant (ap_content p) now (ap_parentMessageId p))\<lparr>
       msg_generationTimeMs := ap_generationTimeMs p,
       msg_generationTiming := ap_generationTiming p,
       msg_responseCost := ap_responseCost p,
       msg_responseUsage := ap_responseUsage p,
       msg_responseCostBreakdown := ap_responseCostBreakdown p,
       msg_guardrailsFailures := ap_guardrailsFailures p,
       msg_guardrailsBlocked := ap_guardrailsBlocked p,
       msg_guardrailsBlockedMessage := ap_guardrailsBlockedMessage p,
       msg_toolSourcesUsed := ap_toolSourcesUsed p,
       msg_groundingSourcesUsed := ap_groundingSourcesUsed p,
       msg_groundingSourceStatus := ap_groundingSourceStatus p\<rparr>"

text \<open>The optimistic user message gets the server's id.\<close>

definition rename_optimistic :: "send_ctx \<Rightarrow> ident option \<Rightarrow> chat_world \<Rightarrow> chat_world" where
  "rename_optimistic ctx userMessageId w = (case userMessageId of
     None \<Rightarrow> w
   | Some i \<Rightarrow>
       if sc_isRegeneration ctx then w
       else updateChat (sc_realChatId ctx) (\<lambda>c. c\<lparr>ch_messages :=
         map (\<lambda>m. if msg_id m \<noteq> sc_optimisticUserMessageId ctx then m else m\<lparr>msg_id := i\<rparr>)
           (ch_messages c)\<rparr>) w)"

definition append_assistant :: "number \<Rightarrow> assistant_payload \<Rightarrow> send_ctx \<Rightarrow> chat_world \<Rightarrow> chat_world" where
  "append_assistant now p ctx w = updateChat (sc_realChatId ctx) (\<lambda>c. c\<lparr>
     ch_messages := ch_messages c @ [assistant_message_of now p],
     ch_isLoading := False,
     ch_hasPendingGeneration := Some False,
     ch_hasUnread := (currentChatId w \<noteq> Some (sc_realChatId ctx)),
     ch_lastMessagePreview := Some (truncate_text (ap_content p) 50),
     ch_parentMessageId := Some (ap_assistantMessageId p),
     ch_updatedAt := now\<rparr>) w"

definition keep_activity_log :: "ident \<Rightarrow> send_ctx \<Rightarrow> chat_world \<Rightarrow> chat_world" where
  "keep_activity_log assistantMessageId ctx w =
     (let snapshot = coalesce (Option.bind (js_get (chats w) (sc_realChatId ctx)) ch_loadingActivityLog) []
      in if 0 < length snapshot
         then w\<lparr>messageActivityLog := js_set assistantMessageId snapshot (messageActivityLog w)\<rparr>
         else w)"

text \<open>What the store writes when the answer arrives.\<close>

definition deliver_answer :: "number \<Rightarrow> assistant_payload \<Rightarrow> send_ctx \<Rightarrow> chat_world \<Rightarrow> chat_world" where
  "deliver_answer now p ctx w =
     (let w1 = append_assistant now p ctx (rename_optimistic ctx (ap_userMessageId p) w);
          w2 = (if js_has (messageFeedback w1) (ap_assistantMessageId p) then w1
                else w1\<lparr>messageFeedback := js_set (ap_assistantMessageId p) [] (messageFeedback w1)\<rparr>)
      in clearCurrentAbortController ctx (keep_activity_log (ap_assistantMessageId p) ctx w2))"

definition onAssistantMessage ::
  "number \<Rightarrow> assistant_payload \<Rightarrow> send_ctx \<Rightarrow> chat_world \<Rightarrow>
   js_error + (tree_request option \<times> send_ctx \<times> chat_world)" where
  "onAssistantMessage now p ctx w =
     (if \<not> owns_stream ctx w then Inr (None, ctx, w)
      else (case recordPrimaryMessageStreamOutcome (sc_primaryOutcome ctx) OAssistant of
          Inl e \<Rightarrow> Inl e
        | Inr outcome \<Rightarrow>
            let ctx1 = ctx\<lparr>sc_primaryOutcome := outcome\<rparr>;
                (tree, w1) = loadConversationTree_begin (sc_realChatId ctx1)
                               (deliver_answer now p ctx1 w)
            in Inr (tree, ctx1, w1)))"

definition onGroundingSources ::
  "ident \<Rightarrow> source_used list \<Rightarrow> grounding_status \<Rightarrow> send_ctx \<Rightarrow> chat_world \<Rightarrow> chat_world" where
  "onGroundingSources assistantMessageId sources status ctx w =
     updateGrounding (sc_realChatId ctx) assistantMessageId status sources False w"

definition onError ::
  "string \<Rightarrow> number \<Rightarrow> bool \<Rightarrow> send_ctx \<Rightarrow> chat_world \<Rightarrow> js_error + (send_ctx \<times> chat_world)" where
  "onError nano now retryable ctx w =
     (if \<not> owns_stream ctx w then Inr (ctx, w)
      else (case recordPrimaryMessageStreamOutcome (sc_primaryOutcome ctx) OGenerationFailure of
          Inl e \<Rightarrow> Inl e
        | Inr outcome \<Rightarrow>
            let ctx1 = ctx\<lparr>sc_primaryOutcome := outcome\<rparr>
            in Inr (ctx1, appendGenerationError nano now
                 (if retryable then GENERATION_FAILED_MESSAGE else UNKNOWN_RESPONSE_OUTCOME_MESSAGE)
                 (if retryable then Some (sc_retryRequest ctx1) else None)
                 (\<not> retryable) ctx1 w)))"

section \<open>The end of the stream, and retrying\<close>

definition sendMessage_finally :: "send_ctx \<Rightarrow> chat_world \<Rightarrow> chat_world" where
  "sendMessage_finally ctx w =
     (let w1 = clearCurrentAbortController ctx w
      in w1\<lparr>messageStreamRequests := finish_request (sc_handle ctx) (messageStreamRequests w1)\<rparr>)"

text \<open>
  Whether the server has to be asked for the outcome: the stream failed, was not aborted,
  and neither an answer nor a failure has been recorded. The request is sent only if the
  stream is still owned.
\<close>

definition sendMessage_settle :: "js_error + unit \<Rightarrow> send_ctx \<Rightarrow> chat_world \<Rightarrow> bool" where
  "sendMessage_settle result ctx w = (case result of
     Inr _ \<Rightarrow> False
   | Inl e \<Rightarrow> e \<noteq> AbortError \<and> sc_primaryOutcome ctx = OPending \<and> owns_stream ctx w)"

definition retryMessage_prepare ::
  "ident \<Rightarrow> chat_world \<Rightarrow> retry_request option \<times> chat_world" where
  "retryMessage_prepare errorMessageId w = (case currentChatId w of
     None \<Rightarrow> (None, w)
   | Some chatId \<Rightarrow>
       (case Option.bind (js_get (chats w) chatId) (\<lambda>c.
               Option.bind (find (\<lambda>m. msg_id m = errorMessageId) (ch_messages c)) msg_retryRequest) of
          None \<Rightarrow> (None, w)
        | Some retry \<Rightarrow>
            (Some retry,
             if is_temp chatId
             then w\<lparr>chats := js_delete chatId (chats w), drafts := js_delete chatId (drafts w),
                    abortControllers := js_delete chatId (abortControllers w),
                    currentChatId := None, currentSummary := None\<rparr>
             else w)))"

definition retryMessage_begin ::
  "string \<Rightarrow> string \<Rightarrow> ident \<Rightarrow> number \<Rightarrow> ident \<Rightarrow> chat_world \<Rightarrow> send_ctx option \<times> chat_world" where
  "retryMessage_begin tempNano userNano attemptId now errorMessageId w =
     (case retryMessage_prepare errorMessageId w of
        (None, w1) \<Rightarrow> (None, w1)
      | (Some retry, w1) \<Rightarrow>
          sendMessage_begin tempNano userNano attemptId now (rr_content retry)
            (rr_modelOverrides retry) (rr_options retry) w1)"

end
