(* ===== verification/ChatInvariant.thy ===== *)
theory ChatInvariant
  imports ChatStream
begin

text \<open>
  The invariant of the chat store, operation by operation: every action and callback of
  ChatStore and ChatStream keeps \<open>world_wf\<close>. Also what each leaves alone: only sending,
  aborting, adopting an id and finishing touch the request tracker; only the activity log
  moves its counter, upwards; only sending creates controllers.
\<close>

section \<open>What the actions leave alone\<close>

text \<open>
  The part of the state by which streams own chats, and the counters: unchanged by the
  actions that are not about streams.
\<close>

definition same_streams :: "chat_world \<Rightarrow> chat_world \<Rightarrow> bool" where
  "same_streams w v \<longleftrightarrow> messageStreamRequests v = messageStreamRequests w \<and>
     controllerCount v = controllerCount w \<and> activityLogCounter w \<le> activityLogCounter v \<and>
     chatDetailRequests w \<le> chatDetailRequests v"

named_theorems stream_frames \<open>the actions that leave the streams alone\<close>

lemma same_streams_refl [simp]: "same_streams w w"
  by (simp add: same_streams_def)

lemma same_streams_trans: "same_streams u v \<Longrightarrow> same_streams v w \<Longrightarrow> same_streams u w"
  by (simp add: same_streams_def)

lemma updateChat_streams [stream_frames]: "same_streams w (updateChat i f w)"
  by (simp add: same_streams_def)

lemma applyChatDetail_streams [stream_frames]: "same_streams w (applyChatDetail dm nano now i d w)"
  by (simp add: same_streams_def applyChatDetail_def Let_def split: prod.split)

lemma getTreeRequests_frame:
  "messageStreamRequests (snd (getConversationTreeRequests i w)) = messageStreamRequests w"
  "controllerCount (snd (getConversationTreeRequests i w)) = controllerCount w"
  "activityLogCounter (snd (getConversationTreeRequests i w)) = activityLogCounter w"
  "chats (snd (getConversationTreeRequests i w)) = chats w"
  "currentChatId (snd (getConversationTreeRequests i w)) = currentChatId w"
  "chatDetailRequests (snd (getConversationTreeRequests i w)) = chatDetailRequests w"
  by (simp_all add: getConversationTreeRequests_def Let_def split: option.split)

lemma fetchTree_frame:
  "messageStreamRequests (snd (fetchAndApplyConversationTree_begin i w)) = messageStreamRequests w"
  "controllerCount (snd (fetchAndApplyConversationTree_begin i w)) = controllerCount w"
  "activityLogCounter (snd (fetchAndApplyConversationTree_begin i w)) = activityLogCounter w"
  "chats (snd (fetchAndApplyConversationTree_begin i w)) = chats w"
  "currentChatId (snd (fetchAndApplyConversationTree_begin i w)) = currentChatId w"
  "chatDetailRequests (snd (fetchAndApplyConversationTree_begin i w)) = chatDetailRequests w"
  using getTreeRequests_frame [of i w]
  by (simp_all add: fetchAndApplyConversationTree_begin_def Let_def case_prod_beta)

lemma loadTree_frame [simp]:
  "messageStreamRequests (snd (loadConversationTree_begin i w)) = messageStreamRequests w"
  "controllerCount (snd (loadConversationTree_begin i w)) = controllerCount w"
  "activityLogCounter (snd (loadConversationTree_begin i w)) = activityLogCounter w"
  "chats (snd (loadConversationTree_begin i w)) = chats w"
  "currentChatId (snd (loadConversationTree_begin i w)) = currentChatId w"
  "chatDetailRequests (snd (loadConversationTree_begin i w)) = chatDetailRequests w"
  by (simp_all add: loadConversationTree_begin_def fetchTree_frame clearConversationTreeState_def)

lemma loadTree_streams [stream_frames]: "same_streams w (snd (loadConversationTree_begin i w))"
  by (simp add: same_streams_def)

lemma markCurrentAsRead_streams [stream_frames]: "same_streams w (markCurrentAsRead w)"
  by (simp add: markCurrentAsRead_def updateChat_streams split: option.split)

lemma fetchTree_end_streams [stream_frames]:
  "same_streams w (fetchAndApplyConversationTree_end i req r w)"
  by (simp add: same_streams_def fetchAndApplyConversationTree_end_def
      split: sum.split latest_result.split)

lemma loadChats_streams [stream_frames]:
  "same_streams w (loadChats_begin w)" "same_streams w (loadChats_end dm r w)"
  by (simp_all add: same_streams_def loadChats_begin_def loadChats_end_def split: sum.split)

lemma select_fields_streams:
  "same_streams w v \<Longrightarrow> same_streams w (v\<lparr>chatDetailRequests := lr_invalidate (chatDetailRequests v)\<rparr>)"
  "same_streams w v \<Longrightarrow> same_streams w (v\<lparr>chatDetailRequests := snd (lr_begin (chatDetailRequests v))\<rparr>)"
  "same_streams w v \<Longrightarrow> same_streams w (v\<lparr>currentSummary := s\<rparr>)"
  "same_streams w v \<Longrightarrow> same_streams w (v\<lparr>currentChatId := i\<rparr>)"
  by (simp_all add: same_streams_def lr_invalidate_def lr_begin_def Let_def)

lemma markCurrentAsRead_streams' [stream_frames]:
  "same_streams w v \<Longrightarrow> same_streams w (markCurrentAsRead v)"
  by (rule same_streams_trans [OF _ markCurrentAsRead_streams])

lemma loadTree_select_streams:
  "same_streams w v \<Longrightarrow> same_streams w
     (snd (loadConversationTree_begin k v)\<lparr>chatDetailRequests := snd (lr_begin (chatDetailRequests v))\<rparr>)"
  by (simp add: same_streams_def lr_begin_def Let_def)

lemma selectChat_begin_streams [stream_frames]:
  "same_streams w (snd (snd (selectChat_begin i w)))"
  unfolding selectChat_begin_def Let_def case_prod_beta
  by (auto intro!: loadTree_select_streams select_fields_streams markCurrentAsRead_streams'
      same_streams_trans [OF _ loadTree_streams] split: option.split)

lemma selectChat_end_streams [stream_frames]: "same_streams w (selectChat_end dm nano now i req r w)"
  by (simp add: selectChat_end_def applyChatDetail_streams split: sum.split latest_result.split)

lemma setActiveBranch_begin_streams [stream_frames]: "same_streams w (setActiveBranch_begin i w)"
  using getTreeRequests_frame [of i "w\<lparr>chatDetailRequests := lr_invalidate (chatDetailRequests w)\<rparr>"]
  by (simp add: setActiveBranch_begin_def same_streams_def Let_def case_prod_beta lr_invalidate_def)

lemma setActiveBranch_end_streams:
  "setActiveBranch_end dm nano now i r w = Inr (t, v) \<Longrightarrow> same_streams w v"
  using same_streams_trans [OF applyChatDetail_streams loadTree_streams]
  by (auto simp: setActiveBranch_end_def split: sum.splits) (metis snd_conv)

lemma simple_streams [stream_frames]:
  "same_streams w (clearCurrentChat w)"
  "same_streams w (deleteChat_begin i w)"
  "same_streams w (setDraft k d w)"
  by (simp_all add: same_streams_def clearCurrentChat_def deleteChat_begin_def setDraft_def Let_def
      lr_invalidate_def)

lemma deleteChat_end_streams [stream_frames]: "same_streams w (snd (deleteChat_end i old r w))"
  by (simp add: same_streams_def deleteChat_end_def split: sum.split option.split)

lemma rename_streams [stream_frames]:
  "same_streams w (renameChatTitle_end i t w)" "same_streams w (regenerateChatTitle_end i t w)"
  by (simp_all add: renameChatTitle_end_def regenerateChatTitle_end_def updateChat_streams)

lemma updateGrounding_streams [stream_frames]: "same_streams w (updateGrounding i m s ss b w)"
  by (simp add: updateGrounding_def updateChat_streams)

lemma retryGrounding_streams [stream_frames]:
  "same_streams w (snd (retryGroundingSources_begin m w))"
  "same_streams w (snd (retryGroundingSources_end i m r w))"
  using same_streams_trans [OF updateGrounding_streams updateGrounding_streams]
  by (auto simp: retryGroundingSources_begin_def retryGroundingSources_end_def Let_def
      updateGrounding_streams split: option.split sum.split)

lemma feedback_streams [stream_frames]:
  "same_streams w (snd (loadMessageFeedback_begin m w))"
  "same_streams w (loadMessageFeedback_end m r w)"
  "same_streams w (initializeMessageFeedback es w)"
  "same_streams w (snd (submitMessageFeedback_begin m w))"
  "same_streams w (submitMessageFeedback_end m s w)"
  "same_streams w (snd (removeMessageFeedback_begin m w))"
  "same_streams w (removeMessageFeedback_end m l u w)"
  by (auto simp: same_streams_def loadMessageFeedback_begin_def loadMessageFeedback_end_def
      initializeMessageFeedback_def submitMessageFeedback_begin_def submitMessageFeedback_end_def
      removeMessageFeedback_begin_def removeMessageFeedback_end_def feedback_loading_add_def
      feedback_loading_del_def Let_def split: sum.split option.split)

lemma hydration_streams [stream_frames]:
  "same_streams w (snd (loadMessageActivityLog_begin m w))"
  "same_streams w (hydrateMessageActivityLogFromTrace_end m es w)"
  by (simp_all add: same_streams_def hydration_defs)

text \<open>The callbacks of a stream, except for adoption and the end.\<close>

lemma upsertLoadingActivity_streams [stream_frames]:
  "same_streams w (upsertLoadingActivity i j f w)"
  by (simp add: upsertLoadingActivity_def updateChat_streams)

lemma upsertActivityLog_streams [stream_frames]: "same_streams w (upsertActivityLog i j f w)"
  by (auto simp: upsertActivityLog_def same_streams_def Let_def split: option.split)

lemma onAgentStage_streams [stream_frames]: "same_streams w (onAgentStage ns now e ctx w)"
  by (auto simp: onAgentStage_def Let_def
      intro: same_streams_trans [OF upsertLoadingActivity_streams upsertActivityLog_streams])

lemma applyToolUpdate_streams [stream_frames]: "same_streams w (applyToolUpdate u ctx w)"
  by (auto simp: applyToolUpdate_def
      intro: same_streams_trans [OF upsertLoadingActivity_streams upsertActivityLog_streams])

lemma onToolCall_streams [stream_frames]: "same_streams w (snd (snd (onToolCall ns now e ctx w)))"
  by (simp add: onToolCall_def Let_def applyToolUpdate_streams)

lemma onThinking_streams [stream_frames]: "same_streams w (snd (onThinking ns nano e ctx w))"
  by (auto simp: onThinking_def Let_def
      intro: same_streams_trans [OF upsertLoadingActivity_streams upsertActivityLog_streams])

lemma clearController_streams [stream_frames]: "same_streams w (clearCurrentAbortController ctx w)"
  by (simp add: same_streams_def clearCurrentAbortController_def)

lemma keep_activity_log_streams [stream_frames]: "same_streams w (keep_activity_log i ctx w)"
  by (simp add: same_streams_def keep_activity_log_def Let_def)

lemma appendGenerationError_streams [stream_frames]:
  "same_streams w (appendGenerationError nano now s r p ctx w)"
  by (simp add: appendGenerationError_def updateChat_streams)

lemma applyReconciledDetail_streams [stream_frames]:
  "same_streams w (snd (applyReconciledDetail dm nano now d ctx w))"
  using same_streams_trans [OF applyChatDetail_streams
      same_streams_trans [OF clearController_streams loadTree_streams]]
  by (simp add: applyReconciledDetail_def)

lemma onTitleUpdate_streams [stream_frames]: "same_streams w (onTitleUpdate i t w)"
  by (simp add: onTitleUpdate_def updateChat_streams)

lemma onGroundingSources_streams [stream_frames]:
  "same_streams w (onGroundingSources m ss s ctx w)"
  by (simp add: onGroundingSources_def updateGrounding_streams)

lemma rename_optimistic_streams [stream_frames]: "same_streams w (rename_optimistic ctx i w)"
  by (simp add: rename_optimistic_def updateChat_streams split: option.split)

lemma append_assistant_streams [stream_frames]: "same_streams w (append_assistant now p ctx w)"
  by (simp add: append_assistant_def updateChat_streams)

lemma deliver_answer_streams [stream_frames]: "same_streams w (deliver_answer now p ctx w)"
proof -
  define w1 where "w1 = append_assistant now p ctx (rename_optimistic ctx (ap_userMessageId p) w)"
  have "same_streams w w1" unfolding w1_def
    by (rule same_streams_trans [OF rename_optimistic_streams append_assistant_streams])
  then have "same_streams w (if b then w1 else w1\<lparr>messageFeedback := f\<rparr>)" for b f
    by (simp add: same_streams_def)
  then show ?thesis
    unfolding deliver_answer_def Let_def w1_def [symmetric]
    by (rule same_streams_trans [OF same_streams_trans [OF _ keep_activity_log_streams]
        clearController_streams])
qed

lemma onAssistantMessage_streams:
  assumes "onAssistantMessage now p ctx w = Inr (t, ctx', v)"
  shows "same_streams w v"
  using assms same_streams_trans [OF deliver_answer_streams loadTree_streams]
  by (auto simp: onAssistantMessage_def Let_def case_prod_beta split: if_splits sum.splits)

lemma onError_streams:
  "onError nano now r ctx w = Inr (ctx', v) \<Longrightarrow> same_streams w v"
  by (auto simp: onError_def Let_def appendGenerationError_streams split: if_splits sum.splits)

section \<open>The invariant\<close>

lemma activity_wf_fields [simp]:
  "ch_loadingActivity c' = ch_loadingActivity c \<Longrightarrow> ch_loadingActivityLog c' = ch_loadingActivityLog c \<Longrightarrow>
   activity_wf n c \<Longrightarrow> activity_wf n c'"
  by (simp add: activity_wf_def)

lemma activity_wf_no_activity:
  "activity_wf n c \<Longrightarrow> ch_loadingActivity c' = Some [] \<Longrightarrow>
   ch_loadingActivityLog c' = ch_loadingActivityLog c \<Longrightarrow> activity_wf n c'"
  by (simp add: activity_wf_def)

lemma activity_wf_empty:
  "ch_loadingActivity c' = Some [] \<Longrightarrow> ch_loadingActivityLog c' = Some [] \<Longrightarrow> activity_wf n c'"
  by (simp add: activity_wf_def)

lemmas activity_wf_intros = activity_wf_no_activity activity_wf_empty

text \<open>An update of a chat that does not touch its id or its activity.\<close>

lemma world_wf_update_other:
  assumes "world_wf w" "\<And>c. ch_id (f c) = ch_id c"
    "\<And>c. ch_loadingActivity (f c) = ch_loadingActivity c"
    "\<And>c. ch_loadingActivityLog (f c) = ch_loadingActivityLog c"
  shows "world_wf (updateChat i f w)"
  using assms by (auto intro!: world_wf_updateChat simp: activity_wf_def)

text \<open>Fields outside the invariant.\<close>

lemma world_wf_free_fields [simp]:
  "world_wf (w\<lparr>chatsLoaded := b\<rparr>) = world_wf w"
  "world_wf (w\<lparr>chatsError := e\<rparr>) = world_wf w"
  "world_wf (w\<lparr>conversationTreeResults := t\<rparr>) = world_wf w"
  "world_wf (w\<lparr>messageFeedback := f\<rparr>) = world_wf w"
  "world_wf (w\<lparr>messageActivityLog := l\<rparr>) = world_wf w"
  "world_wf (w\<lparr>currentChatId := i\<rparr>) = world_wf w"
  "world_wf (w\<lparr>currentSummary := s\<rparr>) = world_wf w"
  "world_wf (w\<lparr>aborted := a\<rparr>) = world_wf w"
  "world_wf (w\<lparr>chatDetailRequests := g\<rparr>) = world_wf w"
  by (simp_all add: world_wf_def)

lemma world_wf_chats:
  "world_wf w \<Longrightarrow> chats_wf m \<Longrightarrow> activities_wf m (activityLogCounter w) \<Longrightarrow> world_wf (w\<lparr>chats := m\<rparr>)"
  by (simp add: world_wf_def)

lemma world_wf_set_chat:
  "world_wf w \<Longrightarrow> ch_id c = i \<Longrightarrow> activity_wf (activityLogCounter w) c \<Longrightarrow>
   world_wf (w\<lparr>chats := js_set i c (chats w)\<rparr>)"
  by (simp add: world_wf_def chats_wf_set activities_wf_set)

lemma world_wf_drafts: "world_wf w \<Longrightarrow> drafts_wf m \<Longrightarrow> world_wf (w\<lparr>drafts := m\<rparr>)"
  by (simp add: world_wf_def)

lemma world_wf_controllers:
  "world_wf w \<Longrightarrow> refs_wf m (controllerCount w) \<Longrightarrow> world_wf (w\<lparr>abortControllers := m\<rparr>)"
  by (simp add: world_wf_def)

lemma world_wf_tracker:
  "world_wf w \<Longrightarrow> tracker_wf t \<Longrightarrow> world_wf (w\<lparr>messageStreamRequests := t\<rparr>)"
  by (simp add: world_wf_def)

lemma world_wf_coordinators:
  "world_wf w \<Longrightarrow> length cs = length (treeCoordinators w) \<Longrightarrow> world_wf (w\<lparr>treeCoordinators := cs\<rparr>)"
  by (simp add: world_wf_def)

lemma world_wf_feedback_loading:
  "world_wf w \<Longrightarrow> distinct l \<Longrightarrow> world_wf (w\<lparr>messageFeedbackLoading := l\<rparr>)"
  by (simp add: world_wf_def)

lemma applyChatDetail_wf [wf_intros]: "world_wf w \<Longrightarrow> world_wf (applyChatDetail dm nano now i d w)"
  by (simp add: applyChatDetail_def Let_def world_wf_set_chat activity_wf_def split: prod.split)

lemma getTreeRequests_wf [wf_intros]:
  "world_wf w \<Longrightarrow> world_wf (snd (getConversationTreeRequests i w))"
  by (auto simp: getConversationTreeRequests_def Let_def world_wf_def refs_wf_def less_SucI
      split: option.split)

lemma fetchTree_begin_wf [wf_intros]:
  "world_wf w \<Longrightarrow> world_wf (snd (fetchAndApplyConversationTree_begin i w))"
  by (simp add: fetchAndApplyConversationTree_begin_def Let_def case_prod_beta
      world_wf_coordinators getTreeRequests_wf)

lemma fetchTree_end_wf [wf_intros]:
  "world_wf w \<Longrightarrow> world_wf (fetchAndApplyConversationTree_end i req r w)"
  by (simp add: fetchAndApplyConversationTree_end_def split: sum.split latest_result.split)

lemma loadTree_wf [wf_intros]: "world_wf w \<Longrightarrow> world_wf (snd (loadConversationTree_begin i w))"
  by (simp add: loadConversationTree_begin_def clearConversationTreeState_def fetchTree_begin_wf)

lemma loadChats_wf [wf_intros]:
  "world_wf w \<Longrightarrow> world_wf (loadChats_begin w)"
  "world_wf w \<Longrightarrow> world_wf (loadChats_end dm r w)"
  by (simp_all add: loadChats_begin_def loadChats_end_def world_wf_chats chats_wf_merge
      activities_wf_merge world_wfD split: sum.split)

lemma markCurrentAsRead_wf [wf_intros]: "world_wf w \<Longrightarrow> world_wf (markCurrentAsRead w)"
  by (simp add: markCurrentAsRead_def world_wf_update_other split: option.split)

lemma selectChat_begin_wf [wf_intros]:
  "world_wf w \<Longrightarrow> world_wf (snd (snd (selectChat_begin i w)))"
  unfolding selectChat_begin_def Let_def case_prod_beta
  by (auto intro!: markCurrentAsRead_wf loadTree_wf split: option.split)

lemma selectChat_end_wf [wf_intros]: "world_wf w \<Longrightarrow> world_wf (selectChat_end dm nano now i req r w)"
  by (simp add: selectChat_end_def applyChatDetail_wf split: sum.split latest_result.split)

lemma setActiveBranch_begin_wf [wf_intros]: "world_wf w \<Longrightarrow> world_wf (setActiveBranch_begin i w)"
  by (simp add: setActiveBranch_begin_def Let_def case_prod_beta world_wf_coordinators
      getTreeRequests_wf)

lemma setActiveBranch_end_wf:
  assumes "world_wf w" "setActiveBranch_end dm nano now i r w = Inr (t, v)"
  shows "world_wf v"
proof -
  from assms(2) obtain d where
    "loadConversationTree_begin i (applyChatDetail dm nano now i d w) = (t, v)"
    by (auto simp: setActiveBranch_end_def split: sum.splits)
  with loadTree_wf [OF applyChatDetail_wf [OF assms(1)]] show ?thesis by (metis snd_conv)
qed

lemma clearCurrentChat_wf [wf_intros]: "world_wf w \<Longrightarrow> world_wf (clearCurrentChat w)"
  by (simp add: clearCurrentChat_def)

lemma abortChat_wf [wf_intros]: "world_wf w \<Longrightarrow> world_wf (abortChat i w)"
  by (auto simp: abortChat_def Let_def activity_wf_def world_wfD
      intro!: world_wf_controllers world_wf_tracker wf_intros
        invalidate_request_wf split: option.split)

lemma deleteChat_begin_wf [wf_intros]: "world_wf w \<Longrightarrow> world_wf (deleteChat_begin i w)"
  by (auto simp: deleteChat_begin_def Let_def world_wf_def
      intro!: wf_intros split: option.split)

lemma deleteChat_end_wf:
  "world_wf w \<Longrightarrow> (\<And>c. old = Some c \<Longrightarrow> ch_id c = i \<and> activity_wf (activityLogCounter w) c) \<Longrightarrow>
   world_wf (snd (deleteChat_end i old r w))"
  by (simp add: deleteChat_end_def world_wf_set_chat split: sum.split option.split)

lemma rename_wf [wf_intros]:
  "world_wf w \<Longrightarrow> world_wf (renameChatTitle_end i t w)"
  "world_wf w \<Longrightarrow> world_wf (regenerateChatTitle_end i t w)"
  by (simp_all add: renameChatTitle_end_def regenerateChatTitle_end_def world_wf_update_other)

lemma setDraft_wf [wf_intros]: "world_wf w \<Longrightarrow> world_wf (setDraft k d w)"
  by (simp add: setDraft_def Let_def world_wf_drafts world_wfD wf_intros)

lemma updateGrounding_wf [wf_intros]: "world_wf w \<Longrightarrow> world_wf (updateGrounding i m s ss b w)"
  by (simp add: updateGrounding_def world_wf_update_other)

lemma retryGrounding_wf [wf_intros]:
  "world_wf w \<Longrightarrow> world_wf (snd (retryGroundingSources_begin m w))"
  "world_wf w \<Longrightarrow> world_wf (snd (retryGroundingSources_end i m r w))"
  by (auto simp: retryGroundingSources_begin_def retryGroundingSources_end_def Let_def
      intro: updateGrounding_wf split: option.split sum.split)

lemma feedback_loading_wf [wf_intros]:
  "world_wf w \<Longrightarrow> world_wf (feedback_loading_add i w)"
  "world_wf w \<Longrightarrow> world_wf (feedback_loading_del i w)"
  by (simp_all add: feedback_loading_add_def feedback_loading_del_def world_wf_feedback_loading
      world_wfD js_intros)

lemma feedback_wf [wf_intros]:
  "world_wf w \<Longrightarrow> world_wf (snd (loadMessageFeedback_begin m w))"
  "world_wf w \<Longrightarrow> world_wf (loadMessageFeedback_end m r w)"
  "world_wf w \<Longrightarrow> world_wf (initializeMessageFeedback es w)"
  "world_wf w \<Longrightarrow> world_wf (snd (submitMessageFeedback_begin m w))"
  "world_wf w \<Longrightarrow> world_wf (submitMessageFeedback_end m s w)"
  "world_wf w \<Longrightarrow> world_wf (snd (removeMessageFeedback_begin m w))"
  "world_wf w \<Longrightarrow> world_wf (removeMessageFeedback_end m l u w)"
  by (auto simp: loadMessageFeedback_begin_def loadMessageFeedback_end_def
      initializeMessageFeedback_def submitMessageFeedback_begin_def submitMessageFeedback_end_def
      removeMessageFeedback_begin_def removeMessageFeedback_end_def Let_def
      intro!: feedback_loading_wf split: sum.split option.split)

lemma hydration_wf [wf_intros]:
  "world_wf w \<Longrightarrow> world_wf (snd (loadMessageActivityLog_begin m w))"
  "world_wf w \<Longrightarrow> world_wf (hydrateMessageActivityLogFromTrace_end m es w)"
  by (simp_all add: hydration_defs world_wf_def js_intros)

section \<open>The invariant, for the callbacks of a stream\<close>

lemma find_index_id_update:
  assumes "find_index (\<lambda>e. f e = k) xs = Some i" "f x = k"
  shows "map f (xs[i := x]) = map f xs"
  using find_index_SomeD [OF assms(1)] assms(2)
  by (simp add: list_eq_iff_nth_eq nth_list_update)

lemma upsertLoadingActivity_wf:
  assumes "world_wf w" "\<And>e. ai_id (patch e) = ai_id e"
  shows "world_wf (upsertLoadingActivity i j patch w)"
proof -
  have ids: "distinct (map ai_id (case find_index (\<lambda>e. ai_id e = j) xs of
      None \<Rightarrow> xs @ [patch (blank_item j)] | Some k \<Rightarrow> xs[k := patch (xs ! k)]))"
    if "distinct (map ai_id xs)" for xs
  proof (cases "find_index (\<lambda>e. ai_id e = j) xs")
    case None
    then have "\<forall>x \<in> set xs. ai_id x \<noteq> j" by (simp add: find_index_None_iff)
    with that assms(2) None show ?thesis by (auto simp: blank_item_def)
  next
    case (Some k)
    then have "map ai_id (xs[k := patch (xs ! k)]) = map ai_id xs"
      by (rule find_index_id_update) (use find_index_SomeD [OF Some] assms(2) in simp)
    with that Some show ?thesis by simp
  qed
  show ?thesis unfolding upsertLoadingActivity_def Let_def
    using assms(1) by (rule world_wf_updateChat) (simp_all add: activity_wf_def ids)
qed

lemma upsertActivityLog_wf:
  assumes wf: "world_wf w"
    and patch: "\<And>e. le_id (patch e) = le_id e" "\<And>e. le_sequence (patch e) = le_sequence e"
  shows "world_wf (upsertActivityLog i j patch w)"
proof (cases "js_get (chats w) i")
  case None
  then show ?thesis using wf by (simp add: upsertActivityLog_def)
next
  case (Some c)
  define es where "es = coalesce (ch_loadingActivityLog c) []"
  have c: "activity_wf (activityLogCounter w) c" "ch_id c = i"
    using Some world_wfD [OF wf] by (auto intro: activities_wfD chats_wfD)
  then have es: "log_wf (activityLogCounter w) es" by (simp add: activity_wf_def es_def)
  show ?thesis
  proof (cases "find_index (\<lambda>e. le_id e = j) es")
    case None
    let ?new = "patch (blank_entry j (Suc (activityLogCounter w)))"
    have "j \<notin> le_id ` set es" using None by (auto simp: find_index_None_iff)
    then have "log_wf (Suc (activityLogCounter w)) (es @ [?new])"
      using es by (intro log_wf_snoc) (simp_all add: patch blank_entry_def)
    then have "activity_wf (Suc (activityLogCounter w))
        (c\<lparr>ch_loadingActivityLog := Some (es @ [?new])\<rparr>)"
      using c by (simp add: activity_wf_def)
    then show ?thesis using None Some wf c
      by (auto simp: upsertActivityLog_def Let_def es_def world_wf_def updateChat_def
          intro!: wf_intros elim: activities_wf_mono)
  next
    case (Some k)
    have "log_wf (activityLogCounter w) (es[k := patch (es ! k)])"
      using es find_index_SomeD [OF Some] by (intro log_wf_update) (simp_all add: patch)
    then show ?thesis using Some \<open>js_get (chats w) i = Some c\<close> wf c
      by (auto simp: upsertActivityLog_def Let_def es_def world_wf_def updateChat_def
          activity_wf_def intro!: wf_intros)
  qed
qed

lemma onAgentStage_wf [wf_intros]: "world_wf w \<Longrightarrow> world_wf (onAgentStage ns now e ctx w)"
  by (simp add: onAgentStage_def Let_def upsertActivityLog_wf upsertLoadingActivity_wf)

lemma applyToolUpdate_wf [wf_intros]: "world_wf w \<Longrightarrow> world_wf (applyToolUpdate u ctx w)"
  by (simp add: applyToolUpdate_def upsertActivityLog_wf upsertLoadingActivity_wf)

lemma onToolCall_wf [wf_intros]: "world_wf w \<Longrightarrow> world_wf (snd (snd (onToolCall ns now e ctx w)))"
  by (simp add: onToolCall_def Let_def applyToolUpdate_wf)

lemma onThinking_wf [wf_intros]: "world_wf w \<Longrightarrow> world_wf (snd (onThinking ns nano e ctx w))"
  by (simp add: onThinking_def Let_def upsertActivityLog_wf upsertLoadingActivity_wf)

lemma onTitleUpdate_wf [wf_intros]: "world_wf w \<Longrightarrow> world_wf (onTitleUpdate i t w)"
  by (simp add: onTitleUpdate_def world_wf_update_other)

lemma onGroundingSources_wf [wf_intros]: "world_wf w \<Longrightarrow> world_wf (onGroundingSources m ss s ctx w)"
  by (simp add: onGroundingSources_def updateGrounding_wf)

lemma clearController_wf [wf_intros]: "world_wf w \<Longrightarrow> world_wf (clearCurrentAbortController ctx w)"
  by (simp add: clearCurrentAbortController_def drop_controller_def world_wf_controllers
      world_wfD wf_intros)

lemma keep_activity_log_wf [wf_intros]: "world_wf w \<Longrightarrow> world_wf (keep_activity_log i ctx w)"
  by (simp add: keep_activity_log_def Let_def)

lemma appendGenerationError_wf [wf_intros]:
  "world_wf w \<Longrightarrow> world_wf (appendGenerationError nano now s r p ctx w)"
  unfolding appendGenerationError_def
  by (erule world_wf_updateChat) (simp_all add: activity_wf_def)

lemma applyReconciledDetail_wf [wf_intros]:
  "world_wf w \<Longrightarrow> world_wf (snd (applyReconciledDetail dm nano now d ctx w))"
  by (simp add: applyReconciledDetail_def loadTree_wf clearController_wf applyChatDetail_wf)

lemma rename_optimistic_wf [wf_intros]: "world_wf w \<Longrightarrow> world_wf (rename_optimistic ctx i w)"
  by (simp add: rename_optimistic_def world_wf_update_other split: option.split)

lemma append_assistant_wf [wf_intros]: "world_wf w \<Longrightarrow> world_wf (append_assistant now p ctx w)"
  by (simp add: append_assistant_def world_wf_update_other)

lemma deliver_answer_wf [wf_intros]: "world_wf w \<Longrightarrow> world_wf (deliver_answer now p ctx w)"
  by (simp add: deliver_answer_def Let_def clearController_wf keep_activity_log_wf
      append_assistant_wf rename_optimistic_wf)

lemma onAssistantMessage_wf:
  "world_wf w \<Longrightarrow> onAssistantMessage now p ctx w = Inr (t, ctx', v) \<Longrightarrow> world_wf v"
  by (auto simp: onAssistantMessage_def Let_def case_prod_beta loadTree_wf deliver_answer_wf
      split: if_splits sum.splits)

lemma onError_wf:
  "world_wf w \<Longrightarrow> onError nano now r ctx w = Inr (ctx', v) \<Longrightarrow> world_wf v"
  by (auto simp: onError_def Let_def appendGenerationError_wf split: if_splits sum.splits)

lemma move_chat_wf:
  assumes "world_wf w" "js_get (chats w) a = Some c"
  shows "world_wf (move_chat a b t c w)"
  using assms
  by (auto simp: move_chat_def world_wf_def activity_wf_def
      intro!: wf_intros dest: drafts_wfD refs_wfD activities_wfD split: option.splits)

lemma adoptRealChatId_wf:
  assumes "world_wf w"
  shows "world_wf (snd (snd (adoptRealChatId i t ctx w)))"
  using assms
  by (auto simp: adoptRealChatId_def Let_def case_prod_beta world_wfD
      intro!: world_wf_tracker move_to_wf move_chat_wf world_wf_update_other split: option.split)

lemma onChatId_wf [wf_intros]: "world_wf w \<Longrightarrow> world_wf (snd (onChatId i t ctx w))"
  by (simp add: onChatId_def adoptRealChatId_wf)

lemma reconcile_end_wf [wf_intros]:
  assumes "world_wf w"
  shows "world_wf (snd (snd (reconcileUnknownOutcome_end dm nano now r ctx w)))"
proof -
  have "world_wf (snd (snd (case reconciled_conversation r of
      None \<Rightarrow> (True, ctx, w) | Some i \<Rightarrow> adoptRealChatId i None ctx w)))"
    using assms by (simp add: adoptRealChatId_wf split: option.split)
  then show ?thesis using assms
    by (auto simp: reconcileUnknownOutcome_end_def Let_def case_prod_beta
        intro!: wf_intros split: reconciliation.split)
qed

lemma sendMessage_finally_wf [wf_intros]: "world_wf w \<Longrightarrow> world_wf (sendMessage_finally ctx w)"
  by (simp add: sendMessage_finally_def Let_def world_wf_tracker clearController_wf
      finish_request_wf world_wfD)

lemma sendMessage_begin_wf [wf_intros]:
  assumes "world_wf w"
  shows "world_wf (snd (sendMessage_begin tn un att now s mo opts w))"
proof -
  note [simp] = activity_wf_def new_chat_def send_to_existing_def Let_def
  have w1: "world_wf (w\<lparr>messageStreamRequests := snd (start_request k (messageStreamRequests w)),
      aborted := a, controllerCount := Suc (controllerCount w),
      abortControllers := js_set k (controllerCount w) (abortControllers w)\<rparr>)" for k a
    using assms
    by (auto simp: world_wf_def refs_wf_def less_SucI start_request_wf [simplified])
  have existing: "world_wf v \<Longrightarrow> world_wf (updateChat k (send_to_existing b tr m now) v)" for v k b tr m
    by (erule world_wf_updateChat) simp_all
  have new: "world_wf v \<Longrightarrow> world_wf (v\<lparr>chats := js_set k (new_chat k s now d m) (chats v)\<rparr>)" for v k d m
    by (erule world_wf_set_chat) (simp_all add: blank_chat_def)
  show ?thesis
    using assms new [OF w1] existing [OF w1]
    by (simp add: sendMessage_begin_def case_prod_beta del: send_to_existing_def new_chat_def)
qed

lemma retryMessage_prepare_wf [wf_intros]:
  "world_wf w \<Longrightarrow> world_wf (snd (retryMessage_prepare e w))"
  by (auto simp: retryMessage_prepare_def world_wf_def intro!: wf_intros split: option.split)

lemma retryMessage_begin_wf [wf_intros]:
  assumes "world_wf w"
  shows "world_wf (snd (retryMessage_begin tn un att now e w))"
  using retryMessage_prepare_wf [OF assms, of e]
  by (auto simp: retryMessage_begin_def intro: sendMessage_begin_wf
      split: prod.split option.split)

end
