(* ===== verification/ChatSystem.thy ===== *)
theory ChatSystem
  imports ChatInvariant
begin

text \<open>
  The chat client as a system: the store, the message streams that are running or have
  ended, and the deletions waiting for their answer. An action is anything that can happen
  next: the user calls an action of the store, an answer of the server arrives, an event of
  a stream is dispatched, a timer fires, a stream ends. Every interleaving of actions is a
  run of the system. What the server answers, and which request an answer belongs to, is not
  restricted beyond what the code itself checks, so the theorems hold for every server.
\<close>

section \<open>One stream\<close>

datatype stream_event =
    ChatIdEvent ident "string option"
  | TitleEvent ident string
  | AgentStageEvent agent_stage_event
  | ToolCallEvent tool_call_event
  | ThinkingEvent thinking_event
  | AssistantEvent assistant_payload
  | GroundingEvent ident "source_used list" grounding_status
  | ErrorEvent bool

datatype stream_phase = Streaming | Reconciling | Ended

text \<open>\<open>run_timers\<close> are the delayed tool updates that have not been applied.\<close>

record stream_run =
  run_ctx :: send_ctx
  run_phase :: stream_phase
  run_timers :: "tool_update list"

text \<open>
  The callbacks object \<open>sendMessage\<close> passes to the stream reader: which callback takes
  which event. \<open>number_string\<close>, \<open>now\<close> and \<open>nano\<close> are what the language and its clock give.
\<close>

fun handle_event ::
  "(number \<Rightarrow> string) \<Rightarrow> number \<Rightarrow> string \<Rightarrow> stream_event \<Rightarrow> send_ctx \<Rightarrow> chat_world \<Rightarrow>
   js_error + (tool_update list \<times> send_ctx \<times> chat_world)" where
  "handle_event ns now nano (ChatIdEvent i title) ctx w =
     (let (ctx1, w1) = onChatId i title ctx w in Inr ([], ctx1, w1))"
| "handle_event ns now nano (TitleEvent i title) ctx w = Inr ([], ctx, onTitleUpdate i title w)"
| "handle_event ns now nano (AgentStageEvent e) ctx w = Inr ([], ctx, onAgentStage ns now e ctx w)"
| "handle_event ns now nano (ToolCallEvent e) ctx w =
     (let (delayed, ctx1, w1) = onToolCall ns now e ctx w
      in Inr (case delayed of None \<Rightarrow> [] | Some (u, _) \<Rightarrow> [u], ctx1, w1))"
| "handle_event ns now nano (ThinkingEvent e) ctx w =
     (let (ctx1, w1) = onThinking ns nano e ctx w in Inr ([], ctx1, w1))"
| "handle_event ns now nano (AssistantEvent p) ctx w =
     map_sum id (\<lambda>(_, ctx1, w1). ([], ctx1, w1)) (onAssistantMessage now p ctx w)"
| "handle_event ns now nano (GroundingEvent m ss s) ctx w =
     Inr ([], ctx, onGroundingSources m ss s ctx w)"
| "handle_event ns now nano (ErrorEvent retryable) ctx w =
     map_sum id (\<lambda>(ctx1, w1). ([], ctx1, w1)) (onError nano now retryable ctx w)"

text \<open>
  The stream reader returns or throws: the \<open>catch\<close> and \<open>finally\<close> of \<open>sendMessage\<close>. While
  the outcome is being asked for, the \<open>finally\<close> waits.
\<close>

definition end_stream ::
  "js_error + unit \<Rightarrow> stream_run \<Rightarrow> chat_world \<Rightarrow> stream_run \<times> chat_world" where
  "end_stream result run w =
     (if sendMessage_settle result (run_ctx run) w
      then (run\<lparr>run_phase := Reconciling\<rparr>, w)
      else (run\<lparr>run_phase := Ended\<rparr>, sendMessage_finally (run_ctx run) w))"

definition dispatch_event ::
  "(number \<Rightarrow> string) \<Rightarrow> number \<Rightarrow> string \<Rightarrow> stream_event \<Rightarrow> stream_run \<Rightarrow> chat_world \<Rightarrow>
   stream_run \<times> chat_world" where
  "dispatch_event ns now nano e run w =
     (if run_phase run \<noteq> Streaming then (run, w)
      else (case handle_event ns now nano e (run_ctx run) w of
          Inl err \<Rightarrow> end_stream (Inl err) run w
        | Inr (timers, ctx1, w1) \<Rightarrow>
            (run\<lparr>run_ctx := ctx1, run_timers := run_timers run @ timers\<rparr>, w1)))"

definition fire_timer :: "nat \<Rightarrow> stream_run \<Rightarrow> chat_world \<Rightarrow> stream_run \<times> chat_world" where
  "fire_timer k run w =
     (if k < length (run_timers run)
      then (run\<lparr>run_timers := take k (run_timers run) @ drop (Suc k) (run_timers run)\<rparr>,
            applyToolUpdate (run_timers run ! k) (run_ctx run) w)
      else (run, w))"

definition close_stream :: "js_error + unit \<Rightarrow> stream_run \<Rightarrow> chat_world \<Rightarrow> stream_run \<times> chat_world" where
  "close_stream result run w =
     (if run_phase run = Streaming then end_stream result run w else (run, w))"

definition finish_reconciliation ::
  "(string \<Rightarrow> number) \<Rightarrow> string \<Rightarrow> number \<Rightarrow> reconciliation \<Rightarrow> stream_run \<Rightarrow> chat_world \<Rightarrow>
   stream_run \<times> chat_world" where
  "finish_reconciliation dm nano now r run w =
     (if run_phase run \<noteq> Reconciling then (run, w)
      else
        let (_, ctx1, w1) = reconcileUnknownOutcome_end dm nano now r (run_ctx run) w
        in (run\<lparr>run_ctx := ctx1, run_phase := Ended\<rparr>, sendMessage_finally ctx1 w1))"

section \<open>The system\<close>

datatype store_action =
    LoadChats
  | LoadChatsAnswer "string option + chat_list_item list"
  | SelectChat "ident option"
  | SelectChatAnswer string number ident nat "js_error + chat_detail"
  | LoadTree ident
  | TreeAnswer ident nat nat "js_error + tree_response"
  | SetActiveBranch ident
  | SetActiveBranchAnswer string number ident "js_error + chat_detail"
  | ClearCurrentChat
  | AbortChat "ident option"
  | MarkCurrentAsRead
  | TitleAnswer ident string
  | SetDraft "ident option" string
  | RetryGrounding ident
  | RetryGroundingAnswer ident ident "js_error + grounding_response"
  | LoadFeedback ident
  | LoadFeedbackAnswer ident "js_error + feedback list"
  | InitializeFeedback "(ident \<times> feedback list) list"
  | SubmitFeedback ident
  | SubmitFeedbackAnswer ident "js_error + feedback"
  | RemoveFeedback ident
  | RemoveFeedbackAnswer ident "feedback list" "js_error + unit"
  | LoadActivityLog ident
  | LoadActivityLogAnswer ident "log_entry list"

fun store_step :: "(string \<Rightarrow> number) \<Rightarrow> store_action \<Rightarrow> chat_world \<Rightarrow> chat_world" where
  "store_step dm LoadChats w = loadChats_begin w"
| "store_step dm (LoadChatsAnswer r) w = loadChats_end dm r w"
| "store_step dm (SelectChat i) w = snd (snd (selectChat_begin i w))"
| "store_step dm (SelectChatAnswer nano now i req r) w = selectChat_end dm nano now i req r w"
| "store_step dm (LoadTree i) w = snd (loadConversationTree_begin i w)"
| "store_step dm (TreeAnswer i c g r) w = fetchAndApplyConversationTree_end i (c, g) r w"
| "store_step dm (SetActiveBranch i) w = setActiveBranch_begin i w"
| "store_step dm (SetActiveBranchAnswer nano now i r) w =
     (case setActiveBranch_end dm nano now i r w of Inl _ \<Rightarrow> w | Inr (_, v) \<Rightarrow> v)"
| "store_step dm ClearCurrentChat w = clearCurrentChat w"
| "store_step dm (AbortChat i) w = abortChat i w"
| "store_step dm MarkCurrentAsRead w = markCurrentAsRead w"
| "store_step dm (TitleAnswer i t) w = renameChatTitle_end i t w"
| "store_step dm (SetDraft i d) w = setDraft i d w"
| "store_step dm (RetryGrounding m) w = snd (retryGroundingSources_begin m w)"
| "store_step dm (RetryGroundingAnswer i m r) w = snd (retryGroundingSources_end i m r w)"
| "store_step dm (LoadFeedback m) w = snd (loadMessageFeedback_begin m w)"
| "store_step dm (LoadFeedbackAnswer m r) w = loadMessageFeedback_end m r w"
| "store_step dm (InitializeFeedback es) w = initializeMessageFeedback es w"
| "store_step dm (SubmitFeedback m) w = snd (submitMessageFeedback_begin m w)"
| "store_step dm (SubmitFeedbackAnswer m r) w = submitMessageFeedback_end m r w"
| "store_step dm (RemoveFeedback m) w = snd (removeMessageFeedback_begin m w)"
| "store_step dm (RemoveFeedbackAnswer m l r) w = removeMessageFeedback_end m l r w"
| "store_step dm (LoadActivityLog m) w = snd (loadMessageActivityLog_begin m w)"
| "store_step dm (LoadActivityLogAnswer m es) w = hydrateMessageActivityLogFromTrace_end m es w"

record chat_sys =
  sys_world :: chat_world
  sys_runs :: "stream_run list"
  sys_deletions :: "(ident \<times> chat option) list"

datatype chat_action =
    Store store_action
  | Delete ident
  | DeleteAnswer nat "js_error + unit"
  | Send string string ident number string "model_overrides option" send_options
  | Retry string string ident number ident
  | Event nat number string stream_event
  | Timer nat nat
  | Close nat "js_error + unit"
  | Reconcile nat string number reconciliation

definition add_run :: "send_ctx option \<times> chat_world \<Rightarrow> chat_sys \<Rightarrow> chat_sys" where
  "add_run r s = s\<lparr>sys_world := snd r,
     sys_runs := sys_runs s @ (case fst r of None \<Rightarrow> []
       | Some ctx \<Rightarrow> [\<lparr>run_ctx = ctx, run_phase = Streaming, run_timers = []\<rparr>])\<rparr>"

definition step_run ::
  "nat \<Rightarrow> (stream_run \<Rightarrow> chat_world \<Rightarrow> stream_run \<times> chat_world) \<Rightarrow> chat_sys \<Rightarrow> chat_sys" where
  "step_run n f s =
     (if n < length (sys_runs s)
      then let (run, w) = f (sys_runs s ! n) (sys_world s)
           in s\<lparr>sys_world := w, sys_runs := (sys_runs s)[n := run]\<rparr>
      else s)"

fun perform ::
  "(string \<Rightarrow> number) \<Rightarrow> (number \<Rightarrow> string) \<Rightarrow> chat_action \<Rightarrow> chat_sys \<Rightarrow> chat_sys" where
  "perform dm ns (Store a) s = s\<lparr>sys_world := store_step dm a (sys_world s)\<rparr>"
| "perform dm ns (Delete i) s = s\<lparr>sys_world := deleteChat_begin i (sys_world s),
     sys_deletions := sys_deletions s @ [(i, js_get (chats (sys_world s)) i)]\<rparr>"
| "perform dm ns (DeleteAnswer n r) s =
     (if n < length (sys_deletions s)
      then let (i, old) = sys_deletions s ! n
           in s\<lparr>sys_world := snd (deleteChat_end i old r (sys_world s))\<rparr>
      else s)"
| "perform dm ns (Send tn un att now content mo opts) s =
     add_run (sendMessage_begin tn un att now content mo opts (sys_world s)) s"
| "perform dm ns (Retry tn un att now e) s =
     add_run (retryMessage_begin tn un att now e (sys_world s)) s"
| "perform dm ns (Event n now nano e) s = step_run n (dispatch_event ns now nano e) s"
| "perform dm ns (Timer n k) s = step_run n (fire_timer k) s"
| "perform dm ns (Close n r) s = step_run n (close_stream r) s"
| "perform dm ns (Reconcile n nano now r) s = step_run n (finish_reconciliation dm nano now r) s"

definition initial_sys :: chat_sys where
  "initial_sys = \<lparr>sys_world = createInitialChatState, sys_runs = [], sys_deletions = []\<rparr>"

inductive reachable :: "(string \<Rightarrow> number) \<Rightarrow> (number \<Rightarrow> string) \<Rightarrow> chat_sys \<Rightarrow> bool"
  for dm ns where
  start: "reachable dm ns initial_sys"
| step: "reachable dm ns s \<Longrightarrow> reachable dm ns (perform dm ns a s)"

section \<open>How actions change the ownership of streams\<close>

text \<open>
  Between two states, every handle issued stays issued, ownership is not gained, and the
  handles outside \<open>hs\<close> keep their key.
\<close>

definition advances :: "nat set \<Rightarrow> chat_world \<Rightarrow> chat_world \<Rightarrow> bool" where
  "advances hs w v \<longleftrightarrow>
     (let t = messageStreamRequests w; u = messageStreamRequests v
      in (\<forall>h. issued t h \<longrightarrow> issued u h \<and> (is_current u h \<longrightarrow> is_current t h) \<and>
            (h \<notin> hs \<longrightarrow> active_key u h = active_key t h)) \<and>
         controllerCount w \<le> controllerCount v \<and> activityLogCounter w \<le> activityLogCounter v \<and>
         chatDetailRequests w \<le> chatDetailRequests v)"

lemma advances_same: "same_streams w v \<Longrightarrow> advances hs w v"
  by (simp add: same_streams_def advances_def Let_def)

lemma advances_trans: "advances hs u v \<Longrightarrow> advances hs v w \<Longrightarrow> advances hs u w"
  unfolding advances_def Let_def by (auto intro: order_trans)

lemma advances_mono: "advances hs u v \<Longrightarrow> hs \<subseteq> ks \<Longrightarrow> advances ks u v"
  unfolding advances_def Let_def by blast

lemma advances_tracker:
  assumes "tracker_wf (messageStreamRequests w)"
    and "messageStreamRequests v = tracker_step a (messageStreamRequests w)"
    and "\<And>k h. a = MoveTo k h \<Longrightarrow> h \<in> hs"
    and "controllerCount w \<le> controllerCount v" "activityLogCounter w \<le> activityLogCounter v"
      "chatDetailRequests w \<le> chatDetailRequests v"
  shows "advances hs w v"
proof -
  have "active_key (tracker_step a t) h = active_key t h"
    if "issued t h" "\<And>k. a \<noteq> MoveTo k h" for h t
    using that by (cases a)
      (auto simp: tracker_defs issued_def nth_append split: option.split)
  then show ?thesis
    using assms(2-6) tracker_step_issued tracker_step_lost [OF assms(1)]
    by (auto simp: advances_def Let_def)
qed

lemma abortChat_advances: "world_wf w \<Longrightarrow> advances {} w (abortChat i w)"
proof -
  assume wf: "world_wf w"
  have "messageStreamRequests (abortChat i w) =
      (case or_else i (currentChatId w) of None \<Rightarrow> messageStreamRequests w
       | Some k \<Rightarrow> tracker_step (Invalidate k) (messageStreamRequests w))"
    "controllerCount (abortChat i w) = controllerCount w"
    "activityLogCounter (abortChat i w) = activityLogCounter w"
    "chatDetailRequests (abortChat i w) = chatDetailRequests w"
    by (simp_all add: abortChat_def Let_def split: option.split)
  note frame = this
  show ?thesis
  proof (cases "or_else i (currentChatId w)")
    case None
    with frame show ?thesis by (simp add: advances_same same_streams_def)
  next
    case (Some k)
    show ?thesis
      by (rule advances_tracker [where a = "Invalidate k"])
        (use frame Some world_wfD(5) [OF wf] in simp_all)
  qed
qed

lemma sendMessage_finally_advances: "world_wf w \<Longrightarrow> advances {} w (sendMessage_finally ctx w)"
  by (rule advances_tracker [where a = "Finish (sc_handle ctx)"])
    (simp_all add: sendMessage_finally_def Let_def clearCurrentAbortController_def world_wfD)

lemma sendMessage_begin_tracker:
  "messageStreamRequests (snd (sendMessage_begin tn un att now c mo opts w)) =
     (case fst (sendMessage_begin tn un att now c mo opts w) of
        None \<Rightarrow> messageStreamRequests w
      | Some ctx \<Rightarrow> tracker_step (Start (sc_realChatId ctx)) (messageStreamRequests w))"
  "controllerCount w \<le> controllerCount (snd (sendMessage_begin tn un att now c mo opts w))"
  "activityLogCounter (snd (sendMessage_begin tn un att now c mo opts w)) = activityLogCounter w"
  "chatDetailRequests (snd (sendMessage_begin tn un att now c mo opts w)) = chatDetailRequests w"
  by (simp_all add: sendMessage_begin_def Let_def case_prod_beta)

lemma sendMessage_begin_advances:
  assumes "world_wf w"
  shows "advances {} w (snd (sendMessage_begin tn un att now c mo opts w))"
proof (cases "fst (sendMessage_begin tn un att now c mo opts w)")
  case None
  then show ?thesis
    using sendMessage_begin_tracker [where w = w and tn = tn and un = un and att = att and now = now
        and c = c and mo = mo and opts = opts]
    by (auto simp: advances_def Let_def)
next
  case (Some ctx)
  show ?thesis
    by (rule advances_tracker [where a = "Start (sc_realChatId ctx)"])
      (use assms Some sendMessage_begin_tracker in \<open>auto intro: world_wfD\<close>)
qed

text \<open>The context a send creates: its handle is the new one and owns the target chat.\<close>

lemma sendMessage_begin_ctx:
  assumes "fst (sendMessage_begin tn un att now c mo opts w) = Some ctx"
  shows "sc_handle ctx = length (handle_keys (messageStreamRequests w))"
    "sc_controller ctx = controllerCount w"
    "sc_realChatId ctx = sc_targetId ctx"
    "sc_primaryOutcome ctx = OPending"
    "active_key (messageStreamRequests (snd (sendMessage_begin tn un att now c mo opts w)))
       (sc_handle ctx) = Some (sc_targetId ctx)"
    "owns_stream ctx (snd (sendMessage_begin tn un att now c mo opts w))"
    "sc_controller ctx < controllerCount (snd (sendMessage_begin tn un att now c mo opts w))"
  using assms
  by (auto simp: sendMessage_begin_def Let_def case_prod_beta owns_stream_def tracker_defs
      split: if_splits)

lemma retryMessage_prepare_same: "same_streams w (snd (retryMessage_prepare e w))"
  by (simp add: retryMessage_prepare_def same_streams_def split: option.split)

lemma retryMessage_begin_cases:
  obtains "retryMessage_begin tn un att now e w = (None, w)"
  | retry w1 where "retryMessage_prepare e w = (Some retry, w1)"
    "retryMessage_begin tn un att now e w = sendMessage_begin tn un att now (rr_content retry)
       (rr_modelOverrides retry) (rr_options retry) w1"
proof (cases "fst (retryMessage_prepare e w)")
  case None
  then have "retryMessage_prepare e w = (None, w)"
    by (auto simp: retryMessage_prepare_def split: option.splits)
  then show ?thesis using that(1) by (simp add: retryMessage_begin_def)
next
  case (Some retry)
  then obtain w1 where "retryMessage_prepare e w = (Some retry, w1)"
    by (metis prod.collapse)
  then show ?thesis using that(2) by (simp add: retryMessage_begin_def)
qed

lemma adopt_advances:
  assumes "world_wf w"
  shows "advances {sc_handle ctx} w (snd (snd (adoptRealChatId i t ctx w)))"
proof (cases "owns_stream ctx w")
  case False
  then show ?thesis by (simp add: adoptRealChatId_def advances_same)
next
  case True
  show ?thesis
    by (rule advances_tracker [where a = "MoveTo i (sc_handle ctx)"])
      (use True assms in \<open>auto simp: adoptRealChatId_def Let_def case_prod_beta move_chat_def
         world_wfD split: option.split\<close>)
qed

lemma reconcile_end_advances:
  assumes "world_wf w"
  shows "advances {sc_handle ctx} w (snd (snd (reconcileUnknownOutcome_end dm nano now r ctx w)))"
proof -
  have "advances {sc_handle ctx} w (snd (snd (case reconciled_conversation r of
      None \<Rightarrow> (True, ctx, w) | Some i \<Rightarrow> adoptRealChatId i None ctx w)))"
    using assms by (auto simp: adopt_advances advances_same split: option.split)
  then show ?thesis
    by (auto simp: reconcileUnknownOutcome_end_def Let_def case_prod_beta advances_same
        intro: advances_trans [OF _ advances_same] stream_frames split: reconciliation.split)
qed

section \<open>The invariant of the system\<close>

text \<open>
  A stream's handle is issued and no other stream has it, its controller exists, and while
  it is current, the key its token is stored under is the chat it writes to; a stream that
  has ended owns nothing. A chat waiting to be restored is one the store held.
\<close>

definition run_wf :: "chat_world \<Rightarrow> stream_run \<Rightarrow> bool" where
  "run_wf w run \<longleftrightarrow>
     issued (messageStreamRequests w) (sc_handle (run_ctx run)) \<and>
     sc_controller (run_ctx run) < controllerCount w \<and>
     (owns_stream (run_ctx run) w \<longrightarrow> run_phase run \<noteq> Ended \<and>
        active_key (messageStreamRequests w) (sc_handle (run_ctx run)) =
        Some (sc_realChatId (run_ctx run)))"

definition deletion_wf :: "chat_world \<Rightarrow> ident \<times> chat option \<Rightarrow> bool" where
  "deletion_wf w d \<longleftrightarrow> (case snd d of None \<Rightarrow> True
     | Some c \<Rightarrow> ch_id c = fst d \<and> activity_wf (activityLogCounter w) c)"

definition run_handles :: "chat_sys \<Rightarrow> nat list" where
  "run_handles s = map (\<lambda>run. sc_handle (run_ctx run)) (sys_runs s)"

definition sys_wf :: "chat_sys \<Rightarrow> bool" where
  "sys_wf s \<longleftrightarrow> world_wf (sys_world s) \<and>
     (\<forall>run \<in> set (sys_runs s). run_wf (sys_world s) run) \<and>
     (\<forall>d \<in> set (sys_deletions s). deletion_wf (sys_world s) d) \<and>
     distinct (run_handles s)"

lemma run_wf_advances:
  assumes "advances hs w v" "run_wf w run" "sc_handle (run_ctx run) \<notin> hs"
  shows "run_wf v run"
  using assms by (auto simp: advances_def run_wf_def owns_stream_def Let_def)

lemma deletion_wf_advances:
  assumes "advances hs w v" "deletion_wf w d"
  shows "deletion_wf v d"
proof (cases "snd d")
  case (Some c)
  have "activityLogCounter w \<le> activityLogCounter v"
    using assms(1) by (simp add: advances_def Let_def)
  with assms(2) Some show ?thesis
    by (simp add: deletion_wf_def) (erule (1) activity_wf_mono [OF conjunct2])
qed (simp add: deletion_wf_def)

lemma runs_wf_advances:
  "advances {} w v \<Longrightarrow> \<forall>run \<in> R. run_wf w run \<Longrightarrow> \<forall>run \<in> R. run_wf v run"
  by (rule ballI) (erule run_wf_advances, erule (1) bspec, simp)

lemma deletions_wf_advances:
  "advances hs w v \<Longrightarrow> \<forall>d \<in> D. deletion_wf w d \<Longrightarrow> \<forall>d \<in> D. deletion_wf v d"
  by (rule ballI) (erule deletion_wf_advances, erule (1) bspec)

lemma sys_wf_world:
  assumes "sys_wf s" "advances {} (sys_world s) v" "world_wf v"
  shows "sys_wf (s\<lparr>sys_world := v\<rparr>)"
  using assms runs_wf_advances [OF assms(2), of "set (sys_runs s)"]
    deletions_wf_advances [OF assms(2), of "set (sys_deletions s)"]
  by (simp add: sys_wf_def run_handles_def)

lemma sys_wf_deletion:
  "sys_wf s \<Longrightarrow> deletion_wf (sys_world s) d \<Longrightarrow>
   sys_wf (s\<lparr>sys_deletions := sys_deletions s @ [d]\<rparr>)"
  by (auto simp: sys_wf_def run_handles_def)

text \<open>One stream acts: it may move its own handle, and stays the owner it was.\<close>

definition run_step_ok ::
  "stream_run \<Rightarrow> chat_world \<Rightarrow> stream_run \<times> chat_world \<Rightarrow> bool" where
  "run_step_ok run w r \<longleftrightarrow> world_wf (snd r) \<and>
     advances {sc_handle (run_ctx run)} w (snd r) \<and>
     sc_handle (run_ctx (fst r)) = sc_handle (run_ctx run) \<and> run_wf (snd r) (fst r)"

lemma step_run_wf:
  assumes wf: "sys_wf s"
    and ok: "\<And>run. run \<in> set (sys_runs s) \<Longrightarrow> run_step_ok run (sys_world s) (f run (sys_world s))"
  shows "sys_wf (step_run n f s)"
proof (cases "n < length (sys_runs s)")
  case False
  then show ?thesis using wf by (simp add: step_run_def)
next
  case True
  define run where "run = sys_runs s ! n"
  obtain run' v where fr: "f run (sys_world s) = (run', v)" by fastforce
  have "run \<in> set (sys_runs s)" using True by (simp add: run_def)
  from ok [OF this] fr have world: "world_wf v"
    and adv: "advances {sc_handle (run_ctx run)} (sys_world s) v"
    and handle: "sc_handle (run_ctx run') = sc_handle (run_ctx run)"
    and run': "run_wf v run'"
    by (auto simp: run_step_ok_def)
  have step: "step_run n f s = s\<lparr>sys_world := v, sys_runs := (sys_runs s)[n := run']\<rparr>"
    using True fr by (simp add: step_run_def run_def)
  have handles: "run_handles (step_run n f s) = run_handles s"
    using True handle by (simp add: step run_handles_def run_def list_eq_iff_nth_eq nth_list_update)
  have others: "run_wf v r" if "r \<in> set ((sys_runs s)[n := run'])" for r
  proof -
    from that obtain k where k: "k < length (sys_runs s)" "r = (sys_runs s)[n := run'] ! k"
      by (auto simp: in_set_conv_nth)
    show ?thesis
    proof (cases "k = n")
      case True
      with k run' show ?thesis by simp
    next
      case False
      have "sc_handle (run_ctx (sys_runs s ! k)) \<noteq> sc_handle (run_ctx run)"
        using wf False k(1) \<open>n < length (sys_runs s)\<close>
        by (simp add: sys_wf_def run_handles_def run_def distinct_conv_nth)
      then have "run_wf v (sys_runs s ! k)"
        using wf adv k(1) by (intro run_wf_advances [OF adv]) (auto simp: sys_wf_def)
      with k False show ?thesis by simp
    qed
  qed
  show ?thesis
    using wf world others handles deletions_wf_advances [OF adv, of "set (sys_deletions s)"]
    by (simp add: sys_wf_def step)
qed

text \<open>A new stream joins, with the handle the send took.\<close>

lemma add_run_wf:
  assumes "sys_wf s" "world_wf v" "advances {} (sys_world s) v"
    and ctx: "\<And>ctx. c = Some ctx \<Longrightarrow> run_wf v \<lparr>run_ctx = ctx, run_phase = Streaming, run_timers = []\<rparr> \<and>
      \<not> issued (messageStreamRequests (sys_world s)) (sc_handle ctx)"
  shows "sys_wf (add_run (c, v) s)"
proof -
  have new: "sc_handle ctx \<notin> set (run_handles s)" if "c = Some ctx" for ctx
    using that ctx assms(1) by (auto simp: sys_wf_def run_wf_def run_handles_def)
  show ?thesis
    using assms(1,2) ctx new runs_wf_advances [OF assms(3), of "set (sys_runs s)"]
      deletions_wf_advances [OF assms(3), of "set (sys_deletions s)"]
    by (cases c) (simp_all add: sys_wf_def add_run_def run_handles_def)
qed

lemma send_ok:
  assumes "world_wf w" "fst (sendMessage_begin tn un att now c mo opts w) = Some ctx"
  shows "run_wf (snd (sendMessage_begin tn un att now c mo opts w))
      \<lparr>run_ctx = ctx, run_phase = Streaming, run_timers = []\<rparr> \<and>
    \<not> issued (messageStreamRequests w) (sc_handle ctx)"
  using sendMessage_begin_ctx [OF assms(2)]
  by (auto simp: run_wf_def issued_def active_key_less)

section \<open>Every action keeps it\<close>

lemma store_step_wf: "world_wf w \<Longrightarrow> world_wf (store_step dm a w)"
  by (cases a) (auto intro: wf_intros setActiveBranch_end_wf split: sum.split)

lemma store_step_advances: "world_wf w \<Longrightarrow> advances {} w (store_step dm a w)"
  by (cases a)
    (auto intro: advances_same stream_frames setActiveBranch_end_streams abortChat_advances
      split: sum.split)

lemma handle_event_InrE:
  assumes "handle_event ns now nano e ctx w = Inr (ts, ctx', v)"
  obtains (ChatId) i t where "e = ChatIdEvent i t" "onChatId i t ctx w = (ctx', v)"
  | (Title) i t where "e = TitleEvent i t" "ctx' = ctx" "v = onTitleUpdate i t w"
  | (Stage) a where "e = AgentStageEvent a" "ctx' = ctx" "v = onAgentStage ns now a ctx w"
  | (Tool) c d where "e = ToolCallEvent c" "onToolCall ns now c ctx w = (d, ctx', v)"
  | (Thinking) t where "e = ThinkingEvent t" "onThinking ns nano t ctx w = (ctx', v)"
  | (Answer) p t where "e = AssistantEvent p" "onAssistantMessage now p ctx w = Inr (t, ctx', v)"
  | (Grounding) m ss s where "e = GroundingEvent m ss s" "ctx' = ctx"
      "v = onGroundingSources m ss s ctx w"
  | (Failure) r where "e = ErrorEvent r" "onError nano now r ctx w = Inr (ctx', v)"
  using assms
proof (cases e)
  case (AssistantEvent p)
  with assms that(6) show ?thesis by (cases "onAssistantMessage now p ctx w") auto
next
  case (ErrorEvent r)
  with assms that(8) show ?thesis by (cases "onError nano now r ctx w") auto
qed (use assms in \<open>auto simp: Let_def split: prod.splits intro: that\<close>)

text \<open>The context keeps its handle and controller; only adoption changes the chat it writes to.\<close>

lemma context_kept:
  "onToolCall ns now c ctx w = (d, ctx', v) \<Longrightarrow> sc_handle ctx' = sc_handle ctx \<and>
     sc_controller ctx' = sc_controller ctx \<and> sc_realChatId ctx' = sc_realChatId ctx"
  "onThinking ns nano t ctx w = (ctx', v) \<Longrightarrow> sc_handle ctx' = sc_handle ctx \<and>
     sc_controller ctx' = sc_controller ctx \<and> sc_realChatId ctx' = sc_realChatId ctx"
  "onAssistantMessage now p ctx w = Inr (tr, ctx', v) \<Longrightarrow> sc_handle ctx' = sc_handle ctx \<and>
     sc_controller ctx' = sc_controller ctx \<and> sc_realChatId ctx' = sc_realChatId ctx"
  "onError nano now r ctx w = Inr (ctx', v) \<Longrightarrow> sc_handle ctx' = sc_handle ctx \<and>
     sc_controller ctx' = sc_controller ctx \<and> sc_realChatId ctx' = sc_realChatId ctx"
  by (auto simp: onToolCall_def onThinking_def onAssistantMessage_def onError_def Let_def
      case_prod_beta split: if_splits sum.splits)

lemma adopt_context:
  "sc_handle (fst (snd (adoptRealChatId i t ctx w))) = sc_handle ctx"
  "sc_controller (fst (snd (adoptRealChatId i t ctx w))) = sc_controller ctx"
  by (simp_all add: adoptRealChatId_def Let_def case_prod_beta split: option.split)

text \<open>While it owns its stream, an adopting context writes to the chat it adopted.\<close>

lemma adopt_owner:
  assumes wf: "tracker_wf (messageStreamRequests w)"
    and key: "active_key (messageStreamRequests w) (sc_handle ctx) = Some (sc_realChatId ctx)"
    and own: "owns_stream (fst (snd (adoptRealChatId i t ctx w))) (snd (snd (adoptRealChatId i t ctx w)))"
  shows "active_key (messageStreamRequests (snd (snd (adoptRealChatId i t ctx w)))) (sc_handle ctx) =
    Some (sc_realChatId (fst (snd (adoptRealChatId i t ctx w))))"
proof (cases "owns_stream ctx w")
  case False
  with key show ?thesis by (simp add: adoptRealChatId_def)
next
  case True
  let ?t = "messageStreamRequests w"
  have t: "messageStreamRequests (snd (snd (adoptRealChatId i t ctx w))) =
      snd (move_to i (sc_handle ctx) ?t)"
    using True by (simp add: adoptRealChatId_def Let_def case_prod_beta move_chat_def split: option.split)
  with own have "is_current (snd (move_to i (sc_handle ctx) ?t)) (sc_handle ctx)"
    by (simp add: owns_stream_def adopt_context)
  then have moved: "fst (move_to i (sc_handle ctx) ?t)" by (simp add: move_to_fst)
  then have real: "sc_realChatId (fst (snd (adoptRealChatId i t ctx w))) = i"
    using True by (simp add: adoptRealChatId_def Let_def case_prod_beta split: option.split)
  have "active_key (snd (move_to i (sc_handle ctx) ?t)) (sc_handle ctx) = Some i"
    using key by (cases "i = sc_realChatId ctx") (simp_all add: move_to_same active_key_move_to)
  then show ?thesis by (simp add: t real)
qed

lemma adopt_run_wf:
  assumes wf: "world_wf w" and run: "run_wf w run" and phase: "run_phase run \<noteq> Ended"
  shows "run_wf (snd (snd (adoptRealChatId i t (run_ctx run) w)))
    (run\<lparr>run_ctx := fst (snd (adoptRealChatId i t (run_ctx run) w))\<rparr>)"
proof -
  have "owns_stream (run_ctx run) w"
    if "owns_stream (fst (snd (adoptRealChatId i t (run_ctx run) w)))
      (snd (snd (adoptRealChatId i t (run_ctx run) w)))"
    using that adopt_advances [OF wf, of "run_ctx run" i t] run
    by (auto simp: owns_stream_def adopt_context advances_def run_wf_def Let_def)
  then show ?thesis
    using run phase adopt_advances [OF wf, of "run_ctx run" i t] adopt_owner world_wfD(5) [OF wf]
    by (auto simp: run_wf_def adopt_context advances_def Let_def)
qed

lemma run_wf_same:
  assumes "run_wf w run" "same_streams w v"
    "sc_handle ctx' = sc_handle (run_ctx run) \<and> sc_controller ctx' = sc_controller (run_ctx run) \<and>
     sc_realChatId ctx' = sc_realChatId (run_ctx run)"
  shows "run_wf v (run\<lparr>run_ctx := ctx', run_timers := ts\<rparr>)"
  using assms by (auto simp: run_wf_def same_streams_def owns_stream_def)

text \<open>Every event of a stream that is running is a step of that stream.\<close>

lemma handle_event_ok:
  assumes wf: "world_wf w" and run: "run_wf w run" and phase: "run_phase run \<noteq> Ended"
    and h: "handle_event ns now nano e (run_ctx run) w = Inr (ts, ctx', v)"
  shows "run_step_ok run w (run\<lparr>run_ctx := ctx', run_timers := us\<rparr>, v)"
proof -
  have same: ?thesis if "same_streams w v" "world_wf v"
    "sc_handle ctx' = sc_handle (run_ctx run) \<and> sc_controller ctx' = sc_controller (run_ctx run) \<and>
     sc_realChatId ctx' = sc_realChatId (run_ctx run)"
    using that run_wf_same [OF run that(1,3)] by (simp add: run_step_ok_def advances_same)
  from h show ?thesis
  proof (cases rule: handle_event_InrE)
    case (ChatId i t)
    then have "ctx' = fst (snd (adoptRealChatId i t (run_ctx run) w))"
      "v = snd (snd (adoptRealChatId i t (run_ctx run) w))"
      by (simp_all add: onChatId_def)
    then show ?thesis
      using adopt_run_wf [OF wf run phase, of i t] adopt_advances [OF wf, of "run_ctx run" i t]
        adoptRealChatId_wf [OF wf, of i t "run_ctx run"]
      by (simp add: run_step_ok_def adopt_context run_wf_def)
  next
    case Title
    then show ?thesis by (intro same) (auto intro: stream_frames wf_intros wf)
  next
    case Stage
    then show ?thesis by (intro same) (auto intro: stream_frames wf_intros wf)
  next
    case Tool
    then show ?thesis
      using onToolCall_streams [of w] onToolCall_wf [OF wf] context_kept(1)
      by (intro same) (metis snd_conv)+
  next
    case Thinking
    then show ?thesis
      using onThinking_streams [of w] onThinking_wf [OF wf] context_kept(2)
      by (intro same) (metis snd_conv)+
  next
    case Answer
    then show ?thesis
      using onAssistantMessage_streams onAssistantMessage_wf [OF wf] context_kept(3)
      by (intro same) blast+
  next
    case Grounding
    then show ?thesis by (intro same) (auto intro: stream_frames wf_intros wf)
  next
    case Failure
    then show ?thesis
      using onError_streams onError_wf [OF wf] context_kept(4) by (intro same) blast+
  qed
qed

lemma finally_not_owned: "\<not> owns_stream ctx (sendMessage_finally ctx w)"
  using finish_supersedes [of "sc_handle ctx" "messageStreamRequests w"]
  by (simp add: owns_stream_def sendMessage_finally_def Let_def clearCurrentAbortController_def)

lemma finally_ok:
  assumes "world_wf w" "run_wf w run"
  shows "run_step_ok run w (run\<lparr>run_phase := Ended\<rparr>, sendMessage_finally (run_ctx run) w)"
proof -
  let ?v = "sendMessage_finally (run_ctx run) w"
  have adv: "advances {sc_handle (run_ctx run)} w ?v"
    using advances_mono [OF sendMessage_finally_advances [OF assms(1)]] by simp
  have "run_wf ?v (run\<lparr>run_phase := Ended\<rparr>)"
    using adv assms(2) finally_not_owned [of "run_ctx run" w]
    by (auto simp: run_wf_def advances_def Let_def)
  with adv sendMessage_finally_wf [OF assms(1)] show ?thesis by (simp add: run_step_ok_def)
qed

lemma run_step_ok_refl:
  "world_wf w \<Longrightarrow> run_wf w run \<Longrightarrow> run_step_ok run w (run, w)"
  by (simp add: run_step_ok_def advances_same)

lemma end_stream_ok:
  assumes "world_wf w" "run_wf w run" "run_phase run \<noteq> Ended"
  shows "run_step_ok run w (end_stream result run w)"
  using assms finally_ok [OF assms(1,2)]
  by (simp add: end_stream_def) (simp add: run_step_ok_def run_wf_def advances_same)

lemma dispatch_event_ok:
  assumes "world_wf w" "run_wf w run"
  shows "run_step_ok run w (dispatch_event ns now nano e run w)"
proof (cases "run_phase run = Streaming")
  case False
  then show ?thesis using run_step_ok_refl [OF assms] by (simp add: dispatch_event_def)
next
  case True
  then show ?thesis
    using end_stream_ok [OF assms] handle_event_ok [OF assms]
    by (auto simp: dispatch_event_def split: sum.split)
qed

lemma fire_timer_ok:
  assumes "world_wf w" "run_wf w run"
  shows "run_step_ok run w (fire_timer k run w)"
  using assms run_step_ok_refl [OF assms] applyToolUpdate_wf applyToolUpdate_streams
    run_wf_same [OF assms(2) applyToolUpdate_streams, of "run_ctx run"]
  by (simp add: fire_timer_def run_step_ok_def advances_same)

lemma close_stream_ok:
  assumes "world_wf w" "run_wf w run"
  shows "run_step_ok run w (close_stream result run w)"
  using end_stream_ok [OF assms] run_step_ok_refl [OF assms] by (simp add: close_stream_def)

lemma reconcile_end_run_wf:
  assumes wf: "world_wf w" and run: "run_wf w run" and phase: "run_phase run \<noteq> Ended"
    and r: "reconcileUnknownOutcome_end dm nano now r (run_ctx run) w = (t, ctx1, w1)"
  shows "sc_handle ctx1 = sc_handle (run_ctx run)" "sc_controller ctx1 = sc_controller (run_ctx run)"
  using r adopt_context [where ctx = "run_ctx run" and w = w and t = None]
  by (auto simp: reconcileUnknownOutcome_end_def Let_def case_prod_beta
      split: if_splits option.splits reconciliation.splits) (metis fst_conv)+

lemma finish_reconciliation_ok:
  assumes wf: "world_wf w" and run: "run_wf w run"
  shows "run_step_ok run w (finish_reconciliation dm nano now r run w)"
proof (cases "run_phase run = Reconciling")
  case False
  then show ?thesis using run_step_ok_refl [OF assms] by (simp add: finish_reconciliation_def)
next
  case True
  obtain t ctx1 w1 where eq: "reconcileUnknownOutcome_end dm nano now r (run_ctx run) w = (t, ctx1, w1)"
    using prod_cases3 by blast
  have phase: "run_phase run \<noteq> Ended" using True by simp
  note kept = reconcile_end_run_wf [OF wf run phase eq]
  have w1: "world_wf w1" "advances {sc_handle (run_ctx run)} w w1"
    using reconcile_end_wf [OF wf, of dm nano now r "run_ctx run"]
      reconcile_end_advances [OF wf, of "run_ctx run" dm nano now r] eq by simp_all
  have fin: "advances {sc_handle (run_ctx run)} w1 (sendMessage_finally ctx1 w1)"
    using advances_mono [OF sendMessage_finally_advances [OF w1(1)]] by simp
  have "advances {sc_handle (run_ctx run)} w (sendMessage_finally ctx1 w1)"
    using w1(2) fin by (rule advances_trans)
  moreover from this have "run_wf (sendMessage_finally ctx1 w1) (run\<lparr>run_ctx := ctx1, run_phase := Ended\<rparr>)"
    using run finally_not_owned [of ctx1 w1] kept by (auto simp: run_wf_def advances_def Let_def)
  ultimately show ?thesis
    using True eq kept w1 by (simp add: finish_reconciliation_def run_step_ok_def wf_intros)
qed

lemma retryMessage_begin_ok:
  assumes wf: "world_wf w"
  shows "advances {} w (snd (retryMessage_begin tn un att now e w))"
    and "fst (retryMessage_begin tn un att now e w) = Some ctx \<Longrightarrow>
      run_wf (snd (retryMessage_begin tn un att now e w))
        \<lparr>run_ctx = ctx, run_phase = Streaming, run_timers = []\<rparr> \<and>
      \<not> issued (messageStreamRequests w) (sc_handle ctx)"
proof -
  have "advances {} w (snd (retryMessage_begin tn un att now e w)) \<and>
    (fst (retryMessage_begin tn un att now e w) = Some ctx \<longrightarrow>
      run_wf (snd (retryMessage_begin tn un att now e w))
        \<lparr>run_ctx = ctx, run_phase = Streaming, run_timers = []\<rparr> \<and>
      \<not> issued (messageStreamRequests w) (sc_handle ctx))" for ctx
  proof (cases rule: retryMessage_begin_cases [of tn un att now e w])
    case 1
    then show ?thesis by (simp add: advances_same)
  next
    case (2 retry w1)
    have w1: "world_wf w1" "same_streams w w1"
      using retryMessage_prepare_wf [OF wf, of e] retryMessage_prepare_same [of w e] 2(1) by simp_all
    have "messageStreamRequests w1 = messageStreamRequests w"
      using w1(2) by (simp add: same_streams_def)
    then show ?thesis
      using 2(2) send_ok [OF w1(1)] sendMessage_begin_advances [OF w1(1)]
        advances_trans [OF advances_same [OF w1(2)]] by metis
  qed
  then show "advances {} w (snd (retryMessage_begin tn un att now e w))"
    and "fst (retryMessage_begin tn un att now e w) = Some ctx \<Longrightarrow>
      run_wf (snd (retryMessage_begin tn un att now e w))
        \<lparr>run_ctx = ctx, run_phase = Streaming, run_timers = []\<rparr> \<and>
      \<not> issued (messageStreamRequests w) (sc_handle ctx)"
    by blast+
qed

lemma deletion_wf_held:
  assumes "world_wf w"
  shows "deletion_wf (deleteChat_begin i w) (i, js_get (chats w) i)"
  using world_wfD(1,8) [OF assms] activities_wfD chats_wfD simple_streams(2) [of w i]
  by (fastforce simp: deletion_wf_def same_streams_def intro: activity_wf_mono split: option.split)

lemma sys_wfD:
  assumes "sys_wf s"
  shows "world_wf (sys_world s)" "run \<in> set (sys_runs s) \<Longrightarrow> run_wf (sys_world s) run"
    "d \<in> set (sys_deletions s) \<Longrightarrow> deletion_wf (sys_world s) d" "distinct (run_handles s)"
  using assms by (auto simp: sys_wf_def)

lemma perform_wf:
  assumes "sys_wf s"
  shows "sys_wf (perform dm ns a s)"
proof (cases a)
  case (Store b)
  then show ?thesis using assms sys_wfD(1) [OF assms]
    by (simp add: sys_wf_world store_step_advances store_step_wf)
next
  case (Delete i)
  let ?v = "deleteChat_begin i (sys_world s)"
  have "sys_wf (s\<lparr>sys_world := ?v\<rparr>)"
    using assms sys_wfD(1) [OF assms] by (intro sys_wf_world) (auto intro: advances_same stream_frames wf_intros)
  from sys_wf_deletion [OF this] deletion_wf_held [OF sys_wfD(1) [OF assms]]
  show ?thesis by (simp add: Delete)
next
  case (DeleteAnswer n r)
  show ?thesis
  proof (cases "n < length (sys_deletions s)")
    case False
    then show ?thesis using assms by (simp add: DeleteAnswer)
  next
    case True
    obtain i old where d: "sys_deletions s ! n = (i, old)" by fastforce
    then have "deletion_wf (sys_world s) (i, old)"
      using sys_wfD(3) [OF assms] True by (metis nth_mem)
    then have "world_wf (snd (deleteChat_end i old r (sys_world s)))"
      using sys_wfD(1) [OF assms] by (intro deleteChat_end_wf) (auto simp: deletion_wf_def)
    then show ?thesis using assms True d
      by (simp add: DeleteAnswer sys_wf_world advances_same deleteChat_end_streams)
  qed
next
  case (Send tn un att now c mo opts)
  let ?r = "sendMessage_begin tn un att now c mo opts (sys_world s)"
  note w = sys_wfD(1) [OF assms]
  have "sys_wf (add_run (fst ?r, snd ?r) s)"
    using assms sendMessage_begin_wf [OF w] sendMessage_begin_advances [OF w] send_ok [OF w]
    by (rule add_run_wf)
  then show ?thesis by (simp add: Send)
next
  case (Retry tn un att now e)
  let ?r = "retryMessage_begin tn un att now e (sys_world s)"
  note w = sys_wfD(1) [OF assms]
  have "sys_wf (add_run (fst ?r, snd ?r) s)"
    using assms retryMessage_begin_wf [OF w] retryMessage_begin_ok [OF w]
    by (rule add_run_wf)
  then show ?thesis by (simp add: Retry)
next
  case (Event n now nano e)
  then show ?thesis using assms sys_wfD [OF assms] by (simp add: step_run_wf dispatch_event_ok)
next
  case (Timer n k)
  then show ?thesis using assms sys_wfD [OF assms] by (simp add: step_run_wf fire_timer_ok)
next
  case (Close n r)
  then show ?thesis using assms sys_wfD [OF assms] by (simp add: step_run_wf close_stream_ok)
next
  case (Reconcile n nano now r)
  then show ?thesis using assms sys_wfD [OF assms] by (simp add: step_run_wf finish_reconciliation_ok)
qed

lemma initial_wf: "sys_wf initial_sys"
  by (simp add: sys_wf_def initial_sys_def world_wf_initial run_handles_def)

lemma reachable_wf: "reachable dm ns s \<Longrightarrow> sys_wf s"
  by (induction rule: reachable.induct) (auto intro: initial_wf perform_wf)

section \<open>Ownership of the streams of the system\<close>

definition run_owns :: "chat_sys \<Rightarrow> nat \<Rightarrow> bool" where
  "run_owns s n \<longleftrightarrow> n < length (sys_runs s) \<and> owns_stream (run_ctx (sys_runs s ! n)) (sys_world s)"

lemma step_run_other:
  assumes "sys_wf s" "n < length (sys_runs s)"
    and ok: "\<And>run. run \<in> set (sys_runs s) \<Longrightarrow> run_step_ok run (sys_world s) (f run (sys_world s))"
    and own: "run_owns (step_run m f s) n"
  shows "run_owns s n"
proof (cases "m < length (sys_runs s)")
  case False
  then show ?thesis using own by (simp add: step_run_def)
next
  case True
  let ?run = "sys_runs s ! m"
  have step: "run_step_ok ?run (sys_world s) (f ?run (sys_world s))" using ok True by simp
  have issued: "issued (messageStreamRequests (sys_world s)) (sc_handle (run_ctx (sys_runs s ! n)))"
    using sys_wfD(2) [OF assms(1)] assms(2) by (simp add: run_wf_def)
  from own True assms(2) step
  have "owns_stream (run_ctx (sys_runs s ! n)) (snd (f ?run (sys_world s)))"
    by (cases "n = m")
      (auto simp: run_owns_def step_run_def case_prod_beta run_step_ok_def owns_stream_def)
  with step issued assms(2) show ?thesis
    by (auto simp: run_step_ok_def advances_def Let_def run_owns_def owns_stream_def)
qed

lemma add_run_old:
  assumes "sys_wf s" "n < length (sys_runs s)" "advances {} (sys_world s) (snd r)"
    "run_owns (add_run r s) n"
  shows "run_owns s n"
  using assms sys_wfD(2) [OF assms(1), of "sys_runs s ! n"]
  by (auto simp: run_owns_def add_run_def nth_append owns_stream_def advances_def Let_def run_wf_def)

lemma world_step_old:
  assumes "sys_wf s" "n < length (sys_runs s)" "advances {} (sys_world s) v"
    "run_owns (s\<lparr>sys_world := v\<rparr>) n"
  shows "run_owns s n"
  using assms sys_wfD(2) [OF assms(1), of "sys_runs s ! n"]
  by (auto simp: run_owns_def owns_stream_def advances_def Let_def run_wf_def)

lemma perform_lost:
  assumes wf: "sys_wf s" and n: "n < length (sys_runs s)" and own: "run_owns (perform dm ns a s) n"
  shows "run_owns s n"
proof (cases a)
  case (Store b)
  with own world_step_old [OF wf n store_step_advances] sys_wfD(1) [OF wf] show ?thesis by simp
next
  case (Delete i)
  have "run_owns (s\<lparr>sys_world := deleteChat_begin i (sys_world s)\<rparr>) n"
    using own Delete by (simp add: run_owns_def)
  with world_step_old [OF wf n] show ?thesis by (metis advances_same simple_streams(2))
next
  case (DeleteAnswer k r)
  with own show ?thesis
    by (auto simp: case_prod_beta intro: world_step_old [OF wf n] advances_same
        deleteChat_end_streams split: if_splits)
next
  case (Send tn un att now c mo opts)
  with own show ?thesis
    using add_run_old [OF wf n sendMessage_begin_advances [OF sys_wfD(1) [OF wf]]] by simp
next
  case (Retry tn un att now e)
  with own show ?thesis
    using add_run_old [OF wf n retryMessage_begin_ok(1) [OF sys_wfD(1) [OF wf]]] by simp
next
  case (Event k now nano e)
  then show ?thesis
    using own sys_wfD [OF wf] step_run_other [OF wf n, of "dispatch_event ns now nano e" k]
    by (simp add: dispatch_event_ok)
next
  case (Timer k j)
  then show ?thesis
    using own sys_wfD [OF wf] step_run_other [OF wf n, of "fire_timer j" k]
    by (simp add: fire_timer_ok)
next
  case (Close k r)
  then show ?thesis
    using own sys_wfD [OF wf] step_run_other [OF wf n, of "close_stream r" k]
    by (simp add: close_stream_ok)
next
  case (Reconcile k nano now r)
  then show ?thesis
    using own sys_wfD [OF wf] step_run_other [OF wf n, of "finish_reconciliation dm nano now r" k]
    by (simp add: finish_reconciliation_ok)
qed

lemma perform_runs: "length (sys_runs s) \<le> length (sys_runs (perform dm ns a s))"
  by (cases a) (auto simp: add_run_def step_run_def case_prod_beta split: option.split)

interpretation run_owner: ownership run_owns "\<lambda>s n. n < length (sys_runs s)" sys_wf "perform dm ns"
  for dm ns
  by unfold_locales (auto intro: perform_wf perform_lost less_le_trans [OF _ perform_runs])

end
