(* ===== verification/ChatProperties.thy ===== *)
theory ChatProperties
  imports ChatSystem
begin

text \<open>
  What the chat client guarantees in every run: who may write to a chat, what a stream that
  has lost its chat can still do, which answer to a selection counts, what an answer, a
  failure, a retry and an abort leave behind. Where the code does not give what it means to
  give, the theorem states what it does give.
\<close>

section \<open>A small run for the witnesses\<close>

definition demo_dm :: "string \<Rightarrow> number" where
  "demo_dm s = 0"

definition demo_ns :: "number \<Rightarrow> string" where
  "demo_ns n = ''0''"

definition demo_send :: "string \<Rightarrow> chat_action" where
  "demo_send tag = Send tag tag (''attempt-'' @ tag) 1 ''Hello'' None no_send_options"

definition demo_sent :: chat_sys where
  "demo_sent = perform demo_dm demo_ns (demo_send ''a'') initial_sys"

definition demo_aborted :: chat_sys where
  "demo_aborted = perform demo_dm demo_ns (Store (AbortChat None)) demo_sent"

lemma demo_sent_reachable: "reachable demo_dm demo_ns demo_sent"
  unfolding demo_sent_def by (intro reachable.intros)

lemma demo_aborted_reachable: "reachable demo_dm demo_ns demo_aborted"
  unfolding demo_aborted_def by (intro reachable.intros demo_sent_reachable)

lemma demo_sent_owned: "length (sys_runs demo_sent) = 1 \<and> run_owns demo_sent 0"
  by code_simp

lemma demo_aborted_lost: "length (sys_runs demo_aborted) = 1 \<and> \<not> run_owns demo_aborted 0"
  by code_simp

section \<open>One live stream per chat\<close>

lemma live_handle_unique:
  assumes "reachable dm ns s" "run_owns s m" "run_owns s n"
    and "sc_realChatId (run_ctx (sys_runs s ! m)) = sc_realChatId (run_ctx (sys_runs s ! n))"
  shows "m = n"
proof -
  note wf = reachable_wf [OF assms(1)]
  have mn: "m < length (sys_runs s)" "n < length (sys_runs s)"
    using assms(2,3) by (simp_all add: run_owns_def)
  then have "run_wf (sys_world s) (sys_runs s ! m)" "run_wf (sys_world s) (sys_runs s ! n)"
    using sys_wfD(2) [OF wf] by simp_all
  then have "sc_handle (run_ctx (sys_runs s ! m)) = sc_handle (run_ctx (sys_runs s ! n))"
    using assms(2-4) by (auto simp: run_wf_def run_owns_def owns_stream_def intro: current_key_unique)
  then have "run_handles s ! m = run_handles s ! n" using mn by (simp add: run_handles_def)
  then show ?thesis
    using sys_wfD(4) [OF wf] mn nth_eq_iff_index_eq [of "run_handles s" m n]
    by (simp add: run_handles_def)
qed

text \<open>
  C1. In every reachable state at most one live message stream writes to a chat: two streams
  that own their requests and write to the same chat are the same stream.
\<close>

theorem live_streams_exclusive:
  assumes "reachable dm ns s" "run_owns s m" "run_owns s n"
    and "sc_realChatId (run_ctx (sys_runs s ! m)) = sc_realChatId (run_ctx (sys_runs s ! n))"
  shows "m = n"
  using assms by (rule live_handle_unique)

theorem live_streams_exclusive_witness:
  "run_owns demo_sent 0 \<and> (0::nat) = 0"
  using live_streams_exclusive [OF demo_sent_reachable, of 0 0] demo_sent_owned by simp

section \<open>A superseded stream is silent\<close>

text \<open>
  What a stream without ownership may still touch: the title of a chat, the source check of
  a message, and its own abort controller. Everything else of the state is the quiet view.
\<close>

definition quiet_message :: "message \<Rightarrow> message" where
  "quiet_message m = m\<lparr>msg_groundingSourcesUsed := None, msg_groundingSourceStatus := Undefined\<rparr>"

definition quiet_chat :: "chat \<Rightarrow> chat" where
  "quiet_chat c = c\<lparr>ch_title := None, ch_messages := map quiet_message (ch_messages c)\<rparr>"

definition quiet_view :: "chat_world \<Rightarrow> chat_world" where
  "quiet_view w = w\<lparr>chats := map (apsnd quiet_chat) (chats w), abortControllers := []\<rparr>"

fun of_stream :: "nat \<Rightarrow> chat_action \<Rightarrow> bool" where
  "of_stream n (Event k _ _ _) \<longleftrightarrow> k = n"
| "of_stream n (Timer k _) \<longleftrightarrow> k = n"
| "of_stream n (Close k _) \<longleftrightarrow> k = n"
| "of_stream n (Reconcile k _ _ _) \<longleftrightarrow> k = n"
| "of_stream n _ \<longleftrightarrow> False"

lemma map_apsnd_set:
  "js_get m k = Some c \<Longrightarrow> v x = v c \<Longrightarrow> map (apsnd v) (js_set k x m) = map (apsnd v) m"
  by (induction m) (auto split: if_splits)

lemma quiet_updateChat:
  "(\<And>c. quiet_chat (f c) = quiet_chat c) \<Longrightarrow> quiet_view (updateChat i f w) = quiet_view w"
  by (simp add: quiet_view_def updateChat_def map_apsnd_set split: option.split)

lemma quiet_title: "quiet_view (onTitleUpdate i t w) = quiet_view w"
  by (simp add: onTitleUpdate_def quiet_updateChat quiet_chat_def)

lemma quiet_grounding: "quiet_view (onGroundingSources m ss s ctx w) = quiet_view w"
  unfolding onGroundingSources_def updateGrounding_def
  by (rule quiet_updateChat) (auto simp: quiet_chat_def quiet_message_def)

lemma quiet_finally:
  assumes "\<not> owns_stream ctx w"
  shows "quiet_view (sendMessage_finally ctx w) = quiet_view w"
proof -
  have "finish_request (sc_handle ctx) (messageStreamRequests w) = messageStreamRequests w"
    using assms by (simp add: owns_stream_def finish_request_def split: option.split)
  then show ?thesis
    by (simp add: sendMessage_finally_def Let_def clearCurrentAbortController_def quiet_view_def)
qed

lemma quiet_end_stream:
  "\<not> owns_stream (run_ctx run) w \<Longrightarrow> quiet_view (snd (end_stream r run w)) = quiet_view w"
  by (simp add: end_stream_def quiet_finally)

lemma quiet_handle_event:
  assumes "\<not> owns_stream ctx w" "handle_event ns now nano e ctx w = Inr (ts, ctx', v)"
  shows "quiet_view v = quiet_view w"
  using assms(2)
  by (cases rule: handle_event_InrE)
    (use assms(1) in \<open>auto simp: quiet_title quiet_grounding onChatId_def adoptRealChatId_def
       onAgentStage_def onToolCall_def onThinking_def onAssistantMessage_def onError_def\<close>)

lemma quiet_dispatch:
  "\<not> owns_stream (run_ctx run) w \<Longrightarrow>
   quiet_view (snd (dispatch_event ns now nano e run w)) = quiet_view w"
  by (auto simp: dispatch_event_def quiet_end_stream quiet_handle_event split: sum.split)

lemma quiet_timer:
  "\<not> owns_stream (run_ctx run) w \<Longrightarrow> quiet_view (snd (fire_timer k run w)) = quiet_view w"
  by (simp add: fire_timer_def applyToolUpdate_def)

lemma quiet_close:
  "\<not> owns_stream (run_ctx run) w \<Longrightarrow> quiet_view (snd (close_stream r run w)) = quiet_view w"
  by (simp add: close_stream_def quiet_end_stream)

lemma quiet_reconcile:
  "\<not> owns_stream (run_ctx run) w \<Longrightarrow>
   quiet_view (snd (finish_reconciliation dm nano now r run w)) = quiet_view w"
  by (simp add: finish_reconciliation_def reconcileUnknownOutcome_end_def quiet_finally)

lemma sys_world_step_run:
  "sys_world (step_run n f s) =
   (if n < length (sys_runs s) then snd (f (sys_runs s ! n) (sys_world s)) else sys_world s)"
  by (simp add: step_run_def case_prod_beta)

lemma perform_quiet:
  assumes "\<not> run_owns s n" "of_stream n a"
  shows "quiet_view (sys_world (perform dm ns a s)) = quiet_view (sys_world s)"
  using assms
  by (cases a)
    (auto simp: sys_world_step_run run_owns_def quiet_dispatch quiet_timer quiet_close
      quiet_reconcile)

text \<open>
  C2. A stream that has lost its chat stays silent. Whatever happens afterwards, in any
  order, an event, a timer, the end or the reconciliation of that stream changes nothing but
  a chat title, the source check of a message, and abort controllers: no message is added or
  rewritten, no loading or unread flag, no activity, no draft and no selection changes.
\<close>

theorem superseded_stream_is_silent:
  assumes "reachable dm ns s" "n < length (sys_runs s)" "\<not> run_owns s n" "of_stream n a"
  shows "quiet_view (sys_world (perform dm ns a (fold (perform dm ns) as s))) =
    quiet_view (sys_world (fold (perform dm ns) as s))"
  using run_owner.lost_forever [OF reachable_wf [OF assms(1)] assms(2,3)] assms(4)
  by (rule perform_quiet)

theorem superseded_stream_is_silent_witness:
  "quiet_view (sys_world (perform demo_dm demo_ns (Event 0 5 ''n'' (ErrorEvent True))
      (perform demo_dm demo_ns (demo_send ''b'') demo_aborted))) =
   quiet_view (sys_world (perform demo_dm demo_ns (demo_send ''b'') demo_aborted))"
  using superseded_stream_is_silent [OF demo_aborted_reachable, of 0 "Event 0 5 ''n'' (ErrorEvent True)"
      "[demo_send ''b'']"] demo_aborted_lost by simp

section \<open>Aborting and sending again supersede\<close>

lemma run_key:
  assumes "reachable dm ns s" "run_owns s n"
  shows "active_key (messageStreamRequests (sys_world s)) (sc_handle (run_ctx (sys_runs s ! n))) =
    Some (sc_realChatId (run_ctx (sys_runs s ! n)))"
  using sys_wfD(2) [OF reachable_wf [OF assms(1)]] assms(2)
  by (auto simp: run_owns_def run_wf_def)

lemma abortChat_tracker:
  "messageStreamRequests (abortChat (Some k) w) = invalidate_request k (messageStreamRequests w)"
  by (cases "js_get (abortControllers w) k") (simp_all add: abortChat_def Let_def)

lemma abortChat_chat:
  "js_get (chats (abortChat (Some k) w)) k =
   map_option (\<lambda>c. c\<lparr>ch_isLoading := False, ch_loadingActivity := Some []\<rparr>) (js_get (chats w) k)"
  by (cases "js_get (abortControllers w) k") (simp_all add: abortChat_def Let_def chats_updateChat)

text \<open>
  Aborting a chat takes the chat from the stream that writes to it, signals the stream's
  controller if it is still registered, and leaves the chat not loading, with no activity and
  its messages as they were; no other stream loses its chat.
\<close>

theorem abort_takes_the_chat:
  assumes "reachable dm ns s" "run_owns s n" "sc_realChatId (run_ctx (sys_runs s ! n)) = k"
  shows "\<not> run_owns (perform dm ns (Store (AbortChat (Some k))) s) n \<and>
    (\<forall>m. m \<noteq> n \<longrightarrow> run_owns (perform dm ns (Store (AbortChat (Some k))) s) m = run_owns s m) \<and>
    js_get (abortControllers (abortChat (Some k) (sys_world s))) k = None \<and>
    set (aborted (abortChat (Some k) (sys_world s))) =
      set (aborted (sys_world s)) \<union> set_option (js_get (abortControllers (sys_world s)) k) \<and>
    js_get (chats (abortChat (Some k) (sys_world s))) k =
      map_option (\<lambda>c. c\<lparr>ch_isLoading := False, ch_loadingActivity := Some []\<rparr>)
        (js_get (chats (sys_world s)) k)"
proof (intro conjI allI impI)
  let ?s = "perform dm ns (Store (AbortChat (Some k))) s"
  show "\<not> run_owns ?s n"
    using invalidate_supersedes [OF run_key [OF assms(1,2)]] assms(3)
    by (simp add: run_owns_def owns_stream_def abortChat_tracker)
  fix m
  assume m: "m \<noteq> n"
  have "run_owns ?s m" if own: "run_owns s m"
  proof -
    have "sc_realChatId (run_ctx (sys_runs s ! m)) \<noteq> k"
      using own m assms live_handle_unique by blast
    then show ?thesis
      using own run_key [OF assms(1) own]
      by (auto simp: run_owns_def owns_stream_def abortChat_tracker invalidate_request_def
          is_current_def active_key_def split: if_splits)
  qed
  moreover have "run_owns s m" if "run_owns ?s m"
    using perform_lost [OF reachable_wf [OF assms(1)] _ that] that by (simp add: run_owns_def)
  ultimately show "run_owns ?s m = run_owns s m" by blast
next
  show "js_get (abortControllers (abortChat (Some k) (sys_world s))) k = None"
    "set (aborted (abortChat (Some k) (sys_world s))) =
      set (aborted (sys_world s)) \<union> set_option (js_get (abortControllers (sys_world s)) k)"
    by (cases "js_get (abortControllers (sys_world s)) k"; auto simp: abortChat_def Let_def)+
qed (rule abortChat_chat)

theorem abort_takes_the_chat_witness:
  "\<not> run_owns (perform demo_dm demo_ns (Store (AbortChat (Some ''__temp_a''))) demo_sent) 0"
proof -
  have "sc_realChatId (run_ctx (sys_runs demo_sent ! 0)) = ''__temp_a''" by code_simp
  from abort_takes_the_chat [OF demo_sent_reachable conjunct2 [OF demo_sent_owned] this]
  show ?thesis by blast
qed

section \<open>The latest selection wins\<close>

lemma perform_detail_mono:
  assumes wf: "sys_wf s"
  shows "chatDetailRequests (sys_world s) \<le> chatDetailRequests (sys_world (perform dm ns a s))"
proof -
  have adv: "chatDetailRequests w \<le> chatDetailRequests v" if "advances hs w v" for hs w v
    using that by (simp add: advances_def Let_def)
  have run: "chatDetailRequests (sys_world s) \<le> chatDetailRequests (sys_world (step_run n f s))"
    if "\<And>run. run \<in> set (sys_runs s) \<Longrightarrow> run_step_ok run (sys_world s) (f run (sys_world s))" for n f
  proof (cases "n < length (sys_runs s)")
    case True
    have "advances {sc_handle (run_ctx (sys_runs s ! n))} (sys_world s)
        (snd (f (sys_runs s ! n) (sys_world s)))"
      using that [OF nth_mem [OF True]] by (simp add: run_step_ok_def)
    from adv [OF this] True show ?thesis by (simp add: sys_world_step_run)
  qed (simp add: sys_world_step_run)
  note w = sys_wfD(1) [OF wf] and r = sys_wfD(2) [OF wf]
  show ?thesis
  proof (cases a)
    case (Store b)
    then show ?thesis using adv [OF store_step_advances [OF w]] by simp
  next
    case (Delete i)
    then show ?thesis using simple_streams(2) [of "sys_world s" i] by (simp add: same_streams_def)
  next
    case (DeleteAnswer n r)
    then show ?thesis
      using deleteChat_end_streams by (auto simp: case_prod_beta same_streams_def)
  next
    case (Send tn un att now c mo opts)
    then show ?thesis using adv [OF sendMessage_begin_advances [OF w]] by (simp add: add_run_def)
  next
    case (Retry tn un att now e)
    then show ?thesis using adv [OF retryMessage_begin_ok(1) [OF w]] by (simp add: add_run_def)
  next
    case (Event n now nano e)
    then show ?thesis using run dispatch_event_ok [OF w r] by simp
  next
    case (Timer n k)
    then show ?thesis using run fire_timer_ok [OF w r] by simp
  next
    case (Close n r)
    then show ?thesis using run close_stream_ok [OF w] sys_wfD(2) [OF wf] by simp
  next
    case (Reconcile n nano now r)
    then show ?thesis using run finish_reconciliation_ok [OF w] sys_wfD(2) [OF wf] by simp
  qed
qed

lemma runs_detail_mono:
  "sys_wf s \<Longrightarrow>
   chatDetailRequests (sys_world s) \<le> chatDetailRequests (sys_world (fold (perform dm ns) as s))"
  by (induction as arbitrary: s) (auto intro: order_trans perform_detail_mono perform_wf)

lemma select_request:
  assumes "selectChat_begin i w = (Some req, tree, v)"
  shows "chatDetailRequests v = req"
  using assms
  by (auto simp: selectChat_begin_def Let_def lr_begin_def case_prod_beta
      split: option.splits if_splits)

lemma markCurrentAsRead_detail: "chatDetailRequests (markCurrentAsRead w) = chatDetailRequests w"
  by (simp add: markCurrentAsRead_def split: option.split)

lemma new_selection_advances:
  "chatDetailRequests w < chatDetailRequests (snd (snd (selectChat_begin i w)))"
  "chatDetailRequests w < chatDetailRequests (clearCurrentChat w)"
  "chatDetailRequests w < chatDetailRequests (setActiveBranch_begin j w)"
proof -
  show "chatDetailRequests w < chatDetailRequests (snd (snd (selectChat_begin i w)))"
    unfolding selectChat_begin_def Let_def case_prod_beta
    by (auto simp: lr_begin_def lr_invalidate_def markCurrentAsRead_detail Let_def split: option.split)
qed (simp_all add: clearCurrentChat_def setActiveBranch_begin_def lr_invalidate_def Let_def
    case_prod_beta getTreeRequests_frame)

text \<open>The actions of the user that make an earlier selection obsolete.\<close>

definition reselects :: "store_action \<Rightarrow> bool" where
  "reselects b \<longleftrightarrow> (case b of SelectChat _ \<Rightarrow> True | ClearCurrentChat \<Rightarrow> True
     | SetActiveBranch _ \<Rightarrow> True | _ \<Rightarrow> False)"

lemma reselects_advances:
  "reselects b \<Longrightarrow> chatDetailRequests w < chatDetailRequests (store_step dm b w)"
  by (cases b) (simp_all add: reselects_def new_selection_advances)

text \<open>
  C7. The latest selection wins: when the user selects another chat, clears the selection or
  switches a branch while a conversation is still loading, the answer to the older selection
  changes nothing, whatever happened in between and afterwards.
\<close>

theorem latest_selection_wins:
  assumes "reachable dm ns s"
    and "selectChat_begin (Some i) (sys_world s) = (Some req, tree, w1)"
    and "reselects b"
    and "s2 = fold (perform dm ns) (Store (SelectChat (Some i)) # as @ Store b # bs) s"
  shows "perform dm ns (Store (SelectChatAnswer nano now i req r)) s2 = s2"
proof -
  define sa where "sa = fold (perform dm ns) as (perform dm ns (Store (SelectChat (Some i))) s)"
  define sb where "sb = perform dm ns (Store b) sa"
  have s2: "s2 = fold (perform dm ns) bs sb" using assms(4) by (simp add: sa_def sb_def)
  have wf: "sys_wf (perform dm ns (Store (SelectChat (Some i))) s)" "sys_wf sa" "sys_wf sb"
    using reachable_wf [OF assms(1)] unfolding sa_def sb_def
    by (auto intro: perform_wf run_owner.wf_ops simp del: perform.simps)
  have "req \<le> chatDetailRequests (sys_world sa)"
    using select_request [OF assms(2)] runs_detail_mono [OF wf(1), of dm ns as] assms(2)
    by (simp add: sa_def)
  also have "\<dots> < chatDetailRequests (sys_world sb)"
    using reselects_advances [OF assms(3)] by (simp add: sb_def)
  also have "\<dots> \<le> chatDetailRequests (sys_world s2)"
    unfolding s2 by (rule runs_detail_mono [OF wf(3)])
  finally have "lr_settle req (chatDetailRequests (sys_world s2)) r = Inr Stale"
    by (cases r) simp_all
  then show ?thesis by (simp add: selectChat_end_def)
qed

theorem latest_selection_wins_witness:
  "perform demo_dm demo_ns (Store (SelectChatAnswer ''n'' 3 ''x'' 2 (Inl AbortError)))
     (fold (perform demo_dm demo_ns) [Store (SelectChat (Some ''x'')), Store (SelectChat (Some ''y''))]
       initial_sys) =
   fold (perform demo_dm demo_ns) [Store (SelectChat (Some ''x'')), Store (SelectChat (Some ''y''))]
     initial_sys"
proof -
  obtain tree w1 where
    sel: "selectChat_begin (Some ''x'') (sys_world initial_sys) = (Some 2, tree, w1)"
    by (simp add: selectChat_begin_def Let_def lr_begin_def lr_invalidate_def initial_sys_def
        createInitialChatState_def markCurrentAsRead_def is_temp_def starts_with_def temp_prefix_def
        case_prod_beta)
  have "reselects (SelectChat (Some ''y''))" by (simp add: reselects_def)
  from latest_selection_wins [OF reachable.start sel this refl, where as = "[]" and bs = "[]"] show ?thesis by simp
qed

end
