(* ===== verification/ChatOutcomes.thy ===== *)
theory ChatOutcomes
  imports ChatProperties
begin

text \<open>
  What a turn of the conversation leaves behind: the draft, the guards of a send, the move
  of a new chat to its real id, the answer, the failure and its retry, and the
  reconciliation of an unknown outcome.
\<close>

section \<open>Drafts\<close>

text \<open>
  A draft reads back as it was written, under its own chat only: writing the draft of a
  chat (the empty one included) is what is read for it afterwards, the drafts of all other
  chats are as before, and no empty draft is stored by it.
\<close>

theorem draft_reads_back:
  "coalesce (js_get (drafts (setDraft i d w)) k) '''' =
     (if k = getDraftKey i then d else coalesce (js_get (drafts w) k) '''') \<and>
   selectCurrentDraft (setDraft (currentChatId w) d w) = d \<and>
   drafts (setDraft i '''' (setDraft i (c # d) w)) = js_delete (getDraftKey i) (drafts (setDraft i (c # d) w))"
  by (auto simp: setDraft_def Let_def selectCurrentDraft_def coalesce_def split: option.split)

section \<open>Guards of a send\<close>

definition pending_generation :: "chat_world \<Rightarrow> bool" where
  "pending_generation w \<longleftrightarrow> (case selectCurrentChat w of
     None \<Rightarrow> False | Some c \<Rightarrow> ch_hasPendingGeneration c = Some True)"

lemma send_blocked:
  "pending_generation w \<or> (so_isRegeneration opts = Some True \<and> currentChatId w = None) \<Longrightarrow>
   sendMessage_begin tn un att now s mo opts w = (None, w)"
  by (auto simp: sendMessage_begin_def pending_generation_def Let_def split: option.splits)

lemma send_not_blocked:
  "\<not> pending_generation w \<Longrightarrow> so_isRegeneration opts \<noteq> Some True \<or> currentChatId w \<noteq> None \<Longrightarrow>
   \<exists>ctx. fst (sendMessage_begin tn un att now s mo opts w) = Some ctx"
  by (auto simp: sendMessage_begin_def pending_generation_def Let_def case_prod_beta
      split: option.splits)

text \<open>
  A send is refused, without any change of the state, exactly when the current chat still
  has a generation the server has not settled, or when a regeneration is asked for where no
  chat is open. In particular an unknown outcome blocks sending until it is resolved.
\<close>

theorem send_refused_iff:
  "(sendMessage_begin tn un att now s mo opts w = (None, w) \<longleftrightarrow>
     pending_generation w \<or> (so_isRegeneration opts = Some True \<and> currentChatId w = None)) \<and>
   (fst (sendMessage_begin tn un att now s mo opts w) = None \<longleftrightarrow>
     sendMessage_begin tn un att now s mo opts w = (None, w))"
  using send_blocked [of w opts tn un att now s mo] send_not_blocked [of w opts tn un att now s mo]
  by (metis fst_conv option.distinct(1))

section \<open>The message a send adds\<close>

text \<open>Sending into an open chat that holds no unsettled generation.\<close>

lemma send_existing_runs:
  assumes "currentChatId w = Some k" "js_get (chats w) k = Some c"
    and "ch_hasPendingGeneration c \<noteq> Some True"
  obtains ctx w1 where "sendMessage_begin tn un att now s mo opts w = (Some ctx, w1)"
proof -
  have "\<not> pending_generation w" using assms by (simp add: pending_generation_def selectCurrentChat_def)
  with assms(1) obtain ctx where "fst (sendMessage_begin tn un att now s mo opts w) = Some ctx"
    using send_not_blocked [of w opts tn un att now s mo] by auto
  then show ?thesis using that by (metis prod.collapse)
qed

lemma send_existing:
  assumes run: "sendMessage_begin tn un att now s mo opts w = (Some ctx, w1)"
    and cur: "currentChatId w = Some k" and c: "js_get (chats w) k = Some c"
  shows "sc_realChatId ctx = k" "sc_optimisticUserMessageId ctx = ''user-'' @ un"
    "sc_primaryOutcome ctx = OPending" "owns_stream ctx w1" "currentChatId w1 = Some k"
    "sc_retryRequest ctx = createMessageRetryRequest \<lparr>ri_content = s, ri_modelOverrides = mo,
       ri_parentMessageId = request_parent False k (so_parentMessageId opts) w,
       ri_isRegeneration = (so_isRegeneration opts = Some True),
       ri_trimToMessageId = so_trimToMessageId opts,
       ri_draftPromptTemplates = so_draftPromptTemplates opts\<rparr>"
    "js_get (chats w1) k = Some (send_to_existing (so_isRegeneration opts = Some True)
       (so_trimToMessageId opts) (plain_message (''user-'' @ un) User s now
         (to_option (request_parent False k (so_parentMessageId opts) w))) now c)"
proof -
  have ctx: "fst (sendMessage_begin tn un att now s mo opts w) = Some ctx" and
    w1: "w1 = snd (sendMessage_begin tn un att now s mo opts w)"
    using run by simp_all
  show "owns_stream ctx w1" unfolding w1 by (rule sendMessage_begin_ctx [OF ctx])
  show "sc_realChatId ctx = k" "sc_optimisticUserMessageId ctx = ''user-'' @ un"
    "sc_primaryOutcome ctx = OPending" "currentChatId w1 = Some k"
    "sc_retryRequest ctx = createMessageRetryRequest \<lparr>ri_content = s, ri_modelOverrides = mo,
       ri_parentMessageId = request_parent False k (so_parentMessageId opts) w,
       ri_isRegeneration = (so_isRegeneration opts = Some True),
       ri_trimToMessageId = so_trimToMessageId opts,
       ri_draftPromptTemplates = so_draftPromptTemplates opts\<rparr>"
    "js_get (chats w1) k = Some (send_to_existing (so_isRegeneration opts = Some True)
       (so_trimToMessageId opts) (plain_message (''user-'' @ un) User s now
         (to_option (request_parent False k (so_parentMessageId opts) w))) now c)"
    using run cur c
    by (auto simp: sendMessage_begin_def Let_def case_prod_beta chats_updateChat split: if_splits)
qed

section \<open>The answer\<close>

definition server_ids :: "send_ctx \<Rightarrow> ident option \<Rightarrow> message list \<Rightarrow> message list" where
  "server_ids ctx i = map (\<lambda>m. if sc_isRegeneration ctx \<or> msg_id m \<noteq> sc_optimisticUserMessageId ctx
     then m else m\<lparr>msg_id := coalesce i (msg_id m)\<rparr>)"

lemma server_ids_same: "i = None \<or> sc_isRegeneration ctx \<Longrightarrow> server_ids ctx i ms = ms"
  by (auto simp: server_ids_def intro!: map_idI)

lemma server_ids_Some:
  "\<not> sc_isRegeneration ctx \<Longrightarrow>
   map (\<lambda>m. if msg_id m \<noteq> sc_optimisticUserMessageId ctx then m else m\<lparr>msg_id := a\<rparr>) ms =
   server_ids ctx (Some a) ms"
  by (simp add: server_ids_def)

lemma rename_optimistic_chats:
  "js_get (chats (rename_optimistic ctx i w)) j =
   (if j = sc_realChatId ctx
    then map_option (\<lambda>c. c\<lparr>ch_messages := server_ids ctx i (ch_messages c)\<rparr>) (js_get (chats w) j)
    else js_get (chats w) j)"
  by (cases "js_get (chats w) j"; cases i; cases "sc_isRegeneration ctx")
    (auto simp: rename_optimistic_def chats_updateChat server_ids_same server_ids_Some)

lemma loadTree_feedback [simp]:
  "messageActivityLog (snd (loadConversationTree_begin i w)) = messageActivityLog w"
  by (auto simp: loadConversationTree_begin_def fetchAndApplyConversationTree_begin_def
      clearConversationTreeState_def getConversationTreeRequests_def Let_def case_prod_beta
      split: option.split)

lemma deliver_answer_chats:
  "js_get (chats (deliver_answer now p ctx w)) j =
   js_get (chats (append_assistant now p ctx (rename_optimistic ctx (ap_userMessageId p) w))) j"
  by (simp add: deliver_answer_def Let_def clearCurrentAbortController_def keep_activity_log_def)

lemma rename_optimistic_frame [simp]:
  "currentChatId (rename_optimistic ctx i w) = currentChatId w"
  "messageActivityLog (rename_optimistic ctx i w) = messageActivityLog w"
  by (simp_all add: rename_optimistic_def split: option.split)

lemma append_assistant_frame [simp]:
  "currentChatId (append_assistant now p ctx w) = currentChatId w"
  "messageActivityLog (append_assistant now p ctx w) = messageActivityLog w"
  by (simp_all add: append_assistant_def)

lemma deliver_answer_log:
  "messageActivityLog (deliver_answer now p ctx w) =
   (let es = coalesce (Option.bind (js_get (chats w) (sc_realChatId ctx)) ch_loadingActivityLog) []
    in if es = [] then messageActivityLog w
       else js_set (ap_assistantMessageId p) es (messageActivityLog w))"
  by (cases "js_get (chats w) (sc_realChatId ctx)")
    (simp_all add: deliver_answer_def Let_def clearCurrentAbortController_def keep_activity_log_def
      append_assistant_def chats_updateChat rename_optimistic_chats)

definition double_outcome :: js_error where
  "double_outcome = TypeError ''Message stream produced multiple primary outcomes''"

text \<open>
  C3. An answer completes its turn and happens once. The stream that owns the chat appends
  exactly one assistant message after the transcript, in which only the optimistic user
  message may have got its server id; the chat stops loading, is settled, is unread unless it
  is open, and continues from the answer; the activity log of the turn is kept under the
  answer; no other chat changes. Any second answer or failure on that stream is rejected.
\<close>

theorem answer_completes_the_turn:
  assumes "owns_stream ctx w" "sc_primaryOutcome ctx = OPending"
    and "js_get (chats w) (sc_realChatId ctx) = Some c"
  shows "\<exists>tree ctx1 w1 c1. onAssistantMessage now p ctx w = Inr (tree, ctx1, w1) \<and>
    js_get (chats w1) (sc_realChatId ctx) = Some c1 \<and>
    ch_messages c1 = server_ids ctx (ap_userMessageId p) (ch_messages c) @
      [assistant_message_of now p] \<and>
    \<not> ch_isLoading c1 \<and> ch_hasPendingGeneration c1 = Some False \<and>
    ch_hasUnread c1 = (currentChatId w \<noteq> Some (sc_realChatId ctx)) \<and>
    ch_parentMessageId c1 = Some (ap_assistantMessageId p) \<and>
    (\<forall>k. k \<noteq> sc_realChatId ctx \<longrightarrow> js_get (chats w1) k = js_get (chats w) k) \<and>
    js_get (messageActivityLog w1) (ap_assistantMessageId p) =
      (case coalesce (ch_loadingActivityLog c) [] of
         [] \<Rightarrow> js_get (messageActivityLog w) (ap_assistantMessageId p) | e # es \<Rightarrow> Some (e # es)) \<and>
    onAssistantMessage now2 p2 ctx1 w1 = Inl double_outcome \<and>
    onError nano now2 retryable ctx1 w1 = Inl double_outcome"
proof -
  define ctx1 where "ctx1 = ctx\<lparr>sc_primaryOutcome := OAssistant\<rparr>"
  define w1 where "w1 = snd (loadConversationTree_begin (sc_realChatId ctx1) (deliver_answer now p ctx1 w))"
  define tree where
    "tree = fst (loadConversationTree_begin (sc_realChatId ctx1) (deliver_answer now p ctx1 w))"
  have run: "onAssistantMessage now p ctx w = Inr (tree, ctx1, w1)"
    using assms(1,2)
    by (simp add: onAssistantMessage_def recordPrimaryMessageStreamOutcome_def Let_def
        case_prod_beta ctx1_def w1_def tree_def)
  have "same_streams w w1" using onAssistantMessage_streams [OF run] .
  then have own: "owns_stream ctx1 w1"
    using assms(1) by (simp add: same_streams_def owns_stream_def ctx1_def)
  have again: "onAssistantMessage now2 p2 ctx1 w1 = Inl double_outcome"
    "onError nano now2 retryable ctx1 w1 = Inl double_outcome"
    using own by (simp_all add: onAssistantMessage_def onError_def double_outcome_def
        recordPrimaryMessageStreamOutcome_def ctx1_def)
  note eqs = w1_def deliver_answer_chats append_assistant_def chats_updateChat
    rename_optimistic_chats ctx1_def
  have others: "\<forall>k. k \<noteq> sc_realChatId ctx \<longrightarrow> js_get (chats w1) k = js_get (chats w) k"
    by (simp add: eqs)
  have log: "js_get (messageActivityLog w1) (ap_assistantMessageId p) =
      (case coalesce (ch_loadingActivityLog c) [] of
         [] \<Rightarrow> js_get (messageActivityLog w) (ap_assistantMessageId p) | e # es \<Rightarrow> Some (e # es))"
    using assms(3) by (simp add: w1_def ctx1_def deliver_answer_log Let_def split: list.split)
  have ids: "server_ids ctx1 i ms = server_ids ctx i ms" for i ms
    by (simp add: server_ids_def ctx1_def)
  have real: "sc_realChatId ctx1 = sc_realChatId ctx" by (simp add: ctx1_def)
  have c1: "js_get (chats w1) (sc_realChatId ctx) = Some (c\<lparr>
      ch_messages := server_ids ctx (ap_userMessageId p) (ch_messages c) @ [assistant_message_of now p],
      ch_isLoading := False, ch_hasPendingGeneration := Some False,
      ch_hasUnread := (currentChatId w \<noteq> Some (sc_realChatId ctx)),
      ch_lastMessagePreview := Some (truncate_text (ap_content p) 50),
      ch_parentMessageId := Some (ap_assistantMessageId p), ch_updatedAt := now\<rparr>)"
    using assms(3) by (simp add: w1_def deliver_answer_chats append_assistant_def chats_updateChat
        rename_optimistic_chats ids real)
  show ?thesis
    by (intro exI conjI, rule run, rule c1) (use again others log in simp_all)
qed

definition demo_ctx :: send_ctx where
  "demo_ctx = run_ctx (sys_runs demo_sent ! 0)"

definition demo_chat :: chat where
  "demo_chat = new_chat ''__temp_a'' ''Hello'' 1 None (plain_message ''user-a'' User ''Hello'' 1 None)"

definition demo_payload :: assistant_payload where
  "demo_payload = \<lparr>ap_assistantMessageId = ''m1'', ap_content = ''Hi'', ap_parentMessageId = None,
     ap_userMessageId = Some ''u1'', ap_generationTimeMs = None, ap_generationTiming = None,
     ap_responseCost = None, ap_responseUsage = None, ap_responseCostBreakdown = None,
     ap_guardrailsFailures = None, ap_guardrailsBlocked = None, ap_guardrailsBlockedMessage = None,
     ap_toolSourcesUsed = None, ap_groundingSourcesUsed = None, ap_groundingSourceStatus = Undefined\<rparr>"

lemma demo_ctx_facts:
  "owns_stream demo_ctx (sys_world demo_sent)"
  "sc_primaryOutcome demo_ctx = OPending" "sc_realChatId demo_ctx = ''__temp_a''"
  "js_get (chats (sys_world demo_sent)) ''__temp_a'' = Some demo_chat"
  by code_simp+

theorem answer_completes_the_turn_witness:
  "\<exists>(w1 :: chat_world) (c1 :: chat). js_get (chats w1) ''__temp_a'' = Some c1 \<and>
     map msg_id (ch_messages c1) = [''u1'', ''m1''] \<and> \<not> ch_isLoading c1"
proof -
  have chat: "js_get (chats (sys_world demo_sent)) (sc_realChatId demo_ctx) = Some demo_chat"
    by (simp only: demo_ctx_facts)
  have ids: "map msg_id (server_ids demo_ctx (ap_userMessageId demo_payload) (ch_messages demo_chat) @
      [assistant_message_of 2 demo_payload]) = [''u1'', ''m1'']" by code_simp
  from answer_completes_the_turn [OF demo_ctx_facts(1,2) chat, of 2 demo_payload 3 demo_payload
        "''n''" True]
  show ?thesis
  proof (elim exE conjE)
    fix w1 :: chat_world and c1 :: chat
    assume "js_get (chats w1) (sc_realChatId demo_ctx) = Some c1"
      and "ch_messages c1 = server_ids demo_ctx (ap_userMessageId demo_payload)
        (ch_messages demo_chat) @ [assistant_message_of 2 demo_payload]"
      and "\<not> ch_isLoading c1"
    then show ?thesis using ids unfolding demo_ctx_facts(3) by (intro exI conjI) simp_all
  qed
qed

section \<open>A failure and its retry\<close>

lemma onError_run:
  assumes "owns_stream ctx w" "sc_primaryOutcome ctx = OPending"
  shows "onError nano now True ctx w =
    Inr (ctx\<lparr>sc_primaryOutcome := OGenerationFailure\<rparr>,
      appendGenerationError nano now GENERATION_FAILED_MESSAGE (Some (sc_retryRequest ctx)) False
        (ctx\<lparr>sc_primaryOutcome := OGenerationFailure\<rparr>) w)"
  using assms by (simp add: onError_def recordPrimaryMessageStreamOutcome_def Let_def)

lemma finally_frame [simp]:
  "chats (sendMessage_finally ctx w) = chats w"
  "currentChatId (sendMessage_finally ctx w) = currentChatId w"
  by (simp_all add: sendMessage_finally_def clearCurrentAbortController_def Let_def)

text \<open>The chat after a retryable failure has been shown.\<close>

definition failed_chat :: "string \<Rightarrow> number \<Rightarrow> retry_request \<Rightarrow> bool \<Rightarrow> chat \<Rightarrow> chat" where
  "failed_chat nano now retry unread c = c\<lparr>
     ch_messages := ch_messages c @ [createErrorMessage GENERATION_FAILED_MESSAGE (Some retry) nano now],
     ch_isLoading := False, ch_hasPendingGeneration := Some False,
     ch_loadingActivity := Some [], ch_hasUnread := unread\<rparr>"

lemma failure_shown:
  assumes "owns_stream ctx w" "sc_primaryOutcome ctx = OPending"
    and "js_get (chats w) (sc_realChatId ctx) = Some c"
    and "onError nano now True ctx w = Inr (ctx1, w1)"
  shows "js_get (chats w1) (sc_realChatId ctx) =
      Some (failed_chat nano now (sc_retryRequest ctx) (currentChatId w \<noteq> Some (sc_realChatId ctx)) c)"
    "currentChatId w1 = currentChatId w" "sc_retryRequest ctx1 = sc_retryRequest ctx"
  using assms(3,4) onError_run [OF assms(1,2), of nano now]
  by (auto simp: appendGenerationError_def chats_updateChat failed_chat_def)

text \<open>Retrying a failure shown in the open chat, which has its real id.\<close>

lemma find_snoc_new:
  "i \<notin> msg_id ` set ms \<Longrightarrow> msg_id e = i \<Longrightarrow> find (\<lambda>m. msg_id m = i) (ms @ [e]) = Some e"
  by (induction ms) auto

lemma retry_of_failure:
  assumes cur: "currentChatId w = Some k" and real: "\<not> is_temp k"
    and c: "js_get (chats w) k = Some (failed_chat nano now retry unread c)"
    and fresh: "''error-'' @ nano \<notin> msg_id ` set (ch_messages c)"
  shows "retryMessage_begin tn un att now2 (''error-'' @ nano) w =
    sendMessage_begin tn un att now2 (rr_content retry) (rr_modelOverrides retry) (rr_options retry) w"
proof -
  have "find (\<lambda>m. msg_id m = ''error-'' @ nano) (ch_messages (failed_chat nano now retry unread c)) =
      Some (createErrorMessage GENERATION_FAILED_MESSAGE (Some retry) nano now)"
    using find_snoc_new [OF fresh]
    by (simp add: failed_chat_def createErrorMessage_def plain_message_def)
  then show ?thesis
    using cur real c
    by (simp add: retryMessage_begin_def retryMessage_prepare_def createErrorMessage_def)
qed

text \<open>
  C6. Retrying restores the turn, in a chat that has been answered before: the selected chat
  has an id of the server, waits for no answer, and ends in the message its next message is
  sent after. When a message sent there without further options fails in a way the server
  calls retryable, the failure shows an error that carries the request; retrying it removes
  the failed message and the error and sends the same content after the same parent: the
  transcript is the one before the failed turn followed by the new message, the chat is
  loading, and the new stream owns it and carries the same retry request. The first turn of a
  new chat is not covered: there is no parent to cut the transcript at, and its retry keeps
  the failed turn (\<open>retry_of_first_turn_keeps_the_failure\<close>).
\<close>

theorem retry_restores_the_turn:
  assumes "currentChatId w = Some k" "\<not> is_temp k" "js_get (chats w) k = Some c"
    and "ch_hasPendingGeneration c \<noteq> Some True"
    and "ch_messages c = xs @ [m]" "msg_id m \<notin> msg_id ` set xs"
    and "ch_parentMessageId c = Some (msg_id m)"
    and "''error-'' @ en \<notin> msg_id ` set (ch_messages c)"
    and "sendMessage_begin tn un att now s mo no_send_options w = (Some ctx, w1)"
    and "onError en now1 True ctx w1 = Inr (ctx1, w2)"
  shows "\<exists>ctx2 w3 c3.
    retryMessage_begin tn2 un2 att2 now2 (''error-'' @ en) (sendMessage_finally ctx1 w2) =
      (Some ctx2, w3) \<and>
    js_get (chats w3) k = Some c3 \<and>
    ch_messages c3 = ch_messages c @ [plain_message (''user-'' @ un2) User s now2 (Some (msg_id m))] \<and>
    ch_isLoading c3 \<and> owns_stream ctx2 w3 \<and> sc_retryRequest ctx2 = sc_retryRequest ctx"
proof -
  have parent: "request_parent False k Undefined w = Value (msg_id m)"
    using assms(3,7) by (simp add: request_parent_def)
  define u where "u = plain_message (''user-'' @ un) User s now (Some (msg_id m))"
  define retry where "retry = sc_retryRequest ctx"
  define c1 where "c1 = send_to_existing False Undefined u now c"
  have send: "owns_stream ctx w1" "sc_primaryOutcome ctx = OPending" "sc_realChatId ctx = k"
    "js_get (chats w1) k = Some c1" "currentChatId w1 = Some k"
    "retry = createMessageRetryRequest \<lparr>ri_content = s, ri_modelOverrides = mo,
       ri_parentMessageId = Value (msg_id m), ri_isRegeneration = False,
       ri_trimToMessageId = Undefined, ri_draftPromptTemplates = None\<rparr>"
    using send_existing [OF assms(9,1,3)] parent
    by (simp_all add: no_send_options_def u_def c1_def retry_def)
  define c2 where "c2 = failed_chat en now1 retry False c1"
  let ?w = "sendMessage_finally ctx1 w2"
  have shown: "js_get (chats ?w) k = Some c2" "currentChatId ?w = Some k"
    using failure_shown [OF send(1,2) _ assms(10)] send(3,4,5) by (simp_all add: c2_def retry_def)
  have msgs1: "ch_messages c1 = ch_messages c @ [u]" by (simp add: c1_def send_to_existing_def Let_def)
  have fresh: "''error-'' @ en \<notin> msg_id ` set (ch_messages c1)"
    using assms(8) by (simp add: msgs1 u_def plain_message_def)
  have retry: "retryMessage_begin tn2 un2 att2 now2 (''error-'' @ en) ?w =
      sendMessage_begin tn2 un2 att2 now2 (rr_content retry) (rr_modelOverrides retry)
        (rr_options retry) ?w"
    using shown fresh assms(2) unfolding c2_def by (intro retry_of_failure)
  have free: "ch_hasPendingGeneration c2 \<noteq> Some True" by (simp add: c2_def failed_chat_def)
  have opts: "rr_content retry = s" "rr_modelOverrides retry = mo"
    "so_parentMessageId (rr_options retry) = Value (msg_id m)"
    "so_trimToMessageId (rr_options retry) = Value (msg_id m)"
    "so_isRegeneration (rr_options retry) = None" "so_draftPromptTemplates (rr_options retry) = None"
    by (simp_all add: send(6) createMessageRetryRequest_def)
  have parent2: "request_parent False k (Value (msg_id m)) v = Value (msg_id m)" for v
    by (simp add: request_parent_def)
  have "ch_messages c2 = xs @ m # [u, createErrorMessage GENERATION_FAILED_MESSAGE (Some retry) en now1]"
    by (simp add: c2_def failed_chat_def msgs1 assms(5))
  then have trimmed: "trimMessagesToMessageId (ch_messages c2) (Value (msg_id m)) = ch_messages c"
    using trim_at [OF assms(6)] assms(5) by simp
  obtain ctx2 w3 where run: "sendMessage_begin tn2 un2 att2 now2 s mo (rr_options retry) ?w = (Some ctx2, w3)"
    using send_existing_runs [OF shown(2,1) free] .
  note again = send_existing [OF run shown(2,1), unfolded opts parent2]
  show ?thesis
    unfolding retry opts
    by (intro exI conjI, rule run, rule again(7))
      (use again trimmed send(6) in \<open>simp_all add: send_to_existing_def Let_def retry_def
         createMessageRetryRequest_def\<close>)
qed

definition demo_open_chat :: chat where
  "demo_open_chat = (blank_chat ''c1'')\<lparr>
     ch_messages := [plain_message ''m1'' Assistant ''Welcome'' 0 None],
     ch_parentMessageId := Some ''m1''\<rparr>"

definition demo_open :: chat_world where
  "demo_open = createInitialChatState\<lparr>chats := [(''c1'', demo_open_chat)], currentChatId := Some ''c1''\<rparr>"

theorem retry_restores_the_turn_witness:
  "\<exists>(w3 :: chat_world) (c3 :: chat). js_get (chats w3) ''c1'' = Some c3 \<and> ch_isLoading c3 \<and>
     map msg_id (ch_messages c3) = [''m1'', ''user-b'']"
proof -
  have free: "ch_hasPendingGeneration demo_open_chat \<noteq> Some True"
    and cur: "currentChatId demo_open = Some ''c1''"
    and chat: "js_get (chats demo_open) ''c1'' = Some demo_open_chat"
    and temp: "\<not> is_temp ''c1''"
    and msgs: "ch_messages demo_open_chat = [] @ [plain_message ''m1'' Assistant ''Welcome'' 0 None]"
    and par: "ch_parentMessageId demo_open_chat =
      Some (msg_id (plain_message ''m1'' Assistant ''Welcome'' 0 None))"
    and fresh: "''error-'' @ ''e'' \<notin> msg_id ` set (ch_messages demo_open_chat)"
    and new: "msg_id (plain_message ''m1'' Assistant ''Welcome'' 0 None) \<notin> msg_id ` set []"
    by (simp_all add: demo_open_chat_def demo_open_def is_temp_def starts_with_def temp_prefix_def
        plain_message_def blank_chat_def)
  obtain ctx w1 where
    send: "sendMessage_begin ''a'' ''a'' ''x'' 1 ''Hi'' None no_send_options demo_open = (Some ctx, w1)"
    using send_existing_runs [OF cur chat free] .
  note sent = send_existing [OF send cur chat]
  obtain ctx1 w2 where err: "onError ''e'' 2 True ctx w1 = Inr (ctx1, w2)"
    using onError_run [OF sent(4,3)] by blast
  from retry_restores_the_turn [OF cur temp chat free msgs new par fresh send err,
      of "''b''" "''b''" "''y''" 3]
  show ?thesis
  proof (elim exE conjE)
    fix w3 :: chat_world and c3 :: chat
    assume "js_get (chats w3) ''c1'' = Some c3" "ch_isLoading c3"
      and "ch_messages c3 = ch_messages demo_open_chat @ [plain_message (''user-'' @ ''b'') User ''Hi'' 3
        (Some (msg_id (plain_message ''m1'' Assistant ''Welcome'' 0 None)))]"
    moreover from this have "map msg_id (ch_messages c3) = [''m1'', ''user-b'']"
      using msgs by (simp add: plain_message_def)
    ultimately show ?thesis by (intro exI conjI)
  qed
qed

section \<open>Adopting the real id of a new chat\<close>

lemma adopt_run:
  assumes "owns_stream ctx w" "sc_isNewChat ctx" "i \<noteq> sc_targetId ctx"
    and "fst (move_to i (sc_handle ctx) (messageStreamRequests w))"
    and "js_get (chats w) (sc_targetId ctx) = Some c"
  shows "adoptRealChatId i t ctx w = (True, ctx\<lparr>sc_realChatId := i\<rparr>,
    move_chat (sc_targetId ctx) i t c
      (w\<lparr>messageStreamRequests := snd (move_to i (sc_handle ctx) (messageStreamRequests w))\<rparr>))"
  using assms by (simp add: adoptRealChatId_def Let_def case_prod_beta)

text \<open>
  C4. Adopting the server's id moves a new chat without loss: when the stream that created it
  learns the id and no other live stream has that id, the temporary chat, its draft and its
  abort controller are found under the real id and no longer under the temporary one, the
  chat keeps its messages and flags and gets its own id and the given title, a selection of
  the temporary chat becomes a selection of the real one, everything stored under other ids
  stays, and the stream still owns the chat.
\<close>

theorem adoption_moves_the_chat:
  assumes "owns_stream ctx w" "sc_isNewChat ctx" "i \<noteq> sc_targetId ctx"
    and "fst (move_to i (sc_handle ctx) (messageStreamRequests w))"
    and "js_get (chats w) (sc_targetId ctx) = Some c"
  shows "\<exists>ctx1 w1. adoptRealChatId i t ctx w = (True, ctx1, w1) \<and> sc_realChatId ctx1 = i \<and>
    owns_stream ctx1 w1 \<and>
    (\<forall>k. js_get (chats w1) k =
       (if k = i then Some (c\<lparr>ch_id := i, ch_title := or_else t (ch_title c)\<rparr>)
        else if k = sc_targetId ctx then None else js_get (chats w) k)) \<and>
    (\<forall>k. js_get (drafts w1) k =
       (if js_has (drafts w) (sc_targetId ctx) \<and> k = i then js_get (drafts w) (sc_targetId ctx)
        else if k = sc_targetId ctx then None else js_get (drafts w) k)) \<and>
    (\<forall>k. js_get (abortControllers w1) k =
       (if js_has (abortControllers w) (sc_targetId ctx) \<and> k = i
        then js_get (abortControllers w) (sc_targetId ctx)
        else if k = sc_targetId ctx then None else js_get (abortControllers w) k)) \<and>
    currentChatId w1 =
      (if currentChatId w = Some (sc_targetId ctx) then Some i else currentChatId w)"
proof -
  let ?t = "snd (move_to i (sc_handle ctx) (messageStreamRequests w))"
  let ?w = "move_chat (sc_targetId ctx) i t c (w\<lparr>messageStreamRequests := ?t\<rparr>)"
  have own: "is_current ?t (sc_handle ctx)" using assms(4) by (simp add: move_to_fst)
  show ?thesis
    unfolding adopt_run [OF assms]
    by (intro exI conjI allI, rule refl)
      (use assms(3) own in \<open>auto simp: move_chat_def owns_stream_def split: option.split\<close>)
qed

lemma demo_adopt_facts:
  "sc_isNewChat demo_ctx" "''c9'' \<noteq> sc_targetId demo_ctx"
  "fst (move_to ''c9'' (sc_handle demo_ctx) (messageStreamRequests (sys_world demo_sent)))"
  "js_get (chats (sys_world demo_sent)) (sc_targetId demo_ctx) = Some demo_chat"
  by code_simp+

theorem adoption_moves_the_chat_witness:
  "\<exists>ctx1 (w1 :: chat_world). adoptRealChatId ''c9'' None demo_ctx (sys_world demo_sent) = (True, ctx1, w1) \<and>
     js_get (chats w1) ''__temp_a'' = None"
proof -
  have target: "sc_targetId demo_ctx = ''__temp_a''" by code_simp
  from adoption_moves_the_chat [OF demo_ctx_facts(1) demo_adopt_facts, of None]
  show ?thesis
  proof (elim exE conjE)
    fix ctx1 :: send_ctx and w1 :: chat_world
    assume run: "adoptRealChatId ''c9'' None demo_ctx (sys_world demo_sent) = (True, ctx1, w1)"
      and all: "\<forall>k. js_get (chats w1) k = (if k = ''c9'' then Some (demo_chat
         \<lparr>ch_id := ''c9'', ch_title := or_else None (ch_title demo_chat)\<rparr>)
        else if k = sc_targetId demo_ctx then None else js_get (chats (sys_world demo_sent)) k)"
    from all [rule_format, of "''__temp_a''"] have "js_get (chats w1) ''__temp_a'' = None"
      by (simp add: target)
    with run show ?thesis by (intro exI conjI)
  qed
qed

end
