(* ===== verification/ChatRecovery.thy ===== *)
theory ChatRecovery
  imports ChatOutcomes
begin

text \<open>
  The recovery paths of a turn: the reconciliation of an unknown outcome, and the two places
  where recovery does not do what the rest of the code assumes, both about the first turn of
  a new chat. The temporary chat is gone once the real id is adopted, so adopting the id a
  second time during reconciliation gives up; and a first message has no parent, so retrying
  it after adoption trims nothing.
\<close>

section \<open>Reconciliation of an unknown outcome\<close>

lemma adopt_same_id:
  assumes "owns_stream ctx w"
    and "active_key (messageStreamRequests w) (sc_handle ctx) = Some i"
    and "\<not> sc_isNewChat ctx \<or> i = sc_targetId ctx"
  shows "adoptRealChatId i None ctx w = (True, ctx\<lparr>sc_realChatId := i\<rparr>, w)"
  using assms
  by (auto simp: adoptRealChatId_def Let_def case_prod_beta move_to_same owns_stream_def)

text \<open>What is shown for an outcome the server could not deliver.\<close>

definition unsettled_content :: "reconciliation \<Rightarrow> string" where
  "unsettled_content r = (case r of
     Retryable _ \<Rightarrow> GENERATION_FAILED_MESSAGE
   | StillPending _ \<Rightarrow> GENERATION_PENDING_MESSAGE
   | _ \<Rightarrow> UNKNOWN_RESPONSE_OUTCOME_MESSAGE)"

text \<open>
  C5. A turn in an open conversation always settles. When its stream broke and the outcome
  has been asked for, the chat stops loading: with the recovered conversation exactly as the
  server holds it, or with one error message at the end of the transcript. Only a failure the
  server has confirmed carries a retry request; an outcome that is pending or unavailable
  carries none and marks the chat, so that further sends are refused.
\<close>

theorem reconciliation_settles_the_turn:
  assumes own: "owns_stream ctx w" and key: "active_key (messageStreamRequests w) (sc_handle ctx) = Some k"
    and old: "\<not> sc_isNewChat ctx" and real: "sc_realChatId ctx = k"
    and c: "js_get (chats w) k = Some c"
    and same: "reconciled_conversation r \<in> {None, Some k}"
    and run: "reconcileUnknownOutcome_end dm nano now r ctx w = (tree, ctx1, w1)"
  shows "\<exists>c1. js_get (chats w1) k = Some c1 \<and> \<not> ch_isLoading c1 \<and>
    (case r of
       Recovered _ d \<Rightarrow> js_get (chats w1) k = js_get (chats (applyChatDetail dm nano now k d w)) k
     | _ \<Rightarrow> \<exists>e. ch_messages c1 = ch_messages c @ [e] \<and> msg_isError e = Some True \<and>
         msg_content e = unsettled_content r \<and>
         msg_retryRequest e = (case r of Retryable _ \<Rightarrow> Some (sc_retryRequest ctx) | _ \<Rightarrow> None) \<and>
         ch_hasPendingGeneration c1 = Some (case r of Retryable _ \<Rightarrow> False | _ \<Rightarrow> True))"
proof -
  have ctx: "ctx\<lparr>sc_realChatId := k\<rparr> = ctx" using real by simp
  have adopt: "(case reconciled_conversation r of None \<Rightarrow> (True, ctx, w)
      | Some i \<Rightarrow> adoptRealChatId i None ctx w) = (True, ctx, w)"
    using same adopt_same_id [OF own key] old ctx by auto
  note step = run [unfolded reconcileUnknownOutcome_end_def Let_def adopt]
  have e: "\<exists>c1. js_get (chats (appendGenerationError nano now s rr p ctx w)) k = Some c1 \<and>
      \<not> ch_isLoading c1 \<and> (\<exists>e. ch_messages c1 = ch_messages c @ [e] \<and> msg_isError e = Some True \<and>
      msg_content e = s \<and> msg_retryRequest e = rr \<and> ch_hasPendingGeneration c1 = Some p)" for s rr p
    using c real by (simp add: appendGenerationError_def chats_updateChat createErrorMessage_def
        plain_message_def)
  show ?thesis
  proof (cases r)
    case (Recovered i d)
    then have "w1 = snd (applyReconciledDetail dm nano now d ctx w)"
      using step own by (auto simp: case_prod_beta)
    then have "chats w1 = chats (applyChatDetail dm nano now k d w)"
      using own real by (simp add: applyReconciledDetail_def clearCurrentAbortController_def)
    moreover have "\<exists>c1. js_get (chats (applyChatDetail dm nano now k d w)) k = Some c1 \<and> \<not> ch_isLoading c1"
      by (simp add: applyChatDetail_def Let_def split: prod.split)
    ultimately show ?thesis by (auto simp: Recovered)
  next
    case (Retryable i)
    then have "w1 = appendGenerationError nano now GENERATION_FAILED_MESSAGE
        (Some (sc_retryRequest ctx)) False ctx w" using step own by auto
    with e [of GENERATION_FAILED_MESSAGE "Some (sc_retryRequest ctx)" False] Retryable
    show ?thesis by (simp add: unsettled_content_def)
  next
    case (StillPending i)
    then have "w1 = appendGenerationError nano now GENERATION_PENDING_MESSAGE None True ctx w"
      using step own by auto
    with e [of GENERATION_PENDING_MESSAGE None True] StillPending
    show ?thesis by (simp add: unsettled_content_def)
  next
    case (Unavailable err i)
    then have "w1 = appendGenerationError nano now UNKNOWN_RESPONSE_OUTCOME_MESSAGE None True ctx w"
      using step own by auto
    with e [of UNKNOWN_RESPONSE_OUTCOME_MESSAGE None True] Unavailable
    show ?thesis by (simp add: unsettled_content_def)
  qed
qed

text \<open>A turn in the open conversation of the retry example.\<close>

definition demo_turn :: "send_ctx option \<times> chat_world" where
  "demo_turn = sendMessage_begin ''a'' ''a'' ''x'' 1 ''Hi'' None no_send_options demo_open"

lemma demo_turn_facts:
  "owns_stream (the (fst demo_turn)) (snd demo_turn)"
  "active_key (messageStreamRequests (snd demo_turn)) (sc_handle (the (fst demo_turn))) = Some ''c1''"
  "\<not> sc_isNewChat (the (fst demo_turn))" "sc_realChatId (the (fst demo_turn)) = ''c1''"
  by code_simp+

theorem reconciliation_settles_the_turn_witness:
  "\<exists>(c1 :: chat). js_get (chats (snd (snd (reconcileUnknownOutcome_end demo_dm ''n'' 2 (Retryable ''c1'')
      (the (fst demo_turn)) (snd demo_turn))))) ''c1'' = Some c1 \<and> \<not> ch_isLoading c1"
proof -
  let ?r = "reconcileUnknownOutcome_end demo_dm ''n'' 2 (Retryable ''c1'') (the (fst demo_turn)) (snd demo_turn)"
  obtain tree ctx1 w1 where run: "?r = (tree, ctx1, w1)" using prod_cases3 by blast
  have "js_has (chats (snd demo_turn)) ''c1''" by code_simp
  then obtain c where c: "js_get (chats (snd demo_turn)) ''c1'' = Some c" by blast
  have "reconciled_conversation (Retryable ''c1'') \<in> {None, Some ''c1''}" by simp
  from reconciliation_settles_the_turn [OF demo_turn_facts c this run]
  show ?thesis unfolding run by auto
qed

section \<open>Reconciliation after the id of a new chat was adopted\<close>

text \<open>
  The outcome of a new chat's first turn is lost once its real id has been adopted. If
  the stream that created the chat breaks after the server announced the id, and the
  reconciliation then finds the answer, a confirmed failure or a running attempt, the store
  shows none of them: adopting the same id again looks for the temporary chat, which is gone,
  and gives up. The chats, and with them the loading flag of this one, stay as they were, and
  the stream ends without owning anything.
\<close>

theorem reconciliation_after_adoption_is_lost:
  assumes "run_phase run = Reconciling" and "sc_isNewChat (run_ctx run)"
    and "k \<noteq> sc_targetId (run_ctx run)" and "js_get (chats w) (sc_targetId (run_ctx run)) = None"
    and "active_key (messageStreamRequests w) (sc_handle (run_ctx run)) = Some k"
    and "reconciled_conversation r = Some k"
    and "finish_reconciliation dm nano now r run w = (run1, w1)"
  shows "chats w1 = chats w \<and> run_phase run1 = Ended \<and> \<not> owns_stream (run_ctx run1) w1"
proof -
  have "\<exists>ctx1. reconcileUnknownOutcome_end dm nano now r (run_ctx run) w = (None, ctx1, w)"
    using assms(2-6)
    by (simp add: reconcileUnknownOutcome_end_def adoptRealChatId_def Let_def move_to_same
        owns_stream_def)
  with assms(1,7) finally_not_owned show ?thesis
    by (auto simp: finish_reconciliation_def)
qed

definition demo_adopted :: chat_sys where
  "demo_adopted = fold (perform demo_dm demo_ns)
     [Event 0 2 ''n'' (ChatIdEvent ''c9'' None), Close 0 (Inl (PlainError ''network''))] demo_sent"

lemma demo_adopted_facts:
  "run_phase (sys_runs demo_adopted ! 0) = Reconciling"
  "sc_isNewChat (run_ctx (sys_runs demo_adopted ! 0))"
  "''c9'' \<noteq> sc_targetId (run_ctx (sys_runs demo_adopted ! 0))"
  "js_get (chats (sys_world demo_adopted)) (sc_targetId (run_ctx (sys_runs demo_adopted ! 0))) = None"
  "active_key (messageStreamRequests (sys_world demo_adopted))
     (sc_handle (run_ctx (sys_runs demo_adopted ! 0))) = Some ''c9''"
  "map_option ch_isLoading (js_get (chats (sys_world demo_adopted)) ''c9'') = Some True"
  by code_simp+

theorem reconciliation_after_adoption_is_lost_witness:
  "map_option ch_isLoading (js_get (chats (snd (finish_reconciliation demo_dm ''n'' 3 (Retryable ''c9'')
     (sys_runs demo_adopted ! 0) (sys_world demo_adopted)))) ''c9'') = Some True"
proof -
  obtain run1 w1 where run: "finish_reconciliation demo_dm ''n'' 3 (Retryable ''c9'')
     (sys_runs demo_adopted ! 0) (sys_world demo_adopted) = (run1, w1)" by fastforce
  have "reconciled_conversation (Retryable ''c9'') = Some ''c9''" by simp
  from reconciliation_after_adoption_is_lost [OF demo_adopted_facts(1-5) this run] demo_adopted_facts(6)
  show ?thesis unfolding run by simp
qed

section \<open>Retrying the first turn of a new chat\<close>

lemma send_new:
  assumes run: "sendMessage_begin tn un att now s mo opts w = (Some ctx, w1)"
    and cur: "currentChatId w = None"
  shows "sc_isNewChat ctx" "sc_targetId ctx = generateTempId tn" "sc_primaryOutcome ctx = OPending"
    "owns_stream ctx w1" "currentChatId w1 = Some (generateTempId tn)"
    "so_parentMessageId (rr_options (sc_retryRequest ctx)) = Undefined"
    "so_trimToMessageId (rr_options (sc_retryRequest ctx)) = Undefined"
    "so_isRegeneration (rr_options (sc_retryRequest ctx)) = None"
    "rr_content (sc_retryRequest ctx) = s"
    "js_get (chats w1) (generateTempId tn) = Some (new_chat (generateTempId tn) s now
       (so_draftPromptTemplates opts) (plain_message (''user-'' @ un) User s now None))"
proof -
  have ctx: "fst (sendMessage_begin tn un att now s mo opts w) = Some ctx" and
    w1: "w1 = snd (sendMessage_begin tn un att now s mo opts w)"
    using run by simp_all
  show "owns_stream ctx w1" unfolding w1 by (rule sendMessage_begin_ctx [OF ctx])
qed (use run cur in \<open>auto simp: sendMessage_begin_def Let_def case_prod_beta
       createMessageRetryRequest_def request_parent_def split: if_splits\<close>)

text \<open>
  Retrying the first message of a new chat keeps the failed turn. If the server has
  announced the chat's id before the retryable failure, the retry neither removes the failed
  message nor its error: the transcript becomes the failed message, the error, and the same
  message again. (A later turn of a conversation is trimmed, as is a first turn that fails
  before the id is known.)
\<close>

theorem retry_of_first_turn_keeps_the_failure:
  assumes new: "currentChatId w = None"
    and send: "sendMessage_begin tn un att now s mo opts w = (Some ctx, w1)"
    and adopt: "adoptRealChatId k t ctx w1 = (True, ctx1, w2)"
    and k: "\<not> is_temp k" "k \<noteq> generateTempId tn"
    and err: "onError en now1 True ctx1 w2 = Inr (ctx2, w3)"
    and again: "retryMessage_begin tn2 un2 att2 now2 (''error-'' @ en) (sendMessage_finally ctx2 w3) =
      (Some ctx3, w4)"
  shows "\<exists>c. js_get (chats w4) k = Some c \<and>
    ch_messages c = [plain_message (''user-'' @ un) User s now None,
      createErrorMessage GENERATION_FAILED_MESSAGE (Some (sc_retryRequest ctx)) en now1,
      plain_message (''user-'' @ un2) User s now2 None]"
proof -
  note sent = send_new [OF send new]
  let ?target = "generateTempId tn" and ?user = "plain_message (''user-'' @ un) User s now None"
  define retry where "retry = sc_retryRequest ctx"
  have w2: "ctx1 = ctx\<lparr>sc_realChatId := k\<rparr>" "js_get (chats w2) k = Some ((new_chat ?target s now
      (so_draftPromptTemplates opts) ?user)\<lparr>ch_id := k, ch_title := or_else t (Some (truncate_text s 50))\<rparr>)"
      "currentChatId w2 = Some k" and own: "owns_stream ctx1 w2"
    using adopt sent k
    by (auto simp: adoptRealChatId_def Let_def case_prod_beta move_chat_def owns_stream_def
        new_chat_def move_to_fst split: if_splits)
  define c2 where "c2 = (new_chat ?target s now (so_draftPromptTemplates opts) ?user)
    \<lparr>ch_id := k, ch_title := or_else t (Some (truncate_text s 50))\<rparr>"
  have c2: "ch_messages c2 = [?user]" "ch_parentMessageId c2 = None"
    by (simp_all add: c2_def new_chat_def blank_chat_def)
  define c3 where "c3 = failed_chat en now1 retry False c2"
  let ?w = "sendMessage_finally ctx2 w3"
  have shown: "js_get (chats ?w) k = Some c3" "currentChatId ?w = Some k"
    using failure_shown [OF own _ _ err] w2 sent(3) by (simp_all add: c3_def c2_def retry_def)
  have "''error-'' @ en \<notin> msg_id ` set (ch_messages c2)" by (simp add: c2 plain_message_def)
  then have "sendMessage_begin tn2 un2 att2 now2 (rr_content retry) (rr_modelOverrides retry)
      (rr_options retry) ?w = (Some ctx3, w4)"
    using again retry_of_failure [OF shown(2) k(1) shown(1) [unfolded c3_def]] by simp
  note final = send_existing(7) [OF this shown(2,1)]
  have "request_parent False k Undefined ?w = Undefined"
    using shown by (simp add: request_parent_def c3_def failed_chat_def c2)
  then show ?thesis
    using final sent(6-9) c2 unfolding retry_def [symmetric]
    by (simp add: send_to_existing_def Let_def c3_def failed_chat_def)
qed

text \<open>A first turn whose id is announced, which then fails.\<close>

definition demo_named :: "send_ctx \<times> chat_world" where
  "demo_named = snd (adoptRealChatId ''c9'' None demo_ctx (sys_world demo_sent))"

definition demo_failed :: "send_ctx \<times> chat_world" where
  "demo_failed = projr (onError ''e'' 2 True (fst demo_named) (snd demo_named))"

definition demo_retried :: "send_ctx option \<times> chat_world" where
  "demo_retried = retryMessage_begin ''b'' ''b'' ''y'' 3 (''error-'' @ ''e'')
     (sendMessage_finally (fst demo_failed) (snd demo_failed))"

lemma demo_first_turn:
  "currentChatId createInitialChatState = None"
  "sendMessage_begin ''a'' ''a'' ''attempt-a'' 1 ''Hello'' None no_send_options createInitialChatState =
     (Some demo_ctx, sys_world demo_sent)"
  "fst (adoptRealChatId ''c9'' None demo_ctx (sys_world demo_sent))"
  "\<not> is_temp ''c9''" "''c9'' \<noteq> generateTempId ''a''"
  "\<not> isl (onError ''e'' 2 True (fst demo_named) (snd demo_named))"
  "fst demo_retried \<noteq> None"
  by code_simp+

theorem retry_of_first_turn_keeps_the_failure_witness:
  "map_option (\<lambda>c. map msg_id (ch_messages c)) (js_get (chats (snd demo_retried)) ''c9'') =
     Some [''user-a'', ''error-e'', ''user-b'']"
proof -
  have adopt: "adoptRealChatId ''c9'' None demo_ctx (sys_world demo_sent) =
      (True, fst demo_named, snd demo_named)"
    using demo_first_turn(3) by (simp add: demo_named_def prod_eq_iff)
  have err: "onError ''e'' 2 True (fst demo_named) (snd demo_named) =
      Inr (fst demo_failed, snd demo_failed)"
    using demo_first_turn(6) by (simp add: demo_failed_def)
  obtain ctx3 where again: "retryMessage_begin ''b'' ''b'' ''y'' 3 (''error-'' @ ''e'')
      (sendMessage_finally (fst demo_failed) (snd demo_failed)) = (Some ctx3, snd demo_retried)"
    using demo_first_turn(7) unfolding demo_retried_def by (metis option.exhaust prod.collapse)
  from retry_of_first_turn_keeps_the_failure
    [OF demo_first_turn(1,2) adopt demo_first_turn(4,5) err again]
  show ?thesis by (auto simp: plain_message_def createErrorMessage_def)
qed

end
