(* ===== verification/ChatAnnotations.thy ===== *)
theory ChatAnnotations
  imports ChatRecovery
begin

text \<open>
  The invariant every reachable state has, and the actions beside the conversation itself:
  feedback, source checks, deletion, branches and the chat list.
\<close>

section \<open>Every reachable state\<close>

text \<open>
  C12. In every reachable state each chat is stored once and under its own id, no stored
  draft is empty, each chat shows at most one activity item per id, and its activity log has
  one entry per id, in the order in which the entries were first reported.
\<close>

theorem reachable_chats_well_formed:
  assumes "reachable dm ns s"
  shows "distinct (js_keys (chats (sys_world s))) \<and>
    (\<forall>(k, c) \<in> set (chats (sys_world s)). ch_id c = k \<and>
       distinct (map ai_id (coalesce (ch_loadingActivity c) [])) \<and>
       distinct (map le_id (coalesce (ch_loadingActivityLog c) [])) \<and>
       sorted_wrt (<) (map le_sequence (coalesce (ch_loadingActivityLog c) []))) \<and>
    '''' \<notin> set (js_values (drafts (sys_world s)))"
proof -
  note w = world_wfD [OF sys_wfD(1) [OF reachable_wf [OF assms]]]
  have d: "distinct (js_keys (chats (sys_world s)))" "distinct (js_keys (drafts (sys_world s)))"
    using w(1,2) by (simp_all add: chats_wf_def drafts_wf_def map_wf_def)
  have "ch_id c = k \<and> activity_wf (activityLogCounter (sys_world s)) c"
    if "(k, c) \<in> set (chats (sys_world s))" for k c
    using that d(1) w(1,8) by (auto intro: chats_wfD activities_wfD map_of_is_SomeI)
  moreover have "v \<noteq> ''''" if "(k, v) \<in> set (drafts (sys_world s))" for k v
    using that d(2) w(2) by (auto dest: drafts_wfD map_of_is_SomeI)
  ultimately show ?thesis
    using d(1) by (fastforce simp: activity_wf_def log_wf_def)
qed

theorem reachable_chats_well_formed_witness:
  "distinct (js_keys (chats (sys_world demo_sent))) \<and> js_keys (chats (sys_world demo_sent)) = [''__temp_a'']"
  using reachable_chats_well_formed [OF demo_sent_reachable] demo_ctx_facts(4)
  by (simp, code_simp)

section \<open>Feedback\<close>

definition current_user_feedback :: "ident \<Rightarrow> chat_world \<Rightarrow> feedback list" where
  "current_user_feedback m w = filter fb_is_current_user (coalesce (js_get (messageFeedback w) m) [])"

definition other_feedback :: "ident \<Rightarrow> chat_world \<Rightarrow> feedback list" where
  "other_feedback m w = filter (\<lambda>f. \<not> fb_is_current_user f) (coalesce (js_get (messageFeedback w) m) [])"

text \<open>
  A submitted feedback replaces the user's own and nothing else: when the server returns
  the saved feedback of the current user, that feedback is the only one of theirs on the
  message, the feedback of the others and of other messages is as before, and the message is
  no longer marked as loading; after an error only the mark is gone.
\<close>

theorem submitted_feedback_replaces_own:
  assumes "fb_is_current_user saved"
  shows "current_user_feedback m (submitMessageFeedback_end m (Inr saved) w) = [saved] \<and>
    other_feedback m (submitMessageFeedback_end m (Inr saved) w) = other_feedback m w \<and>
    (\<forall>k. k \<noteq> m \<longrightarrow> js_get (messageFeedback (submitMessageFeedback_end m (Inr saved) w)) k =
       js_get (messageFeedback w) k) \<and>
    m \<notin> set (messageFeedbackLoading (submitMessageFeedback_end m (Inr saved) w)) \<and>
    submitMessageFeedback_end m (Inl e) w = feedback_loading_del m w"
  using assms
  by (simp add: current_user_feedback_def other_feedback_def submitMessageFeedback_end_def
      feedback_loading_del_def Let_def)

text \<open>
  Removing feedback writes back the list read before the request. After the answer the
  message's feedback is the list as it was when the removal began without the user's own; a
  feedback that arrived in between is lost.
\<close>

theorem removed_feedback_restores_old_list:
  assumes "removeMessageFeedback_begin m w0 = (Some (l, i), w1)"
  shows "current_user_feedback m (removeMessageFeedback_end m l (Inr ()) w) = [] \<and>
    js_get (messageFeedback (removeMessageFeedback_end m l (Inr ()) w)) m = Some (other_feedback m w0) \<and>
    i \<in> fb_id ` set (current_user_feedback m w0)"
  using assms
  by (auto simp: current_user_feedback_def other_feedback_def removeMessageFeedback_begin_def
      removeMessageFeedback_end_def feedback_loading_del_def Let_def find_Some_iff
      split: if_splits option.splits)

text \<open>The feedback of the witnesses.\<close>

definition demo_feedback :: "ident \<Rightarrow> bool \<Rightarrow> feedback" where
  "demo_feedback i own = \<lparr>fb_id = i, fb_rating = ThumbsUp, fb_text = None, fb_user_id = ''u'',
     fb_user_name = ''U'', fb_is_current_user = own, fb_created_at = ''t'', fb_updated_at = ''t''\<rparr>"

theorem submitted_feedback_replaces_own_witness:
  "current_user_feedback ''m1'' (submitMessageFeedback_end ''m1'' (Inr (demo_feedback ''f2'' True))
     (demo_open\<lparr>messageFeedback := [(''m1'', [demo_feedback ''f1'' True])]\<rparr>)) = [demo_feedback ''f2'' True]"
proof -
  have own: "fb_is_current_user (demo_feedback ''f2'' True)" by (simp add: demo_feedback_def)
  from submitted_feedback_replaces_own [OF own] show ?thesis by blast
qed

theorem removed_feedback_restores_old_list_witness:
  "current_user_feedback ''m1'' (removeMessageFeedback_end ''m1'' [demo_feedback ''f1'' True] (Inr ()) demo_open) = []"
proof -
  obtain w1 where run: "removeMessageFeedback_begin ''m1''
      (demo_open\<lparr>messageFeedback := [(''m1'', [demo_feedback ''f1'' True])]\<rparr>) =
      (Some ([demo_feedback ''f1'' True], ''f1''), w1)"
    by (simp add: removeMessageFeedback_begin_def is_error_id_def starts_with_def demo_feedback_def Let_def)
  from removed_feedback_restores_old_list [OF run] show ?thesis by blast
qed

section \<open>Source checks\<close>

definition ground :: "ident \<Rightarrow> grounding_status \<Rightarrow> source_used list \<Rightarrow> bool \<Rightarrow> message \<Rightarrow> message" where
  "ground m s ss b x = (if msg_id x \<noteq> m \<or> (b \<and> msg_groundingSourceStatus x \<noteq> Value GPending) then x
     else x\<lparr>msg_groundingSourcesUsed := Some ss, msg_groundingSourceStatus := Value s\<rparr>)"

lemma updateGrounding_chat:
  "js_get (chats (updateGrounding i m s ss b w)) i =
   map_option (\<lambda>c. c\<lparr>ch_messages := map (ground m s ss b) (ch_messages c)\<rparr>) (js_get (chats w) i)"
  by (simp add: updateGrounding_def chats_updateChat ground_def [abs_def])

text \<open>A rewriting of messages that only settles the source check of the messages \<open>m\<close>.\<close>

definition settles :: "ident \<Rightarrow> (message \<Rightarrow> message) \<Rightarrow> bool" where
  "settles m f \<longleftrightarrow> (\<forall>x. msg_id (f x) = msg_id x \<and> quiet_message (f x) = quiet_message x \<and>
     (msg_id x \<noteq> m \<longrightarrow> f x = x) \<and> (msg_id x = m \<longrightarrow> msg_groundingSourceStatus (f x) \<noteq> Value GPending))"

lemma settles_ground:
  "s \<noteq> GPending \<Longrightarrow> settles m (ground m s ss b)"
  "s \<noteq> GPending \<Longrightarrow> settles m f \<Longrightarrow> settles m (ground m s ss b \<circ> f)"
  by (simp_all add: settles_def ground_def quiet_message_def)

lemma settles_messages:
  assumes "settles m f"
  shows "\<forall>x \<in> set (map f xs). msg_id x = m \<longrightarrow> msg_groundingSourceStatus x \<noteq> Value GPending"
    "map quiet_message (map f xs) = map quiet_message xs"
    "filter (\<lambda>x. msg_id x \<noteq> m) (map f xs) = filter (\<lambda>x. msg_id x \<noteq> m) xs"
proof -
  have f: "msg_id (f x) = msg_id x" "quiet_message (f x) = quiet_message x"
    "msg_id x \<noteq> m \<Longrightarrow> f x = x" "msg_id x = m \<Longrightarrow> msg_groundingSourceStatus (f x) \<noteq> Value GPending"
    for x using assms by (simp_all add: settles_def)
  show "\<forall>x \<in> set (map f xs). msg_id x = m \<longrightarrow> msg_groundingSourceStatus x \<noteq> Value GPending"
    by (auto simp: f)
  show "map quiet_message (map f xs) = map quiet_message xs" by (simp add: f)
  show "filter (\<lambda>x. msg_id x \<noteq> m) (map f xs) = filter (\<lambda>x. msg_id x \<noteq> m) xs"
    by (induction xs) (auto simp: f)
qed

lemma retryGroundingSources_end_map:
  assumes "js_get (chats w) k = Some c"
    and "\<And>g. r = Inr g \<Longrightarrow> gr_grounding_source_status g \<noteq> GPending"
    and "retryGroundingSources_end k m r w = (e, w1)"
  shows "\<exists>f. settles m f \<and> js_get (chats w1) k = Some (c\<lparr>ch_messages := map f (ch_messages c)\<rparr>)"
proof -
  have recover: "settles m (ground m GFailed [] True)" by (simp add: settles_ground)
  show ?thesis
  proof (cases "\<exists>g. r = Inr g \<and> gr_assistant_message_id g = m")
    case False
    then have "w1 = updateGrounding k m GFailed [] True w"
      using assms(3) by (auto simp: retryGroundingSources_end_def Let_def split: sum.splits if_splits)
    then show ?thesis using assms(1) recover by (auto simp: updateGrounding_chat)
  next
    case True
    then obtain g where g: "r = Inr g" "gr_assistant_message_id g = m" by blast
    let ?f = "ground m (gr_grounding_source_status g) (gr_grounding_sources_used g) False"
    have f: "settles m ?f" using assms(2) [OF g(1)] by (simp add: settles_ground)
    show ?thesis
    proof (cases "gr_grounding_source_status g = GFailed")
      case False
      then show ?thesis using assms(1,3) g f
        by (auto simp: retryGroundingSources_end_def Let_def updateGrounding_chat)
    next
      case True
      have "settles m (ground m GFailed [] True \<circ> ?f)" using f by (simp add: settles_ground)
      moreover have "js_get (chats w1) k =
          Some (c\<lparr>ch_messages := map (ground m GFailed [] True \<circ> ?f) (ch_messages c)\<rparr>)"
        using assms(1,3) g True
        by (auto simp: retryGroundingSources_end_def Let_def updateGrounding_chat)
      ultimately show ?thesis by blast
    qed
  qed
qed

text \<open>
  A retried source check never stays pending. Whatever the server answers, short of a
  pending status of its own, after the answer no message with that id in that chat is
  pending; the contents of all messages and the other messages altogether are as before.
\<close>

theorem source_check_settles:
  assumes "js_get (chats w) k = Some c"
    and "\<And>g. r = Inr g \<Longrightarrow> gr_grounding_source_status g \<noteq> GPending"
    and "retryGroundingSources_end k m r w = (e, w1)"
  shows "\<exists>c1. js_get (chats w1) k = Some c1 \<and>
    (\<forall>x \<in> set (ch_messages c1). msg_id x = m \<longrightarrow> msg_groundingSourceStatus x \<noteq> Value GPending) \<and>
    map quiet_message (ch_messages c1) = map quiet_message (ch_messages c) \<and>
    filter (\<lambda>x. msg_id x \<noteq> m) (ch_messages c1) = filter (\<lambda>x. msg_id x \<noteq> m) (ch_messages c)"
proof -
  obtain f where f: "settles m f" "js_get (chats w1) k = Some (c\<lparr>ch_messages := map f (ch_messages c)\<rparr>)"
    using retryGroundingSources_end_map [OF assms] by blast
  then show ?thesis using settles_messages [OF f(1), of "ch_messages c"] by auto
qed

theorem source_check_settles_witness:
  "\<exists>(c1 :: chat). js_get (chats (snd (retryGroundingSources_end ''c1'' ''m1'' (Inl AbortError) demo_open)))
     ''c1'' = Some c1 \<and> map quiet_message (ch_messages c1) = map quiet_message (ch_messages demo_open_chat)"
proof -
  have chat: "js_get (chats demo_open) ''c1'' = Some demo_open_chat" by (simp add: demo_open_def)
  obtain e w1 where run: "retryGroundingSources_end ''c1'' ''m1'' (Inl AbortError) demo_open = (e, w1)"
    by fastforce
  from source_check_settles [OF chat _ run] show ?thesis unfolding run by auto
qed

section \<open>Deleting a chat\<close>

text \<open>
  Deleting removes a chat at once and a failed deletion brings it back, but not what
  belonged to it. After the first part the chat, its draft and its branches are gone and it is
  not open. If the server refuses, the chat as it was is stored again; its draft is not, and
  no chat is opened again.
\<close>

theorem deletion_and_rollback:
  assumes "w1 = deleteChat_begin k w" and "js_get (chats w) k = Some c"
    and "(e, w2) = deleteChat_end k (js_get (chats w) k) (Inl err) w1"
  shows "js_get (chats w1) k = None \<and> js_get (drafts w1) k = None \<and>
    js_get (conversationTreeResults w1) k = None \<and> currentChatId w1 \<noteq> Some k \<and>
    e = Some err \<and> (\<forall>j. js_get (chats w2) j = js_get (chats w) j) \<and>
    js_get (drafts w2) k = None \<and> currentChatId w2 \<noteq> Some k"
  using assms
  by (auto simp: deleteChat_begin_def deleteChat_end_def Let_def)

theorem deletion_and_rollback_witness:
  "js_get (chats (deleteChat_begin ''c1'' demo_open)) ''c1'' = None"
proof -
  have chat: "js_get (chats demo_open) ''c1'' = Some demo_open_chat" by (simp add: demo_open_def)
  obtain e w2 where run: "(e, w2) = deleteChat_end ''c1'' (js_get (chats demo_open) ''c1'') (Inl AbortError)
      (deleteChat_begin ''c1'' demo_open)" by (metis prod.exhaust)
  from deletion_and_rollback [OF refl chat run] show ?thesis by blast
qed

section \<open>Branches and the chat list\<close>

lemma branch_answer_shown:
  "\<exists>c. js_get (chats (store_step dm (SetActiveBranchAnswer nano now k (Inr d)) w)) k = Some c \<and>
    map msg_id (filter (\<lambda>m. msg_isError m = None) (ch_messages c)) = map sm_id (cd_messages d) \<and>
    ch_parentMessageId c = last_id (cd_messages d)"
proof -
  have "chats (store_step dm (SetActiveBranchAnswer nano now k (Inr d)) w) =
      chats (applyChatDetail dm nano now k d w)"
    by (simp add: setActiveBranch_end_def case_prod_beta)
  moreover have "filter (\<lambda>m. msg_isError m = None) (map (convertServerMessage dm) ms) =
      map (convertServerMessage dm) ms" for ms
    by (simp add: filter_id_conv convertServerMessage_def)
  moreover have "map msg_id (map (convertServerMessage dm) ms) = map sm_id ms" for ms
    by (simp add: convertServerMessage_def)
  ultimately show ?thesis
    by (simp add: applyChatDetail_def convertServerMessages_def Let_def createErrorMessage_def)
qed

text \<open>
  Switching branches has no guard against answers out of order. When a branch is asked
  for and then another, and the answer to the second arrives before the answer to the first,
  the conversation ends up showing the first one, with the parent for the next message taken
  from it, although the user chose the second.
\<close>

theorem older_branch_answer_wins:
  "\<exists>c. js_get (chats (sys_world (fold (perform dm ns)
      [Store (SetActiveBranch k), Store (SetActiveBranch k),
       Store (SetActiveBranchAnswer n2 t2 k (Inr newer)),
       Store (SetActiveBranchAnswer n1 t1 k (Inr older))] s))) k = Some c \<and>
    map msg_id (filter (\<lambda>m. msg_isError m = None) (ch_messages c)) = map sm_id (cd_messages older) \<and>
    ch_parentMessageId c = last_id (cd_messages older)"
  using branch_answer_shown [of dm n1 t1 k older] by simp

text \<open>
  Reloading the chat list drops a chat that is still being created: afterwards a chat is
  stored exactly if the list has it, so a temporary chat whose stream is running is gone, and
  the stream's next attempt to adopt the real id fails and leaves the chats as they are.
\<close>

theorem reload_drops_temporary_chat:
  assumes "sc_targetId ctx \<notin> li_id ` set items" and "sc_isNewChat ctx" and "i \<noteq> sc_targetId ctx"
    and "w1 = loadChats_end dm (Inr items) w"
  shows "js_get (chats w1) (sc_targetId ctx) = None \<and>
    \<not> fst (adoptRealChatId i t ctx w1) \<and>
    chats (snd (snd (adoptRealChatId i t ctx w1))) = chats w1"
proof -
  have "find (\<lambda>x. li_id x = sc_targetId ctx) (rev items) = None"
    using assms(1) by (auto simp: find_None_iff image_iff)
  then have "js_get (mergeChatListItems dm items (chats w)) (sc_targetId ctx) = None"
    by (simp add: mergeChatListItems_def merge_fold_get)
  then have none: "js_get (chats w1) (sc_targetId ctx) = None"
    by (simp add: assms(4) loadChats_end_def)
  then show ?thesis
    using assms(2,3) by (simp add: adoptRealChatId_def Let_def case_prod_beta)
qed

theorem reload_drops_temporary_chat_witness:
  "\<not> fst (adoptRealChatId ''c9'' None demo_ctx
     (loadChats_end demo_dm (Inr [sample_item ''b'']) (sys_world demo_sent)))"
proof -
  have "sc_targetId demo_ctx \<notin> li_id ` set [sample_item ''b'']" by code_simp
  from reload_drops_temporary_chat [OF this demo_adopt_facts(1,2) refl, of demo_dm "sys_world demo_sent" None]
  show ?thesis by blast
qed

end
