(* ===== verification/StreamApi.thy ===== *)
theory StreamApi
  imports ChatSystem
begin

text \<open>
  The wire side of a message stream (chat/lib/api.ts, \<open>sendMessageStream\<close>): the request
  body, the reader that cuts the server-sent events out of the arriving chunks, and the
  dispatch that checks each event's payload and calls the store's callbacks.

  A chunk is the text the language's \<open>TextDecoder\<close> gives for it, or the error of the read
  (\<open>Inl\<close>). \<open>JSON.parse\<close> is the argument \<open>parse\<close>, \<open>None\<close> for text it rejects. The events
  delivered to the callbacks are a list of \<open>stream_event\<close>, and the result is the error the
  reader throws or \<open>Inr ()\<close>.
\<close>

section \<open>The request\<close>

record stream_params =
  sp_userMessage :: string
  sp_generationAttemptId :: ident
  sp_chatId :: "ident option"
  sp_parentMessageId :: "ident nullable"
  sp_promptSetVersionId :: "string option"
  sp_draftPromptTemplates :: "draft_template list option"
  sp_modelOverrides :: "model_overrides option"
  sp_isRegeneration :: "bool option"
  sp_conversationKind :: "string option"

fun effort_name :: "reasoning_effort \<Rightarrow> string" where
  "effort_name ENone = ''none''"
| "effort_name ELow = ''low''"
| "effort_name EMedium = ''medium''"
| "effort_name EHigh = ''high''"
| "effort_name EXhigh = ''xhigh''"

text \<open>A field that is set only for a present value, and one that skips the empty string too.\<close>

definition present_field :: "string \<Rightarrow> json option \<Rightarrow> (string \<times> json) list" where
  "present_field name v = (case v of None \<Rightarrow> [] | Some j \<Rightarrow> [(name, j)])"

definition text_field :: "string \<Rightarrow> string option \<Rightarrow> (string \<times> json) list" where
  "text_field name v = (case v of None \<Rightarrow> [] | Some s \<Rightarrow> if s = '''' then [] else [(name, JStr s)])"

definition nullable_json :: "string nullable \<Rightarrow> json option" where
  "nullable_json v = (case v of Undefined \<Rightarrow> None | Null \<Rightarrow> Some JNull | Value s \<Rightarrow> Some (JStr s))"

definition template_json :: "draft_template \<Rightarrow> json" where
  "template_json t = JObj [(''filename'', JStr (dt_filename t)), (''content'', JStr (dt_content t))]"

definition stream_body :: "stream_params \<Rightarrow> (string \<times> json) list" where
  "stream_body p =
     [(''user_prompt'', JStr (sp_userMessage p)),
      (''generation_attempt_id'', JStr (sp_generationAttemptId p))] @
     present_field ''conversation_id'' (map_option JStr (sp_chatId p)) @
     present_field ''parent_message_id'' (nullable_json (sp_parentMessageId p)) @
     (if sp_conversationKind p = Some ''investigation''
      then [(''conversation_kind'', JStr ''investigation'')] else []) @
     text_field ''prompt_set_version_id'' (sp_promptSetVersionId p) @
     present_field ''draft_prompt_templates''
       (map_option (\<lambda>ts. JArr (map template_json ts)) (sp_draftPromptTemplates p)) @
     text_field ''chatbot_model'' (Option.bind (sp_modelOverrides p) mo_chatbotModel) @
     text_field ''guardrail_model'' (Option.bind (sp_modelOverrides p) mo_guardrailModel) @
     present_field ''chatbot_reasoning_effort''
       (map_option (JStr \<circ> effort_name) (Option.bind (sp_modelOverrides p) mo_chatbotReasoningEffort)) @
     present_field ''guardrail_reasoning_effort''
       (map_option (JStr \<circ> effort_name) (Option.bind (sp_modelOverrides p) mo_guardrailReasoningEffort)) @
     (if sp_isRegeneration p = Some True then [(''is_regeneration'', JBool True)] else [])"

section \<open>Cutting events out of the text\<close>

definition CR :: char where
  "CR = CHR 0x0D"

definition LF :: char where
  "LF = CHR 0x0A"

text \<open>\<open>replaceAll\<close> of CR LF by LF.\<close>

fun normalize_eol :: "string \<Rightarrow> string" where
  "normalize_eol [] = []"
| "normalize_eol [c] = [c]"
| "normalize_eol (c # d # s) = (if c = CR \<and> d = LF then LF # normalize_eol s else c # normalize_eol (d # s))"

text \<open>\<open>indexOf\<close> of a blank line: the text before it and after it.\<close>

fun split_event :: "string \<Rightarrow> (string \<times> string) option" where
  "split_event [] = None"
| "split_event [c] = None"
| "split_event (c # d # s) =
     (if c = LF \<and> d = LF then Some ([], s)
      else map_option (\<lambda>(a, b). (c # a, b)) (split_event (d # s)))"

lemma split_event_append: "split_event s = Some (a, b) \<Longrightarrow> s = a @ LF # LF # b"
  by (induction s arbitrary: a rule: split_event.induct) (auto split: if_splits)

text \<open>The inner loop: all complete events of the buffer, and the rest.\<close>

function drain :: "string \<Rightarrow> string list \<times> string" where
  "drain buffer = (case split_event buffer of
     None \<Rightarrow> ([], buffer)
   | Some (raw, rest) \<Rightarrow> (let (es, r) = drain rest in (raw # es, r)))"
  by auto

termination
  by (relation "measure length") (auto dest: split_event_append)

declare drain.simps [simp del]

fun split_lines :: "string \<Rightarrow> string list" where
  "split_lines [] = [[]]"
| "split_lines (c # s) =
     (if c = LF then [] # split_lines s
      else (case split_lines s of l # ls \<Rightarrow> (c # l) # ls | [] \<Rightarrow> [[c]]))"

fun join_lines :: "string list \<Rightarrow> string" where
  "join_lines [] = []"
| "join_lines [l] = l"
| "join_lines (l # ls) = l @ LF # join_lines ls"

record sse_event =
  se_event :: string
  se_data :: string

text \<open>One line of \<open>parseSseEvent\<close>: the last event name counts, data lines accumulate.\<close>

definition sse_line :: "string \<Rightarrow> string \<times> string list \<Rightarrow> string \<times> string list" where
  "sse_line line st =
     (if starts_with line ''event:'' then (trim (drop 6 line), snd st)
      else if starts_with line ''data:'' then (fst st, snd st @ [trim (drop 5 line)])
      else st)"

definition parseSseEvent :: "string \<Rightarrow> sse_event" where
  "parseSseEvent raw =
     (let (event, dataLines) = fold sse_line (split_lines raw) (''message'', [])
      in \<lparr>se_event = event, se_data = join_lines dataLines\<rparr>)"

definition parseSsePayload :: "(string \<Rightarrow> json option) \<Rightarrow> string \<Rightarrow> json option" where
  "parseSsePayload parse s = (case parse s of
     None \<Rightarrow> None | Some j \<Rightarrow> if isRecord j then Some j else None)"

section \<open>Checking payloads\<close>

definition agent_stage_of :: "json option \<Rightarrow> agent_stage option" where
  "agent_stage_of v = (case as_string v of
     None \<Rightarrow> None
   | Some s \<Rightarrow> if s = ''chatbot'' then Some ChatbotStage
       else if s = ''guardrails'' then Some GuardrailsStage
       else if s = ''investigation'' then Some InvestigationStage else None)"

definition call_status_of :: "json option \<Rightarrow> call_status option" where
  "call_status_of v = (case as_string v of
     None \<Rightarrow> None
   | Some s \<Rightarrow> if s = ''start'' then Some StartStatus
       else if s = ''end'' then Some EndStatus
       else if s = ''error'' then Some FailStatus else None)"

definition thinking_status_of :: "json option \<Rightarrow> thinking_status option" where
  "thinking_status_of v = (case as_string v of
     None \<Rightarrow> None
   | Some s \<Rightarrow> if s = ''start'' then Some ThinkStart
       else if s = ''delta'' then Some ThinkDelta
       else if s = ''end'' then Some ThinkEnd else None)"

fun source_type_name :: "source_type \<Rightarrow> string" where
  "source_type_name WebsitePage = ''website_page''"
| "source_type_name WebsiteProgram = ''website_program''"
| "source_type_name CatalogPage = ''catalog_page''"
| "source_type_name CatalogProgram = ''catalog_program''"
| "source_type_name CatalogCourse = ''catalog_course''"
| "source_type_name TrainingMaterial = ''training_material''"
| "source_type_name CannedResponse = ''canned_response''"

definition source_types :: "source_type list" where
  "source_types = [WebsitePage, WebsiteProgram, CatalogPage, CatalogProgram, CatalogCourse,
     TrainingMaterial, CannedResponse]"

definition source_type_of :: "json option \<Rightarrow> source_type option" where
  "source_type_of v = (case as_string v of
     None \<Rightarrow> None | Some s \<Rightarrow> find (\<lambda>t. source_type_name t = s) source_types)"

fun source_usage_name :: "source_usage \<Rightarrow> string" where
  "source_usage_name USearch = ''search''"
| "source_usage_name ULookup = ''lookup''"
| "source_usage_name URetrievedById = ''retrieved_by_id''"
| "source_usage_name UPrompt = ''prompt''"

definition source_usage_of :: "json option \<Rightarrow> source_usage option" where
  "source_usage_of v = (case as_string v of
     None \<Rightarrow> None
   | Some s \<Rightarrow> find (\<lambda>u. source_usage_name u = s) [USearch, ULookup, URetrievedById, UPrompt])"

text \<open>A field that is absent, \<open>null\<close> or a string; \<open>None\<close> for anything else.\<close>

fun nullable_string :: "json option \<Rightarrow> string nullable option" where
  "nullable_string None = Some Undefined"
| "nullable_string (Some JNull) = Some Null"
| "nullable_string (Some (JStr s)) = Some (Value s)"
| "nullable_string _ = None"

definition parse_source :: "json \<Rightarrow> source_used option" where
  "parse_source item =
     (case (source_type_of (field_of item ''type''), as_number (field_of item ''id''),
            as_string (field_of item ''key''), as_string (field_of item ''title''),
            as_string (field_of item ''url''), source_usage_of (field_of item ''usage'')) of
        (Some ty, Some n, Some key, Some title, Some url, Some usage) \<Rightarrow>
          (case (as_string (field_of item ''tool_call_id''), as_string (field_of item ''tool_name''),
                 nullable_string (field_of item ''search_query''),
                 nullable_string (field_of item ''chunk''),
                 nullable_string (field_of item ''explanation'')) of
             (Some tcid, Some tname, Some query, Some ch, Some expl) \<Rightarrow>
               Some \<lparr>su_key = key, su_type = ty, su_id = n, su_title = title, su_url = url,
                 su_usage = usage, su_tool_call_id = tcid, su_tool_name = tname,
                 su_search_query = query, su_chunk = ch, su_explanation = expl\<rparr>
           | _ \<Rightarrow> None)
      | _ \<Rightarrow> None)"

text \<open>\<open>map\<close> with a callback that may throw.\<close>

fun map_sources :: "string \<Rightarrow> json list \<Rightarrow> js_error + source_used list" where
  "map_sources fieldName [] = Inr []"
| "map_sources fieldName (item # items) =
     (if \<not> isRecord item then Inl (PlainError (''Invalid '' @ fieldName @ '' item''))
      else (case parse_source item of
          None \<Rightarrow> Inl (PlainError (''Invalid '' @ fieldName @ '' item''))
        | Some s \<Rightarrow> (case map_sources fieldName items of
            Inl e \<Rightarrow> Inl e
          | Inr ss \<Rightarrow> Inr (s # ss))))"

fun parseMessageSourcesUsed :: "json option \<Rightarrow> string \<Rightarrow> js_error + source_used list option" where
  "parseMessageSourcesUsed None fieldName = Inr None"
| "parseMessageSourcesUsed (Some JNull) fieldName = Inr None"
| "parseMessageSourcesUsed (Some (JArr items)) fieldName = map_sum id Some (map_sources fieldName items)"
| "parseMessageSourcesUsed (Some _) fieldName =
     Inl (TypeError (''Invalid '' @ fieldName @ '' payload''))"

definition parseGroundingSourceStatus :: "json option \<Rightarrow> js_error + grounding_status nullable" where
  "parseGroundingSourceStatus v =
     (if v = None then Inr Undefined
      else if v = Some JNull then Inr Null
      else if v = Some (JStr ''pending'') then Inr (Value GPending)
      else if v = Some (JStr ''selected'') then Inr (Value GSelected)
      else if v = Some (JStr ''no_selection'') then Inr (Value GNoSelection)
      else if v = Some (JStr ''failed'') then Inr (Value GFailed)
      else Inl (PlainError ''Invalid grounding_source_status payload''))"

fun numbers_of :: "json list \<Rightarrow> number list" where
  "numbers_of [] = []"
| "numbers_of (JNum n # xs) = n # numbers_of xs"
| "numbers_of (_ # xs) = numbers_of xs"

definition parse_usage :: "json \<Rightarrow> response_usage" where
  "parse_usage v = \<lparr>
     ru_inputTokens = as_number (field_of v ''input_tokens''),
     ru_uncachedInputTokens = as_number (field_of v ''uncached_input_tokens''),
     ru_cacheReadInputTokens = as_number (field_of v ''cache_read_input_tokens''),
     ru_outputTokens = as_number (field_of v ''output_tokens'')\<rparr>"

definition parse_breakdown :: "json \<Rightarrow> cost_breakdown" where
  "parse_breakdown v = \<lparr>
     cb_inputCost = as_number (field_of v ''input_cost''),
     cb_cacheReadInputCost = as_number (field_of v ''cache_read_input_cost''),
     cb_outputCost = as_number (field_of v ''output_cost'')\<rparr>"

definition parse_timing :: "json \<Rightarrow> generation_timing" where
  "parse_timing v = \<lparr>
     gt_totalTimeMs = as_number (field_of v ''total_time_ms''),
     gt_chatbotTimeMs = as_number (field_of v ''chatbot_time_ms''),
     gt_guardrailTimeMs = as_number (field_of v ''guardrail_time_ms''),
     gt_chatbotTimesMs = map_option numbers_of (as_array (field_of v ''chatbot_times_ms'')),
     gt_guardrailTimesMs = map_option numbers_of (as_array (field_of v ''guardrail_times_ms'')),
     gt_chatbotModel = as_string (field_of v ''chatbot_model''),
     gt_guardrailModel = as_string (field_of v ''guardrail_model'')\<rparr>"

section \<open>Dispatching an event\<close>

text \<open>
  The cases of the \<open>switch\<close>. The result is an error the reader throws, no callback, or the
  call of a callback.
\<close>

definition conversation_event :: "json \<Rightarrow> stream_event option" where
  "conversation_event p = map_option
     (\<lambda>i. ChatIdEvent i (as_string (field_of p ''conversation_title'')))
     (as_string (field_of p ''conversation_id''))"

definition title_update_event :: "json \<Rightarrow> stream_event option" where
  "title_update_event p =
     (case (as_string (field_of p ''conversation_id''), as_string (field_of p ''title'')) of
        (Some i, Some title) \<Rightarrow>
          if field_of p ''stage'' \<in> {Some (JStr ''initial''), Some (JStr ''post_assistant'')}
          then Some (TitleEvent i title) else None
      | _ \<Rightarrow> None)"

definition agent_stage_event_of :: "json \<Rightarrow> stream_event option" where
  "agent_stage_event_of p =
     (case (as_string (field_of p ''conversation_id''), agent_stage_of (field_of p ''stage''),
            call_status_of (field_of p ''status'')) of
        (Some i, Some stage, Some status) \<Rightarrow> Some (AgentStageEvent \<lparr>as_chatId = i, as_stage = stage,
          as_status = status, as_durationMs = as_number (field_of p ''duration_ms''),
          as_iteration = as_number (field_of p ''iteration'')\<rparr>)
      | _ \<Rightarrow> None)"

definition tool_call_event_of :: "json \<Rightarrow> stream_event option" where
  "tool_call_event_of p =
     (case (as_string (field_of p ''conversation_id''), as_string (field_of p ''tool_call_id''),
            call_status_of (field_of p ''status'')) of
        (Some i, Some callId, Some status) \<Rightarrow> Some (ToolCallEvent \<lparr>te_chatId = i,
          te_stage = agent_stage_of (field_of p ''stage''), te_status = status,
          te_toolCallId = callId, te_toolName = as_string (field_of p ''tool_name''),
          te_toolInput = field_of p ''tool_input'', te_toolOutput = field_of p ''tool_output'',
          te_toolErrorText = as_string (field_of p ''tool_error_text''),
          te_iteration = as_number (field_of p ''iteration'')\<rparr>)
      | _ \<Rightarrow> None)"

definition thinking_event_of :: "json \<Rightarrow> stream_event option" where
  "thinking_event_of p =
     (case (as_string (field_of p ''conversation_id''), as_string (field_of p ''thinking_id''),
            thinking_status_of (field_of p ''status'')) of
        (Some i, Some thinkingId, Some status) \<Rightarrow> Some (ThinkingEvent \<lparr>th_chatId = i,
          th_status = status, th_thinkingId = thinkingId,
          th_content = as_string (field_of p ''content''),
          th_stage = agent_stage_of (field_of p ''stage''),
          th_iteration = as_number (field_of p ''iteration'')\<rparr>)
      | _ \<Rightarrow> None)"

text \<open>The sources and the status are checked before anything else, and throw.\<close>

definition assistant_event_of :: "json \<Rightarrow> js_error + stream_event option" where
  "assistant_event_of p =
     (case parseMessageSourcesUsed (field_of p ''tool_sources_used'') ''tool_sources_used'' of
        Inl e \<Rightarrow> Inl e
      | Inr toolSources \<Rightarrow>
        (case parseMessageSourcesUsed (field_of p ''grounding_sources_used'') ''grounding_sources_used'' of
           Inl e \<Rightarrow> Inl e
         | Inr groundingSources \<Rightarrow>
           (case parseGroundingSourceStatus (field_of p ''grounding_source_status'') of
              Inl e \<Rightarrow> Inl e
            | Inr status \<Rightarrow>
              (case (as_string (field_of p ''assistant_message_id''),
                     as_string (field_of p ''assistant_message'')) of
                 (Some messageId, Some content) \<Rightarrow> Inr (Some (AssistantEvent \<lparr>
                   ap_assistantMessageId = messageId,
                   ap_content = content,
                   ap_parentMessageId = as_string (field_of p ''parent_message_id''),
                   ap_userMessageId = as_string (field_of p ''user_message_id''),
                   ap_generationTimeMs = as_number (field_of p ''generation_time_ms''),
                   ap_generationTiming = map_option parse_timing (as_record (field_of p ''generation_timing'')),
                   ap_responseCost = as_number (field_of p ''response_cost''),
                   ap_responseUsage = map_option parse_usage (as_record (field_of p ''response_usage'')),
                   ap_responseCostBreakdown =
                     map_option parse_breakdown (as_record (field_of p ''response_cost_breakdown'')),
                   ap_guardrailsFailures = parseServerGuardrailsFailures (field_of p ''guardrails_failures''),
                   ap_guardrailsBlocked = as_bool (field_of p ''guardrails_blocked''),
                   ap_guardrailsBlockedMessage = as_string (field_of p ''guardrails_blocked_message''),
                   ap_toolSourcesUsed = toolSources,
                   ap_groundingSourcesUsed = groundingSources,
                   ap_groundingSourceStatus = status\<rparr>))
               | _ \<Rightarrow> Inr None))))"

definition grounding_event_of :: "json \<Rightarrow> js_error + stream_event option" where
  "grounding_event_of p =
     (case parseMessageSourcesUsed (field_of p ''grounding_sources_used'') ''grounding_sources_used'' of
        Inl e \<Rightarrow> Inl e
      | Inr sources \<Rightarrow>
        (case parseGroundingSourceStatus (field_of p ''grounding_source_status'') of
           Inl e \<Rightarrow> Inl e
         | Inr status \<Rightarrow>
           (case (as_string (field_of p ''assistant_message_id''), sources, status) of
              (Some messageId, Some ss, Value s) \<Rightarrow> Inr (Some (GroundingEvent messageId ss s))
            | _ \<Rightarrow> Inr None)))"

definition error_event_of :: "json \<Rightarrow> js_error + stream_event option" where
  "error_event_of p =
     (if field_of p ''code'' = Some (JStr ''message_generation_failed'') \<and>
         as_string (field_of p ''message'') \<noteq> None
      then (case as_bool (field_of p ''retryable'') of
          Some retryable \<Rightarrow> Inr (Some (ErrorEvent retryable))
        | None \<Rightarrow> Inl (TypeError ''Invalid SSE error payload''))
      else Inl (TypeError ''Invalid SSE error payload''))"

definition payload_event :: "string \<Rightarrow> json \<Rightarrow> js_error + stream_event option" where
  "payload_event name p =
     (if name = ''conversation'' then Inr (conversation_event p)
      else if name = ''title_update'' then Inr (title_update_event p)
      else if name = ''agent_stage'' then Inr (agent_stage_event_of p)
      else if name = ''tool_call'' then Inr (tool_call_event_of p)
      else if name = ''thinking'' then Inr (thinking_event_of p)
      else if name = ''assistant_message'' then assistant_event_of p
      else if name = ''grounding_sources'' then grounding_event_of p
      else if name = ''error'' then error_event_of p
      else Inr None)"

text \<open>What a raw event, trimmed, asks for.\<close>

definition raw_event :: "(string \<Rightarrow> json option) \<Rightarrow> string \<Rightarrow> js_error + stream_event option" where
  "raw_event parse raw =
     (let rawEvent = trim raw in
      if rawEvent = '''' then Inr None
      else let e = parseSseEvent rawEvent in
      if se_data e = '''' then Inr None
      else (case parseSsePayload parse (se_data e) of
          None \<Rightarrow> Inr None
        | Some p \<Rightarrow> payload_event (se_event e) p))"

text \<open>An answer or a failure is recorded as the primary outcome before its callback runs.\<close>

fun primary_of :: "stream_event \<Rightarrow> stream_outcome option" where
  "primary_of (AssistantEvent _) = Some OAssistant"
| "primary_of (ErrorEvent _) = Some OGenerationFailure"
| "primary_of _ = None"

definition deliver_raw ::
  "(string \<Rightarrow> json option) \<Rightarrow> string \<Rightarrow> stream_outcome \<Rightarrow> js_error + (stream_event option \<times> stream_outcome)" where
  "deliver_raw parse raw outcome = (case raw_event parse raw of
     Inl e \<Rightarrow> Inl e
   | Inr None \<Rightarrow> Inr (None, outcome)
   | Inr (Some e) \<Rightarrow> (case primary_of e of
       None \<Rightarrow> Inr (Some e, outcome)
     | Some p \<Rightarrow> (case recordPrimaryMessageStreamOutcome outcome p of
         Inl err \<Rightarrow> Inl err
       | Inr next_outcome \<Rightarrow> Inr (Some e, next_outcome))))"

fun deliver_all ::
  "(string \<Rightarrow> json option) \<Rightarrow> string list \<Rightarrow> stream_outcome \<Rightarrow> stream_event list \<times> (js_error + stream_outcome)" where
  "deliver_all parse [] outcome = ([], Inr outcome)"
| "deliver_all parse (raw # raws) outcome = (case deliver_raw parse raw outcome of
     Inl e \<Rightarrow> ([], Inl e)
   | Inr (ev, outcome1) \<Rightarrow>
       (let (evs, r) = deliver_all parse raws outcome1
        in ((case ev of None \<Rightarrow> evs | Some e \<Rightarrow> e # evs), r)))"

text \<open>The read loop. A rejected read and a throwing event end it.\<close>

fun read_loop ::
  "(string \<Rightarrow> json option) \<Rightarrow> (js_error + string) list \<Rightarrow> string \<Rightarrow> stream_outcome \<Rightarrow>
   stream_event list \<times> (js_error + stream_outcome)" where
  "read_loop parse [] buffer outcome = ([], Inr outcome)"
| "read_loop parse (Inl e # chunks) buffer outcome = ([], Inl e)"
| "read_loop parse (Inr chunk # chunks) buffer outcome =
     (let (raws, rest) = drain (normalize_eol (buffer @ chunk))
      in case deliver_all parse raws outcome of
           (evs, Inl e) \<Rightarrow> (evs, Inl e)
         | (evs, Inr outcome1) \<Rightarrow>
             (let (evs2, r) = read_loop parse chunks rest outcome1 in (evs @ evs2, r)))"

definition sendMessageStream ::
  "(string \<Rightarrow> json option) \<Rightarrow> js_error + (js_error + string) list option \<Rightarrow>
   stream_event list \<times> (js_error + unit)" where
  "sendMessageStream parse response = (case response of
     Inl e \<Rightarrow> ([], Inl e)
   | Inr None \<Rightarrow> ([], Inl (PlainError ''Missing streaming response body''))
   | Inr (Some chunks) \<Rightarrow>
       (case read_loop parse chunks [] OPending of
          (evs, Inl e) \<Rightarrow> (evs, Inl e)
        | (evs, Inr outcome) \<Rightarrow> (evs, assertPrimaryMessageStreamCompleted outcome)))"

end
