(* ===== verification/StreamApiFacts.thy ===== *)
theory StreamApiFacts
  imports StreamApi
begin

text \<open>
  What the stream reader guarantees: the events do not depend on how the network cut the
  text into chunks, a well-formed text is read back as the events it encodes, and at most one
  answer or failure is delivered, so that the store's callbacks never throw.
\<close>

section \<open>Draining\<close>

lemma split_event_extend:
  "split_event a = Some (x, r) \<Longrightarrow> split_event (a @ b) = Some (x, r @ b)"
  by (induction a arbitrary: x r rule: split_event.induct) (auto split: if_splits)

lemma split_event_replace:
  "split_event s = Some (raw, rest) \<Longrightarrow> split_event (raw @ LF # LF # q) = Some (raw, q)"
proof (induction s arbitrary: raw rest rule: split_event.induct)
  case (3 c d s)
  show ?case
  proof (cases "c = LF \<and> d = LF")
    case True
    with 3 show ?thesis by auto
  next
    case False
    then obtain a where a: "split_event (d # s) = Some (a, rest)" "raw = c # a"
      using "3.prems" by (auto split: if_splits)
    have ih: "split_event (a @ LF # LF # q) = Some (a, q)" using "3.IH" False a(1) by blast
    have "a @ LF # LF # rest = d # s" using split_event_append [OF a(1)] by simp
    then have "hd (a @ LF # LF # q) = d" by (cases a) auto
    then obtain u where "a @ LF # LF # q = d # u" by (cases a) auto
    with ih False a(2) show ?thesis by auto
  qed
qed auto

lemma drain_None: "split_event s = None \<Longrightarrow> drain s = ([], s)"
  by (simp add: drain.simps)

lemma drain_Some:
  "split_event s = Some (raw, rest) \<Longrightarrow> drain s = (raw # fst (drain rest), snd (drain rest))"
  by (simp add: drain.simps [of s] case_prod_beta)

lemma drain_append:
  "drain (a @ b) = (fst (drain a) @ fst (drain (snd (drain a) @ b)), snd (drain (snd (drain a) @ b)))"
proof (induction a rule: drain.induct)
  case (1 a)
  show ?case
  proof (cases "split_event a")
    case None
    then show ?thesis by (simp add: drain_None)
  next
    case (Some x)
    then obtain raw rest where x: "split_event a = Some (raw, rest)" by (cases x) auto
    show ?thesis using 1 [OF x refl]
      by (simp add: drain_Some [OF x] drain_Some [OF split_event_extend [OF x]])
  qed
qed

lemma drain_rest: "split_event (snd (drain s)) = None"
proof (induction s rule: drain.induct)
  case (1 s)
  then show ?case
    by (cases "split_event s") (auto simp: drain_None drain_Some)
qed

text \<open>The drained part of a text ends in a line feed and drains completely by itself.\<close>

lemma drain_part:
  "\<exists>p. s = p @ snd (drain s) \<and> drain p = (fst (drain s), []) \<and> (p = [] \<or> last p = LF)"
proof (induction s rule: drain.induct)
  case (1 s)
  show ?case
  proof (cases "split_event s")
    case None
    then show ?thesis by (auto simp: drain_None)
  next
    case (Some x)
    then obtain raw rest where x: "split_event s = Some (raw, rest)" by (cases x) auto
    from 1 [OF x refl] obtain p where p: "rest = p @ snd (drain rest)"
      "drain p = (fst (drain rest), [])" "p = [] \<or> last p = LF" by blast
    let ?q = "raw @ LF # LF # p"
    have "s = raw @ LF # LF # rest" using x by (rule split_event_append)
    also have "\<dots> = raw @ LF # LF # (p @ snd (drain rest))" using p(1) by (rule arg_cong)
    finally have "s = ?q @ snd (drain rest)" by simp
    moreover have "snd (drain s) = snd (drain rest)" by (simp add: drain_Some [OF x])
    ultimately have "s = ?q @ snd (drain s)" by (simp only:)
    moreover have "drain ?q = (fst (drain s), [])"
      using p(2) by (simp add: drain_Some [OF x] drain_Some [OF split_event_replace [OF x]])
    moreover have "last ?q = LF" using p(3) by auto
    ultimately show ?thesis by blast
  qed
qed

section \<open>Line ends\<close>

text \<open>No two carriage returns in a row, and no CR LF pair.\<close>

fun no_double_cr :: "string \<Rightarrow> bool" where
  "no_double_cr (c # d # s) \<longleftrightarrow> \<not> (c = CR \<and> d = CR) \<and> no_double_cr (d # s)"
| "no_double_cr _ \<longleftrightarrow> True"

fun no_crlf :: "string \<Rightarrow> bool" where
  "no_crlf (c # d # s) \<longleftrightarrow> \<not> (c = CR \<and> d = LF) \<and> no_crlf (d # s)"
| "no_crlf _ \<longleftrightarrow> True"

lemma CR_LF [simp]: "CR \<noteq> LF" "LF \<noteq> CR"
  by (simp_all add: CR_def LF_def)

lemma adjacent_append:
  "no_double_cr (a @ b) \<longleftrightarrow> no_double_cr a \<and> no_double_cr b \<and>
     \<not> (a \<noteq> [] \<and> b \<noteq> [] \<and> last a = CR \<and> hd b = CR)"
  "no_crlf (a @ b) \<longleftrightarrow> no_crlf a \<and> no_crlf b \<and> \<not> (a \<noteq> [] \<and> b \<noteq> [] \<and> last a = CR \<and> hd b = LF)"
proof -
  show "no_double_cr (a @ b) \<longleftrightarrow> no_double_cr a \<and> no_double_cr b \<and>
     \<not> (a \<noteq> [] \<and> b \<noteq> [] \<and> last a = CR \<and> hd b = CR)"
    by (induction a rule: no_double_cr.induct) (cases b; auto)+
  show "no_crlf (a @ b) \<longleftrightarrow> no_crlf a \<and> no_crlf b \<and> \<not> (a \<noteq> [] \<and> b \<noteq> [] \<and> last a = CR \<and> hd b = LF)"
    by (induction a rule: no_crlf.induct) (cases b; auto)+
qed

lemma normalize_id: "no_crlf s \<Longrightarrow> normalize_eol s = s"
  by (induction s rule: normalize_eol.induct) auto

lemma normalize_Nil_iff [simp]: "normalize_eol s = [] \<longleftrightarrow> s = []"
  by (cases s rule: normalize_eol.cases) auto

lemma normalize_append:
  "\<not> (a \<noteq> [] \<and> b \<noteq> [] \<and> last a = CR \<and> hd b = LF) \<Longrightarrow> normalize_eol (a @ b) = normalize_eol a @ normalize_eol b"
proof (induction a rule: normalize_eol.induct)
  case (2 c)
  then show ?case by (cases b) auto
next
  case (3 c d s)
  show ?case
  proof (cases "c = CR \<and> d = LF")
    case True
    with 3 show ?thesis by (cases "s = []") simp_all
  next
    case False
    then have "normalize_eol ((d # s) @ b) = normalize_eol (d # s) @ normalize_eol b"
      using 3 by (metis last_ConsR list.discI)
    with False show ?thesis by auto
  qed
qed simp

lemma normalize_pair: "normalize_eol (a @ CR # LF # b) = normalize_eol a @ LF # normalize_eol b"
  by (subst normalize_append) simp_all

lemma hd_normalize: "no_double_cr s \<Longrightarrow> s \<noteq> [] \<Longrightarrow> hd (normalize_eol s) = CR \<Longrightarrow> hd s = CR"
  by (cases s rule: normalize_eol.cases) (auto split: if_splits)

lemma last_normalize_CR: "s \<noteq> [] \<Longrightarrow> last (normalize_eol s) = CR \<longleftrightarrow> last s = CR"
  by (induction s rule: normalize_eol.induct) auto

lemma hd_normalize_LF: "s \<noteq> [] \<Longrightarrow> hd (normalize_eol s) = LF \<Longrightarrow> hd s = LF \<or> (\<exists>u. s = CR # LF # u)"
  by (cases s rule: normalize_eol.cases) (auto split: if_splits)

lemma normalize_adjacent:
  assumes "no_double_cr s"
  shows "no_double_cr (normalize_eol s)" "no_crlf (normalize_eol s)"
proof -
  have "no_double_cr (normalize_eol s) \<and> no_crlf (normalize_eol s)"
    using assms
  proof (induction s rule: normalize_eol.induct)
    case (3 c d s)
    show ?case
    proof (cases "c = CR \<and> d = LF")
      case True
      then have "no_double_cr s" using "3.prems" by (cases s) auto
      with True 3 show ?thesis by (cases "normalize_eol s") auto
    next
      case False
      then have ih: "no_double_cr (normalize_eol (d # s))" "no_crlf (normalize_eol (d # s))" using 3 by auto
      obtain x xs where x: "normalize_eol (d # s) = x # xs" by (cases "normalize_eol (d # s)") auto
      have "\<not> (c = CR \<and> x = CR)"
        using "3.prems" hd_normalize [of "d # s"] x by auto
      moreover have "\<not> (c = CR \<and> x = LF)"
        using "3.prems" hd_normalize_LF [of "d # s"] x False by auto
      ultimately show ?thesis using False ih x by auto
    qed
  qed auto
  then show "no_double_cr (normalize_eol s)" "no_crlf (normalize_eol s)" by auto
qed

lemma normalize_again:
  assumes "no_double_cr (x @ y)"
  shows "normalize_eol (normalize_eol x @ y) = normalize_eol (x @ y)"
proof (cases "x \<noteq> [] \<and> y \<noteq> [] \<and> last x = CR \<and> hd y = LF")
  case True
  then obtain x' y' where xy: "x = x' @ [CR]" "y = LF # y'"
    by (metis append_butlast_last_id list.collapse)
  have "no_double_cr x'" using assms by (simp add: xy adjacent_append)
  then have id: "normalize_eol (normalize_eol x') = normalize_eol x'"
    by (intro normalize_id normalize_adjacent)
  have "normalize_eol x = normalize_eol x' @ [CR]" by (simp add: xy normalize_append)
  then show ?thesis by (simp add: xy normalize_pair id)
next
  case False
  then have "normalize_eol (normalize_eol x @ y) = normalize_eol (normalize_eol x) @ normalize_eol y"
    using last_normalize_CR by (intro normalize_append) auto
  moreover have "normalize_eol (normalize_eol x) = normalize_eol x"
    using assms by (intro normalize_id normalize_adjacent) (simp add: adjacent_append)
  ultimately show ?thesis using False by (simp add: normalize_append)
qed

lemma suffix_text:
  assumes "no_double_cr (x @ y)" "normalize_eol x = p @ r"
  shows "no_double_cr (r @ y)"
proof -
  have "no_double_cr (normalize_eol x)" using assms(1) by (intro normalize_adjacent) (simp add: adjacent_append)
  moreover have "\<not> (normalize_eol x \<noteq> [] \<and> y \<noteq> [] \<and> last (normalize_eol x) = CR \<and> hd y = CR)"
    using assms(1) last_normalize_CR by (auto simp: adjacent_append)
  ultimately show ?thesis using assms by (auto simp: adjacent_append)
qed

text \<open>Reading a text in two parts: what is left of the first part joins the second.\<close>

lemma drain_in_parts:
  assumes "no_double_cr (x @ y)"
  shows "fst (drain (normalize_eol (x @ y))) =
      fst (drain (normalize_eol x)) @ fst (drain (normalize_eol (snd (drain (normalize_eol x)) @ y)))"
    "snd (drain (normalize_eol (x @ y))) = snd (drain (normalize_eol (snd (drain (normalize_eol x)) @ y)))"
proof -
  let ?r = "snd (drain (normalize_eol x))"
  obtain p where p: "normalize_eol x = p @ ?r" "drain p = (fst (drain (normalize_eol x)), [])" "p = [] \<or> last p = LF"
    using drain_part by blast
  have "no_crlf (p @ ?r)" using assms p(1) normalize_adjacent(2) [of x] by (simp add: adjacent_append)
  then have "normalize_eol p = p" by (intro normalize_id) (simp add: adjacent_append)
  moreover have "normalize_eol (p @ (?r @ y)) = normalize_eol p @ normalize_eol (?r @ y)"
    using p(3) by (intro normalize_append) auto
  moreover have "normalize_eol (x @ y) = normalize_eol (p @ (?r @ y))"
    using normalize_again [OF assms] p(1) by (metis append_assoc)
  ultimately have n: "normalize_eol (x @ y) = p @ normalize_eol (?r @ y)" by simp
  show "fst (drain (normalize_eol (x @ y))) =
      fst (drain (normalize_eol x)) @ fst (drain (normalize_eol (?r @ y)))"
    "snd (drain (normalize_eol (x @ y))) = snd (drain (normalize_eol (?r @ y)))"
    by (simp_all add: n drain_append [of p] p(2))
qed

section \<open>Chunking does not matter\<close>

lemma deliver_all_append:
  "deliver_all parse (as @ bs) out = (case deliver_all parse as out of
     (evs, Inl e) \<Rightarrow> (evs, Inl e)
   | (evs, Inr out1) \<Rightarrow> (evs @ fst (deliver_all parse bs out1), snd (deliver_all parse bs out1)))"
proof (induction as arbitrary: out)
  case Nil
  then show ?case by simp
next
  case (Cons a as)
  show ?case
  proof (cases "deliver_raw parse a out")
    case (Inl e)
    then show ?thesis by simp
  next
    case (Inr r)
    obtain ev out1 where r: "r = (ev, out1)" by fastforce
    show ?thesis using Cons.IH [of out1]
      by (simp add: Inr r case_prod_beta split: sum.splits option.splits prod.splits)
  qed
qed

definition read_text ::
  "(string \<Rightarrow> json option) \<Rightarrow> string \<Rightarrow> stream_outcome \<Rightarrow> stream_event list \<times> (js_error + stream_outcome)" where
  "read_text parse text out = deliver_all parse (fst (drain (normalize_eol text))) out"

lemma read_loop_text:
  assumes "no_double_cr (buffer @ concat cs)" "no_crlf buffer" "split_event buffer = None"
  shows "read_loop parse (map Inr cs) buffer out = read_text parse (buffer @ concat cs) out"
  using assms
proof (induction cs arbitrary: buffer out)
  case Nil
  then show ?case by (simp add: read_text_def normalize_id drain_None)
next
  case (Cons c cs)
  let ?n = "normalize_eol (buffer @ c)"
  let ?r = "snd (drain ?n)"
  obtain p where p: "?n = p @ ?r" using drain_part by blast
  have nocr: "no_double_cr ((buffer @ c) @ concat cs)" using Cons.prems(1) by simp
  have dcr: "no_double_cr (?r @ concat cs)" using nocr p by (rule suffix_text)
  have "no_double_cr (buffer @ c)" using nocr adjacent_append(1) by blast
  then have "no_crlf ?n" by (rule normalize_adjacent)
  then have crlf: "no_crlf ?r" using p by (metis adjacent_append(2))
  have ih: "read_loop parse (map Inr cs) ?r out1 = read_text parse (?r @ concat cs) out1" for out1
    using Cons.IH [OF dcr crlf drain_rest] .
  have whole: "read_text parse (buffer @ concat (c # cs)) out =
      deliver_all parse (fst (drain ?n) @ fst (drain (normalize_eol (?r @ concat cs)))) out"
    using drain_in_parts(1) [OF nocr] by (simp add: read_text_def)
  show ?case
    unfolding whole deliver_all_append
    by (simp add: case_prod_beta ih read_text_def split: sum.split)
qed

text \<open>
  C10. What a stream delivers does not depend on how the network cuts it into chunks: two
  sequences of chunks with the same text deliver the same events in the same order and end
  with the same result, also when an event throws on the way and when a CR LF pair, an event
  name or the blank line between events is cut in two. The text must not have two carriage
  returns in a row.
\<close>

theorem chunking_is_irrelevant:
  assumes "concat cs = concat ds" "no_double_cr (concat cs)"
  shows "sendMessageStream parse (Inr (Some (map Inr cs))) = sendMessageStream parse (Inr (Some (map Inr ds)))"
  using read_loop_text [of "[]" cs parse OPending] read_loop_text [of "[]" ds parse OPending] assms
  by (simp add: sendMessageStream_def)

theorem chunking_is_irrelevant_witness:
  "sendMessageStream (\<lambda>_. None) (Inr (Some (map Inr [''data: x'' @ [CR], LF # [CR, LF]]))) =
   sendMessageStream (\<lambda>_. None) (Inr (Some (map Inr [''data: x'' @ [CR, LF, CR, LF]])))"
proof -
  have "concat [''data: x'' @ [CR], LF # [CR, LF]] = concat [''data: x'' @ [CR, LF, CR, LF]]"
    "no_double_cr (concat [''data: x'' @ [CR], LF # [CR, LF]])"
    by (simp_all add: CR_def LF_def)
  then show ?thesis by (rule chunking_is_irrelevant)
qed

section \<open>At most one primary outcome\<close>

definition primaries :: "stream_event list \<Rightarrow> nat" where
  "primaries evs = length (filter (\<lambda>e. primary_of e \<noteq> None) evs)"

lemma primaries_simps [simp]:
  "primaries [] = 0"
  "primaries (e # es) = (if primary_of e = None then 0 else 1) + primaries es"
  "primaries (es @ fs) = primaries es + primaries fs"
  by (simp_all add: primaries_def)

definition settled :: "stream_outcome \<Rightarrow> nat" where
  "settled out = (if out = OPending then 0 else 1)"

lemma primary_not_pending: "primary_of e = Some p \<Longrightarrow> p \<noteq> OPending"
  by (cases e) auto

lemma deliver_raw_settled:
  "deliver_raw parse raw out = Inr (ev, out1) \<Longrightarrow>
   settled out1 = settled out + (case ev of None \<Rightarrow> 0 | Some e \<Rightarrow> primaries [e])"
  by (auto simp: deliver_raw_def settled_def dest: primary_not_pending
      split: sum.splits option.splits if_splits)

lemma deliver_all_settled:
  "settled out + primaries (fst (deliver_all parse raws out)) \<le> 1 \<and>
   (\<forall>out1. snd (deliver_all parse raws out) = Inr out1 \<longrightarrow>
      settled out1 = settled out + primaries (fst (deliver_all parse raws out)))"
proof (induction raws arbitrary: out)
  case Nil
  then show ?case by (simp add: settled_def)
next
  case (Cons raw raws)
  show ?case
  proof (cases "deliver_raw parse raw out")
    case (Inl e)
    then show ?thesis by (simp add: settled_def)
  next
    case (Inr r)
    obtain ev out1 where r: "r = (ev, out1)" by fastforce
    show ?thesis
      using Cons.IH [of out1] deliver_raw_settled [OF Inr [unfolded r]]
      by (auto simp: Inr r case_prod_beta split: option.splits if_splits)
  qed
qed

lemma read_loop_settled:
  "settled out + primaries (fst (read_loop parse chunks buffer out)) \<le> 1 \<and>
   (\<forall>out1. snd (read_loop parse chunks buffer out) = Inr out1 \<longrightarrow>
      settled out1 = settled out + primaries (fst (read_loop parse chunks buffer out)))"
proof (induction chunks arbitrary: buffer out)
  case Nil
  then show ?case by (simp add: settled_def)
next
  case (Cons ch chunks)
  show ?case
  proof (cases ch)
    case (Inl e)
    then show ?thesis by (simp add: settled_def)
  next
    case (Inr c)
    let ?d = "drain (normalize_eol (buffer @ c))"
    let ?a = "deliver_all parse (fst ?d) out"
    show ?thesis
    proof (cases "snd ?a")
      case (Inl e)
      then show ?thesis
        using deliver_all_settled [of out parse "fst ?d"] Inr
        by (simp add: case_prod_beta split: sum.split)
    next
      case (Inr out1)
      then show ?thesis
        using deliver_all_settled [of out parse "fst ?d"] Cons.IH [of out1 "snd ?d"] \<open>ch = Inr c\<close>
        by (simp add: case_prod_beta split: sum.split)
    qed
  qed
qed

lemma stream_primaries:
  "primaries (fst (sendMessageStream parse response)) \<le> 1 \<and>
   (snd (sendMessageStream parse response) = Inr () \<longrightarrow>
      primaries (fst (sendMessageStream parse response)) = 1)"
proof (cases response)
  case (Inl e)
  then show ?thesis by (simp add: sendMessageStream_def)
next
  case (Inr body)
  show ?thesis
  proof (cases body)
    case None
    with Inr show ?thesis by (simp add: sendMessageStream_def)
  next
    case (Some chunks)
    with Inr read_loop_settled [of OPending parse chunks "[]"] show ?thesis
      by (auto simp: sendMessageStream_def settled_def assertPrimaryMessageStreamCompleted_def
          case_prod_beta split: sum.splits if_splits)
  qed
qed

text \<open>
  C11. A stream delivers at most one answer or failure, whatever the server sends and however
  the connection breaks; and if the reader returns normally, it has delivered exactly one.
\<close>

theorem stream_delivers_one_outcome:
  assumes "sendMessageStream parse response = (evs, result)"
  shows "primaries evs \<le> 1 \<and> (result = Inr () \<longrightarrow> primaries evs = 1)"
  using stream_primaries [of parse response] assms by simp

text \<open>A stream that fails in the way the server calls retryable.\<close>

definition demo_parse :: "string \<Rightarrow> json option" where
  "demo_parse s = (if s = ''E''
     then Some (JObj [(''code'', JStr ''message_generation_failed''), (''message'', JStr ''no''),
       (''retryable'', JBool True)])
     else None)"

definition demo_stream :: "(js_error + string) list" where
  "demo_stream = map Inr [''event: err'', ''or'' @ [CR, LF], ''data: E'' @ [LF, LF]]"

lemma demo_stream_read:
  "sendMessageStream demo_parse (Inr (Some demo_stream)) = ([ErrorEvent True], Inr ())"
  by code_simp

theorem stream_delivers_one_outcome_witness:
  "fst (sendMessageStream demo_parse (Inr (Some demo_stream))) = [ErrorEvent True] \<and>
   primaries [ErrorEvent True] = 1"
  using stream_delivers_one_outcome [OF demo_stream_read] by (simp add: demo_stream_read)

section \<open>The store's callbacks do not throw\<close>

text \<open>
  A stream's events handed to the callbacks, each in the state the store happens to have by
  then; the result is the callbacks' context, or the error one of them throws.
\<close>

fun dispatch_all ::
  "(number \<Rightarrow> string) \<Rightarrow> stream_event list \<Rightarrow> (number \<times> string \<times> chat_world) list \<Rightarrow> send_ctx \<Rightarrow>
   js_error + send_ctx" where
  "dispatch_all ns (e # es) ((now, nano, w) # ws) ctx = (case handle_event ns now nano e ctx w of
     Inl err \<Rightarrow> Inl err
   | Inr (_, ctx1, _) \<Rightarrow> dispatch_all ns es ws ctx1)"
| "dispatch_all ns _ _ ctx = Inr ctx"

lemma handle_event_outcome:
  "handle_event ns now nano e ctx w = Inr (ts, ctx1, v) \<Longrightarrow> primary_of e = None \<Longrightarrow>
   sc_primaryOutcome ctx1 = sc_primaryOutcome ctx"
  by (erule handle_event_InrE)
    (auto simp: onChatId_def adoptRealChatId_def onToolCall_def onThinking_def Let_def case_prod_beta
      split: if_splits option.splits)

lemma handle_event_pending:
  "sc_primaryOutcome ctx = OPending \<Longrightarrow> \<exists>r. handle_event ns now nano e ctx w = Inr r"
  by (cases e) (auto simp: onAssistantMessage_def onError_def recordPrimaryMessageStreamOutcome_def
      Let_def case_prod_beta)

lemma handle_event_plain:
  "primary_of e = None \<Longrightarrow> \<exists>r. handle_event ns now nano e ctx w = Inr r"
  by (cases e) (auto simp: Let_def case_prod_beta)

lemma dispatch_all_plain:
  "primaries es = 0 \<Longrightarrow> \<exists>ctx1. dispatch_all ns es ws ctx = Inr ctx1"
proof (induction ns es ws ctx rule: dispatch_all.induct)
  case (1 ns e es now nano w ws ctx)
  from "1.prems" have "primary_of e = None" "primaries es = 0" by (auto split: if_splits)
  moreover from this obtain ts ctx1 v where "handle_event ns now nano e ctx w = Inr (ts, ctx1, v)"
    using handle_event_plain by (metis prod_cases3)
  ultimately show ?case using "1.IH" by auto
qed auto

lemma dispatch_all_one:
  "primaries es \<le> 1 \<Longrightarrow> sc_primaryOutcome ctx = OPending \<Longrightarrow>
   \<exists>ctx1. dispatch_all ns es ws ctx = Inr ctx1"
proof (induction ns es ws ctx rule: dispatch_all.induct)
  case (1 ns e es now nano w ws ctx)
  obtain ts ctx1 v where r: "handle_event ns now nano e ctx w = Inr (ts, ctx1, v)"
    using handle_event_pending [OF "1.prems"(2)] by (metis prod_cases3)
  show ?case
  proof (cases "primary_of e")
    case None
    with 1 r show ?thesis by (auto dest: handle_event_outcome)
  next
    case (Some p)
    with 1 r dispatch_all_plain [of es ns ws ctx1] show ?thesis by auto
  qed
qed auto

text \<open>
  The two checks of the primary outcome agree: whatever the server sends and whatever
  happens to the store between the events, the callbacks the store passes to the stream
  reader never throw, so every error that ends a stream comes from the connection or from the
  reader's own checks.
\<close>

theorem store_callbacks_never_throw:
  assumes "sendMessageStream parse response = (evs, result)" "sc_primaryOutcome ctx = OPending"
  shows "\<exists>ctx1. dispatch_all ns evs ws ctx = Inr ctx1"
  using stream_primaries [of parse response] assms by (intro dispatch_all_one) simp_all

theorem store_callbacks_never_throw_witness:
  "\<exists>ctx1. dispatch_all (\<lambda>_. ''0'') [ErrorEvent True] [(1, ''n'', createInitialChatState)]
     (the (fst (sendMessage_begin ''a'' ''a'' ''x'' 1 ''Hi'' None no_send_options createInitialChatState))) =
     Inr ctx1"
proof -
  have "sc_primaryOutcome (the (fst (sendMessage_begin ''a'' ''a'' ''x'' 1 ''Hi'' None no_send_options
      createInitialChatState))) = OPending" by code_simp
  with demo_stream_read show ?thesis by (rule store_callbacks_never_throw)
qed

section \<open>Reading back what is written\<close>

text \<open>An event as a server writes it, and the texts that survive the trimming of lines.\<close>

definition encode_event :: "sse_event \<Rightarrow> string" where
  "encode_event e = ''event: '' @ se_event e @ LF # ''data: '' @ se_data e @ [LF, LF]"

definition clean :: "string \<Rightarrow> bool" where
  "clean s \<longleftrightarrow> s \<noteq> [] \<and> CR \<notin> set s \<and> LF \<notin> set s \<and> \<not> is_space (hd s) \<and> \<not> is_space (last s)"

definition event_body :: "sse_event \<Rightarrow> string" where
  "event_body e = ''event: '' @ se_event e @ LF # ''data: '' @ se_data e"

lemma no_crlf_no_cr: "CR \<notin> set s \<Longrightarrow> no_crlf s"
  by (induction s rule: no_crlf.induct) auto

lemma split_event_line: "LF \<notin> set a \<Longrightarrow> split_event (a @ LF # LF # q) = Some (a, q)"
proof (induction a)
  case (Cons c a)
  then obtain u where "a @ LF # LF # q = hd (a @ [LF]) # u" by (cases a) auto
  with Cons show ?case by (auto simp: neq_Nil_conv split: if_splits)
qed simp

lemma split_event_two_lines:
  assumes "LF \<notin> set a" "b \<noteq> []" "hd b \<noteq> LF"
  shows "split_event (a @ LF # b) = map_option (\<lambda>(x, y). (a @ LF # x, y)) (split_event b)"
  using assms(1)
proof (induction a)
  case Nil
  obtain c s where b: "b = c # s" using assms(2) by (cases b) auto
  then show ?case using assms(3) by (simp add: option.map_comp comp_def)
next
  case (Cons c a)
  obtain d s where s: "a @ LF # b = d # s" by (cases "a @ LF # b") auto
  with Cons have "split_event (d # s) = map_option (\<lambda>(x, y). (a @ LF # x, y)) (split_event b)" by auto
  moreover have "c \<noteq> LF" using Cons.prems by auto
  ultimately show ?case using s by (simp add: option.map_comp comp_def case_prod_beta)
qed

lemma not_space_props: "\<not> is_space (CHR ''e'')" "\<not> is_space (CHR ''d'')" "is_space (CHR '' '')"
  by (simp_all add: is_space_def)

lemma trim_space_clean: "clean s \<Longrightarrow> trim (CHR '' '' # s) = s"
  using trim_id [of s] by (simp add: clean_def trim_def not_space_props)

lemma split_lines_no_LF: "LF \<notin> set s \<Longrightarrow> split_lines s = [s]"
  by (induction s) auto

lemma split_lines_LF: "LF \<notin> set a \<Longrightarrow> split_lines (a @ LF # b) = a # split_lines b"
  by (induction a) auto

lemma LF_notin_words: "LF \<notin> set ''event: ''" "LF \<notin> set ''data: ''" "CR \<notin> set ''event: ''" "CR \<notin> set ''data: ''"
  by (simp_all add: LF_def CR_def)

lemma parse_event_body:
  assumes "clean (se_event e)" "clean (se_data e)"
  shows "parseSseEvent (trim (event_body e)) = e"
proof -
  have "trim (event_body e) = event_body e"
    using assms by (intro trim_id) (auto simp: event_body_def clean_def not_space_props)
  moreover have "split_lines (event_body e) = [''event: '' @ se_event e, ''data: '' @ se_data e]"
    using assms split_lines_LF [of "''event: '' @ se_event e" "''data: '' @ se_data e"]
      split_lines_no_LF [of "''data: '' @ se_data e"] LF_notin_words
    by (simp add: event_body_def clean_def)
  ultimately show ?thesis
    using trim_space_clean [OF assms(1)] trim_space_clean [OF assms(2)]
    by (simp add: parseSseEvent_def sse_line_def starts_with_def)
qed

lemma split_encoded:
  assumes "clean (se_event e)" "clean (se_data e)"
  shows "split_event (encode_event e @ rest) = Some (event_body e, rest)"
proof -
  have "split_event ((''data: '' @ se_data e) @ LF # LF # rest) = Some (''data: '' @ se_data e, rest)"
    using assms LF_notin_words by (intro split_event_line) (simp add: clean_def)
  moreover have "LF \<notin> set (''event: '' @ se_event e)" using assms LF_notin_words by (simp add: clean_def)
  ultimately show ?thesis
    using split_event_two_lines [of "''event: '' @ se_event e" "(''data: '' @ se_data e) @ LF # LF # rest"]
    by (simp add: encode_event_def event_body_def LF_def)
qed

lemma drain_encoded:
  "\<forall>e \<in> set es. clean (se_event e) \<and> clean (se_data e) \<Longrightarrow>
   drain (concat (map encode_event es)) = (map event_body es, [])"
  by (induction es) (simp_all add: drain_None drain_Some split_encoded)

text \<open>
  The reader reads back what a server writes: a text that encodes a list of events, each
  an event line and a data line without line breaks or surrounding white space, is cut into
  exactly these events, in order, and nothing is left over.
\<close>

theorem wire_roundtrip:
  assumes "\<forall>e \<in> set es. clean (se_event e) \<and> clean (se_data e)"
  shows "map (parseSseEvent \<circ> trim) (fst (drain (normalize_eol (concat (map encode_event es))))) = es \<and>
    snd (drain (normalize_eol (concat (map encode_event es)))) = []"
proof -
  have "CR \<notin> set (encode_event e)" if "e \<in> set es" for e
    using assms that LF_notin_words by (simp add: encode_event_def clean_def)
  then have "normalize_eol (concat (map encode_event es)) = concat (map encode_event es)"
    by (intro normalize_id no_crlf_no_cr) auto
  moreover have "map (parseSseEvent \<circ> trim) (map event_body es) = es"
    using assms by (induction es) (simp_all add: parse_event_body)
  ultimately show ?thesis using drain_encoded [OF assms] by simp
qed

theorem wire_roundtrip_witness:
  "map (parseSseEvent \<circ> trim) (fst (drain (normalize_eol (concat (map encode_event
     [\<lparr>se_event = ''conversation'', se_data = ''{}''\<rparr>]))))) = [\<lparr>se_event = ''conversation'', se_data = ''{}''\<rparr>]"
proof -
  have "\<forall>e \<in> set [\<lparr>se_event = ''conversation'', se_data = ''{}''\<rparr>]. clean (se_event e) \<and> clean (se_data e)"
    by (simp add: clean_def CR_def LF_def is_space_def)
  from wire_roundtrip [OF this] show ?thesis by blast
qed

end
