(* ===== verification/TraceData.thy ===== *)
theory TraceData
  imports ChatTypes
begin

text \<open>
  The trace of an answer and what is read out of it (traces/types/index.ts and the parts of
  traces/lib/trace-utils.ts the activity log of the chat uses): spans, their attributes, the
  tool calls and tool results in them. Attributes are untyped JSON that several
  instrumentations fill differently, hence the many places looked at.

  \<open>js_host\<close> holds the functions of the language that the theory takes as they are:
  \<open>JSON.parse\<close> (\<open>None\<close>: it throws), \<open>JSON.stringify\<close> plain and indented, a number as a string,
  and \<open>Date.parse\<close> (\<open>None\<close>: not a number). Nothing is assumed of them except where a lemma says so.
\<close>

record js_host =
  JSON_parse :: "string \<Rightarrow> json option"
  JSON_stringify :: "json \<Rightarrow> string"
  JSON_pretty :: "json \<Rightarrow> string"
  number_string :: "number \<Rightarrow> string"
  Date_parse :: "string \<Rightarrow> number option"

text \<open>The fields of a span that are read; \<open>null\<close> is read as absent everywhere.\<close>

record trace_span =
  sp_span_id :: ident
  sp_parent_span_id :: "ident option"
  sp_name :: string
  sp_status_code :: "string option"
  sp_status_message :: "string option"
  sp_start_time :: "string option"
  sp_end_time :: "string option"
  sp_duration_ms :: "number option"
  sp_attributes :: "(string \<times> json) list option"

type_synonym attributes = "(string \<times> json) list"

definition span_attributes :: "trace_span \<Rightarrow> attributes" where
  "span_attributes tspan = coalesce (sp_attributes tspan) []"

definition is_blank :: "string \<Rightarrow> bool" where
  "is_blank s \<longleftrightarrow> trim s = ''''"

section \<open>Reading JSON\<close>

text \<open>The \<open>isRecord\<close> of the traces, which an array does not satisfy.\<close>

fun is_object :: "json \<Rightarrow> bool" where
  "is_object (JObj _) = True"
| "is_object _ = False"

definition as_object :: "json option \<Rightarrow> json option" where
  "as_object v = (case v of Some j \<Rightarrow> if is_object j then Some j else None | None \<Rightarrow> None)"

definition parseJsonString :: "js_host \<Rightarrow> string \<Rightarrow> json option" where
  "parseJsonString h s =
     (let trimmed = trim s
      in if trimmed = '''' \<or> (\<not> starts_with trimmed ''{'' \<and> \<not> starts_with trimmed ''['') then None
         else JSON_parse h trimmed)"

text \<open>
  \<open>parseJsonRecursively\<close> replaces every string that is JSON itself by what it says, again and
  again. The fuel counts the strings parsed one inside the other; as a parsed string is
  longer than any string in it, the length of the longest string is enough (below).
\<close>

fun parse_nested :: "nat \<Rightarrow> js_host \<Rightarrow> json \<Rightarrow> json" where
  "parse_nested n h (JStr s) =
     (case parseJsonString h s of
        None \<Rightarrow> JStr s
      | Some j \<Rightarrow> (case n of 0 \<Rightarrow> JStr s | Suc m \<Rightarrow> parse_nested m h j))"
| "parse_nested n h (JArr xs) = JArr (map (parse_nested n h) xs)"
| "parse_nested n h (JObj fs) = JObj (map (\<lambda>(k, v). (k, parse_nested n h v)) fs)"
| "parse_nested n h JNull = JNull"
| "parse_nested n h (JBool b) = JBool b"
| "parse_nested n h (JNum x) = JNum x"

fun longest :: "json \<Rightarrow> nat" where
  "longest (JStr s) = length s"
| "longest (JArr xs) = foldr (\<lambda>x. max (longest x)) xs 0"
| "longest (JObj fs) = foldr (\<lambda>(k, v). max (longest v)) fs 0"
| "longest _ = 0"

definition parseJsonRecursively :: "js_host \<Rightarrow> json \<Rightarrow> json" where
  "parseJsonRecursively h v = parse_nested (longest v) h v"

definition parseJsonValue :: "js_host \<Rightarrow> json \<Rightarrow> json" where
  "parseJsonValue h v = (case v of JStr s \<Rightarrow> coalesce (JSON_parse h s) v | _ \<Rightarrow> v)"

fun stringifyValue :: "js_host \<Rightarrow> json \<Rightarrow> string" where
  "stringifyValue h (JStr s) = s"
| "stringifyValue h (JNum n) = number_string h n"
| "stringifyValue h (JBool b) = (if b then ''true'' else ''false'')"
| "stringifyValue h v = JSON_pretty h v"

definition getStringAttribute :: "attributes \<Rightarrow> string \<Rightarrow> string option" where
  "getStringAttribute attrs key = as_string (map_of attrs key)"

fun resolveFirstString :: "json option list \<Rightarrow> string option" where
  "resolveFirstString [] = None"
| "resolveFirstString (v # vs) = or_else (as_string v) (resolveFirstString vs)"

fun first_present :: "json option list \<Rightarrow> json option" where
  "first_present [] = None"
| "first_present [v] = v"
| "first_present (v # vs) = json_or_else v (first_present vs)"

section \<open>Times\<close>

definition toTimestamp :: "js_host \<Rightarrow> string option \<Rightarrow> number option" where
  "toTimestamp h value = (case value of
     None \<Rightarrow> None | Some s \<Rightarrow> if is_blank s then None else Date_parse h s)"

definition getSpanStart :: "js_host \<Rightarrow> trace_span \<Rightarrow> number option" where
  "getSpanStart h tspan = toTimestamp h (sp_start_time tspan)"

definition getSpanEnd :: "js_host \<Rightarrow> trace_span \<Rightarrow> number option" where
  "getSpanEnd h tspan = toTimestamp h (or_else (sp_end_time tspan) (sp_start_time tspan))"

section \<open>Tool calls and tool results\<close>

record detailed_call =
  dc_id :: "string option"
  dc_name :: string
  dc_arguments :: string

record detailed_result =
  dr_id :: "string option"
  dr_name :: "string option"
  dr_result :: string

definition normalizeDetailedToolCallEntry :: "js_host \<Rightarrow> json \<Rightarrow> detailed_call option" where
  "normalizeDetailedToolCallEntry h entry =
     (if \<not> is_object entry then None
      else
        let functionData = coalesce (as_object (field_of entry ''function'')) (JObj []);
            nm = coalesce (resolveFirstString
              [field_of entry ''name'', field_of entry ''tool_name'', field_of entry ''tool'',
               field_of functionData ''name'']) ''tool'';
            argumentsValue = first_present
              [field_of entry ''arguments'', field_of functionData ''arguments'',
               field_of entry ''args'', field_of entry ''input'', Some (JObj [])]
        in Some \<lparr>dc_id = as_string (field_of entry ''id''), dc_name = nm,
             dc_arguments = stringifyValue h (parseJsonValue h (the argumentsValue))\<rparr>)"

text \<open>A result of \<open>extractToolResults\<close>: its name and its text.\<close>

definition normalizeToolResultEntry :: "js_host \<Rightarrow> json \<Rightarrow> (string \<times> string) option" where
  "normalizeToolResultEntry h entry =
     (if \<not> is_object entry then None
      else
        let nm = coalesce (resolveFirstString
              [field_of entry ''name'', field_of entry ''tool_name'', field_of entry ''tool'']) ''tool''
        in map_option (\<lambda>v. (nm, stringifyValue h (parseJsonValue h v)))
             (first_present [field_of entry ''result'', field_of entry ''output'',
                field_of entry ''response'', field_of entry ''content'', field_of entry ''value'',
                field_of entry ''data'']))"

definition extractDetailedToolCallAttributes :: "js_host \<Rightarrow> attributes \<Rightarrow> detailed_call list" where
  "extractDetailedToolCallAttributes h attrs =
     (let callArguments = map_of attrs ''gen_ai.tool.call.arguments'';
          callName = getStringAttribute attrs ''gen_ai.tool.call.name'';
          toolName = getStringAttribute attrs ''gen_ai.tool.name'';
          callId = getStringAttribute attrs ''gen_ai.tool.call.id'';
          own = (if callName \<noteq> None \<or> toolName \<noteq> None \<or> callArguments \<noteq> None
            then [\<lparr>dc_id = callId, dc_name = coalesce (or_else callName toolName) ''tool'',
                   dc_arguments = stringifyValue h (parseJsonValue h
                     (the (first_present [callArguments, Some (JObj [])])))\<rparr>]
            else []);
          payload = (case map_of attrs ''gen_ai.tool.call'' of
              None \<Rightarrow> []
            | Some v \<Rightarrow> (case normalizeDetailedToolCallEntry h (parseJsonValue h v) of
                None \<Rightarrow> [] | Some c \<Rightarrow> [c]));
          listed = (case map_option (parseJsonValue h) (map_of attrs ''gen_ai.tool.calls'') of
              Some (JArr es) \<Rightarrow> List.map_filter (normalizeDetailedToolCallEntry h) es
            | _ \<Rightarrow> [])
      in own @ payload @ listed)"

definition extractAppChatToolResultAttributes :: "js_host \<Rightarrow> attributes \<Rightarrow> (string \<times> string) list" where
  "extractAppChatToolResultAttributes h attrs =
     (case map_of attrs ''app.chat.tool.result'' of
        None \<Rightarrow> []
      | Some r \<Rightarrow> [(coalesce (getStringAttribute attrs ''app.chat.tool.name'') ''tool'',
                    stringifyValue h (parseJsonValue h r))])"

definition extractToolResultAttributes :: "js_host \<Rightarrow> attributes \<Rightarrow> (string \<times> string) list" where
  "extractToolResultAttributes h attrs =
     (let toolName = or_else (getStringAttribute attrs ''gen_ai.tool.name'')
            (getStringAttribute attrs ''gen_ai.tool.call.name'')
      in case map_of attrs ''gen_ai.tool.call.result'' of
           None \<Rightarrow> []
         | Some raw \<Rightarrow>
             (let parsed = parseJsonValue h raw;
                  plain = (coalesce toolName ''tool'', stringifyValue h parsed)
              in if is_object parsed then [coalesce (normalizeToolResultEntry h parsed) plain]
                 else [plain]))"

text \<open>The messages in an attribute, which may hold them in several shapes.\<close>

definition choice_message :: "json \<Rightarrow> json" where
  "choice_message choice =
     (if \<not> is_object choice then choice
      else the (first_present [field_of choice ''message'', field_of choice ''delta'', Some choice]))"

definition normalizeMessages :: "js_host \<Rightarrow> json option \<Rightarrow> json list" where
  "normalizeMessages h value = (case map_option (parseJsonValue h) value of
     Some (JArr items) \<Rightarrow> items
   | Some (JObj fs) \<Rightarrow>
       (case as_array (field_of (JObj fs) ''messages'') of
          Some ms \<Rightarrow> ms
        | None \<Rightarrow> (case field_of (JObj fs) ''message'' of
            Some m \<Rightarrow> [m]
          | None \<Rightarrow> (case as_array (field_of (JObj fs) ''choices'') of
              Some cs \<Rightarrow> map choice_message cs
            | None \<Rightarrow> coalesce (as_array (field_of (JObj fs) ''output'')) [])))
   | _ \<Rightarrow> [])"

definition is_tool_call_part :: "json \<Rightarrow> bool" where
  "is_tool_call_part part \<longleftrightarrow> is_object part \<and> field_of part ''type'' = Some (JStr ''tool_call'')"

text \<open>The calls a message lists itself, and its parts that are calls.\<close>

definition calls_of :: "json \<Rightarrow> json list" where
  "calls_of item =
     coalesce (as_array (field_of item ''tool_calls'')) [] @
     filter is_tool_call_part (coalesce (as_array (field_of item ''parts'')) [])"

definition item_tool_calls :: "json \<Rightarrow> json list" where
  "item_tool_calls item =
     (if is_object item
      then calls_of item @
        (case as_object (field_of item ''message'') of None \<Rightarrow> [] | Some m \<Rightarrow> calls_of m)
      else [])"

definition normalizeToolCalls :: "js_host \<Rightarrow> json option \<Rightarrow> json list" where
  "normalizeToolCalls h value = (case map_option (parseJsonValue h) value of
     Some (JArr items) \<Rightarrow>
       (let fromMessages = concat (map item_tool_calls items)
        in if fromMessages \<noteq> [] then fromMessages else items)
   | Some (JObj fs) \<Rightarrow>
       (case as_array (field_of (JObj fs) ''tool_calls'') of
          Some calls \<Rightarrow> calls
        | None \<Rightarrow>
            (case Option.bind (as_object (field_of (JObj fs) ''message''))
                (\<lambda>m. as_array (field_of m ''tool_calls'')) of
               Some calls \<Rightarrow> calls
             | None \<Rightarrow>
                 (let calls = concat (map (\<lambda>choice.
                        coalesce (Option.bind (as_object (field_of choice ''message''))
                          (\<lambda>m. as_array (field_of m ''tool_calls''))) [])
                        (coalesce (as_array (field_of (JObj fs) ''choices'')) []))
                  in if calls \<noteq> [] then calls
                     else filter is_tool_call_part
                       (coalesce (as_array (field_of (JObj fs) ''parts'')) []))))
   | _ \<Rightarrow> [])"

definition extractDetailedToolCalls :: "js_host \<Rightarrow> attributes \<Rightarrow> string \<Rightarrow> detailed_call list" where
  "extractDetailedToolCalls h attrs key =
     List.map_filter (normalizeDetailedToolCallEntry h) (normalizeToolCalls h (map_of attrs key))"

definition tool_message_result :: "js_host \<Rightarrow> json \<Rightarrow> detailed_result option" where
  "tool_message_result h item =
     (if is_object item \<and> field_of item ''role'' = Some (JStr ''tool'')
      then map_option (\<lambda>v. \<lparr>dr_id = as_string (field_of item ''tool_call_id''),
             dr_name = (case as_string (field_of item ''name'') of
               None \<Rightarrow> None | Some s \<Rightarrow> if is_blank s then None else Some s),
             dr_result = stringifyValue h (parseJsonValue h v)\<rparr>)
           (first_present [field_of item ''content'', field_of item ''message'',
              field_of item ''data'', field_of item ''output'', field_of item ''result''])
      else None)"

definition extractToolMessageResults :: "js_host \<Rightarrow> attributes \<Rightarrow> string \<Rightarrow> detailed_result list" where
  "extractToolMessageResults h attrs key =
     List.map_filter (tool_message_result h) (normalizeMessages h (map_of attrs key))"

definition extractToolMessageCalls :: "js_host \<Rightarrow> attributes \<Rightarrow> string \<Rightarrow> detailed_call list" where
  "extractToolMessageCalls h attrs key =
     concat (map (\<lambda>item. if is_object item
         then List.map_filter (normalizeDetailedToolCallEntry h) (calls_of item) else [])
       (normalizeMessages h (map_of attrs key)))"

fun firstNonEmpty :: "'a list list \<Rightarrow> 'a list" where
  "firstNonEmpty [] = []"
| "firstNonEmpty (v # vs) = (if v \<noteq> [] then v else firstNonEmpty vs)"

definition extractResponseToolCallDetails :: "js_host \<Rightarrow> attributes \<Rightarrow> detailed_call list" where
  "extractResponseToolCallDetails h attrs = firstNonEmpty
     [extractDetailedToolCalls h attrs ''gen_ai.response.tool_calls'',
      extractDetailedToolCalls h attrs ''response_data'',
      extractDetailedToolCallAttributes h attrs]"

definition extractToolResults :: "js_host \<Rightarrow> attributes \<Rightarrow> (string \<times> string) list" where
  "extractToolResults h attrs = firstNonEmpty
     [extractAppChatToolResultAttributes h attrs, extractToolResultAttributes h attrs]"

definition extractRequestToolResults :: "js_host \<Rightarrow> attributes \<Rightarrow> detailed_result list" where
  "extractRequestToolResults h attrs = firstNonEmpty
     [extractToolMessageResults h attrs ''gen_ai.request.messages'',
      extractToolMessageResults h attrs ''gen_ai.input.messages'',
      extractToolMessageResults h attrs ''request_data'']"

definition extractRequestToolCallDetails :: "js_host \<Rightarrow> attributes \<Rightarrow> detailed_call list" where
  "extractRequestToolCallDetails h attrs = firstNonEmpty
     [extractToolMessageCalls h attrs ''gen_ai.request.messages'',
      extractToolMessageCalls h attrs ''gen_ai.input.messages'',
      extractToolMessageCalls h attrs ''request_data'']"

section \<open>The nested parse is complete\<close>

text \<open>What JSON guarantees: a text is longer than each string it denotes a value with.\<close>

definition shrinks :: "js_host \<Rightarrow> bool" where
  "shrinks h \<longleftrightarrow> (\<forall>s j. JSON_parse h s = Some j \<longrightarrow> longest j < length s)"

lemma longest_elem:
  "x \<in> set xs \<Longrightarrow> longest x \<le> longest (JArr xs)"
  "(k, x) \<in> set fs \<Longrightarrow> longest x \<le> longest (JObj fs)"
proof -
  show "x \<in> set xs \<Longrightarrow> longest x \<le> longest (JArr xs)" by (induction xs) auto
  show "(k, x) \<in> set fs \<Longrightarrow> longest x \<le> longest (JObj fs)" by (induction fs) auto
qed

lemma trim_length: "length (trim s) \<le> length s"
  using length_dropWhile_le [of is_space "rev (dropWhile is_space s)"]
    length_dropWhile_le [of is_space s]
  by (simp add: trim_def)

lemma parseJsonString_shrinks:
  assumes "shrinks h" "parseJsonString h s = Some j"
  shows "longest j < length s"
  using assms trim_length [of s]
  by (auto simp: shrinks_def parseJsonString_def Let_def split: if_splits intro: less_le_trans)

text \<open>The fuel is enough, and what is left has no string that could be parsed.\<close>

lemma longest_le:
  "longest (JArr xs) \<le> n \<longleftrightarrow> (\<forall>x \<in> set xs. longest x \<le> n)"
  "longest (JObj fs) \<le> n \<longleftrightarrow> (\<forall>(k, x) \<in> set fs. longest x \<le> n)"
proof -
  show "longest (JArr xs) \<le> n \<longleftrightarrow> (\<forall>x \<in> set xs. longest x \<le> n)" by (induction xs) auto
  show "longest (JObj fs) \<le> n \<longleftrightarrow> (\<forall>(k, x) \<in> set fs. longest x \<le> n)" by (induction fs) auto
qed

lemma parse_nested_fuel:
  "shrinks h \<Longrightarrow> longest v \<le> n \<Longrightarrow> longest v \<le> k \<Longrightarrow> parse_nested n h v = parse_nested k h v"
proof (induction n h v arbitrary: k rule: parse_nested.induct)
  case (1 n h s)
  show ?case
  proof (cases "parseJsonString h s")
    case (Some j)
    then have j: "longest j < length s" by (rule parseJsonString_shrinks [OF "1.prems"(1)])
    from j "1.prems"(2) obtain m where m: "n = Suc m" "longest j \<le> m" by (cases n) auto
    from j "1.prems"(3) obtain l where l: "k = Suc l" "longest j \<le> l" by (cases k) auto
    have "parse_nested m h j = parse_nested l h j"
      by (rule "1.IH" [OF Some m(1) "1.prems"(1) m(2) l(2)])
    with Some m(1) l(1) show ?thesis by simp
  qed simp
next
  case (2 n h xs)
  have "parse_nested n h x = parse_nested k h x" if "x \<in> set xs" for x
    using "2.prems"(2,3) that unfolding longest_le by (intro "2.IH" [OF that "2.prems"(1)]) auto
  then show ?case by simp
next
  case (3 n h fs)
  have "parse_nested n h x = parse_nested k h x" if "(a, x) \<in> set fs" for a x
    using "3.prems"(2,3) that unfolding longest_le by (intro "3.IH" [OF that refl "3.prems"(1)]) auto
  then show ?case by (auto intro: map_cong)
qed simp_all

text \<open>No string in the value is JSON itself.\<close>

fun fully_parsed :: "js_host \<Rightarrow> json \<Rightarrow> bool" where
  "fully_parsed h (JStr s) \<longleftrightarrow> parseJsonString h s = None"
| "fully_parsed h (JArr xs) \<longleftrightarrow> list_all (fully_parsed h) xs"
| "fully_parsed h (JObj fs) \<longleftrightarrow> list_all (\<lambda>(k, v). fully_parsed h v) fs"
| "fully_parsed h _ \<longleftrightarrow> True"

lemma parse_nested_full: "shrinks h \<Longrightarrow> longest v \<le> n \<Longrightarrow> fully_parsed h (parse_nested n h v)"
proof (induction n h v rule: parse_nested.induct)
  case (1 n h s)
  show ?case
  proof (cases "parseJsonString h s")
    case (Some j)
    then have j: "longest j < length s" by (rule parseJsonString_shrinks [OF "1.prems"(1)])
    from j "1.prems"(2) obtain m where m: "n = Suc m" "longest j \<le> m" by (cases n) auto
    have "fully_parsed h (parse_nested m h j)" by (rule "1.IH" [OF Some m(1) "1.prems"(1) m(2)])
    with Some m(1) show ?thesis by simp
  qed simp
next
  case (2 n h xs)
  have "fully_parsed h (parse_nested n h x)" if "x \<in> set xs" for x
    using "2.prems"(2) that unfolding longest_le by (intro "2.IH" [OF that "2.prems"(1)]) auto
  then show ?case by (simp add: list_all_iff)
next
  case (3 n h fs)
  have "fully_parsed h (parse_nested n h x)" if "(a, x) \<in> set fs" for a x
    using "3.prems"(2) that unfolding longest_le by (intro "3.IH" [OF that refl "3.prems"(1)]) auto
  then show ?case by (auto simp: list_all_iff)
qed simp_all

lemma parse_nested_id: "fully_parsed h v \<Longrightarrow> parse_nested n h v = v"
  by (induction n h v rule: parse_nested.induct) (auto simp: list_all_iff intro!: map_idI)

text \<open>
  C1. Parsing JSON inside JSON ends and is complete: if \<open>JSON.parse\<close> gives values whose texts
  are shorter than what it parsed, no string of the result is JSON itself, parsing again
  changes nothing, and more steps than the longest text has characters are never needed.
\<close>

theorem nested_parsing_is_complete:
  assumes "shrinks h" "longest v \<le> n"
  shows "fully_parsed h (parseJsonRecursively h v) \<and>
    parseJsonRecursively h (parseJsonRecursively h v) = parseJsonRecursively h v \<and>
    parse_nested n h v = parseJsonRecursively h v"
  using assms parse_nested_full [of h v "longest v"] parse_nested_fuel [of h v n "longest v"]
  by (simp add: parseJsonRecursively_def parse_nested_id)

definition demo_json_host :: js_host where
  "demo_json_host = \<lparr>
     JSON_parse = (\<lambda>s. if s = ''{a: [1]}'' then Some (JObj [(''a'', JStr ''[1]'')])
       else if s = ''[1]'' then Some (JArr [JNum 1]) else None),
     JSON_stringify = (\<lambda>_. []), JSON_pretty = (\<lambda>_. []), number_string = (\<lambda>_. []),
     Date_parse = (\<lambda>_. None)\<rparr>"

lemma nested_parsing_is_complete_witness:
  "parseJsonRecursively demo_json_host (JStr ''{a: [1]}'') = JObj [(''a'', JArr [JNum 1])] \<and>
   fully_parsed demo_json_host (JObj [(''a'', JArr [JNum 1])])"
proof -
  have "shrinks demo_json_host" by (auto simp: shrinks_def demo_json_host_def)
  moreover have "parseJsonRecursively demo_json_host (JStr ''{a: [1]}'') = JObj [(''a'', JArr [JNum 1])]"
    by code_simp
  ultimately show ?thesis
    using nested_parsing_is_complete [of demo_json_host "JStr ''{a: [1]}''" 8] by simp
qed

end
