(* ===== verification/PendingCalls.thy ===== *)
theory PendingCalls
  imports TraceData
begin

text \<open>
  Tool calls that wait for their result (the maps and closures both builders of
  chat/lib/trace-activity.ts start with). The source keeps references to entries it has
  already appended to the log and mutates them later; here a reference is the position of
  the entry, which does not change because the logs only grow at their end.
\<close>

definition pushMapValue :: "string \<Rightarrow> 'a \<Rightarrow> (string, 'a list) js_map \<Rightarrow> (string, 'a list) js_map" where
  "pushMapValue key v m = js_set key (coalesce (js_get m key) [] @ [v]) m"

definition shiftMapValue ::
  "string option \<Rightarrow> (string, 'a list) js_map \<Rightarrow> 'a option \<times> (string, 'a list) js_map" where
  "shiftMapValue key m = (case key of
     None \<Rightarrow> (None, m)
   | Some k \<Rightarrow>
       if is_blank k then (None, m)
       else (case js_get m k of
           None \<Rightarrow> (None, m)
         | Some [] \<Rightarrow> (None, m)
         | Some (v # vs) \<Rightarrow> (Some v, if vs = [] then js_delete k m else js_set k vs m)))"

record pending =
  pn_byId :: "(ident, nat) js_map"
  pn_byName :: "(string, nat list) js_map"

definition no_pending :: pending where
  "no_pending = \<lparr>pn_byId = [], pn_byName = []\<rparr>"

text \<open>A call with a usable id waits under the id, otherwise under its name.\<close>

definition registerPendingEntry :: "string \<Rightarrow> nat \<Rightarrow> string option \<Rightarrow> pending \<Rightarrow> pending" where
  "registerPendingEntry nm entry callId p = (case callId of
     Some i \<Rightarrow> if \<not> is_blank i then p\<lparr>pn_byId := js_set i entry (pn_byId p)\<rparr>
               else p\<lparr>pn_byName := pushMapValue nm entry (pn_byName p)\<rparr>
   | None \<Rightarrow> p\<lparr>pn_byName := pushMapValue nm entry (pn_byName p)\<rparr>)"

definition popPendingByName :: "string \<Rightarrow> pending \<Rightarrow> nat option \<times> pending" where
  "popPendingByName nm p = (case js_get (pn_byName p) nm of
     None \<Rightarrow> (None, p)
   | Some [] \<Rightarrow> (None, p)
   | Some (e # es) \<Rightarrow>
       (Some e, p\<lparr>pn_byName :=
          (if es = [] then js_delete nm (pn_byName p) else js_set nm es (pn_byName p))\<rparr>))"

text \<open>The entries that wait: every position in either map.\<close>

definition waiting :: "pending \<Rightarrow> nat set" where
  "waiting p = {k. (\<exists>i. (i, k) \<in> set (pn_byId p)) \<or>
     (\<exists>n ks. (n, ks) \<in> set (pn_byName p) \<and> k \<in> set ks)}"

lemma waiting_none [simp]: "waiting no_pending = {}"
  by (simp add: waiting_def no_pending_def)

lemma waiting_register: "waiting (registerPendingEntry nm e i p) \<subseteq> insert e (waiting p)"
proof -
  have "set (coalesce (js_get (pn_byName p) nm) []) \<subseteq> waiting p"
    by (cases "js_get (pn_byName p) nm") (auto simp: waiting_def dest: js_get_in_set)
  then show ?thesis
    by (auto simp: registerPendingEntry_def pushMapValue_def waiting_def
        split: option.splits if_splits dest!: entries_js_set)
qed

lemma popPending_waiting:
  assumes "popPendingByName nm p = (e, q)"
  shows "waiting q \<subseteq> waiting p" "\<And>k. e = Some k \<Longrightarrow> k \<in> waiting p"
proof -
  have *: "set es \<subseteq> waiting p" if "js_get (pn_byName p) nm = Some es" for es
    using js_get_in_set [OF that] by (auto simp: waiting_def)
  show "waiting q \<subseteq> waiting p"
    using assms
    by (auto simp: popPendingByName_def waiting_def split: option.splits list.splits if_splits
        dest!: entries_js_set entries_js_delete dest: js_get_in_set)
      (meson js_get_in_set list.set_intros(2))+
  show "k \<in> waiting p" if "e = Some k" for k
    using assms that * by (fastforce simp: popPendingByName_def split: option.splits list.splits)
qed

lemma waiting_delete_id: "waiting (p\<lparr>pn_byId := js_delete i (pn_byId p)\<rparr>) \<subseteq> waiting p"
  by (auto simp: waiting_def dest: entries_js_delete)

lemma waiting_by_id: "js_get (pn_byId p) i = Some k \<Longrightarrow> k \<in> waiting p"
  by (auto simp: waiting_def dest: js_get_in_set)

end
