(* ===== verification/ActivityMerge.thy ===== *)
theory ActivityMerge
  imports PendingCalls "HOL-Library.Sublist"
begin

text \<open>
  The second half of chat/lib/trace-activity.ts: an activity log is rebuilt from the tool
  calls stored with a message, and merged into the log read from the trace.
\<close>

section \<open>Labels\<close>

definition CHATBOT_AGENT_LABEL :: string where
  "CHATBOT_AGENT_LABEL = ''Chatbot agent''"

definition GUARDRAILS_AGENT_LABEL :: string where
  "GUARDRAILS_AGENT_LABEL = ''Guardrails agent''"

definition INVESTIGATION_AGENT_LABEL :: string where
  "INVESTIGATION_AGENT_LABEL = ''Investigation agent''"

definition is_answer_agent :: "log_entry \<Rightarrow> bool" where
  "is_answer_agent e \<longleftrightarrow> le_kind e = Some AgentKind \<and>
     le_label e \<in> {CHATBOT_AGENT_LABEL, INVESTIGATION_AGENT_LABEL}"

section \<open>The log of the stored tool calls\<close>

record call_log =
  cl_entries :: "log_entry list"
  cl_sequence :: nat
  cl_pending :: pending

definition stored_entry ::
  "js_host \<Rightarrow> ident option \<Rightarrow> string option \<Rightarrow> string \<Rightarrow> nat \<Rightarrow> log_entry" where
  "stored_entry h parentId toolCallId toolName n =
     (blank_entry (''tool:metadata:'' @ coalesce toolCallId (number_string h (of_nat n))) n)
       \<lparr>le_label := ''Using tool: '' @ toolName, le_kind := Some ToolKind, le_parentId := parentId,
        le_toolName := Some toolName\<rparr>"

definition stored_name :: "string option \<Rightarrow> string" where
  "stored_name nm = (case nm of None \<Rightarrow> ''tool'' | Some s \<Rightarrow> if is_blank s then ''tool'' else s)"

definition append_entry :: "log_entry \<Rightarrow> call_log \<Rightarrow> call_log" where
  "append_entry e st = st\<lparr>cl_entries := cl_entries st @ [e], cl_sequence := cl_sequence st + 1\<rparr>"

lemma append_entry_simps [simp]:
  "cl_entries (append_entry e st) = cl_entries st @ [e]"
  "cl_sequence (append_entry e st) = Suc (cl_sequence st)"
  "cl_pending (append_entry e st) = cl_pending st"
  by (simp_all add: append_entry_def)

definition stored_call :: "js_host \<Rightarrow> ident option \<Rightarrow> json \<Rightarrow> call_log \<Rightarrow> call_log" where
  "stored_call h parentId toolCall st =
     (if \<not> is_object toolCall then st
      else
        let toolCallId = as_string (field_of toolCall ''id'');
            toolFunction = as_object (field_of toolCall ''function'');
            toolName = stored_name (Option.bind toolFunction (\<lambda>f. as_string (field_of f ''name'')));
            toolInput = map_option (parseJsonRecursively h)
              (Option.bind toolFunction (\<lambda>f. field_of f ''arguments''));
            entry = (stored_entry h parentId toolCallId toolName (cl_sequence st))
              \<lparr>le_status := InProgress, le_toolInput := toolInput,
               le_toolState := Some InputAvailable\<rparr>
        in (append_entry entry st)
             \<lparr>cl_pending := registerPendingEntry toolName (length (cl_entries st)) toolCallId
                (cl_pending st)\<rparr>)"

text \<open>A result completes the call that waits for it, or becomes an entry of its own.\<close>

definition stored_result :: "js_host \<Rightarrow> ident option \<Rightarrow> json \<Rightarrow> call_log \<Rightarrow> call_log" where
  "stored_result h parentId item st =
     (let toolCallId = as_string (field_of item ''tool_call_id'');
          toolName = as_string (field_of item ''name'');
          toolOutput = map_option (parseJsonRecursively h) (field_of item ''content'');
          (pendingEntry, pending1) =
            (case Option.bind toolCallId (js_get (pn_byId (cl_pending st))) of
               Some k \<Rightarrow> (Some k, cl_pending st)
             | None \<Rightarrow> (case toolName of
                 None \<Rightarrow> (None, cl_pending st)
               | Some nm \<Rightarrow> popPendingByName nm (cl_pending st)))
      in case pendingEntry of
           None \<Rightarrow> append_entry ((stored_entry h parentId toolCallId (stored_name toolName)
                (cl_sequence st))
               \<lparr>le_status := Complete, le_toolOutput := toolOutput,
                le_toolState := Some OutputAvailable\<rparr>) st
         | Some k \<Rightarrow> st\<lparr>
             cl_entries := (cl_entries st)[k := (cl_entries st ! k)\<lparr>le_status := Complete,
               le_toolState := Some OutputAvailable, le_toolOutput := toolOutput\<rparr>],
             cl_pending := (case toolCallId of
                None \<Rightarrow> pending1
              | Some i \<Rightarrow> pending1\<lparr>pn_byId := js_delete i (pn_byId pending1)\<rparr>)\<rparr>)"

definition stored_item :: "js_host \<Rightarrow> ident option \<Rightarrow> json \<Rightarrow> call_log \<Rightarrow> call_log" where
  "stored_item h parentId item st =
     (let st1 = (if is_object item
            then fold (stored_call h parentId) (coalesce (as_array (field_of item ''tool_calls'')) []) st
            else st)
      in if is_object item \<and> field_of item ''role'' = Some (JStr ''tool'')
         then stored_result h parentId item st1 else st1)"

definition buildActivityLogFromStoredToolCalls ::
  "js_host \<Rightarrow> json list option \<Rightarrow> ident option \<Rightarrow> nat \<Rightarrow> log_entry list" where
  "buildActivityLogFromStoredToolCalls h storedToolCalls parentId startingSequence =
     cl_entries (fold (stored_item h parentId) (coalesce storedToolCalls [])
       \<lparr>cl_entries = [], cl_sequence = startingSequence, cl_pending = no_pending\<rparr>)"

section \<open>Merging it into the log of the trace\<close>

definition normalizeSequence :: "log_entry list \<Rightarrow> log_entry list" where
  "normalizeSequence entries = map (\<lambda>(i, e). e\<lparr>le_sequence := i\<rparr>) (enumerate 0 entries)"

definition toComparableValue :: "js_host \<Rightarrow> json option \<Rightarrow> string option" where
  "toComparableValue h value = map_option (JSON_stringify h \<circ> parseJsonRecursively h) value"

definition getFallbackParentId :: "log_entry list \<Rightarrow> ident option" where
  "getFallbackParentId entries = map_option le_id (find is_answer_agent entries)"

definition getFallbackInsertIndex :: "log_entry list \<Rightarrow> nat" where
  "getFallbackInsertIndex entries = (case find_index is_answer_agent entries of
     Some i \<Rightarrow> i + 1
   | None \<Rightarrow> coalesce (find_index (\<lambda>e. le_kind e = Some AgentKind \<and>
        le_label e = GUARDRAILS_AGENT_LABEL) entries) (length entries))"

text \<open>Whether an entry of the log can be the call of the fallback entry.\<close>

definition same_call :: "js_host \<Rightarrow> log_entry \<Rightarrow> log_entry \<Rightarrow> bool" where
  "same_call h fallback existing \<longleftrightarrow>
     le_kind existing = Some ToolKind \<and> le_toolName existing = le_toolName fallback \<and>
     (let a = toComparableValue h (le_toolInput fallback);
          b = toComparableValue h (le_toolInput existing)
      in a = None \<or> b = None \<or> a = b)"

definition find_match :: "js_host \<Rightarrow> log_entry \<Rightarrow> nat list \<Rightarrow> log_entry list \<Rightarrow> nat option" where
  "find_match h fallback matched merged =
     find_index (\<lambda>(i, e). i \<notin> set matched \<and> same_call h fallback e) (enumerate 0 merged)"

definition combine_entry :: "log_entry \<Rightarrow> log_entry \<Rightarrow> log_entry" where
  "combine_entry fallback existing = existing\<lparr>
     le_parentId := or_else (le_parentId existing) (le_parentId fallback),
     le_toolInput := json_or_else (le_toolInput existing) (le_toolInput fallback),
     le_toolOutput := (if le_toolOutput existing \<noteq> None then le_toolOutput existing
                       else le_toolOutput fallback),
     le_toolErrorText := or_else (le_toolErrorText existing) (le_toolErrorText fallback),
     le_toolState := (if le_toolState existing \<in> {Some OutputAvailable, Some OutputError}
                      then le_toolState existing
                      else or_else (le_toolState fallback) (le_toolState existing)),
     le_status := (if le_status existing = ErrorStatus then le_status existing
                   else if le_toolOutput fallback \<noteq> None then le_status fallback
                   else le_status existing)\<rparr>"

record merge_state =
  mg_merged :: "log_entry list"
  mg_matched :: "nat list"
  mg_insertIndex :: nat

definition merge_step :: "js_host \<Rightarrow> log_entry \<Rightarrow> merge_state \<Rightarrow> merge_state" where
  "merge_step h fallback st = (case find_match h fallback (mg_matched st) (mg_merged st) of
     Some i \<Rightarrow> st\<lparr>mg_matched := set_add i (mg_matched st),
       mg_merged := (mg_merged st)[i := combine_entry fallback (mg_merged st ! i)]\<rparr>
   | None \<Rightarrow> st\<lparr>
       mg_merged := take (mg_insertIndex st) (mg_merged st) @ fallback #
         drop (mg_insertIndex st) (mg_merged st),
       mg_insertIndex := mg_insertIndex st + 1\<rparr>)"

definition mergeActivityLogWithStoredToolCalls ::
  "js_host \<Rightarrow> log_entry list \<Rightarrow> json list option \<Rightarrow> log_entry list" where
  "mergeActivityLogWithStoredToolCalls h activityLog storedToolCalls =
     (let normalized = sort_key le_sequence activityLog;
          fallbackEntries = buildActivityLogFromStoredToolCalls h storedToolCalls
            (getFallbackParentId normalized) (length normalized)
      in if fallbackEntries = [] then normalized
         else if normalized = [] then normalizeSequence fallbackEntries
         else normalizeSequence (mg_merged (fold (merge_step h) fallbackEntries
           \<lparr>mg_merged = normalized, mg_matched = [],
            mg_insertIndex = getFallbackInsertIndex normalized\<rparr>)))"

end
