(* ===== verification/TraceActivity.thy ===== *)
theory TraceActivity
  imports ActivityMerge
begin

text \<open>
  The first half of chat/lib/trace-activity.ts: the activity log of an answer, rebuilt from
  the spans of its trace. Agents, their reasoning and their tool calls become entries; a
  tool's result may arrive in a later span than its call, so calls wait for their results
  by id or by name (theory PendingCalls). The state of the builder is a record; one span is
  one step; the passes over a span are separate definitions in the order the code has them.
\<close>

section \<open>Agents\<close>

definition AGENT_LABELS :: "(string \<times> string) list" where
  "AGENT_LABELS = [(''chatbot'', CHATBOT_AGENT_LABEL), (''guardrails'', GUARDRAILS_AGENT_LABEL),
     (''investigation'', INVESTIGATION_AGENT_LABEL)]"

definition allowed_agent :: "string \<Rightarrow> bool" where
  "allowed_agent nm \<longleftrightarrow> nm \<in> set (map fst AGENT_LABELS)"

definition normalizeAgentLabel :: "string \<Rightarrow> string" where
  "normalizeAgentLabel agentName = coalesce (map_of AGENT_LABELS agentName)
     (map (\<lambda>c. if c = CHR ''_'' then CHR '' '' else c) agentName)"

definition buildSpanLookup :: "trace_span list \<Rightarrow> (ident, trace_span) js_map" where
  "buildSpanLookup spans = fold (\<lambda>s. js_set (sp_span_id s) s) spans []"

text \<open>A usable agent name of a span: present and not blank.\<close>

definition agent_attribute :: "trace_span \<Rightarrow> string option" where
  "agent_attribute s = (case getStringAttribute (span_attributes s) ''gen_ai.agent.name'' of
     None \<Rightarrow> None | Some nm \<Rightarrow> if is_blank nm then None else Some nm)"

definition if_allowed :: "string \<Rightarrow> string option" where
  "if_allowed nm = (if allowed_agent nm then Some nm else None)"

text \<open>
  The search upwards. A span that has been visited, an unknown one and a blank id end it;
  so it ends, because every round visits a new span of the trace.
\<close>

function resolve_upwards ::
  "(ident, trace_span) js_map \<Rightarrow> ident list \<Rightarrow> ident option \<Rightarrow> string option" where
  "resolve_upwards lookup visited parentId = (case parentId of
     None \<Rightarrow> None
   | Some i \<Rightarrow>
       if is_blank i \<or> i \<in> set visited then None
       else (case js_get lookup i of
           None \<Rightarrow> None
         | Some parent \<Rightarrow> (case agent_attribute parent of
               Some nm \<Rightarrow> if_allowed nm
             | None \<Rightarrow> resolve_upwards lookup (i # visited) (sp_parent_span_id parent))))"
  by auto

termination
proof (relation "measure (\<lambda>(lookup, visited, _). card (set (js_keys lookup) - set visited))", goal_cases)
  case 1
  then show ?case by simp
next
  case (2 lookup visited parentId i parent)
  then have "i \<in> set (js_keys lookup) - set visited"
    by (auto dest: js_get_in_set intro: rev_image_eqI)
  then have "card (set (js_keys lookup) - insert i (set visited)) < card (set (js_keys lookup) - set visited)"
    by (intro psubset_card_mono) auto
  then show ?case by simp
qed

declare resolve_upwards.simps [simp del]

definition resolveAgentName :: "trace_span \<Rightarrow> (ident, trace_span) js_map \<Rightarrow> string option" where
  "resolveAgentName s lookup = (case agent_attribute s of
     Some nm \<Rightarrow> if_allowed nm
   | None \<Rightarrow> resolve_upwards lookup [] (sp_parent_span_id s))"

section \<open>Reasoning\<close>

definition thinking_of_part :: "json \<Rightarrow> string option" where
  "thinking_of_part part =
     (if is_object part \<and> field_of part ''type'' = Some (JStr ''thinking'')
      then (case as_string (field_of part ''content'') of
          None \<Rightarrow> None | Some s \<Rightarrow> if is_blank s then None else Some s)
      else None)"

definition thinking_of_message :: "json \<Rightarrow> string list" where
  "thinking_of_message m =
     (if is_object m \<and> as_string (field_of m ''role'') \<in> {None, Some ''assistant''}
      then List.map_filter thinking_of_part (coalesce (as_array (field_of m ''parts'')) [])
      else [])"

definition extractThinkingFromMessages :: "js_host \<Rightarrow> json \<Rightarrow> string list" where
  "extractThinkingFromMessages h value = (case parseJsonRecursively h value of
     JArr ms \<Rightarrow> concat (map thinking_of_message ms)
   | _ \<Rightarrow> [])"

definition reasoning_keys :: "string list" where
  "reasoning_keys = [''gen_ai.response.reasoning'', ''gen_ai.response.reasoning_summary'',
     ''gen_ai.response.reasoning_text'', ''openai.response.reasoning'',
     ''openai.response.reasoning_summary'', ''openai.response.reasoning_text'',
     ''response.reasoning'', ''response.reasoning_summary'']"

definition resolveReasoningParts :: "js_host \<Rightarrow> attributes \<Rightarrow> string list" where
  "resolveReasoningParts h attrs =
     filter (\<lambda>s. \<not> is_blank s)
       (List.map_filter (\<lambda>k. as_string (map_of attrs k)) reasoning_keys) @
     concat (map (\<lambda>k. case map_of attrs k of
         None \<Rightarrow> []
       | Some raw \<Rightarrow> filter (\<lambda>s. \<not> is_blank s) (extractThinkingFromMessages h raw))
       [''gen_ai.output.messages'', ''gen_ai.response.messages''])"

definition resolveDurationMs :: "js_host \<Rightarrow> trace_span \<Rightarrow> number option" where
  "resolveDurationMs h s = (case sp_duration_ms s of
     Some d \<Rightarrow> Some d
   | None \<Rightarrow> (case (getSpanStart h s, getSpanEnd h s) of
       (Some a, Some b) \<Rightarrow> Some (b - a)
     | _ \<Rightarrow> None))"

definition resolveToolState :: "bool \<Rightarrow> bool \<Rightarrow> tool_state" where
  "resolveToolState isError hasOutput =
     (if isError then OutputError else if hasOutput then OutputAvailable else InputAvailable)"

section \<open>The builder\<close>

record trace_log =
  tl_entries :: "log_entry list"
  tl_sequence :: nat
  tl_agentCounts :: "(string, nat) js_map"
  tl_agentIds :: "(string, ident) js_map"
  tl_pending :: pending
  tl_observed :: "ident list"

definition empty_trace_log :: trace_log where
  "empty_trace_log = \<lparr>tl_entries = [], tl_sequence = 0, tl_agentCounts = [], tl_agentIds = [],
     tl_pending = no_pending, tl_observed = []\<rparr>"

definition push_entry :: "log_entry \<Rightarrow> trace_log \<Rightarrow> trace_log" where
  "push_entry e st = st\<lparr>tl_entries := tl_entries st @ [e], tl_sequence := tl_sequence st + 1\<rparr>"

definition change_entry :: "nat \<Rightarrow> (log_entry \<Rightarrow> log_entry) \<Rightarrow> trace_log \<Rightarrow> trace_log" where
  "change_entry k f st = st\<lparr>tl_entries := (tl_entries st)[k := f (tl_entries st ! k)]\<rparr>"

text \<open>What the passes over one span share.\<close>

record span_view =
  sv_id :: ident
  sv_isError :: bool
  sv_errorText :: string
  sv_parentId :: "ident option"
  sv_callId :: "string option"

definition error_text_of :: "span_view \<Rightarrow> string option" where
  "error_text_of v = (if sv_isError v then Some (sv_errorText v) else None)"

definition span_status :: "span_view \<Rightarrow> activity_status" where
  "span_status v = (if sv_isError v then ErrorStatus else Complete)"

definition applyToolResult :: "span_view \<Rightarrow> json \<Rightarrow> log_entry \<Rightarrow> log_entry" where
  "applyToolResult v toolOutput e = e\<lparr>le_toolOutput := Some toolOutput,
     le_toolState := Some (resolveToolState (sv_isError v) True),
     le_status := span_status v, le_toolErrorText := error_text_of v\<rparr>"

definition tool_entry ::
  "js_host \<Rightarrow> span_view \<Rightarrow> nat \<Rightarrow> nat \<Rightarrow> string \<Rightarrow> json option \<Rightarrow> json option \<Rightarrow> tool_state \<Rightarrow> log_entry" where
  "tool_entry h v index n toolName toolInput toolOutput toolState =
     (blank_entry (''tool:'' @ sv_id v @ '':'' @ number_string h (of_nat index)) n)
       \<lparr>le_label := ''Using tool: '' @ toolName, le_status := span_status v,
        le_kind := Some ToolKind, le_parentId := sv_parentId v, le_toolName := Some toolName,
        le_toolInput := toolInput, le_toolOutput := toolOutput,
        le_toolErrorText := error_text_of v, le_toolState := Some toolState\<rparr>"

text \<open>An agent span starts an agent entry; a repeated agent gets a numbered id.\<close>

definition agent_step :: "js_host \<Rightarrow> trace_span \<Rightarrow> trace_log \<Rightarrow> trace_log" where
  "agent_step h s st = (case agent_attribute s of
     None \<Rightarrow> st
   | Some agent \<Rightarrow>
       if \<not> allowed_agent agent then st
       else
         let n = coalesce (js_get (tl_agentCounts st) agent) 0;
             suffix = (if n = 0 then '''' else '':'' @ number_string h (of_nat (n + 1)));
             agentId = ''agent:'' @ agent @ suffix
         in push_entry ((blank_entry agentId (tl_sequence st))
              \<lparr>le_label := normalizeAgentLabel agent, le_status := Complete,
               le_kind := Some AgentKind, le_startedAtMs := getSpanStart h s,
               le_durationMs := resolveDurationMs h s\<rparr>)
              (st\<lparr>tl_agentCounts := js_set agent (n + 1) (tl_agentCounts st),
                  tl_agentIds := js_set agent agentId (tl_agentIds st)\<rparr>))"

definition thinking_entry ::
  "js_host \<Rightarrow> trace_span \<Rightarrow> string \<Rightarrow> ident option \<Rightarrow> nat \<times> string \<Rightarrow> trace_log \<Rightarrow> trace_log" where
  "thinking_entry h s agent parentId part st =
     (if is_blank (snd part) then st
      else push_entry ((blank_entry (''thinking:'' @ sp_span_id s @ '':'' @
               number_string h (of_nat (fst part))) (tl_sequence st))
             \<lparr>le_label := normalizeAgentLabel agent @ '' reasoning'', le_status := Complete,
              le_kind := Some ThinkingKind, le_parentId := parentId,
              le_thinkingContent := Some (snd part)\<rparr>) st)"

definition thinking_step ::
  "js_host \<Rightarrow> trace_span \<Rightarrow> string option \<Rightarrow> ident option \<Rightarrow> trace_log \<Rightarrow> trace_log" where
  "thinking_step h s agentName parentId st = (case agentName of
     None \<Rightarrow> st
   | Some agent \<Rightarrow> fold (thinking_entry h s agent parentId)
       (enumerate 0 (resolveReasoningParts h (span_attributes s))) st)"

section \<open>The tool calls and results of one span\<close>

record span_maps =
  mp_results :: "(string, string list) js_map"
  mp_requestById :: "(string, string list) js_map"
  mp_requestByName :: "(string, string list) js_map"
  mp_callsById :: "(string, detailed_call list) js_map"
  mp_callsByName :: "(string, detailed_call list) js_map"

definition usable_text :: "string option \<Rightarrow> string option" where
  "usable_text x = (case x of None \<Rightarrow> None | Some s \<Rightarrow> if is_blank s then None else Some s)"

definition push_if :: "string option \<Rightarrow> 'a \<Rightarrow> (string, 'a list) js_map \<Rightarrow> (string, 'a list) js_map" where
  "push_if key v m = (case usable_text key of None \<Rightarrow> m | Some k \<Rightarrow> pushMapValue k v m)"

text \<open>Results without a name go to the span's own tool, unless that has results.\<close>

definition rename_unnamed ::
  "string option \<Rightarrow> (string, 'a list) js_map \<Rightarrow> (string, 'a list) js_map" where
  "rename_unnamed spanToolName m = (case spanToolName of
     None \<Rightarrow> m
   | Some t \<Rightarrow> (case js_get m ''tool'' of
       None \<Rightarrow> m
     | Some unnamed \<Rightarrow> if js_has m t then m else js_set t unnamed (js_delete ''tool'' m)))"

definition span_tool_name :: "attributes \<Rightarrow> string option" where
  "span_tool_name attrs = or_else (getStringAttribute attrs ''gen_ai.tool.name'')
     (getStringAttribute attrs ''gen_ai.tool.call.name'')"

definition collect_maps :: "js_host \<Rightarrow> attributes \<Rightarrow> span_maps" where
  "collect_maps h attrs =
     (let results = extractToolResults h attrs;
          requestResults = extractRequestToolResults h attrs;
          requestCalls = extractRequestToolCallDetails h attrs;
          t = span_tool_name attrs
      in \<lparr>mp_results = rename_unnamed t (fold (\<lambda>(nm, r). pushMapValue nm r) results []),
          mp_requestById = fold (\<lambda>r. push_if (dr_id r) (dr_result r)) requestResults [],
          mp_requestByName = rename_unnamed t
            (fold (\<lambda>r. push_if (dr_name r) (dr_result r)) requestResults []),
          mp_callsById = fold (\<lambda>c. push_if (dc_id c) c) requestCalls [],
          mp_callsByName = fold (\<lambda>c. push_if (Some (dc_name c)) c) requestCalls []\<rparr>)"

definition fallback_calls :: "js_host \<Rightarrow> attributes \<Rightarrow> detailed_call list" where
  "fallback_calls h attrs =
     (let toolCalls = extractResponseToolCallDetails h attrs;
          spanToolName = span_tool_name attrs
      in if toolCalls \<noteq> []
         then map (\<lambda>c. case spanToolName of
             Some t \<Rightarrow> if dc_name c = ''tool'' then c\<lparr>dc_name := t\<rparr> else c
           | None \<Rightarrow> c) toolCalls
         else (case (spanToolName, map_of attrs ''gen_ai.tool.call.arguments'') of
             (Some t, Some args) \<Rightarrow>
               [\<lparr>dc_id = getStringAttribute attrs ''gen_ai.tool.call.id'', dc_name = t,
                 dc_arguments = (case args of JStr a \<Rightarrow> a | _ \<Rightarrow> JSON_stringify h args)\<rparr>]
           | _ \<Rightarrow> []))"

text \<open>\<open>results?.shift()\<close>: the list in the map gets shorter and stays there.\<close>

definition take_result :: "string \<Rightarrow> span_maps \<Rightarrow> string option \<times> span_maps" where
  "take_result nm m = (case js_get (mp_results m) nm of
     Some (r # rs) \<Rightarrow> (Some r, m\<lparr>mp_results := js_set nm rs (mp_results m)\<rparr>)
   | _ \<Rightarrow> (None, m))"

definition take_request_result ::
  "string option \<Rightarrow> string \<Rightarrow> span_maps \<Rightarrow> string option \<times> span_maps" where
  "take_request_result callId nm m =
     (let (byId, m1) = shiftMapValue callId (mp_requestById m)
      in case byId of
           Some r \<Rightarrow> (Some r, m\<lparr>mp_requestById := m1\<rparr>)
         | None \<Rightarrow>
             (let (byName, m2) = shiftMapValue (Some nm) (mp_requestByName m)
              in (byName, m\<lparr>mp_requestById := m1, mp_requestByName := m2\<rparr>)))"

definition drop_pending_id :: "ident option \<Rightarrow> trace_log \<Rightarrow> trace_log" where
  "drop_pending_id i st = (case i of
     None \<Rightarrow> st
   | Some k \<Rightarrow> st\<lparr>tl_pending := (tl_pending st)
       \<lparr>pn_byId := js_delete k (pn_byId (tl_pending st))\<rparr>\<rparr>)"

definition observe :: "ident option \<Rightarrow> trace_log \<Rightarrow> trace_log" where
  "observe i st = (case usable_text i of
     None \<Rightarrow> st | Some k \<Rightarrow> st\<lparr>tl_observed := set_add k (tl_observed st)\<rparr>)"

definition call_id_of :: "span_view \<Rightarrow> bool \<Rightarrow> detailed_call \<Rightarrow> string option" where
  "call_id_of v lone c = or_else (dc_id c) (if lone then usable_text (sv_callId v) else None)"

definition parse_text :: "js_host \<Rightarrow> string \<Rightarrow> json" where
  "parse_text h s = parseJsonRecursively h (JStr s)"

definition call_step ::
  "js_host \<Rightarrow> span_view \<Rightarrow> bool \<Rightarrow> nat \<times> detailed_call \<Rightarrow> span_maps \<times> trace_log \<Rightarrow>
   span_maps \<times> trace_log" where
  "call_step h v lone ic state =
     (let (index, call) = ic;
          (m, st) = state;
          (result, m1) = take_result (dc_name call) m;
          isStructuredFinalResult = (dc_name call = ''final_result'' \<and> result = None);
          hasOutput = (result \<noteq> None);
          toolInput = parse_text h (dc_arguments call);
          toolState = (if isStructuredFinalResult then OutputAvailable
                       else resolveToolState (sv_isError v) hasOutput);
          callId = call_id_of v lone call;
          st1 = observe callId st;
          (requestResult, m2) = take_request_result callId (dc_name call) m1;
          resolvedToolOutput = map_option (parse_text h) (or_else requestResult result);
          resolvedHasOutput = (requestResult \<noteq> None \<or> hasOutput \<or> isStructuredFinalResult)
      in case Option.bind callId (js_get (pn_byId (tl_pending st1))) of
           Some k \<Rightarrow>
             (m2, if resolvedToolOutput \<noteq> None \<or> isStructuredFinalResult
                  then drop_pending_id callId (change_entry k (\<lambda>e. e\<lparr>
                    le_toolInput := Some toolInput, le_toolOutput := resolvedToolOutput,
                    le_toolState := Some (if isStructuredFinalResult then OutputAvailable
                      else resolveToolState (sv_isError v) True),
                    le_status := span_status v, le_toolErrorText := error_text_of v\<rparr>) st1)
                  else change_entry k (\<lambda>e. e\<lparr>le_toolInput := Some toolInput\<rparr>) st1)
         | None \<Rightarrow>
             (let st2 = push_entry (tool_entry h v index (tl_sequence st1) (dc_name call)
                    (Some toolInput) resolvedToolOutput
                    (if resolvedHasOutput then resolveToolState (sv_isError v) True
                     else toolState)) st1
              in (m2, if \<not> resolvedHasOutput
                      then st2\<lparr>tl_pending := registerPendingEntry (dc_name call)
                        (length (tl_entries st1)) callId (tl_pending st2)\<rparr>
                      else st2)))"

text \<open>
  The results that are left after the calls. \<open>resultIndex\<close> numbers the entries of results
  whose call is not in the trace.
\<close>

definition result_step ::
  "js_host \<Rightarrow> span_view \<Rightarrow> string \<times> string \<Rightarrow> nat \<times> trace_log \<Rightarrow> nat \<times> trace_log" where
  "result_step h v nr state =
     (let (nm, result) = nr;
          (resultIndex, st) = state;
          toolOutput = parse_text h result
      in case Option.bind (sv_callId v) (js_get (pn_byId (tl_pending st))) of
           Some k \<Rightarrow>
             (resultIndex, drop_pending_id (sv_callId v) (change_entry k (applyToolResult v toolOutput) st))
         | None \<Rightarrow> (case popPendingByName nm (tl_pending st) of
             (Some k, p) \<Rightarrow>
               (resultIndex, change_entry k (applyToolResult v toolOutput) (st\<lparr>tl_pending := p\<rparr>))
           | (None, p) \<Rightarrow>
               (resultIndex + 1, push_entry (tool_entry h v resultIndex (tl_sequence st) nm None
                  (Some toolOutput) (resolveToolState (sv_isError v) True)) st)))"

definition request_entry ::
  "js_host \<Rightarrow> span_view \<Rightarrow> nat \<Rightarrow> string \<Rightarrow> detailed_call option \<Rightarrow> json \<Rightarrow> trace_log \<Rightarrow> trace_log" where
  "request_entry h v resultIndex nm requestCall toolOutput st =
     push_entry (tool_entry h v resultIndex (tl_sequence st)
       (coalesce (map_option dc_name requestCall) nm)
       (map_option (\<lambda>c. parse_text h (dc_arguments c)) requestCall) (Some toolOutput)
       (resolveToolState (sv_isError v) True)) st"

definition request_id_step ::
  "js_host \<Rightarrow> span_view \<Rightarrow> string \<times> string \<Rightarrow> nat \<times> span_maps \<times> trace_log \<Rightarrow>
   nat \<times> span_maps \<times> trace_log" where
  "request_id_step h v ir state =
     (let (callId, result) = ir;
          (resultIndex, m, st) = state;
          toolOutput = parse_text h result
      in case js_get (pn_byId (tl_pending st)) callId of
           Some k \<Rightarrow> (resultIndex, m,
             drop_pending_id (Some callId) (change_entry k (applyToolResult v toolOutput) st))
         | None \<Rightarrow>
             if callId \<in> set (tl_observed st) then (resultIndex, m, st)
             else
               let (requestCall, calls) = shiftMapValue (Some callId) (mp_callsById m);
                   st1 = request_entry h v resultIndex ''tool'' requestCall toolOutput st
               in (resultIndex + 1, m\<lparr>mp_callsById := calls\<rparr>,
                   st1\<lparr>tl_observed := set_add callId (tl_observed st1)\<rparr>))"

definition request_name_step ::
  "js_host \<Rightarrow> span_view \<Rightarrow> string \<times> string \<Rightarrow> nat \<times> span_maps \<times> trace_log \<Rightarrow>
   nat \<times> span_maps \<times> trace_log" where
  "request_name_step h v nr state =
     (let (nm, result) = nr;
          (resultIndex, m, st) = state;
          toolOutput = parse_text h result
      in case popPendingByName nm (tl_pending st) of
           (Some k, p) \<Rightarrow> (resultIndex, m,
             change_entry k (applyToolResult v toolOutput) (st\<lparr>tl_pending := p\<rparr>))
         | (None, p) \<Rightarrow>
             (let (requestCall, calls) = shiftMapValue (Some nm) (mp_callsByName m)
              in (resultIndex + 1, m\<lparr>mp_callsByName := calls\<rparr>,
                  request_entry h v resultIndex nm requestCall toolOutput st)))"

definition flat_values :: "(string, string list) js_map \<Rightarrow> (string \<times> string) list" where
  "flat_values m = concat (map (\<lambda>(k, vs). map (Pair k) vs) m)"

definition tool_step :: "js_host \<Rightarrow> attributes \<Rightarrow> span_view \<Rightarrow> trace_log \<Rightarrow> trace_log" where
  "tool_step h attrs v st =
     (let calls = fallback_calls h attrs
      in if calls = [] \<and> extractToolResults h attrs = [] \<and> extractRequestToolResults h attrs = []
         then st
         else
           let (m, st1) = fold (call_step h v (length calls = 1)) (enumerate 0 calls)
                 (collect_maps h attrs, st);
               (resultIndex, st2) = fold (result_step h v) (flat_values (mp_results m))
                 (length calls, st1);
               state3 = fold (request_id_step h v) (flat_values (mp_requestById m))
                 (resultIndex, m, st2);
               (_, _, st4) = fold (request_name_step h v) (flat_values (mp_requestByName m)) state3
           in st4)"

section \<open>The whole log\<close>

definition span_step ::
  "js_host \<Rightarrow> (ident, trace_span) js_map \<Rightarrow> trace_span \<Rightarrow> trace_log \<Rightarrow> trace_log" where
  "span_step h lookup s st =
     (let st1 = agent_step h s st;
          agentName = resolveAgentName s lookup;
          parentId = Option.bind agentName (js_get (tl_agentIds st1));
          attrs = span_attributes s;
          v = \<lparr>sv_id = sp_span_id s, sv_isError = (sp_status_code s = Some ''ERROR''),
               sv_errorText = coalesce (sp_status_message s) ''Tool error'',
               sv_parentId = parentId,
               sv_callId = getStringAttribute attrs ''gen_ai.tool.call.id''\<rparr>
      in tool_step h attrs v (thinking_step h s agentName parentId st1))"

definition buildActivityLogFromTrace :: "js_host \<Rightarrow> trace_span list \<Rightarrow> log_entry list" where
  "buildActivityLogFromTrace h spans =
     tl_entries (fold (span_step h (buildSpanLookup spans))
       (sort_key (\<lambda>s. coalesce (getSpanStart h s) 0) spans) empty_trace_log)"

end
