(* ===== verification/ActivityMergeFacts.thy ===== *)
theory ActivityMergeFacts
  imports ActivityMerge
begin

text \<open>
  What the merge of stored tool calls into an activity log keeps and shows.
\<close>

section \<open>The merge keeps the log\<close>

text \<open>
  What an entry of the log may become: what identifies it stays, and so do an output, an
  error and a parent it has.
\<close>

definition entry_kept :: "log_entry \<Rightarrow> log_entry \<Rightarrow> bool" where
  "entry_kept e f \<longleftrightarrow>
     le_id f = le_id e \<and> le_label f = le_label e \<and> le_kind f = le_kind e \<and>
     le_toolName f = le_toolName e \<and> le_thinkingContent f = le_thinkingContent e \<and>
     le_startedAtMs f = le_startedAtMs e \<and> le_durationMs f = le_durationMs e \<and>
     (le_parentId e \<noteq> None \<longrightarrow> le_parentId f = le_parentId e) \<and>
     (le_toolOutput e \<noteq> None \<longrightarrow> le_toolOutput f = le_toolOutput e) \<and>
     (le_toolErrorText e \<noteq> None \<longrightarrow> le_toolErrorText f = le_toolErrorText e) \<and>
     (le_status e = ErrorStatus \<longrightarrow> le_status f = ErrorStatus)"

definition unnumbered :: "log_entry \<Rightarrow> log_entry" where
  "unnumbered e = e\<lparr>le_sequence := 0\<rparr>"

abbreviation no_tool :: "log_entry \<Rightarrow> bool" where
  "no_tool e \<equiv> le_kind e \<noteq> Some ToolKind"

lemma entry_kept_refl [simp]: "entry_kept e e"
  by (simp add: entry_kept_def)

lemma entry_kept_trans: "entry_kept e f \<Longrightarrow> entry_kept f g \<Longrightarrow> entry_kept e g"
  by (simp add: entry_kept_def)

lemma entry_kept_combine [simp]: "entry_kept e (combine_entry fb e)"
  by (auto simp: entry_kept_def combine_entry_def or_else_def)

lemma entry_kept_number [simp]: "entry_kept e (e\<lparr>le_sequence := n\<rparr>)"
  by (simp add: entry_kept_def)

lemma kept_list_trans:
  "list_emb entry_kept xs ys \<Longrightarrow> list_emb entry_kept ys zs \<Longrightarrow> list_emb entry_kept xs zs"
  by (rule list_emb_trans) (auto intro: entry_kept_trans)

lemma kept_list_map: "(\<And>x. x \<in> set xs \<Longrightarrow> entry_kept x (f x)) \<Longrightarrow> list_emb entry_kept xs (map f xs)"
  by (induction xs) auto

lemma kept_list_refl [simp]: "list_emb entry_kept xs xs"
  by (rule list_emb_refl) simp

lemma kept_list_update: "entry_kept (xs ! i) y \<Longrightarrow> list_emb entry_kept xs (xs[i := y])"
  by (induction xs arbitrary: i) (auto split: nat.split)

lemma kept_list_insert: "list_emb entry_kept xs (take i xs @ y # drop i xs)"
proof -
  have "list_emb entry_kept (drop i xs) (y # drop i xs)" by (rule list_emb_Cons) simp
  then have "list_emb entry_kept (take i xs @ drop i xs) (take i xs @ y # drop i xs)"
    by (intro list_emb_append_mono) simp_all
  then show ?thesis by simp
qed

lemma kept_normalize: "list_emb entry_kept xs (normalizeSequence xs)"
proof -
  have "list_emb entry_kept xs (map (\<lambda>(i, e). e\<lparr>le_sequence := i\<rparr>) (enumerate n xs))" for n
    by (induction xs arbitrary: n) auto
  then show ?thesis by (simp add: normalizeSequence_def)
qed

lemma normalize_sequence: "map le_sequence (normalizeSequence xs) = [0..<length xs]"
proof -
  have "map le_sequence (map (\<lambda>(i, e). e\<lparr>le_sequence := i\<rparr>) (enumerate n xs)) = [n..<n + length xs]" for n
    by (induction xs arbitrary: n) (auto simp: upt_rec)
  then show ?thesis by (simp add: normalizeSequence_def)
qed

lemma normalize_unnumbered:
  "map unnumbered (filter no_tool (normalizeSequence xs)) = map unnumbered (filter no_tool xs)"
proof -
  have "map unnumbered (filter no_tool (map (\<lambda>(i, e). e\<lparr>le_sequence := i\<rparr>) (enumerate n xs))) =
      map unnumbered (filter no_tool xs)" for n
    by (induction xs arbitrary: n) (auto simp: unnumbered_def)
  then show ?thesis by (simp add: normalizeSequence_def)
qed

text \<open>All entries built from stored calls are tool entries.\<close>

lemma stored_entry_fields [simp]:
  "le_kind (stored_entry h p i nm n) = Some ToolKind"
  "le_sequence (stored_entry h p i nm n) = n"
  "le_toolName (stored_entry h p i nm n) = Some nm"
  "le_parentId (stored_entry h p i nm n) = p"
  by (simp_all add: stored_entry_def blank_entry_def)

definition tool_log :: "call_log \<Rightarrow> bool" where
  "tool_log st \<longleftrightarrow> (\<forall>e \<in> set (cl_entries st). le_kind e = Some ToolKind)"

lemma stored_call_tools: "tool_log st \<Longrightarrow> tool_log (stored_call h p c st)"
  by (simp add: tool_log_def stored_call_def Let_def)

lemma stored_result_tools:
  assumes "tool_log st"
  shows "tool_log (stored_result h p c st)"
proof -
  let ?r = "case Option.bind (as_string (field_of c ''tool_call_id'')) (js_get (pn_byId (cl_pending st))) of
      Some k \<Rightarrow> (Some k, cl_pending st)
    | None \<Rightarrow> (case as_string (field_of c ''name'') of
        None \<Rightarrow> (None, cl_pending st) | Some nm \<Rightarrow> popPendingByName nm (cl_pending st))"
  show ?thesis
  proof (cases "fst ?r")
    case None
    with assms show ?thesis by (simp add: tool_log_def stored_result_def Let_def case_prod_beta)
  next
    case (Some k)
    have "\<forall>e \<in> set ((cl_entries st)[k := (cl_entries st ! k)\<lparr>le_status := Complete,
        le_toolState := Some OutputAvailable, le_toolOutput := v\<rparr>]). le_kind e = Some ToolKind" for v
      by (rule all_list_update) (use assms in \<open>simp_all add: tool_log_def\<close>)
    with Some show ?thesis by (simp add: tool_log_def stored_result_def Let_def case_prod_beta)
  qed
qed

lemma stored_item_tools: "tool_log st \<Longrightarrow> tool_log (stored_item h p item st)"
  by (simp add: stored_item_def Let_def stored_result_tools stored_call_tools fold_keeps [where I = tool_log])

lemma built_entries_tools:
  assumes "e \<in> set (buildActivityLogFromStoredToolCalls h stored p n)"
  shows "le_kind e = Some ToolKind"
proof -
  have "tool_log (fold (stored_item h p) (coalesce stored [])
      \<lparr>cl_entries = [], cl_sequence = n, cl_pending = no_pending\<rparr>)"
    by (rule fold_keeps) (simp_all add: stored_item_tools, simp add: tool_log_def)
  with assms show ?thesis
    by (simp add: buildActivityLogFromStoredToolCalls_def tool_log_def)
qed

text \<open>One step, and the loop.\<close>

definition merge_keeps :: "log_entry list \<Rightarrow> merge_state \<Rightarrow> bool" where
  "merge_keeps base st \<longleftrightarrow> list_emb entry_kept base (mg_merged st) \<and>
     map unnumbered (filter no_tool (mg_merged st)) = map unnumbered (filter no_tool base)"

lemma filter_update_both:
  assumes "\<not> P (xs ! i)" "\<not> P y"
  shows "filter P (xs[i := y]) = filter P xs"
proof (cases "i < length xs")
  case True
  then show ?thesis
    using assms id_take_nth_drop [OF True] by (metis (no_types) filter.simps(2) filter_append upd_conv_take_nth_drop)
qed (simp add: list_update_beyond)

lemma filter_insert: "\<not> P y \<Longrightarrow> filter P (take i xs @ y # drop i xs) = filter P xs"
  by simp (metis append_take_drop_id filter_append)

lemma find_match_SomeD:
  assumes "find_match h fb ms xs = Some i"
  shows "i < length xs" "i \<notin> set ms" "same_call h fb (xs ! i)"
  using find_index_SomeD [OF assms [unfolded find_match_def]]
  by (auto simp: nth_enumerate_eq)

lemma merge_step_keeps:
  assumes "merge_keeps base st" "le_kind fb = Some ToolKind"
  shows "merge_keeps base (merge_step h fb st)"
proof (cases "find_match h fb (mg_matched st) (mg_merged st)")
  case None
  with assms show ?thesis
    using filter_insert [of no_tool fb "mg_insertIndex st" "mg_merged st"]
    by (auto simp: merge_keeps_def merge_step_def intro: kept_list_trans kept_list_insert
        simp del: filter_append)
next
  case (Some i)
  have "le_kind (mg_merged st ! i) = Some ToolKind"
    using find_match_SomeD(3) [OF Some] by (simp add: same_call_def)
  then have "filter no_tool ((mg_merged st)[i := combine_entry fb (mg_merged st ! i)]) =
      filter no_tool (mg_merged st)"
    by (intro filter_update_both) (simp_all add: combine_entry_def)
  moreover have "list_emb entry_kept (mg_merged st)
      ((mg_merged st)[i := combine_entry fb (mg_merged st ! i)])"
    by (rule kept_list_update) simp
  ultimately show ?thesis
    using assms Some by (auto simp: merge_keeps_def merge_step_def intro: kept_list_trans)
qed

lemma merge_embeds:
  fixes es :: "log_entry list" and h :: js_host and stored :: "json list option"
  defines "out \<equiv> mergeActivityLogWithStoredToolCalls h es stored"
  shows "list_emb entry_kept (sort_key le_sequence es) out"
    "map unnumbered (filter no_tool out) = map unnumbered (filter no_tool (sort_key le_sequence es))"
    "sorted (map le_sequence out)"
proof -
  let ?base = "sort_key le_sequence es"
  let ?fb = "buildActivityLogFromStoredToolCalls h stored (getFallbackParentId ?base) (length ?base)"
  let ?start = "\<lparr>mg_merged = ?base, mg_matched = [], mg_insertIndex = getFallbackInsertIndex ?base\<rparr>"
  have "merge_keeps ?base (fold (merge_step h) ?fb ?start)"
    by (rule fold_keeps [where I = "merge_keeps ?base"])
      (simp_all add: merge_step_keeps built_entries_tools, simp add: merge_keeps_def)
  note kept = this [unfolded merge_keeps_def]
  have fb: "filter no_tool ?fb = []"
    by (auto simp: filter_empty_conv dest: built_entries_tools)
  have fb_numbered: "filter no_tool (normalizeSequence ?fb) = []"
    using normalize_unnumbered [of ?fb] fb by simp
  have empty: "sort_key le_sequence es = [] \<longleftrightarrow> es = []"
    by (metis length_0_conv length_sort)
  show "list_emb entry_kept ?base out"
    "map unnumbered (filter no_tool out) = map unnumbered (filter no_tool ?base)"
    "sorted (map le_sequence out)"
    using kept kept_list_trans [OF conjunct1 [OF kept] kept_normalize] fb_numbered
    unfolding out_def
    by (cases "es = []";
        auto simp: mergeActivityLogWithStoredToolCalls_def Let_def normalize_unnumbered
          normalize_sequence empty)+
qed

text \<open>
  C13. Merging the stored tool calls of a message into the activity log of its trace loses
  nothing of the log: its entries are found in the result in their order, with what
  identifies them and with every output, parent and error they had; an error does not become
  a success. Entries that are no tool calls are exactly those of the log, up to their number,
  and the result is ordered by number.
\<close>

theorem merge_keeps_the_log:
  "list_emb entry_kept (sort_key le_sequence es) (mergeActivityLogWithStoredToolCalls h es stored) \<and>
   map unnumbered (filter no_tool (mergeActivityLogWithStoredToolCalls h es stored)) =
     map unnumbered (filter no_tool (sort_key le_sequence es)) \<and>
   sorted (map le_sequence (mergeActivityLogWithStoredToolCalls h es stored))"
  by (simp add: merge_embeds)

section \<open>Results find their calls\<close>

text \<open>
  The stored form of a turn: a message with its calls (id, name, arguments), then one message
  per result (call id, content).
\<close>

definition call_json :: "string \<times> string \<times> json \<Rightarrow> json" where
  "call_json c = JObj [(''id'', JStr (fst c)), (''function'',
     JObj [(''name'', JStr (fst (snd c))), (''arguments'', snd (snd c))])]"

definition result_json :: "string \<times> json \<Rightarrow> json" where
  "result_json r = JObj [(''role'', JStr ''tool''), (''tool_call_id'', JStr (fst r)),
     (''content'', snd r)]"

definition stored_turn :: "(string \<times> string \<times> json) list \<Rightarrow> (string \<times> json) list \<Rightarrow> json list" where
  "stored_turn calls results =
     JObj [(''role'', JStr ''assistant''), (''tool_calls'', JArr (map call_json calls))] #
     map result_json results"

text \<open>How a call is shown, with the result it got.\<close>

definition call_shown ::
  "js_host \<Rightarrow> ident option \<Rightarrow> nat \<Rightarrow> string \<times> string \<times> json \<Rightarrow> json option \<Rightarrow> log_entry" where
  "call_shown h p n c out = (stored_entry h p (Some (fst c)) (fst (snd c)) n)\<lparr>
     le_status := (if out = None then InProgress else Complete),
     le_toolInput := Some (parseJsonRecursively h (snd (snd c))),
     le_toolState := Some (if out = None then InputAvailable else OutputAvailable),
     le_toolOutput := map_option (parseJsonRecursively h) out\<rparr>"

definition calls_shown ::
  "js_host \<Rightarrow> ident option \<Rightarrow> nat \<Rightarrow> (string \<times> string \<times> json) list \<Rightarrow> (string \<Rightarrow> json option) \<Rightarrow>
   log_entry list" where
  "calls_shown h p s calls out =
     map (\<lambda>(n, c). call_shown h p n c (out (fst c))) (enumerate s calls)"

definition usable :: "(string \<times> string \<times> json) list \<Rightarrow> bool" where
  "usable calls \<longleftrightarrow> distinct (map fst calls) \<and>
     (\<forall>c \<in> set calls. \<not> is_blank (fst c) \<and> \<not> is_blank (fst (snd c)))"

definition call_position :: "(string \<times> string \<times> json) list \<Rightarrow> string \<Rightarrow> nat option" where
  "call_position calls = map_of (zip (map fst calls) [0..<length calls])"

lemma length_calls_shown [simp]: "length (calls_shown h p s calls out) = length calls"
  by (simp add: calls_shown_def)

lemma nth_calls_shown [simp]:
  "k < length calls \<Longrightarrow>
   calls_shown h p s calls out ! k = call_shown h p (s + k) (calls ! k) (out (fst (calls ! k)))"
  by (simp add: calls_shown_def nth_enumerate_eq)

lemma call_position_Some:
  assumes "distinct (map fst calls)"
  shows "call_position calls i = Some k \<longleftrightarrow> k < length calls \<and> fst (calls ! k) = i"
proof -
  have "call_position calls i = Some k \<longleftrightarrow> (i, k) \<in> set (zip (map fst calls) [0..<length calls])"
    unfolding call_position_def using assms by (intro map_of_eq_Some_iff) (simp add: map_fst_zip)
  also have "\<dots> \<longleftrightarrow> k < length calls \<and> fst (calls ! k) = i"
    by (force simp: set_zip)
  finally show ?thesis .
qed

lemma call_position_None: "call_position calls i = None \<longleftrightarrow> i \<notin> fst ` set calls"
  by (simp add: call_position_def map_of_zip_is_None)

lemma call_position_snoc:
  assumes "fst c \<notin> fst ` set calls"
  shows "call_position (calls @ [c]) = (call_position calls)(fst c \<mapsto> length calls)"
  using js_get_snoc [of "(fst c, length calls)" "zip (map fst calls) [0..<length calls]"] assms
  by (simp add: call_position_def map_fst_zip)

lemma stored_call_json:
  assumes "\<not> is_blank (fst c)" "\<not> is_blank (fst (snd c))"
  shows "stored_call h p (call_json c) st =
    (append_entry (call_shown h p (cl_sequence st) c None) st)
      \<lparr>cl_pending := registerPendingEntry (fst (snd c)) (length (cl_entries st)) (Some (fst c))
         (cl_pending st)\<rparr>"
  using assms
  by (simp add: stored_call_def call_json_def call_shown_def as_object_def stored_name_def Let_def
      stored_entry_def blank_entry_def)

lemma calls_fold:
  fixes h :: js_host and p :: "ident option"
  assumes "usable calls" "cl_entries st = []" "cl_sequence st = s" "cl_pending st = no_pending"
  defines "st1 \<equiv> fold (stored_call h p) (map call_json calls) st"
  shows "cl_entries st1 = calls_shown h p s calls (\<lambda>_. None) \<and> cl_sequence st1 = s + length calls \<and>
    (\<forall>i. js_get (pn_byId (cl_pending st1)) i = call_position calls i)"
  using assms(1) unfolding st1_def
proof (induction calls rule: rev_induct)
  case Nil
  then show ?case using assms(2-4) by (simp add: calls_shown_def call_position_def no_pending_def)
next
  case (snoc c calls)
  then have "usable calls" "\<not> is_blank (fst c)" "\<not> is_blank (fst (snd c))"
    and new: "fst c \<notin> fst ` set calls"
    by (auto simp: usable_def)
  with snoc.IH show ?case
    by (auto simp: stored_call_json registerPendingEntry_def calls_shown_def enumerate_append_eq
        call_position_snoc call_shown_def)
qed

lemma stored_item_result:
  assumes "js_get (pn_byId (cl_pending st)) (fst r) = Some k"
  shows "stored_item h p (result_json r) st = st\<lparr>
      cl_entries := (cl_entries st)[k := (cl_entries st ! k)\<lparr>le_status := Complete,
        le_toolState := Some OutputAvailable,
        le_toolOutput := Some (parseJsonRecursively h (snd r))\<rparr>],
      cl_pending := (cl_pending st)\<lparr>pn_byId := js_delete (fst r) (pn_byId (cl_pending st))\<rparr>\<rparr>"
  using assms by (simp add: stored_item_def stored_result_def result_json_def)

lemma calls_shown_result:
  assumes "distinct (map fst calls)" "k < length calls"
  shows "calls_shown h p s calls (out(fst (calls ! k) \<mapsto> v)) =
    (calls_shown h p s calls out)[k := (calls_shown h p s calls out ! k)\<lparr>le_status := Complete,
       le_toolState := Some OutputAvailable, le_toolOutput := Some (parseJsonRecursively h v)\<rparr>]"
proof (rule nth_equalityI)
  fix j
  assume "j < length (calls_shown h p s calls (out(fst (calls ! k) \<mapsto> v)))"
  then have "j < length calls" by simp
  moreover have "fst (calls ! j) = fst (calls ! k) \<longleftrightarrow> j = k"
    using assms \<open>j < length calls\<close> nth_eq_iff_index_eq [of "map fst calls" j k] by simp
  ultimately show "calls_shown h p s calls (out(fst (calls ! k) \<mapsto> v)) ! j =
      (calls_shown h p s calls out)[k := (calls_shown h p s calls out ! k)\<lparr>le_status := Complete,
         le_toolState := Some OutputAvailable, le_toolOutput := Some (parseJsonRecursively h v)\<rparr>] ! j"
    using assms by (cases "j = k") (auto simp: call_shown_def)
qed simp

lemma results_fold:
  fixes h :: js_host and p :: "ident option"
  assumes "usable calls" "distinct (map fst rs)" "fst ` set rs \<subseteq> fst ` set calls"
    and "cl_entries st = calls_shown h p s calls (\<lambda>_. None)"
    and "\<forall>i. js_get (pn_byId (cl_pending st)) i = call_position calls i"
  defines "st1 \<equiv> fold (stored_item h p) (map result_json rs) st"
  shows "cl_entries st1 = calls_shown h p s calls (map_of rs) \<and>
    (\<forall>i. js_get (pn_byId (cl_pending st1)) i =
       (if i \<in> fst ` set rs then None else call_position calls i))"
  using assms(2-3) unfolding st1_def
proof (induction rs rule: rev_induct)
  case Nil
  then show ?case using assms(4,5) by simp
next
  case (snoc r rs)
  let ?st = "fold (stored_item h p) (map result_json rs) st"
  have IH: "cl_entries ?st = calls_shown h p s calls (map_of rs)"
    "\<And>i. js_get (pn_byId (cl_pending ?st)) i = (if i \<in> fst ` set rs then None else call_position calls i)"
    using snoc by auto
  have new: "fst r \<notin> fst ` set rs" using snoc.prems by auto
  have d: "distinct (map fst calls)" using assms(1) by (simp add: usable_def)
  obtain k where k: "k < length calls" "fst (calls ! k) = fst r"
    using snoc.prems by (auto simp: in_set_conv_nth image_subset_iff)
  then have pos: "call_position calls (fst r) = Some k" by (simp add: call_position_Some d)
  have outs: "map_of (rs @ [r]) = (map_of rs)(fst r \<mapsto> snd r)"
    using new by (intro js_get_snoc) simp
  have byId: "js_get (pn_byId (cl_pending ?st)) (fst r) = Some k"
    using new pos by (simp add: IH(2))
  have shown: "calls_shown h p s calls (map_of (rs @ [r])) =
      (calls_shown h p s calls (map_of rs))[k := (calls_shown h p s calls (map_of rs) ! k)
        \<lparr>le_status := Complete, le_toolState := Some OutputAvailable,
         le_toolOutput := Some (parseJsonRecursively h (snd r))\<rparr>]"
    using calls_shown_result [OF d k(1), of h p s "map_of rs" "snd r"] k(2) outs by simp
  show ?case
    using shown by (simp add: stored_item_result [OF byId] IH)
qed

lemma built_turn:
  assumes "usable calls" "distinct (map fst rs)" "fst ` set rs \<subseteq> fst ` set calls"
  shows "buildActivityLogFromStoredToolCalls h (Some (stored_turn calls rs)) p s =
    calls_shown h p s calls (map_of rs)"
proof -
  let ?init = "\<lparr>cl_entries = [], cl_sequence = s, cl_pending = no_pending\<rparr>"
  let ?st = "fold (stored_call h p) (map call_json calls) ?init"
  have first: "stored_item h p (hd (stored_turn calls rs)) ?init = ?st"
    by (simp add: stored_turn_def stored_item_def)
  have "cl_entries ?st = calls_shown h p s calls (\<lambda>_. None) \<and>
      (\<forall>i. js_get (pn_byId (cl_pending ?st)) i = call_position calls i)"
    using calls_fold [OF assms(1), of ?init s h p] by simp
  then show ?thesis
    using results_fold [OF assms, of ?st h p s] first
    by (simp add: buildActivityLogFromStoredToolCalls_def stored_turn_def)
qed

text \<open>
  Stored results find their calls. When the calls of a turn have distinct ids, an activity
  log rebuilt from the stored turn alone shows each call once, in order and numbered from
  zero, with its own result if it has one, in whatever order the results are stored: a call
  with a result is complete, one without is in progress.
\<close>

theorem stored_results_find_their_calls:
  assumes "usable calls" "distinct (map fst results)" "fst ` set results \<subseteq> fst ` set calls"
  shows "mergeActivityLogWithStoredToolCalls h [] (Some (stored_turn calls results)) =
    map (\<lambda>(n, c). call_shown h None n c (map_of results (fst c))) (enumerate 0 calls)"
proof -
  have "normalizeSequence (calls_shown h p 0 calls out) = calls_shown h p 0 calls out" for p out
    by (rule nth_equalityI)
      (auto simp: normalizeSequence_def nth_enumerate_eq call_shown_def stored_entry_def blank_entry_def)
  moreover have "buildActivityLogFromStoredToolCalls h (Some (stored_turn calls results)) None 0 =
      calls_shown h None 0 calls (map_of results)"
    by (rule built_turn [OF assms])
  ultimately have "mergeActivityLogWithStoredToolCalls h [] (Some (stored_turn calls results)) =
      calls_shown h None 0 calls (map_of results)"
    by (simp add: mergeActivityLogWithStoredToolCalls_def getFallbackParentId_def Let_def)
  then show ?thesis by (simp only: calls_shown_def)
qed

definition demo_host :: js_host where
  "demo_host = \<lparr>JSON_parse = (\<lambda>s. if s = ''[1]'' then Some (JArr [JNum 1]) else None),
     JSON_stringify = (\<lambda>j. case j of JStr s \<Rightarrow> s | _ \<Rightarrow> ''?''), JSON_pretty = (\<lambda>_. ''?''),
     number_string = (\<lambda>_. ''0''), Date_parse = (\<lambda>_. None)\<rparr>"

theorem stored_results_find_their_calls_witness:
  "map le_toolOutput (mergeActivityLogWithStoredToolCalls demo_host []
     (Some (stored_turn [(''a'', ''search'', JStr ''x''), (''b'', ''search'', JStr ''x'')]
       [(''b'', JStr ''[1]''), (''a'', JStr ''two'')]))) = [Some (JStr ''two''), Some (JArr [JNum 1])]"
proof -
  have "usable [(''a'', ''search'', JStr ''x''), (''b'', ''search'', JStr ''x'')]"
    "distinct (map fst [(''b'', JStr ''[1]''), (''a'', JStr ''two'')])"
    "fst ` set [(''b'', JStr ''[1]''), (''a'', JStr ''two'')] \<subseteq>
       fst ` set [(''a'', ''search'', JStr ''x''), (''b'', ''search'', JStr ''x'')]"
    by code_simp+
  note shown = stored_results_find_their_calls [OF this, of demo_host]
  show ?thesis unfolding shown by code_simp
qed

section \<open>Repeated calls\<close>

lemma find_match_none: "\<forall>x \<in> set xs. \<not> same_call h fb x \<Longrightarrow> find_match h fb ms xs = None"
  by (auto simp: find_match_def find_index_None_iff in_set_enumerate_eq)

lemma find_match_here:
  assumes "\<forall>x \<in> set xs. \<not> same_call h fb x" "same_call h fb e"
  shows "find_match h fb [] (xs @ e # ys) = Some (length xs)"
  unfolding find_match_def enumerate_append_eq enumerate_simps
  using assms by (subst find_index_append_here) (auto simp: in_set_enumerate_eq)

lemma merge_step_here:
  "find_match h fb ms (xs @ e # ys) = Some (length xs) \<Longrightarrow>
   mg_merged (merge_step h fb \<lparr>mg_merged = xs @ e # ys, mg_matched = ms, mg_insertIndex = k\<rparr>) =
     xs @ combine_entry fb e # ys"
  by (simp add: merge_step_def)

text \<open>
  A repeated call is shown once. When a turn called the same tool twice with the same
  arguments, and the trace's log is there but lists no tool call, the merged log has one tool
  entry with the first call's result: the second call takes the entry just inserted for the
  first one for its own, and its result is shown nowhere. (The log of the stored calls alone
  shows both.)
\<close>

theorem repeated_call_is_shown_once:
  assumes "es \<noteq> []" "\<forall>e \<in> set es. no_tool e"
    and "usable [(i, nm, a), (j, nm, a)]"
  shows "map le_toolOutput (filter (\<lambda>e. le_kind e = Some ToolKind)
      (mergeActivityLogWithStoredToolCalls h es
        (Some (stored_turn [(i, nm, a), (j, nm, a)] [(i, c), (j, d)])))) =
    [Some (parseJsonRecursively h c)]"
proof -
  let ?base = "sort_key le_sequence es"
  let ?p = "getFallbackParentId ?base" and ?n = "length ?base" and ?ix = "getFallbackInsertIndex ?base"
  let ?tool = "\<lambda>e. le_kind e = Some ToolKind"
  define e where "e = call_shown h ?p ?n (i, nm, a) (Some c)"
  define f where "f = call_shown h ?p (Suc ?n) (j, nm, a) (Some d)"
  have ij: "i \<noteq> j" using assms(3) by (simp add: usable_def)
  have built: "buildActivityLogFromStoredToolCalls h
      (Some (stored_turn [(i, nm, a), (j, nm, a)] [(i, c), (j, d)])) ?p ?n = [e, f]"
    by (subst built_turn [OF assms(3)]) (use ij in \<open>simp_all add: calls_shown_def e_def f_def\<close>)
  have none: "\<forall>x \<in> set xs. \<not> same_call h g x" if "set xs \<subseteq> set ?base" for g xs
    using assms(2) that by (auto simp: same_call_def)
  have same: "same_call h f e"
    by (simp add: same_call_def e_def f_def call_shown_def)
  have "find_match h e [] ?base = None" by (rule find_match_none [OF none]) simp
  then have first: "merge_step h e \<lparr>mg_merged = ?base, mg_matched = [], mg_insertIndex = ?ix\<rparr> =
      \<lparr>mg_merged = take ?ix ?base @ e # drop ?ix ?base, mg_matched = [], mg_insertIndex = ?ix + 1\<rparr>"
    by (simp add: merge_step_def)
  have "find_match h f [] (take ?ix ?base @ e # drop ?ix ?base) = Some (length (take ?ix ?base))"
    by (rule find_match_here [OF none same]) (meson set_take_subset)
  then have merged: "mg_merged (fold (merge_step h) [e, f]
      \<lparr>mg_merged = ?base, mg_matched = [], mg_insertIndex = ?ix\<rparr>) =
      take ?ix ?base @ combine_entry f e # drop ?ix ?base"
    using merge_step_here by (simp only: fold_simps first id_apply)
  have no_tools: "filter ?tool (take ?ix ?base) = []" "filter ?tool (drop ?ix ?base) = []"
    using assms(2) by (auto simp: filter_empty_conv dest!: in_set_takeD in_set_dropD)
  have out: "map le_toolOutput (filter ?tool (normalizeSequence xs)) =
      map le_toolOutput (filter ?tool xs)" for xs
  proof -
    have "map le_toolOutput (filter ?tool (map (\<lambda>(i, e). e\<lparr>le_sequence := i\<rparr>) (enumerate k xs))) =
        map le_toolOutput (filter ?tool xs)" for k
      by (induction xs arbitrary: k) auto
    then show ?thesis by (simp add: normalizeSequence_def)
  qed
  have "?base \<noteq> []" using assms(1) by (metis length_0_conv length_sort)
  then show ?thesis
    using built merged no_tools
    by (simp add: mergeActivityLogWithStoredToolCalls_def Let_def out)
      (simp add: combine_entry_def e_def call_shown_def)
qed

theorem repeated_call_is_shown_once_witness:
  "map le_toolOutput (filter (\<lambda>e. le_kind e = Some ToolKind)
     (mergeActivityLogWithStoredToolCalls demo_host
       [(blank_entry ''agent:chatbot'' 0)\<lparr>le_label := CHATBOT_AGENT_LABEL, le_kind := Some AgentKind\<rparr>]
       (Some (stored_turn [(''a'', ''search'', JStr ''x''), (''b'', ''search'', JStr ''x'')]
         [(''a'', JStr ''one''), (''b'', JStr ''two'')])))) =
   [Some (parseJsonRecursively demo_host (JStr ''one''))]"
proof (rule repeated_call_is_shown_once)
  show "usable [(''a'', ''search'', JStr ''x''), (''b'', ''search'', JStr ''x'')]" by code_simp
qed (simp_all add: blank_entry_def)

end
