(* ===== verification/TraceActivityFacts.thy ===== *)
theory TraceActivityFacts
  imports TraceActivity ActivityMergeFacts
begin

text \<open>
  What the activity log of a trace is: which agent a span belongs to, which agents the log
  shows, and how its entries hang together.
\<close>

section \<open>The agent of a span\<close>

text \<open>
  The reference definition: the name on the span, or else on its nearest ancestor with a
  name. \<open>n\<close> counts the spans passed.
\<close>

inductive nearest_name :: "(ident, trace_span) js_map \<Rightarrow> nat \<Rightarrow> trace_span \<Rightarrow> string \<Rightarrow> bool"
  for lookup where
  own: "agent_attribute s = Some nm \<Longrightarrow> nearest_name lookup 0 s nm"
| above: "agent_attribute s = None \<Longrightarrow> sp_parent_span_id s = Some i \<Longrightarrow> \<not> is_blank i \<Longrightarrow>
    js_get lookup i = Some parent \<Longrightarrow> nearest_name lookup n parent nm \<Longrightarrow>
    nearest_name lookup (Suc n) s nm"

inductive_cases nearest_zeroE: "nearest_name lookup 0 s nm"
inductive_cases nearest_SucE: "nearest_name lookup (Suc n) s nm"

lemma nearest_unique:
  "nearest_name lookup n s nm \<Longrightarrow> nearest_name lookup m s nm2 \<Longrightarrow> m = n \<and> nm2 = nm"
proof (induction arbitrary: m rule: nearest_name.induct)
  case (own s nm)
  from own.prems own.hyps show ?case by cases auto
next
  case (above s i parent n nm)
  from above.prems above.hyps above.IH show ?case by cases auto
qed

lemma resolve_upwards_sound:
  "resolve_upwards lookup visited parentId = Some nm \<Longrightarrow>
   \<exists>i parent n. parentId = Some i \<and> \<not> is_blank i \<and> js_get lookup i = Some parent \<and>
     nearest_name lookup n parent nm \<and> allowed_agent nm"
proof (induction lookup visited parentId rule: resolve_upwards.induct)
  case (1 lookup visited parentId)
  from "1.prems" obtain i parent where i: "parentId = Some i" "\<not> is_blank i" "i \<notin> set visited"
    "js_get lookup i = Some parent"
    by (subst (asm) resolve_upwards.simps) (auto split: option.splits if_splits)
  show ?case
  proof (cases "agent_attribute parent")
    case (Some found)
    with "1.prems" i show ?thesis
      by (subst (asm) resolve_upwards.simps)
        (auto simp: if_allowed_def split: if_splits intro: nearest_name.own)
  next
    case None
    with "1.prems" i have "resolve_upwards lookup (i # visited) (sp_parent_span_id parent) = Some nm"
      by (subst (asm) resolve_upwards.simps) auto
    with "1.IH" [OF i(1) _ i(4) None] i None show ?thesis
      by (fastforce intro: nearest_name.above)
  qed
qed

lemma resolve_upwards_complete:
  assumes "nearest_name lookup n parent nm" "js_get lookup i = Some parent" "\<not> is_blank i"
    and "\<And>j. j \<in> set visited \<Longrightarrow> \<exists>s m. js_get lookup j = Some s \<and> n < m \<and> nearest_name lookup m s nm"
  shows "resolve_upwards lookup visited (Some i) = if_allowed nm"
  using assms
proof (induction n parent nm arbitrary: i visited rule: nearest_name.induct)
  case (own parent nm)
  have "i \<notin> set visited"
    using own.prems(3) [of i] own.prems(1) nearest_unique [OF nearest_name.own [OF own.hyps]] by fastforce
  with own show ?case by (subst resolve_upwards.simps) simp
next
  case (above parent i1 parent1 n nm)
  have here: "nearest_name lookup (Suc n) parent nm" by (rule nearest_name.above [OF above.hyps])
  have "i \<notin> set visited"
    using above.prems(3) [of i] above.prems(1) nearest_unique [OF here] by fastforce
  moreover have "resolve_upwards lookup (i # visited) (Some i1) = if_allowed nm"
  proof (rule above.IH [OF above.hyps(4,3)])
    fix j assume "j \<in> set (i # visited)"
    then show "\<exists>s m. js_get lookup j = Some s \<and> n < m \<and> nearest_name lookup m s nm"
      using above.prems(1,3) here by (metis Suc_lessD lessI set_ConsD)
  qed
  ultimately show ?case using above.prems above.hyps by (subst resolve_upwards.simps) simp
qed

text \<open>
  The agent of a span is the one named on it or on its nearest ancestor with a name,
  provided the chat knows an agent of that name; otherwise the span has none. The search
  finds it although it gives up at spans it has seen, and it stops on every trace, also
  where parents are missing or refer to each other in a circle.
\<close>

theorem resolves_nearest_agent:
  "resolveAgentName s lookup = Some nm \<longleftrightarrow> (\<exists>n. nearest_name lookup n s nm) \<and> allowed_agent nm"
proof (cases "agent_attribute s")
  case (Some found)
  then show ?thesis
    by (auto simp: resolveAgentName_def if_allowed_def intro: nearest_name.own elim: nearest_name.cases)
next
  case None
  show ?thesis
  proof
    assume "resolveAgentName s lookup = Some nm"
    with None resolve_upwards_sound [of lookup "[]" "sp_parent_span_id s" nm]
    show "(\<exists>n. nearest_name lookup n s nm) \<and> allowed_agent nm"
      by (auto simp: resolveAgentName_def intro: nearest_name.above)
  next
    assume "(\<exists>n. nearest_name lookup n s nm) \<and> allowed_agent nm"
    then obtain n where "nearest_name lookup n s nm" "allowed_agent nm" by blast
    then show "resolveAgentName s lookup = Some nm"
      using None resolve_upwards_complete [where visited = "[]"]
      by cases (auto simp: resolveAgentName_def if_allowed_def)
  qed
qed

section \<open>One span appends to the log\<close>

text \<open>
  What a later result never changes of an entry, and what holds of the rest: no entry is in
  progress, and exactly the entries in error have an error text.
\<close>

definition skeleton ::
  "log_entry \<Rightarrow> ident \<times> activity_kind option \<times> ident option \<times> string \<times> number option \<times> number option" where
  "skeleton e = (le_id e, le_kind e, le_parentId e, le_label e, le_startedAtMs e, le_durationMs e)"

definition settled_entry :: "log_entry \<Rightarrow> bool" where
  "settled_entry e \<longleftrightarrow> le_status e \<noteq> InProgress \<and>
     (le_status e = ErrorStatus \<longleftrightarrow> le_toolErrorText e \<noteq> None)"

definition numbered :: "trace_log \<Rightarrow> bool" where
  "numbered st \<longleftrightarrow> tl_sequence st = length (tl_entries st) \<and>
     map le_sequence (tl_entries st) = [0..<length (tl_entries st)]"

definition all_settled :: "trace_log \<Rightarrow> bool" where
  "all_settled st \<longleftrightarrow> (\<forall>e \<in> set (tl_entries st). settled_entry e)"

definition extends :: "ident option \<Rightarrow> trace_log \<Rightarrow> trace_log \<Rightarrow> bool" where
  "extends p st st1 \<longleftrightarrow>
     tl_agentIds st1 = tl_agentIds st \<and>
     (numbered st \<longrightarrow> numbered st1) \<and> (all_settled st \<longrightarrow> all_settled st1) \<and>
     (\<exists>new. map skeleton (tl_entries st1) = map skeleton (tl_entries st) @ new \<and>
        (\<forall>x \<in> set new. fst (snd x) \<noteq> Some AgentKind \<and> fst (snd (snd x)) = p))"

named_theorems extend_rules \<open>the steps that append to the log of a trace\<close>

lemma extends_refl [extend_rules]: "extends p st st"
  by (simp add: extends_def)

lemma extends_trans: "extends p a b \<Longrightarrow> extends p b c \<Longrightarrow> extends p a c"
  unfolding extends_def by (auto 0 4)

lemma extends_push:
  assumes "extends p a st" "le_sequence e = tl_sequence st" "settled_entry e"
    and "le_kind e \<noteq> Some AgentKind" "le_parentId e = p"
  shows "extends p a (push_entry e st)"
proof (rule extends_trans [OF assms(1)])
  show "extends p st (push_entry e st)"
    using assms(2-) by (auto simp: extends_def push_entry_def numbered_def all_settled_def skeleton_def)
qed

lemma extends_change:
  assumes "extends p a st"
    and f: "\<And>e. skeleton (f e) = skeleton e" "\<And>e. le_sequence (f e) = le_sequence e"
      "\<And>e. settled_entry e \<Longrightarrow> settled_entry (f e)"
  shows "extends p a (change_entry k f st)"
proof (rule extends_trans [OF assms(1)])
  have same: "map g ((tl_entries st)[k := f (tl_entries st ! k)]) = map g (tl_entries st)"
    if "\<And>e. g (f e) = g e" for g :: "log_entry \<Rightarrow> 'b"
    using that by (simp add: map_update) (metis list_update_beyond list_update_id map_update not_le_imp_less nth_map)
  have "all_settled (change_entry k f st)" if "all_settled st"
  proof -
    have "\<forall>e \<in> set ((tl_entries st)[k := f (tl_entries st ! k)]). settled_entry e"
      by (rule all_list_update) (use that f(3) in \<open>simp_all add: all_settled_def\<close>)
    then show ?thesis by (simp add: all_settled_def change_entry_def)
  qed
  then show "extends p st (change_entry k f st)"
    using same [of skeleton] same [of le_sequence] f
    by (simp add: extends_def numbered_def change_entry_def)
qed

lemma extends_frame [extend_rules]:
  "extends p a st \<Longrightarrow> extends p a (st\<lparr>tl_pending := x\<rparr>)"
  "extends p a st \<Longrightarrow> extends p a (st\<lparr>tl_observed := y\<rparr>)"
  by (simp_all add: extends_def numbered_def all_settled_def)

lemma extends_drop [extend_rules]: "extends p a st \<Longrightarrow> extends p a (drop_pending_id i st)"
  by (simp add: drop_pending_id_def extend_rules split: option.split)

lemma extends_observe [extend_rules]: "extends p a st \<Longrightarrow> extends p a (observe i st)"
  by (simp add: observe_def extend_rules split: option.split)

lemma settled_intro: "settled_entry (e\<lparr>le_status := span_status v, le_toolErrorText := error_text_of v\<rparr>)"
  by (simp add: settled_entry_def span_status_def error_text_of_def)

lemma extends_result [extend_rules]:
  "extends p a st \<Longrightarrow> extends p a (change_entry k (applyToolResult v out) st)"
  by (rule extends_change)
    (simp_all add: applyToolResult_def skeleton_def settled_entry_def span_status_def error_text_of_def)

lemma extends_tool_entry [extend_rules]:
  "extends (sv_parentId v) a st \<Longrightarrow>
   extends (sv_parentId v) a (push_entry (tool_entry h v i (tl_sequence st) nm x y z) st)"
  by (rule extends_push)
    (simp_all add: tool_entry_def blank_entry_def settled_entry_def span_status_def error_text_of_def)

lemma extends_request_entry [extend_rules]:
  "extends (sv_parentId v) a st \<Longrightarrow> extends (sv_parentId v) a (request_entry h v i nm c out st)"
  by (simp add: request_entry_def extend_rules)

lemma extends_call_update [extend_rules]:
  "extends p a st \<Longrightarrow> extends p a (change_entry k (\<lambda>e. e\<lparr>le_toolInput := x, le_toolOutput := y,
     le_toolState := z, le_status := span_status v, le_toolErrorText := error_text_of v\<rparr>) st)"
  "extends p a st \<Longrightarrow> extends p a (change_entry k (\<lambda>e. e\<lparr>le_toolInput := x\<rparr>) st)"
  by (rule extends_change;
      simp add: skeleton_def settled_entry_def span_status_def error_text_of_def)+

lemma call_step_extends:
  "extends (sv_parentId v) (snd state) (snd (call_step h v lone ic state))"
  unfolding call_step_def Let_def case_prod_beta
  by (split option.split, intro conjI impI allI) (simp_all add: extend_rules)

lemma result_step_extends: "extends (sv_parentId v) (snd state) (snd (result_step h v nr state))"
  unfolding result_step_def Let_def case_prod_beta
  by (auto intro!: extend_rules split: option.split)

lemma request_id_step_extends:
  "extends (sv_parentId v) (snd (snd state)) (snd (snd (request_id_step h v ir state)))"
  unfolding request_id_step_def Let_def case_prod_beta
  by (auto intro!: extend_rules split: option.split)

lemma request_name_step_extends:
  "extends (sv_parentId v) (snd (snd state)) (snd (snd (request_name_step h v nr state)))"
  unfolding request_name_step_def Let_def case_prod_beta
  by (auto intro!: extend_rules split: option.split)

lemma extends_fold:
  assumes "\<And>x s. extends p (g s) (g (f x s))"
  shows "extends p (g s) (g (fold f xs s))"
  by (rule fold_keeps [where I = "\<lambda>t. extends p (g s) (g t)"])
    (auto intro: extends_trans [OF _ assms] extends_refl)

lemmas extends_folds =
  extends_fold [where g = snd and f = "call_step h v lone", OF call_step_extends]
  extends_fold [where g = snd and f = "result_step h v", OF result_step_extends]
  extends_fold [where g = "\<lambda>s. snd (snd s)" and f = "request_id_step h v", OF request_id_step_extends]
  extends_fold [where g = "\<lambda>s. snd (snd s)" and f = "request_name_step h v", OF request_name_step_extends]
  for h v lone

lemma tool_step_extends: "extends (sv_parentId v) st (tool_step h attrs v st)"
proof -
  let ?p = "sv_parentId v"
  let ?c = "fold (call_step h v (length (fallback_calls h attrs) = 1))
      (enumerate 0 (fallback_calls h attrs)) (collect_maps h attrs, st)"
  let ?r = "fold (result_step h v) (flat_values (mp_results (fst ?c)))
      (length (fallback_calls h attrs), snd ?c)"
  let ?i = "fold (request_id_step h v) (flat_values (mp_requestById (fst ?c))) (fst ?r, fst ?c, snd ?r)"
  have 1: "extends ?p st (snd ?c)"
    using extends_folds(1) [where s = "(collect_maps h attrs, st)"] by simp
  have 2: "extends ?p (snd ?c) (snd ?r)"
    using extends_folds(2) [where s = "(length (fallback_calls h attrs), snd ?c)"] by simp
  have 3: "extends ?p (snd ?r) (snd (snd ?i))"
    using extends_folds(3) [where s = "(fst ?r, fst ?c, snd ?r)"] by simp
  note extends_trans [OF extends_trans [OF extends_trans [OF 1 2] 3]
      extends_folds(4) [where s = ?i and xs = "flat_values (mp_requestByName (fst ?c))"]]
  then show ?thesis
    by (simp add: tool_step_def Let_def case_prod_beta extends_refl)
qed

lemma thinking_step_extends: "extends p st (thinking_step h s agent p st)"
proof -
  have "extends p a (thinking_entry h s nm p part a)" for nm part a
    by (simp add: thinking_entry_def extends_refl)
      (auto intro!: extends_push extends_refl simp: blank_entry_def settled_entry_def)
  then show ?thesis
    using extends_fold [where g = "\<lambda>x. x" and f = "thinking_entry h s nm p" for nm]
    by (simp add: thinking_step_def extends_refl split: option.split)
qed

section \<open>The whole log\<close>

text \<open>On skeletons: being an agent, and naming an agent that comes before.\<close>

definition agent_skeleton ::
  "ident \<times> activity_kind option \<times> ident option \<times> string \<times> number option \<times> number option \<Rightarrow> bool" where
  "agent_skeleton x \<longleftrightarrow> fst (snd x) = Some AgentKind"

definition parents_ok ::
  "(ident \<times> activity_kind option \<times> ident option \<times> string \<times> number option \<times> number option) list \<Rightarrow> bool" where
  "parents_ok xs \<longleftrightarrow> (\<forall>j < length xs. \<forall>p. fst (snd (snd (xs ! j))) = Some p \<longrightarrow>
     (\<exists>i < j. fst (xs ! i) = p \<and> agent_skeleton (xs ! i)))"

lemma parents_ok_append:
  assumes "parents_ok xs"
    and "\<And>x p. x \<in> set ys \<Longrightarrow> fst (snd (snd x)) = Some p \<Longrightarrow>
      \<exists>y \<in> set xs. fst y = p \<and> agent_skeleton y"
  shows "parents_ok (xs @ ys)"
  unfolding parents_ok_def
proof (intro allI impI)
  fix j p
  assume j: "j < length (xs @ ys)" "fst (snd (snd ((xs @ ys) ! j))) = Some p"
  show "\<exists>i < j. fst ((xs @ ys) ! i) = p \<and> agent_skeleton ((xs @ ys) ! i)"
  proof (cases "j < length xs")
    case True
    with j assms(1) obtain i where "i < j" "fst (xs ! i) = p \<and> agent_skeleton (xs ! i)"
      by (auto simp: parents_ok_def nth_append)
    with True show ?thesis by (intro exI [of _ i]) (simp add: nth_append)
  next
    case False
    with j have "ys ! (j - length xs) \<in> set ys" by (simp add: nth_append)
    with assms(2) [of "ys ! (j - length xs)" p] j False
    obtain y where "y \<in> set xs" "fst y = p \<and> agent_skeleton y" by (auto simp: nth_append)
    then obtain i where "i < length xs" "xs ! i = y" by (auto simp: in_set_conv_nth)
    with False \<open>fst y = p \<and> agent_skeleton y\<close> show ?thesis
      by (intro exI [of _ i]) (simp add: nth_append)
  qed
qed

definition starts_agent :: "trace_span \<Rightarrow> bool" where
  "starts_agent s \<longleftrightarrow> (case agent_attribute s of None \<Rightarrow> False | Some nm \<Rightarrow> allowed_agent nm)"

definition agent_shown :: "js_host \<Rightarrow> trace_span \<Rightarrow> string \<times> number option \<times> number option" where
  "agent_shown h s = (normalizeAgentLabel (the (agent_attribute s)), getSpanStart h s, resolveDurationMs h s)"

definition log_ok :: "js_host \<Rightarrow> trace_span list \<Rightarrow> trace_log \<Rightarrow> bool" where
  "log_ok h ss st \<longleftrightarrow> numbered st \<and> all_settled st \<and>
     (\<forall>a i. js_get (tl_agentIds st) a = Some i \<longrightarrow>
        (\<exists>x \<in> set (map skeleton (tl_entries st)). fst x = i \<and> agent_skeleton x)) \<and>
     parents_ok (map skeleton (tl_entries st)) \<and>
     map (snd \<circ> snd \<circ> snd) (filter agent_skeleton (map skeleton (tl_entries st))) =
       map (agent_shown h) (filter starts_agent ss)"

lemma agent_step_ok:
  assumes "log_ok h ss st"
  shows "log_ok h (ss @ [s]) (agent_step h s st)"
proof (cases "starts_agent s")
  case False
  with assms show ?thesis
    by (auto simp: agent_step_def log_ok_def starts_agent_def split: option.splits)
next
  case True
  then obtain nm where nm: "agent_attribute s = Some nm" "allowed_agent nm"
    by (auto simp: starts_agent_def split: option.splits)
  define n where "n = coalesce (js_get (tl_agentCounts st) nm) 0"
  define i where "i = ''agent:'' @ nm @ (if n = 0 then [] else '':'' @ number_string h (of_nat (n + 1)))"
  define e where "e = (blank_entry i (tl_sequence st))\<lparr>le_label := normalizeAgentLabel nm,
      le_status := Complete, le_kind := Some AgentKind, le_startedAtMs := getSpanStart h s,
      le_durationMs := resolveDurationMs h s\<rparr>"
  have step: "agent_step h s st = push_entry e
      (st\<lparr>tl_agentCounts := js_set nm (n + 1) (tl_agentCounts st),
          tl_agentIds := js_set nm i (tl_agentIds st)\<rparr>)"
    using nm by (simp add: agent_step_def Let_def e_def i_def n_def)
  have e: "skeleton e = (i, Some AgentKind, None, agent_shown h s)" "settled_entry e"
    "le_sequence e = tl_sequence st"
    using nm by (simp_all add: e_def skeleton_def blank_entry_def agent_shown_def settled_entry_def)
  have parents: "parents_ok (map skeleton (tl_entries st) @ [skeleton e])"
    using assms by (intro parents_ok_append) (auto simp: log_ok_def e)
  show ?thesis
    using assms True e parents
    by (auto simp: step log_ok_def push_entry_def numbered_def all_settled_def agent_skeleton_def
        simp flip: skeleton_def)
qed

lemma extends_ok:
  assumes "log_ok h ss st" "extends p st st1"
    and p: "\<And>i. p = Some i \<Longrightarrow> \<exists>a. js_get (tl_agentIds st) a = Some i"
  shows "log_ok h ss st1"
proof -
  obtain new where new: "map skeleton (tl_entries st1) = map skeleton (tl_entries st) @ new"
    and kinds: "\<And>x. x \<in> set new \<Longrightarrow> \<not> agent_skeleton x \<and> fst (snd (snd x)) = p"
    using assms(2) by (auto simp: extends_def agent_skeleton_def)
  have "parents_ok (map skeleton (tl_entries st1))"
    unfolding new using assms(1) kinds p by (intro parents_ok_append) (auto simp: log_ok_def; blast)+
  moreover have "filter agent_skeleton new = []" using kinds by (simp add: filter_empty_conv)
  ultimately show ?thesis
    using assms(1,2) unfolding log_ok_def extends_def new
    by (simp only: set_append filter_append map_append) (auto; blast)
qed

lemma span_step_ok: "log_ok h ss st \<Longrightarrow> log_ok h (ss @ [s]) (span_step h lookup s st)"
proof -
  assume "log_ok h ss st"
  then have ok: "log_ok h (ss @ [s]) (agent_step h s st)" by (rule agent_step_ok)
  let ?st = "agent_step h s st"
  let ?p = "Option.bind (resolveAgentName s lookup) (js_get (tl_agentIds ?st))"
  have p: "\<exists>a. js_get (tl_agentIds ?st) a = Some i" if "?p = Some i" for i
    using that by (auto simp: bind_eq_Some_conv)
  have "extends ?p ?st (span_step h lookup s st)"
    unfolding span_step_def Let_def
    by (rule extends_trans [OF thinking_step_extends])
      (use tool_step_extends [where v = "\<lparr>sv_id = sp_span_id s, sv_isError = (sp_status_code s = Some ''ERROR''),
               sv_errorText = coalesce (sp_status_message s) ''Tool error'',
               sv_parentId = ?p,
               sv_callId = getStringAttribute (span_attributes s) ''gen_ai.tool.call.id''\<rparr>"] in simp)
  then show ?thesis using extends_ok [OF ok] p by blast
qed

lemma log_ok_empty: "log_ok h [] empty_trace_log"
  by (simp add: log_ok_def empty_trace_log_def numbered_def all_settled_def parents_ok_def)

lemma built_ok:
  "log_ok h ss (fold (span_step h lookup) ss empty_trace_log)"
  by (induction ss rule: rev_induct) (simp_all add: log_ok_empty span_step_ok)

text \<open>
  The agents of a trace are all shown, once each and in the order of their start: the
  agent entries of the log are exactly the spans that name an agent the chat knows, with
  their label, start and duration.
\<close>

theorem trace_log_shows_agents:
  "map (\<lambda>e. (le_label e, le_startedAtMs e, le_durationMs e))
     (filter (\<lambda>e. le_kind e = Some AgentKind) (buildActivityLogFromTrace h spans)) =
   map (agent_shown h) (filter starts_agent (sort_key (\<lambda>s. coalesce (getSpanStart h s) 0) spans))"
proof -
  have "map (snd \<circ> snd \<circ> snd) (filter agent_skeleton (map skeleton es)) =
      map (\<lambda>e. (le_label e, le_startedAtMs e, le_durationMs e)) (filter (\<lambda>e. le_kind e = Some AgentKind) es)"
    for es
    by (induction es) (simp_all add: skeleton_def agent_skeleton_def)
  then show ?thesis
    using built_ok [of h "sort_key (\<lambda>s. coalesce (getSpanStart h s) 0) spans" "buildSpanLookup spans"]
    by (simp add: log_ok_def buildActivityLogFromTrace_def)
qed

lemma trace_log_numbered:
  "map le_sequence (buildActivityLogFromTrace h spans) = [0..<length (buildActivityLogFromTrace h spans)]"
  using built_ok [of h "sort_key (\<lambda>s. coalesce (getSpanStart h s) 0) spans" "buildSpanLookup spans"]
  by (simp add: log_ok_def numbered_def buildActivityLogFromTrace_def)

text \<open>
  C14. The log of a trace is well formed, whatever the trace holds: its entries are numbered
  from zero; none is left in progress; exactly the entries in error have an error text; and
  an entry's parent is an agent entry that comes before it.
\<close>

theorem trace_log_well_formed:
  assumes "es = buildActivityLogFromTrace h spans"
  shows "map le_sequence es = [0..<length es] \<and>
    (\<forall>e \<in> set es. le_status e \<noteq> InProgress \<and>
       (le_status e = ErrorStatus \<longleftrightarrow> le_toolErrorText e \<noteq> None)) \<and>
    (\<forall>j < length es. \<forall>p. le_parentId (es ! j) = Some p \<longrightarrow>
       (\<exists>i < j. le_id (es ! i) = p \<and> le_kind (es ! i) = Some AgentKind))"
proof -
  let ?st = "fold (span_step h (buildSpanLookup spans))
      (sort_key (\<lambda>s. coalesce (getSpanStart h s) 0) spans) empty_trace_log"
  have es: "es = tl_entries ?st" by (simp add: assms buildActivityLogFromTrace_def)
  have ok: "numbered ?st" "all_settled ?st" "parents_ok (map skeleton (tl_entries ?st))"
    using built_ok [of h _ "buildSpanLookup spans"] by (simp_all add: log_ok_def)
  have "(\<exists>i < j. le_id (es ! i) = p \<and> le_kind (es ! i) = Some AgentKind)"
    if j: "j < length es" "le_parentId (es ! j) = Some p" for j p
  proof -
    obtain i where "i < j" "fst (skeleton (es ! i)) = p" "agent_skeleton (skeleton (es ! i))"
      using ok(3) j unfolding parents_ok_def es [symmetric] by (force simp: skeleton_def)
    then show ?thesis by (auto simp: skeleton_def agent_skeleton_def)
  qed
  then show ?thesis
    using ok(1,2) by (simp add: numbered_def all_settled_def settled_entry_def flip: es)
qed

definition demo_span :: "ident \<Rightarrow> ident option \<Rightarrow> attributes \<Rightarrow> trace_span" where
  "demo_span i p attrs = \<lparr>sp_span_id = i, sp_parent_span_id = p, sp_name = ''s'',
     sp_status_code = None, sp_status_message = None, sp_start_time = None, sp_end_time = None,
     sp_duration_ms = Some 3, sp_attributes = Some attrs\<rparr>"

definition demo_trace :: "trace_span list" where
  "demo_trace =
     [demo_span ''a'' None [(''gen_ai.agent.name'', JStr ''chatbot'')],
      demo_span ''b'' (Some ''a'') [(''gen_ai.response.tool_calls'', JArr [JObj
        [(''id'', JStr ''c1''), (''name'', JStr ''search''), (''arguments'', JStr ''x'')]])],
      demo_span ''c'' (Some ''b'') [(''gen_ai.request.messages'', JArr [JObj
        [(''role'', JStr ''tool''), (''tool_call_id'', JStr ''c1''), (''content'', JStr ''found'')]])]]"

text \<open>The result in the third span completes the call of the second.\<close>

lemma demo_trace_log:
  "map (\<lambda>e. (le_id e, le_parentId e, le_toolOutput e)) (buildActivityLogFromTrace demo_host demo_trace) =
   [(''agent:chatbot'', None, None), (''tool:b:0'', Some ''agent:chatbot'', Some (JStr ''found''))]"
  by code_simp

theorem trace_log_well_formed_witness:
  "\<exists>i < 1. le_id (buildActivityLogFromTrace demo_host demo_trace ! i) = ''agent:chatbot'' \<and>
     le_kind (buildActivityLogFromTrace demo_host demo_trace ! i) = Some AgentKind"
proof -
  have "1 < length (buildActivityLogFromTrace demo_host demo_trace)"
    "le_parentId (buildActivityLogFromTrace demo_host demo_trace ! 1) = Some ''agent:chatbot''"
    by code_simp+
  then show ?thesis using trace_log_well_formed [OF refl, of demo_host demo_trace] by blast
qed

end
