(* ===== verification/ActivityHydration.thy ===== *)
theory ActivityHydration
  imports ChatProperties TraceActivityFacts
begin

text \<open>
  Loading the activity log of a message (chat/lib/store.ts): what is computed from the
  answer of the trace request, and how it settles in the store.
\<close>

text \<open>The log stored at the end: without the trace, the stored tool calls are all there is.\<close>

definition hydrated_log ::
  "js_host \<Rightarrow> json list option \<Rightarrow> js_error + trace_span list \<Rightarrow> log_entry list" where
  "hydrated_log h storedToolCalls response = (case response of
     Inr spans \<Rightarrow> mergeActivityLogWithStoredToolCalls h (buildActivityLogFromTrace h spans) storedToolCalls
   | Inl _ \<Rightarrow> mergeActivityLogWithStoredToolCalls h [] storedToolCalls)"

text \<open>Entries of the trace's log are numbered, so the merge does not reorder them.\<close>

lemma sorted_trace_log: "sort_key le_sequence (buildActivityLogFromTrace h spans) = buildActivityLogFromTrace h spans"
proof (rule sort_key_id_if_sorted)
  show "sorted (map le_sequence (buildActivityLogFromTrace h spans))"
    using trace_log_numbered [of h spans] by simp
qed

text \<open>
  Loading an activity log settles and happens once. While the request for a message is
  under way, and after its answer, no further request is sent for it; the answer stores the
  log of exactly this message and ends its loading; and the log shows every entry of the
  answer's trace in its order, or, when the trace could not be fetched, the stored calls.
\<close>

theorem hydration_settles:
  assumes "loadMessageActivityLog_begin m w0 = (Some stored, w1)"
    and "w3 = hydrateMessageActivityLogFromTrace_end m (hydrated_log h stored r) w2"
  shows "fst (loadMessageActivityLog_begin m w1) = None \<and>
    stored = getStoredToolCallsForMessage m w0 \<and>
    js_get (messageActivityLog w3) m = Some (hydrated_log h stored r) \<and>
    m \<notin> set (messageActivityLogLoading w3) \<and>
    fst (loadMessageActivityLog_begin m w3) = None \<and>
    (\<forall>k. k \<noteq> m \<longrightarrow> js_get (messageActivityLog w3) k = js_get (messageActivityLog w2) k) \<and>
    (case r of
       Inr spans \<Rightarrow> list_emb entry_kept (buildActivityLogFromTrace h spans) (hydrated_log h stored r)
     | Inl _ \<Rightarrow> hydrated_log h stored r = mergeActivityLogWithStoredToolCalls h [] stored)"
proof -
  have "list_emb entry_kept (buildActivityLogFromTrace h spans) (hydrated_log h stored (Inr spans))" for spans
    using merge_embeds(1) [of "buildActivityLogFromTrace h spans" h stored]
    by (simp add: hydrated_log_def sorted_trace_log)
  moreover have "hydrated_log h stored (Inl e) = mergeActivityLogWithStoredToolCalls h [] stored" for e
    by (simp add: hydrated_log_def)
  ultimately show ?thesis
    using assms by (auto simp: hydration_defs split: if_splits sum.split)
qed

theorem hydration_settles_witness:
  "list_emb entry_kept (buildActivityLogFromTrace demo_host demo_trace)
     (hydrated_log demo_host None (Inr demo_trace))"
proof -
  have "loadMessageActivityLog_begin ''m'' createInitialChatState =
      (Some None, createInitialChatState\<lparr>messageActivityLogLoading := [''m'']\<rparr>)"
    by code_simp
  from hydration_settles [OF this refl, of demo_host "Inr demo_trace" createInitialChatState]
  show ?thesis by simp
qed

end
