(* ===== verification/InstructionSections.thy ===== *)
theory InstructionSections
  imports JsMap
begin

text \<open>
  The sections of the instructions editor (instructions/lib/sections.ts and the types of
  instructions/types/index.ts): which template files belong to which section and scope, on
  which platform, and the identifiers made of them.
\<close>

section \<open>Types\<close>

datatype platform = Internal | Public

datatype prompt_scope =
    AssistantScope | InvestigationScope | SummaryScope | TitleScope | TitleTranscriptScope
  | GroundingScope | ComplianceScope

record prompt_file =
  pf_filename :: string
  pf_content :: string

record prompt_template =
  pt_id :: ident
  pt_filename :: string
  pt_content :: string

record prompt_set_version =
  pv_id :: ident
  pv_version_number :: number
  pv_name :: string
  pv_description :: "string option"
  pv_is_internal :: bool
  pv_scope :: prompt_scope
  pv_is_deployed :: bool
  pv_created_by_id :: ident
  pv_created_by_name :: string
  pv_created_at :: string
  pv_prompts :: "prompt_template list"

record version_item =
  vi_id :: ident
  vi_version_number :: number
  vi_name :: string
  vi_description :: "string option"
  vi_is_internal :: bool
  vi_scope :: prompt_scope
  vi_is_deployed :: bool
  vi_created_by_id :: ident
  vi_created_by_name :: string
  vi_created_at :: string
  vi_modified_prompt_count :: number

record active_version =
  av_id :: "ident option"
  av_version_number :: "number option"
  av_name :: "string option"

record version_create =
  vc_name :: string
  vc_description :: "string option"
  vc_is_internal :: bool
  vc_scope :: prompt_scope
  vc_prompts :: "prompt_file list"

datatype confirm_action = DeleteVersion | SwitchVersion | SelectDefault | ResetTemplate

section \<open>The sections\<close>

record section_definition =
  sd_key :: string
  sd_label :: string
  sd_scope :: prompt_scope
  sd_templates :: "(string \<times> string option) list"

definition SECTION_DEFINITIONS :: "section_definition list" where
  "SECTION_DEFINITIONS = [
     \<lparr>sd_key = ''assistant'', sd_label = ''Assistant'', sd_scope = AssistantScope,
      sd_templates = [(''chatbot_agent'', Some ''Chatbot''), (''guardrails_agent'', Some ''Guardrails'')]\<rparr>,
     \<lparr>sd_key = ''investigation'', sd_label = ''Investigation'', sd_scope = InvestigationScope,
      sd_templates = [(''investigation_agent'', None)]\<rparr>,
     \<lparr>sd_key = ''summary'', sd_label = ''Summary'', sd_scope = SummaryScope,
      sd_templates = [(''summary_agent'', None)]\<rparr>,
     \<lparr>sd_key = ''title'', sd_label = ''Title'', sd_scope = TitleScope,
      sd_templates = [(''title_agent'', None)]\<rparr>,
     \<lparr>sd_key = ''title-transcript'', sd_label = ''Title Transcript'', sd_scope = TitleTranscriptScope,
      sd_templates = [(''title_agent_transcript'', None)]\<rparr>,
     \<lparr>sd_key = ''grounding'', sd_label = ''Grounding'', sd_scope = GroundingScope,
      sd_templates = [(''grounding_agent'', None)]\<rparr>,
     \<lparr>sd_key = ''screening'', sd_label = ''Screening'', sd_scope = ComplianceScope,
      sd_templates = [(''compliance_screening_agent'', None)]\<rparr>]"

definition TEMPLATE_DEFINITIONS :: "(string \<times> string) list" where
  "TEMPLATE_DEFINITIONS = concat (map (\<lambda>s. map (\<lambda>(base, label). (base, coalesce label (sd_label s)))
     (sd_templates s)) SECTION_DEFINITIONS)"

text \<open>\<open>replace(/suffix$/, "")\<close> and \<open>includes\<close>.\<close>

definition strip_suffix :: "string \<Rightarrow> string \<Rightarrow> string" where
  "strip_suffix suffix s =
     (if ends_with s suffix then take (length s - length suffix) s else s)"

definition getFilenameForBase :: "string \<Rightarrow> platform \<Rightarrow> string" where
  "getFilenameForBase base p = (case p of
     Internal \<Rightarrow> base @ ''_internal.j2'' | Public \<Rightarrow> base @ ''.j2'')"

definition getBaseName :: "string \<Rightarrow> string" where
  "getBaseName filename = strip_suffix ''.j2'' (strip_suffix ''_internal.j2'' filename)"

definition formatScopeLabel :: "platform \<Rightarrow> string" where
  "formatScopeLabel p = (case p of Internal \<Rightarrow> ''Internal'' | Public \<Rightarrow> ''Public'')"

definition platform_name :: "platform \<Rightarrow> string" where
  "platform_name p = (case p of Internal \<Rightarrow> ''internal'' | Public \<Rightarrow> ''public'')"

definition createSectionId :: "string \<Rightarrow> platform \<Rightarrow> ident" where
  "createSectionId key p = key @ ''-'' @ platform_name p"

text \<open>
  The source throws for a scope without a definition; there is none (\<open>scope_defined\<close> below),
  so the lookup is total here.
\<close>

definition getDefinitionForScope :: "prompt_scope \<Rightarrow> section_definition" where
  "getDefinitionForScope scope = the (find (\<lambda>s. sd_scope s = scope) SECTION_DEFINITIONS)"

lemma scope_defined: "find (\<lambda>s. sd_scope s = scope) SECTION_DEFINITIONS \<noteq> None"
  by (cases scope) (simp_all add: SECTION_DEFINITIONS_def)

definition getPlatformForFilename :: "string \<Rightarrow> platform" where
  "getPlatformForFilename filename = (if str_includes filename ''_internal'' then Internal else Public)"

definition getTemplateLabel :: "string \<Rightarrow> string" where
  "getTemplateLabel filename =
     (let baseName = getBaseName filename
      in coalesce (map_of TEMPLATE_DEFINITIONS baseName) baseName)"

definition getScopeForSectionId :: "ident option \<Rightarrow> prompt_scope option" where
  "getScopeForSectionId sectionId = (case sectionId of
     None \<Rightarrow> None
   | Some i \<Rightarrow>
       if i = '''' then None
       else let key = strip_suffix ''-public'' (strip_suffix ''-internal'' i)
            in map_option sd_scope (find (\<lambda>s. sd_key s = key) SECTION_DEFINITIONS))"

definition getSectionIdForScope :: "prompt_scope \<Rightarrow> platform \<Rightarrow> ident" where
  "getSectionIdForScope scope p = createSectionId (sd_key (getDefinitionForScope scope)) p"

definition getPlatformForSectionId :: "ident option \<Rightarrow> platform option" where
  "getPlatformForSectionId sectionId = (case sectionId of
     None \<Rightarrow> None
   | Some i \<Rightarrow>
       if i = '''' then None
       else if ends_with i ''-internal'' then Some Internal
       else if ends_with i ''-public'' then Some Public
       else None)"

definition getTemplateFilenamesForScope :: "prompt_scope \<Rightarrow> platform \<Rightarrow> string list" where
  "getTemplateFilenamesForScope scope p =
     map (\<lambda>t. getFilenameForBase (fst t) p) (sd_templates (getDefinitionForScope scope))"

record admin_section =
  as_id :: ident
  as_label :: string
  as_platform :: platform
  as_templates :: "string list"

definition buildSections :: "prompt_file list \<Rightarrow> admin_section list" where
  "buildSections diskTemplates = concat (map (\<lambda>d.
     let templates = filter (\<lambda>f. f \<in> pf_filename ` set diskTemplates)
           (map (\<lambda>t. getFilenameForBase (fst t) Internal) (sd_templates d))
     in if templates = [] then []
        else [\<lparr>as_id = createSectionId (sd_key d) Internal,
               as_label = sd_label d @ '' ('' @ formatScopeLabel Internal @ '')'',
               as_platform = Internal, as_templates = templates\<rparr>]) SECTION_DEFINITIONS)"

definition isAssistantSectionId :: "ident option \<Rightarrow> bool" where
  "isAssistantSectionId sectionId = (case sectionId of
     None \<Rightarrow> False | Some i \<Rightarrow> starts_with i ''assistant-'')"

definition getSectionIdForTemplate :: "string \<Rightarrow> ident option" where
  "getSectionIdForTemplate filename =
     (let baseName = getBaseName filename
      in map_option (\<lambda>d. createSectionId (sd_key d) (getPlatformForFilename filename))
           (find (\<lambda>s. baseName \<in> fst ` set (sd_templates s)) SECTION_DEFINITIONS))"

definition getDefaultTemplateFilename :: "prompt_file list \<Rightarrow> string option" where
  "getDefaultTemplateFilename diskTemplates =
     find (\<lambda>f. f \<in> pf_filename ` set diskTemplates)
       (map (\<lambda>t. getFilenameForBase (fst t) Internal) TEMPLATE_DEFINITIONS)"

section \<open>Identifiers read back\<close>

definition all_scopes :: "prompt_scope list" where
  "all_scopes = [AssistantScope, InvestigationScope, SummaryScope, TitleScope,
     TitleTranscriptScope, GroundingScope, ComplianceScope]"

lemma all_scopes: "scope \<in> set all_scopes"
  by (cases scope) (simp_all add: all_scopes_def)

definition section_reads_back :: "prompt_scope \<Rightarrow> platform \<Rightarrow> bool" where
  "section_reads_back scope p \<longleftrightarrow>
     getScopeForSectionId (Some (getSectionIdForScope scope p)) = Some scope \<and>
     getPlatformForSectionId (Some (getSectionIdForScope scope p)) = Some p \<and>
     list_all (\<lambda>f. getSectionIdForTemplate f = Some (getSectionIdForScope scope p) \<and>
       getPlatformForFilename f = p) (getTemplateFilenamesForScope scope p)"

lemma sections_checked:
  "list_all (\<lambda>s. section_reads_back s Internal \<and> section_reads_back s Public) all_scopes"
  by code_simp

text \<open>
  Section ids and file names read back: from the id of a section come its scope and its
  platform, and every template file of a scope belongs to the section of that scope and
  platform, so no two sections share a file or an id.
\<close>

theorem sections_read_back:
  "getScopeForSectionId (Some (getSectionIdForScope scope p)) = Some scope \<and>
   getPlatformForSectionId (Some (getSectionIdForScope scope p)) = Some p \<and>
   getSectionIdForTemplate ` set (getTemplateFilenamesForScope scope p) \<subseteq>
     {Some (getSectionIdForScope scope p)} \<and>
   getPlatformForFilename ` set (getTemplateFilenamesForScope scope p) \<subseteq> {p}"
proof -
  have "section_reads_back scope p"
    using sections_checked all_scopes [of scope] by (cases p) (auto simp: list_all_iff)
  then show ?thesis by (auto simp: section_reads_back_def list_all_iff)
qed

lemmas section_reads = sections_checked [unfolded list_all_iff]

lemma section_of_file:
  assumes "f \<in> set (getTemplateFilenamesForScope scope p)"
  shows "getSectionIdForTemplate f = Some (getSectionIdForScope scope p)" "getPlatformForFilename f = p"
proof -
  have "section_reads_back scope p"
    using sections_checked all_scopes [of scope] by (cases p) (auto simp: list_all_iff)
  with assms show "getSectionIdForTemplate f = Some (getSectionIdForScope scope p)"
    "getPlatformForFilename f = p"
    by (auto simp: section_reads_back_def list_all_iff)
qed

end
