(* ===== verification/InstructionsStore.thy ===== *)
theory InstructionsStore
  imports InstructionSections
begin

text \<open>
  The store of the instructions editor (instructions/lib/store.ts): its state, the
  selectors and one definition per action. An action that calls the server is split where
  it waits: the part before is the action, which also gives the requests it sends, and the
  part after is a definition of the request's answer (\<open>_end\<close>), with what the action
  captured before waiting as parameters. Records keyed by file names or section ids are
  the dictionaries of JsMap; toasts and the storage write itself are left out.
\<close>

section \<open>State\<close>

text \<open>
  \<open>selectedVersionIdBySection\<close> can hold \<open>undefined\<close> under a key, which
  \<open>Object.entries\<close> lists; no action stores \<open>undefined\<close> in
  \<open>isDefaultSelectedBySection\<close>.
\<close>

record editor_state =
  ed_diskTemplates :: "prompt_file list"
  ed_diskTemplatesLoaded :: bool
  ed_versionsBySection :: "(ident, version_item list) js_map"
  ed_versionsLoadedBySection :: "(ident, bool) js_map"
  ed_deployedVersion :: "active_version option"
  ed_selectedVersionDetail :: "prompt_set_version option"
  ed_activePlatform :: platform
  ed_activeSectionId :: "ident option"
  ed_expandedSections :: "(ident, bool) js_map"
  ed_selectedVersionIdBySection :: "(ident, ident option) js_map"
  ed_isDefaultSelectedBySection :: "(ident, bool) js_map"
  ed_showGuide :: bool
  ed_hasSeenGuide :: bool
  ed_error :: "string option"
  ed_selectedTemplate :: "string option"
  ed_editedContent :: string
  ed_drafts :: "(string, string) js_map"
  ed_showDiff :: bool
  ed_wrapLines :: bool
  ed_editorKey :: nat
  ed_selectedVersionId :: "ident option"
  ed_isDefaultSelected :: bool
  ed_versionName :: string
  ed_versionDescription :: string
  ed_confirmDialogAction :: "confirm_action option"
  ed_confirmDialogVersionId :: "ident option"
  ed_isChatPanelOpen :: bool
  ed_testChatId :: "ident option"
  ed_isCreating :: bool
  ed_isDeploying :: bool
  ed_isDeleting :: bool

definition createInitialInstructionsState :: editor_state where
  "createInitialInstructionsState = \<lparr>
     ed_diskTemplates = [], ed_diskTemplatesLoaded = False,
     ed_versionsBySection = [], ed_versionsLoadedBySection = [],
     ed_deployedVersion = None, ed_selectedVersionDetail = None,
     ed_activePlatform = Internal, ed_activeSectionId = None,
     ed_expandedSections = [], ed_selectedVersionIdBySection = [],
     ed_isDefaultSelectedBySection = [], ed_showGuide = True, ed_hasSeenGuide = False,
     ed_error = None, ed_selectedTemplate = None, ed_editedContent = [], ed_drafts = [],
     ed_showDiff = False, ed_wrapLines = True, ed_editorKey = 0,
     ed_selectedVersionId = None, ed_isDefaultSelected = False,
     ed_versionName = [], ed_versionDescription = [],
     ed_confirmDialogAction = None, ed_confirmDialogVersionId = None,
     ed_isChatPanelOpen = True, ed_testChatId = None,
     ed_isCreating = False, ed_isDeploying = False, ed_isDeleting = False\<rparr>"

section \<open>Requests and what they throw\<close>

text \<open>What \<open>deleteVersion\<close> captured before waiting.\<close>

record selection_snapshot =
  ss_selectedVersionId :: "ident option"
  ss_selectedVersionIdBySection :: "(ident, ident option) js_map"
  ss_isDefaultSelectedBySection :: "(ident, bool) js_map"

datatype editor_request =
    DiskTemplatesRequest
  | VersionsRequest ident bool prompt_scope
  | DeployedRequest bool prompt_scope
  | DetailRequest ident
  | CreateRequest ident version_create
  | DeployRequest ident "ident option"
  | UndeployRequest ident bool prompt_scope
  | DeleteRequest ident selection_snapshot

text \<open>
  A thrown value: an \<open>Error\<close> with its message, and its status when it is the
  \<open>ApiError\<close> of the client; or something that is no \<open>Error\<close>.
\<close>

datatype thrown = Failure string "nat option" | NotAnError

fun thrown_message :: "string \<Rightarrow> thrown \<Rightarrow> string" where
  "thrown_message fallback (Failure message _) = message"
| "thrown_message fallback NotAnError = fallback"

text \<open>The handler all but one of the actions give to \<open>withErrorHandling\<close>.\<close>

definition withErrorHandling :: "string \<Rightarrow> thrown \<Rightarrow> editor_state \<Rightarrow> editor_state" where
  "withErrorHandling fallback e s = s\<lparr>ed_error := Some (thrown_message fallback e)\<rparr>"

section \<open>Selectors\<close>

definition findTemplateContent :: "string \<Rightarrow> prompt_set_version option \<Rightarrow> prompt_file list \<Rightarrow> string" where
  "findTemplateContent filename versionDetail diskTemplates =
     (case Option.bind versionDetail
        (\<lambda>v. find (\<lambda>p. pt_filename p = filename) (pv_prompts v)) of
        Some versionPrompt \<Rightarrow> pt_content versionPrompt
      | None \<Rightarrow> coalesce (map_option pf_content
          (find (\<lambda>t. pf_filename t = filename) diskTemplates)) [])"

definition getBaseContent :: "editor_state \<Rightarrow> string \<Rightarrow> string" where
  "getBaseContent s filename =
     findTemplateContent filename (ed_selectedVersionDetail s) (ed_diskTemplates s)"

definition selectHasUnsavedChanges :: "editor_state \<Rightarrow> bool" where
  "selectHasUnsavedChanges s \<longleftrightarrow> length (js_keys (ed_drafts s)) > 0"

definition selectHasUnsavedChangesInSection :: "editor_state \<Rightarrow> ident option \<Rightarrow> bool" where
  "selectHasUnsavedChangesInSection s sectionId =
     (case sectionId of
        None \<Rightarrow> selectHasUnsavedChanges s
      | Some _ \<Rightarrow> list_ex (\<lambda>f. getSectionIdForTemplate f = sectionId) (js_keys (ed_drafts s)))"

definition selectIsLiveDefault :: "editor_state \<Rightarrow> bool" where
  "selectIsLiveDefault s = (case ed_deployedVersion s of None \<Rightarrow> False | Some v \<Rightarrow> av_id v = None)"

definition filterInternalSectionEntries :: "(ident, 'a) js_map \<Rightarrow> (ident, 'a) js_map" where
  "filterInternalSectionEntries = filter (\<lambda>e. getPlatformForSectionId (Some (fst e)) = Some Internal)"

definition filterInternalTemplateEntries :: "(string, 'a) js_map \<Rightarrow> (string, 'a) js_map" where
  "filterInternalTemplateEntries = filter (\<lambda>e. getPlatformForFilename (fst e) = Internal \<and>
     getSectionIdForTemplate (fst e) \<noteq> None)"

definition getDefaultTemplateForSection :: "prompt_file list \<Rightarrow> ident option \<Rightarrow> string option" where
  "getDefaultTemplateForSection diskTemplates sectionId =
     (case (getScopeForSectionId sectionId, getPlatformForSectionId sectionId) of
        (Some scope, Some p) \<Rightarrow>
          find (\<lambda>f. f \<in> pf_filename ` set diskTemplates) (getTemplateFilenamesForScope scope p)
      | _ \<Rightarrow> None)"

text \<open>\<open>isDefaultSelectedBySection[id]\<close> and \<open>selectedVersionIdBySection[id]\<close>; an absent key reads \<open>undefined\<close>.\<close>

definition stored_version :: "(ident, ident option) js_map \<Rightarrow> ident \<Rightarrow> ident option" where
  "stored_version m sectionId = (case js_get m sectionId of None \<Rightarrow> None | Some v \<Rightarrow> v)"

text \<open>The section a selection acts on.\<close>

definition current_section :: "editor_state \<Rightarrow> ident" where
  "current_section s = coalesce (ed_activeSectionId s)
     (getSectionIdForScope AssistantScope (ed_activePlatform s))"

definition drafts_outside :: "ident \<Rightarrow> (string, string) js_map \<Rightarrow> (string, string) js_map" where
  "drafts_outside sectionId = filter (\<lambda>e. getSectionIdForTemplate (fst e) \<noteq> Some sectionId)"

section \<open>Loading\<close>

definition loadVersions :: "ident option \<Rightarrow> editor_state \<Rightarrow> editor_request list" where
  "loadVersions sectionId s =
     (let target = or_else sectionId (ed_activeSectionId s)
      in case (target, getScopeForSectionId target, getPlatformForSectionId target) of
           (Some t, Some scope, Some p) \<Rightarrow>
             if t = [] then [] else [VersionsRequest t (p = Internal) scope]
         | _ \<Rightarrow> [])"

definition loadDeployedVersion :: "ident option \<Rightarrow> editor_state \<Rightarrow> editor_state \<times> editor_request list" where
  "loadDeployedVersion sectionId s =
     (let target = or_else sectionId (ed_activeSectionId s)
      in case (target, getScopeForSectionId target, getPlatformForSectionId target) of
           (Some t, Some scope, Some p) \<Rightarrow>
             if t = [] then (s\<lparr>ed_deployedVersion := None\<rparr>, [])
             else (s, [DeployedRequest (p = Internal) scope])
         | _ \<Rightarrow> (s\<lparr>ed_deployedVersion := None\<rparr>, []))"

abbreviation loadVersionDetail :: "ident \<Rightarrow> editor_request list" where
  "loadVersionDetail versionId \<equiv> [DetailRequest versionId]"

definition deleted_message :: string where
  "deleted_message =
     ''Selected saved version of the instructions is no longer available. It may have been deleted.''"

definition loadVersions_end :: "ident \<Rightarrow> version_item list \<Rightarrow> editor_state \<Rightarrow> editor_state" where
  "loadVersions_end target versions s =
     (let storedVersionId = stored_version (ed_selectedVersionIdBySection s) target;
          hasStoredVersion = storedVersionId \<noteq> None \<and> storedVersionId \<noteq> Some [];
          hasStoredSelection = hasStoredVersion \<and>
            list_ex (\<lambda>v. Some (vi_id v) = storedVersionId) versions;
          shouldResetSelection = hasStoredVersion \<and> \<not> hasStoredSelection;
          here = shouldResetSelection \<and> ed_activeSectionId s = Some target;
          shown = here \<and> ed_selectedVersionId s = storedVersionId
      in s\<lparr>
        ed_versionsBySection := js_set target versions (ed_versionsBySection s),
        ed_versionsLoadedBySection := js_set target True (ed_versionsLoadedBySection s),
        ed_selectedVersionIdBySection :=
          (if shouldResetSelection then js_set target None (ed_selectedVersionIdBySection s)
           else ed_selectedVersionIdBySection s),
        ed_isDefaultSelectedBySection :=
          (if shouldResetSelection then js_set target True (ed_isDefaultSelectedBySection s)
           else ed_isDefaultSelectedBySection s),
        ed_selectedVersionId := (if shown then None else ed_selectedVersionId s),
        ed_selectedVersionDetail := (if shown then None else ed_selectedVersionDetail s),
        ed_isDefaultSelected := (if here then True else ed_isDefaultSelected s),
        ed_error := (if here then Some deleted_message else ed_error s)\<rparr>)"

definition loadDeployedVersion_end :: "active_version \<Rightarrow> editor_state \<Rightarrow> editor_state" where
  "loadDeployedVersion_end deployed s = s\<lparr>ed_deployedVersion := Some deployed\<rparr>"

definition loadVersionDetail_end :: "prompt_set_version \<Rightarrow> editor_state \<Rightarrow> editor_state" where
  "loadVersionDetail_end detail s =
     (let nextEditedContent = (case ed_selectedTemplate s of
          Some f \<Rightarrow> if js_has (ed_drafts s) f then ed_editedContent s
            else findTemplateContent f (Some detail) (ed_diskTemplates s)
        | None \<Rightarrow> ed_editedContent s)
      in s\<lparr>ed_selectedVersionDetail := Some detail, ed_editedContent := nextEditedContent\<rparr>)"

definition loadVersionDetail_failed :: "thrown \<Rightarrow> editor_state \<Rightarrow> editor_state" where
  "loadVersionDetail_failed e s =
     (let message = (case e of
          Failure _ (Some status) \<Rightarrow> if status = 404 then deleted_message else thrown_message [] e
        | _ \<Rightarrow> thrown_message ''Failed to load saved version of the instructions'' e)
      in s\<lparr>
        ed_error := Some message,
        ed_selectedVersionId := None,
        ed_selectedVersionDetail := None,
        ed_isDefaultSelected := True,
        ed_selectedVersionIdBySection := (case ed_activeSectionId s of
            None \<Rightarrow> ed_selectedVersionIdBySection s
          | Some a \<Rightarrow> js_set a None (ed_selectedVersionIdBySection s)),
        ed_isDefaultSelectedBySection := (case ed_activeSectionId s of
            None \<Rightarrow> ed_isDefaultSelectedBySection s
          | Some a \<Rightarrow> js_set a True (ed_isDefaultSelectedBySection s))\<rparr>)"

section \<open>Platform, section and template\<close>

definition setActivePlatform :: "platform \<Rightarrow> editor_state \<Rightarrow> editor_state" where
  "setActivePlatform p s =
     (if ed_activePlatform s = p then s
      else s\<lparr>
        ed_activePlatform := p,
        ed_deployedVersion := None,
        ed_selectedVersionId := None,
        ed_selectedVersionDetail := None,
        ed_isDefaultSelected := True,
        ed_selectedTemplate := None,
        ed_editedContent := [],
        ed_showDiff := False,
        ed_editorKey := ed_editorKey s + 1\<rparr>)"

definition default_noted :: "ident \<Rightarrow> (ident, bool) js_map \<Rightarrow> (ident, bool) js_map" where
  "default_noted sectionId m = (if js_get m sectionId = None then js_set sectionId True m else m)"

definition setActiveSection :: "ident \<Rightarrow> platform \<Rightarrow> editor_state \<Rightarrow> editor_state \<times> editor_request list" where
  "setActiveSection sectionId p s0 =
     (let s1 = (if ed_activePlatform s0 \<noteq> p then setActivePlatform p s0 else s0);
          storedVersionId = stored_version (ed_selectedVersionIdBySection s0) sectionId;
          storedDefault = coalesce (js_get (ed_isDefaultSelectedBySection s0) sectionId) True;
          versionsLoaded = coalesce (js_get (ed_versionsLoadedBySection s0) sectionId) False;
          s2 = s1\<lparr>
            ed_activeSectionId := Some sectionId,
            ed_selectedTemplate := None,
            ed_selectedVersionId := (if storedDefault then None else storedVersionId),
            ed_isDefaultSelected := storedDefault,
            ed_selectedVersionDetail := None,
            ed_showDiff := False,
            ed_isDefaultSelectedBySection :=
              default_noted sectionId (ed_isDefaultSelectedBySection s0)\<rparr>;
          versions = (if versionsLoaded then [] else loadVersions (Some sectionId) s2);
          (s3, deployed) = loadDeployedVersion (Some sectionId) s2;
          detail = (case storedVersionId of
              Some v \<Rightarrow> if v \<noteq> [] \<and> \<not> storedDefault then loadVersionDetail v else []
            | None \<Rightarrow> [])
      in (s3, versions @ deployed @ detail))"

definition setSectionExpanded :: "ident \<Rightarrow> bool \<Rightarrow> editor_state \<Rightarrow> editor_state" where
  "setSectionExpanded sectionId expanded s =
     s\<lparr>ed_expandedSections := js_set sectionId expanded (ed_expandedSections s)\<rparr>"

definition dismissGuide :: "editor_state \<Rightarrow> editor_state" where
  "dismissGuide s = s\<lparr>ed_showGuide := False, ed_hasSeenGuide := True\<rparr>"

definition showGuidePanel :: "editor_state \<Rightarrow> editor_state" where
  "showGuidePanel s = s\<lparr>ed_showGuide := True, ed_hasSeenGuide := True\<rparr>"

definition setError :: "string option \<Rightarrow> editor_state \<Rightarrow> editor_state" where
  "setError e s = s\<lparr>ed_error := e\<rparr>"

definition clearError :: "editor_state \<Rightarrow> editor_state" where
  "clearError s = s\<lparr>ed_error := None\<rparr>"

definition selectTemplate :: "string \<Rightarrow> editor_state \<Rightarrow> editor_state \<times> editor_request list" where
  "selectTemplate filename s0 =
     (let p = getPlatformForFilename filename;
          platformChanged = (p \<noteq> ed_activePlatform s0);
          s1 = (if platformChanged then setActivePlatform p s0 else s0);
          sectionId = getSectionIdForTemplate filename;
          sectionChanged = (sectionId \<noteq> None \<and> sectionId \<noteq> ed_activeSectionId s0);
          storedVersionId = Option.bind sectionId (stored_version (ed_selectedVersionIdBySection s0));
          storedDefault = map_option
            (\<lambda>i. coalesce (js_get (ed_isDefaultSelectedBySection s0) i) True) sectionId;
          effectiveVersionDetail =
            (if platformChanged \<or> sectionChanged then None else ed_selectedVersionDetail s0);
          content = coalesce (js_get (ed_drafts s0) filename)
            (findTemplateContent filename effectiveVersionDetail (ed_diskTemplates s0));
          resolvedStoredDefault = coalesce storedDefault True
      in (s1\<lparr>
            ed_selectedTemplate := Some filename,
            ed_editedContent := content,
            ed_editorKey := ed_editorKey s1 + 1,
            ed_activeSectionId := or_else sectionId (ed_activeSectionId s1),
            ed_selectedVersionId :=
              (if sectionChanged then if resolvedStoredDefault then None else storedVersionId
               else ed_selectedVersionId s0),
            ed_isDefaultSelected :=
              (if sectionChanged then resolvedStoredDefault else ed_isDefaultSelected s0),
            ed_selectedVersionDetail :=
              (if sectionChanged then None else ed_selectedVersionDetail s0),
            ed_expandedSections := (case sectionId of
                None \<Rightarrow> ed_expandedSections s1
              | Some i \<Rightarrow> js_set i True (ed_expandedSections s1)),
            ed_isDefaultSelectedBySection := (case sectionId of
                None \<Rightarrow> ed_isDefaultSelectedBySection s0
              | Some i \<Rightarrow> default_noted i (ed_isDefaultSelectedBySection s0))\<rparr>,
          (case storedVersionId of
             Some v \<Rightarrow> if sectionChanged \<and> v \<noteq> [] \<and> storedDefault = Some False
               then loadVersionDetail v else []
           | None \<Rightarrow> [])))"

text \<open>The answer of \<open>loadDiskTemplates\<close>; the first branch may have selected a template already.\<close>

definition loadDiskTemplates_end :: "prompt_file list \<Rightarrow> editor_state \<Rightarrow> editor_state \<times> editor_request list" where
  "loadDiskTemplates_end templates s0 =
     (let s1 = s0\<lparr>ed_diskTemplates := templates, ed_diskTemplatesLoaded := True\<rparr>
      in case ed_selectedTemplate s1 of
           Some f \<Rightarrow> if ed_editedContent s1 = [] then selectTemplate f s1 else (s1, [])
         | None \<Rightarrow>
             (case or_else (getDefaultTemplateForSection templates (ed_activeSectionId s1))
                (getDefaultTemplateFilename templates) of
                Some f \<Rightarrow> selectTemplate f s1
              | None \<Rightarrow> (s1, [])))"

section \<open>Versions and the default\<close>

definition selection_stored ::
  "ident option \<Rightarrow> bool \<Rightarrow> editor_state \<Rightarrow> editor_state" where
  "selection_stored versionId dflt s = (case ed_activeSectionId s of
       None \<Rightarrow> s
     | Some a \<Rightarrow> s\<lparr>
         ed_selectedVersionIdBySection := js_set a versionId (ed_selectedVersionIdBySection s),
         ed_isDefaultSelectedBySection := js_set a dflt (ed_isDefaultSelectedBySection s)\<rparr>)"

definition selectVersion :: "ident \<Rightarrow> editor_state \<Rightarrow> editor_state \<times> editor_request list" where
  "selectVersion versionId s0 =
     (let sectionId = current_section s0;
          versions = (if sectionId = [] then None else js_get (ed_versionsBySection s0) sectionId);
          version = Option.bind versions (find (\<lambda>v. vi_id v = versionId));
          s1 = (case version of
              Some v \<Rightarrow> setActivePlatform (if vi_is_internal v then Internal else Public) s0
            | None \<Rightarrow> s0)
      in (selection_stored (Some versionId) False
            (s1\<lparr>
              ed_selectedVersionId := Some versionId,
              ed_isDefaultSelected := False,
              ed_selectedTemplate := None,
              ed_drafts := drafts_outside sectionId (ed_drafts s0),
              ed_editedContent := [],
              ed_selectedVersionDetail := None,
              ed_showDiff := False\<rparr>),
          loadVersionDetail versionId))"

definition selectDefault :: "editor_state \<Rightarrow> editor_state" where
  "selectDefault s =
     selection_stored None True
       (s\<lparr>
         ed_selectedVersionId := None,
         ed_isDefaultSelected := True,
         ed_selectedTemplate := None,
         ed_drafts := drafts_outside (current_section s) (ed_drafts s),
         ed_editedContent := [],
         ed_selectedVersionDetail := None,
         ed_showDiff := False,
         ed_editorKey := ed_editorKey s + 1\<rparr>)"

definition requestSelectVersion :: "ident \<Rightarrow> editor_state \<Rightarrow> editor_state \<times> editor_request list" where
  "requestSelectVersion versionId s =
     (if Some versionId = ed_selectedVersionId s then (s, [])
      else if selectHasUnsavedChangesInSection s (Some (current_section s))
      then (s\<lparr>ed_confirmDialogAction := Some SwitchVersion,
              ed_confirmDialogVersionId := Some versionId\<rparr>, [])
      else selectVersion versionId s)"

definition requestSelectDefault :: "editor_state \<Rightarrow> editor_state" where
  "requestSelectDefault s =
     (if selectHasUnsavedChangesInSection s (Some (current_section s))
      then s\<lparr>ed_confirmDialogAction := Some SelectDefault, ed_confirmDialogVersionId := None\<rparr>
      else selectDefault s)"

section \<open>Editing\<close>

definition updateContent :: "string \<Rightarrow> string \<Rightarrow> editor_state \<Rightarrow> editor_state" where
  "updateContent filename content s =
     (let baseContent = getBaseContent s filename;
          selected = (ed_selectedTemplate s = Some filename);
          currentContent = (if selected then ed_editedContent s
            else coalesce (js_get (ed_drafts s) filename) baseContent)
      in if content = currentContent then s
         else s\<lparr>
           ed_editedContent := (if selected then content else ed_editedContent s),
           ed_drafts := (if content = baseContent then js_delete filename (ed_drafts s)
             else js_set filename content (ed_drafts s))\<rparr>)"

definition toggleDiff :: "editor_state \<Rightarrow> editor_state" where
  "toggleDiff s =
     (let canShowDiff = (case ed_selectedTemplate s of
          None \<Rightarrow> False | Some f \<Rightarrow> js_has (ed_drafts s) f)
      in s\<lparr>ed_showDiff := (if ed_showDiff s then False else canShowDiff)\<rparr>)"

definition toggleWrapLines :: "editor_state \<Rightarrow> editor_state" where
  "toggleWrapLines s = s\<lparr>ed_wrapLines := \<not> ed_wrapLines s\<rparr>"

definition requestResetTemplate :: "editor_state \<Rightarrow> editor_state" where
  "requestResetTemplate s = s\<lparr>ed_confirmDialogAction := Some ResetTemplate\<rparr>"

definition resetTemplate :: "editor_state \<Rightarrow> editor_state" where
  "resetTemplate s = (case ed_selectedTemplate s of
       None \<Rightarrow> s
     | Some f \<Rightarrow> s\<lparr>
         ed_editedContent := getBaseContent s f,
         ed_drafts := js_delete f (ed_drafts s),
         ed_editorKey := ed_editorKey s + 1\<rparr>)"

definition setVersionName :: "string \<Rightarrow> editor_state \<Rightarrow> editor_state" where
  "setVersionName name s = s\<lparr>ed_versionName := name\<rparr>"

definition setVersionDescription :: "string \<Rightarrow> editor_state \<Rightarrow> editor_state" where
  "setVersionDescription description s = s\<lparr>ed_versionDescription := description\<rparr>"

section \<open>Creating, deploying and deleting versions\<close>

definition create_target :: "editor_state \<Rightarrow> ident option" where
  "create_target s =
     (let draftSections = fold set_add
            (List.map_filter getSectionIdForTemplate (js_keys (ed_drafts s))) []
      in or_else (ed_activeSectionId s)
           (if length draftSections = 1 then Some (hd draftSections) else None))"

text \<open>\<open>new Map(\<dots>)\<close> of the templates: a later duplicate of a file name replaces an earlier one.\<close>

definition template_map :: "prompt_file list \<Rightarrow> string \<Rightarrow> prompt_file option" where
  "template_map templates = map_of (rev (map (\<lambda>t. (pf_filename t, t)) templates))"

definition version_payload ::
  "editor_state \<Rightarrow> platform \<Rightarrow> prompt_scope \<Rightarrow> prompt_file list \<Rightarrow> version_create" where
  "version_payload s p scope scopeTemplates = \<lparr>
     vc_name = ed_versionName s,
     vc_description = (if ed_versionDescription s = [] then None else Some (ed_versionDescription s)),
     vc_is_internal = (p = Internal),
     vc_scope = scope,
     vc_prompts = map (\<lambda>t. \<lparr>pf_filename = pf_filename t,
       pf_content = coalesce (js_get (ed_drafts s) (pf_filename t)) (pf_content t)\<rparr>) scopeTemplates\<rparr>"

definition createVersion :: "editor_state \<Rightarrow> editor_state \<times> editor_request list" where
  "createVersion s0 =
     (if trim (ed_versionName s0) = []
      then (s0\<lparr>ed_error := Some ''Please enter a name for the saved version of the instructions''\<rparr>, [])
      else if length (js_keys (ed_drafts s0)) = 0
      then (s0\<lparr>ed_error := Some ''No instructions have been modified''\<rparr>, [])
      else
        let sectionId = create_target s0;
            p = coalesce (getPlatformForSectionId sectionId) (ed_activePlatform s0)
        in case (sectionId, getScopeForSectionId sectionId) of
             (Some target, Some scope) \<Rightarrow>
               if target = []
               then (s0\<lparr>ed_error := Some ''Select a section before creating a saved version of the instructions.''\<rparr>, [])
               else
                 let scopeFilenames = getTemplateFilenamesForScope scope p;
                     scopeDrafts = filter (\<lambda>f. f \<in> set scopeFilenames) (js_keys (ed_drafts s0))
                 in if length scopeDrafts = 0
                    then (s0\<lparr>ed_error := Some ''No instructions have been modified in this section.''\<rparr>, [])
                    else
                      let s1 = (if p \<noteq> ed_activePlatform s0 then setActivePlatform p s0 else s0);
                          scopeTemplates = List.map_filter (template_map (ed_diskTemplates s0)) scopeFilenames
                      in if length scopeTemplates = 0
                         then (s1\<lparr>ed_error := Some ''No instructions found for this section.''\<rparr>, [])
                         else if length scopeTemplates \<noteq> length scopeFilenames
                         then (s1\<lparr>ed_error := Some ''Some instructions are missing for this section.''\<rparr>, [])
                         else (s1\<lparr>ed_isCreating := True, ed_error := None\<rparr>,
                               [CreateRequest target (version_payload s0 p scope scopeTemplates)])
           | _ \<Rightarrow> (s0\<lparr>ed_error := Some ''Select a section before creating a saved version of the instructions.''\<rparr>, []))"

definition createVersion_success :: "editor_state \<Rightarrow> editor_state" where
  "createVersion_success s = s\<lparr>
     ed_versionName := [],
     ed_versionDescription := [],
     ed_drafts := [],
     ed_editedContent := [],
     ed_selectedTemplate := None,
     ed_showDiff := False\<rparr>"

definition deployVersion :: "ident \<Rightarrow> editor_state \<Rightarrow> editor_state \<times> editor_request list" where
  "deployVersion versionId s =
     (s\<lparr>ed_isDeploying := True, ed_error := None\<rparr>, [DeployRequest versionId (ed_activeSectionId s)])"

definition undeployVersion :: "editor_state \<Rightarrow> editor_state \<times> editor_request list" where
  "undeployVersion s =
     (let sectionId = current_section s;
          p = coalesce (getPlatformForSectionId (Some sectionId)) (ed_activePlatform s)
      in case getScopeForSectionId (Some sectionId) of
           None \<Rightarrow> (s\<lparr>ed_error := Some ''Select a section before undeploying.''\<rparr>, [])
         | Some scope \<Rightarrow> (s\<lparr>ed_isDeploying := True, ed_error := None\<rparr>,
             [UndeployRequest sectionId (p = Internal) scope]))"

definition requestDeleteVersion :: "ident \<Rightarrow> editor_state \<Rightarrow> editor_state" where
  "requestDeleteVersion versionId s =
     s\<lparr>ed_confirmDialogAction := Some DeleteVersion, ed_confirmDialogVersionId := Some versionId\<rparr>"

definition deleteVersion :: "editor_state \<Rightarrow> editor_state \<times> editor_request list" where
  "deleteVersion s = (case ed_confirmDialogVersionId s of
       None \<Rightarrow> (s, [])
     | Some versionId \<Rightarrow> (s\<lparr>ed_isDeleting := True, ed_error := None\<rparr>,
         [DeleteRequest versionId
            \<lparr>ss_selectedVersionId = ed_selectedVersionId s,
             ss_selectedVersionIdBySection = ed_selectedVersionIdBySection s,
             ss_isDefaultSelectedBySection = ed_isDefaultSelectedBySection s\<rparr>]))"

definition deleteVersion_success ::
  "ident \<Rightarrow> selection_snapshot \<Rightarrow> editor_state \<Rightarrow> editor_state" where
  "deleteVersion_success versionId snap s =
     (let (nextSelected, nextDefault) = fold (\<lambda>e (sel, dflt).
            if snd e = Some versionId then (js_set (fst e) None sel, js_set (fst e) True dflt)
            else (sel, dflt))
          (ss_selectedVersionIdBySection snap)
          (ss_selectedVersionIdBySection snap, ss_isDefaultSelectedBySection snap);
          wasSelected = (ss_selectedVersionId snap = Some versionId)
      in s\<lparr>
        ed_selectedVersionId := (if wasSelected then None else ss_selectedVersionId snap),
        ed_selectedVersionDetail := (if wasSelected then None else ed_selectedVersionDetail s),
        ed_selectedVersionIdBySection := nextSelected,
        ed_isDefaultSelectedBySection := nextDefault,
        ed_isDefaultSelected := (if wasSelected then True else ed_isDefaultSelected s)\<rparr>)"

section \<open>The confirmation dialog, the chat panel\<close>

definition closeConfirmDialog :: "editor_state \<Rightarrow> editor_state" where
  "closeConfirmDialog s = s\<lparr>ed_confirmDialogAction := None, ed_confirmDialogVersionId := None\<rparr>"

definition confirmAction :: "editor_state \<Rightarrow> editor_state \<times> editor_request list" where
  "confirmAction s = (case ed_confirmDialogAction s of
       None \<Rightarrow> (closeConfirmDialog s, [])
     | Some SwitchVersion \<Rightarrow>
         (case ed_confirmDialogVersionId s of
            None \<Rightarrow> (closeConfirmDialog s, [])
          | Some v \<Rightarrow> if v = [] then (closeConfirmDialog s, [])
              else let (s', rs) = selectVersion v s in (closeConfirmDialog s', rs))
     | Some SelectDefault \<Rightarrow> (closeConfirmDialog (selectDefault s), [])
     | Some ResetTemplate \<Rightarrow> (closeConfirmDialog (resetTemplate s), [])
     | Some DeleteVersion \<Rightarrow> deleteVersion s)"

definition setChatPanelOpen :: "bool \<Rightarrow> editor_state \<Rightarrow> editor_state" where
  "setChatPanelOpen shown s = s\<lparr>ed_isChatPanelOpen := shown\<rparr>"

definition toggleChatPanel :: "editor_state \<Rightarrow> editor_state" where
  "toggleChatPanel s = s\<lparr>ed_isChatPanelOpen := \<not> ed_isChatPanelOpen s\<rparr>"

definition setTestChatState :: "ident option \<Rightarrow> editor_state \<Rightarrow> editor_state" where
  "setTestChatState chatId s = s\<lparr>ed_testChatId := chatId\<rparr>"

end
