(* ===== verification/InstructionsSystem.thy ===== *)
theory InstructionsSystem
  imports InstructionsStore
begin

text \<open>
  The instructions editor with its requests in flight (instructions/lib/store.ts): the
  stored part of the state and how it is read back (\<open>partialize\<close>, \<open>merge\<close>), the
  answers of the server in any order, and the states an editor can reach.
\<close>

section \<open>The stored state\<close>

text \<open>
  The fields \<open>partialize\<close> keeps. What \<open>merge\<close> reads with a default is optional: the
  stored text may be of an earlier version. Storing a record of TypeScript drops the keys
  whose value is \<open>undefined\<close> (\<open>stored\<close>).
\<close>

record persisted_editor =
  pe_hasSeenGuide :: bool
  pe_activePlatform :: platform
  pe_activeSectionId :: "ident option"
  pe_expandedSections :: "(ident, bool) js_map"
  pe_selectedTemplate :: "string option"
  pe_selectedVersionId :: "ident option"
  pe_selectedVersionIdBySection :: "(ident, ident option) js_map"
  pe_isDefaultSelected :: "bool option"
  pe_isDefaultSelectedBySection :: "(ident, bool) js_map"
  pe_editedContent :: "string option"
  pe_drafts :: "(string, string) js_map"
  pe_showDiff :: "bool option"
  pe_wrapLines :: "bool option"
  pe_isChatPanelOpen :: "bool option"
  pe_testChatId :: "ident option"

definition partialize :: "editor_state \<Rightarrow> persisted_editor" where
  "partialize s = \<lparr>
     pe_hasSeenGuide = ed_hasSeenGuide s,
     pe_activePlatform = ed_activePlatform s,
     pe_activeSectionId = ed_activeSectionId s,
     pe_expandedSections = ed_expandedSections s,
     pe_selectedTemplate = ed_selectedTemplate s,
     pe_selectedVersionId = ed_selectedVersionId s,
     pe_selectedVersionIdBySection = ed_selectedVersionIdBySection s,
     pe_isDefaultSelected = Some (ed_isDefaultSelected s),
     pe_isDefaultSelectedBySection = ed_isDefaultSelectedBySection s,
     pe_editedContent = Some (ed_editedContent s),
     pe_drafts = ed_drafts s,
     pe_showDiff = Some (ed_showDiff s),
     pe_wrapLines = Some (ed_wrapLines s),
     pe_isChatPanelOpen = Some (ed_isChatPanelOpen s),
     pe_testChatId = ed_testChatId s\<rparr>"

definition stored :: "persisted_editor \<Rightarrow> persisted_editor" where
  "stored p = p\<lparr>pe_selectedVersionIdBySection :=
     filter (\<lambda>e. snd e \<noteq> None) (pe_selectedVersionIdBySection p)\<rparr>"

text \<open>
  \<open>merge\<close>; the stored value is absent when there is none or when it is not a value of
  this store (\<open>isPersistedInstructionsState\<close>).
\<close>

definition merge_template :: "persisted_editor option \<Rightarrow> string option" where
  "merge_template persisted = (case Option.bind persisted pe_selectedTemplate of
       Some f \<Rightarrow> if getPlatformForFilename f = Internal \<and> getSectionIdForTemplate f \<noteq> None
         then Some f else None
     | None \<Rightarrow> None)"

definition merge_section :: "persisted_editor option \<Rightarrow> ident option" where
  "merge_section persisted = (case Option.bind persisted pe_activeSectionId of
       Some a \<Rightarrow> if getPlatformForSectionId (Some a) = Some Internal then Some a
         else Option.bind (merge_template persisted) getSectionIdForTemplate
     | None \<Rightarrow> Option.bind (merge_template persisted) getSectionIdForTemplate)"

definition merge_drafts :: "persisted_editor option \<Rightarrow> editor_state \<Rightarrow> (string, string) js_map" where
  "merge_drafts persisted currentState = (case persisted of
       None \<Rightarrow> ed_drafts currentState
     | Some p \<Rightarrow> filterInternalTemplateEntries (pe_drafts p))"

definition merge_normalized :: "persisted_editor option \<Rightarrow> editor_state \<Rightarrow> (string, string) js_map" where
  "merge_normalized persisted currentState =
     (let drafts = merge_drafts persisted currentState
      in case (merge_template persisted, Option.bind persisted pe_editedContent) of
           (Some f, Some content) \<Rightarrow> if js_has drafts f then js_set f content drafts else drafts
         | _ \<Rightarrow> drafts)"

definition merge_editor :: "persisted_editor option \<Rightarrow> editor_state \<Rightarrow> editor_state" where
  "merge_editor persisted currentState =
     (let selectedTemplate = merge_template persisted;
          activeSectionId = merge_section persisted;
          versionIds = (case persisted of
              None \<Rightarrow> ed_selectedVersionIdBySection currentState
            | Some p \<Rightarrow> filterInternalSectionEntries (pe_selectedVersionIdBySection p));
          defaults = (case persisted of
              None \<Rightarrow> ed_isDefaultSelectedBySection currentState
            | Some p \<Rightarrow> filterInternalSectionEntries (pe_isDefaultSelectedBySection p));
          storedSelectedVersionId = (case activeSectionId of
              None \<Rightarrow> None
            | Some a \<Rightarrow> or_else (stored_version versionIds a)
                (Option.bind persisted pe_selectedVersionId));
          isDefaultSelected = (case activeSectionId of
              None \<Rightarrow> True
            | Some a \<Rightarrow> coalesce (or_else (js_get defaults a)
                (Option.bind persisted pe_isDefaultSelected)) True);
          hasSeenGuide = coalesce (map_option pe_hasSeenGuide persisted)
            (ed_hasSeenGuide currentState);
          normalizedDrafts = merge_normalized persisted currentState;
          editedContent = (case selectedTemplate of
              None \<Rightarrow> ed_editedContent currentState
            | Some f \<Rightarrow> coalesce (or_else (Option.bind persisted pe_editedContent)
                (js_get normalizedDrafts f)) (ed_editedContent currentState))
      in currentState\<lparr>
        ed_hasSeenGuide := hasSeenGuide,
        ed_wrapLines := coalesce (Option.bind persisted pe_wrapLines) (ed_wrapLines currentState),
        ed_isChatPanelOpen :=
          coalesce (Option.bind persisted pe_isChatPanelOpen) (ed_isChatPanelOpen currentState),
        ed_testChatId := Option.bind persisted pe_testChatId,
        ed_activePlatform := Internal,
        ed_activeSectionId := activeSectionId,
        ed_expandedSections := (case persisted of
            None \<Rightarrow> ed_expandedSections currentState
          | Some p \<Rightarrow> filterInternalSectionEntries (pe_expandedSections p)),
        ed_selectedTemplate := selectedTemplate,
        ed_selectedVersionId := (if isDefaultSelected then None else storedSelectedVersionId),
        ed_selectedVersionIdBySection := versionIds,
        ed_isDefaultSelected := isDefaultSelected,
        ed_isDefaultSelectedBySection := defaults,
        ed_drafts := normalizedDrafts,
        ed_editedContent := editedContent,
        ed_showDiff := (selectedTemplate \<noteq> None \<and> Option.bind persisted pe_showDiff = Some True),
        ed_showGuide := \<not> hasSeenGuide\<rparr>)"

text \<open>The editor a page load gives.\<close>

definition createInstructionsStore :: "persisted_editor option \<Rightarrow> editor_state" where
  "createInstructionsStore persisted = merge_editor persisted createInitialInstructionsState"

section \<open>Requests in flight\<close>

text \<open>
  What an action does after the loads it awaits: \<open>deployVersion\<close> waits for two at once,
  which share a number.
\<close>

datatype follow_up =
    NoFollowUp | CreatingFollowUp | DeployingFollowUp nat | DeletingFollowUp

record editor_system =
  es_state :: editor_state
  es_calls :: "(editor_request \<times> follow_up) list"
  es_next :: nat

definition settle :: "follow_up \<Rightarrow> (editor_request \<times> follow_up) list \<Rightarrow> editor_state \<Rightarrow> editor_state" where
  "settle fu calls s = (case fu of
       NoFollowUp \<Rightarrow> s
     | CreatingFollowUp \<Rightarrow> s\<lparr>ed_isCreating := False\<rparr>
     | DeployingFollowUp g \<Rightarrow>
         if list_ex (\<lambda>c. snd c = fu) calls then s else s\<lparr>ed_isDeploying := False\<rparr>
     | DeletingFollowUp \<Rightarrow> s\<lparr>ed_isDeleting := False, ed_confirmDialogAction := None\<rparr>)"

text \<open>Sending requests without waiting, and as the last thing an action waits for.\<close>

definition send :: "(editor_state \<times> editor_request list) \<Rightarrow> editor_system \<Rightarrow> editor_system" where
  "send r sys = sys\<lparr>es_state := fst r,
     es_calls := es_calls sys @ map (\<lambda>q. (q, NoFollowUp)) (snd r)\<rparr>"

definition await :: "follow_up \<Rightarrow> (editor_state \<times> editor_request list) \<Rightarrow> editor_system \<Rightarrow> editor_system" where
  "await fu r sys =
     (let calls = es_calls sys @ map (\<lambda>q. (q, fu)) (snd r)
      in sys\<lparr>es_state := (if snd r = [] then settle fu calls (fst r) else fst r),
             es_calls := calls\<rparr>)"

text \<open>\<open>deployVersion\<close> and \<open>undeployVersion\<close> after the server's answer.\<close>

definition reload_both :: "ident option \<Rightarrow> editor_state \<Rightarrow> editor_state \<times> editor_request list" where
  "reload_both sectionId s =
     (let versions = loadVersions sectionId s;
          (s', deployed) = loadDeployedVersion sectionId s
      in (s', versions @ deployed))"

datatype editor_answer =
    Failed thrown
  | DiskTemplatesAnswer "prompt_file list"
  | VersionsAnswer "version_item list"
  | DeployedAnswer active_version
  | VersionAnswer prompt_set_version
  | EmptyAnswer

text \<open>
  The rest of an action when its request is answered. An answer of a type the request
  cannot have changes nothing.
\<close>

definition failed_end :: "editor_request \<Rightarrow> thrown \<Rightarrow> editor_state \<Rightarrow> editor_state" where
  "failed_end q e s = (case q of
       DiskTemplatesRequest \<Rightarrow> withErrorHandling ''Failed to load templates'' e s
     | VersionsRequest _ _ _ \<Rightarrow>
         withErrorHandling ''Failed to load saved versions of the instructions'' e s
     | DeployedRequest _ _ \<Rightarrow>
         withErrorHandling ''Failed to load live saved version of the instructions'' e s
     | DetailRequest _ \<Rightarrow> loadVersionDetail_failed e s
     | CreateRequest _ _ \<Rightarrow>
         (withErrorHandling ''Failed to create saved version of the instructions'' e s)
           \<lparr>ed_isCreating := False\<rparr>
     | DeployRequest _ _ \<Rightarrow>
         (withErrorHandling ''Failed to deploy saved version of the instructions'' e s)
           \<lparr>ed_isDeploying := False\<rparr>
     | UndeployRequest _ _ _ \<Rightarrow>
         (withErrorHandling ''Failed to restore default instructions'' e s)
           \<lparr>ed_isDeploying := False\<rparr>
     | DeleteRequest _ _ \<Rightarrow>
         (withErrorHandling ''Failed to delete saved version of the instructions'' e s)
           \<lparr>ed_isDeleting := False, ed_confirmDialogAction := None\<rparr>)"

definition fits :: "editor_request \<Rightarrow> editor_answer \<Rightarrow> bool" where
  "fits q a = (case a of
       Failed _ \<Rightarrow> True
     | DiskTemplatesAnswer _ \<Rightarrow> q = DiskTemplatesRequest
     | VersionsAnswer _ \<Rightarrow> (case q of VersionsRequest _ _ _ \<Rightarrow> True | _ \<Rightarrow> False)
     | DeployedAnswer _ \<Rightarrow>
         (case q of DeployedRequest _ _ \<Rightarrow> True | UndeployRequest _ _ _ \<Rightarrow> True | _ \<Rightarrow> False)
     | VersionAnswer _ \<Rightarrow>
         (case q of DetailRequest _ \<Rightarrow> True | CreateRequest _ _ \<Rightarrow> True
          | DeployRequest _ _ \<Rightarrow> True | _ \<Rightarrow> False)
     | EmptyAnswer \<Rightarrow> (case q of DeleteRequest _ _ \<Rightarrow> True | _ \<Rightarrow> False))"

definition call_end :: "editor_request \<Rightarrow> editor_answer \<Rightarrow> editor_system \<Rightarrow> editor_system" where
  "call_end q a sys =
     (let s = es_state sys
      in case (q, a) of
           (_, Failed e) \<Rightarrow> send (failed_end q e s, []) sys
         | (DiskTemplatesRequest, DiskTemplatesAnswer ts) \<Rightarrow> send (loadDiskTemplates_end ts s) sys
         | (VersionsRequest t _ _, VersionsAnswer vs) \<Rightarrow> send (loadVersions_end t vs s, []) sys
         | (DeployedRequest _ _, DeployedAnswer v) \<Rightarrow> send (loadDeployedVersion_end v s, []) sys
         | (DetailRequest _, VersionAnswer v) \<Rightarrow> send (loadVersionDetail_end v s, []) sys
         | (CreateRequest t _, VersionAnswer _) \<Rightarrow>
             (let s' = createVersion_success s
              in await CreatingFollowUp (s', loadVersions (Some t) s') sys)
         | (DeployRequest _ t, VersionAnswer _) \<Rightarrow>
             await (DeployingFollowUp (es_next sys)) (reload_both t s) (sys\<lparr>es_next := es_next sys + 1\<rparr>)
         | (UndeployRequest t _ _, DeployedAnswer _) \<Rightarrow>
             await (DeployingFollowUp (es_next sys)) (reload_both (Some t) s)
               (sys\<lparr>es_next := es_next sys + 1\<rparr>)
         | (DeleteRequest v snap, EmptyAnswer) \<Rightarrow>
             (let s' = deleteVersion_success v snap s
              in await DeletingFollowUp (s', loadVersions (ed_activeSectionId s') s') sys)
         | _ \<Rightarrow> sys)"

section \<open>Actions\<close>

datatype editor_action =
    LoadDiskTemplates | LoadVersions "ident option" | LoadDeployed "ident option" | LoadDetail ident
  | SetActivePlatform platform | SetActiveSection ident platform | SetSectionExpanded ident bool
  | DismissGuide | ShowGuidePanel | SetError "string option" | ClearError
  | SelectTemplate string | ChooseVersion ident | ChooseDefault
  | RequestSelectVersion ident | RequestSelectDefault
  | UpdateContent string string | ToggleDiff | ToggleWrapLines | RequestReset | Reset
  | SetVersionName string | SetVersionDescription string
  | CreateVersionAction | Deploy ident | Undeploy | RequestDelete ident | Delete
  | CloseDialog | Confirm | SetChatPanel bool | ToggleChatPanel | SetTestChat "ident option"
  | Answer nat editor_answer
  | Reload "persisted_editor option"

definition editor_act :: "editor_action \<Rightarrow> editor_state \<Rightarrow> editor_state \<times> editor_request list" where
  "editor_act a s = (case a of
       LoadDiskTemplates \<Rightarrow> (s, [DiskTemplatesRequest])
     | LoadVersions t \<Rightarrow> (s, loadVersions t s)
     | LoadDeployed t \<Rightarrow> loadDeployedVersion t s
     | LoadDetail v \<Rightarrow> (s, loadVersionDetail v)
     | SetActivePlatform p \<Rightarrow> (setActivePlatform p s, [])
     | SetActiveSection i p \<Rightarrow> setActiveSection i p s
     | SetSectionExpanded i b \<Rightarrow> (setSectionExpanded i b s, [])
     | DismissGuide \<Rightarrow> (dismissGuide s, [])
     | ShowGuidePanel \<Rightarrow> (showGuidePanel s, [])
     | SetError e \<Rightarrow> (setError e s, [])
     | ClearError \<Rightarrow> (clearError s, [])
     | SelectTemplate f \<Rightarrow> selectTemplate f s
     | ChooseVersion v \<Rightarrow> selectVersion v s
     | ChooseDefault \<Rightarrow> (selectDefault s, [])
     | RequestSelectVersion v \<Rightarrow> requestSelectVersion v s
     | RequestSelectDefault \<Rightarrow> (requestSelectDefault s, [])
     | UpdateContent f c \<Rightarrow> (updateContent f c s, [])
     | ToggleDiff \<Rightarrow> (toggleDiff s, [])
     | ToggleWrapLines \<Rightarrow> (toggleWrapLines s, [])
     | RequestReset \<Rightarrow> (requestResetTemplate s, [])
     | Reset \<Rightarrow> (resetTemplate s, [])
     | SetVersionName n \<Rightarrow> (setVersionName n s, [])
     | SetVersionDescription d \<Rightarrow> (setVersionDescription d s, [])
     | CreateVersionAction \<Rightarrow> createVersion s
     | Deploy v \<Rightarrow> deployVersion v s
     | Undeploy \<Rightarrow> undeployVersion s
     | RequestDelete v \<Rightarrow> (requestDeleteVersion v s, [])
     | Delete \<Rightarrow> deleteVersion s
     | CloseDialog \<Rightarrow> (closeConfirmDialog s, [])
     | Confirm \<Rightarrow> confirmAction s
     | SetChatPanel b \<Rightarrow> (setChatPanelOpen b s, [])
     | ToggleChatPanel \<Rightarrow> (toggleChatPanel s, [])
     | SetTestChat c \<Rightarrow> (setTestChatState c s, [])
     | _ \<Rightarrow> (s, []))"

text \<open>
  The answers to the requests in flight come in any order. A page load starts a fresh store,
  and the answers of the old page's requests are lost.
\<close>

definition editor_step :: "editor_action \<Rightarrow> editor_system \<Rightarrow> editor_system" where
  "editor_step a sys = (case a of
       Answer i ans \<Rightarrow>
         if i < length (es_calls sys) \<and> fits (fst (es_calls sys ! i)) ans
         then
           let (q, fu) = es_calls sys ! i;
               sys1 = call_end q ans
                 (sys\<lparr>es_calls := take i (es_calls sys) @ drop (Suc i) (es_calls sys)\<rparr>)
           in sys1\<lparr>es_state := settle fu (es_calls sys1) (es_state sys1)\<rparr>
         else sys
     | Reload p \<Rightarrow> sys\<lparr>es_state := createInstructionsStore p, es_calls := []\<rparr>
     | _ \<Rightarrow> send (editor_act a (es_state sys)) sys)"

definition editor_run :: "editor_action list \<Rightarrow> editor_system \<Rightarrow> editor_system" where
  "editor_run as sys = fold editor_step as sys"

definition opened :: "persisted_editor option \<Rightarrow> editor_system" where
  "opened p = \<lparr>es_state = createInstructionsStore p, es_calls = [], es_next = 0\<rparr>"

inductive reachable_editor :: "editor_system \<Rightarrow> bool" where
  page_load: "reachable_editor (opened p)"
| action: "reachable_editor sys \<Longrightarrow> reachable_editor (editor_step a sys)"

lemma reachable_run: "reachable_editor sys \<Longrightarrow> reachable_editor (editor_run as sys)"
  by (induction as arbitrary: sys) (auto simp: editor_run_def intro: action)

end
