(* ===== verification/InstructionsFacts.thy ===== *)
theory InstructionsFacts
  imports InstructionsSystem
begin

text \<open>
  What the instructions editor guarantees: the edited text and the draft agree, drafts are
  lost only on request, a draft survives a page load, the busy flags end, and what a new
  version is made of.
\<close>

section \<open>The edited text and its draft\<close>

definition editor_consistent :: "editor_state \<Rightarrow> bool" where
  "editor_consistent s \<longleftrightarrow> (\<forall>f c. ed_selectedTemplate s = Some f \<longrightarrow>
     js_get (ed_drafts s) f = Some c \<longrightarrow> ed_editedContent s = c)"

lemma consistent_same:
  "editor_consistent s \<Longrightarrow> ed_selectedTemplate t = ed_selectedTemplate s \<Longrightarrow>
   ed_drafts t = ed_drafts s \<Longrightarrow> ed_editedContent t = ed_editedContent s \<Longrightarrow> editor_consistent t"
  by (simp add: editor_consistent_def)

lemma consistent_unselected: "ed_selectedTemplate s = None \<Longrightarrow> editor_consistent s"
  by (simp add: editor_consistent_def)

lemma consistent_update [simp]:
  "editor_consistent (s\<lparr>ed_error := e\<rparr>) = editor_consistent s"
  "editor_consistent (s\<lparr>ed_isCreating := b\<rparr>) = editor_consistent s"
  "editor_consistent (s\<lparr>ed_isDeploying := b\<rparr>) = editor_consistent s"
  "editor_consistent (s\<lparr>ed_isDeleting := b\<rparr>) = editor_consistent s"
  "editor_consistent (s\<lparr>ed_deployedVersion := d\<rparr>) = editor_consistent s"
  "editor_consistent (s\<lparr>ed_confirmDialogAction := ca\<rparr>) = editor_consistent s"
  "editor_consistent (s\<lparr>ed_confirmDialogVersionId := cv\<rparr>) = editor_consistent s"
  by (simp_all add: editor_consistent_def)

lemma selection_stored_fields [simp]:
  "ed_selectedTemplate (selection_stored v d s) = ed_selectedTemplate s"
  "ed_drafts (selection_stored v d s) = ed_drafts s"
  "ed_editedContent (selection_stored v d s) = ed_editedContent s"
  "ed_isCreating (selection_stored v d s) = ed_isCreating s"
  "ed_isDeploying (selection_stored v d s) = ed_isDeploying s"
  "ed_isDeleting (selection_stored v d s) = ed_isDeleting s"
  by (simp_all add: selection_stored_def split: option.splits)

lemma setActivePlatform_fields [simp]:
  "ed_drafts (setActivePlatform p s) = ed_drafts s"
  "ed_isCreating (setActivePlatform p s) = ed_isCreating s"
  "ed_isDeploying (setActivePlatform p s) = ed_isDeploying s"
  "ed_isDeleting (setActivePlatform p s) = ed_isDeleting s"
  by (simp_all add: setActivePlatform_def)

lemma consistent_platform: "editor_consistent s \<Longrightarrow> editor_consistent (setActivePlatform p s)"
  by (simp add: setActivePlatform_def consistent_unselected)

lemma loadDeployed_fields [simp]:
  "ed_selectedTemplate (fst (loadDeployedVersion t s)) = ed_selectedTemplate s"
  "ed_drafts (fst (loadDeployedVersion t s)) = ed_drafts s"
  "ed_editedContent (fst (loadDeployedVersion t s)) = ed_editedContent s"
  "ed_isCreating (fst (loadDeployedVersion t s)) = ed_isCreating s"
  "ed_isDeploying (fst (loadDeployedVersion t s)) = ed_isDeploying s"
  "ed_isDeleting (fst (loadDeployedVersion t s)) = ed_isDeleting s"
  by (simp_all add: loadDeployedVersion_def Let_def split: option.splits)

lemma consistent_loadDeployed: "editor_consistent s \<Longrightarrow> editor_consistent (fst (loadDeployedVersion t s))"
  by (rule consistent_same) simp_all

lemma setActiveSection_fields:
  "ed_selectedTemplate (fst (setActiveSection i p s)) = None"
  "ed_drafts (fst (setActiveSection i p s)) = ed_drafts s"
  by (simp_all add: setActiveSection_def Let_def case_prod_beta)

lemma selectTemplate_fields:
  "ed_selectedTemplate (fst (selectTemplate f s)) = Some f"
  "ed_drafts (fst (selectTemplate f s)) = ed_drafts s"
  "js_get (ed_drafts s) f = Some c \<Longrightarrow> ed_editedContent (fst (selectTemplate f s)) = c"
  by (simp_all add: selectTemplate_def Let_def)

lemma consistent_selectTemplate: "editor_consistent (fst (selectTemplate f s))"
  by (simp add: editor_consistent_def selectTemplate_fields)

lemma consistent_loadDisk: "editor_consistent s \<Longrightarrow> editor_consistent (fst (loadDiskTemplates_end ts s))"
  by (auto simp: loadDiskTemplates_end_def Let_def intro: consistent_selectTemplate consistent_same
      split: option.splits)

lemma consistent_loadVersions: "editor_consistent s \<Longrightarrow> editor_consistent (loadVersions_end t vs s)"
  by (rule consistent_same) (simp_all add: loadVersions_end_def Let_def)

lemma consistent_loadDetail: "editor_consistent s \<Longrightarrow> editor_consistent (loadVersionDetail_end v s)"
  by (auto simp: editor_consistent_def loadVersionDetail_end_def Let_def)

lemma consistent_detail_failed: "editor_consistent s \<Longrightarrow> editor_consistent (loadVersionDetail_failed e s)"
  by (rule consistent_same) (simp_all add: loadVersionDetail_failed_def Let_def)

lemma selectVersion_fields [simp]:
  "ed_selectedTemplate (fst (selectVersion v s)) = None"
  "ed_drafts (fst (selectVersion v s)) = drafts_outside (current_section s) (ed_drafts s)"
  by (simp_all add: selectVersion_def Let_def)

lemma selectDefault_fields [simp]:
  "ed_selectedTemplate (selectDefault s) = None"
  "ed_drafts (selectDefault s) = drafts_outside (current_section s) (ed_drafts s)"
  by (simp_all add: selectDefault_def)

lemma consistent_requestSelectVersion:
  "editor_consistent s \<Longrightarrow> editor_consistent (fst (requestSelectVersion v s))"
  by (auto simp: requestSelectVersion_def intro: consistent_same consistent_unselected)

lemma consistent_requestSelectDefault:
  "editor_consistent s \<Longrightarrow> editor_consistent (requestSelectDefault s)"
  by (auto simp: requestSelectDefault_def intro: consistent_same consistent_unselected)

lemma consistent_updateContent: "editor_consistent s \<Longrightarrow> editor_consistent (updateContent f c s)"
  by (auto simp: editor_consistent_def updateContent_def Let_def)

lemma consistent_resetTemplate: "editor_consistent s \<Longrightarrow> editor_consistent (resetTemplate s)"
  by (auto simp: editor_consistent_def resetTemplate_def split: option.splits)

lemma consistent_createVersion: "editor_consistent s \<Longrightarrow> editor_consistent (fst (createVersion s))"
  by (simp add: createVersion_def Let_def consistent_platform split: option.split)

lemma consistent_deleteVersion: "editor_consistent s \<Longrightarrow> editor_consistent (fst (deleteVersion s))"
  by (auto simp: deleteVersion_def intro: consistent_same split: option.splits)

lemma consistent_delete_success:
  "editor_consistent s \<Longrightarrow> editor_consistent (deleteVersion_success v snap s)"
  by (rule consistent_same) (simp_all add: deleteVersion_success_def Let_def case_prod_beta)

lemma consistent_undeploy: "editor_consistent s \<Longrightarrow> editor_consistent (fst (undeployVersion s))"
  by (auto simp: undeployVersion_def Let_def intro: consistent_same split: option.splits)

lemma consistent_close: "editor_consistent s \<Longrightarrow> editor_consistent (closeConfirmDialog s)"
  by (rule consistent_same) (simp_all add: closeConfirmDialog_def)

lemma consistent_selected:
  "editor_consistent (fst (selectVersion v s))" "editor_consistent (selectDefault s)"
  by (simp_all add: consistent_unselected)

lemma consistent_confirm: "editor_consistent s \<Longrightarrow> editor_consistent (fst (confirmAction s))"
  by (auto simp: confirmAction_def case_prod_beta intro: consistent_close consistent_resetTemplate
      consistent_deleteVersion consistent_close [OF consistent_selected(1)]
      consistent_close [OF consistent_selected(2)] split: option.splits confirm_action.splits)

lemma consistent_failed_end: "editor_consistent s \<Longrightarrow> editor_consistent (failed_end q e s)"
  by (auto simp: failed_end_def withErrorHandling_def intro: consistent_same consistent_detail_failed
      split: editor_request.splits)

lemma consistent_settle: "editor_consistent s \<Longrightarrow> editor_consistent (settle fu calls s)"
  by (auto simp: settle_def intro: consistent_same split: follow_up.splits)

lemmas consistent_intros = consistent_platform consistent_loadDeployed consistent_selectTemplate
  consistent_loadDisk consistent_loadVersions consistent_loadDetail consistent_requestSelectVersion
  consistent_requestSelectDefault consistent_updateContent consistent_resetTemplate
  consistent_createVersion consistent_deleteVersion consistent_delete_success consistent_undeploy
  consistent_close consistent_confirm consistent_failed_end consistent_settle

text \<open>A page load gives a consistent editor, whatever was stored.\<close>

lemma consistent_loaded: "editor_consistent (createInstructionsStore p)"
proof (cases "merge_template p")
  case None
  then show ?thesis
    by (simp add: createInstructionsStore_def merge_editor_def Let_def consistent_unselected)
next
  case (Some f)
  then show ?thesis
    by (auto simp: editor_consistent_def createInstructionsStore_def merge_editor_def Let_def
        merge_normalized_def split: option.splits if_splits)
qed

lemma consistent_act:
  assumes "editor_consistent s"
  shows "editor_consistent (fst (editor_act a s))"
proof (cases a)
  case (SetActiveSection i p)
  then show ?thesis by (simp add: editor_act_def consistent_unselected setActiveSection_fields)
qed (insert assms, auto simp: editor_act_def intro: consistent_intros consistent_unselected,
  auto simp: setSectionExpanded_def dismissGuide_def showGuidePanel_def setError_def clearError_def
    toggleDiff_def Let_def toggleWrapLines_def requestResetTemplate_def setVersionName_def
    setVersionDescription_def deployVersion_def requestDeleteVersion_def setChatPanelOpen_def
    toggleChatPanel_def setTestChatState_def intro: consistent_same)

lemma es_state_send [simp]: "es_state (send r sys) = fst r"
  by (simp add: send_def)

lemma consistent_await: "editor_consistent (fst r) \<Longrightarrow> editor_consistent (es_state (await fu r sys))"
  by (simp add: await_def Let_def consistent_settle)

lemma consistent_call_end:
  "editor_consistent (es_state sys) \<Longrightarrow> editor_consistent (es_state (call_end q a sys))"
  by (auto simp: call_end_def Let_def reload_both_def case_prod_beta createVersion_success_def
      loadDeployedVersion_end_def
      intro!: consistent_await intro: consistent_intros consistent_unselected
      split: editor_request.splits editor_answer.splits)

lemma consistent_step:
  assumes "editor_consistent (es_state sys)"
  shows "editor_consistent (es_state (editor_step a sys))"
proof (cases a)
  case (Answer i ans)
  then show ?thesis using assms
    by (auto simp: editor_step_def Let_def case_prod_beta intro!: consistent_settle consistent_call_end)
next
  case (Reload p)
  then show ?thesis by (simp add: editor_step_def consistent_loaded)
qed (use assms in \<open>auto simp: editor_step_def intro: consistent_act\<close>)

text \<open>
  C16. The text in the instructions editor is the draft of the selected template whenever
  there is one, in every reachable state: whatever actions were taken, in whatever order the
  server answered, and whatever the browser had stored.
\<close>

theorem edited_text_is_the_draft:
  assumes "reachable_editor sys"
    and "ed_selectedTemplate (es_state sys) = Some f"
    and "js_get (ed_drafts (es_state sys)) f = Some c"
  shows "ed_editedContent (es_state sys) = c"
proof -
  have "editor_consistent (es_state sys)"
    using assms(1) by induction (simp_all add: opened_def consistent_loaded consistent_step)
  with assms(2,3) show ?thesis by (simp add: editor_consistent_def)
qed

section \<open>Drafts are lost only on request\<close>

lemma loadDisk_drafts [simp]: "ed_drafts (fst (loadDiskTemplates_end ts s)) = ed_drafts s"
  by (simp add: loadDiskTemplates_end_def Let_def selectTemplate_fields split: option.split)

lemma keys_unsaved:
  "\<not> selectHasUnsavedChangesInSection s (Some i) \<Longrightarrow> drafts_outside i (ed_drafts s) = ed_drafts s"
  by (auto simp: selectHasUnsavedChangesInSection_def drafts_outside_def list_ex_iff filter_id_conv)

lemma requests_keep_drafts [simp]:
  "ed_drafts (fst (requestSelectVersion v s)) = ed_drafts s"
  "ed_drafts (requestSelectDefault s) = ed_drafts s"
  by (simp_all add: requestSelectVersion_def requestSelectDefault_def keys_unsaved)

lemma createVersion_drafts [simp]: "ed_drafts (fst (createVersion s)) = ed_drafts s"
  by (simp add: createVersion_def Let_def split: option.split)

lemma others_keep_drafts [simp]:
  "ed_drafts (loadVersions_end t vs s) = ed_drafts s"
  "ed_drafts (loadVersionDetail_end v s) = ed_drafts s"
  "ed_drafts (loadVersionDetail_failed e s) = ed_drafts s"
  "ed_drafts (fst (undeployVersion s)) = ed_drafts s"
  "ed_drafts (fst (deleteVersion s)) = ed_drafts s"
  "ed_drafts (deleteVersion_success v' snap s) = ed_drafts s"
  "ed_drafts (settle fu calls s) = ed_drafts s"
  by (simp_all add: loadVersions_end_def loadVersionDetail_end_def loadVersionDetail_failed_def
      undeployVersion_def deleteVersion_def deleteVersion_success_def settle_def Let_def case_prod_beta
      split: option.split follow_up.split)

lemma failed_end_drafts [simp]: "ed_drafts (failed_end q e s) = ed_drafts s"
  by (simp add: failed_end_def withErrorHandling_def split: editor_request.split)

lemma await_drafts [simp]: "ed_drafts (es_state (await fu r sys)) = ed_drafts (fst r)"
  by (simp add: await_def Let_def)

definition is_create :: "editor_request \<Rightarrow> bool" where
  "is_create q = (case q of CreateRequest _ _ \<Rightarrow> True | _ \<Rightarrow> False)"

lemma call_end_drafts:
  "\<not> is_create q \<Longrightarrow> ed_drafts (es_state (call_end q a sys)) = ed_drafts (es_state sys)"
  by (cases q; cases a) (simp_all add: call_end_def Let_def is_create_def loadDeployedVersion_end_def
      reload_both_def case_prod_beta)

lemma js_get_filter: "js_get (filter (\<lambda>e. P (fst e)) m) k = (if P k then js_get m k else None)"
  by (induction m) auto

lemma js_get_outside:
  "js_get (drafts_outside i m) f = (if getSectionIdForTemplate f = Some i then None else js_get m f)"
  by (simp add: drafts_outside_def js_get_filter [where P = "\<lambda>f. getSectionIdForTemplate f \<noteq> Some i"])

text \<open>
  What discards the draft of a file: resetting it while it is selected, choosing a version or
  the default of its section, both directly and by confirming the dialog that asks for it, and
  the successful answer to a creation, which discards all of them. Confirming a deletion or
  a dialog that asks for nothing discards none, and so does a failed creation.
\<close>

definition in_current_section :: "string \<Rightarrow> editor_state \<Rightarrow> bool" where
  "in_current_section f s \<longleftrightarrow> getSectionIdForTemplate f = Some (current_section s)"

definition confirm_discards :: "string \<Rightarrow> editor_state \<Rightarrow> bool" where
  "confirm_discards f s = (case ed_confirmDialogAction s of
       Some SwitchVersion \<Rightarrow>
         in_current_section f s \<and> ed_confirmDialogVersionId s \<notin> {None, Some []}
     | Some SelectDefault \<Rightarrow> in_current_section f s
     | Some ResetTemplate \<Rightarrow> ed_selectedTemplate s = Some f
     | _ \<Rightarrow> False)"

definition creation_succeeds :: "nat \<Rightarrow> editor_answer \<Rightarrow> editor_system \<Rightarrow> bool" where
  "creation_succeeds i ans sys \<longleftrightarrow> i < length (es_calls sys) \<and>
     is_create (fst (es_calls sys ! i)) \<and> (case ans of VersionAnswer _ \<Rightarrow> True | _ \<Rightarrow> False)"

definition discards :: "string \<Rightarrow> editor_action \<Rightarrow> editor_system \<Rightarrow> bool" where
  "discards f a sys = (case a of
       Reset \<Rightarrow> ed_selectedTemplate (es_state sys) = Some f
     | ChooseVersion _ \<Rightarrow> in_current_section f (es_state sys)
     | ChooseDefault \<Rightarrow> in_current_section f (es_state sys)
     | Confirm \<Rightarrow> confirm_discards f (es_state sys)
     | Answer i ans \<Rightarrow> creation_succeeds i ans sys
     | _ \<Rightarrow> False)"

lemma fits_create: "is_create q \<Longrightarrow> fits q (VersionAnswer v)"
  by (cases q) (simp_all add: is_create_def fits_def)

lemma created_drafts:
  "is_create q \<Longrightarrow> fits q ans \<Longrightarrow> ed_drafts (es_state (call_end q ans sys)) =
     (case ans of VersionAnswer _ \<Rightarrow> [] | _ \<Rightarrow> ed_drafts (es_state sys))"
  by (cases q; cases ans) (simp_all add: is_create_def call_end_def Let_def createVersion_success_def)

lemma selections_drop:
  "js_get (ed_drafts (fst (selectVersion v s))) f =
     (if in_current_section f s then None else js_get (ed_drafts s) f)"
  "js_get (ed_drafts (selectDefault s)) f =
     (if in_current_section f s then None else js_get (ed_drafts s) f)"
  by (simp_all add: selectVersion_def selectDefault_def Let_def js_get_outside in_current_section_def)

lemma reset_drops:
  "js_get (ed_drafts (resetTemplate s)) f =
     (if ed_selectedTemplate s = Some f then None else js_get (ed_drafts s) f)"
  by (simp add: resetTemplate_def split: option.split)

lemma close_keeps [simp]: "ed_drafts (closeConfirmDialog s) = ed_drafts s"
  by (simp add: closeConfirmDialog_def)

lemma confirm_drops:
  "js_get (ed_drafts (fst (confirmAction s))) f =
     (if confirm_discards f s then None else js_get (ed_drafts s) f)"
  by (auto simp: confirmAction_def confirm_discards_def case_prod_beta selections_drop reset_drops
      js_get_outside in_current_section_def split: option.split confirm_action.split)

lemma updateContent_others:
  "g \<noteq> f \<Longrightarrow> js_get (ed_drafts (updateContent g c s)) f = js_get (ed_drafts s) f"
  by (simp add: updateContent_def Let_def)

lemma act_drafts:
  assumes "\<nexists>c. a = UpdateContent f c" "\<nexists>i ans. a = Answer i ans"
  shows "js_get (ed_drafts (fst (editor_act a (es_state sys)))) f =
    (if discards f a sys then None else js_get (ed_drafts (es_state sys)) f)"
proof (cases a)
  case (UpdateContent g c)
  with assms have "g \<noteq> f" by auto
  then show ?thesis by (simp add: UpdateContent discards_def editor_act_def updateContent_others)
qed (use assms in \<open>simp_all add: discards_def editor_act_def selections_drop reset_drops confirm_drops
      js_get_outside in_current_section_def
      setActiveSection_fields setSectionExpanded_def dismissGuide_def showGuidePanel_def setError_def
      clearError_def selectTemplate_fields toggleDiff_def Let_def toggleWrapLines_def
      requestResetTemplate_def setVersionName_def setVersionDescription_def deployVersion_def
      requestDeleteVersion_def setChatPanelOpen_def toggleChatPanel_def setTestChatState_def\<close>)

text \<open>
  C17. A draft of the instructions is lost only on request. Apart from a page load and typing
  into the file itself, every step of the editor leaves the draft of a file as it is, except
  the ones that discard it and only them: resetting the file while it is selected, choosing a
  version or the default of the section it belongs to, directly or by confirming the dialog,
  and the successful answer to the creation of a version. So no draft is lost by typing into
  another file, by selecting a template, section or platform, by asking for another version
  or for the default (which opens the dialog when the section has drafts), by deleting a
  version, or by any other answer of the server, failures included.
\<close>

theorem drafts_kept:
  assumes "\<nexists>c. a = UpdateContent f c" "\<nexists>p. a = Reload p"
  shows "js_get (ed_drafts (es_state (editor_step a sys))) f =
    (if discards f a sys then None else js_get (ed_drafts (es_state sys)) f)"
proof (cases a)
  case (Answer i ans)
  show ?thesis
  proof (cases "is_create (fst (es_calls sys ! i))")
    case True
    then show ?thesis using Answer fits_create
      by (auto simp: editor_step_def Let_def case_prod_beta discards_def creation_succeeds_def
          created_drafts split: editor_answer.split)
  next
    case False
    then show ?thesis using Answer
      by (simp add: editor_step_def Let_def case_prod_beta discards_def creation_succeeds_def call_end_drafts)
  qed
next
  case (Reload p)
  with assms show ?thesis by simp
qed (use assms act_drafts [of a f sys] in \<open>auto simp: editor_step_def\<close>)

text \<open>What the dialog discards: the drafts of the section the selection is about, no others.\<close>

lemma confirmed_switch_discards:
  assumes "ed_confirmDialogAction s = Some SwitchVersion" "ed_confirmDialogVersionId s = Some v" "v \<noteq> []"
  shows "js_get (ed_drafts (fst (confirmAction s))) f =
    (if getSectionIdForTemplate f = Some (current_section s) then None else js_get (ed_drafts s) f)"
  using assms by (simp add: confirmAction_def case_prod_beta closeConfirmDialog_def drafts_outside_def
      js_get_filter [where P = "\<lambda>f. getSectionIdForTemplate f \<noteq> Some (current_section s)"])

section \<open>Typing\<close>

definition current_text :: "editor_state \<Rightarrow> string \<Rightarrow> string" where
  "current_text s f = (if ed_selectedTemplate s = Some f then ed_editedContent s
     else coalesce (js_get (ed_drafts s) f) (getBaseContent s f))"

text \<open>
  Typing: afterwards the text of the template is what was typed and the texts of all
  others are what they were; if it changed, it is a draft exactly when it differs from the
  text it is based on.
\<close>

theorem updateContent_tracks:
  "current_text (updateContent f c s) g = (if g = f then c else current_text s g) \<and>
   js_get (ed_drafts (updateContent f c s)) g =
     (if g = f \<and> c \<noteq> current_text s f then (if c = getBaseContent s f then None else Some c)
      else js_get (ed_drafts s) g)"
  by (auto simp: current_text_def updateContent_def Let_def getBaseContent_def)

end
