(* ===== verification/InstructionsOutcomes.thy ===== *)
theory InstructionsOutcomes
  imports InstructionsFacts
begin

text \<open>
  The outcomes of the editor's longer actions: what a new version is made of and when it is
  refused, that the busy flags end with the requests, what a page load keeps, and runs in
  which answers arrive late.
\<close>

section \<open>Creating a version\<close>

lemma template_map_sound:
  "template_map ts f = Some t \<Longrightarrow> pf_filename t = f \<and> t \<in> set ts"
  unfolding template_map_def by (drule map_of_SomeD) auto

lemma map_filter_full:
  "length (List.map_filter g xs) = length xs \<Longrightarrow> map Some (List.map_filter g xs) = map g xs"
proof (induction xs)
  case (Cons x xs)
  have "length (List.map_filter g xs) \<le> length xs" by (simp add: List.map_filter_def)
  with Cons show ?case by (cases "g x") (auto simp: List.map_filter_def)
qed (simp add: List.map_filter_def)

lemma templates_named:
  assumes "length (List.map_filter (template_map ts) fs) = length fs"
  shows "map pf_filename (List.map_filter (template_map ts) fs) = fs"
proof -
  have "map Some (List.map_filter (template_map ts) fs) = map (template_map ts) fs"
    by (rule map_filter_full) (rule assms)
  then show ?thesis
    by (induction fs) (auto simp: List.map_filter_def template_map_sound split: option.splits)
qed

text \<open>
  A sound payload for section \<open>target\<close>: all files of its scope in order, each with its
  draft or else the text on disk, at least one of them a draft, under a name that is not blank.
\<close>

definition sound_payload :: "editor_state \<Rightarrow> ident \<Rightarrow> version_create \<Rightarrow> bool" where
  "sound_payload s target d \<longleftrightarrow>
     getScopeForSectionId (Some target) = Some (vc_scope d) \<and>
     (let p = (if vc_is_internal d then Internal else Public)
      in p = coalesce (getPlatformForSectionId (Some target)) (ed_activePlatform s) \<and>
         map pf_filename (vc_prompts d) = getTemplateFilenamesForScope (vc_scope d) p) \<and>
     (\<forall>x \<in> set (vc_prompts d). \<exists>t \<in> set (ed_diskTemplates s). pf_filename t = pf_filename x \<and>
        pf_content x = coalesce (js_get (ed_drafts s) (pf_filename x)) (pf_content t)) \<and>
     (\<exists>x \<in> set (vc_prompts d). js_has (ed_drafts s) (pf_filename x)) \<and>
     trim (vc_name d) \<noteq> []"

lemma platform_of_flag: "(if p = Internal then Internal else Public) = p"
  by (cases p) simp_all

lemma payload_is_sound:
  assumes "trim (ed_versionName s) \<noteq> []"
    and "getScopeForSectionId (Some target) = Some scope"
    and "p = coalesce (getPlatformForSectionId (Some target)) (ed_activePlatform s)"
    and "filter (\<lambda>f. f \<in> set (getTemplateFilenamesForScope scope p)) (js_keys (ed_drafts s)) \<noteq> []"
    and "length (List.map_filter (template_map (ed_diskTemplates s)) (getTemplateFilenamesForScope scope p))
      = length (getTemplateFilenamesForScope scope p)"
  shows "sound_payload s target (version_payload s p scope
    (List.map_filter (template_map (ed_diskTemplates s)) (getTemplateFilenamesForScope scope p)))"
proof -
  let ?ts = "List.map_filter (template_map (ed_diskTemplates s)) (getTemplateFilenamesForScope scope p)"
  have names: "map pf_filename ?ts = getTemplateFilenamesForScope scope p"
    by (rule templates_named) (rule assms(5))
  have disk: "t \<in> set (ed_diskTemplates s)" if "t \<in> set ?ts" for t
    using that by (auto simp: List.map_filter_def dest: template_map_sound)
  let ?d = "version_payload s p scope ?ts"
  have prompts: "vc_prompts ?d = map (\<lambda>t. \<lparr>pf_filename = pf_filename t,
      pf_content = coalesce (js_get (ed_drafts s) (pf_filename t)) (pf_content t)\<rparr>) ?ts"
    by (simp add: version_payload_def)
  obtain f where f: "f \<in> set (js_keys (ed_drafts s))" "f \<in> set (map pf_filename ?ts)"
    using assms(4) unfolding names by (metis (no_types, lifting) filter_False)
  have "js_has (ed_drafts s) f" using f(1) by (simp only: js_has_iff)
  then have drafted: "\<exists>x \<in> set (vc_prompts ?d). js_has (ed_drafts s) (pf_filename x)"
    using f(2) by (auto simp: prompts)
  have "\<forall>x \<in> set (vc_prompts ?d). \<exists>t \<in> set (ed_diskTemplates s). pf_filename t = pf_filename x \<and>
      pf_content x = coalesce (js_get (ed_drafts s) (pf_filename x)) (pf_content t)"
    using disk by (auto simp only: prompts set_map image_iff prompt_file.simps)
  moreover have "map pf_filename (vc_prompts ?d) = getTemplateFilenamesForScope scope p"
    using names by (simp add: prompts comp_def)
  ultimately show ?thesis
    using drafted assms(1,2)
    by (simp add: sound_payload_def Let_def platform_of_flag assms(3) version_payload_def)
qed

text \<open>
  C15. Creating a version either sends nothing, reports an error and leaves the drafts and
  the busy flag alone, or sends exactly one request, whose payload is sound: it has every
  file of one section's scope, in order, with its draft or else its text on disk, at least
  one of them a draft, and a name that is not blank.
\<close>

theorem createVersion_sends_sound_payload:
  "case snd (createVersion s) of
     [] \<Rightarrow> ed_error (fst (createVersion s)) \<noteq> None \<and>
       ed_drafts (fst (createVersion s)) = ed_drafts s \<and>
       ed_isCreating (fst (createVersion s)) = ed_isCreating s
   | [CreateRequest target d] \<Rightarrow> sound_payload s target d \<and>
       ed_isCreating (fst (createVersion s)) \<and> ed_error (fst (createVersion s)) = None
   | _ \<Rightarrow> False"
  by (simp add: createVersion_def Let_def payload_is_sound del: filter_empty_conv split: option.split)

section \<open>The busy flags\<close>

definition creating_call :: "(editor_request \<times> follow_up) \<Rightarrow> bool" where
  "creating_call c \<longleftrightarrow> is_create (fst c) \<or> snd c = CreatingFollowUp"

definition deploying_call :: "(editor_request \<times> follow_up) \<Rightarrow> bool" where
  "deploying_call c \<longleftrightarrow>
     (case fst c of DeployRequest _ _ \<Rightarrow> True | UndeployRequest _ _ _ \<Rightarrow> True | _ \<Rightarrow> False) \<or>
     (case snd c of DeployingFollowUp _ \<Rightarrow> True | _ \<Rightarrow> False)"

definition deleting_call :: "(editor_request \<times> follow_up) \<Rightarrow> bool" where
  "deleting_call c \<longleftrightarrow>
     (case fst c of DeleteRequest _ _ \<Rightarrow> True | _ \<Rightarrow> False) \<or> snd c = DeletingFollowUp"

definition busy_ok :: "editor_state \<Rightarrow> (editor_request \<times> follow_up) list \<Rightarrow> bool" where
  "busy_ok s calls \<longleftrightarrow>
     (ed_isCreating s \<longrightarrow> list_ex creating_call calls) \<and>
     (ed_isDeploying s \<longrightarrow> list_ex deploying_call calls) \<and>
     (ed_isDeleting s \<longrightarrow> list_ex deleting_call calls)"

lemmas call_kinds = creating_call_def deploying_call_def deleting_call_def is_create_def

lemma busy_ok_more:
  "busy_ok s calls \<Longrightarrow> ed_isCreating t = ed_isCreating s \<Longrightarrow> ed_isDeploying t = ed_isDeploying s \<Longrightarrow>
   ed_isDeleting t = ed_isDeleting s \<Longrightarrow> busy_ok t (calls @ extra)"
  by (auto simp: busy_ok_def)

lemma busy_flags_keep [simp]:
  "ed_isCreating (fst (selectTemplate f s)) = ed_isCreating s"
  "ed_isDeploying (fst (selectTemplate f s)) = ed_isDeploying s"
  "ed_isDeleting (fst (selectTemplate f s)) = ed_isDeleting s"
  "ed_isCreating (fst (selectVersion v s)) = ed_isCreating s"
  "ed_isDeploying (fst (selectVersion v s)) = ed_isDeploying s"
  "ed_isDeleting (fst (selectVersion v s)) = ed_isDeleting s"
  "ed_isCreating (selectDefault s) = ed_isCreating s"
  "ed_isDeploying (selectDefault s) = ed_isDeploying s"
  "ed_isDeleting (selectDefault s) = ed_isDeleting s"
  by (simp_all add: selectTemplate_def selectVersion_def selectDefault_def Let_def split: option.split)

lemma busy_flags_load [simp]:
  "ed_isCreating (loadVersions_end t vs s) = ed_isCreating s"
  "ed_isDeploying (loadVersions_end t vs s) = ed_isDeploying s"
  "ed_isDeleting (loadVersions_end t vs s) = ed_isDeleting s"
  "ed_isCreating (loadVersionDetail_end v s) = ed_isCreating s"
  "ed_isDeploying (loadVersionDetail_end v s) = ed_isDeploying s"
  "ed_isDeleting (loadVersionDetail_end v s) = ed_isDeleting s"
  "ed_isCreating (fst (loadDiskTemplates_end ts s)) = ed_isCreating s"
  "ed_isDeploying (fst (loadDiskTemplates_end ts s)) = ed_isDeploying s"
  "ed_isDeleting (fst (loadDiskTemplates_end ts s)) = ed_isDeleting s"
  "ed_isCreating (fst (setActiveSection i p s)) = ed_isCreating s"
  "ed_isDeploying (fst (setActiveSection i p s)) = ed_isDeploying s"
  "ed_isDeleting (fst (setActiveSection i p s)) = ed_isDeleting s"
  "ed_isCreating (resetTemplate s) = ed_isCreating s"
  "ed_isDeploying (resetTemplate s) = ed_isDeploying s"
  "ed_isDeleting (resetTemplate s) = ed_isDeleting s"
  "ed_isCreating (closeConfirmDialog s) = ed_isCreating s"
  "ed_isDeploying (closeConfirmDialog s) = ed_isDeploying s"
  "ed_isDeleting (closeConfirmDialog s) = ed_isDeleting s"
  "ed_isCreating (deleteVersion_success v' snap s) = ed_isCreating s"
  "ed_isDeploying (deleteVersion_success v' snap s) = ed_isDeploying s"
  "ed_isDeleting (deleteVersion_success v' snap s) = ed_isDeleting s"
  by (simp_all add: loadVersions_end_def loadVersionDetail_end_def loadDiskTemplates_end_def
      setActiveSection_def resetTemplate_def closeConfirmDialog_def deleteVersion_success_def
      Let_def case_prod_beta split: option.split)

text \<open>An action sends the request its flag stands for.\<close>

lemma busy_act:
  assumes "busy_ok s calls"
  shows "busy_ok (fst (editor_act a s)) (calls @ map (\<lambda>q. (q, NoFollowUp)) (snd (editor_act a s)))"
proof (cases a)
  case CreateVersionAction
  with assms show ?thesis
    by (auto simp: editor_act_def createVersion_def Let_def busy_ok_def call_kinds split: option.split)
next
  case (Deploy v)
  with assms show ?thesis by (auto simp: editor_act_def deployVersion_def busy_ok_def call_kinds)
next
  case Undeploy
  with assms show ?thesis
    by (auto simp: editor_act_def undeployVersion_def Let_def busy_ok_def call_kinds split: option.split)
next
  case Delete
  with assms show ?thesis
    by (auto simp: editor_act_def deleteVersion_def busy_ok_def call_kinds split: option.split)
next
  case Confirm
  with assms show ?thesis
    by (auto simp: editor_act_def confirmAction_def case_prod_beta deleteVersion_def busy_ok_def call_kinds
        split: option.split confirm_action.split)
next
  case (RequestSelectVersion v)
  with assms show ?thesis
    by (auto simp: editor_act_def requestSelectVersion_def busy_ok_def)
next
  case RequestSelectDefault
  with assms show ?thesis by (auto simp: editor_act_def requestSelectDefault_def busy_ok_def)
qed (intro busy_ok_more [OF assms]; simp add: editor_act_def setActivePlatform_def setSectionExpanded_def
  dismissGuide_def showGuidePanel_def setError_def clearError_def updateContent_def toggleDiff_def
  Let_def toggleWrapLines_def requestResetTemplate_def setVersionName_def setVersionDescription_def
  requestDeleteVersion_def setChatPanelOpen_def toggleChatPanel_def setTestChatState_def)+

text \<open>
  What holds between taking an answered call off the list and settling it: the calls and the
  one answered account for the flags.
\<close>

lemma busy_send:
  "busy_ok (es_state sys) (es_calls sys) \<Longrightarrow>
   busy_ok (es_state (send (editor_act a (es_state sys)) sys)) (es_calls (send (editor_act a (es_state sys)) sys))"
  by (simp add: send_def busy_act)

lemma settle_flags:
  "ed_isCreating (settle fu calls s) \<longleftrightarrow> ed_isCreating s \<and> fu \<noteq> CreatingFollowUp"
  "ed_isDeploying (settle fu calls s) \<longleftrightarrow> ed_isDeploying s \<and>
     ((\<exists>g. fu = DeployingFollowUp g) \<longrightarrow> list_ex (\<lambda>c. snd c = fu) calls)"
  "ed_isDeleting (settle fu calls s) \<longleftrightarrow> ed_isDeleting s \<and> fu \<noteq> DeletingFollowUp"
  by (simp_all add: settle_def split: follow_up.split)

definition accounted :: "editor_state \<Rightarrow> follow_up \<Rightarrow> (editor_request \<times> follow_up) list \<Rightarrow> bool" where
  "accounted s fu calls \<longleftrightarrow>
     (ed_isCreating s \<longrightarrow> fu = CreatingFollowUp \<or> list_ex creating_call calls) \<and>
     (ed_isDeploying s \<longrightarrow> (\<exists>g. fu = DeployingFollowUp g) \<or> list_ex deploying_call calls) \<and>
     (ed_isDeleting s \<longrightarrow> fu = DeletingFollowUp \<or> list_ex deleting_call calls)"

lemma group_deploys: "list_ex (\<lambda>c. snd c = DeployingFollowUp g) calls \<Longrightarrow> list_ex deploying_call calls"
  by (induction calls) (auto simp: deploying_call_def)

lemma busy_settle: "accounted s fu calls \<Longrightarrow> busy_ok (settle fu calls s) calls"
  by (auto simp: accounted_def busy_ok_def settle_flags dest: group_deploys)

lemma accounted_more:
  "accounted s fu calls \<Longrightarrow> ed_isCreating t \<le> ed_isCreating s \<Longrightarrow> ed_isDeploying t \<le> ed_isDeploying s \<Longrightarrow>
   ed_isDeleting t \<le> ed_isDeleting s \<Longrightarrow> accounted t fu (calls @ extra)"
  by (auto simp: accounted_def)

text \<open>An answered request that stands for no flag leaves the account to the others.\<close>

lemma busy_cons:
  "busy_ok s ((q, fu) # calls) \<Longrightarrow>
   accounted (s\<lparr>ed_isCreating := ed_isCreating s \<and> \<not> is_create q,
     ed_isDeploying := ed_isDeploying s \<and> \<not> deploying_call (q, NoFollowUp),
     ed_isDeleting := ed_isDeleting s \<and> \<not> deleting_call (q, NoFollowUp)\<rparr>) fu calls"
  by (auto simp: busy_ok_def accounted_def creating_call_def deploying_call_def deleting_call_def
      split: follow_up.splits)

lemma failed_end_flags:
  "ed_isCreating (failed_end q e s) \<longleftrightarrow> ed_isCreating s \<and> \<not> is_create q"
  "ed_isDeploying (failed_end q e s) \<longleftrightarrow> ed_isDeploying s \<and> \<not> deploying_call (q, NoFollowUp)"
  "ed_isDeleting (failed_end q e s) \<longleftrightarrow> ed_isDeleting s \<and> \<not> deleting_call (q, NoFollowUp)"
  by (simp_all add: failed_end_def withErrorHandling_def loadVersionDetail_failed_def Let_def
      call_kinds split: editor_request.split)

lemma await_calls: "es_calls (await fu r sys) = es_calls sys @ map (\<lambda>q. (q, fu)) (snd r)"
  by (simp add: await_def Let_def)

lemma await_state:
  "es_state (await fu r sys) = (if snd r = [] then settle fu (es_calls sys) (fst r) else fst r)"
  by (simp add: await_def Let_def)

lemma accounted_await:
  assumes "accounted s fu calls"
    and "ed_isCreating (fst r) \<le> ed_isCreating s \<or> g = CreatingFollowUp"
    and "ed_isDeploying (fst r) \<le> ed_isDeploying s \<or> (\<exists>n. g = DeployingFollowUp n)"
    and "ed_isDeleting (fst r) \<le> ed_isDeleting s \<or> g = DeletingFollowUp"
    and "es_calls sys = calls"
  shows "accounted (es_state (await g r sys)) fu (es_calls (await g r sys))"
proof (cases "snd r")
  case Nil
  with assms show ?thesis
    by (auto simp: await_state await_calls accounted_def settle_flags dest: group_deploys)
next
  case (Cons q qs)
  with assms show ?thesis
    by (auto simp: await_state await_calls accounted_def call_kinds)
qed

lemma accounted_send:
  assumes "accounted s fu calls" "es_calls sys = calls"
    and "ed_isCreating (fst r) \<le> ed_isCreating s" "ed_isDeploying (fst r) \<le> ed_isDeploying s"
    and "ed_isDeleting (fst r) \<le> ed_isDeleting s"
  shows "accounted (es_state (send r sys)) fu (es_calls (send r sys))"
  using assms by (auto simp: send_def accounted_def)

lemma reload_both_flags [simp]:
  "ed_isCreating (fst (reload_both t s)) = ed_isCreating s"
  "ed_isDeploying (fst (reload_both t s)) = ed_isDeploying s"
  "ed_isDeleting (fst (reload_both t s)) = ed_isDeleting s"
  by (simp_all add: reload_both_def case_prod_beta)

lemma call_end_failed:
  "call_end q (Failed e) sys = send (failed_end q e (es_state sys), []) sys"
  by (cases q) (simp_all add: call_end_def)

lemma call_end_accounted:
  assumes "busy_ok (es_state sys) ((q, fu) # es_calls sys)" "fits q a"
  shows "accounted (es_state (call_end q a sys)) fu (es_calls (call_end q a sys))"
proof (cases a)
  case (Failed e)
  then show ?thesis
    unfolding Failed call_end_failed
    by (intro accounted_send [OF busy_cons [OF assms(1)]]) (simp_all add: failed_end_flags)
next
  case (DiskTemplatesAnswer ts)
  with assms(2) show ?thesis
    by (simp add: fits_def call_end_def accounted_send [OF busy_cons [OF assms(1)]] call_kinds del: es_state_send)
next
  case (VersionsAnswer vs)
  with assms(2) show ?thesis
    by (cases q) (simp_all add: fits_def call_end_def accounted_send [OF busy_cons [OF assms(1)]] call_kinds del: es_state_send)
next
  case (DeployedAnswer v)
  with assms(2) show ?thesis
    by (cases q) (simp_all add: fits_def call_end_def loadDeployedVersion_end_def
        accounted_send [OF busy_cons [OF assms(1)]] accounted_await [OF busy_cons [OF assms(1)]] call_kinds del: es_state_send)
next
  case (VersionAnswer v)
  with assms(2) show ?thesis
    by (cases q) (simp_all add: fits_def call_end_def Let_def createVersion_success_def
        accounted_send [OF busy_cons [OF assms(1)]] accounted_await [OF busy_cons [OF assms(1)]] call_kinds del: es_state_send)
next
  case EmptyAnswer
  with assms(2) show ?thesis
    by (cases q) (simp_all add: fits_def call_end_def Let_def
        accounted_await [OF busy_cons [OF assms(1)]] call_kinds del: es_state_send)
qed

lemma busy_ok_moved:
  "i < length calls \<Longrightarrow> busy_ok s calls \<Longrightarrow> busy_ok s (calls ! i # take i calls @ drop (Suc i) calls)"
  by (subst (asm) (2) id_take_nth_drop [of i calls]) (auto simp: busy_ok_def)

lemma busy_step:
  assumes "busy_ok (es_state sys) (es_calls sys)"
  shows "busy_ok (es_state (editor_step a sys)) (es_calls (editor_step a sys))"
proof (cases a)
  case (Answer i ans)
  show ?thesis
  proof (cases "i < length (es_calls sys) \<and> fits (fst (es_calls sys ! i)) ans")
    case True
    obtain q fu where c: "es_calls sys ! i = (q, fu)" by fastforce
    let ?sys = "sys\<lparr>es_calls := take i (es_calls sys) @ drop (Suc i) (es_calls sys)\<rparr>"
    have "busy_ok (es_state ?sys) ((q, fu) # es_calls ?sys)"
      using busy_ok_moved [of i "es_calls sys"] True assms c by simp
    with True c have "accounted (es_state (call_end q ans ?sys)) fu (es_calls (call_end q ans ?sys))"
      by (intro call_end_accounted) simp_all
    with True c Answer show ?thesis by (simp add: editor_step_def Let_def busy_settle)
  next
    case False
    then have "editor_step a sys = sys"
      unfolding editor_step_def Answer editor_action.case by (rule if_not_P)
    with assms show ?thesis by simp
  qed
next
  case (Reload p)
  then show ?thesis
    by (simp add: editor_step_def busy_ok_def createInstructionsStore_def merge_editor_def Let_def
        createInitialInstructionsState_def)
qed (use assms busy_send in \<open>simp_all add: editor_step_def\<close>)

text \<open>
  C18. The busy flags end: in every reachable state the editor is creating, deploying or
  deleting only while a request of that action, or a load it waits for, is unanswered; with
  no request in flight none of the flags is set.
\<close>

theorem busy_only_while_waiting:
  assumes "reachable_editor sys"
  shows "busy_ok (es_state sys) (es_calls sys) \<and>
    (es_calls sys = [] \<longrightarrow> \<not> ed_isCreating (es_state sys) \<and> \<not> ed_isDeploying (es_state sys) \<and>
       \<not> ed_isDeleting (es_state sys))"
proof -
  have "busy_ok (es_state sys) (es_calls sys)"
    using assms
  proof induction
    case (page_load p)
    then show ?case
      by (simp add: opened_def busy_ok_def createInstructionsStore_def merge_editor_def Let_def
          createInitialInstructionsState_def)
  qed (rule busy_step)
  then show ?thesis by (auto simp: busy_ok_def)
qed

section \<open>Page loads\<close>

lemma js_get_entries: "js_get (filterInternalTemplateEntries m) f =
    (if getPlatformForFilename f = Internal \<and> getSectionIdForTemplate f \<noteq> None then js_get m f else None)"
  unfolding filterInternalTemplateEntries_def
  by (rule js_get_filter [where P = "\<lambda>f. getPlatformForFilename f = Internal \<and> getSectionIdForTemplate f \<noteq> None"])

text \<open>
  A page load keeps the drafts: what the editor stored gives back, for every template of
  the internal sections, exactly the draft it had, in every reachable state.
\<close>

theorem reload_keeps_drafts:
  assumes "reachable_editor sys" "getPlatformForFilename f = Internal" "getSectionIdForTemplate f \<noteq> None"
  shows "js_get (ed_drafts (createInstructionsStore (Some (stored (partialize (es_state sys)))))) f =
    js_get (ed_drafts (es_state sys)) f"
proof -
  let ?s = "es_state sys"
  have "editor_consistent ?s"
    using assms(1) by induction (simp_all add: opened_def consistent_loaded consistent_step)
  moreover have "merge_template (Some (stored (partialize ?s))) = Some g \<Longrightarrow>
      ed_selectedTemplate ?s = Some g" for g
    by (simp add: merge_template_def stored_def partialize_def split: option.splits if_splits)
  ultimately show ?thesis
    using assms(2,3)
    by (auto simp: createInstructionsStore_def merge_editor_def Let_def merge_normalized_def
        merge_drafts_def js_get_entries stored_def partialize_def editor_consistent_def
        split: option.split)
qed

text \<open>The section of an internal template is an internal section.\<close>

lemma ends_with_append [simp]: "ends_with (s @ p) p"
  by (simp add: ends_with_def)

lemma ends_with_last: "ends_with s p \<Longrightarrow> p \<noteq> [] \<Longrightarrow> last s = last p"
  unfolding ends_with_def by (metis last_drop drop_eq_Nil not_le)

lemma platform_of_section: "getPlatformForSectionId (Some (createSectionId key p)) = Some p"
proof (cases p)
  case Internal
  have "ends_with ((key @ ''-'' @ ''internal'')) (''-internal'')"
    using ends_with_append [of key "''-internal''"] by simp
  with Internal show ?thesis
    by (simp add: getPlatformForSectionId_def createSectionId_def platform_name_def)
next
  case Public
  have "ends_with ((key @ ''-'' @ ''public'')) (''-public'')"
    using ends_with_append [of key "''-public''"] by simp
  moreover have "\<not> ends_with ((key @ ''-'' @ ''public'')) (''-internal'')"
    by (auto dest: ends_with_last)
  ultimately show ?thesis
    using Public by (simp add: getPlatformForSectionId_def createSectionId_def platform_name_def)
qed

lemma platform_of_template_section:
  "getSectionIdForTemplate f = Some i \<Longrightarrow> getPlatformForSectionId (Some i) = Some (getPlatformForFilename f)"
  by (auto simp: getSectionIdForTemplate_def Let_def platform_of_section)

lemma js_set_same: "js_get m k = Some v \<Longrightarrow> js_set k v m = m"
  by (induction m) (auto split: if_splits)

lemma js_set_filter:
  "P k \<Longrightarrow> filter (\<lambda>e. P (fst e)) (js_set k v m) = js_set k v (filter (\<lambda>e. P (fst e)) m)"
  by (induction m) auto

text \<open>What a page load gives is stored and loaded again without a change.\<close>

abbreviation loaded :: "persisted_editor option \<Rightarrow> editor_state" where
  "loaded p \<equiv> createInstructionsStore (map_option stored p)"

abbreviation restored :: "persisted_editor option \<Rightarrow> persisted_editor" where
  "restored p \<equiv> stored (partialize (loaded p))"

lemma loaded_fields:
  "ed_selectedTemplate (loaded p) = merge_template (map_option stored p)"
  "ed_activeSectionId (loaded p) = merge_section (map_option stored p)"
  "ed_drafts (loaded p) = merge_normalized (map_option stored p) createInitialInstructionsState"
  by (simp_all add: createInstructionsStore_def merge_editor_def Let_def)

lemma template_restored: "merge_template (Some (restored p)) = merge_template (map_option stored p)"
  by (auto simp: merge_template_def [of "Some (restored p)"] stored_def partialize_def loaded_fields)
    (auto simp: merge_template_def split: option.splits if_splits)

lemma section_restored: "merge_section (Some (restored p)) = merge_section (map_option stored p)"
proof -
  have "pe_activeSectionId (restored p) = merge_section (map_option stored p)"
    by (simp add: stored_def partialize_def loaded_fields)
  moreover have "merge_section (map_option stored p) = Some a \<Longrightarrow>
      getPlatformForSectionId (Some a) = Some Internal" for a
    by (auto simp: merge_section_def merge_template_def dest: platform_of_template_section
        split: option.splits if_splits)
  moreover have "merge_section (map_option stored p) = None \<Longrightarrow>
      Option.bind (merge_template (map_option stored p)) getSectionIdForTemplate = None"
    by (auto simp: merge_section_def split: option.splits if_splits)
  ultimately show ?thesis
    by (auto simp: merge_section_def [of "Some (restored p)"] template_restored split: option.split)
qed

lemma normalized_internal:
  "filterInternalTemplateEntries (merge_normalized q createInitialInstructionsState) =
   merge_normalized q createInitialInstructionsState"
  by (auto simp: merge_normalized_def merge_drafts_def filterInternalTemplateEntries_def Let_def
      createInitialInstructionsState_def merge_template_def
      js_set_filter [where P = "\<lambda>f. getPlatformForFilename f = Internal \<and> (\<exists>y. getSectionIdForTemplate f = Some y)"]
      split: option.splits if_splits)

lemma normalized_restored:
  "merge_normalized (Some (restored p)) createInitialInstructionsState =
   merge_normalized (map_option stored p) createInitialInstructionsState"
proof -
  let ?d = "merge_normalized (map_option stored p) createInitialInstructionsState"
  have "merge_drafts (Some (restored p)) createInitialInstructionsState = ?d"
    by (simp add: merge_drafts_def stored_def partialize_def loaded_fields normalized_internal)
  moreover have "merge_template (map_option stored p) = Some f \<Longrightarrow> js_has ?d f \<Longrightarrow>
      js_set f (ed_editedContent (loaded p)) ?d = ?d" for f
    using consistent_loaded [of "map_option stored p"]
    by (auto simp: editor_consistent_def loaded_fields intro: js_set_same)
  moreover have "Option.bind (Some (restored p)) pe_editedContent = Some (ed_editedContent (loaded p))"
    by (simp add: stored_def partialize_def)
  ultimately show ?thesis
    unfolding merge_normalized_def [of "Some (restored p)"] template_restored Let_def
    by (simp split: option.split)
qed

lemma filter_internal_twice [simp]:
  "filterInternalSectionEntries (filterInternalSectionEntries m) = filterInternalSectionEntries m"
  by (simp add: filterInternalSectionEntries_def)

lemma filter_internal_stored [simp]:
  "filter (\<lambda>e. snd e \<noteq> None) (filterInternalSectionEntries m) =
   filterInternalSectionEntries (filter (\<lambda>e. snd e \<noteq> None) m)"
  by (simp add: filterInternalSectionEntries_def filter_filter conj_commute)

lemma restored_fields:
  "pe_hasSeenGuide (restored p) = ed_hasSeenGuide (loaded p)"
  "pe_expandedSections (restored p) = ed_expandedSections (loaded p)"
  "pe_selectedVersionId (restored p) = ed_selectedVersionId (loaded p)"
  "pe_selectedVersionIdBySection (restored p) =
     filter (\<lambda>e. snd e \<noteq> None) (ed_selectedVersionIdBySection (loaded p))"
  "pe_isDefaultSelected (restored p) = Some (ed_isDefaultSelected (loaded p))"
  "pe_isDefaultSelectedBySection (restored p) = ed_isDefaultSelectedBySection (loaded p)"
  "pe_editedContent (restored p) = Some (ed_editedContent (loaded p))"
  "pe_showDiff (restored p) = Some (ed_showDiff (loaded p))"
  "pe_wrapLines (restored p) = Some (ed_wrapLines (loaded p))"
  "pe_isChatPanelOpen (restored p) = Some (ed_isChatPanelOpen (loaded p))"
  "pe_testChatId (restored p) = ed_testChatId (loaded p)"
  by (simp_all add: stored_def partialize_def)

lemma initial_fields [simp]:
  "ed_isDefaultSelectedBySection createInitialInstructionsState = []"
  "ed_selectedVersionIdBySection createInitialInstructionsState = []"
  "ed_expandedSections createInitialInstructionsState = []"
  "ed_hasSeenGuide createInitialInstructionsState = False"
  "ed_wrapLines createInitialInstructionsState = True"
  "ed_isChatPanelOpen createInitialInstructionsState = True"
  "ed_editedContent createInitialInstructionsState = []"
  by (simp_all add: createInitialInstructionsState_def)

lemma store_fields:
  "ed_isDefaultSelectedBySection (createInstructionsStore q) = (case q of None \<Rightarrow> []
   | Some p \<Rightarrow> filterInternalSectionEntries (pe_isDefaultSelectedBySection p))"
  "ed_selectedVersionIdBySection (createInstructionsStore q) = (case q of None \<Rightarrow> []
   | Some p \<Rightarrow> filterInternalSectionEntries (pe_selectedVersionIdBySection p))"
  "ed_expandedSections (createInstructionsStore q) = (case q of None \<Rightarrow> []
   | Some p \<Rightarrow> filterInternalSectionEntries (pe_expandedSections p))"
  "ed_hasSeenGuide (createInstructionsStore q) = coalesce (map_option pe_hasSeenGuide q) False"
  "ed_wrapLines (createInstructionsStore q) = coalesce (Option.bind q pe_wrapLines) True"
  "ed_isChatPanelOpen (createInstructionsStore q) = coalesce (Option.bind q pe_isChatPanelOpen) True"
  "ed_testChatId (createInstructionsStore q) = Option.bind q pe_testChatId"
  "ed_activePlatform (createInstructionsStore q) = Internal"
  "ed_activeSectionId (createInstructionsStore q) = merge_section q"
  "ed_selectedTemplate (createInstructionsStore q) = merge_template q"
  "ed_drafts (createInstructionsStore q) = merge_normalized q createInitialInstructionsState"
  "ed_showDiff (createInstructionsStore q) \<longleftrightarrow>
     merge_template q \<noteq> None \<and> Option.bind q pe_showDiff = Some True"
  "ed_showGuide (createInstructionsStore q) \<longleftrightarrow> \<not> ed_hasSeenGuide (createInstructionsStore q)"
  by (simp_all add: createInstructionsStore_def merge_editor_def Let_def cong: option.case_cong)

lemma store_selection:
  "ed_isDefaultSelected (createInstructionsStore q) = (case merge_section q of
     None \<Rightarrow> True
   | Some a \<Rightarrow> coalesce (or_else (js_get (ed_isDefaultSelectedBySection (createInstructionsStore q)) a)
       (Option.bind q pe_isDefaultSelected)) True)"
  "ed_selectedVersionId (createInstructionsStore q) =
     (if ed_isDefaultSelected (createInstructionsStore q) then None
      else case merge_section q of
         None \<Rightarrow> None
       | Some a \<Rightarrow> or_else (stored_version (ed_selectedVersionIdBySection (createInstructionsStore q)) a)
           (Option.bind q pe_selectedVersionId))"
  by (simp_all add: createInstructionsStore_def merge_editor_def Let_def cong: option.case_cong)

lemma store_content:
  "ed_editedContent (createInstructionsStore q) = (case merge_template q of
     None \<Rightarrow> []
   | Some f \<Rightarrow> coalesce (or_else (Option.bind q pe_editedContent)
       (js_get (merge_normalized q createInitialInstructionsState) f)) [])"
  by (simp add: createInstructionsStore_def merge_editor_def Let_def cong: option.case_cong)

text \<open>\<open>merge\<close> writes only its fields; a second one writes them over the first.\<close>

lemma merge_over_merge:
  "merge_editor q createInitialInstructionsState =
   (loaded p)\<lparr>
     ed_hasSeenGuide := ed_hasSeenGuide (createInstructionsStore q),
     ed_wrapLines := ed_wrapLines (createInstructionsStore q),
     ed_isChatPanelOpen := ed_isChatPanelOpen (createInstructionsStore q),
     ed_testChatId := ed_testChatId (createInstructionsStore q),
     ed_activePlatform := ed_activePlatform (createInstructionsStore q),
     ed_activeSectionId := ed_activeSectionId (createInstructionsStore q),
     ed_expandedSections := ed_expandedSections (createInstructionsStore q),
     ed_selectedTemplate := ed_selectedTemplate (createInstructionsStore q),
     ed_selectedVersionId := ed_selectedVersionId (createInstructionsStore q),
     ed_selectedVersionIdBySection := ed_selectedVersionIdBySection (createInstructionsStore q),
     ed_isDefaultSelected := ed_isDefaultSelected (createInstructionsStore q),
     ed_isDefaultSelectedBySection := ed_isDefaultSelectedBySection (createInstructionsStore q),
     ed_drafts := ed_drafts (createInstructionsStore q),
     ed_editedContent := ed_editedContent (createInstructionsStore q),
     ed_showDiff := ed_showDiff (createInstructionsStore q),
     ed_showGuide := ed_showGuide (createInstructionsStore q)\<rparr>"
  by (simp add: createInstructionsStore_def merge_editor_def Let_def)

lemma stored_ids:
  "pe_selectedVersionIdBySection (stored p) = filter (\<lambda>e. snd e \<noteq> None) (pe_selectedVersionIdBySection p)"
  by (simp add: stored_def)

lemma filter_internal_nil [simp]: "filterInternalSectionEntries [] = []"
  by (simp add: filterInternalSectionEntries_def)

lemma restored_maps:
  "ed_isDefaultSelectedBySection (createInstructionsStore (Some (restored p))) =
     ed_isDefaultSelectedBySection (loaded p)"
  "ed_expandedSections (createInstructionsStore (Some (restored p))) = ed_expandedSections (loaded p)"
  "ed_selectedVersionIdBySection (createInstructionsStore (Some (restored p))) =
     ed_selectedVersionIdBySection (loaded p)"
proof -
  show "ed_isDefaultSelectedBySection (createInstructionsStore (Some (restored p))) =
     ed_isDefaultSelectedBySection (loaded p)"
    unfolding store_fields(1) option.case restored_fields by (cases p) simp_all
  show "ed_expandedSections (createInstructionsStore (Some (restored p))) = ed_expandedSections (loaded p)"
    unfolding store_fields(3) option.case restored_fields by (cases p) simp_all
  show "ed_selectedVersionIdBySection (createInstructionsStore (Some (restored p))) =
     ed_selectedVersionIdBySection (loaded p)"
    unfolding store_fields(2) option.case restored_fields
    by (cases p) (auto simp: stored_ids filterInternalSectionEntries_def intro: filter_cong)
qed

lemma restored_selection:
  "ed_isDefaultSelected (createInstructionsStore (Some (restored p))) = ed_isDefaultSelected (loaded p)"
  "ed_selectedVersionId (createInstructionsStore (Some (restored p))) = ed_selectedVersionId (loaded p)"
proof -
  show dflt: "ed_isDefaultSelected (createInstructionsStore (Some (restored p))) = ed_isDefaultSelected (loaded p)"
    unfolding store_selection(1) [of "Some (restored p)"] section_restored restored_maps bind.simps restored_fields
    unfolding store_selection(1) [of "map_option stored p"]
    by (auto simp: or_else_def coalesce_def split: option.split)
  show "ed_selectedVersionId (createInstructionsStore (Some (restored p))) = ed_selectedVersionId (loaded p)"
    unfolding store_selection(2) [of "Some (restored p)"] dflt section_restored restored_maps bind.simps
      restored_fields
    unfolding store_selection(2) [of "map_option stored p"]
    by (auto simp: or_else_def split: option.split)
qed

lemma restored_content:
  "ed_editedContent (createInstructionsStore (Some (restored p))) = ed_editedContent (loaded p)"
  unfolding store_content [of "Some (restored p)"] template_restored bind.simps restored_fields
  unfolding store_content [of "map_option stored p"]
  by (auto split: option.split)

lemma restored_shown:
  "ed_showDiff (createInstructionsStore (Some (restored p))) = ed_showDiff (loaded p)"
  "ed_hasSeenGuide (createInstructionsStore (Some (restored p))) = ed_hasSeenGuide (loaded p)"
  "ed_showGuide (createInstructionsStore (Some (restored p))) = ed_showGuide (loaded p)"
  "ed_wrapLines (createInstructionsStore (Some (restored p))) = ed_wrapLines (loaded p)"
  "ed_isChatPanelOpen (createInstructionsStore (Some (restored p))) = ed_isChatPanelOpen (loaded p)"
  "ed_testChatId (createInstructionsStore (Some (restored p))) = ed_testChatId (loaded p)"
  "ed_activeSectionId (createInstructionsStore (Some (restored p))) = ed_activeSectionId (loaded p)"
  "ed_selectedTemplate (createInstructionsStore (Some (restored p))) = ed_selectedTemplate (loaded p)"
  "ed_drafts (createInstructionsStore (Some (restored p))) = ed_drafts (loaded p)"
  unfolding store_fields(4-13) [of "Some (restored p)"] template_restored section_restored
    normalized_restored bind.simps option.map restored_fields
  by (simp_all add: store_fields(4-13) [of "map_option stored p"])

text \<open>
  A page load is idempotent: storing the editor it gives and loading the page again
  gives the same editor, whatever had been stored before, or nothing.
\<close>

theorem page_load_idempotent:
  "createInstructionsStore (Some (stored (partialize (createInstructionsStore (map_option stored p))))) =
   createInstructionsStore (map_option stored p)"
proof -
  have "createInstructionsStore (Some (restored p)) =
      merge_editor (Some (restored p)) createInitialInstructionsState"
    by (rule createInstructionsStore_def)
  also have "\<dots> = loaded p"
    unfolding merge_over_merge [of _ p]
    unfolding restored_maps restored_selection restored_content restored_shown
    by (simp add: store_fields(8) [symmetric, of "map_option stored p"]) (simp add: store_fields(8))
  finally show ?thesis .
qed

end
