(* ===== verification/InstructionsRuns.thy ===== *)
theory InstructionsRuns
  imports InstructionsOutcomes
begin

text \<open>
  Runs of the instructions editor on concrete data: witnesses of its theorems, and runs
  that show where the store does not do what its users would expect.
\<close>

definition chat_file :: string where "chat_file = ''chatbot_agent_internal.j2''"
definition guard_file :: string where "guard_file = ''guardrails_agent_internal.j2''"
definition sum_file :: string where "sum_file = ''summary_agent_internal.j2''"

definition demo_disk :: "prompt_file list" where
  "demo_disk = [\<lparr>pf_filename = chat_file, pf_content = ''disk chat''\<rparr>,
     \<lparr>pf_filename = guard_file, pf_content = ''disk guard''\<rparr>,
     \<lparr>pf_filename = sum_file, pf_content = ''disk sum''\<rparr>]"

definition demo_version :: "ident \<Rightarrow> prompt_scope \<Rightarrow> (string \<times> string) list \<Rightarrow> prompt_set_version" where
  "demo_version v scope files = \<lparr>pv_id = v, pv_version_number = 1, pv_name = v, pv_description = None,
     pv_is_internal = True, pv_scope = scope, pv_is_deployed = False, pv_created_by_id = ''u'',
     pv_created_by_name = ''u'', pv_created_at = ''t'',
     pv_prompts = map (\<lambda>(f, c). \<lparr>pt_id = f, pt_filename = f, pt_content = c\<rparr>) files\<rparr>"

definition demo_v1 :: prompt_set_version where
  "demo_v1 = demo_version ''v1'' AssistantScope [(chat_file, ''v1 chat''), (guard_file, ''v1 guard'')]"

text \<open>The templates loaded, version \<open>v1\<close> of the assistant chosen and shown.\<close>

definition demo_editor_open :: "editor_action list" where
  "demo_editor_open = [LoadDiskTemplates, Answer 0 (DiskTemplatesAnswer demo_disk),
     ChooseVersion ''v1'', Answer 0 (VersionAnswer demo_v1), SelectTemplate chat_file]"

definition demo_editor :: editor_system where
  "demo_editor = editor_run demo_editor_open (opened None)"

lemma demo_reachable: "reachable_editor (editor_run as demo_editor)"
  unfolding demo_editor_def by (intro reachable_run page_load)

definition demo_typed :: editor_system where
  "demo_typed = editor_run [UpdateContent chat_file ''new chat'', SetVersionName ''n''] demo_editor"

lemma demo_typed_reachable: "reachable_editor demo_typed"
  unfolding demo_typed_def by (rule demo_reachable)

section \<open>Witnesses\<close>

lemma edited_text_is_the_draft_witness:
  "reachable_editor demo_typed \<and> js_get (ed_drafts (es_state demo_typed)) chat_file = Some ''new chat'' \<and>
   ed_editedContent (es_state demo_typed) = ''new chat''"
proof -
  have "ed_selectedTemplate (es_state demo_typed) = Some chat_file" by code_simp
  moreover have d: "js_get (ed_drafts (es_state demo_typed)) chat_file = Some ''new chat''" by code_simp
  ultimately have "ed_editedContent (es_state demo_typed) = ''new chat''"
    by (intro edited_text_is_the_draft [OF demo_typed_reachable])
  with d demo_typed_reachable show ?thesis by blast
qed

lemma drafts_kept_witness:
  "js_get (ed_drafts (es_state (editor_step (RequestSelectVersion ''v2'') demo_typed))) chat_file =
     Some ''new chat'' \<and>
   js_get (ed_drafts (es_state (editor_step (ChooseVersion ''v2'') demo_typed))) chat_file = None"
proof -
  have "js_get (ed_drafts (es_state demo_typed)) chat_file = Some ''new chat''" by code_simp
  moreover have "in_current_section chat_file (es_state demo_typed)" by code_simp
  ultimately show ?thesis
    using drafts_kept [of "RequestSelectVersion ''v2''" chat_file demo_typed]
      drafts_kept [of "ChooseVersion ''v2''" chat_file demo_typed]
    by (simp add: discards_def)
qed

definition demo_creating :: editor_system where
  "demo_creating = editor_run [CreateVersionAction] demo_typed"

lemma busy_only_while_waiting_witness:
  "busy_ok (es_state demo_creating) (es_calls demo_creating) \<and> ed_isCreating (es_state demo_creating) \<and>
   es_calls demo_creating \<noteq> []"
proof -
  have "reachable_editor demo_creating"
    unfolding demo_creating_def by (intro reachable_run demo_typed_reachable)
  then have "busy_ok (es_state demo_creating) (es_calls demo_creating)"
    by (simp only: busy_only_while_waiting)
  moreover have "ed_isCreating (es_state demo_creating) \<and> es_calls demo_creating \<noteq> []" by code_simp
  ultimately show ?thesis by blast
qed

lemma reload_keeps_drafts_witness:
  "js_get (ed_drafts (createInstructionsStore (Some (stored (partialize (es_state demo_typed)))))) chat_file =
   Some ''new chat''"
proof -
  have "getPlatformForFilename chat_file = Internal" "getSectionIdForTemplate chat_file \<noteq> None"
    by code_simp+
  moreover have "js_get (ed_drafts (es_state demo_typed)) chat_file = Some ''new chat''" by code_simp
  ultimately show ?thesis using reload_keeps_drafts [OF demo_typed_reachable] by simp
qed

section \<open>Runs with surprises\<close>

text \<open>
  A version created from \<open>v1\<close> with only the chatbot's instructions edited: the editor
  shows \<open>v1\<close>'s guardrails, the request has those on disk.
\<close>

theorem created_version_reverts_unedited_files:
  "current_text (es_state demo_typed) guard_file = ''v1 guard'' \<and>
   (case es_calls demo_creating of
      [(CreateRequest _ d, _)] \<Rightarrow> vc_prompts d =
        [\<lparr>pf_filename = chat_file, pf_content = ''new chat''\<rparr>,
         \<lparr>pf_filename = guard_file, pf_content = ''disk guard''\<rparr>]
    | _ \<Rightarrow> False)"
  by code_simp

text \<open>Creating a version of the assistant drops the draft of the summary section, which it did not save.\<close>

definition demo_two_drafts :: editor_system where
  "demo_two_drafts = editor_run [UpdateContent sum_file ''new sum'', CreateVersionAction,
     Answer 0 (VersionAnswer demo_v1)] demo_typed"

theorem creation_drops_other_sections_drafts:
  "js_get (ed_drafts (es_state (editor_run [UpdateContent sum_file ''new sum''] demo_typed))) sum_file =
     Some ''new sum'' \<and>
   ed_drafts (es_state demo_two_drafts) = []"
  by code_simp

text \<open>
  The details of \<open>v1\<close> are asked for in the assistant's section, the user goes on to the
  summary section and chooses \<open>s1\<close> there; then the first request fails, and the selection
  of the summary section is gone.
\<close>

definition demo_s1 :: prompt_set_version where
  "demo_s1 = demo_version ''s1'' SummaryScope [(sum_file, ''s1 sum'')]"

definition demo_summary :: editor_system where
  "demo_summary = editor_run [ChooseVersion ''v2'', SelectTemplate sum_file, ChooseVersion ''s1'',
     Answer 1 (VersionAnswer demo_s1)] demo_editor"

theorem late_failure_resets_another_section:
  "ed_activeSectionId (es_state demo_summary) = Some ''summary-internal'' \<and>
   ed_selectedVersionId (es_state demo_summary) = Some ''s1'' \<and>
   map fst (es_calls demo_summary) = [DetailRequest ''v2''] \<and>
   (let s = es_state (editor_step (Answer 0 (Failed (Failure ''404: gone'' (Some 404)))) demo_summary)
    in ed_selectedVersionId s = None \<and> stored_version (ed_selectedVersionIdBySection s) ''summary-internal'' = None)"
  by code_simp

text \<open>The live version of the section left before its answer came is shown for the section entered.\<close>

definition demo_sections :: editor_system where
  "demo_sections = editor_run [SetActiveSection ''assistant-internal'' Internal,
     SetActiveSection ''summary-internal'' Internal] demo_editor"

theorem late_live_version_is_shown_for_another_section:
  "map fst (es_calls demo_sections) =
     [VersionsRequest ''assistant-internal'' True AssistantScope, DeployedRequest True AssistantScope,
      DetailRequest ''v1'', VersionsRequest ''summary-internal'' True SummaryScope,
      DeployedRequest True SummaryScope] \<and>
   (let live = \<lambda>v. \<lparr>av_id = Some v, av_version_number = Some 1, av_name = Some v\<rparr>;
        s = es_state (editor_run [Answer 4 (DeployedAnswer (live ''s9'')), Answer 1 (DeployedAnswer (live ''a9''))]
              demo_sections)
    in ed_activeSectionId s = Some ''summary-internal'' \<and> ed_deployedVersion s = Some (live ''a9''))"
  by code_simp

text \<open>
  Deleting the version shown selects the default but leaves the deleted version's text in
  the editor, without a draft.
\<close>

theorem deleted_version_stays_shown:
  "(let s = es_state (editor_run [RequestDelete ''v1'', Confirm, Answer 0 EmptyAnswer] demo_editor)
    in ed_isDefaultSelected s \<and> ed_selectedVersionId s = None \<and> ed_drafts s = [] \<and>
       ed_selectedTemplate s = Some chat_file \<and> ed_editedContent s = ''v1 chat'' \<and>
       getBaseContent s chat_file = ''disk chat'')"
  by code_simp

text \<open>A version chosen while the deletion of another is under way is undone by its answer.\<close>

theorem selection_during_deletion_is_undone:
  "(let s = es_state (editor_run [RequestDelete ''v0'', Confirm, ChooseVersion ''v2''] demo_editor);
        t = es_state (editor_run [RequestDelete ''v0'', Confirm, ChooseVersion ''v2'', Answer 0 EmptyAnswer] demo_editor)
    in ed_selectedVersionId s = Some ''v2'' \<and> ed_selectedVersionId t = Some ''v1'' \<and>
       stored_version (ed_selectedVersionIdBySection t) ''assistant-internal'' = Some ''v1'')"
  by code_simp

end
