(* ===== verification/AssistantDraft.thy ===== *)
theory AssistantDraft
  imports InstructionsFacts
begin

text \<open>
  What the test chat of the instructions editor sends along (instructions/lib/assistant-draft.ts):
  the edits of the assistant's templates, and the full texts with the edits in place.
\<close>

definition ASSISTANT_SECTION_ID :: ident where
  "ASSISTANT_SECTION_ID = getSectionIdForScope AssistantScope Internal"

definition ASSISTANT_TEMPLATE_FILENAMES :: "string list" where
  "ASSISTANT_TEMPLATE_FILENAMES = getTemplateFilenamesForScope AssistantScope Internal"

definition selectHasAssistantDraft :: "editor_state \<Rightarrow> bool" where
  "selectHasAssistantDraft s \<longleftrightarrow>
     list_ex (\<lambda>f. js_has (ed_drafts s) f) ASSISTANT_TEMPLATE_FILENAMES"

definition selectAssistantDraftBaseVersionId :: "editor_state \<Rightarrow> ident option" where
  "selectAssistantDraftBaseVersionId s =
     (let storedDefault = js_get (ed_isDefaultSelectedBySection s) ASSISTANT_SECTION_ID;
          isActiveAssistantSection = (ed_activeSectionId s = Some ASSISTANT_SECTION_ID);
          isDefault = coalesce storedDefault
            (if isActiveAssistantSection then ed_isDefaultSelected s else True)
      in if isDefault then None
         else or_else (stored_version (ed_selectedVersionIdBySection s) ASSISTANT_SECTION_ID)
           (if isActiveAssistantSection then ed_selectedVersionId s else None))"

definition getAssistantDraftEdits :: "editor_state \<Rightarrow> prompt_file list" where
  "getAssistantDraftEdits s = concat (map (\<lambda>f. case js_get (ed_drafts s) f of
       None \<Rightarrow> [] | Some content \<Rightarrow> [\<lparr>pf_filename = f, pf_content = content\<rparr>])
     ASSISTANT_TEMPLATE_FILENAMES)"

definition buildAssistantDraftPromptTemplates :: "editor_state \<Rightarrow> prompt_file list" where
  "buildAssistantDraftPromptTemplates s = map (\<lambda>f.
     let versionContent = map_option pt_content (Option.bind (ed_selectedVersionDetail s)
           (\<lambda>v. find (\<lambda>p. pt_filename p = f) (pv_prompts v)));
         diskContent = map_option pf_content
           (find (\<lambda>t. pf_filename t = f) (ed_diskTemplates s))
     in \<lparr>pf_filename = f, pf_content =
          coalesce (js_get (ed_drafts s) f) (coalesce versionContent (coalesce diskContent []))\<rparr>)
     ASSISTANT_TEMPLATE_FILENAMES"

lemma base_content_chain:
  "coalesce (map_option pt_content (Option.bind d (\<lambda>v. find (\<lambda>p. pt_filename p = f) (pv_prompts v))))
     (coalesce (map_option pf_content (find (\<lambda>t. pf_filename t = f) ts)) []) =
   findTemplateContent f d ts"
  by (simp add: findTemplateContent_def split: option.split)

text \<open>The edits are the assistant's entries of the drafts, and there are some exactly if the editor says so.\<close>

lemma edits_iff: "selectHasAssistantDraft s \<longleftrightarrow> getAssistantDraftEdits s \<noteq> []"
  by (auto simp: selectHasAssistantDraft_def getAssistantDraftEdits_def list_ex_iff split: option.splits)

text \<open>
  The texts the test chat is given are, file by file, the draft or else the text the
  editor bases the file on (of the selected version, or else on disk); laying the edits it
  sends over those base texts gives the same texts, so both forms describe the same assistant.
\<close>

theorem test_chat_gets_the_edited_texts:
  "buildAssistantDraftPromptTemplates s = map (\<lambda>f. \<lparr>pf_filename = f,
       pf_content = coalesce (map_option pf_content
          (find (\<lambda>e. pf_filename e = f) (getAssistantDraftEdits s))) (getBaseContent s f)\<rparr>)
     ASSISTANT_TEMPLATE_FILENAMES \<and>
   (selectHasAssistantDraft s \<longleftrightarrow> getAssistantDraftEdits s \<noteq> [])"
proof -
  have files: "ASSISTANT_TEMPLATE_FILENAMES =
      [''chatbot_agent_internal.j2'', ''guardrails_agent_internal.j2'']" by code_simp
  show ?thesis
    unfolding edits_iff
    by (auto simp: buildAssistantDraftPromptTemplates_def getAssistantDraftEdits_def Let_def
        base_content_chain getBaseContent_def files split: option.split)
qed

end
