(* ===== verification/RagStream.thy ===== *)
theory RagStream
  imports StreamApiFacts
begin

text \<open>
  The progress stream of the RAG builds (rag/lib/operation-stream.ts): what an event's
  payload must have to reach a callback, and the reader. The cutting of the text into events
  is that of StreamApi, which the source repeats; unlike there, no event makes the reader
  throw and no outcome is required at the end. A call of a callback is a \<open>rag_event\<close>.
\<close>

datatype log_stream = Stdout | Stderr | Command

datatype rag_status = RagStart | RagCancelling | RagComplete | RagFailed | RagCancelled

datatype step_status = StepPending | StepRunning | StepCompleted | StepSkipped | StepError

record progress_step =
  ps_key :: string
  ps_label :: string
  ps_status :: step_status

datatype rag_event =
    RagLog log_stream string
  | RagStatus rag_status "number option"
  | RagError string
  | RagProgress "progress_step list" "string option" number number

fun log_stream_name :: "log_stream \<Rightarrow> string" where
  "log_stream_name Stdout = ''stdout''"
| "log_stream_name Stderr = ''stderr''"
| "log_stream_name Command = ''command''"

fun rag_status_name :: "rag_status \<Rightarrow> string" where
  "rag_status_name RagStart = ''start''"
| "rag_status_name RagCancelling = ''cancelling''"
| "rag_status_name RagComplete = ''complete''"
| "rag_status_name RagFailed = ''error''"
| "rag_status_name RagCancelled = ''cancelled''"

fun step_status_name :: "step_status \<Rightarrow> string" where
  "step_status_name StepPending = ''pending''"
| "step_status_name StepRunning = ''running''"
| "step_status_name StepCompleted = ''completed''"
| "step_status_name StepSkipped = ''skipped''"
| "step_status_name StepError = ''error''"

definition log_stream_of :: "json option \<Rightarrow> log_stream option" where
  "log_stream_of v = find (\<lambda>s. v = Some (JStr (log_stream_name s))) [Stdout, Stderr, Command]"

definition isRagOperationStatus :: "json option \<Rightarrow> rag_status option" where
  "isRagOperationStatus v = find (\<lambda>s. v = Some (JStr (rag_status_name s)))
     [RagStart, RagCancelling, RagComplete, RagFailed, RagCancelled]"

definition isRagOperationProgressStepStatus :: "json option \<Rightarrow> step_status option" where
  "isRagOperationProgressStepStatus v = find (\<lambda>s. v = Some (JStr (step_status_name s)))
     [StepPending, StepRunning, StepCompleted, StepSkipped, StepError]"

text \<open>One malformed step drops the whole progress event.\<close>

definition progress_step_of :: "json \<Rightarrow> progress_step option" where
  "progress_step_of step =
     (if \<not> isRecord step then None
      else case (as_string (field_of step ''key''), as_string (field_of step ''label''),
          isRagOperationProgressStepStatus (field_of step ''status'')) of
        (Some k, Some l, Some s) \<Rightarrow> Some \<lparr>ps_key = k, ps_label = l, ps_status = s\<rparr>
      | _ \<Rightarrow> None)"

fun progress_steps_of :: "json list \<Rightarrow> progress_step list option" where
  "progress_steps_of [] = Some []"
| "progress_steps_of (step # steps) = (case progress_step_of step of
     None \<Rightarrow> None
   | Some s \<Rightarrow> map_option ((#) s) (progress_steps_of steps))"

definition rag_payload_event :: "string \<Rightarrow> json \<Rightarrow> rag_event option" where
  "rag_payload_event name payload =
     (if name = ''log''
      then (case (log_stream_of (field_of payload ''stream''), as_string (field_of payload ''message'')) of
          (Some st, Some m) \<Rightarrow> Some (RagLog st m) | _ \<Rightarrow> None)
      else if name = ''status''
      then map_option (\<lambda>st. RagStatus st (as_number (field_of payload ''exit_code'')))
          (isRagOperationStatus (field_of payload ''status''))
      else if name = ''error''
      then map_option RagError (as_string (field_of payload ''message''))
      else if name = ''progress''
      then (case (as_array (field_of payload ''steps''), as_number (field_of payload ''finished_steps''),
            as_number (field_of payload ''total_steps'')) of
          (Some steps, Some finished, Some tot) \<Rightarrow>
            map_option (\<lambda>ss. RagProgress ss (as_string (field_of payload ''current_step'')) finished tot)
              (progress_steps_of steps)
        | _ \<Rightarrow> None)
      else None)"

definition dispatchSseEvent :: "(string \<Rightarrow> json option) \<Rightarrow> string \<Rightarrow> rag_event option" where
  "dispatchSseEvent parse rawEvent =
     (let parsed = parseSseEvent rawEvent
      in if se_data parsed = [] then None
         else case parseSsePayload parse (se_data parsed) of
           None \<Rightarrow> None
         | Some payload \<Rightarrow> rag_payload_event (se_event parsed) payload)"

definition deliver_rag :: "(string \<Rightarrow> json option) \<Rightarrow> string list \<Rightarrow> rag_event list" where
  "deliver_rag parse raws = concat (map (\<lambda>raw.
     if trim raw = [] then []
     else case dispatchSseEvent parse (trim raw) of None \<Rightarrow> [] | Some e \<Rightarrow> [e]) raws)"

fun rag_loop ::
  "(string \<Rightarrow> json option) \<Rightarrow> (js_error + string) list \<Rightarrow> string \<Rightarrow> rag_event list \<times> (js_error + unit)" where
  "rag_loop parse [] buffer = ([], Inr ())"
| "rag_loop parse (Inl e # chunks) buffer = ([], Inl e)"
| "rag_loop parse (Inr chunk # chunks) buffer =
     (let (raws, rest) = drain (normalize_eol (buffer @ chunk));
          (evs, r) = rag_loop parse chunks rest
      in (deliver_rag parse raws @ evs, r))"

definition readRagOperationStream ::
  "(string \<Rightarrow> json option) \<Rightarrow> (js_error + string) list option \<Rightarrow> rag_event list \<times> (js_error + unit)" where
  "readRagOperationStream parse body = (case body of
     None \<Rightarrow> ([], Inl (PlainError ''Missing streaming response body''))
   | Some chunks \<Rightarrow> rag_loop parse chunks [])"

section \<open>What is written is read\<close>

lemma deliver_rag_append: "deliver_rag parse (as @ bs) = deliver_rag parse as @ deliver_rag parse bs"
  by (simp add: deliver_rag_def)

text \<open>Reading in chunks is reading the whole text, as for the message stream.\<close>

lemma rag_loop_text:
  assumes "no_double_cr (buffer @ concat cs)" "no_crlf buffer" "split_event buffer = None"
  shows "rag_loop parse (map Inr cs) buffer =
    (deliver_rag parse (fst (drain (normalize_eol (buffer @ concat cs)))), Inr ())"
  using assms
proof (induction cs arbitrary: buffer)
  case Nil
  then show ?case by (simp add: normalize_id drain_None deliver_rag_def)
next
  case (Cons c cs)
  let ?n = "normalize_eol (buffer @ c)"
  let ?r = "snd (drain ?n)"
  obtain p where p: "?n = p @ ?r" using drain_part by blast
  have nocr: "no_double_cr ((buffer @ c) @ concat cs)" using Cons.prems(1) by simp
  have dcr: "no_double_cr (?r @ concat cs)" using nocr p by (rule suffix_text)
  have "no_double_cr (buffer @ c)" using nocr adjacent_append(1) by blast
  then have "no_crlf ?n" by (rule normalize_adjacent)
  then have crlf: "no_crlf ?r" using p by (metis adjacent_append(2))
  show ?case
    using Cons.IH [OF dcr crlf drain_rest] drain_in_parts(1) [OF nocr]
    by (simp add: case_prod_beta deliver_rag_append)
qed

text \<open>The payload a server writes for an event, and the event as text.\<close>

fun step_json :: "progress_step \<Rightarrow> json" where
  "step_json s = JObj [(''key'', JStr (ps_key s)), (''label'', JStr (ps_label s)),
     (''status'', JStr (step_status_name (ps_status s)))]"

fun rag_json :: "rag_event \<Rightarrow> json" where
  "rag_json (RagLog st m) = JObj [(''stream'', JStr (log_stream_name st)), (''message'', JStr m)]"
| "rag_json (RagStatus st code) = JObj ((''status'', JStr (rag_status_name st)) #
     (case code of None \<Rightarrow> [] | Some c \<Rightarrow> [(''exit_code'', JNum c)]))"
| "rag_json (RagError m) = JObj [(''message'', JStr m)]"
| "rag_json (RagProgress ss cur finished tot) =
     JObj ([(''steps'', JArr (map step_json ss)), (''finished_steps'', JNum finished),
       (''total_steps'', JNum tot)] @
     (case cur of None \<Rightarrow> [] | Some c \<Rightarrow> [(''current_step'', JStr c)]))"

fun rag_event_name :: "rag_event \<Rightarrow> string" where
  "rag_event_name (RagLog _ _) = ''log''"
| "rag_event_name (RagStatus _ _) = ''status''"
| "rag_event_name (RagError _) = ''error''"
| "rag_event_name (RagProgress _ _ _ _) = ''progress''"

definition rag_sse :: "(json \<Rightarrow> string) \<Rightarrow> rag_event \<Rightarrow> sse_event" where
  "rag_sse render e = \<lparr>se_event = rag_event_name e, se_data = render (rag_json e)\<rparr>"

lemma names_read_back [simp]:
  "log_stream_of (Some (JStr (log_stream_name st))) = Some st"
  "isRagOperationStatus (Some (JStr (rag_status_name rs))) = Some rs"
  "isRagOperationProgressStepStatus (Some (JStr (step_status_name ss))) = Some ss"
proof -
  show "log_stream_of (Some (JStr (log_stream_name st))) = Some st"
    by (cases st) (simp_all add: log_stream_of_def)
  show "isRagOperationStatus (Some (JStr (rag_status_name rs))) = Some rs"
    by (cases rs) (simp_all add: isRagOperationStatus_def)
  show "isRagOperationProgressStepStatus (Some (JStr (step_status_name ss))) = Some ss"
    by (cases ss) (simp_all add: isRagOperationProgressStepStatus_def)
qed

lemma steps_read_back: "progress_steps_of (map step_json ss) = Some ss"
  by (induction ss) (simp_all add: progress_step_of_def)

lemma payload_reads_back: "rag_payload_event (rag_event_name e) (rag_json e) = Some e"
  by (cases e) (auto simp: rag_payload_event_def steps_read_back split: option.split)

lemma rag_names_clean: "clean (rag_event_name e)"
  by (cases e) (simp_all add: clean_def CR_def LF_def is_space_def)

lemma no_cr_no_double_cr: "CR \<notin> set s \<Longrightarrow> no_double_cr s"
  by (induction s rule: no_double_cr.induct) auto

lemma rag_event_reads_back:
  assumes "clean (render (rag_json e))" "parse (render (rag_json e)) = Some (rag_json e)"
  shows "dispatchSseEvent parse (trim (event_body (rag_sse render e))) = Some e"
proof -
  have "parseSseEvent (trim (event_body (rag_sse render e))) = rag_sse render e"
    using assms(1) rag_names_clean by (intro parse_event_body) (simp_all add: rag_sse_def)
  moreover have "isRecord (rag_json e)" by (cases e) simp_all
  ultimately show ?thesis
    using assms by (simp add: dispatchSseEvent_def rag_sse_def parseSsePayload_def clean_def payload_reads_back)
qed

lemma rag_events_read_back:
  assumes "\<And>e. e \<in> set es \<Longrightarrow> clean (render (rag_json e)) \<and> parse (render (rag_json e)) = Some (rag_json e)"
  shows "deliver_rag parse (map event_body (map (rag_sse render) es)) = es"
  using assms
proof (induction es)
  case Nil
  then show ?case by (simp add: deliver_rag_def)
next
  case (Cons e es)
  have "dispatchSseEvent parse (trim (event_body (rag_sse render e))) = Some e"
    using Cons.prems by (intro rag_event_reads_back) auto
  moreover have "dispatchSseEvent parse [] = None"
    by (simp add: dispatchSseEvent_def parseSseEvent_def sse_line_def starts_with_def)
  ultimately have "trim (event_body (rag_sse render e)) \<noteq> []" by auto
  with Cons show ?case
    by (simp add: deliver_rag_def rag_event_reads_back)
qed

text \<open>
  C20. A RAG build's progress reaches its callbacks: if the server writes a list of events,
  each as an event line and a data line with its JSON, then however the network cuts the
  text into chunks the reader calls back exactly these events, in order, and ends without an
  error. JSON is any encoding whose texts have no line breaks or surrounding white space and
  parse back.
\<close>

theorem rag_events_delivered:
  assumes "\<And>e. e \<in> set es \<Longrightarrow> clean (render (rag_json e)) \<and> parse (render (rag_json e)) = Some (rag_json e)"
    and "concat cs = concat (map (encode_event \<circ> rag_sse render) es)"
  shows "readRagOperationStream parse (Some (map Inr cs)) = (es, Inr ())"
proof -
  let ?text = "concat (map encode_event (map (rag_sse render) es))"
  have cl: "\<forall>e \<in> set (map (rag_sse render) es). clean (se_event e) \<and> clean (se_data e)"
    using assms(1) rag_names_clean by (auto simp: rag_sse_def)
  then have "CR \<notin> set (encode_event e)" if "e \<in> set (map (rag_sse render) es)" for e
    using that LF_notin_words by (auto simp: encode_event_def clean_def)
  then have cr: "CR \<notin> set ?text" by auto
  then have "normalize_eol ?text = ?text" by (intro normalize_id no_crlf_no_cr)
  then have "rag_loop parse (map Inr cs) [] =
      (deliver_rag parse (map event_body (map (rag_sse render) es)), Inr ())"
    using rag_loop_text [of "[]" cs parse] assms(2) no_cr_no_double_cr [OF cr] drain_encoded [OF cl]
    by (simp add: comp_def drain_None)
  then show ?thesis
    by (simp only: readRagOperationStream_def option.case rag_events_read_back [OF assms(1)])
qed

definition demo_render :: "json \<Rightarrow> string" where
  "demo_render j = (if j = rag_json (RagStatus RagStart None) then ''{start}'' else ''{done}'')"

definition demo_rag_parse :: "string \<Rightarrow> json option" where
  "demo_rag_parse s = (if s = ''{start}'' then Some (rag_json (RagStatus RagStart None))
     else if s = ''{done}'' then Some (rag_json (RagStatus RagComplete (Some 0))) else None)"

lemma rag_events_delivered_witness:
  "readRagOperationStream demo_rag_parse
     (Some (map Inr [concat (map (encode_event \<circ> rag_sse demo_render)
        [RagStatus RagStart None, RagStatus RagComplete (Some 0)])])) =
   ([RagStatus RagStart None, RagStatus RagComplete (Some 0)], Inr ())"
proof (rule rag_events_delivered [where render = demo_render])
  fix e
  assume "e \<in> set [RagStatus RagStart None, RagStatus RagComplete (Some 0)]"
  then show "clean (demo_render (rag_json e)) \<and>
      demo_rag_parse (demo_render (rag_json e)) = Some (rag_json e)"
    by (auto simp: demo_render_def demo_rag_parse_def clean_def CR_def LF_def is_space_def)
qed simp

end
