(* ===== verification/TraceTimeline.thy ===== *)
theory TraceTimeline
  imports JsMap
begin

text \<open>
  The rows and the scale of a trace's timeline (traces/lib/trace-timeline.ts): which parent a
  row has, with cycles cut, which rows are visible under collapsed ones, where a span's bar
  is drawn and which ticks the scale has. Numbers are exact; a duration is finite.
\<close>

section \<open>Rows and their parents\<close>

text \<open>The row's own fields; a row may have more, as the source's type parameter allows.\<close>

record timeline_row =
  tr_id :: ident
  tr_parentId :: "ident nullable"
  tr_depth :: nat

type_synonym parent_map = "(ident, ident option) js_map"

text \<open>\<open>parents.get(id) ?? null\<close>\<close>

definition parent_of :: "parent_map \<Rightarrow> ident \<Rightarrow> ident option" where
  "parent_of m i = (case js_get m i of None \<Rightarrow> None | Some p \<Rightarrow> p)"

text \<open>
  Writing \<open>depthStack[depth]\<close> and cutting the array there; reading a position that was
  never written gives \<open>undefined\<close>.
\<close>

definition stack_put :: "nat \<Rightarrow> ident \<Rightarrow> ident option list \<Rightarrow> ident option list" where
  "stack_put d i stack = take d stack @ replicate (d - length stack) None @ [Some i]"

definition stack_at :: "ident option list \<Rightarrow> nat \<Rightarrow> ident option" where
  "stack_at stack d = (if d < length stack then stack ! d else None)"

definition row_parent ::
  "ident set \<Rightarrow> 'a timeline_row_scheme \<Rightarrow> ident option list \<Rightarrow> ident option" where
  "row_parent rowIds row stack = (case tr_parentId row of
     Undefined \<Rightarrow> if tr_depth row > 0 then stack_at stack (tr_depth row - 1) else None
   | Null \<Rightarrow> None
   | Value p \<Rightarrow> if p \<noteq> tr_id row \<and> p \<in> rowIds then Some p else None)"

definition parent_step ::
  "ident set \<Rightarrow> 'a timeline_row_scheme \<Rightarrow> parent_map \<times> ident option list \<Rightarrow>
   parent_map \<times> ident option list" where
  "parent_step rowIds row st =
     (js_set (tr_id row) (row_parent rowIds row (snd st)) (fst st),
      stack_put (tr_depth row) (tr_id row) (snd st))"

definition initial_parents :: "'a timeline_row_scheme list \<Rightarrow> parent_map" where
  "initial_parents rows = fst (fold (parent_step (tr_id ` set rows)) rows ([], []))"

datatype visit_state = Visiting | Visited

type_synonym visit_map = "(ident, visit_state) js_map"

text \<open>Every call marks one more row, so the recursion ends.\<close>

definition unmarked :: "parent_map \<Rightarrow> visit_map \<Rightarrow> ident set" where
  "unmarked parents visit = set (js_keys parents) - set (js_keys visit)"

function breakParentCycles :: "ident \<Rightarrow> parent_map \<Rightarrow> visit_map \<Rightarrow> parent_map \<times> visit_map" where
  "breakParentCycles rowId parents visit =
     (let visit1 = js_set rowId Visiting visit;
          (parents2, visit2) = (case js_get parents rowId of
              Some (Some p) \<Rightarrow>
                (case js_get visit1 p of
                   Some Visiting \<Rightarrow> (js_set rowId None parents, visit1)
                 | Some Visited \<Rightarrow> (parents, visit1)
                 | None \<Rightarrow> breakParentCycles p parents visit1)
            | _ \<Rightarrow> (parents, visit1))
      in (parents2, js_set rowId Visited visit2))"
  by auto

termination
proof (relation "measure (\<lambda>(r, ps, v). 2 * card (unmarked ps v) + (if js_has v r then 1 else 0))")
  fix r :: ident and ps v visit1 a p
  assume *: "visit1 = js_set r Visiting v" "js_get ps r = Some a" "a = Some p" "js_get visit1 p = None"
  have keys: "set (js_keys visit1) = insert r (set (js_keys v))"
    unfolding *(1) by (auto simp: keys_js_set)
  have "r \<in> set (js_keys ps)" using *(2) by (force dest: map_of_SomeD)
  then have "js_get v r = None \<Longrightarrow> card (unmarked ps visit1) < card (unmarked ps v)"
    unfolding unmarked_def keys
    by (intro psubset_card_mono) (auto simp: map_of_eq_None_iff)
  moreover have "card (unmarked ps visit1) \<le> card (unmarked ps v)"
    unfolding unmarked_def keys by (intro card_mono) auto
  ultimately show "((p, ps, visit1), r, ps, v) \<in>
      measure (\<lambda>(r, ps, v). 2 * card (unmarked ps v) + (if js_has v r then 1 else 0))"
    using *(4) by (cases "js_has v r") auto
qed simp

declare breakParentCycles.simps [simp del]

definition break_step :: "ident \<Rightarrow> parent_map \<times> visit_map \<Rightarrow> parent_map \<times> visit_map" where
  "break_step rowId st =
     (if js_get (snd st) rowId \<noteq> Some Visited then breakParentCycles rowId (fst st) (snd st) else st)"

text \<open>\<open>rowIds\<close> is a set in order of insertion.\<close>

definition resolveTimelineParents :: "'a timeline_row_scheme list \<Rightarrow> parent_map" where
  "resolveTimelineParents rows =
     fst (fold break_step (fold set_add (map tr_id rows) []) (initial_parents rows, []))"

section \<open>Visible rows\<close>

record 'a visible_row =
  vr_row :: 'a
  vr_ancestorContinuations :: "bool list"
  vr_hasChildren :: bool
  vr_isLastSibling :: bool

type_synonym 'a child_map = "(ident option, 'a timeline_row_scheme list) js_map"

definition add_child :: "parent_map \<Rightarrow> 'a timeline_row_scheme \<Rightarrow> 'a child_map \<Rightarrow> 'a child_map" where
  "add_child parents row m =
     (let parentId = parent_of parents (tr_id row)
      in js_set parentId (coalesce (js_get m parentId) [] @ [row]) m)"

definition childrenByParent :: "'a timeline_row_scheme list \<Rightarrow> 'a child_map" where
  "childrenByParent rows = fold (add_child (resolveTimelineParents rows)) rows []"

definition children_of :: "'a child_map \<Rightarrow> ident option \<Rightarrow> 'a timeline_row_scheme list" where
  "children_of m parentId = coalesce (js_get m parentId) []"

text \<open>
  The two depth-first walks. The first argument bounds the depth of the recursion; every
  level adds an id to \<open>visited\<close>, so one more than the number of rows is enough.
\<close>

fun hideDescendants ::
  "nat \<Rightarrow> 'a child_map \<Rightarrow> 'a timeline_row_scheme list \<Rightarrow> ident set \<Rightarrow> ident set" where
  "hideDescendants 0 m rows visited = visited"
| "hideDescendants (Suc n) m [] visited = visited"
| "hideDescendants (Suc n) m (row # rows) visited =
     (if tr_id row \<in> visited then hideDescendants (Suc n) m rows visited
      else hideDescendants (Suc n) m rows
        (hideDescendants n m (children_of m (Some (tr_id row))) (insert (tr_id row) visited)))"

fun visit_rows ::
  "nat \<Rightarrow> 'a child_map \<Rightarrow> ident set \<Rightarrow> nat \<Rightarrow> bool list \<Rightarrow> 'a timeline_row_scheme list \<Rightarrow>
   'a timeline_row_scheme visible_row list \<times> ident set \<Rightarrow>
   'a timeline_row_scheme visible_row list \<times> ident set" where
  "visit_rows 0 m collapsed depth conts siblings st = st"
| "visit_rows (Suc n) m collapsed depth conts [] st = st"
| "visit_rows (Suc n) m collapsed depth conts (row # siblings) st =
     (if tr_id row \<in> snd st then visit_rows (Suc n) m collapsed depth conts siblings st
      else
        let kids = children_of m (Some (tr_id row));
            isLastSibling = (siblings = []);
            visible1 = fst st @ [\<lparr>vr_row = row\<lparr>tr_depth := depth\<rparr>,
              vr_ancestorContinuations = conts, vr_hasChildren = (kids \<noteq> []),
              vr_isLastSibling = isLastSibling\<rparr>];
            visited1 = insert (tr_id row) (snd st);
            st2 = (if tr_id row \<in> collapsed
              then (visible1, hideDescendants n m kids visited1)
              else visit_rows n m collapsed (depth + 1)
                (if depth = 0 then [] else conts @ [\<not> isLastSibling]) kids (visible1, visited1))
        in visit_rows (Suc n) m collapsed depth conts siblings st2)"

definition buildVisibleTraceTimelineRows ::
  "'a timeline_row_scheme list \<Rightarrow> ident set \<Rightarrow> 'a timeline_row_scheme visible_row list" where
  "buildVisibleTraceTimelineRows rows collapsed =
     (let m = childrenByParent rows
      in fst (visit_rows (length rows + 1) m collapsed 0 [] (children_of m None) ([], {})))"

end
