(* ===== verification/TraceTimelineFacts.thy ===== *)
theory TraceTimelineFacts
  imports TraceTimeline
begin

text \<open>
  The timeline's rows form a forest whatever the trace says, and the visible rows are its
  outline: every row exactly once unless an ancestor is collapsed, and under its parent.
\<close>

section \<open>Parents without cycles\<close>

text \<open>The number of a row's ancestors, where the chain of its parents ends.\<close>

inductive level :: "parent_map \<Rightarrow> ident \<Rightarrow> nat \<Rightarrow> bool" for ps where
  level_root: "parent_of ps i = None \<Longrightarrow> level ps i 0"
| level_up: "parent_of ps i = Some p \<Longrightarrow> level ps p n \<Longrightarrow> level ps i (Suc n)"

inductive_cases level_cases: "level ps i n"

lemma level_unique: "level ps i n \<Longrightarrow> level ps i k \<Longrightarrow> n = k"
proof (induction arbitrary: k rule: level.induct)
  case (level_root i)
  from level_root(2,1) show ?case by cases simp_all
next
  case (level_up i p n)
  from level_up.prems level_up.hyps(1) show ?case by cases (auto dest: level_up.IH)
qed

definition cut_of :: "parent_map \<Rightarrow> parent_map \<Rightarrow> bool" where
  "cut_of ps ps' \<longleftrightarrow> (\<forall>i. parent_of ps' i = parent_of ps i \<or> parent_of ps' i = None)"

lemma cut_refl [simp]: "cut_of ps ps"
  by (simp add: cut_of_def)

lemma cut_trans: "cut_of a b \<Longrightarrow> cut_of b c \<Longrightarrow> cut_of a c"
  by (simp add: cut_of_def) metis

lemma cut_set_None [simp]: "cut_of ps (js_set i None ps)"
  by (simp add: cut_of_def parent_of_def)

lemma level_cut: "level ps i n \<Longrightarrow> cut_of ps ps' \<Longrightarrow> \<exists>k. level ps' i k"
proof (induction rule: level.induct)
  case (level_root i)
  then have "parent_of ps' i = None" by (metis cut_of_def)
  then show ?case by (blast intro: level.level_root)
next
  case (level_up i p n)
  then obtain k where "level ps' p k" by blast
  with level_up show ?case
    by (cases "parent_of ps' i") (auto simp: cut_of_def intro: level.intros, metis level.level_up option.inject option.simps(3))
qed

definition visited_rooted :: "parent_map \<Rightarrow> visit_map \<Rightarrow> bool" where
  "visited_rooted ps visit \<longleftrightarrow> (\<forall>v. js_get visit v = Some Visited \<longrightarrow> (\<exists>n. level ps v n))"

text \<open>A call cuts parents only, and leaves rooted rows behind it.\<close>

lemma break_roots:
  assumes "visited_rooted ps visit" "js_get visit r \<noteq> Some Visited"
  shows "cut_of ps (fst (breakParentCycles r ps visit)) \<and>
    visited_rooted (fst (breakParentCycles r ps visit)) (snd (breakParentCycles r ps visit)) \<and>
    js_get (snd (breakParentCycles r ps visit)) r = Some Visited \<and>
    (\<forall>v. js_get visit v = Some Visited \<longrightarrow> js_get (snd (breakParentCycles r ps visit)) v = Some Visited)"
  using assms
proof (induction r ps visit rule: breakParentCycles.induct)
  case (1 r ps visit)
  let ?v1 = "js_set r Visiting visit"
  have v1: "visited_rooted ps ?v1" using 1(2) by (simp add: visited_rooted_def)
  show ?case
  proof (cases "parent_of ps r")
    case None
    then have "js_get ps r = None \<or> js_get ps r = Some None"
      by (auto simp: parent_of_def split: option.splits)
    then have "breakParentCycles r ps visit = (ps, js_set r Visited ?v1)"
      by (subst breakParentCycles.simps) (auto simp: Let_def)
    with v1 None show ?thesis by (auto simp: visited_rooted_def intro: level.level_root)
  next
    case (Some p)
    then have get: "js_get ps r = Some (Some p)" by (auto simp: parent_of_def split: option.splits)
    show ?thesis
    proof (cases "js_get ?v1 p")
      case None
      let ?b = "breakParentCycles p ps ?v1"
      have b: "breakParentCycles r ps visit = (fst ?b, js_set r Visited (snd ?b))"
        by (subst breakParentCycles.simps) (simp add: Let_def get None case_prod_beta del: js_get_set)
      have ih: "cut_of ps (fst ?b)" "visited_rooted (fst ?b) (snd ?b)" "js_get (snd ?b) p = Some Visited"
        "\<forall>v. js_get ?v1 v = Some Visited \<longrightarrow> js_get (snd ?b) v = Some Visited"
        using 1(1) [OF refl get refl None v1] None by auto
      obtain n where n: "level (fst ?b) p n" using ih(2,3) by (auto simp: visited_rooted_def)
      have "\<exists>n. level (fst ?b) r n"
        using ih(1) Some n by (metis cut_of_def level.intros)
      with ih 1(3) show ?thesis by (auto simp: b visited_rooted_def)
    next
      case (Some s)
      show ?thesis
      proof (cases s)
        case Visiting
        have b: "breakParentCycles r ps visit = (js_set r None ps, js_set r Visited ?v1)"
          by (subst breakParentCycles.simps) (use get Some Visiting in \<open>simp add: Let_def\<close>)
        have "\<exists>n. level (js_set r None ps) v n" if "js_get visit v = Some Visited" for v
          using that 1(2) level_cut [OF _ cut_set_None] by (auto simp: visited_rooted_def)
        moreover have "level (js_set r None ps) r 0" by (rule level_root) (simp add: parent_of_def)
        ultimately show ?thesis by (auto simp: b visited_rooted_def)
      next
        case Visited
        have b: "breakParentCycles r ps visit = (ps, js_set r Visited ?v1)"
          by (subst breakParentCycles.simps) (use get Some Visited in \<open>simp add: Let_def\<close>)
        obtain n where "level ps p n"
          using Some Visited v1 by (auto simp: visited_rooted_def)
        then have "level ps r (Suc n)" using \<open>parent_of ps r = Some p\<close> by (rule level.level_up [rotated])
        with 1(2) show ?thesis by (auto simp: b visited_rooted_def)
      qed
    qed
  qed
qed

lemma break_all:
  assumes "visited_rooted ps visit"
  shows "cut_of ps (fst (fold break_step ids (ps, visit))) \<and>
    visited_rooted (fst (fold break_step ids (ps, visit))) (snd (fold break_step ids (ps, visit))) \<and>
    (\<forall>v. v \<in> set ids \<or> js_get visit v = Some Visited \<longrightarrow>
       js_get (snd (fold break_step ids (ps, visit))) v = Some Visited)"
  using assms
proof (induction ids arbitrary: ps visit)
  case Nil
  then show ?case by simp
next
  case (Cons i ids)
  obtain ps1 visit1 where b: "break_step i (ps, visit) = (ps1, visit1)" by fastforce
  have s: "cut_of ps ps1" "visited_rooted ps1 visit1" "js_get visit1 i = Some Visited"
    "\<forall>v. js_get visit v = Some Visited \<longrightarrow> js_get visit1 v = Some Visited"
    using break_roots [OF Cons.prems, of i] b Cons.prems
    by (auto simp: break_step_def split: if_splits)
  show ?case using Cons.IH [OF s(2)] s by (auto simp: b intro: cut_trans)
qed

lemma set_fold_set_add: "set (fold set_add xs ys) = set xs \<union> set ys"
  by (induction xs arbitrary: ys) auto

lemma fold_parent_keys:
  "js_has (fst (fold (parent_step ids) rows st)) i \<longleftrightarrow> i \<in> tr_id ` set rows \<or> js_has (fst st) i"
  by (induction rows arbitrary: st) (auto simp: parent_step_def)

lemma initial_keys: "js_has (initial_parents rows) i \<longleftrightarrow> i \<in> tr_id ` set rows"
  unfolding initial_parents_def fold_parent_keys by simp

lemma timeline_levels: "\<exists>n. level (resolveTimelineParents rows) i n"
proof -
  let ?ids = "fold set_add (map tr_id rows) []"
  let ?st = "fold break_step ?ids (initial_parents rows, [])"
  have all: "cut_of (initial_parents rows) (fst ?st)" "visited_rooted (fst ?st) (snd ?st)"
    "\<forall>v \<in> set ?ids. js_get (snd ?st) v = Some Visited"
    using break_all [of "initial_parents rows" "[]" ?ids] by (auto simp: visited_rooted_def)
  show ?thesis
  proof (cases "i \<in> tr_id ` set rows")
    case True
    with all show ?thesis
      by (auto simp: resolveTimelineParents_def visited_rooted_def set_fold_set_add)
  next
    case False
    then have "parent_of (initial_parents rows) i = None"
      using initial_keys [of rows i] by (auto simp: parent_of_def split: option.split)
    with all(1) have "parent_of (resolveTimelineParents rows) i = None"
      by (metis cut_of_def resolveTimelineParents_def)
    then show ?thesis by (blast intro: level_root)
  qed
qed

text \<open>
  The parents of a timeline's rows have no cycle: whatever parent ids and depths a trace
  has, the chain of parents of every row ends.
\<close>

theorem timeline_parents_end: "\<exists>n. level (resolveTimelineParents rows) i n"
  by (rule timeline_levels)

text \<open>
  Nothing is cut where nothing has to be: rows under way have more ancestors than the row the
  walk is at, unless there is a cycle.
\<close>

definition under_way :: "parent_map \<Rightarrow> visit_map \<Rightarrow> ident \<Rightarrow> bool" where
  "under_way ps visit r \<longleftrightarrow>
     (\<forall>v n k. js_get visit v = Some Visiting \<longrightarrow> level ps v n \<longrightarrow> level ps r k \<longrightarrow> k < n)"

lemma break_keeps:
  assumes "\<And>i. \<exists>n. level ps i n" "under_way ps visit r"
  shows "fst (breakParentCycles r ps visit) = ps \<and>
    (\<forall>v. js_get (snd (breakParentCycles r ps visit)) v = Some Visiting \<longrightarrow> js_get visit v = Some Visiting)"
  using assms
proof (induction r ps visit rule: breakParentCycles.induct)
  case (1 r ps visit)
  let ?v1 = "js_set r Visiting visit"
  show ?case
  proof (cases "parent_of ps r")
    case None
    then have "js_get ps r = None \<or> js_get ps r = Some None"
      by (auto simp: parent_of_def split: option.splits)
    then have "breakParentCycles r ps visit = (ps, js_set r Visited ?v1)"
      by (subst breakParentCycles.simps) (auto simp: Let_def)
    then show ?thesis by simp
  next
    case (Some p)
    then have get: "js_get ps r = Some (Some p)" by (auto simp: parent_of_def split: option.splits)
    obtain m where m: "level ps p m" using 1(2) by blast
    have m1: "level ps r (Suc m)" using Some m by (rule level_up)
    have way: "under_way ps ?v1 p"
      unfolding under_way_def
    proof (intro allI impI)
      fix v n k
      assume v: "js_get ?v1 v = Some Visiting" "level ps v n" "level ps p k"
      have "k = m" using v(3) m by (rule level_unique)
      moreover have "Suc m \<le> n"
      proof (cases "v = r")
        case True
        then show ?thesis using level_unique [OF m1] v(2) by simp
      next
        case False
        with v(1) have "js_get visit v = Some Visiting" by simp
        with 1(3) v(2) m1 have "Suc m < n" unfolding under_way_def by blast
        then show ?thesis by simp
      qed
      ultimately show "k < n" by simp
    qed
    show ?thesis
    proof (cases "js_get ?v1 p")
      case None
      let ?b = "breakParentCycles p ps ?v1"
      have b: "breakParentCycles r ps visit = (fst ?b, js_set r Visited (snd ?b))"
        by (subst breakParentCycles.simps) (simp add: Let_def get None case_prod_beta del: js_get_set)
      have "fst ?b = ps" "\<forall>v. js_get (snd ?b) v = Some Visiting \<longrightarrow> js_get ?v1 v = Some Visiting"
        using 1(1) [OF refl get refl None 1(2) way] by auto
      then show ?thesis by (auto simp: b split: if_splits)
    next
      case (Some s)
      have "s \<noteq> Visiting" using way m Some by (auto simp: under_way_def)
      then have "s = Visited" by (cases s) simp_all
      then have "breakParentCycles r ps visit = (ps, js_set r Visited ?v1)"
        by (subst breakParentCycles.simps) (use get Some in \<open>simp add: Let_def\<close>)
      then show ?thesis by simp
    qed
  qed
qed

lemma break_all_keeps:
  assumes "\<And>i. \<exists>n. level ps i n" "\<forall>v. js_get visit v \<noteq> Some Visiting"
  shows "fst (fold break_step ids (ps, visit)) = ps"
  using assms(2)
proof (induction ids arbitrary: visit)
  case (Cons i ids)
  have "fst (break_step i (ps, visit)) = ps"
    "\<forall>v. js_get (snd (break_step i (ps, visit))) v \<noteq> Some Visiting"
    using break_keeps [OF assms(1), of visit i] Cons.prems
    by (auto simp: break_step_def under_way_def)
  then show ?case using Cons.IH [of "snd (break_step i (ps, visit))"]
    by (cases "break_step i (ps, visit)") auto
qed simp

text \<open>
  Parents are cut only to break cycles: where the parents the rows name, or their depths
  give, have none, the timeline's rows keep exactly those parents.
\<close>

theorem timeline_parents_kept:
  assumes "\<And>i. \<exists>n. level (initial_parents rows) i n"
  shows "resolveTimelineParents rows = initial_parents rows"
  using break_all_keeps [OF assms, where visit = "[]"] by (simp add: resolveTimelineParents_def)

section \<open>The forest of the rows\<close>

lemma initial_parent_in:
  assumes "parent_of (initial_parents rows) i = Some p"
  shows "p \<in> tr_id ` set rows"
proof -
  define I :: "parent_map \<times> ident option list \<Rightarrow> bool" where
    "I st \<longleftrightarrow> (\<forall>i p. parent_of (fst st) i = Some p \<longrightarrow> p \<in> tr_id ` set rows) \<and>
       (\<forall>p. Some p \<in> set (snd st) \<longrightarrow> p \<in> tr_id ` set rows)" for st
  have "I (fold (parent_step (tr_id ` set rows)) rows ([], []))"
  proof (rule fold_keeps [where I = I])
    fix row st
    assume row: "row \<in> set rows" and I: "I st"
    have "p \<in> tr_id ` set rows" if "row_parent (tr_id ` set rows) row (snd st) = Some p" for p
      using that I
      by (auto simp: row_parent_def I_def stack_at_def split: nullable.splits if_splits)
        (metis nth_mem)
    moreover have "Some p \<in> set (stack_put d j stack) \<Longrightarrow> p = j \<or> Some p \<in> set stack"
      for p j d and stack :: "ident option list"
      by (auto simp: stack_put_def dest: in_set_takeD)
    ultimately show "I (parent_step (tr_id ` set rows) row st)"
      using I row by (auto simp: I_def parent_step_def parent_of_def split: if_splits) blast
  qed (simp add: I_def parent_of_def)
  with assms show ?thesis by (auto simp: I_def initial_parents_def)
qed

lemma resolved_parent_in:
  assumes "parent_of (resolveTimelineParents rows) i = Some p"
  shows "p \<in> tr_id ` set rows" "i \<in> tr_id ` set rows"
proof -
  have "cut_of (initial_parents rows) (resolveTimelineParents rows)"
    using break_all [of "initial_parents rows" "[]" "fold set_add (map tr_id rows) []"]
    by (simp add: resolveTimelineParents_def visited_rooted_def)
  with assms have p: "parent_of (initial_parents rows) i = Some p" by (metis cut_of_def option.distinct(1))
  then show "p \<in> tr_id ` set rows" by (rule initial_parent_in)
  show "i \<in> tr_id ` set rows"
    using p initial_keys [of rows i] by (auto simp: parent_of_def split: option.splits)
qed

lemma children_filter_fold:
  "children_of (fold (add_child ps) rows m) p =
   children_of m p @ filter (\<lambda>r. parent_of ps (tr_id r) = p) rows"
  by (induction rows arbitrary: m) (auto simp: children_of_def add_child_def Let_def)

lemma children_filter:
  "children_of (childrenByParent rows) p =
   filter (\<lambda>r. parent_of (resolveTimelineParents rows) (tr_id r) = p) rows"
  by (simp add: childrenByParent_def children_filter_fold) (simp add: children_of_def)

end
