(* ===== verification/TraceTimelineOutline.thy ===== *)
theory TraceTimelineOutline
  imports TraceTimelineFacts
begin

text \<open>
  The visible rows of a timeline are the outline of its forest: the recursive listing of a
  row followed by its subtrees, which needs no record of the rows visited.
\<close>

section \<open>Descendants\<close>

inductive below :: "parent_map \<Rightarrow> ident \<Rightarrow> ident \<Rightarrow> bool" for ps x where
  below_refl: "below ps x x"
| below_up: "parent_of ps y = Some z \<Longrightarrow> below ps x z \<Longrightarrow> below ps x y"

inductive_cases below_cases: "below ps x y"

lemma below_trans: "below ps y z \<Longrightarrow> below ps x y \<Longrightarrow> below ps x z"
  by (induction rule: below.induct) (auto intro: below_up)

lemma below_child: "parent_of ps c = Some x \<Longrightarrow> below ps c y \<Longrightarrow> below ps x y"
  by (rule below_trans) (auto intro: below_up below_refl)

lemma below_iff: "below ps x y \<longleftrightarrow> y = x \<or> (\<exists>c. parent_of ps c = Some x \<and> below ps c y)"
proof
  show "below ps x y \<Longrightarrow> y = x \<or> (\<exists>c. parent_of ps c = Some x \<and> below ps c y)"
    by (induction rule: below.induct) (auto intro: below_up below_refl)
qed (auto intro: below_refl below_child)

lemma below_level: "below ps x y \<Longrightarrow> level ps x n \<Longrightarrow> level ps y k \<Longrightarrow> n \<le> k \<and> (n = k \<longrightarrow> x = y)"
proof (induction arbitrary: k rule: below.induct)
  case below_refl
  then show ?case using level_unique by blast
next
  case (below_up y z)
  from below_up.prems(2) below_up.hyps(1) obtain k' where "k = Suc k'" "level ps z k'"
    by cases auto
  with below_up.IH below_up.prems(1) show ?case by force
qed

lemma below_linear: "below ps c y \<Longrightarrow> below ps c' y \<Longrightarrow> below ps c c' \<or> below ps c' c"
proof (induction rule: below.induct)
  case (below_up y z)
  from below_up.prems show ?case
  proof cases
    case below_refl
    then show ?thesis using below_up.hyps by (auto intro: below.below_up)
  next
    case (below_up z')
    with below_up.hyps below_up.IH show ?thesis using \<open>parent_of ps y = Some z\<close> by auto
  qed
qed simp

lemma below_same_level:
  "below ps c y \<Longrightarrow> below ps c' y \<Longrightarrow> level ps c d \<Longrightarrow> level ps c' d \<Longrightarrow> c = c'"
  using below_linear below_level by blast

section \<open>A forest with its child lists\<close>

definition forest :: "parent_map \<Rightarrow> 'a child_map \<Rightarrow> 'a timeline_row_scheme list \<Rightarrow> bool" where
  "forest ps m rows \<longleftrightarrow> distinct (map tr_id rows) \<and> (\<forall>i. \<exists>n. level ps i n) \<and>
     (\<forall>r \<in> set rows. \<forall>n. level ps (tr_id r) n \<longrightarrow> n < length rows) \<and>
     (\<forall>i p. parent_of ps i = Some p \<longrightarrow> i \<in> tr_id ` set rows \<and> p \<in> tr_id ` set rows) \<and>
     (\<forall>p. children_of m p = filter (\<lambda>r. parent_of ps (tr_id r) = p) rows)"

text \<open>A chain of ancestors has a row on every level above.\<close>

lemma levels_between:
  "level ps i n \<Longrightarrow> (\<And>i p. parent_of ps i = Some p \<Longrightarrow> p \<in> A) \<Longrightarrow> i \<in> A \<Longrightarrow> k \<le> n \<Longrightarrow>
   \<exists>j \<in> A. level ps j k"
proof (induction arbitrary: k rule: level.induct)
  case (level_up i p n)
  then show ?case
    by (cases "k = Suc n") (auto intro: level.level_up)
qed (auto intro: level.level_root)

lemma level_bound:
  assumes "level ps i n" "\<And>i p. parent_of ps i = Some p \<Longrightarrow> p \<in> A" "i \<in> A" "finite A"
  shows "n < card A"
proof -
  have "\<exists>j \<in> A. level ps j k" if "k \<le> n" for k
    by (rule levels_between [OF assms(1)]) (use assms that in auto)
  then have "\<forall>k. \<exists>j. k \<le> n \<longrightarrow> j \<in> A \<and> level ps j k" by blast
  then obtain f where f: "\<And>k. k \<le> n \<Longrightarrow> f k \<in> A \<and> level ps (f k) k" by metis
  have "inj_on f {..n}" using f level_unique by (intro inj_onI) (metis atMost_iff)
  moreover have "f ` {..n} \<subseteq> A" using f by auto
  ultimately have "card {..n} \<le> card A" using assms(4) by (intro card_inj_on_le)
  then show ?thesis by simp
qed

lemma timeline_forest:
  assumes "distinct (map tr_id rows)"
  shows "forest (resolveTimelineParents rows) (childrenByParent rows) rows"
proof -
  have "n < length rows" if "level (resolveTimelineParents rows) (tr_id r) n" "r \<in> set rows" for r n
  proof -
    have "n < card (tr_id ` set rows)"
      using that resolved_parent_in(1) by (intro level_bound [OF that(1)]) auto
    then show ?thesis using card_length [of "map tr_id rows"] by simp
  qed
  then show ?thesis
    unfolding forest_def
    using assms timeline_levels resolved_parent_in children_filter by blast
qed

definition siblings_ok ::
  "parent_map \<Rightarrow> 'a timeline_row_scheme list \<Rightarrow> nat \<Rightarrow> 'a timeline_row_scheme list \<Rightarrow> bool" where
  "siblings_ok ps rows d sibs \<longleftrightarrow> set sibs \<subseteq> set rows \<and> distinct (map tr_id sibs) \<and>
     (\<forall>r \<in> set sibs. level ps (tr_id r) d)"

definition descs :: "parent_map \<Rightarrow> 'a timeline_row_scheme list \<Rightarrow> ident set" where
  "descs ps sibs = {y. \<exists>r \<in> set sibs. below ps (tr_id r) y}"

lemma descs_simps [simp]:
  "descs ps [] = {}" "descs ps (r # sibs) = {y. below ps (tr_id r) y} \<union> descs ps sibs"
  by (auto simp: descs_def)

lemma distinct_filter_ids: "distinct (map tr_id rows) \<Longrightarrow> distinct (map tr_id (filter P rows))"
  by (induction rows) auto

lemma kid_ids:
  assumes "forest ps m rows"
  shows "parent_of ps c = Some i \<longleftrightarrow> c \<in> tr_id ` set (children_of m (Some i))"
proof
  assume p: "parent_of ps c = Some i"
  with assms have "c \<in> tr_id ` set rows" unfolding forest_def by blast
  then obtain r where "r \<in> set rows" "tr_id r = c" by blast
  with p assms show "c \<in> tr_id ` set (children_of m (Some i))" by (auto simp: forest_def)
qed (use assms in \<open>auto simp: forest_def\<close>)

lemma siblings_children:
  assumes "forest ps m rows" "level ps i d"
  shows "siblings_ok ps rows (Suc d) (children_of m (Some i))"
  using assms by (auto simp: siblings_ok_def forest_def distinct_filter_ids intro: level_up)

lemma siblings_roots: "forest ps m rows \<Longrightarrow> siblings_ok ps rows 0 (children_of m None)"
  by (auto simp: siblings_ok_def forest_def distinct_filter_ids intro: level_root)

lemma below_strict:
  "forest ps m rows \<Longrightarrow> below ps x y \<longleftrightarrow> y = x \<or> (\<exists>r \<in> set (children_of m (Some x)). below ps (tr_id r) y)"
  using kid_ids [of ps m rows _ x] below_iff [of ps x y] by auto

lemma below_row:
  "forest ps m rows \<Longrightarrow> {y. below ps i y} = insert i (descs ps (children_of m (Some i)))"
  using below_strict [of ps m rows i] by (auto simp: descs_def)

lemma siblings_apart:
  assumes "siblings_ok ps rows d (r # sibs)"
  shows "{y. below ps (tr_id r) y} \<inter> descs ps sibs = {}"
  using assms below_same_level by (fastforce simp: siblings_ok_def descs_def)

lemma row_apart_children:
  assumes "forest ps m rows" "level ps i d"
  shows "i \<notin> descs ps (children_of m (Some i))"
  using below_level [of ps _ i "Suc d" d] assms siblings_children [OF assms]
  by (fastforce simp: descs_def siblings_ok_def)

lemma no_siblings_below:
  assumes "forest ps m rows" "siblings_ok ps rows d sibs" "length rows \<le> d"
  shows "sibs = []"
proof (cases sibs)
  case (Cons r rs)
  then have "r \<in> set rows" "level ps (tr_id r) d" using assms(2) by (auto simp: siblings_ok_def)
  then have "d < length rows" using assms(1) by (auto simp: forest_def)
  with assms(3) show ?thesis by simp
qed

lemma siblings_tail: "siblings_ok ps rows d (r # sibs) \<Longrightarrow> siblings_ok ps rows d sibs"
  by (simp add: siblings_ok_def)

lemma sibling_level: "siblings_ok ps rows d (r # sibs) \<Longrightarrow> level ps (tr_id r) d"
  by (simp add: siblings_ok_def)

lemma hide_descs:
  assumes "forest ps m rows" "siblings_ok ps rows d sibs" "length rows \<le> n + d"
    and "seen \<inter> descs ps sibs = {}"
  shows "hideDescendants n m sibs seen = seen \<union> descs ps sibs"
  using assms
proof (induction n m sibs seen arbitrary: d rule: hideDescendants.induct)
  case (1 m sibs seen)
  then have "sibs = []" by (intro no_siblings_below [OF 1(1,2)]) simp
  then show ?case by simp
next
  case (2 n m seen)
  then show ?case by simp
next
  case (3 n m r sibs seen)
  let ?kids = "children_of m (Some (tr_id r))"
  have lvl: "level ps (tr_id r) d" using 3(5) by (rule sibling_level)
  have new: "tr_id r \<notin> seen" using 3(7) below_refl by auto
  have row: "{y. below ps (tr_id r) y} = insert (tr_id r) (descs ps ?kids)"
    using 3(4) by (rule below_row)
  have "hideDescendants n m ?kids (insert (tr_id r) seen) = insert (tr_id r) seen \<union> descs ps ?kids"
    using 3(6,7) row_apart_children [OF 3(4) lvl] row
    by (intro 3(2) [OF new 3(4) siblings_children [OF 3(4) lvl]]) auto
  then have kids: "hideDescendants n m ?kids (insert (tr_id r) seen) = seen \<union> {y. below ps (tr_id r) y}"
    using row by auto
  have "hideDescendants (Suc n) m sibs (seen \<union> {y. below ps (tr_id r) y}) =
      seen \<union> {y. below ps (tr_id r) y} \<union> descs ps sibs"
    using 3(3) [OF new 3(4) siblings_tail [OF 3(5)] 3(6)] 3(7) siblings_apart [OF 3(5)]
    unfolding kids by auto
  then show ?case using new kids by auto
qed

section \<open>The outline\<close>

text \<open>The reference: a row, then its subtrees unless it is collapsed, then its later siblings.\<close>

fun outline ::
  "nat \<Rightarrow> 'a child_map \<Rightarrow> ident set \<Rightarrow> nat \<Rightarrow> bool list \<Rightarrow> 'a timeline_row_scheme list \<Rightarrow>
   'a timeline_row_scheme visible_row list" where
  "outline 0 m collapsed depth conts siblings = []"
| "outline (Suc n) m collapsed depth conts [] = []"
| "outline (Suc n) m collapsed depth conts (row # siblings) =
     (let kids = children_of m (Some (tr_id row))
      in \<lparr>vr_row = row\<lparr>tr_depth := depth\<rparr>, vr_ancestorContinuations = conts,
          vr_hasChildren = (kids \<noteq> []), vr_isLastSibling = (siblings = [])\<rparr> #
        (if tr_id row \<in> collapsed then []
         else outline n m collapsed (depth + 1)
           (if depth = 0 then [] else conts @ [siblings \<noteq> []]) kids) @
        outline (Suc n) m collapsed depth conts siblings)"

lemma visit_outline:
  assumes "forest ps m rows" "siblings_ok ps rows d sibs" "length rows \<le> n + d"
    and "snd st \<inter> descs ps sibs = {}"
  shows "visit_rows n m col d conts sibs st =
    (fst st @ outline n m col d conts sibs, snd st \<union> descs ps sibs)"
  using assms
proof (induction n m col d conts sibs st rule: visit_rows.induct)
  case (1 m col d conts sibs st)
  then have "sibs = []" by (intro no_siblings_below [OF 1(1,2)]) simp
  then show ?case by simp
next
  case (2 n m col d conts st)
  then show ?case by simp
next
  case (3 n m col d conts r sibs st)
  let ?kids = "children_of m (Some (tr_id r))"
  let ?vis = "fst st @ [\<lparr>vr_row = r\<lparr>tr_depth := d\<rparr>, vr_ancestorContinuations = conts,
    vr_hasChildren = (?kids \<noteq> []), vr_isLastSibling = (sibs = [])\<rparr>]"
  let ?seen = "insert (tr_id r) (snd st)"
  let ?conts = "if d = 0 then [] else conts @ [\<not> (sibs = [])]"
  let ?st2 = "if tr_id r \<in> col then (?vis, hideDescendants n m ?kids ?seen)
    else visit_rows n m col (d + 1) ?conts ?kids (?vis, ?seen)"
  have lvl: "level ps (tr_id r) d" using 3(5) by (rule sibling_level)
  have new: "tr_id r \<notin> snd st" using 3(7) below_refl by auto
  have row: "{y. below ps (tr_id r) y} = insert (tr_id r) (descs ps ?kids)"
    using 3(4) by (rule below_row)
  have kids: "siblings_ok ps rows (d + 1) ?kids" using siblings_children [OF 3(4) lvl] by simp
  have fuel: "length rows \<le> n + (d + 1)" using 3(6) by simp
  have apart: "?seen \<inter> descs ps ?kids = {}"
    using 3(7) row_apart_children [OF 3(4) lvl] row by auto
  have st2: "?st2 = (?vis @ (if tr_id r \<in> col then [] else outline n m col (d + 1) ?conts ?kids),
      snd st \<union> {y. below ps (tr_id r) y})"
  proof (cases "tr_id r \<in> col")
    case True
    have "hideDescendants n m ?kids ?seen = ?seen \<union> descs ps ?kids"
      using 3(4) kids fuel apart by (rule hide_descs)
    with True row show ?thesis by auto
  next
    case False
    have "visit_rows n m col (d + 1) ?conts ?kids (?vis, ?seen) =
        (?vis @ outline n m col (d + 1) ?conts ?kids, ?seen \<union> descs ps ?kids)"
      using 3(2) [OF new refl refl refl refl False 3(4) kids] fuel apart by simp
    with False row show ?thesis by auto
  qed
  have apart2: "(snd st \<union> {y. below ps (tr_id r) y}) \<inter> descs ps sibs = {}"
    using 3(7) siblings_apart [OF 3(5)] by auto
  have "visit_rows (Suc n) m col d conts sibs ?st2 =
      (fst ?st2 @ outline (Suc n) m col d conts sibs, snd ?st2 \<union> descs ps sibs)"
    using 3(3) [OF new refl refl refl refl refl 3(4) siblings_tail [OF 3(5)] 3(6)] apart2
    unfolding st2 by simp
  moreover have "visit_rows (Suc n) m col d conts (r # sibs) st = visit_rows (Suc n) m col d conts sibs ?st2"
    using new by (simp add: Let_def)
  ultimately show ?case unfolding st2 by (simp add: Let_def Un_assoc)
qed

lemma outline_fuel:
  assumes "forest ps m rows" "siblings_ok ps rows d sibs" "length rows \<le> n + d" "length rows \<le> k + d"
  shows "outline n m col d conts sibs = outline k m col d conts sibs"
  using assms
proof (induction n m col d conts sibs arbitrary: k rule: outline.induct)
  case (1 m col d conts sibs)
  then have "sibs = []" by (intro no_siblings_below [OF 1(1,2)]) simp
  then show ?case by (cases k) simp_all
next
  case (2 n m col d conts)
  then show ?case by (cases k) simp_all
next
  case (3 n m col d conts r sibs)
  have lvl: "level ps (tr_id r) d" using 3(4) by (rule sibling_level)
  show ?case
  proof (cases k)
    case 0
    with 3(6) have "r # sibs = []" by (intro no_siblings_below [OF 3(3,4)]) simp
    then show ?thesis by simp
  next
    case (Suc k')
    have "outline (Suc n) m col d conts sibs = outline (Suc k') m col d conts sibs"
      using 3(2) [OF refl 3(3) siblings_tail [OF 3(4)] 3(5), of "Suc k'"] 3(6) Suc by simp
    moreover have "outline n m col (d + 1) (if d = 0 then [] else conts @ [sibs \<noteq> []])
        (children_of m (Some (tr_id r))) =
      outline k' m col (d + 1) (if d = 0 then [] else conts @ [sibs \<noteq> []])
        (children_of m (Some (tr_id r)))" if "tr_id r \<notin> col"
      using 3(1) [OF refl that 3(3), of k'] siblings_children [OF 3(3) lvl] 3(5,6) Suc by simp
    ultimately show ?thesis by (simp add: Suc Let_def)
  qed
qed

lemma visible_rows_outline:
  assumes "distinct (map tr_id rows)" "length rows \<le> n" "length rows \<le> k"
  shows "buildVisibleTraceTimelineRows rows collapsed =
      outline k (childrenByParent rows) collapsed 0 [] (children_of (childrenByParent rows) None) \<and>
    buildVisibleTraceTimelineRows rows collapsed =
      fst (visit_rows n (childrenByParent rows) collapsed 0 []
        (children_of (childrenByParent rows) None) ([], {}))"
proof -
  let ?ps = "resolveTimelineParents rows" and ?m = "childrenByParent rows"
  have f: "forest ?ps ?m rows" using assms(1) by (rule timeline_forest)
  have s: "siblings_ok ?ps rows 0 (children_of ?m None)" using f by (rule siblings_roots)
  have visits: "fst (visit_rows j ?m collapsed 0 [] (children_of ?m None) ([], {})) =
      outline k ?m collapsed 0 [] (children_of ?m None)" if "length rows \<le> j" for j
    using visit_outline [OF f s, of j "([], {})" collapsed "[]"] outline_fuel [OF f s, of j k] that assms(3)
    by simp
  show ?thesis
    using visits [of "length rows + 1"] visits [of n] assms(2)
    by (simp add: buildVisibleTraceTimelineRows_def Let_def)
qed

text \<open>
  The visible rows of a timeline are the outline of its forest: for rows with distinct
  ids the walk with its record of visited rows lists each root followed by its subtrees,
  leaving out what is below a collapsed row; the bounds on the depth are never reached.
\<close>

theorem visible_rows_are_the_outline:
  assumes "distinct (map tr_id rows)" "length rows \<le> n" "length rows \<le> k"
  shows "buildVisibleTraceTimelineRows rows collapsed =
      outline k (childrenByParent rows) collapsed 0 [] (children_of (childrenByParent rows) None) \<and>
    buildVisibleTraceTimelineRows rows collapsed =
      fst (visit_rows n (childrenByParent rows) collapsed 0 []
        (children_of (childrenByParent rows) None) ([], {}))"
  using assms by (rule visible_rows_outline)

section \<open>Which rows are visible\<close>

abbreviation vr_id :: "'a timeline_row_scheme visible_row \<Rightarrow> ident" where
  "vr_id v \<equiv> tr_id (vr_row v)"

abbreviation vr_depth :: "'a timeline_row_scheme visible_row \<Rightarrow> nat" where
  "vr_depth v \<equiv> tr_depth (vr_row v)"

text \<open>No collapsed row strictly above \<open>y\<close>, up to \<open>x\<close>.\<close>

definition shown :: "parent_map \<Rightarrow> ident set \<Rightarrow> ident \<Rightarrow> ident \<Rightarrow> bool" where
  "shown ps col x y \<longleftrightarrow> below ps x y \<and> (\<forall>z \<in> col. z \<noteq> y \<longrightarrow> below ps x z \<longrightarrow> \<not> below ps z y)"

lemma forest_level: "forest ps m rows \<Longrightarrow> \<exists>n. level ps i n"
  by (simp add: forest_def)

lemma below_antisym: "forest ps m rows \<Longrightarrow> below ps x y \<Longrightarrow> below ps y x \<Longrightarrow> x = y"
  using forest_level [of ps m rows x] forest_level [of ps m rows y] below_level by (metis le_antisym)

lemma shown_iff:
  assumes f: "forest ps m rows"
  shows "shown ps col x y \<longleftrightarrow>
    y = x \<or> x \<notin> col \<and> (\<exists>r \<in> set (children_of m (Some x)). shown ps col (tr_id r) y)"
proof (cases "y = x")
  case True
  have "shown ps col x x"
    unfolding shown_def
  proof (intro conjI ballI impI notI)
    fix z
    assume "z \<noteq> x" "below ps x z" "below ps z x"
    with below_antisym [OF f] show False by blast
  qed (rule below_refl)
  with True show ?thesis by simp
next
  case False
  have up: "below ps (tr_id r) z \<Longrightarrow> below ps x z" if "r \<in> set (children_of m (Some x))" for r z
    using that kid_ids [OF f, of "tr_id r" x] below_child by blast
  obtain n where n: "level ps x n" using forest_level [OF f] by blast
  have kids: "level ps (tr_id r) (Suc n)" if "r \<in> set (children_of m (Some x))" for r
    using that kid_ids [OF f, of "tr_id r" x] n by (auto intro: level_up)
  have into: "shown ps col (tr_id r) y"
    if s: "shown ps col x y" and r: "r \<in> set (children_of m (Some x))" "below ps (tr_id r) y" for r
    unfolding shown_def
  proof (intro conjI ballI impI)
    fix z
    assume "z \<in> col" "z \<noteq> y" "below ps (tr_id r) z"
    then show "\<not> below ps z y" using s up [OF r(1), of z] by (simp add: shown_def)
  qed (rule r(2))
  have onto: "shown ps col x y"
    if r: "x \<notin> col" "r \<in> set (children_of m (Some x))" "shown ps col (tr_id r) y" for r
    unfolding shown_def
  proof (intro conjI ballI impI)
    have y: "below ps (tr_id r) y" using r(3) unfolding shown_def by blast
    then show "below ps x y" by (rule up [OF r(2)])
    fix z
    assume z: "z \<in> col" "z \<noteq> y" "below ps x z"
    show "\<not> below ps z y"
    proof
      assume zy: "below ps z y"
      have "z \<noteq> x" using z(1) r(1) by blast
      then obtain r' where r': "r' \<in> set (children_of m (Some x))" "below ps (tr_id r') z"
        using z(3) below_strict [OF f, of x z] by auto
      have "below ps (tr_id r') y" using zy r'(2) by (rule below_trans)
      then have "tr_id r' = tr_id r"
        by (rule below_same_level [OF _ y kids [OF r'(1)] kids [OF r(2)]])
      with r'(2) z zy r(3) show False unfolding shown_def by simp
    qed
  qed
  have out: "x \<notin> col" if "shown ps col x y"
    using that False below_refl [of ps x] by (auto simp: shown_def)
  show ?thesis
  proof
    assume s: "shown ps col x y"
    then obtain r where "r \<in> set (children_of m (Some x))" "below ps (tr_id r) y"
      using False below_strict [OF f, of x y] unfolding shown_def by auto
    with out [OF s] into [OF s]
    show "y = x \<or> x \<notin> col \<and> (\<exists>r \<in> set (children_of m (Some x)). shown ps col (tr_id r) y)"
      by auto
  next
    assume "y = x \<or> x \<notin> col \<and> (\<exists>r \<in> set (children_of m (Some x)). shown ps col (tr_id r) y)"
    with False obtain r where "x \<notin> col" "r \<in> set (children_of m (Some x))" "shown ps col (tr_id r) y"
      by auto
    then show "shown ps col x y" by (rule onto)
  qed
qed

lemma outline_ids:
  assumes "forest ps m rows" "siblings_ok ps rows d sibs" "length rows \<le> n + d"
  shows "distinct (map vr_id (outline n m col d conts sibs)) \<and>
    set (map vr_id (outline n m col d conts sibs)) = {y. \<exists>r \<in> set sibs. shown ps col (tr_id r) y}"
  using assms
proof (induction n m col d conts sibs rule: outline.induct)
  case (1 m col d conts sibs)
  then have "sibs = []" by (intro no_siblings_below [OF 1(1,2)]) simp
  then show ?case by simp
next
  case (2 n m col d conts)
  then show ?case by simp
next
  case (3 n m col d conts r sibs)
  let ?kids = "children_of m (Some (tr_id r))"
  let ?sub = "if tr_id r \<in> col then []
    else outline n m col (d + 1) (if d = 0 then [] else conts @ [sibs \<noteq> []]) ?kids"
  let ?rest = "outline (Suc n) m col d conts sibs"
  have lvl: "level ps (tr_id r) d" using 3(4) by (rule sibling_level)
  have rest: "distinct (map vr_id ?rest)"
    "set (map vr_id ?rest) = {y. \<exists>r \<in> set sibs. shown ps col (tr_id r) y}"
    using 3(2) [OF refl 3(3) siblings_tail [OF 3(4)] 3(5)] by blast+
  have kids: "siblings_ok ps rows (d + 1) ?kids" using siblings_children [OF 3(3) lvl] by simp
  have fuel: "length rows \<le> n + (d + 1)" using 3(5) by simp
  have sub: "distinct (map vr_id ?sub) \<and>
    set (map vr_id ?sub) = {y. tr_id r \<notin> col \<and> (\<exists>r \<in> set ?kids. shown ps col (tr_id r) y)}"
  proof (cases "tr_id r \<in> col")
    case False
    with 3(1) [OF refl False 3(3) kids fuel] show ?thesis by simp
  qed simp
  have here: "{y. shown ps col (tr_id r) y} = insert (tr_id r) (set (map vr_id ?sub))"
    using sub shown_iff [OF 3(3), of col "tr_id r"] by blast
  have apart: "tr_id r \<notin> set (map vr_id ?sub)"
    using sub row_apart_children [OF 3(3) lvl] unfolding shown_def descs_def by blast
  have apart2: "{y. shown ps col (tr_id r) y} \<inter> set (map vr_id ?rest) = {}"
    unfolding rest(2) using siblings_apart [OF 3(4)] unfolding shown_def descs_def by blast
  have out: "map vr_id (outline (Suc n) m col d conts (r # sibs)) =
      tr_id r # map vr_id ?sub @ map vr_id ?rest"
    unfolding outline.simps Let_def by simp
  have "set (map vr_id (outline (Suc n) m col d conts (r # sibs))) =
        {y. shown ps col (tr_id r) y} \<union> set (map vr_id ?rest)"
    unfolding out here by (simp only: set_append list.set Un_insert_left)
  then have "set (map vr_id (outline (Suc n) m col d conts (r # sibs))) =
      {y. \<exists>q \<in> set (r # sibs). shown ps col (tr_id q) y}"
    unfolding rest(2) by auto
  moreover have "distinct (map vr_id (outline (Suc n) m col d conts (r # sibs)))"
    unfolding out using rest(1) conjunct1 [OF sub] apart apart2 unfolding here
    by (simp only: distinct.simps distinct_append set_append) blast
  ultimately show ?case by blast
qed

text \<open>Every row is below a root.\<close>

lemma below_some_root:
  assumes "forest ps m rows" "i \<in> tr_id ` set rows"
  shows "\<exists>r \<in> set (children_of m None). below ps (tr_id r) i"
proof -
  have "\<exists>j. parent_of ps j = None \<and> below ps j i" if "level ps i n" for n
    using that by induction (auto intro: below.intros)
  then obtain j where j: "parent_of ps j = None" "below ps j i"
    using forest_level [OF assms(1)] by blast
  have "j \<in> tr_id ` set rows"
    using j(2) assms
  proof (induction rule: below.induct)
    case (below_up y z)
    then show ?case by (auto simp: forest_def)
  qed simp
  then show ?thesis using j assms(1) by (auto simp: forest_def)
qed

lemma shown_from_root:
  assumes f: "forest ps m rows" and r: "r \<in> set (children_of m None)" "shown ps col (tr_id r) y"
  shows "y \<in> tr_id ` set rows \<and> (\<forall>z \<in> col. z \<noteq> y \<longrightarrow> \<not> below ps z y)"
proof
  have root: "r \<in> set rows" "parent_of ps (tr_id r) = None" using f r(1) by (auto simp: forest_def)
  have y: "below ps (tr_id r) y" using r(2) by (simp add: shown_def)
  then show "y \<in> tr_id ` set rows"
  proof cases
    case below_refl
    with root show ?thesis by simp
  qed (use f in \<open>auto simp: forest_def\<close>)
  show "\<forall>z \<in> col. z \<noteq> y \<longrightarrow> \<not> below ps z y"
  proof (intro ballI impI notI)
    fix z
    assume z: "z \<in> col" "z \<noteq> y" "below ps z y"
    have "below ps (tr_id r) z"
    proof (rule disjE [OF below_linear [OF y z(3)]])
      assume up: "below ps z (tr_id r)"
      have "z = tr_id r" using up by cases (use root in auto)
      then show ?thesis by (simp add: below_refl)
    qed
    with z r(2) show False by (auto simp: shown_def)
  qed
qed

text \<open>
  C19. A timeline shows every row exactly once unless it is hidden: for rows with distinct
  ids, the ids of the visible rows are distinct, and a row is among them exactly if no row
  strictly above it is collapsed.
\<close>

theorem row_visible_iff:
  assumes "distinct (map tr_id rows)"
  shows "distinct (map vr_id (buildVisibleTraceTimelineRows rows collapsed)) \<and>
    set (map vr_id (buildVisibleTraceTimelineRows rows collapsed)) =
      {i \<in> tr_id ` set rows. \<forall>z \<in> collapsed. z \<noteq> i \<longrightarrow> \<not> below (resolveTimelineParents rows) z i}"
proof -
  let ?ps = "resolveTimelineParents rows" and ?m = "childrenByParent rows"
  have f: "forest ?ps ?m rows" using assms(1) by (rule timeline_forest)
  have s: "siblings_ok ?ps rows 0 (children_of ?m None)" using f by (rule siblings_roots)
  have "buildVisibleTraceTimelineRows rows collapsed =
      outline (length rows) ?m collapsed 0 [] (children_of ?m None)"
    unfolding buildVisibleTraceTimelineRows_def Let_def
    using visit_outline [OF f s, of "length rows + 1" "([], {})"]
      outline_fuel [OF f s, of "length rows + 1" "length rows"] by simp
  moreover have "{y. \<exists>r \<in> set (children_of ?m None). shown ?ps collapsed (tr_id r) y} =
      {i \<in> tr_id ` set rows. \<forall>z \<in> collapsed. z \<noteq> i \<longrightarrow> \<not> below ?ps z i}"
    (is "?L = ?R")
  proof
    show "?L \<subseteq> ?R" using shown_from_root [OF f] by auto
    show "?R \<subseteq> ?L"
    proof
      fix i
      assume i: "i \<in> ?R"
      then obtain r where "r \<in> set (children_of ?m None)" "below ?ps (tr_id r) i"
        using below_some_root [OF f] by auto
      with i show "i \<in> ?L" by (auto simp: shown_def)
    qed
  qed
  ultimately show ?thesis
    using outline_ids [OF f s, of "length rows" collapsed "[]"] by simp
qed

section \<open>Rows hang under their parents\<close>

text \<open>What a reader of the indented list takes for the parent: the nearest row above with less depth.\<close>

definition nearest_above ::
  "'a timeline_row_scheme visible_row list \<Rightarrow> 'a timeline_row_scheme visible_row \<Rightarrow>
   'a timeline_row_scheme visible_row option" where
  "nearest_above xs v = find (\<lambda>u. vr_depth u < vr_depth v) (rev xs)"

lemma split_in_append:
  "A @ B = xs @ v # ys \<Longrightarrow>
   (\<exists>zs. A = xs @ v # zs) \<or> (\<exists>zs. xs = A @ zs \<and> B = zs @ v # ys)"
  by (auto simp: append_eq_append_conv2 append_eq_Cons_conv)

lemma find_append: "find P (as @ bs) = (case find P as of None \<Rightarrow> find P bs | Some a \<Rightarrow> Some a)"
  by (induction as) auto

lemma nearest_append:
  "nearest_above (as @ bs) v = (case nearest_above bs v of None \<Rightarrow> nearest_above as v | Some u \<Rightarrow> Some u)"
  by (simp add: nearest_above_def find_append split: option.split)

lemma outline_nearest:
  assumes "forest ps m rows" "siblings_ok ps rows d sibs" "length rows \<le> n + d"
    and "\<forall>r \<in> set sibs. parent_of ps (tr_id r) = par"
    and "outline n m col d conts sibs = xs @ v # ys"
  shows "d \<le> vr_depth v \<and> (case nearest_above xs v of
      Some u \<Rightarrow> parent_of ps (vr_id v) = Some (vr_id u) \<and> vr_depth v = Suc (vr_depth u)
    | None \<Rightarrow> parent_of ps (vr_id v) = par \<and> vr_depth v = d)"
  using assms
proof (induction n m col d conts sibs arbitrary: par xs v ys rule: outline.induct)
  case (3 n m col d conts r sibs)
  let ?row = "\<lparr>vr_row = r\<lparr>tr_depth := d\<rparr>, vr_ancestorContinuations = conts,
    vr_hasChildren = (children_of m (Some (tr_id r)) \<noteq> []), vr_isLastSibling = (sibs = [])\<rparr>"
  let ?kids = "children_of m (Some (tr_id r))"
  let ?conts = "if d = 0 then [] else conts @ [sibs \<noteq> []]"
  let ?sub = "if tr_id r \<in> col then [] else outline n m col (d + 1) ?conts ?kids"
  let ?rest = "outline (Suc n) m col d conts sibs"
  have lvl: "level ps (tr_id r) d" using 3(4) by (rule sibling_level)
  have kids: "siblings_ok ps rows (d + 1) ?kids" using siblings_children [OF 3(3) lvl] by simp
  have fuel: "length rows \<le> n + (d + 1)" using 3(5) by simp
  have par: "\<forall>k \<in> set ?kids. parent_of ps (tr_id k) = Some (tr_id r)"
    using kid_ids [OF 3(3)] by auto
  have deep: "Suc d \<le> vr_depth u" if "u \<in> set ?sub" for u
  proof -
    have no: "tr_id r \<notin> col" using that by auto
    with that have "u \<in> set (outline n m col (d + 1) ?conts ?kids)" by simp
    then obtain as bs where "outline n m col (d + 1) ?conts ?kids = as @ u # bs"
      by (blast dest: split_list)
    with no show ?thesis using 3(1) [OF refl _ 3(3) kids fuel par] by simp
  qed
  have all: "?row # ?sub @ ?rest = xs @ v # ys" using 3(7) by (simp add: Let_def)
  show ?case
  proof (cases xs)
    case Nil
    with all 3(6) show ?thesis by (auto simp: nearest_above_def)
  next
    case (Cons x xs')
    with all have x: "x = ?row" and tl: "?sub @ ?rest = xs' @ v # ys" by auto
    from split_in_append [OF tl] show ?thesis
    proof
      assume "\<exists>zs. ?sub = xs' @ v # zs"
      then obtain zs where sub: "?sub = xs' @ v # zs" by blast
      then have "tr_id r \<notin> col" and o: "outline n m col (d + 1) ?conts ?kids = xs' @ v # zs"
        by (auto split: if_splits)
      then have ih: "d + 1 \<le> vr_depth v \<and> (case nearest_above xs' v of
          Some u \<Rightarrow> parent_of ps (vr_id v) = Some (vr_id u) \<and> vr_depth v = Suc (vr_depth u)
        | None \<Rightarrow> parent_of ps (vr_id v) = Some (tr_id r) \<and> vr_depth v = d + 1)"
        by (intro 3(1) [OF refl _ 3(3) kids fuel par])
      then show ?thesis
        by (auto simp: Cons x nearest_above_def find_append split: option.splits)
    next
      assume "\<exists>zs. xs' = ?sub @ zs \<and> ?rest = zs @ v # ys"
      then obtain zs where zs: "xs' = ?sub @ zs" "?rest = zs @ v # ys" by blast
      have ih: "d \<le> vr_depth v \<and> (case nearest_above zs v of
          Some u \<Rightarrow> parent_of ps (vr_id v) = Some (vr_id u) \<and> vr_depth v = Suc (vr_depth u)
        | None \<Rightarrow> parent_of ps (vr_id v) = par \<and> vr_depth v = d)"
        using 3(6) by (intro 3(2) [OF refl 3(3) siblings_tail [OF 3(4)] 3(5) _ zs(2)]) simp
      have "nearest_above (?row # ?sub) v = None" if "vr_depth v = d"
      proof -
        have "\<not> vr_depth u < d" if "u \<in> set (?row # ?sub)" for u
          using that deep [of u] by (auto simp del: if_split)
        then show ?thesis unfolding nearest_above_def \<open>vr_depth v = d\<close> find_None_iff set_rev by blast
      qed
      then have none: "vr_depth v = d \<Longrightarrow> nearest_above ((?row # ?sub) @ zs) v = nearest_above zs v"
        unfolding nearest_append by (simp only: option.case_eq_if) (cases "nearest_above zs v"; simp)
      have xs: "xs = (?row # ?sub) @ zs" using Cons x zs(1) by (simp only: append.simps)
      show ?thesis
      proof (cases "nearest_above zs v")
        case None
        with ih have v: "parent_of ps (vr_id v) = par" "vr_depth v = d" by simp_all
        show ?thesis unfolding xs none [OF v(2)] None option.case using v by simp
      next
        case (Some u)
        have "nearest_above xs v = Some u" unfolding xs nearest_append Some option.case by (rule refl)
        with ih Some show ?thesis by simp
      qed
    qed
  qed
next
  case (1 m col d conts sibs)
  then show ?case by simp
next
  case (2 n m col d conts)
  then show ?case by simp
qed

text \<open>
  The indentation of a timeline is right: for rows with distinct ids, the nearest visible
  row above with less depth is the parent, one level up, and a row without one is a root at
  depth zero.
\<close>

theorem visible_rows_hang_under_parents:
  assumes "distinct (map tr_id rows)"
    and "buildVisibleTraceTimelineRows rows collapsed = upper @ v # lower"
  shows "case nearest_above upper v of
      Some u \<Rightarrow> parent_of (resolveTimelineParents rows) (vr_id v) = Some (vr_id u) \<and>
        vr_depth v = Suc (vr_depth u)
    | None \<Rightarrow> parent_of (resolveTimelineParents rows) (vr_id v) = None \<and> vr_depth v = 0"
proof -
  let ?ps = "resolveTimelineParents rows" and ?m = "childrenByParent rows"
  have f: "forest ?ps ?m rows" using assms(1) by (rule timeline_forest)
  have s: "siblings_ok ?ps rows 0 (children_of ?m None)" using f by (rule siblings_roots)
  have roots: "\<forall>r \<in> set (children_of ?m None). parent_of ?ps (tr_id r) = None"
    using f by (auto simp: forest_def)
  have fuel: "length rows \<le> (length rows + 1) + 0" by simp
  have o: "outline (length rows + 1) ?m collapsed 0 [] (children_of ?m None) = upper @ v # lower"
    using assms(2) visit_outline [OF f s, of "length rows + 1" "([], {})"]
    by (simp add: buildVisibleTraceTimelineRows_def Let_def)
  show ?thesis using outline_nearest [OF f s fuel roots o] by (rule conjunct2)
qed

section \<open>Witnesses\<close>

text \<open>A trace with a cycle of two rows, a row named by depth only, and an unknown parent.\<close>

definition demo_row :: "ident \<Rightarrow> ident nullable \<Rightarrow> nat \<Rightarrow> timeline_row" where
  "demo_row i p d = \<lparr>tr_id = i, tr_parentId = p, tr_depth = d\<rparr>"

definition demo_tree :: "timeline_row list" where
  "demo_tree = [demo_row ''r'' Null 0, demo_row ''a'' (Value ''r'') 1, demo_row ''b'' (Value ''a'') 2,
     demo_row ''c'' Undefined 1]"

definition demo_cycle :: "timeline_row list" where
  "demo_cycle = demo_tree @ [demo_row ''x'' (Value ''y'') 1, demo_row ''y'' (Value ''x'') 1,
     demo_row ''z'' (Value ''gone'') 3]"

lemma demo_cycle_distinct: "distinct (map tr_id demo_cycle)"
  by code_simp

lemma timeline_parents_kept_witness:
  "resolveTimelineParents demo_tree = [(''r'', None), (''a'', Some ''r''), (''b'', Some ''a''), (''c'', Some ''r'')]"
proof -
  let ?ps = "initial_parents demo_tree"
  have ps: "?ps = [(''r'', None), (''a'', Some ''r''), (''b'', Some ''a''), (''c'', Some ''r'')]"
    by code_simp
  have "level ?ps ''r'' 0" by (rule level_root) (simp add: ps parent_of_def)
  then have "level ?ps ''a'' 1" by (auto simp: ps parent_of_def intro: level_up)
  then have "level ?ps ''b'' 2"
    using level_up [of ?ps "''b''" "''a''" 1] by (simp add: ps parent_of_def numeral_2_eq_2)
  have "\<exists>n. level ?ps i n" for i
  proof (cases "i \<in> {''a'', ''b'', ''c''}")
    case True
    with \<open>level ?ps ''a'' 1\<close> \<open>level ?ps ''b'' 2\<close> level_up [OF _ \<open>level ?ps ''r'' 0\<close>, of "''c''"] show ?thesis
      by (auto simp: ps parent_of_def)
  next
    case False
    then have "parent_of ?ps i = None" by (simp add: ps parent_of_def)
    then show ?thesis by (blast intro: level_root)
  qed
  then have "resolveTimelineParents demo_tree = ?ps" by (rule timeline_parents_kept)
  then show ?thesis by (simp only: ps)
qed

lemma visible_rows_are_the_outline_witness:
  "map vr_id (outline 7 (childrenByParent demo_cycle) {''a''} 0 []
     (children_of (childrenByParent demo_cycle) None)) = [''r'', ''a'', ''c'', ''y'', ''x'', ''z'']"
proof -
  have "buildVisibleTraceTimelineRows demo_cycle {''a''} = outline 7 (childrenByParent demo_cycle) {''a''} 0 []
      (children_of (childrenByParent demo_cycle) None)"
    using visible_rows_are_the_outline [OF demo_cycle_distinct, of 7 7]
    by (simp add: demo_cycle_def demo_tree_def)
  moreover have "map vr_id (buildVisibleTraceTimelineRows demo_cycle {''a''}) =
      [''r'', ''a'', ''c'', ''y'', ''x'', ''z'']" by code_simp
  ultimately show ?thesis by simp
qed

lemma row_visible_iff_witness:
  "''b'' \<notin> set (map vr_id (buildVisibleTraceTimelineRows demo_cycle {''a''})) \<and>
   below (resolveTimelineParents demo_cycle) ''a'' ''b''"
proof -
  have p: "parent_of (resolveTimelineParents demo_cycle) ''b'' = Some ''a''" by code_simp
  have "below (resolveTimelineParents demo_cycle) ''a'' ''b''"
    by (rule below_up [OF p below_refl])
  with row_visible_iff [OF demo_cycle_distinct, of "{''a''}"] show ?thesis by auto
qed

lemma visible_rows_hang_under_parents_witness:
  "parent_of (resolveTimelineParents demo_cycle) ''x'' = Some ''y''"
proof -
  let ?vs = "buildVisibleTraceTimelineRows demo_cycle {''a''}"
  have split: "?vs = take 4 ?vs @ ?vs ! 4 # drop 5 ?vs" by code_simp
  have "map_option vr_id (nearest_above (take 4 ?vs) (?vs ! 4)) = Some ''y''" "vr_id (?vs ! 4) = ''x''"
    by code_simp+
  with visible_rows_hang_under_parents [OF demo_cycle_distinct split] show ?thesis by auto
qed

end
