(* ===== verification/TraceScale.thy ===== *)
theory TraceScale
  imports Prelude
begin

text \<open>
  The scale of a trace's timeline (traces/lib/trace-timeline.ts): ticks at round intervals,
  their labels, and where a span's bar is drawn. A duration is a finite number.
\<close>

definition TRACE_TIMELINE_END_PADDING_PX :: number where
  "TRACE_TIMELINE_END_PADDING_PX = 300"

definition TRACE_TIMELINE_SCALE_WIDTH_PX :: number where
  "TRACE_TIMELINE_SCALE_WIDTH_PX = 900"

definition TARGET_TICK_SPACING_PX :: number where
  "TARGET_TICK_SPACING_PX = 100"

definition MINIMUM_BAR_WIDTH_PX :: number where
  "MINIMUM_BAR_WIDTH_PX = 4"

definition NICE_INTERVAL_MULTIPLIERS :: "number list" where
  "NICE_INTERVAL_MULTIPLIERS = [1, 3 / 2, 2, 5 / 2, 5, 10]"

record span_layout =
  sl_leftPx :: number
  sl_widthPx :: number

record timeline_tick =
  tk_label :: string
  tk_leftPx :: number
  tk_offsetMs :: number

record timeline_scale =
  ts_ticks :: "timeline_tick list"
  ts_widthPx :: number

definition normalizeDuration :: "number option \<Rightarrow> number" where
  "normalizeDuration durationMs = (case durationMs of None \<Rightarrow> 0 | Some d \<Rightarrow> max d 0)"

text \<open>\<open>Math.floor(Math.log10(x))\<close> for positive \<open>x\<close>, by moving the decimal point.\<close>

definition decade_measure :: "number \<Rightarrow> nat" where
  "decade_measure x = (if x \<ge> 10 then nat \<lfloor>x\<rfloor> else if x < 1 then nat \<lceil>1 / x\<rceil> else 0)"

function decade :: "number \<Rightarrow> int" where
  "decade x =
     (if x \<le> 0 then 0
      else if x \<ge> 10 then decade (x / 10) + 1
      else if x < 1 then decade (x * 10) - 1
      else 0)"
  by auto

termination
proof (relation "measure decade_measure")
  fix x :: number
  assume x: "\<not> x \<le> 0" "10 \<le> x"
  have "\<lfloor>x / 10\<rfloor> < \<lfloor>x\<rfloor>"
  proof -
    have "x / 10 \<le> x - 9" using x by (simp add: field_simps)
    then have "\<lfloor>x / 10\<rfloor> \<le> \<lfloor>x - 9\<rfloor>" by (rule floor_mono)
    then show ?thesis by simp
  qed
  moreover have "0 < \<lfloor>x\<rfloor>" using x by (simp add: zero_less_floor)
  ultimately have "nat \<lfloor>x / 10\<rfloor> < nat \<lfloor>x\<rfloor>" by simp
  then show "(x / 10, x) \<in> measure decade_measure"
    using x by (auto simp: decade_measure_def)
next
  fix x :: number
  assume x: "\<not> x \<le> 0" "x < 1"
  have less: "\<lceil>1 / (x * 10)\<rceil> < \<lceil>1 / x\<rceil>" if "x * 10 < 1"
  proof -
    have "10 < 1 / x" using that x by (simp add: field_simps)
    then have "1 / (x * 10) \<le> 1 / x - 9" using x by (simp add: field_simps)
    then have "\<lceil>1 / (x * 10)\<rceil> \<le> \<lceil>1 / x - 9\<rceil>" by (rule ceiling_mono)
    then show ?thesis by simp
  qed
  have "0 < \<lceil>1 / x\<rceil>" using x by simp
  with less x show "(x * 10, x) \<in> measure decade_measure"
    by (auto simp: decade_measure_def)
qed simp

declare decade.simps [simp del]

definition power_of_ten :: "int \<Rightarrow> number" where
  "power_of_ten k = (if k \<ge> 0 then 10 ^ nat k else 1 / 10 ^ nat (- k))"

text \<open>The magnitude of the source can only be zero by underflow.\<close>

definition getNiceTickInterval :: "number \<Rightarrow> number" where
  "getNiceTickInterval durationMs =
     (let targetInterval = durationMs / (TRACE_TIMELINE_SCALE_WIDTH_PX / TARGET_TICK_SPACING_PX)
      in if targetInterval = 0 then durationMs
         else
           let magnitude = power_of_ten (decade targetInterval);
               normalized = targetInterval / magnitude;
               multiplier = coalesce (find (\<lambda>c. normalized \<le> c) NICE_INTERVAL_MULTIPLIERS) 10
           in multiplier * magnitude)"

section \<open>Labels\<close>

text \<open>\<open>toFixed\<close> of a number that is not negative: the nearest multiple, the larger of two.\<close>

definition to_fixed :: "number \<Rightarrow> nat \<Rightarrow> string" where
  "to_fixed v f =
     (let s = nat_string (nat \<lfloor>v * 10 ^ f + 1 / 2\<rfloor>);
          padded = replicate (f + 1 - length s) (CHR ''0'') @ s
      in take (length padded - f) padded @ ''.'' @ drop (length padded - f) padded)"

definition strip_zeros :: "string \<Rightarrow> string" where
  "strip_zeros s = rev (dropWhile (\<lambda>c. c = CHR ''0'') (rev s))"

definition strip_point :: "string \<Rightarrow> string" where
  "strip_point s = (if s \<noteq> [] \<and> last s = CHR ''.'' then butlast s else s)"

definition formatDecimal :: "number \<Rightarrow> nat \<Rightarrow> string" where
  "formatDecimal v fractionDigits =
     (if v = of_int \<lfloor>v\<rfloor> then nat_string (nat \<lfloor>v\<rfloor>)
      else strip_point (strip_zeros (to_fixed v fractionDigits)))"

definition formatTraceTimelineOffset :: "number \<Rightarrow> string" where
  "formatTraceTimelineOffset offsetMs =
     (if offsetMs = 0 then ''0ms''
      else if offsetMs < 1000 then formatDecimal offsetMs 3 @ ''ms''
      else
        let totalSeconds = offsetMs / 1000
        in if totalSeconds < 60 then formatDecimal totalSeconds 2 @ ''s''
           else
             let wholeSeconds = nat \<lfloor>totalSeconds + 1 / 2\<rfloor>;
                 hours = wholeSeconds div 3600;
                 minutes = (wholeSeconds mod 3600) div 60;
                 seconds = wholeSeconds mod 60
             in join_with '' '' (concat [
                  if hours > 0 then [nat_string hours @ ''h''] else [],
                  if minutes > 0 then [nat_string minutes @ ''m''] else [],
                  if seconds > 0 then [nat_string seconds @ ''s''] else []]))"

section \<open>Bars and ticks\<close>

definition getTraceTimelineSpanLayout :: "number \<Rightarrow> number \<Rightarrow> number \<Rightarrow> span_layout" where
  "getTraceTimelineSpanLayout offsetMs durationMs traceDurationMs =
     (let normalizedTraceDuration = normalizeDuration (Some traceDurationMs)
      in if normalizedTraceDuration = 0
         then \<lparr>sl_leftPx = 0, sl_widthPx = MINIMUM_BAR_WIDTH_PX\<rparr>
         else \<lparr>sl_leftPx = (normalizeDuration (Some offsetMs) / normalizedTraceDuration) *
                 TRACE_TIMELINE_SCALE_WIDTH_PX,
               sl_widthPx = max ((normalizeDuration (Some durationMs) / normalizedTraceDuration) *
                 TRACE_TIMELINE_SCALE_WIDTH_PX) MINIMUM_BAR_WIDTH_PX\<rparr>)"

definition buildTraceTimelineScale :: "number option \<Rightarrow> timeline_scale" where
  "buildTraceTimelineScale durationMs =
     (let normalizedDuration = normalizeDuration durationMs
      in if normalizedDuration = 0
         then \<lparr>ts_ticks = [\<lparr>tk_label = ''0ms'', tk_leftPx = 0, tk_offsetMs = 0\<rparr>],
               ts_widthPx = TRACE_TIMELINE_SCALE_WIDTH_PX\<rparr>
         else
           let tickIntervalMs = getNiceTickInterval normalizedDuration;
               tickCount = nat (\<lfloor>normalizedDuration / tickIntervalMs\<rfloor> + 1)
           in \<lparr>ts_ticks = map (\<lambda>index.
                 let offsetMs = of_nat index * tickIntervalMs
                 in \<lparr>tk_label = formatTraceTimelineOffset offsetMs,
                     tk_leftPx = (offsetMs / normalizedDuration) * TRACE_TIMELINE_SCALE_WIDTH_PX,
                     tk_offsetMs = offsetMs\<rparr>) [0..<tickCount],
               ts_widthPx = TRACE_TIMELINE_SCALE_WIDTH_PX\<rparr>)"

section \<open>What the scale looks like\<close>

lemma power_of_ten_pos [simp]: "0 < power_of_ten k"
  by (simp add: power_of_ten_def)

lemma power_of_ten_Suc: "power_of_ten (k + 1) = 10 * power_of_ten k"
proof (cases "k \<ge> 0")
  case True
  then show ?thesis by (simp add: power_of_ten_def nat_add_distrib)
next
  case False
  then obtain n where "k = - int (Suc n)" by (metis negD not_le)
  then show ?thesis by (cases n) (simp_all add: power_of_ten_def nat_add_distrib)
qed

lemma decade_bounds: "0 < x \<Longrightarrow> power_of_ten (decade x) \<le> x \<and> x < 10 * power_of_ten (decade x)"
proof (induction x rule: decade.induct)
  case (1 x)
  consider "x \<ge> 10" | "x < 1" | "1 \<le> x" "x < 10" by linarith
  then show ?case
  proof cases
    case 1
    then have "decade x = decade (x / 10) + 1" by (subst decade.simps) simp
    moreover have "power_of_ten (decade (x / 10)) \<le> x / 10 \<and> x / 10 < 10 * power_of_ten (decade (x / 10))"
      using 1 "1.IH"(1) by simp
    ultimately show ?thesis by (simp add: power_of_ten_Suc)
  next
    case 2
    then have "decade x = decade (x * 10) - 1" using "1.prems" by (subst decade.simps) simp
    moreover have "power_of_ten (decade (x * 10)) \<le> x * 10 \<and> x * 10 < 10 * power_of_ten (decade (x * 10))"
      using 2 "1.IH"(2) "1.prems" by simp
    ultimately show ?thesis using power_of_ten_Suc [of "decade (x * 10) - 1"] by simp
  next
    case 3
    then have "decade x = 0" by (subst decade.simps) simp
    with 3 show ?thesis by (simp add: power_of_ten_def)
  qed
qed

text \<open>Normalised to a decade, the interval chosen is at least the target and at most twice it.\<close>

lemma nice_multiplier:
  assumes "1 \<le> x" "x < 10"
  shows "x \<le> coalesce (find (\<lambda>c. x \<le> c) NICE_INTERVAL_MULTIPLIERS) 10 \<and>
    coalesce (find (\<lambda>c. x \<le> c) NICE_INTERVAL_MULTIPLIERS) 10 \<le> 2 * x"
  using assms by (auto simp: NICE_INTERVAL_MULTIPLIERS_def)

lemma scaled:
  fixes c m x :: number
  assumes "0 < m" "x \<le> c" "c \<le> 2 * x"
  shows "x * m \<le> c * m \<and> c * m \<le> 2 * (x * m)"
  using assms mult_right_mono [of x c m] mult_right_mono [of c "2 * x" m] by simp

lemma nice_interval:
  assumes "0 < d"
  shows "d / 9 \<le> getNiceTickInterval d \<and> getNiceTickInterval d \<le> 2 * (d / 9)"
proof -
  let ?m = "power_of_ten (decade (d / 9))"
  let ?x = "(d / 9) / ?m"
  have b: "?m \<le> d / 9" "d / 9 < 10 * ?m" using decade_bounds [of "d / 9"] assms by simp_all
  then have "1 \<le> ?x" "?x < 10"
    using power_of_ten_pos [of "decade (d / 9)"] by (simp_all only: pos_le_divide_eq pos_divide_less_eq)
  then have "?x \<le> coalesce (find (\<lambda>c. ?x \<le> c) NICE_INTERVAL_MULTIPLIERS) 10 \<and>
      coalesce (find (\<lambda>c. ?x \<le> c) NICE_INTERVAL_MULTIPLIERS) 10 \<le> 2 * ?x"
    by (rule nice_multiplier)
  moreover have "getNiceTickInterval d =
      coalesce (find (\<lambda>c. ?x \<le> c) NICE_INTERVAL_MULTIPLIERS) 10 * ?m"
    using assms by (simp add: getNiceTickInterval_def Let_def TRACE_TIMELINE_SCALE_WIDTH_PX_def
        TARGET_TICK_SPACING_PX_def)
  moreover have "?x * ?m = d / 9"
    using power_of_ten_pos [of "decade (d / 9)"] by (simp add: less_imp_neq [THEN not_sym])
  ultimately show ?thesis
    using scaled [of ?m ?x] power_of_ten_pos by metis
qed

text \<open>
  C21. The scale of a timeline is readable for every duration: a trace that takes time gets
  five to ten ticks, the first at zero, at equal distances between 100 and 200 pixels, all of
  them within the scale's width; one that takes none gets the single tick zero.
\<close>

theorem timeline_scale_is_readable:
  "if normalizeDuration d = 0 then map tk_leftPx (ts_ticks (buildTraceTimelineScale d)) = [0]
   else \<exists>gap. 100 \<le> gap \<and> gap \<le> 200 \<and>
     5 \<le> length (ts_ticks (buildTraceTimelineScale d)) \<and> length (ts_ticks (buildTraceTimelineScale d)) \<le> 10 \<and>
     map tk_leftPx (ts_ticks (buildTraceTimelineScale d)) =
       map (\<lambda>i. of_nat i * gap) [0..<length (ts_ticks (buildTraceTimelineScale d))] \<and>
     tk_leftPx ` set (ts_ticks (buildTraceTimelineScale d)) \<subseteq>
       {0..ts_widthPx (buildTraceTimelineScale d)}"
proof (cases "normalizeDuration d = 0")
  case True
  then show ?thesis by (simp add: buildTraceTimelineScale_def)
next
  case False
  let ?n = "normalizeDuration d" and ?i = "getNiceTickInterval (normalizeDuration d)"
  let ?gap = "?i / ?n * 900" and ?count = "nat (\<lfloor>?n / ?i\<rfloor> + 1)"
  have n: "0 < ?n" using False by (auto simp: normalizeDuration_def split: option.splits)
  have i: "?n / 9 \<le> ?i" "?i \<le> 2 * (?n / 9)" using nice_interval [OF n] by auto
  have ipos: "0 < ?i" using i(1) n by linarith
  have ticks: "ts_ticks (buildTraceTimelineScale d) = map (\<lambda>index.
      let offsetMs = of_nat index * ?i
      in \<lparr>tk_label = formatTraceTimelineOffset offsetMs, tk_leftPx = (offsetMs / ?n) * 900,
          tk_offsetMs = offsetMs\<rparr>) [0..<?count]"
    and width: "ts_widthPx (buildTraceTimelineScale d) = 900"
    using False by (simp_all add: buildTraceTimelineScale_def Let_def TRACE_TIMELINE_SCALE_WIDTH_PX_def)
  have "100 \<le> ?gap" "?gap \<le> 200" using i n by (simp_all add: field_simps)
  moreover have ratio: "9 / 2 \<le> ?n / ?i" "?n / ?i \<le> 9" using i ipos n by (simp_all add: field_simps)
  then have "4 \<le> \<lfloor>?n / ?i\<rfloor>" "\<lfloor>?n / ?i\<rfloor> \<le> 9" by linarith+
  then have "5 \<le> ?count" "?count \<le> 10" by linarith+
  moreover have "of_nat index * ?i \<le> ?n" if "index < ?count" for index
  proof -
    have "int index \<le> \<lfloor>?n / ?i\<rfloor>" using that by linarith
    then have "of_nat index \<le> ?n / ?i" by (simp add: le_floor_iff)
    then show ?thesis using ipos by (simp add: field_simps)
  qed
  then have "of_nat index * ?i / ?n * 900 \<le> 900" if "index < ?count" for index
    using that n by (simp add: field_simps)
  ultimately show ?thesis
    using False n ipos unfolding ticks width
    by (simp only: if_False) (rule exI [of _ ?gap], auto simp: Let_def)
qed

text \<open>
  A span's bar is visible and in place: it starts at or right of zero and is at least the
  minimum wide; the bar of a span inside the trace ends within the scale and the minimum
  width, and a span that starts later is not drawn further left.
\<close>

theorem span_bar_in_place:
  assumes "0 \<le> offset" "0 \<le> dur" "offset + dur \<le> trace"
  shows "0 \<le> sl_leftPx (getTraceTimelineSpanLayout offset dur trace) \<and>
    MINIMUM_BAR_WIDTH_PX \<le> sl_widthPx (getTraceTimelineSpanLayout offset dur trace) \<and>
    sl_leftPx (getTraceTimelineSpanLayout offset dur trace) +
      sl_widthPx (getTraceTimelineSpanLayout offset dur trace) \<le>
      TRACE_TIMELINE_SCALE_WIDTH_PX + MINIMUM_BAR_WIDTH_PX \<and>
    (offset \<le> later \<longrightarrow> sl_leftPx (getTraceTimelineSpanLayout offset dur trace) \<le>
       sl_leftPx (getTraceTimelineSpanLayout later dur' trace))"
proof (cases "trace = 0")
  case True
  then show ?thesis
    by (simp add: getTraceTimelineSpanLayout_def normalizeDuration_def MINIMUM_BAR_WIDTH_PX_def
        TRACE_TIMELINE_SCALE_WIDTH_PX_def)
next
  case False
  then have "0 < trace" using assms by linarith
  moreover have "offset * 900 / trace \<le> 900" "offset * 900 / trace + dur * 900 / trace \<le> 900"
    using assms \<open>0 < trace\<close> by (simp_all add: field_simps)
  ultimately show ?thesis
    using assms
    by (auto simp: getTraceTimelineSpanLayout_def normalizeDuration_def MINIMUM_BAR_WIDTH_PX_def
        TRACE_TIMELINE_SCALE_WIDTH_PX_def max_def field_simps)
qed

lemma span_bar_in_place_witness:
  "sl_leftPx (getTraceTimelineSpanLayout 20 30 100) = 180 \<and>
   sl_leftPx (getTraceTimelineSpanLayout 20 30 100) +
     sl_widthPx (getTraceTimelineSpanLayout 20 30 100) \<le> 904"
proof -
  have "(0 :: number) \<le> 20" "(0 :: number) \<le> 30" "20 + 30 \<le> (100 :: number)" by simp_all
  from span_bar_in_place [OF this, of 20 30] show ?thesis
    by (simp add: getTraceTimelineSpanLayout_def normalizeDuration_def MINIMUM_BAR_WIDTH_PX_def
        TRACE_TIMELINE_SCALE_WIDTH_PX_def)
qed

end
