(* ===== verification/TraceProjection.thy ===== *)
theory TraceProjection
  imports TraceData
begin

text \<open>
  The projected overview of a trace (traces/lib/trace-projection-utils.ts): the order its
  items are shown in, the entries shown of an item's data, and the spans completed with the
  outputs the overview has.

  \<open>format_host\<close> holds what the code takes from the host: \<open>toLocaleString\<close> with its range
  of fraction digits, and \<open>Number\<close> of a string (\<open>None\<close>: not finite). Keys of an item's data are
  taken not to be names every object of the language has (\<open>constructor\<close> and the like).
\<close>

record format_host =
  fh_locale :: "number \<Rightarrow> (nat \<times> nat) option \<Rightarrow> string"
  fh_Number :: "string \<Rightarrow> number option"

datatype overview_type =
    AgentItem | LlmItem | ToolItem | RetrievalItem | EmbeddingItem | UrlGuardrailsItem
  | ConversationTurnItem | EvaluationItem | EvaluationCaseItem | EvaluationResultItem | OtherItem

record overview_item =
  oi_id :: ident
  oi_span_id :: ident
  oi_parent_span_id :: "ident option"
  oi_type :: overview_type
  oi_title :: string
  oi_subtitle :: "string option"
  oi_start_time :: "string option"
  oi_data :: attributes

record trace_detail =
  td_spans :: "trace_span list"
  td_overview :: "overview_item list"

section \<open>The order of the items\<close>

text \<open>\<open>None\<close> is \<open>Infinity\<close>.\<close>

definition overviewItemStartMs :: "js_host \<Rightarrow> overview_item \<Rightarrow> number option" where
  "overviewItemStartMs h item = Option.bind (oi_start_time item) (Date_parse h)"

text \<open>\<open>new Map(\<dots>)\<close> of the indices: a later duplicate replaces an earlier one.\<close>

definition original_index :: "overview_item list \<Rightarrow> ident \<Rightarrow> nat" where
  "original_index items i =
     coalesce (map_of (rev (zip (map oi_span_id items) [0..<length items])) i) 0"

text \<open>
  \<open>compareItems\<close>. The difference of two infinite starts is not a number, which is not zero
  and which the sort reads as zero.
\<close>

definition compareItems :: "js_host \<Rightarrow> overview_item list \<Rightarrow> overview_item \<Rightarrow> overview_item \<Rightarrow> number" where
  "compareItems h items left right =
     (case (overviewItemStartMs h left, overviewItemStartMs h right) of
        (None, None) \<Rightarrow> 0
      | (None, Some _) \<Rightarrow> 1
      | (Some _, None) \<Rightarrow> -1
      | (Some l, Some r) \<Rightarrow>
          if l - r \<noteq> 0 then l - r
          else of_nat (original_index items (oi_span_id left)) - of_nat (original_index items (oi_span_id right)))"

text \<open>The language's stable sort with a comparison function.\<close>

fun insert_by :: "('a \<Rightarrow> 'a \<Rightarrow> number) \<Rightarrow> 'a \<Rightarrow> 'a list \<Rightarrow> 'a list" where
  "insert_by cmp x [] = [x]"
| "insert_by cmp x (y # ys) = (if cmp x y \<le> 0 then x # y # ys else y # insert_by cmp x ys)"

definition sort_by :: "('a \<Rightarrow> 'a \<Rightarrow> number) \<Rightarrow> 'a list \<Rightarrow> 'a list" where
  "sort_by cmp xs = foldr (insert_by cmp) xs []"

definition overview_parent :: "overview_item list \<Rightarrow> overview_item \<Rightarrow> ident option" where
  "overview_parent items item = (case oi_parent_span_id item of
       None \<Rightarrow> None
     | Some p \<Rightarrow> if trim p \<noteq> [] \<and> p \<in> oi_span_id ` set items then Some p else None)"

type_synonym overview_children = "(ident, overview_item list) js_map"

definition place_item ::
  "overview_item list \<Rightarrow> overview_item \<Rightarrow> overview_children \<times> overview_item list \<Rightarrow>
   overview_children \<times> overview_item list" where
  "place_item items item st = (case overview_parent items item of
       Some p \<Rightarrow> (js_set p (coalesce (js_get (fst st) p) [] @ [item]) (fst st), snd st)
     | None \<Rightarrow> (fst st, snd st @ [item]))"

text \<open>
  The walk over a list of items. The first argument bounds its depth; every level adds an id to
  \<open>visited\<close>.
\<close>

fun visit_items ::
  "nat \<Rightarrow> overview_children \<Rightarrow> overview_item list \<Rightarrow> overview_item list \<times> ident set \<Rightarrow>
   overview_item list \<times> ident set" where
  "visit_items 0 m items st = st"
| "visit_items (Suc n) m [] st = st"
| "visit_items (Suc n) m (item # items) st =
     (if oi_span_id item \<in> snd st then visit_items (Suc n) m items st
      else visit_items (Suc n) m items
        (visit_items n m (coalesce (js_get m (oi_span_id item)) [])
          (fst st @ [item], insert (oi_span_id item) (snd st))))"

definition sortProjectedOverviewItemsForDisplay ::
  "js_host \<Rightarrow> overview_item list \<Rightarrow> overview_item list" where
  "sortProjectedOverviewItemsForDisplay h items =
     (let (children, roots) = fold (place_item items) items ([], []);
          sortedRoots = sort_by (compareItems h items) roots;
          sortedChildren = map (\<lambda>(p, c). (p, sort_by (compareItems h items) c)) children;
          n = length items + 1;
          st = visit_items n sortedChildren sortedRoots ([], {})
      in if length (fst st) \<noteq> length items
         then fst (visit_items n sortedChildren (sort_by (compareItems h items) items) st)
         else fst st)"

section \<open>The entries of an item\<close>

definition math_round :: "number \<Rightarrow> number" where
  "math_round x = of_int \<lfloor>x + 1 / 2\<rfloor>"

definition formatDurationMs :: "format_host \<Rightarrow> number option \<Rightarrow> string" where
  "formatDurationMs f durationMs = (case durationMs of
       None \<Rightarrow> ''-''
     | Some d \<Rightarrow>
         if d \<le> 0 then ''-''
         else if d < 1 then ''<1ms''
         else if d < 1000 then fh_locale f (math_round d) None @ ''ms''
         else fh_locale f (d / 1000) (Some (2, 2)) @ ''s'')"

definition baseHiddenProjectedDataKeys :: "string list" where
  "baseHiddenProjectedDataKeys = [''cache_read_input_tokens'', ''cost_breakdown'', ''input_tokens'',
     ''input_messages'', ''input_text'', ''llm_response_metrics'', ''output_messages'', ''output_text'',
     ''output_tokens'', ''total_cost'', ''uncached_input_tokens'']"

definition projectedTimeSecondsKeys :: "string list" where
  "projectedTimeSecondsKeys = [''chatbot_times'', ''guardrail_time'', ''guardrail_times'', ''total_time'']"

definition projectedDataLabels :: "(string \<times> string) list" where
  "projectedDataLabels = [
     (''agent_name'', ''Agent''), (''arguments'', ''Arguments''), (''blog_urls'', ''Blog URLs''),
     (''cache_read_input_tokens'', ''Cache read tokens''), (''call_id'', ''Call ID''),
     (''chatbot_times'', ''Chatbot times''), (''conversation_id'', ''Conversation ID''),
     (''conversation_turn'', ''Turn''), (''data_source_id'', ''Data source''),
     (''documents'', ''Documents''), (''embedding_duration_ms'', ''Embedding duration''),
     (''embedding_input_tokens'', ''Embedding input tokens''), (''embedding_model'', ''Embedding model''),
     (''guardrail_failures'', ''Guardrail failures''), (''guardrail_retries'', ''Chatbot retries''),
     (''guardrail_time'', ''Guardrail time''), (''guardrail_times'', ''Guardrail times''),
     (''guardrails_blocked'', ''Guardrails blocked''), (''guardrails_feedback'', ''Feedback''),
     (''guardrails_is_valid'', ''Valid''), (''input_tokens'', ''Input tokens''), (''is_valid'', ''Valid''),
     (''message_id'', ''Message ID''), (''model'', ''Model''), (''output_tokens'', ''Output tokens''),
     (''case_name'', ''Case''), (''dataset_name'', ''Dataset''), (''evaluation_name'', ''Evaluation''),
     (''evaluator_name'', ''Evaluator''), (''explanation'', ''Explanation''),
     (''max_concurrency'', ''Max concurrency''), (''reasoning_effort'', ''Reasoning effort''),
     (''repeats'', ''Repeats''), (''result_kind'', ''Kind''), (''run_index'', ''Run''),
     (''score_label'', ''Score''), (''score_value'', ''Score value''),
     (''service_tier_applied'', ''Applied service tier''),
     (''service_tier_applied_counts'', ''Applied service tiers''),
     (''service_tier_fallback_count'', ''Service-tier fallbacks''),
     (''service_tier_missing_count'', ''Missing applied tiers''),
     (''service_tier_requested'', ''Requested service tier''), (''total_cases'', ''Total cases''),
     (''total_runs'', ''Total runs''), (''provider_name'', ''Provider''), (''query'', ''Query''),
     (''result'', ''Result''), (''system_instructions'', ''System instructions''),
     (''server_address'', ''Server''), (''tool_name'', ''Tool''), (''tool_type'', ''Tool type''),
     (''top_k'', ''Top K''), (''total_cost'', ''Cost''), (''total_time'', ''Total time''),
     (''unknown_urls'', ''Unknown URLs'')]"

text \<open>\<open>replaceAll("_", " ")\<close>, and the first letter of each word in upper case.\<close>

definition in_range :: "char \<Rightarrow> char \<Rightarrow> char \<Rightarrow> bool" where
  "in_range a b c \<longleftrightarrow> (of_char a :: nat) \<le> of_char c \<and> (of_char c :: nat) \<le> of_char b"

definition word_char :: "char \<Rightarrow> bool" where
  "word_char c \<longleftrightarrow> in_range (CHR ''a'') (CHR ''z'') c \<or> in_range (CHR ''A'') (CHR ''Z'') c \<or>
     in_range (CHR ''0'') (CHR ''9'') c \<or> c = CHR ''_''"

definition upper :: "char \<Rightarrow> char" where
  "upper c = (if in_range (CHR ''a'') (CHR ''z'') c then char_of (of_char c - (32 :: nat)) else c)"

fun capitalize_words :: "bool \<Rightarrow> string \<Rightarrow> string" where
  "capitalize_words inside [] = []"
| "capitalize_words inside (c # s) =
     (if \<not> inside \<and> word_char c then upper c else c) # capitalize_words (word_char c) s"

definition formatProjectedDataLabel :: "string \<Rightarrow> string" where
  "formatProjectedDataLabel key = coalesce (map_of projectedDataLabels key)
     (capitalize_words False (map (\<lambda>c. if c = CHR ''_'' then CHR '' '' else c) key))"

definition formatMillisecondsValue :: "format_host \<Rightarrow> json \<Rightarrow> json" where
  "formatMillisecondsValue f v = (case v of
       JNum x \<Rightarrow> JStr (formatDurationMs f (Some x))
     | JStr s \<Rightarrow> (case fh_Number f s of
           Some x \<Rightarrow> JStr (formatDurationMs f (Some x)) | None \<Rightarrow> v)
     | _ \<Rightarrow> v)"

fun formatSecondsValue :: "format_host \<Rightarrow> json \<Rightarrow> json" where
  "formatSecondsValue f (JNum x) = JStr (formatDurationMs f (Some (x * 1000)))"
| "formatSecondsValue f (JStr s) = (case fh_Number f s of
       Some x \<Rightarrow> JStr (formatDurationMs f (Some (x * 1000))) | None \<Rightarrow> JStr s)"
| "formatSecondsValue f (JArr xs) =
     (let formatted = map (formatSecondsValue f) xs
      in if list_all (\<lambda>e. as_string (Some e) \<noteq> None) formatted
         then JStr (join_with '', '' (map (\<lambda>e. the (as_string (Some e))) formatted))
         else JArr xs)"
| "formatSecondsValue f v = v"

definition formatProjectedDataValue :: "format_host \<Rightarrow> string \<Rightarrow> json \<Rightarrow> json" where
  "formatProjectedDataValue f key v =
     (if key = ''embedding_duration_ms'' then formatMillisecondsValue f v
      else if key \<in> set projectedTimeSecondsKeys then formatSecondsValue f v
      else v)"

record data_entry =
  de_key :: string
  de_label :: string
  de_value :: json
  de_valueType :: "string option"
  de_markdownValue :: "string option"

definition markdownValueForProjectedDataEntry :: "overview_item \<Rightarrow> string \<Rightarrow> json \<Rightarrow> string option" where
  "markdownValueForProjectedDataEntry item key v =
     (if oi_type item \<noteq> ToolItem \<or> key \<noteq> ''result'' then None
      else if map_of (oi_data item) ''tool_name'' = Some (JStr ''list_training_materials_tree'') \<and>
        as_string (Some v) \<noteq> None then as_string (Some v)
      else if map_of (oi_data item) ''tool_name'' = Some (JStr ''find_document_titles'') \<and>
        as_string (Some v) \<noteq> None then as_string (Some v)
      else None)"

definition valueTypeForProjectedDataEntry :: "string option \<Rightarrow> string option" where
  "valueTypeForProjectedDataEntry markdownValue =
     (case markdownValue of None \<Rightarrow> None | Some _ \<Rightarrow> Some ''markdown'')"

definition index_or_minus_one :: "('a \<Rightarrow> bool) \<Rightarrow> 'a list \<Rightarrow> int" where
  "index_or_minus_one P xs = (case find_index P xs of None \<Rightarrow> -1 | Some i \<Rightarrow> int i)"

definition orderProjectedDataEntries :: "overview_item \<Rightarrow> data_entry list \<Rightarrow> data_entry list" where
  "orderProjectedDataEntries item entries =
     (if oi_type item \<noteq> AgentItem \<or> map_of (oi_data item) ''guardrails_is_valid'' = None \<or>
         \<not> list_ex (\<lambda>e. de_key e = ''system_instructions'') entries
      then entries
      else case find (\<lambda>e. de_key e = ''system_instructions'') entries of
          None \<Rightarrow> entries
        | Some systemEntry \<Rightarrow>
            (let withoutSystem = filter (\<lambda>e. de_key e \<noteq> ''system_instructions'') entries;
                 feedbackIndex = index_or_minus_one (\<lambda>e. de_key e = ''guardrails_feedback'') withoutSystem;
                 validIndex = index_or_minus_one (\<lambda>e. de_key e = ''guardrails_is_valid'') withoutSystem;
                 insertAfterIndex = max feedbackIndex validIndex
             in if insertAfterIndex = -1 then entries
                else take (nat (insertAfterIndex + 1)) withoutSystem @ systemEntry #
                  drop (nat (insertAfterIndex + 1)) withoutSystem))"

definition getHiddenProjectedDataKeys :: "overview_item \<Rightarrow> string list" where
  "getHiddenProjectedDataKeys item = baseHiddenProjectedDataKeys @ (case oi_type item of
       AgentItem \<Rightarrow> [''agent_name'', ''model'', ''reasoning_effort'']
     | LlmItem \<Rightarrow> [''model'', ''reasoning_effort'']
     | ToolItem \<Rightarrow> ''tool_name'' # (case oi_subtitle item of
           None \<Rightarrow> [] | Some s \<Rightarrow> if trim s \<noteq> [] then [''tool_type''] else [])
     | RetrievalItem \<Rightarrow> [''data_source_id'']
     | ConversationTurnItem \<Rightarrow> [''total_time'']
     | EvaluationItem \<Rightarrow> [''dataset_name'']
     | EvaluationCaseItem \<Rightarrow> [''case_name'', ''run_index'']
     | EvaluationResultItem \<Rightarrow> [''evaluation_name'']
     | _ \<Rightarrow> [])"

definition data_entry_of :: "format_host \<Rightarrow> overview_item \<Rightarrow> string \<times> json \<Rightarrow> data_entry" where
  "data_entry_of f item e =
     (let formattedValue = formatProjectedDataValue f (fst e) (snd e);
          markdownValue = markdownValueForProjectedDataEntry item (fst e) formattedValue
      in \<lparr>de_key = fst e, de_label = formatProjectedDataLabel (fst e), de_value = formattedValue,
          de_valueType = valueTypeForProjectedDataEntry markdownValue,
          de_markdownValue = markdownValue\<rparr>)"

definition getReadableProjectedDataEntries :: "format_host \<Rightarrow> overview_item \<Rightarrow> data_entry list" where
  "getReadableProjectedDataEntries f item =
     orderProjectedDataEntries item (map (data_entry_of f item)
       (filter (\<lambda>e. fst e \<notin> set (getHiddenProjectedDataKeys item) \<and> snd e \<noteq> JNull) (oi_data item)))"

section \<open>Spans with the overview's outputs\<close>

abbreviation output_key :: string where
  "output_key \<equiv> ''gen_ai.output.messages''"

definition projected_output :: "attributes \<Rightarrow> json list option" where
  "projected_output projectedData = (case as_array (map_of projectedData ''output_messages'') of
       Some ms \<Rightarrow> Some ms
     | None \<Rightarrow> (case as_string (map_of projectedData ''output_text'') of
           Some t \<Rightarrow> if trim t \<noteq> [] then Some [JObj [(''role'', JStr ''assistant''), (''content'', JStr t)]]
             else None
         | None \<Rightarrow> None))"

definition hydrate_span :: "overview_item list \<Rightarrow> trace_span \<Rightarrow> trace_span" where
  "hydrate_span overview tspan =
     (if map_of (span_attributes tspan) output_key \<noteq> None then tspan
      else case map_of (rev (map (\<lambda>i. (oi_span_id i, i)) overview)) (sp_span_id tspan) of
          None \<Rightarrow> tspan
        | Some item \<Rightarrow> (case projected_output (oi_data item) of
              None \<Rightarrow> tspan
            | Some ms \<Rightarrow> tspan\<lparr>sp_attributes := Some (js_set output_key
                (JArr (filter is_object ms)) (span_attributes tspan))\<rparr>))"

definition hydrateSpansWithProjectedOutput :: "trace_detail option \<Rightarrow> trace_span list" where
  "hydrateSpansWithProjectedOutput detail = (case detail of
       None \<Rightarrow> []
     | Some d \<Rightarrow> map (hydrate_span (td_overview d)) (td_spans d))"

end
