(* ===== verification/TraceProjectionFacts.thy ===== *)
theory TraceProjectionFacts
  imports TraceProjection "HOL-Library.Multiset" "HOL-Library.Product_Lexorder"
begin

text \<open>
  The overview of a trace shows every item once, parents first and siblings by start; the
  entries of an item are its data without what is hidden; spans are completed once.
\<close>

section \<open>The stable sort\<close>

lemma mset_sort_by [simp]: "mset (sort_by cmp xs) = mset xs"
proof -
  have "mset (insert_by cmp x ys) = add_mset x (mset ys)" for x ys by (induction ys) auto
  then show ?thesis by (induction xs) (simp_all add: sort_by_def)
qed

lemma set_sort_by [simp]: "set (sort_by cmp xs) = set xs"
  by (rule mset_eq_setD) simp

lemma length_sort_by [simp]: "length (sort_by cmp xs) = length xs"
  using mset_sort_by [of cmp xs] by (metis size_mset)

text \<open>The comparison is by a key: items without a start come last, in the order they have.\<close>

definition overview_key :: "js_host \<Rightarrow> overview_item list \<Rightarrow> overview_item \<Rightarrow> bool \<times> number \<times> nat" where
  "overview_key h items item = (case overviewItemStartMs h item of
       None \<Rightarrow> (True, 0, 0)
     | Some t \<Rightarrow> (False, t, original_index items (oi_span_id item)))"

lemma compare_by_key:
  "compareItems h items a b \<le> 0 \<longleftrightarrow> overview_key h items a \<le> overview_key h items b"
  by (auto simp: compareItems_def overview_key_def less_eq_prod_def less_prod_def split: option.splits)

lemma insert_by_key: "insert_by (compareItems h items) = insort_key (overview_key h items)"
proof (intro ext)
  fix x ys
  show "insert_by (compareItems h items) x ys = insort_key (overview_key h items) x ys"
    by (induction ys) (simp_all add: compare_by_key)
qed

lemma sort_by_key: "sort_by (compareItems h items) xs = sort_key (overview_key h items) xs"
  by (simp add: sort_by_def sort_key_def insert_by_key)

section \<open>The child lists\<close>

lemma fold_place_item:
  "coalesce (js_get (fst (fold (place_item items) xs st)) p) [] =
     coalesce (js_get (fst st) p) [] @ filter (\<lambda>i. overview_parent items i = Some p) xs \<and>
   snd (fold (place_item items) xs st) = snd st @ filter (\<lambda>i. overview_parent items i = None) xs"
proof (induction xs arbitrary: st)
  case (Cons x xs)
  show ?case
    using Cons [of "place_item items x st"]
    by (cases "overview_parent items x") (auto simp: place_item_def update_conv')
qed simp

text \<open>The sorted children of an item, and the sorted roots for \<open>None\<close>.\<close>

definition kids :: "js_host \<Rightarrow> overview_item list \<Rightarrow> ident option \<Rightarrow> overview_item list" where
  "kids h items q = sort_key (overview_key h items) (filter (\<lambda>i. overview_parent items i = q) items)"

definition sorted_children :: "js_host \<Rightarrow> overview_item list \<Rightarrow> overview_children" where
  "sorted_children h items = map (\<lambda>(p, c). (p, sort_by (compareItems h items) c))
     (fst (fold (place_item items) items ([], [])))"

lemma sorted_children_kids: "coalesce (js_get (sorted_children h items) i) [] = kids h items (Some i)"
proof -
  have "coalesce (js_get (map (\<lambda>(p, c). (p, sort_by (compareItems h items) c)) m) i) [] =
      sort_key (overview_key h items) (coalesce (js_get m i) [])" for m
    by (cases "js_get m i") (simp_all add: map_of_map sort_by_key)
  then show ?thesis
    using fold_place_item [of items items "([], [])" i] by (simp add: sorted_children_def kids_def)
qed

lemma sorted_roots_kids:
  "sort_by (compareItems h items) (snd (fold (place_item items) items ([], []))) = kids h items None"
  using fold_place_item [of items items "([], [])"] by (simp add: kids_def sort_by_key)

lemma kids_set: "set (kids h items q) = {i \<in> set items. overview_parent items i = q}"
  by (auto simp: kids_def)

text \<open>The two passes, over the child lists.\<close>

definition first_pass :: "js_host \<Rightarrow> overview_item list \<Rightarrow> overview_item list \<times> ident set" where
  "first_pass h items =
     visit_items (length items + 1) (sorted_children h items) (kids h items None) ([], {})"

lemma sorted_for_display:
  "sortProjectedOverviewItemsForDisplay h items =
     (if length (fst (first_pass h items)) \<noteq> length items
      then fst (visit_items (length items + 1) (sorted_children h items)
        (sort_by (compareItems h items) items) (first_pass h items))
      else fst (first_pass h items))"
  unfolding sortProjectedOverviewItemsForDisplay_def first_pass_def
    sorted_roots_kids [symmetric] sorted_children_def
  by (simp add: Let_def case_prod_beta)

section \<open>The walk\<close>

text \<open>Whatever the trees, what is listed is what is marked, each once, and the list given is marked.\<close>

definition walk_ok :: "overview_item list \<Rightarrow> overview_item list \<times> ident set \<Rightarrow> bool" where
  "walk_ok items st \<longleftrightarrow> set (fst st) \<subseteq> set items \<and> distinct (map oi_span_id (fst st)) \<and>
     oi_span_id ` set (fst st) = snd st"

lemma walk_ok_ids: "walk_ok items st \<Longrightarrow> snd st \<subseteq> oi_span_id ` set items"
  unfolding walk_ok_def by blast

lemma visit_items_ok:
  assumes "walk_ok items st" "set sibs \<subseteq> set items"
  shows "walk_ok items (visit_items n (sorted_children h items) sibs st) \<and>
    snd st \<subseteq> snd (visit_items n (sorted_children h items) sibs st) \<and>
    (0 < n \<longrightarrow> oi_span_id ` set sibs \<subseteq> snd (visit_items n (sorted_children h items) sibs st))"
  using assms
proof (induction n "sorted_children h items" sibs st rule: visit_items.induct)
  case (3 n item sibs st)
  show ?case
  proof (cases "oi_span_id item \<in> snd st")
    case True
    with 3 show ?thesis by auto
  next
    case False
    let ?m = "sorted_children h items"
    let ?st1 = "(fst st @ [item], insert (oi_span_id item) (snd st))"
    let ?st2 = "visit_items n ?m (coalesce (js_get ?m (oi_span_id item)) []) ?st1"
    have "walk_ok items ?st1" using 3(4,5) False by (auto simp: walk_ok_def)
    then have st2: "walk_ok items ?st2" "snd ?st1 \<subseteq> snd ?st2"
      using 3(2) [OF False] by (simp_all add: sorted_children_kids kids_set)
    have "walk_ok items (visit_items (Suc n) ?m sibs ?st2) \<and>
        snd ?st2 \<subseteq> snd (visit_items (Suc n) ?m sibs ?st2) \<and>
        oi_span_id ` set sibs \<subseteq> snd (visit_items (Suc n) ?m sibs ?st2)"
      using 3(3) [OF False st2(1)] 3(5) by simp
    with st2(2) False show ?thesis by auto
  qed
qed auto

text \<open>The depth left is never used up: an unvisited item is left on every level.\<close>

lemma walk_room:
  assumes "walk_ok items st" "item \<in> set items" "oi_span_id item \<notin> snd st"
  shows "card (snd st) < length items"
proof -
  have "snd st \<subset> oi_span_id ` set items"
    using assms walk_ok_ids [OF assms(1)] by blast
  then have "card (snd st) < card (oi_span_id ` set items)" by (intro psubset_card_mono) auto
  also have "\<dots> \<le> length items" using card_length [of "map oi_span_id items"] by simp
  finally show ?thesis .
qed

lemma walk_all:
  assumes "walk_ok items st" "distinct (map oi_span_id items)" "oi_span_id ` set items \<subseteq> snd st"
  shows "mset (fst st) = mset items"
proof -
  have inj: "inj_on oi_span_id (set items)" using assms(2) by (simp add: distinct_map)
  have "set (fst st) = set items"
  proof (intro equalityI subsetI)
    fix i
    assume i: "i \<in> set items"
    then have "oi_span_id i \<in> oi_span_id ` set (fst st)" using assms(1,3) by (auto simp: walk_ok_def)
    then obtain j where j: "j \<in> set (fst st)" "oi_span_id j = oi_span_id i" by auto
    then have "j \<in> set items" using assms(1) by (auto simp: walk_ok_def)
    with inj i j show "i \<in> set (fst st)" by (metis inj_onD)
  qed (use assms(1) in \<open>auto simp: walk_ok_def\<close>)
  moreover have "distinct (fst st)" using assms(1) by (auto simp: walk_ok_def distinct_map)
  moreover have "distinct items" using assms(2) by (simp add: distinct_map)
  ultimately show ?thesis by (simp add: set_eq_iff_mset_eq_distinct)
qed

lemma first_pass_ok: "walk_ok items (first_pass h items)"
  unfolding first_pass_def by (intro conjunct1 [OF visit_items_ok]) (auto simp: walk_ok_def kids_set)

lemma first_pass_all:
  assumes "distinct (map oi_span_id items)" "length (fst (first_pass h items)) = length items"
  shows "mset (fst (first_pass h items)) = mset items"
proof (rule walk_all [OF first_pass_ok assms(1)])
  let ?l = "fst (first_pass h items)"
  have eq: "oi_span_id ` set ?l = snd (first_pass h items)"
    and dis: "distinct (map oi_span_id ?l)"
    using first_pass_ok [of items h] by (simp_all add: walk_ok_def)
  then have sub: "oi_span_id ` set ?l \<subseteq> oi_span_id ` set items"
    using walk_ok_ids [OF first_pass_ok [of items h]] by simp
  have "card (oi_span_id ` set ?l) = length items" using distinct_card [OF dis] assms(2) by simp
  moreover have "card (oi_span_id ` set items) = length items"
    using distinct_card [OF assms(1)] by simp
  ultimately have "oi_span_id ` set ?l = oi_span_id ` set items"
    using card_subset_eq [OF _ sub] by simp
  with eq show "oi_span_id ` set items \<subseteq> snd (first_pass h items)" by simp
qed

text \<open>
  C23. The overview shows every item exactly once: for items with distinct spans the list
  displayed is a rearrangement of the items, also when their parents are missing or form
  cycles.
\<close>

theorem overview_shows_every_item:
  assumes "distinct (map oi_span_id items)"
  shows "mset (sortProjectedOverviewItemsForDisplay h items) = mset items"
proof (cases "length (fst (first_pass h items)) = length items")
  case True
  then show ?thesis using first_pass_all [OF assms] by (simp add: sorted_for_display)
next
  case False
  let ?st = "visit_items (length items + 1) (sorted_children h items)
    (sort_by (compareItems h items) items) (first_pass h items)"
  have "walk_ok items ?st" "oi_span_id ` set items \<subseteq> snd ?st"
    using visit_items_ok [OF first_pass_ok [of items h], of "sort_by (compareItems h items) items"
      "length items + 1" h] by simp_all
  then have "mset (fst ?st) = mset items" by (rule walk_all [OF _ assms])
  with False show ?thesis by (simp add: sorted_for_display)
qed

section \<open>Parents first, siblings by their start\<close>

fun parents_first :: "overview_item list \<Rightarrow> ident set \<Rightarrow> overview_item list \<Rightarrow> bool" where
  "parents_first items seen [] = True"
| "parents_first items seen (x # xs) \<longleftrightarrow>
     overview_parent items x \<in> insert None (Some ` seen) \<and> parents_first items (insert (oi_span_id x) seen) xs"

lemma parents_first_snoc:
  "parents_first items seen (xs @ [x]) \<longleftrightarrow> parents_first items seen xs \<and>
     overview_parent items x \<in> insert None (Some ` (seen \<union> oi_span_id ` set xs))"
  by (induction xs arbitrary: seen) auto

definition listed :: "overview_item list \<Rightarrow> overview_item list \<Rightarrow> ident option \<Rightarrow> overview_item list" where
  "listed items xs q = filter (\<lambda>i. overview_parent items i = q) xs"

abbreviation opened :: "overview_item list \<times> ident set \<Rightarrow> ident option set" where
  "opened st \<equiv> insert None (Some ` snd st)"

text \<open>
  The state of the walk between two siblings: an item follows its parent, and the children of
  an item that was not visited are not listed.
\<close>

definition walk_between :: "overview_item list \<Rightarrow> overview_item list \<times> ident set \<Rightarrow> bool" where
  "walk_between items st \<longleftrightarrow> walk_ok items st \<and>
     parents_first items {} (fst st) \<and> (\<forall>r. r \<notin> opened st \<longrightarrow> listed items (fst st) r = [])"

lemma listed_snoc:
  "listed items (xs @ [x]) q = listed items xs q @ (if overview_parent items x = q then [x] else [])"
  by (simp add: listed_def)

lemma walk_finite: "walk_ok items st \<Longrightarrow> finite (snd st)"
  using walk_ok_ids finite_subset by blast

lemma walk_card: "walk_ok items st \<Longrightarrow> card (snd st) \<le> length items"
  using card_mono [OF _ walk_ok_ids, of items st] card_length [of "map oi_span_id items"] by simp

lemma kids_distinct: "distinct (map oi_span_id items) \<Longrightarrow> distinct (kids h items q)"
  by (simp add: kids_def distinct_map)

lemma next_not_visited:
  assumes "distinct (map oi_span_id items)" "walk_ok items st"
    and "listed items (fst st) q @ item # sibs = kids h items q"
  shows "oi_span_id item \<notin> snd st"
proof
  assume "oi_span_id item \<in> snd st"
  then have "oi_span_id item \<in> oi_span_id ` set (fst st)" using assms(2) by (simp add: walk_ok_def)
  then obtain j where j: "j \<in> set (fst st)" "oi_span_id j = oi_span_id item" by auto
  have "item \<in> set (kids h items q)" unfolding assms(3) [symmetric] by simp
  then have item: "item \<in> set items" "overview_parent items item = q" by (auto simp: kids_set)
  have "j \<in> set items" using j(1) assms(2) by (auto simp: walk_ok_def)
  then have "j = item" using assms(1) item(1) j(2) by (simp add: distinct_map inj_on_def)
  then have "item \<in> set (listed items (fst st) q)" using j(1) item(2) by (simp add: listed_def)
  moreover have "distinct (listed items (fst st) q @ item # sibs)"
    unfolding assms(3) using assms(1) by (rule kids_distinct)
  ultimately show False by simp
qed

lemma walk_enter:
  assumes "walk_between items st" "item \<in> set items" "oi_span_id item \<notin> snd st"
    and "overview_parent items item \<in> opened st"
  shows "walk_between items (fst st @ [item], insert (oi_span_id item) (snd st))"
  using assms by (auto simp: walk_between_def walk_ok_def parents_first_snoc listed_snoc)

text \<open>What visiting the rest of the siblings under \<open>q\<close> gives.\<close>

definition walk_done ::
  "js_host \<Rightarrow> overview_item list \<Rightarrow> ident option \<Rightarrow> overview_item list \<times> ident set \<Rightarrow>
   overview_item list \<times> ident set \<Rightarrow> bool" where
  "walk_done h items q st st' \<longleftrightarrow>
     walk_between items st' \<and> opened st \<subseteq> opened st' \<and> listed items (fst st') q = kids h items q \<and>
     (\<forall>r. r \<in> opened st \<longrightarrow> r \<noteq> q \<longrightarrow> listed items (fst st') r = listed items (fst st) r) \<and>
     (\<forall>r. r \<in> opened st' \<longrightarrow> r \<notin> opened st \<longrightarrow> listed items (fst st') r = kids h items r)"

lemma walk_doneD:
  assumes "walk_done h items q st st'"
  shows "walk_between items st'" "opened st \<subseteq> opened st'" "listed items (fst st') q = kids h items q"
    "r \<in> opened st \<Longrightarrow> r \<noteq> q \<Longrightarrow> listed items (fst st') r = listed items (fst st) r"
    "r \<in> opened st' \<Longrightarrow> r \<notin> opened st \<Longrightarrow> listed items (fst st') r = kids h items r"
  using assms unfolding walk_done_def by blast+

text \<open>An item, its children, and the siblings after it.\<close>

lemma walk_done_step:
  assumes "walk_done h items (Some i) (fst st @ [item], insert i (snd st)) st2" "walk_done h items q st2 st'"
    and "overview_parent items item = q" "q \<in> opened st" "i \<notin> snd st"
  shows "walk_done h items q st st'"
  unfolding walk_done_def
proof (intro conjI allI impI)
  let ?st1 = "(fst st @ [item], insert i (snd st))"
  note d1 = walk_doneD [OF assms(1)] and d2 = walk_doneD [OF assms(2)]
  have iq: "Some i \<notin> opened st" using assms(5) by auto
  show "walk_between items st'" "listed items (fst st') q = kids h items q" by (rule d2(1), rule d2(3))
  have "opened st \<subseteq> opened ?st1" by auto
  then show "opened st \<subseteq> opened st'" using d1(2) d2(2) by (meson subset_trans)
  show "listed items (fst st') r = listed items (fst st) r" if r: "r \<in> opened st" "r \<noteq> q" for r
  proof -
    have r1: "r \<in> opened ?st1" "r \<noteq> Some i" using r iq by auto
    then have "r \<in> opened st2" using d1(2) by blast
    then have "listed items (fst st') r = listed items (fst st2) r" using r(2) by (rule d2(4))
    also have "\<dots> = listed items (fst ?st1) r" using r1 by (rule d1(4))
    also have "\<dots> = listed items (fst st) r" using r assms(3) by (simp add: listed_snoc)
    finally show ?thesis .
  qed
  show "listed items (fst st') r = kids h items r" if r: "r \<in> opened st'" "r \<notin> opened st" for r
  proof (cases "r \<in> opened st2")
    case True
    have "r \<noteq> q" using r assms(4) by blast
    with True have "listed items (fst st') r = listed items (fst st2) r" by (rule d2(4))
    also have "\<dots> = kids h items r"
    proof (cases "r = Some i")
      case False
      then have "r \<notin> opened ?st1" using r(2) by simp
      with True show ?thesis by (rule d1(5))
    qed (simp add: d1(3))
    finally show ?thesis .
  qed (rule d2(5) [OF r(1)])
qed

lemma visit_siblings:
  assumes "distinct (map oi_span_id items)" "walk_between items st" "q \<in> opened st"
    and "length items < n + card (snd st)" "listed items (fst st) q @ sibs = kids h items q"
  shows "walk_done h items q st (visit_items n (sorted_children h items) sibs st)"
  using assms
proof (induction n "sorted_children h items" sibs st arbitrary: q rule: visit_items.induct)
  case (1 sibs st)
  then show ?case using walk_card [of items st] by (simp add: walk_between_def)
next
  case (2 n st)
  then show ?case by (simp add: walk_done_def)
next
  case (3 n item sibs st)
  let ?m = "sorted_children h items" and ?i = "Some (oi_span_id item)"
  let ?st1 = "(fst st @ [item], insert (oi_span_id item) (snd st))"
  let ?st2 = "visit_items n ?m (coalesce (js_get ?m (oi_span_id item)) []) ?st1"
  have ok: "walk_ok items st" using 3(5) by (simp add: walk_between_def)
  have new: "oi_span_id item \<notin> snd st" using 3(4) ok 3(8) by (rule next_not_visited)
  have "item \<in> set (kids h items q)" unfolding 3(8) [symmetric] by simp
  then have item: "item \<in> set items" "overview_parent items item = q" by (auto simp: kids_set)
  have st1: "walk_between items ?st1" using walk_enter [OF 3(5) item(1) new] item(2) 3(6) by simp
  have iq: "?i \<noteq> q" "?i \<notin> opened st" using new 3(6) by auto
  have card1: "card (snd ?st1) = Suc (card (snd st))" using new walk_finite [OF ok] by simp
  have p1: "?i \<in> opened ?st1" "length items < n + card (snd ?st1)" using 3(7) card1 by simp_all
  have "listed items (fst st @ [item]) ?i = []"
    using 3(5) iq item(2) by (auto simp: walk_between_def listed_snoc)
  then have p2: "listed items (fst ?st1) ?i @ coalesce (js_get ?m (oi_span_id item)) [] = kids h items ?i"
    by (simp add: sorted_children_kids)
  have st2: "walk_done h items ?i ?st1 ?st2" by (rule 3(2) [OF new 3(4) st1 p1 p2])
  note d = walk_doneD [OF st2]
  have q1: "q \<in> opened ?st1" using 3(6) by auto
  have "listed items (fst ?st2) q = listed items (fst ?st1) q" using q1 iq(1) [symmetric] by (rule d(4))
  then have q2: "listed items (fst ?st2) q @ sibs = kids h items q"
    using 3(8) item(2) by (simp add: listed_snoc)
  have "card (snd ?st1) \<le> card (snd ?st2)"
    using d(1,2) walk_finite [of items ?st2] by (intro card_mono) (auto simp: walk_between_def)
  then have room: "length items < Suc n + card (snd ?st2)" using 3(7) card1 by simp
  have "q \<in> opened ?st2" using q1 d(2) by blast
  from 3(3) [OF new 3(4) d(1) this room q2]
  have "walk_done h items q st (visit_items (Suc n) ?m sibs ?st2)"
    by (rule walk_done_step [OF st2 _ item(2) 3(6) new])
  then show ?case using new by simp
qed

lemma first_pass_walk:
  assumes "distinct (map oi_span_id items)"
  shows "parents_first items {} (fst (first_pass h items))"
    and "q \<in> opened (first_pass h items) \<Longrightarrow> listed items (fst (first_pass h items)) q = kids h items q"
proof -
  have "walk_between items ([], {})" by (simp add: walk_between_def walk_ok_def listed_def)
  then have d: "walk_done h items None ([], {}) (first_pass h items)"
    unfolding first_pass_def by (rule visit_siblings [OF assms]) (simp_all add: listed_def)
  show "parents_first items {} (fst (first_pass h items))"
    using walk_doneD(1) [OF d] by (simp add: walk_between_def)
  show "listed items (fst (first_pass h items)) q = kids h items q" if "q \<in> opened (first_pass h items)"
    using walk_doneD(3) [OF d] walk_doneD(5) [OF d that] by (cases q) auto
qed

text \<open>A rank that falls towards the parents: the parents have no cycle.\<close>

lemma first_pass_reaches:
  fixes rank :: "ident \<Rightarrow> nat"
  assumes "distinct (map oi_span_id items)"
    and "\<And>i p. i \<in> set items \<Longrightarrow> overview_parent items i = Some p \<Longrightarrow> rank p < rank (oi_span_id i)"
    and "item \<in> set items"
  shows "oi_span_id item \<in> snd (first_pass h items)"
  using assms(3)
proof (induction "rank (oi_span_id item)" arbitrary: item rule: less_induct)
  case less
  have "overview_parent items item \<in> opened (first_pass h items)"
  proof (cases "overview_parent items item")
    case (Some p)
    then obtain parent where "parent \<in> set items" "oi_span_id parent = p"
      by (auto simp: overview_parent_def split: option.splits if_splits)
    with less(1) [of parent] assms(2) [OF less(2) Some] Some show ?thesis by simp
  qed simp
  then have "item \<in> set (listed items (fst (first_pass h items)) (overview_parent items item))"
    using first_pass_walk(2) [OF assms(1)] less(2) by (simp add: kids_set)
  then have "item \<in> set (fst (first_pass h items))" by (simp add: listed_def)
  then show ?case using first_pass_ok [of items h] by (auto simp: walk_ok_def)
qed

text \<open>
  C22. In the overview every item comes after its parent, and the items with the same parent
  come in the order of their start, those without a start last and ties in the order given;
  for items with distinct spans whose parents have no cycle.
\<close>

theorem overview_in_order:
  fixes rank :: "ident \<Rightarrow> nat"
  assumes "distinct (map oi_span_id items)"
    and "\<And>i p. i \<in> set items \<Longrightarrow> overview_parent items i = Some p \<Longrightarrow> rank p < rank (oi_span_id i)"
  shows "parents_first items {} (sortProjectedOverviewItemsForDisplay h items) \<and>
    filter (\<lambda>i. overview_parent items i = q) (sortProjectedOverviewItemsForDisplay h items) =
      sort_key (overview_key h items) (filter (\<lambda>i. overview_parent items i = q) items)"
proof -
  have all: "oi_span_id ` set items \<subseteq> snd (first_pass h items)"
    using first_pass_reaches [of items rank _ h] assms by blast
  then have m: "mset (fst (first_pass h items)) = mset items"
    by (rule walk_all [OF first_pass_ok assms(1)])
  then have sorted: "sortProjectedOverviewItemsForDisplay h items = fst (first_pass h items)"
    using mset_eq_length [OF m] by (simp add: sorted_for_display)
  have "listed items (fst (first_pass h items)) q = kids h items q"
  proof (cases "q \<in> opened (first_pass h items)")
    case False
    then have "\<And>i. i \<in> set items \<Longrightarrow> overview_parent items i \<noteq> q"
      using all by (auto simp: overview_parent_def split: option.splits if_splits)
    then have "kids h items q = []" "listed items (fst (first_pass h items)) q = []"
      using mset_eq_setD [OF m] by (auto simp: kids_def listed_def filter_empty_conv)
    then show ?thesis by simp
  qed (rule first_pass_walk(2) [OF assms(1)])
  then show ?thesis
    using first_pass_walk(1) [OF assms(1)] sorted by (simp add: listed_def kids_def)
qed

section \<open>The entries\<close>

lemma mset_order_entries:
  assumes "distinct (map de_key es)"
  shows "mset (orderProjectedDataEntries item es) = mset es"
proof (cases "find (\<lambda>e. de_key e = ''system_instructions'') es")
  case None
  then show ?thesis by (simp add: orderProjectedDataEntries_def)
next
  case (Some s)
  then have s: "s \<in> set es" "de_key s = ''system_instructions''" by (auto simp: find_Some_iff)
  have inj: "inj_on de_key (set es)" "distinct es" using assms by (simp_all add: distinct_map)
  have "filter (\<lambda>e. de_key e = ''system_instructions'') es = filter ((=) s) es"
    using s inj(1) by (intro filter_cong) (auto simp: inj_on_def)
  moreover have "filter ((=) s) es = [s]"
    using s(1) inj(2) by (induction es) (auto simp: filter_empty_conv)
  ultimately have "mset (filter (\<lambda>e. de_key e = ''system_instructions'') es) = {#s#}"
    by (simp del: mset_filter)
  then have split: "add_mset s (mset (filter (\<lambda>e. de_key e \<noteq> ''system_instructions'') es)) = mset es"
    using multiset_partition [of "mset es" "\<lambda>e. de_key e = ''system_instructions''"]
    by (simp add: mset_filter)
  have "mset (take k xs) + add_mset s (mset (drop k xs)) = add_mset s (mset xs)" for k and xs :: "data_entry list"
    by (simp flip: mset_append)
  with split show ?thesis using Some by (simp add: orderProjectedDataEntries_def Let_def)
qed

text \<open>
  The entries shown of an item are exactly its data that is neither hidden for items of
  its type nor null, each once under its own key, whatever place the system instructions of a
  guardrails agent are moved to.
\<close>

theorem readable_entries_are_the_visible_data:
  assumes "distinct (map fst (oi_data item))"
  shows "mset (map de_key (getReadableProjectedDataEntries f item)) =
      mset (filter (\<lambda>k. k \<notin> set (getHiddenProjectedDataKeys item) \<and>
        map_of (oi_data item) k \<noteq> Some JNull) (map fst (oi_data item))) \<and>
    (\<forall>e \<in> set (getReadableProjectedDataEntries f item).
      \<exists>v. map_of (oi_data item) (de_key e) = Some v \<and> e = data_entry_of f item (de_key e, v))"
proof -
  let ?P = "\<lambda>e. fst e \<notin> set (getHiddenProjectedDataKeys item) \<and> snd e \<noteq> JNull"
  let ?es = "map (data_entry_of f item) (filter ?P (oi_data item))"
  have keys: "map de_key ?es = map fst (filter ?P (oi_data item))"
    by (simp add: data_entry_of_def Let_def)
  have "distinct (map fst (filter ?P (oi_data item)))" using assms by (rule distinct_map_filter)
  then have m: "mset (getReadableProjectedDataEntries f item) = mset ?es"
    unfolding getReadableProjectedDataEntries_def keys [symmetric] by (rule mset_order_entries)
  have "filter ?P (oi_data item) = filter ((\<lambda>k. k \<notin> set (getHiddenProjectedDataKeys item) \<and>
      map_of (oi_data item) k \<noteq> Some JNull) \<circ> fst) (oi_data item)"
    using assms map_of_is_SomeI [OF assms] by (intro filter_cong) fastforce+
  then have "map de_key ?es = filter (\<lambda>k. k \<notin> set (getHiddenProjectedDataKeys item) \<and>
      map_of (oi_data item) k \<noteq> Some JNull) (map fst (oi_data item))"
    unfolding keys by (simp only: filter_map)
  then have one: "mset (map de_key (getReadableProjectedDataEntries f item)) =
      mset (filter (\<lambda>k. k \<notin> set (getHiddenProjectedDataKeys item) \<and>
        map_of (oi_data item) k \<noteq> Some JNull) (map fst (oi_data item)))"
    unfolding mset_map m by (simp only: mset_map [symmetric])
  have "\<exists>v. map_of (oi_data item) (de_key e) = Some v \<and> e = data_entry_of f item (de_key e, v)"
    if "e \<in> set (getReadableProjectedDataEntries f item)" for e
  proof -
    have "e \<in> set ?es" using that mset_eq_setD [OF m] by simp
    then obtain k v where "(k, v) \<in> set (oi_data item)" "e = data_entry_of f item (k, v)" by auto
    then show ?thesis using assms by (auto simp: data_entry_of_def Let_def)
  qed
  with one show ?thesis by blast
qed

section \<open>Spans with outputs\<close>

lemma hydrate_span_twice: "hydrate_span o1 (hydrate_span o1 s) = hydrate_span o1 s"
  by (auto simp: hydrate_span_def span_attributes_def update_conv' split: option.splits)

text \<open>
  Completing the spans of a trace with the outputs of its overview is done once: doing it
  again changes nothing.
\<close>

theorem hydration_idempotent:
  "hydrateSpansWithProjectedOutput (Some (d\<lparr>td_spans := hydrateSpansWithProjectedOutput (Some d)\<rparr>)) =
   hydrateSpansWithProjectedOutput (Some d)"
  by (simp add: hydrateSpansWithProjectedOutput_def hydrate_span_twice)

section \<open>Instances\<close>

definition clock_host :: js_host where
  "clock_host = \<lparr>JSON_parse = (\<lambda>_. None), JSON_stringify = (\<lambda>_. []), JSON_pretty = (\<lambda>_. []),
     number_string = (\<lambda>_. []), Date_parse = (\<lambda>s. if s = ''t1'' then Some 1 else if s = ''t2'' then Some 2 else None)\<rparr>"

definition overview_row :: "ident \<Rightarrow> ident option \<Rightarrow> string option \<Rightarrow> attributes \<Rightarrow> overview_item" where
  "overview_row i p t d = \<lparr>oi_id = i, oi_span_id = i, oi_parent_span_id = p, oi_type = ToolItem, oi_title = [],
     oi_subtitle = None, oi_start_time = t, oi_data = d\<rparr>"

definition demo_overview :: "overview_item list" where
  "demo_overview = [overview_row ''late'' (Some ''root'') (Some ''t2'') [],
     overview_row ''early'' (Some ''root'') (Some ''t1'') [],
     overview_row ''root'' None None [(''tool_name'', JStr ''x''), (''query'', JNull), (''result'', JNum 1)]]"

lemma overview_shows_every_item_witness:
  "mset (map oi_span_id (sortProjectedOverviewItemsForDisplay clock_host demo_overview)) =
   mset [''early'', ''late'', ''root'']"
proof -
  have "distinct (map oi_span_id demo_overview)" by (simp add: demo_overview_def overview_row_def)
  from overview_shows_every_item [OF this, of clock_host] show ?thesis
    by (simp add: demo_overview_def overview_row_def)
qed

lemma overview_in_order_witness:
  "map oi_span_id (filter (\<lambda>i. overview_parent demo_overview i = Some ''root'')
     (sortProjectedOverviewItemsForDisplay clock_host demo_overview)) = [''early'', ''late'']"
proof -
  have d: "distinct (map oi_span_id demo_overview)" by (simp add: demo_overview_def overview_row_def)
  have r: "(if p = ''root'' then 0 else 1) < (if oi_span_id i = ''root'' then 0 else (1 :: nat))"
    if "i \<in> set demo_overview" "overview_parent demo_overview i = Some p" for i p
    using that by (auto simp: demo_overview_def overview_row_def overview_parent_def split: if_splits)
  have "map oi_span_id (sort_key (overview_key clock_host demo_overview)
      (filter (\<lambda>i. overview_parent demo_overview i = Some ''root'') demo_overview)) = [''early'', ''late'']"
    by code_simp
  then show ?thesis using overview_in_order [where rank = "\<lambda>p. if p = ''root'' then 0 else 1", OF d r] by simp
qed

lemma readable_entries_are_the_visible_data_witness:
  "mset (map de_key (getReadableProjectedDataEntries
     \<lparr>fh_locale = (\<lambda>_ _. ''0''), fh_Number = (\<lambda>_. None)\<rparr> (demo_overview ! 2))) = {#''result''#}"
proof -
  have "distinct (map fst (oi_data (demo_overview ! 2)))" by (simp add: demo_overview_def overview_row_def)
  from readable_entries_are_the_visible_data
      [OF this, of "\<lparr>fh_locale = (\<lambda>_ _. ''0''), fh_Number = (\<lambda>_. None)\<rparr>"] show ?thesis
    by (simp add: demo_overview_def overview_row_def getHiddenProjectedDataKeys_def
        baseHiddenProjectedDataKeys_def)
qed

end
