(* ===== verification/JsonText.thy ===== *)
theory JsonText
  imports ChatTypes
begin

text \<open>
  What the components that store JSON text rely on: \<open>JSON.parse\<close> reads back what
  \<open>JSON.stringify\<close> writes. The language's two functions are parameters of the model; the
  interface is the locale \<open>json_codec\<close>, and a small prefix code shows that it can be met and
  is the codec of the instances.
\<close>

type_synonym json_parser = "string \<Rightarrow> json option"
type_synonym json_writer = "json \<Rightarrow> string"

locale json_codec =
  fixes parse :: json_parser and stringify :: json_writer
  assumes parse_stringify: "parse (stringify j) = Some j"
begin

lemma stringify_inj: "stringify i = stringify j \<longleftrightarrow> i = j"
  using parse_stringify option.inject by metis

end

section \<open>A codec\<close>

definition nat_text :: "nat \<Rightarrow> string" where
  "nat_text n = replicate n (CHR ''1'') @ ''0''"

fun take_nat :: "string \<Rightarrow> (nat \<times> string) option" where
  "take_nat [] = None"
| "take_nat (c # s) =
     (if c = CHR ''1'' then map_option (\<lambda>(n, t). (Suc n, t)) (take_nat s)
      else if c = CHR ''0'' then Some (0, s) else None)"

lemma take_nat_text [simp]: "take_nat (nat_text n @ s) = Some (n, s)"
  by (induction n) (simp_all add: nat_text_def)

definition string_text :: "string \<Rightarrow> string" where
  "string_text s = nat_text (length s) @ s"

definition take_string :: "string \<Rightarrow> (string \<times> string) option" where
  "take_string s = (case take_nat s of None \<Rightarrow> None
     | Some (n, t) \<Rightarrow> if length t < n then None else Some (take n t, drop n t))"

lemma take_string_text [simp]: "take_string (string_text a @ s) = Some (a, s)"
  by (simp add: take_string_def string_text_def)

definition number_text :: "number \<Rightarrow> string" where
  "number_text r = (if r < 0 then CHR ''-'' else CHR ''+'') # nat_text (nat \<bar>fst (quotient_of r)\<bar>) @
     nat_text (nat (snd (quotient_of r)))"

definition take_number :: "string \<Rightarrow> (number \<times> string) option" where
  "take_number s = (case s of [] \<Rightarrow> None | c # s \<Rightarrow>
     (case take_nat s of None \<Rightarrow> None | Some (a, t) \<Rightarrow>
       (case take_nat t of None \<Rightarrow> None
        | Some (b, u) \<Rightarrow> Some ((if c = CHR ''-'' then - 1 else 1) * (of_nat a / of_nat b), u))))"

lemma take_number_text [simp]: "take_number (number_text r @ s) = Some (r, s)"
proof -
  obtain a b where q: "quotient_of r = (a, b)" by (cases "quotient_of r")
  then have b: "b > 0" and r: "r = of_int a / of_int b"
    using quotient_of_denom_pos quotient_of_div by blast+
  have "r < 0 \<longleftrightarrow> a < 0" using b r by (simp add: divide_less_0_iff)
  then show ?thesis
    using b r q by (auto simp: take_number_def number_text_def of_nat_nat)
qed

primrec take_many :: "(string \<Rightarrow> ('a \<times> string) option) \<Rightarrow> nat \<Rightarrow> string \<Rightarrow> ('a list \<times> string) option" where
  "take_many f 0 s = Some ([], s)"
| "take_many f (Suc n) s = (case f s of None \<Rightarrow> None
     | Some (x, t) \<Rightarrow> map_option (\<lambda>(xs, u). (x # xs, u)) (take_many f n t))"

lemma take_many_text:
  "(\<And>x t. x \<in> set xs \<Longrightarrow> f (g x @ t) = Some (x, t)) \<Longrightarrow>
   take_many f (length xs) (concat (map g xs) @ s) = Some (xs, s)"
  by (induction xs) simp_all

definition take_field :: "(string \<Rightarrow> ('a \<times> string) option) \<Rightarrow> string \<Rightarrow> ((string \<times> 'a) \<times> string) option" where
  "take_field f s = (case take_string s of None \<Rightarrow> None
     | Some (k, t) \<Rightarrow> map_option (\<lambda>(v, u). ((k, v), u)) (f t))"

fun json_text :: json_writer where
  "json_text JNull = ''n''"
| "json_text (JBool b) = (if b then ''t'' else ''f'')"
| "json_text (JNum r) = CHR ''#'' # number_text r"
| "json_text (JStr s) = CHR ''s'' # string_text s"
| "json_text (JArr xs) = CHR ''a'' # nat_text (length xs) @ concat (map json_text xs)"
| "json_text (JObj fs) = CHR ''o'' # nat_text (length fs) @
     concat (map (\<lambda>(k, v). string_text k @ json_text v) fs)"

fun take_json :: "nat \<Rightarrow> string \<Rightarrow> (json \<times> string) option" where
  "take_json (Suc n) (c # s) =
     (if c = CHR ''n'' then Some (JNull, s)
      else if c = CHR ''t'' then Some (JBool True, s)
      else if c = CHR ''f'' then Some (JBool False, s)
      else if c = CHR ''#'' then map_option (\<lambda>(r, t). (JNum r, t)) (take_number s)
      else if c = CHR ''s'' then map_option (\<lambda>(r, t). (JStr r, t)) (take_string s)
      else case take_nat s of None \<Rightarrow> None | Some (k, t) \<Rightarrow>
        if c = CHR ''a'' then map_option (\<lambda>(xs, u). (JArr xs, u)) (take_many (\<lambda>u. take_json n u) k t)
        else if c = CHR ''o''
        then map_option (\<lambda>(fs, u). (JObj fs, u)) (take_many (take_field (\<lambda>u. take_json n u)) k t)
        else None)"
| "take_json _ _ = None"

definition text_json :: json_parser where
  "text_json s = (case take_json (length s) s of Some (j, []) \<Rightarrow> Some j | _ \<Rightarrow> None)"

lemma length_in_concat: "x \<in> set xs \<Longrightarrow> length (g x) \<le> length (concat (map g xs))"
  by (induction xs) auto

lemma take_json_text: "length (json_text j) \<le> n \<Longrightarrow> take_json n (json_text j @ s) = Some (j, s)"
proof (induction j arbitrary: n s)
  case (JArr xs)
  then obtain m where n: "n = Suc m" by (cases n) auto
  have "take_json m (json_text x @ t) = Some (x, t)" if "x \<in> set xs" for x t
    using JArr.IH [OF that] JArr.prems n length_in_concat [OF that, of json_text] by simp
  then show ?case using n by (simp add: take_many_text)
next
  case (JObj fs)
  then obtain m where n: "n = Suc m" by (cases n) auto
  let ?g = "\<lambda>(k, v). string_text k @ json_text v"
  have "take_field (take_json m) (?g x @ t) = Some (x, t)" if x: "x \<in> set fs" for x t
  proof (cases x)
    case (Pair k v)
    have "length (json_text v) \<le> m"
      using JObj.prems n length_in_concat [OF x, of ?g] Pair by simp
    with JObj.IH [of x v] x Pair show ?thesis by (simp add: take_field_def)
  qed
  then show ?case using n take_many_text [of fs "take_field (take_json m)" ?g] by simp
qed (case_tac [!] n, auto split: if_splits)

interpretation prefix_code: json_codec text_json json_text
  by unfold_locales (use take_json_text [of _ _ "[]"] in \<open>simp add: text_json_def\<close>)

end
