(* ===== verification/PublicStorage.thy ===== *)
theory PublicStorage
  imports JsonText JsMap
begin

text \<open>
  What the public chat widget keeps in the browser (app-public/src/lib/storage.ts): the
  conversation, the consent form and an id of the visitor, as JSON text under three keys.
  The browser may refuse to read (then every access throws) and may refuse to write a text;
  the code catches both, so no operation fails. What is read back is JSON of any shape, hence
  messages and ids are \<open>json\<close>.
\<close>

section \<open>The browser\<close>

record storage =
  st_items :: "(string, string) js_map"
  st_readable :: bool
  st_accepts :: "string \<Rightarrow> bool"

definition getItem :: "string \<Rightarrow> storage \<Rightarrow> js_error + string option" where
  "getItem k st = (if st_readable st then Inr (js_get (st_items st) k) else Inl (PlainError ''SecurityError''))"

definition setItem :: "string \<Rightarrow> string \<Rightarrow> storage \<Rightarrow> js_error + storage" where
  "setItem k v st =
     (if \<not> st_readable st then Inl (PlainError ''SecurityError'')
      else if st_accepts st v then Inr (st\<lparr>st_items := js_set k v (st_items st)\<rparr>)
      else Inl (PlainError ''QuotaExceededError''))"

text \<open>A write inside \<open>try\<close> whose \<open>catch\<close> only logs.\<close>

definition try_set :: "string \<Rightarrow> string \<Rightarrow> storage \<Rightarrow> storage" where
  "try_set k v st = (case setItem k v st of Inl _ \<Rightarrow> st | Inr st' \<Rightarrow> st')"

definition CHAT_HISTORY_KEY :: string where "CHAT_HISTORY_KEY = ''chat_history''"
definition CONSENT_DATA_KEY :: string where "CONSENT_DATA_KEY = ''chat_consent_data''"
definition VISITOR_ID_KEY :: string where "VISITOR_ID_KEY = ''chat_visitor_id''"

text \<open>\<open>JSON.parse(raw) ?? undefined\<close>: \<open>Inl\<close> where the parser throws.\<close>

definition parse_value :: "json_parser \<Rightarrow> string \<Rightarrow> js_error + json option" where
  "parse_value parse raw = (case parse raw of
       None \<Rightarrow> Inl (PlainError ''SyntaxError'')
     | Some JNull \<Rightarrow> Inr None
     | Some v \<Rightarrow> Inr (Some v))"

section \<open>The conversation\<close>

fun isValidStoredChatHistory :: "json option \<Rightarrow> bool" where
  "isValidStoredChatHistory None = False"
| "isValidStoredChatHistory (Some v) \<longleftrightarrow> isRecord v \<and> as_array (field_of v ''messages'') \<noteq> None"

definition getStoredChatHistory :: "json_parser \<Rightarrow> storage \<Rightarrow> json option" where
  "getStoredChatHistory parse st = (case getItem CHAT_HISTORY_KEY st of
       Inl _ \<Rightarrow> None
     | Inr None \<Rightarrow> None
     | Inr (Some raw) \<Rightarrow> (case parse_value parse raw of
           Inl _ \<Rightarrow> None
         | Inr parsed \<Rightarrow> if isValidStoredChatHistory parsed then parsed else None))"

definition saveStoredChatHistory :: "json_writer \<Rightarrow> json \<Rightarrow> storage \<Rightarrow> bool \<times> storage" where
  "saveStoredChatHistory stringify history st =
     (case setItem CHAT_HISTORY_KEY (stringify history) st of
        Inl _ \<Rightarrow> (False, st) | Inr st' \<Rightarrow> (True, st'))"

text \<open>An assignment to a property, on an object.\<close>

fun set_field :: "string \<Rightarrow> json \<Rightarrow> json \<Rightarrow> json" where
  "set_field k v (JObj fs) = JObj (js_set k v fs)"
| "set_field k v j = j"

definition updateStoredChatHistoryField ::
  "json_parser \<Rightarrow> json_writer \<Rightarrow> string \<Rightarrow> json \<Rightarrow> storage \<Rightarrow> storage" where
  "updateStoredChatHistoryField parse stringify k v st = (case getStoredChatHistory parse st of
       None \<Rightarrow> snd (saveStoredChatHistory stringify (set_field k v (JObj [(''messages'', JArr [])])) st)
     | Some history \<Rightarrow> snd (saveStoredChatHistory stringify (set_field k v history) st))"

definition createChatHistory :: "json_parser \<Rightarrow> json_writer \<Rightarrow> storage \<Rightarrow> storage" where
  "createChatHistory parse stringify st = (case getItem CHAT_HISTORY_KEY st of
       Inl _ \<Rightarrow> st
     | Inr localChatHistory \<Rightarrow>
         if (case localChatHistory of None \<Rightarrow> False
             | Some raw \<Rightarrow> (case parse_value parse raw of
                   Inr (Some parsed) \<Rightarrow> isRecord parsed
                 | _ \<Rightarrow> False))
         then st
         else try_set CHAT_HISTORY_KEY (stringify (JObj [(''messages'', JArr [])])) st)"

definition history_messages :: "json \<Rightarrow> json list" where
  "history_messages history = coalesce (as_array (field_of history ''messages'')) []"

definition fetchChatHistory :: "json_parser \<Rightarrow> storage \<Rightarrow> json list" where
  "fetchChatHistory parse st = (case getStoredChatHistory parse st of
       None \<Rightarrow> [] | Some history \<Rightarrow> history_messages history)"

definition updateStoredHistory :: "json_parser \<Rightarrow> json_writer \<Rightarrow> json \<Rightarrow> storage \<Rightarrow> storage" where
  "updateStoredHistory parse stringify message st =
     (let history = coalesce (getStoredChatHistory parse st) (JObj [(''messages'', JArr [])])
      in snd (saveStoredChatHistory stringify
           (set_field ''messages'' (JArr (history_messages history @ [message])) history) st))"

definition stored_field :: "json_parser \<Rightarrow> string \<Rightarrow> storage \<Rightarrow> json option" where
  "stored_field parse k st = (case getStoredChatHistory parse st of
       None \<Rightarrow> None | Some history \<Rightarrow> json_or_else (field_of history k) None)"

definition getChatId :: "json_parser \<Rightarrow> storage \<Rightarrow> json option" where
  "getChatId parse = stored_field parse ''chatId''"

definition setChatId :: "json_parser \<Rightarrow> json_writer \<Rightarrow> string \<Rightarrow> storage \<Rightarrow> storage" where
  "setChatId parse stringify chatId = updateStoredChatHistoryField parse stringify ''chatId'' (JStr chatId)"

definition getParentMessageId :: "json_parser \<Rightarrow> storage \<Rightarrow> json option" where
  "getParentMessageId parse = stored_field parse ''parentMessageId''"

definition setParentMessageId :: "json_parser \<Rightarrow> json_writer \<Rightarrow> string \<Rightarrow> storage \<Rightarrow> storage" where
  "setParentMessageId parse stringify i =
     updateStoredChatHistoryField parse stringify ''parentMessageId'' (JStr i)"

section \<open>The consent form\<close>

record consent_data =
  cd_firstName :: string
  cd_lastName :: string
  cd_email :: string
  cd_phone :: string
  cd_zip :: string
  cd_timestamp :: number

definition consent_json :: "consent_data \<Rightarrow> json" where
  "consent_json d = JObj [(''firstName'', JStr (cd_firstName d)), (''lastName'', JStr (cd_lastName d)),
     (''email'', JStr (cd_email d)), (''phone'', JStr (cd_phone d)), (''zip'', JStr (cd_zip d)),
     (''timestamp'', JNum (cd_timestamp d))]"

text \<open>\<open>isValidConsentData\<close> is a type guard; the model gives the data it lets through.\<close>

definition isValidConsentData :: "json option \<Rightarrow> consent_data option" where
  "isValidConsentData value = (case value of None \<Rightarrow> None | Some v \<Rightarrow>
     if \<not> isRecord v then None
     else (case (as_string (field_of v ''firstName''), as_string (field_of v ''lastName''),
             as_string (field_of v ''email''), as_string (field_of v ''phone''),
             as_string (field_of v ''zip''), as_number (field_of v ''timestamp'')) of
         (Some a, Some b, Some c, Some d, Some e, Some t) \<Rightarrow>
           Some \<lparr>cd_firstName = a, cd_lastName = b, cd_email = c, cd_phone = d, cd_zip = e, cd_timestamp = t\<rparr>
       | _ \<Rightarrow> None))"

definition hasCompleteConsentData :: "json_parser \<Rightarrow> storage \<Rightarrow> bool" where
  "hasCompleteConsentData parse st = (case getItem CONSENT_DATA_KEY st of
       Inl _ \<Rightarrow> False
     | Inr None \<Rightarrow> False
     | Inr (Some raw) \<Rightarrow>
         if raw = [] then False
         else (case parse_value parse raw of
             Inl _ \<Rightarrow> False
           | Inr parsed \<Rightarrow>
               if isValidConsentData parsed = None then False
               else (case getItem VISITOR_ID_KEY st of
                   Inl _ \<Rightarrow> False
                 | Inr visitorId \<Rightarrow> visitorId \<noteq> None \<and> visitorId \<noteq> Some [])))"

definition setConsentData :: "json_writer \<Rightarrow> consent_data \<Rightarrow> storage \<Rightarrow> storage" where
  "setConsentData stringify d st = try_set CONSENT_DATA_KEY (stringify (consent_json d)) st"

definition getConsentData :: "json_parser \<Rightarrow> storage \<Rightarrow> consent_data option" where
  "getConsentData parse st = (case getItem CONSENT_DATA_KEY st of
       Inl _ \<Rightarrow> None
     | Inr None \<Rightarrow> None
     | Inr (Some raw) \<Rightarrow> (case parse_value parse raw of
           Inl _ \<Rightarrow> None | Inr parsed \<Rightarrow> isValidConsentData parsed))"

text \<open>The new id is the argument: \<open>crypto.randomUUID\<close>. The id is given also where it cannot be stored.\<close>

definition getVisitorId :: "string \<Rightarrow> storage \<Rightarrow> string \<times> storage" where
  "getVisitorId newVisitorId st = (case getItem VISITOR_ID_KEY st of
       Inl _ \<Rightarrow> (newVisitorId, st)
     | Inr existing \<Rightarrow> (case existing of
           Some i \<Rightarrow> if i \<noteq> [] then (i, st) else (newVisitorId, try_set VISITOR_ID_KEY newVisitorId st)
         | None \<Rightarrow> (newVisitorId, try_set VISITOR_ID_KEY newVisitorId st)))"

section \<open>Reading back\<close>

abbreviation storage_works :: "storage \<Rightarrow> bool" where
  "storage_works st \<equiv> st_readable st \<and> st_accepts st = (\<lambda>_. True)"

lemma keys_differ [simp]:
  "CHAT_HISTORY_KEY \<noteq> CONSENT_DATA_KEY" "CHAT_HISTORY_KEY \<noteq> VISITOR_ID_KEY"
  "CONSENT_DATA_KEY \<noteq> CHAT_HISTORY_KEY" "CONSENT_DATA_KEY \<noteq> VISITOR_ID_KEY"
  "VISITOR_ID_KEY \<noteq> CHAT_HISTORY_KEY" "VISITOR_ID_KEY \<noteq> CONSENT_DATA_KEY"
  by (simp_all add: CHAT_HISTORY_KEY_def CONSENT_DATA_KEY_def VISITOR_ID_KEY_def)

lemma try_set_works:
  "storage_works st \<Longrightarrow> try_set k v st = st\<lparr>st_items := js_set k v (st_items st)\<rparr>"
  by (simp add: try_set_def setItem_def)

lemma save_works:
  "storage_works st \<Longrightarrow> saveStoredChatHistory w j st =
     (True, st\<lparr>st_items := js_set CHAT_HISTORY_KEY (w j) (st_items st)\<rparr>)"
  by (simp add: saveStoredChatHistory_def setItem_def)

lemma stored_is_valid:
  "getStoredChatHistory p st = Some j \<Longrightarrow> \<exists>fs ms. j = JObj fs \<and> map_of fs ''messages'' = Some (JArr ms)"
  by (cases j) (auto simp: getStoredChatHistory_def split: sum.splits option.splits if_splits)

lemma stored_same_items:
  "st_readable st' = st_readable st \<Longrightarrow> js_get (st_items st') CHAT_HISTORY_KEY = js_get (st_items st) CHAT_HISTORY_KEY \<Longrightarrow>
   getStoredChatHistory p st' = getStoredChatHistory p st"
  by (simp add: getStoredChatHistory_def getItem_def)

lemma consent_json_valid [simp]: "isValidConsentData (Some (consent_json d)) = Some d"
  by (simp add: isValidConsentData_def consent_json_def)

context json_codec begin

lemma parse_written [simp]: "j \<noteq> JNull \<Longrightarrow> parse_value parse (stringify j) = Inr (Some j)"
  by (cases j) (simp_all add: parse_value_def parse_stringify)

lemma stored_after_save:
  assumes "storage_works st" "map_of fs ''messages'' = Some (JArr ms)"
  shows "getStoredChatHistory parse (snd (saveStoredChatHistory stringify (JObj fs) st)) = Some (JObj fs)"
  using assms by (simp add: save_works getStoredChatHistory_def getItem_def update_conv')

lemma stored_after_field:
  assumes "storage_works st" "k \<noteq> ''messages''"
  shows "fetchChatHistory parse (updateStoredChatHistoryField parse stringify k v st) = fetchChatHistory parse st \<and>
    (j \<noteq> ''messages'' \<longrightarrow>
      stored_field parse j (updateStoredChatHistoryField parse stringify k v st) =
        (if j = k then json_or_else (Some v) None else stored_field parse j st))"
proof (cases "getStoredChatHistory parse st")
  case None
  have "map_of (js_set k v [(''messages'', JArr [])]) ''messages'' = Some (JArr [])"
    using assms(2) by (simp add: update_conv')
  from stored_after_save [OF assms(1) this] None assms(2) show ?thesis
    by (auto simp: updateStoredChatHistoryField_def fetchChatHistory_def stored_field_def history_messages_def)
next
  case (Some h)
  then obtain fs ms where h: "h = JObj fs" "map_of fs ''messages'' = Some (JArr ms)"
    using stored_is_valid by blast
  then have "map_of (js_set k v fs) ''messages'' = Some (JArr ms)" using assms(2) by (simp add: update_conv')
  from stored_after_save [OF assms(1) this] Some h assms(2) show ?thesis
    by (auto simp: updateStoredChatHistoryField_def fetchChatHistory_def stored_field_def history_messages_def
        update_conv')
qed

lemma stored_after_message:
  assumes "storage_works st"
  shows "fetchChatHistory parse (updateStoredHistory parse stringify m st) = fetchChatHistory parse st @ [m] \<and>
    (j \<noteq> ''messages'' \<longrightarrow>
      stored_field parse j (updateStoredHistory parse stringify m st) = stored_field parse j st)"
proof (cases "getStoredChatHistory parse st")
  case None
  have "map_of [(''messages'', JArr [m])] ''messages'' = Some (JArr [m])" by simp
  from stored_after_save [OF assms this] None show ?thesis
    by (auto simp: updateStoredHistory_def fetchChatHistory_def stored_field_def history_messages_def)
next
  case (Some h)
  then obtain fs ms where h: "h = JObj fs" "map_of fs ''messages'' = Some (JArr ms)"
    using stored_is_valid by blast
  then have "map_of (js_set ''messages'' (JArr (ms @ [m])) fs) ''messages'' = Some (JArr (ms @ [m]))"
    by (simp add: update_conv')
  from stored_after_save [OF assms this] Some h show ?thesis
    by (auto simp: updateStoredHistory_def fetchChatHistory_def stored_field_def history_messages_def
        update_conv')
qed

lemma fetch_after_create:
  assumes "storage_works st"
  shows "fetchChatHistory parse (createChatHistory parse stringify st) = fetchChatHistory parse st"
proof -
  have "getStoredChatHistory parse st = None"
    if "\<not> (\<exists>raw v. js_get (st_items st) CHAT_HISTORY_KEY = Some raw \<and> parse_value parse raw = Inr (Some v) \<and> isRecord v)"
    using that assms
    by (auto simp: getStoredChatHistory_def getItem_def split: option.splits sum.splits elim!: isValidStoredChatHistory.elims)
  then show ?thesis
    using assms
    by (auto simp: createChatHistory_def getItem_def fetchChatHistory_def try_set_works
        getStoredChatHistory_def update_conv' history_messages_def split: option.splits sum.splits if_splits)
qed

lemma consent_after_set:
  assumes "storage_works st"
  shows "getConsentData parse (setConsentData stringify d st) = Some d"
  using assms by (simp add: setConsentData_def try_set_works getConsentData_def getItem_def update_conv')
    (simp add: consent_json_def flip: consent_json_valid)

end

end
