(* ===== verification/PublicChat.thy ===== *)
theory PublicChat
  imports PublicStorage
begin

text \<open>
  The public chat widget (app-public/src: hooks/use-chat.ts, lib/chat-api.ts,
  lib/consent-api.ts, components/app.tsx, components/consent-banner.tsx, and the send guard of
  shared/src/components/input-box.tsx): one conversation, kept in the browser, behind a consent
  form.

  The state holds the hook's and the application's state, the browser's storage, the requests
  not answered yet and the requests sent so far. An event is what happens next: the visitor
  acts, an answer comes, a timer or frame fires, the browser changes its mind about storage, or
  the page is loaded again. A field \<open>stamp\<close> is \<open>Date.now()\<close> and \<open>uid\<close> the random part of an id.
\<close>

section \<open>Messages and requests\<close>

definition chat_message :: "ident \<Rightarrow> string \<Rightarrow> string \<Rightarrow> number \<Rightarrow> json" where
  "chat_message i r content stamp = JObj [(''id'', JStr i), (''role'', JStr r), (''content'', JStr content),
     (''timestamp'', JNum stamp)]"

record chat_response =
  cr_conversation_id :: string
  cr_assistant_message_id :: string
  cr_assistant_message :: string
  cr_guardrails_blocked :: "bool option"
  cr_guardrails_blocked_message :: "string option"

definition CHAT_ENDPOINT :: string where "CHAT_ENDPOINT = ''/chat/public/message''"

text \<open>An id read from the storage is sent unless it is absent or the empty string.\<close>

definition id_field :: "string \<Rightarrow> json option \<Rightarrow> (string \<times> json) list" where
  "id_field k v = (case v of None \<Rightarrow> [] | Some j \<Rightarrow> if j = JStr [] then [] else [(k, j)])"

definition chat_body :: "string \<Rightarrow> json option \<Rightarrow> json option \<Rightarrow> json" where
  "chat_body userMessage chatId parentMessageId = JObj ((''user_prompt'', JStr userMessage) #
     id_field ''conversation_id'' chatId @ id_field ''parent_message_id'' parentMessageId)"

definition answer_content :: "chat_response \<Rightarrow> string" where
  "answer_content r = (case (cr_guardrails_blocked r, cr_guardrails_blocked_message r) of
       (Some True, Some m) \<Rightarrow> if m \<noteq> [] then m else cr_assistant_message r
     | _ \<Rightarrow> cr_assistant_message r)"

definition answer_message :: "string \<Rightarrow> number \<Rightarrow> chat_response \<Rightarrow> json" where
  "answer_message uid stamp r = chat_message
     (if cr_assistant_message_id r \<noteq> [] then cr_assistant_message_id r else ''assistant-'' @ uid)
     ''assistant'' (answer_content r) stamp"

definition error_text :: string where
  "error_text = ''Sorry, I encountered an error processing your request. Please try again.''"

definition error_message :: "string \<Rightarrow> number \<Rightarrow> json" where
  "error_message uid stamp = chat_message (''error-'' @ uid) ''assistant'' error_text stamp"

section \<open>The consent form\<close>

record consent_values =
  cv_firstName :: string
  cv_lastName :: string
  cv_email :: string
  cv_phone :: string
  cv_zip :: string

definition digits_of :: "string \<Rightarrow> string" where
  "digits_of s = filter is_digit s"

definition formatPhoneNumber :: "string \<Rightarrow> string" where
  "formatPhoneNumber value = (let numbers = digits_of value in
     if length numbers = 0 then []
     else if length numbers \<le> 3 then ''('' @ numbers
     else if length numbers \<le> 6 then ''('' @ take 3 numbers @ '') '' @ drop 3 numbers
     else ''('' @ take 3 numbers @ '') '' @ take 3 (drop 3 numbers) @ ''-'' @ take 4 (drop 6 numbers))"

definition formatZipCode :: "string \<Rightarrow> string" where
  "formatZipCode value = take 5 (digits_of value)"

text \<open>The phone input keeps at most ten digits of what is typed into the formatted text.\<close>

definition phone_input :: "string \<Rightarrow> string" where
  "phone_input typed = take 10 (digits_of typed)"

definition letter :: "char \<Rightarrow> bool" where
  "letter c \<longleftrightarrow> (of_char (CHR ''A'') :: nat) \<le> of_char c \<and> (of_char c :: nat) \<le> of_char (CHR ''Z'') \<or>
     (of_char (CHR ''a'') :: nat) \<le> of_char c \<and> (of_char c :: nat) \<le> of_char (CHR ''z'')"

text \<open>
  The pattern of an address: a local part, one at sign, a domain that ends in a dot and two
  or more letters. No part but the first separator can match an at sign, and the letters no
  dot, so the split is at the first at sign and the last dot.
\<close>

definition valid_email :: "string \<Rightarrow> bool" where
  "valid_email s =
     (let user = takeWhile (\<lambda>c. c \<noteq> CHR ''@'') s;
          rest = dropWhile (\<lambda>c. c \<noteq> CHR ''@'') s;
          back = rev (tl rest);
          tld = takeWhile (\<lambda>c. c \<noteq> CHR ''.'') back;
          domain = dropWhile (\<lambda>c. c \<noteq> CHR ''.'') back
      in user \<noteq> [] \<and> list_all (\<lambda>c. letter c \<or> is_digit c \<or> c \<in> set ''._%+-'') user \<and> rest \<noteq> [] \<and>
         2 \<le> length tld \<and> list_all letter tld \<and> 2 \<le> length domain \<and>
         list_all (\<lambda>c. letter c \<or> is_digit c \<or> c \<in> set ''.-'') (tl domain))"

definition validate_error :: "bool \<Rightarrow> string \<Rightarrow> string \<Rightarrow> (string \<times> string) list" where
  "validate_error failed field message = (if failed then [(field, message)] else [])"

definition validate :: "consent_values \<Rightarrow> (string \<times> string) list" where
  "validate v =
     validate_error (length (trim (cv_firstName v)) < 2) ''firstName'' ''First name must be at least 2 characters'' @
     validate_error (length (trim (cv_lastName v)) < 2) ''lastName'' ''Last name must be at least 2 characters'' @
     validate_error (\<not> valid_email (trim (cv_email v))) ''email'' ''Please enter a valid email'' @
     validate_error (length (cv_phone v) \<noteq> 10) ''phone'' ''Phone must be 10 digits'' @
     validate_error (length (cv_zip v) \<noteq> 5) ''zip'' ''Zip must be 5 digits''"

definition consent_data_of :: "number \<Rightarrow> consent_values \<Rightarrow> consent_data" where
  "consent_data_of stamp v = \<lparr>cd_firstName = trim (cv_firstName v), cd_lastName = trim (cv_lastName v),
     cd_email = trim (cv_email v), cd_phone = cv_phone v, cd_zip = cv_zip v, cd_timestamp = stamp\<rparr>"

text \<open>\<open>ENVIRONMENT\<close> is the build's setting.\<close>

definition consent_payload :: "string \<Rightarrow> consent_data \<Rightarrow> string \<Rightarrow> json option \<Rightarrow> json" where
  "consent_payload environment d visitorId chatId = JObj (
     [(''first_name'', JStr (cd_firstName d)), (''last_name'', JStr (cd_lastName d)),
      (''email'', JStr (cd_email d)), (''phone'', JStr (cd_phone d)), (''zip'', JStr (cd_zip d)),
      (''visitor_id'', JStr visitorId)] @ id_field ''conversation_id'' chatId @
      (if environment = [] then [] else [(''environment'', JStr environment)]))"

section \<open>The state\<close>

record widget_host =
  wh_parse :: json_parser
  wh_stringify :: json_writer
  wh_environment :: string
  wh_visible_by_default :: bool

record chat_request =
  rq_session :: nat
  rq_body :: json

record widget =
  wd_messages :: "json list"
  wd_isLoading :: bool
  wd_session :: nat
  wd_consentGiven :: bool
  wd_storage :: storage
  wd_pending :: "chat_request list"
  wd_submissions :: "consent_data list"
  wd_sent :: "(string \<times> json) list"
  wd_open :: bool
  wd_isModalOpen :: bool
  wd_isVisible :: bool
  wd_shouldRender :: bool
  wd_timeout :: bool
  wd_frame :: bool

text \<open>A page load: \<open>createChatHistory\<close>, then the messages stored.\<close>

definition load_widget :: "widget_host \<Rightarrow> storage \<Rightarrow> widget" where
  "load_widget h st0 =
     (let st = createChatHistory (wh_parse h) (wh_stringify h) st0
      in \<lparr>wd_messages = fetchChatHistory (wh_parse h) st, wd_isLoading = False, wd_session = 0,
          wd_consentGiven = hasCompleteConsentData (wh_parse h) st, wd_storage = st, wd_pending = [],
          wd_submissions = [], wd_sent = [], wd_open = wh_visible_by_default h, wd_isModalOpen = False,
          wd_isVisible = wh_visible_by_default h, wd_shouldRender = wh_visible_by_default h,
          wd_timeout = False, wd_frame = False\<rparr>)"

definition addMessage :: "json \<Rightarrow> widget \<Rightarrow> widget" where
  "addMessage m w = w\<lparr>wd_messages := wd_messages w @ [m]\<rparr>"

definition store_message :: "widget_host \<Rightarrow> json \<Rightarrow> widget \<Rightarrow> widget" where
  "store_message h m w = w\<lparr>wd_storage := updateStoredHistory (wh_parse h) (wh_stringify h) m (wd_storage w)\<rparr>"

section \<open>Sending\<close>

definition user_message :: "string \<Rightarrow> number \<Rightarrow> string \<Rightarrow> json" where
  "user_message uid stamp content = chat_message (''user-'' @ uid) ''user'' content stamp"

definition sendMessage_request :: "widget_host \<Rightarrow> string \<Rightarrow> string \<Rightarrow> number \<Rightarrow> widget \<Rightarrow> widget" where
  "sendMessage_request h uid userMessage stamp w =
     (if \<not> wd_consentGiven w then w
      else let w1 = (store_message h (user_message uid stamp userMessage)
                 (addMessage (user_message uid stamp userMessage) w))\<lparr>wd_isLoading := True\<rparr>;
               body = chat_body userMessage (getChatId (wh_parse h) (wd_storage w1))
                 (getParentMessageId (wh_parse h) (wd_storage w1))
           in w1\<lparr>wd_pending := wd_pending w1 @ [\<lparr>rq_session = wd_session w, rq_body = body\<rparr>],
                wd_sent := wd_sent w1 @ [(CHAT_ENDPOINT, body)]\<rparr>)"

text \<open>The input box: its text is sent trimmed, unless it is blank or an answer is awaited.\<close>

definition handleSend :: "widget_host \<Rightarrow> string \<Rightarrow> string \<Rightarrow> number \<Rightarrow> widget \<Rightarrow> widget" where
  "handleSend h uid inputValue stamp w =
     (if trim inputValue \<noteq> [] \<and> \<not> wd_isLoading w then sendMessage_request h uid (trim inputValue) stamp w
      else w)"

text \<open>\<open>submitConsentData\<close> up to its request, for the conversation given.\<close>

definition submitConsentData :: "widget_host \<Rightarrow> string \<Rightarrow> consent_data \<Rightarrow> json option \<Rightarrow> widget \<Rightarrow> widget" where
  "submitConsentData h uuid d chatId w =
     (let (visitorId, st) = getVisitorId uuid (wd_storage w)
      in w\<lparr>wd_storage := st,
           wd_sent := wd_sent w @ [(''/consent'', consent_payload (wh_environment h) d visitorId chatId)]\<rparr>)"

definition handleConsentSubmit :: "widget_host \<Rightarrow> string \<Rightarrow> string \<Rightarrow> widget \<Rightarrow> widget" where
  "handleConsentSubmit h uuid chatId w = (case getConsentData (wh_parse h) (wd_storage w) of
       None \<Rightarrow> w | Some d \<Rightarrow> submitConsentData h uuid d (Some (JStr chatId)) w)"

definition onChatUpdate :: "widget_host \<Rightarrow> string \<Rightarrow> string \<Rightarrow> widget \<Rightarrow> widget" where
  "onChatUpdate h uuid newChatId w =
     (let isNewChat = getChatId (wh_parse h) (wd_storage w) \<noteq> Some (JStr newChatId);
          w1 = w\<lparr>wd_storage := setChatId (wh_parse h) (wh_stringify h) newChatId (wd_storage w)\<rparr>
      in if isNewChat then handleConsentSubmit h uuid newChatId w1 else w1)"

definition onParentMessageUpdate :: "widget_host \<Rightarrow> string \<Rightarrow> widget \<Rightarrow> widget" where
  "onParentMessageUpdate h i w =
     w\<lparr>wd_storage := setParentMessageId (wh_parse h) (wh_stringify h) i (wd_storage w)\<rparr>"

text \<open>The rest of \<open>sendChatMessage\<close> once its request is answered.\<close>

definition sendChatMessage_answer ::
  "widget_host \<Rightarrow> string \<Rightarrow> string \<Rightarrow> number \<Rightarrow> js_error + chat_response \<Rightarrow> widget \<Rightarrow> widget" where
  "sendChatMessage_answer h uuid uid stamp answer w = (case answer of
       Inl AbortError \<Rightarrow> w
     | Inl _ \<Rightarrow> addMessage (error_message uid stamp) w
     | Inr r \<Rightarrow>
         (let w1 = (if cr_conversation_id r \<noteq> [] then onChatUpdate h uuid (cr_conversation_id r) w else w);
              w2 = (if cr_assistant_message_id r \<noteq> [] then onParentMessageUpdate h (cr_assistant_message_id r) w1
                 else w1)
          in store_message h (answer_message uid stamp r) (addMessage (answer_message uid stamp r) w2)))"

text \<open>The \<open>finally\<close> of \<open>sendMessage\<close>.\<close>

definition settle_request :: "nat \<Rightarrow> widget \<Rightarrow> widget" where
  "settle_request requestSession w = (if wd_session w = requestSession then w\<lparr>wd_isLoading := False\<rparr> else w)"

definition resetChat :: "widget \<Rightarrow> widget" where
  "resetChat w = w\<lparr>wd_messages := [], wd_session := wd_session w + 1\<rparr>"

section \<open>The application\<close>

text \<open>Where the storage refuses, the exception leaves the handler before anything is reset.\<close>

definition handleConfirmReset :: "widget_host \<Rightarrow> widget \<Rightarrow> widget" where
  "handleConfirmReset h w =
     (case setItem CHAT_HISTORY_KEY (wh_stringify h (JObj [(''messages'', JArr [])])) (wd_storage w) of
        Inl _ \<Rightarrow> w
      | Inr st \<Rightarrow> (resetChat (w\<lparr>wd_storage := st\<rparr>))\<lparr>wd_isModalOpen := False\<rparr>)"

definition clearVisibilityTimers :: "widget \<Rightarrow> widget" where
  "clearVisibilityTimers w = w\<lparr>wd_timeout := False, wd_frame := False\<rparr>"

definition handleOpen :: "widget \<Rightarrow> widget" where
  "handleOpen w = (clearVisibilityTimers w)\<lparr>wd_open := True, wd_shouldRender := True, wd_frame := True\<rparr>"

definition submitConsentForCurrentChat :: "widget_host \<Rightarrow> string \<Rightarrow> widget \<Rightarrow> widget" where
  "submitConsentForCurrentChat h uuid w = (case getConsentData (wh_parse h) (wd_storage w) of
       None \<Rightarrow> w
     | Some d \<Rightarrow> (case getChatId (wh_parse h) (wd_storage w) of
           None \<Rightarrow> w
         | Some currentChatId \<Rightarrow>
             if currentChatId = JStr [] then w else submitConsentData h uuid d (Some currentChatId) w))"

definition handleClose :: "widget_host \<Rightarrow> string \<Rightarrow> widget \<Rightarrow> widget" where
  "handleClose h uuid w =
     (let w1 = (clearVisibilityTimers w)\<lparr>wd_open := False, wd_isVisible := False, wd_timeout := True\<rparr>
      in if wd_consentGiven w then submitConsentForCurrentChat h uuid w1 else w1)"

definition handleConsentDecline :: "widget_host \<Rightarrow> string \<Rightarrow> widget \<Rightarrow> widget" where
  "handleConsentDecline h uuid w = handleClose h uuid (w\<lparr>wd_consentGiven := False\<rparr>)"

definition consent_handleSubmit :: "widget_host \<Rightarrow> string \<Rightarrow> number \<Rightarrow> consent_values \<Rightarrow> widget \<Rightarrow> widget" where
  "consent_handleSubmit h uuid stamp v w =
     (if validate v \<noteq> [] then w
      else let d = consent_data_of stamp v
           in (submitConsentData h uuid d (getChatId (wh_parse h) (wd_storage w)) w)
                \<lparr>wd_submissions := wd_submissions w @ [d]\<rparr>)"

definition consent_answer :: "widget_host \<Rightarrow> js_error + unit \<Rightarrow> consent_data \<Rightarrow> widget \<Rightarrow> widget" where
  "consent_answer h answer d w = (case answer of
       Inl _ \<Rightarrow> w
     | Inr _ \<Rightarrow> w\<lparr>wd_storage := setConsentData (wh_stringify h) d (wd_storage w), wd_consentGiven := True\<rparr>)"

section \<open>All interleavings\<close>

datatype widget_event =
    Send string string number
  | Answer nat string string number "js_error + chat_response"
  | ConfirmReset
  | OpenPanel
  | ClosePanel string
  | TimeoutFires
  | FrameFires
  | AskReset bool
  | Decline string
  | SubmitConsent string number consent_values
  | ConsentAnswer nat "js_error + unit"
  | BrowserChanges bool "string \<Rightarrow> bool"
  | LoadPage

definition without :: "nat \<Rightarrow> 'a list \<Rightarrow> 'a list" where
  "without i xs = take i xs @ drop (Suc i) xs"

text \<open>
  What the page shows limits what the visitor can do: the input box while the panel is shown
  and consent is given, the form while it is not, the dialog's button while it is open.
\<close>

fun widget_step :: "widget_host \<Rightarrow> widget_event \<Rightarrow> widget \<Rightarrow> widget" where
  "widget_step h (Send uid inputValue stamp) w =
     (if wd_shouldRender w \<and> wd_consentGiven w then handleSend h uid inputValue stamp w else w)"
| "widget_step h (Answer i uuid uid stamp answer) w =
     (if i < length (wd_pending w)
      then settle_request (rq_session (wd_pending w ! i))
        (sendChatMessage_answer h uuid uid stamp answer (w\<lparr>wd_pending := without i (wd_pending w)\<rparr>))
      else w)"
| "widget_step h ConfirmReset w = (if wd_isModalOpen w then handleConfirmReset h w else w)"
| "widget_step h OpenPanel w = (if \<not> wd_open w \<and> \<not> wd_shouldRender w then handleOpen w else w)"
| "widget_step h (ClosePanel uuid) w = (if wd_shouldRender w then handleClose h uuid w else w)"
| "widget_step h TimeoutFires w =
     (if wd_timeout w then w\<lparr>wd_shouldRender := False, wd_timeout := False\<rparr> else w)"
| "widget_step h FrameFires w = (if wd_frame w then w\<lparr>wd_isVisible := True, wd_frame := False\<rparr> else w)"
| "widget_step h (AskReset b) w = w\<lparr>wd_isModalOpen := b\<rparr>"
| "widget_step h (Decline uuid) w =
     (if wd_shouldRender w \<and> \<not> wd_consentGiven w then handleConsentDecline h uuid w else w)"
| "widget_step h (SubmitConsent uuid stamp v) w =
     (if wd_shouldRender w \<and> \<not> wd_consentGiven w then consent_handleSubmit h uuid stamp v w else w)"
| "widget_step h (ConsentAnswer i answer) w =
     (if i < length (wd_submissions w)
      then consent_answer h answer (wd_submissions w ! i)
        (w\<lparr>wd_submissions := without i (wd_submissions w)\<rparr>)
      else w)"
| "widget_step h (BrowserChanges readable accepts) w =
     w\<lparr>wd_storage := (wd_storage w)\<lparr>st_readable := readable, st_accepts := accepts\<rparr>\<rparr>"
| "widget_step h LoadPage w = (load_widget h (wd_storage w))\<lparr>wd_sent := wd_sent w\<rparr>"

definition widget_run :: "widget_host \<Rightarrow> widget_event list \<Rightarrow> widget \<Rightarrow> widget" where
  "widget_run h es w = fold (widget_step h) es w"

lemma widget_run_simps [simp]:
  "widget_run h [] w = w"
  "widget_run h (e # es) w = widget_run h es (widget_step h e w)"
  "widget_run h (es @ fs) w = widget_run h fs (widget_run h es w)"
  by (simp_all add: widget_run_def)

lemma widget_run_invariant:
  assumes "I w" "\<And>e w. e \<in> set es \<Longrightarrow> I w \<Longrightarrow> I (widget_step h e w)"
  shows "I (widget_run h es w)"
  using assms unfolding widget_run_def by (rule fold_keeps [rotated])

end
