(* ===== verification/PublicChatFacts.thy ===== *)
theory PublicChatFacts
  imports PublicChat
begin

text \<open>
  What the widget keeps and loses: the stored conversation is the one shown, a turn continues
  the conversation, consent comes before messages and survives a page load; and what clearing
  the chat while an answer is awaited does.
\<close>

section \<open>What the operations leave alone\<close>

lemma try_set_browser [simp]:
  "st_readable (try_set k v st) = st_readable st" "st_accepts (try_set k v st) = st_accepts st"
  by (auto simp: try_set_def setItem_def)

lemma save_browser [simp]:
  "st_readable (snd (saveStoredChatHistory f j st)) = st_readable st"
  "st_accepts (snd (saveStoredChatHistory f j st)) = st_accepts st"
  by (auto simp: saveStoredChatHistory_def setItem_def)

lemma storage_ops_browser [simp]:
  "st_readable (updateStoredChatHistoryField p f k v st) = st_readable st"
  "st_accepts (updateStoredChatHistoryField p f k v st) = st_accepts st"
  "st_readable (updateStoredHistory p f m st) = st_readable st"
  "st_accepts (updateStoredHistory p f m st) = st_accepts st"
  "st_readable (createChatHistory p f st) = st_readable st"
  "st_accepts (createChatHistory p f st) = st_accepts st"
  "st_readable (setConsentData f d st) = st_readable st"
  "st_accepts (setConsentData f d st) = st_accepts st"
  "st_readable (snd (getVisitorId u st)) = st_readable st"
  "st_accepts (snd (getVisitorId u st)) = st_accepts st"
  by (auto simp: updateStoredChatHistoryField_def updateStoredHistory_def createChatHistory_def Let_def
      setConsentData_def getVisitorId_def split: option.splits sum.splits)

text \<open>The keys an operation writes.\<close>

lemma try_set_other [simp]: "j \<noteq> k \<Longrightarrow> js_get (st_items (try_set k v st)) j = js_get (st_items st) j"
  by (auto simp: try_set_def setItem_def update_conv')

lemma save_other [simp]:
  "j \<noteq> CHAT_HISTORY_KEY \<Longrightarrow> js_get (st_items (snd (saveStoredChatHistory f h st))) j = js_get (st_items st) j"
  by (auto simp: saveStoredChatHistory_def setItem_def update_conv')

lemma storage_ops_other [simp]:
  "j \<noteq> CHAT_HISTORY_KEY \<Longrightarrow> js_get (st_items (updateStoredChatHistoryField p f k v st)) j = js_get (st_items st) j"
  "j \<noteq> CHAT_HISTORY_KEY \<Longrightarrow> js_get (st_items (updateStoredHistory p f m st)) j = js_get (st_items st) j"
  "j \<noteq> CHAT_HISTORY_KEY \<Longrightarrow> js_get (st_items (createChatHistory p f st)) j = js_get (st_items st) j"
  "j \<noteq> CONSENT_DATA_KEY \<Longrightarrow> js_get (st_items (setConsentData f d st)) j = js_get (st_items st) j"
  "j \<noteq> VISITOR_ID_KEY \<Longrightarrow> js_get (st_items (snd (getVisitorId u st))) j = js_get (st_items st) j"
  by (auto simp: updateStoredChatHistoryField_def updateStoredHistory_def createChatHistory_def Let_def
      setConsentData_def getVisitorId_def split: option.splits sum.splits)

text \<open>The conversation depends on its own key only.\<close>

lemma stored_visitor [simp]:
  "getStoredChatHistory p (snd (getVisitorId u st)) = getStoredChatHistory p st"
  "getStoredChatHistory p (setConsentData f d st) = getStoredChatHistory p st"
  by (rule stored_same_items; simp)+

lemma fetch_visitor [simp]:
  "fetchChatHistory p (snd (getVisitorId u st)) = fetchChatHistory p st"
  "fetchChatHistory p (setConsentData f d st) = fetchChatHistory p st"
  "stored_field p k (snd (getVisitorId u st)) = stored_field p k st"
  by (simp_all add: fetchChatHistory_def stored_field_def)

lemma submit_consent_simps [simp]:
  "wd_storage (submitConsentData h u d c w) = snd (getVisitorId u (wd_storage w))"
  "wd_messages (submitConsentData h u d c w) = wd_messages w"
  "wd_isLoading (submitConsentData h u d c w) = wd_isLoading w"
  "wd_session (submitConsentData h u d c w) = wd_session w"
  "wd_consentGiven (submitConsentData h u d c w) = wd_consentGiven w"
  "wd_pending (submitConsentData h u d c w) = wd_pending w"
  "wd_submissions (submitConsentData h u d c w) = wd_submissions w"
  "filter (\<lambda>(e, b). e = CHAT_ENDPOINT) (wd_sent (submitConsentData h u d c w)) =
    filter (\<lambda>(e, b). e = CHAT_ENDPOINT) (wd_sent w)"
  "wd_open (submitConsentData h u d c w) = wd_open w"
  "wd_isModalOpen (submitConsentData h u d c w) = wd_isModalOpen w"
  "wd_isVisible (submitConsentData h u d c w) = wd_isVisible w"
  "wd_shouldRender (submitConsentData h u d c w) = wd_shouldRender w"
  "wd_timeout (submitConsentData h u d c w) = wd_timeout w"
  "wd_frame (submitConsentData h u d c w) = wd_frame w"
  by (simp_all add: submitConsentData_def Let_def case_prod_beta CHAT_ENDPOINT_def)

text \<open>Handlers that may submit the consent again do it or change nothing.\<close>

lemma consent_submit_cases:
  "handleConsentSubmit h u c w = w \<or> (\<exists>d x. handleConsentSubmit h u c w = submitConsentData h u d x w)"
  "submitConsentForCurrentChat h u w = w \<or> (\<exists>d x. submitConsentForCurrentChat h u w = submitConsentData h u d x w)"
  by (auto simp: handleConsentSubmit_def submitConsentForCurrentChat_def split: option.splits)

text \<open>What an answer leaves alone, and what it does to the messages and the storage.\<close>

lemma answer_keeps [simp]:
  "wd_isLoading (sendChatMessage_answer h u i s a w) = wd_isLoading w"
  "wd_session (sendChatMessage_answer h u i s a w) = wd_session w"
  "wd_consentGiven (sendChatMessage_answer h u i s a w) = wd_consentGiven w"
  "wd_pending (sendChatMessage_answer h u i s a w) = wd_pending w"
  "wd_submissions (sendChatMessage_answer h u i s a w) = wd_submissions w"
  "filter (\<lambda>(e, b). e = CHAT_ENDPOINT) (wd_sent (sendChatMessage_answer h u i s a w)) =
    filter (\<lambda>(e, b). e = CHAT_ENDPOINT) (wd_sent w)"
  "wd_open (sendChatMessage_answer h u i s a w) = wd_open w"
  "wd_isModalOpen (sendChatMessage_answer h u i s a w) = wd_isModalOpen w"
  "wd_isVisible (sendChatMessage_answer h u i s a w) = wd_isVisible w"
  "wd_shouldRender (sendChatMessage_answer h u i s a w) = wd_shouldRender w"
  "wd_timeout (sendChatMessage_answer h u i s a w) = wd_timeout w"
  "wd_frame (sendChatMessage_answer h u i s a w) = wd_frame w"
  by (auto simp: sendChatMessage_answer_def addMessage_def store_message_def onChatUpdate_def
      onParentMessageUpdate_def handleConsentSubmit_def Let_def split: sum.splits js_error.splits option.splits)

lemma answer_browser [simp]:
  "st_readable (wd_storage (sendChatMessage_answer h u i s a w)) = st_readable (wd_storage w)"
  "st_accepts (wd_storage (sendChatMessage_answer h u i s a w)) = st_accepts (wd_storage w)"
  by (auto simp: sendChatMessage_answer_def addMessage_def store_message_def onChatUpdate_def setChatId_def
      setParentMessageId_def onParentMessageUpdate_def handleConsentSubmit_def Let_def
      split: sum.splits js_error.splits option.splits)

section \<open>The stored conversation is the one shown\<close>

abbreviation codec_of :: "widget_host \<Rightarrow> bool" where
  "codec_of h \<equiv> json_codec (wh_parse h) (wh_stringify h)"

abbreviation stored_messages :: "widget_host \<Rightarrow> widget \<Rightarrow> json list" where
  "stored_messages h w \<equiv> fetchChatHistory (wh_parse h) (wd_storage w)"

abbreviation browser_works :: "widget \<Rightarrow> bool" where
  "browser_works w \<equiv> storage_works (wd_storage w)"

lemma field_effect:
  assumes "codec_of h" "storage_works st" "k \<noteq> ''messages''" "j \<noteq> ''messages''"
  shows "fetchChatHistory (wh_parse h) (updateStoredChatHistoryField (wh_parse h) (wh_stringify h) k (JStr v) st) =
      fetchChatHistory (wh_parse h) st"
    and "stored_field (wh_parse h) j (updateStoredChatHistoryField (wh_parse h) (wh_stringify h) k (JStr v) st) =
      (if j = k then Some (JStr v) else stored_field (wh_parse h) j st)"
  using json_codec.stored_after_field [OF assms(1-3), of "JStr v" j] assms(4) by simp_all

lemma message_effect:
  assumes "codec_of h" "storage_works st" "j \<noteq> ''messages''"
  shows "fetchChatHistory (wh_parse h) (updateStoredHistory (wh_parse h) (wh_stringify h) m st) =
      fetchChatHistory (wh_parse h) st @ [m]"
    and "stored_field (wh_parse h) j (updateStoredHistory (wh_parse h) (wh_stringify h) m st) =
      stored_field (wh_parse h) j st"
  using json_codec.stored_after_message [OF assms(1,2), of m j] assms(3) by simp_all

lemma chat_update_effect:
  assumes "codec_of h" "browser_works w"
  shows "stored_messages h (onChatUpdate h u c w) = stored_messages h w"
    and "wd_messages (onChatUpdate h u c w) = wd_messages w"
    and "browser_works (onChatUpdate h u c w)"
    and "getChatId (wh_parse h) (wd_storage (onChatUpdate h u c w)) = Some (JStr c)"
    and "getParentMessageId (wh_parse h) (wd_storage (onChatUpdate h u c w)) =
      getParentMessageId (wh_parse h) (wd_storage w)"
  using consent_submit_cases(1) [of h u c "w\<lparr>wd_storage := setChatId (wh_parse h) (wh_stringify h) c (wd_storage w)\<rparr>"]
    field_effect [OF assms, of "''chatId''" "''chatId''" c] assms(2)
    field_effect [OF assms, of "''chatId''" "''parentMessageId''" c]
  by (auto simp: onChatUpdate_def Let_def setChatId_def getChatId_def getParentMessageId_def)

lemma parent_update_effect:
  assumes "codec_of h" "browser_works w"
  shows "stored_messages h (onParentMessageUpdate h i w) = stored_messages h w"
    and "wd_messages (onParentMessageUpdate h i w) = wd_messages w"
    and "browser_works (onParentMessageUpdate h i w)"
    and "getChatId (wh_parse h) (wd_storage (onParentMessageUpdate h i w)) = getChatId (wh_parse h) (wd_storage w)"
    and "getParentMessageId (wh_parse h) (wd_storage (onParentMessageUpdate h i w)) = Some (JStr i)"
  using assms(2) field_effect [OF assms, of "''parentMessageId''" "''chatId''" i]
    field_effect [OF assms, of "''parentMessageId''" "''parentMessageId''" i]
  by (simp_all add: onParentMessageUpdate_def setParentMessageId_def getChatId_def getParentMessageId_def)

lemma answer_effect:
  assumes "codec_of h" "browser_works w"
  shows "wd_messages (sendChatMessage_answer h u i s (Inr r) w) = wd_messages w @ [answer_message i s r]"
    and "stored_messages h (sendChatMessage_answer h u i s (Inr r) w) = stored_messages h w @ [answer_message i s r]"
    and "cr_conversation_id r \<noteq> [] \<Longrightarrow> getChatId (wh_parse h) (wd_storage (sendChatMessage_answer h u i s (Inr r) w)) =
      Some (JStr (cr_conversation_id r))"
    and "cr_assistant_message_id r \<noteq> [] \<Longrightarrow>
      getParentMessageId (wh_parse h) (wd_storage (sendChatMessage_answer h u i s (Inr r) w)) =
      Some (JStr (cr_assistant_message_id r))"
proof -
  define w1 where "w1 = (if cr_conversation_id r \<noteq> [] then onChatUpdate h u (cr_conversation_id r) w else w)"
  have w1: "stored_messages h w1 = stored_messages h w" "wd_messages w1 = wd_messages w" "browser_works w1"
      "cr_conversation_id r \<noteq> [] \<Longrightarrow> getChatId (wh_parse h) (wd_storage w1) = Some (JStr (cr_conversation_id r))"
    using chat_update_effect [OF assms] assms(2) by (simp_all add: w1_def)
  define w2 where "w2 = (if cr_assistant_message_id r \<noteq> []
    then onParentMessageUpdate h (cr_assistant_message_id r) w1 else w1)"
  have w2: "stored_messages h w2 = stored_messages h w" "wd_messages w2 = wd_messages w" "browser_works w2"
      "cr_conversation_id r \<noteq> [] \<Longrightarrow> getChatId (wh_parse h) (wd_storage w2) = Some (JStr (cr_conversation_id r))"
      "cr_assistant_message_id r \<noteq> [] \<Longrightarrow>
        getParentMessageId (wh_parse h) (wd_storage w2) = Some (JStr (cr_assistant_message_id r))"
    using w1 parent_update_effect [OF assms(1) w1(3)] by (simp_all add: w2_def)
  have eq: "sendChatMessage_answer h u i s (Inr r) w =
      store_message h (answer_message i s r) (addMessage (answer_message i s r) w2)"
    by (simp add: sendChatMessage_answer_def w1_def w2_def)
  note store = message_effect [OF assms(1) w2(3), where m = "answer_message i s r"]
  show "wd_messages (sendChatMessage_answer h u i s (Inr r) w) = wd_messages w @ [answer_message i s r]"
    unfolding eq using w2(2) by (simp add: store_message_def addMessage_def)
  show "stored_messages h (sendChatMessage_answer h u i s (Inr r) w) = stored_messages h w @ [answer_message i s r]"
    unfolding eq using w2(1) store(1) [of "[]"] by (simp add: store_message_def addMessage_def)
  show "getChatId (wh_parse h) (wd_storage (sendChatMessage_answer h u i s (Inr r) w)) =
      Some (JStr (cr_conversation_id r))" if "cr_conversation_id r \<noteq> []"
    unfolding eq using w2(4) [OF that] store(2) [of "''chatId''"]
    by (simp add: store_message_def addMessage_def getChatId_def)
  show "getParentMessageId (wh_parse h) (wd_storage (sendChatMessage_answer h u i s (Inr r) w)) =
      Some (JStr (cr_assistant_message_id r))" if "cr_assistant_message_id r \<noteq> []"
    unfolding eq using w2(5) [OF that] store(2) [of "''parentMessageId''"]
    by (simp add: store_message_def addMessage_def getParentMessageId_def)
qed

text \<open>The messages shown, tagged with whether they are stored; those that are not are errors.\<close>

definition shows_stored :: "widget_host \<Rightarrow> widget \<Rightarrow> bool" where
  "shows_stored h w \<longleftrightarrow> (\<exists>tagged. wd_messages w = map snd tagged \<and>
     stored_messages h w = map snd (filter fst tagged) \<and>
     (\<forall>(kept, m) \<in> set tagged. \<not> kept \<longrightarrow> (\<exists>uid stamp. m = error_message uid stamp)))"

lemma shows_stored_same:
  "shows_stored h w \<Longrightarrow> wd_messages w' = wd_messages w \<Longrightarrow> stored_messages h w' = stored_messages h w \<Longrightarrow>
   shows_stored h w'"
  by (simp add: shows_stored_def)

lemma shows_stored_both:
  assumes "shows_stored h w" "wd_messages w' = wd_messages w @ [m]" "stored_messages h w' = stored_messages h w @ [m]"
  shows "shows_stored h w'"
proof -
  obtain tagged where "wd_messages w = map snd tagged" "stored_messages h w = map snd (filter fst tagged)"
      "\<forall>(kept, m) \<in> set tagged. \<not> kept \<longrightarrow> (\<exists>uid stamp. m = error_message uid stamp)"
    using assms(1) unfolding shows_stored_def by blast
  then show ?thesis
    unfolding shows_stored_def assms(2,3) by (intro exI [of _ "tagged @ [(True, m)]"]) auto
qed

lemma shows_stored_error:
  assumes "shows_stored h w" "wd_messages w' = wd_messages w @ [error_message i s]" "stored_messages h w' = stored_messages h w"
  shows "shows_stored h w'"
proof -
  obtain tagged where "wd_messages w = map snd tagged" "stored_messages h w = map snd (filter fst tagged)"
      "\<forall>(kept, m) \<in> set tagged. \<not> kept \<longrightarrow> (\<exists>uid stamp. m = error_message uid stamp)"
    using assms(1) unfolding shows_stored_def by blast
  then show ?thesis
    unfolding shows_stored_def assms(2,3) by (intro exI [of _ "tagged @ [(False, error_message i s)]"]) auto
qed

lemma shows_stored_load: "codec_of h \<Longrightarrow> storage_works st \<Longrightarrow> shows_stored h (load_widget h st)"
  unfolding shows_stored_def
  by (rule exI [of _ "map (\<lambda>m. (True, m)) (wd_messages (load_widget h st))"])
    (auto simp: load_widget_def Let_def comp_def json_codec.fetch_after_create)

lemma shows_stored_answer:
  assumes "codec_of h" "browser_works w" "shows_stored h w"
  shows "shows_stored h (sendChatMessage_answer h u i s a w)"
proof (cases a)
  case (Inr r)
  show ?thesis unfolding Inr
    by (rule shows_stored_both [OF assms(3) answer_effect(1,2) [OF assms(1,2)]])
next
  case (Inl e)
  show ?thesis
  proof (cases "e = AbortError")
    case True
    with Inl assms(3) show ?thesis by (simp add: sendChatMessage_answer_def)
  next
    case False
    then have "sendChatMessage_answer h u i s a w = addMessage (error_message i s) w"
      using Inl by (cases e) (simp_all add: sendChatMessage_answer_def)
    then show ?thesis by (intro shows_stored_error [OF assms(3)]) (simp_all add: addMessage_def)
  qed
qed

lemma stored_submit [simp]: "stored_messages h (submitConsentData h u d c w) = stored_messages h w"
  by simp

lemma close_kept:
  "wd_messages (handleClose h u w) = wd_messages w"
  "stored_messages h (handleClose h u w) = stored_messages h w"
  "st_readable (wd_storage (handleClose h u w)) = st_readable (wd_storage w)"
  "st_accepts (wd_storage (handleClose h u w)) = st_accepts (wd_storage w)"
  by (auto simp: handleClose_def Let_def clearVisibilityTimers_def submitConsentForCurrentChat_def
      split: option.splits)

lemma shows_stored_step:
  assumes "codec_of h" "browser_works w" "shows_stored h w" "\<And>r a. e \<noteq> BrowserChanges r a"
  shows "browser_works (widget_step h e w) \<and> shows_stored h (widget_step h e w)"
proof (cases e)
  case (Send uid inputValue stamp)
  let ?m = "user_message uid stamp (trim inputValue)"
  have "wd_messages (sendMessage_request h uid (trim inputValue) stamp w) = wd_messages w @ [?m]"
      "stored_messages h (sendMessage_request h uid (trim inputValue) stamp w) = stored_messages h w @ [?m]"
      "browser_works (sendMessage_request h uid (trim inputValue) stamp w)" if "wd_consentGiven w"
    using that assms(2) message_effect(1) [OF assms(1,2), of "[]" ?m]
    by (simp_all add: sendMessage_request_def Let_def store_message_def addMessage_def)
  note sent = this
  have "shows_stored h (sendMessage_request h uid (trim inputValue) stamp w)" if "wd_consentGiven w"
    using sent(1,2) [OF that] by (rule shows_stored_both [OF assms(3)])
  moreover have "widget_step h e w = sendMessage_request h uid (trim inputValue) stamp w \<and> wd_consentGiven w \<or>
      widget_step h e w = w"
    using Send by (simp add: handleSend_def)
  ultimately show ?thesis using assms(2,3) sent(3) by metis
next
  case (Answer i uuid uid stamp answer)
  let ?w = "w\<lparr>wd_pending := without i (wd_pending w)\<rparr>"
  let ?v = "sendChatMessage_answer h uuid uid stamp answer ?w"
  have "shows_stored h ?w" by (rule shows_stored_same [OF assms(3)]) simp_all
  then have "shows_stored h ?v" using assms(2) by (intro shows_stored_answer assms(1)) simp_all
  then have "shows_stored h (settle_request k ?v) \<and> browser_works (settle_request k ?v)" for k
    using shows_stored_same [of h ?v] assms(2) by (simp add: settle_request_def)
  then show ?thesis using Answer assms(2,3) by simp
next
  case ConfirmReset
  let ?st = "wd_storage w\<lparr>st_items := js_set CHAT_HISTORY_KEY (wh_stringify h (JObj [(''messages'', JArr [])])) (st_items (wd_storage w))\<rparr>"
  have "getStoredChatHistory (wh_parse h) ?st = Some (JObj [(''messages'', JArr [])])"
    using json_codec.stored_after_save [OF assms(1,2), of "[(''messages'', JArr [])]" "[]"] assms(2)
    by (simp add: save_works)
  then have "fetchChatHistory (wh_parse h) ?st = []" by (simp add: fetchChatHistory_def history_messages_def)
  then show ?thesis
    using ConfirmReset assms(2,3)
    by (auto simp: handleConfirmReset_def setItem_def resetChat_def shows_stored_def)
next
  case (ClosePanel uuid)
  then show ?thesis
    using assms(2,3) shows_stored_same [OF assms(3), of "handleClose h uuid w"] by (simp add: close_kept)
next
  case (Decline uuid)
  let ?w = "w\<lparr>wd_consentGiven := False\<rparr>"
  have "shows_stored h (handleClose h uuid ?w)"
    by (rule shows_stored_same [OF assms(3)]) (simp_all add: close_kept)
  then show ?thesis
    using Decline assms(2,3) by (simp add: handleConsentDecline_def close_kept)
next
  case (SubmitConsent uuid stamp v)
  then show ?thesis
    using assms(2,3) shows_stored_same [OF assms(3)] by (simp add: consent_handleSubmit_def Let_def)
next
  case (ConsentAnswer i answer)
  then show ?thesis
    using assms(2,3) shows_stored_same [OF assms(3)]
    by (auto simp: consent_answer_def split: sum.splits)
next
  case LoadPage
  have "shows_stored h (load_widget h (wd_storage w))" using assms(1,2) by (rule shows_stored_load)
  moreover have "browser_works (load_widget h (wd_storage w))" using assms(2) by (simp add: load_widget_def Let_def)
  ultimately show ?thesis
    using LoadPage shows_stored_same [of h "load_widget h (wd_storage w)"] by simp
next
  case (BrowserChanges r a)
  with assms(4) show ?thesis by blast
qed (use assms(2,3) shows_stored_same [OF assms(3)] in
  \<open>auto simp: handleOpen_def clearVisibilityTimers_def\<close>)

lemma reload_shows_stored:
  "codec_of h \<Longrightarrow> browser_works w \<Longrightarrow> wd_messages (widget_step h LoadPage w) = stored_messages h w"
  by (simp add: load_widget_def Let_def json_codec.fetch_after_create)

text \<open>
  C24. What the public chat stores is the conversation it shows, and a page load shows it
  again. In every state the widget reaches from a page load, with a browser that stores, the
  stored messages are those of the shown ones that are kept, in their order; the others are
  texts of errors; and a load of the page in this state shows exactly the kept ones.
\<close>

theorem stored_history_is_the_chat:
  assumes "codec_of h" "storage_works st" "\<And>r a. BrowserChanges r a \<notin> set es"
    and "w = widget_run h es (load_widget h st)"
  shows "\<exists>tagged. wd_messages w = map snd tagged \<and>
    stored_messages h w = map snd (filter fst tagged) \<and>
    wd_messages (widget_step h LoadPage w) = map snd (filter fst tagged) \<and>
    (\<forall>m. (False, m) \<in> set tagged \<longrightarrow> (\<exists>uid stamp. m = error_message uid stamp))"
proof -
  let ?I = "\<lambda>w. browser_works w \<and> shows_stored h w"
  have "?I (load_widget h st)"
    using assms(2) shows_stored_load [OF assms(1,2)] by (simp add: load_widget_def Let_def)
  then have "?I w" unfolding assms(4)
  proof (rule widget_run_invariant)
    fix e w
    assume e: "e \<in> set es" and w: "browser_works w \<and> shows_stored h w"
    have "e \<noteq> BrowserChanges r a" for r a using e assms(3) by metis
    with w show "?I (widget_step h e w)" by (intro shows_stored_step [OF assms(1)]) auto
  qed
  then show ?thesis using reload_shows_stored [OF assms(1), of w] unfolding shows_stored_def by fastforce
qed

end
