(* ===== verification/PublicChatOutcomes.thy ===== *)
theory PublicChatOutcomes
  imports PublicChatFacts
begin

text \<open>
  How the widget's turns follow one another, when it waits, what consent allows, and how the
  panel opens and closes.
\<close>

section \<open>The next turn\<close>

text \<open>
  The next turn continues the conversation: after an answer with ids the message sent next
  names the conversation and the assistant message of that answer, whatever was stored before.
\<close>

theorem next_turn_continues_the_conversation:
  assumes "codec_of h" "browser_works w" "i < length (wd_pending w)"
    and "cr_conversation_id r \<noteq> []" "cr_assistant_message_id r \<noteq> []"
    and "rq_session (wd_pending w ! i) = wd_session w" "wd_shouldRender w" "wd_consentGiven w"
    and "trim inputValue \<noteq> []"
  shows "last (wd_sent (widget_run h [Answer i uuid uid stamp (Inr r), Send uid2 inputValue stamp2] w)) =
    (CHAT_ENDPOINT, chat_body (trim inputValue) (Some (JStr (cr_conversation_id r)))
      (Some (JStr (cr_assistant_message_id r))))"
proof -
  let ?w0 = "w\<lparr>wd_pending := without i (wd_pending w)\<rparr>"
  let ?w1 = "sendChatMessage_answer h uuid uid stamp (Inr r) ?w0"
  let ?w2 = "settle_request (rq_session (wd_pending w ! i)) ?w1"
  let ?m = "user_message uid2 stamp2 (trim inputValue)"
  have w0: "browser_works ?w0" using assms(2) by simp
  have works: "storage_works (wd_storage ?w2)" and st: "wd_storage ?w2 = wd_storage ?w1"
    using assms(2) by (simp_all add: settle_request_def)
  have ids: "getChatId (wh_parse h) (wd_storage ?w2) = Some (JStr (cr_conversation_id r))"
      "getParentMessageId (wh_parse h) (wd_storage ?w2) = Some (JStr (cr_assistant_message_id r))"
    unfolding st using answer_effect(3,4) [OF assms(1) w0] assms(4,5) by blast+
  have ready: "wd_shouldRender ?w2" "wd_consentGiven ?w2" "\<not> wd_isLoading ?w2"
    using assms(6-8) by (simp_all add: settle_request_def)
  have "widget_run h [Answer i uuid uid stamp (Inr r), Send uid2 inputValue stamp2] w =
      sendMessage_request h uid2 (trim inputValue) stamp2 ?w2"
    using assms(3,9) ready by (simp add: handleSend_def)
  then show ?thesis
    using ready(2) ids message_effect(2) [OF assms(1) works, where m = ?m]
    by (simp add: sendMessage_request_def Let_def store_message_def addMessage_def getChatId_def
        getParentMessageId_def)
qed

section \<open>Waiting\<close>

abbreviation chat_requests :: "widget \<Rightarrow> (string \<times> json) list" where
  "chat_requests w \<equiv> filter (\<lambda>(e, b). e = CHAT_ENDPOINT) (wd_sent w)"

text \<open>The panel's and the form's handlers do not touch what is waited for.\<close>

definition same_turns :: "widget \<Rightarrow> widget \<Rightarrow> bool" where
  "same_turns w w' \<longleftrightarrow> wd_isLoading w' = wd_isLoading w \<and> wd_session w' = wd_session w \<and>
     wd_pending w' = wd_pending w \<and> chat_requests w' = chat_requests w"

lemma close_same_turns: "same_turns w (handleClose h u w)"
  by (auto simp: same_turns_def handleClose_def Let_def clearVisibilityTimers_def submitConsentForCurrentChat_def
      split: option.splits)

lemma same_turns_set [simp]: "same_turns (w\<lparr>wd_consentGiven := b\<rparr>) w' = same_turns w w'"
  by (simp add: same_turns_def)

definition turn_event :: "widget_event \<Rightarrow> bool" where
  "turn_event e \<longleftrightarrow> (case e of Send _ _ _ \<Rightarrow> True | Answer _ _ _ _ _ \<Rightarrow> True | ConfirmReset \<Rightarrow> True
     | LoadPage \<Rightarrow> True | _ \<Rightarrow> False)"

lemma other_events_same_turns: "\<not> turn_event e \<Longrightarrow> same_turns w (widget_step h e w)"
  using close_same_turns [of w h] close_same_turns [of "w\<lparr>wd_consentGiven := False\<rparr>" h]
  by (cases e) (auto simp: turn_event_def same_turns_def handleOpen_def clearVisibilityTimers_def
      handleConsentDecline_def consent_handleSubmit_def Let_def consent_answer_def split: sum.splits)

lemma set_without: "set (without i xs) \<subseteq> set xs"
  by (auto simp: without_def dest: in_set_takeD in_set_dropD)

lemma without_in: "x \<in> set (without i xs) \<Longrightarrow> x \<in> set xs"
  using set_without by fast

lemma length_without: "i < length xs \<Longrightarrow> length (without i xs) = length xs - 1"
  by (simp add: without_def)

subsection \<open>Clearing the chat while an answer is awaited\<close>

definition locked :: "widget \<Rightarrow> bool" where
  "locked w \<longleftrightarrow> wd_isLoading w \<and> (\<forall>r \<in> set (wd_pending w). rq_session r < wd_session w)"

lemma locked_step:
  assumes "locked w" "e \<noteq> LoadPage"
  shows "locked (widget_step h e w) \<and> chat_requests (widget_step h e w) = chat_requests w"
proof (cases "turn_event e")
  case False
  then show ?thesis using other_events_same_turns [of e w h] assms(1) by (simp add: same_turns_def locked_def)
next
  case True
  then show ?thesis
  proof (cases e)
    case (Send uid v stamp)
    then show ?thesis using assms(1) by (simp add: handleSend_def locked_def)
  next
    case (Answer i uuid uid stamp answer)
    show ?thesis
    proof (cases "i < length (wd_pending w)")
      case True
      then have "rq_session (wd_pending w ! i) < wd_session w" using assms(1) by (simp add: locked_def)
      with Answer assms(1) True show ?thesis
        using set_without [of i "wd_pending w"] by (auto simp: locked_def settle_request_def)
    qed (use Answer assms(1) in simp)
  next
    case ConfirmReset
    then show ?thesis
      using assms(1) by (auto simp: locked_def handleConfirmReset_def resetChat_def split: sum.splits)
  qed (use assms(2) in \<open>auto simp: turn_event_def\<close>)
qed

lemma pending_sessions_step:
  assumes "\<forall>r \<in> set (wd_pending w). rq_session r \<le> wd_session w"
  shows "\<forall>r \<in> set (wd_pending (widget_step h e w)). rq_session r \<le> wd_session (widget_step h e w)"
proof (cases "turn_event e")
  case False
  then show ?thesis using other_events_same_turns [of e w h] assms by (simp add: same_turns_def)
next
  case True
  then show ?thesis
    using assms
    by (cases e) (auto dest!: without_in simp: turn_event_def handleSend_def sendMessage_request_def Let_def store_message_def
        addMessage_def settle_request_def handleConfirmReset_def resetChat_def load_widget_def split: sum.splits)
qed

text \<open>
  Clearing the chat while an answer is awaited locks the widget: whatever happens after
  it, also when the answer comes, the widget keeps waiting and sends no message, until the
  page is loaded again.
\<close>

theorem clearing_while_waiting_locks:
  assumes "w = widget_run h es (load_widget h st)" "wd_isLoading w" "wd_isModalOpen w" "browser_works w"
    and "LoadPage \<notin> set fs"
  shows "wd_isLoading (widget_run h (ConfirmReset # fs) w) \<and>
    chat_requests (widget_run h (ConfirmReset # fs) w) = chat_requests w"
proof -
  let ?J = "\<lambda>v. \<forall>r \<in> set (wd_pending v). rq_session r \<le> wd_session v"
  have "?J (load_widget h st)" by (simp add: load_widget_def Let_def)
  then have "?J w" unfolding assms(1) by (rule widget_run_invariant) (rule pending_sessions_step)
  then have lock: "locked (widget_step h ConfirmReset w)"
      and same: "chat_requests (widget_step h ConfirmReset w) = chat_requests w"
    using assms(2-4) by (auto simp: locked_def handleConfirmReset_def setItem_def resetChat_def)
  let ?I = "\<lambda>v. locked v \<and> chat_requests v = chat_requests w"
  have "?I (widget_run h fs (widget_step h ConfirmReset w))"
  proof (rule widget_run_invariant)
    fix e v
    assume "e \<in> set fs" "?I v"
    moreover then have "e \<noteq> LoadPage" using assms(5) by auto
    ultimately show "?I (widget_step h e v)" using locked_step [of v e h] by simp
  qed (use lock same in blast)
  then show ?thesis by (simp add: locked_def)
qed

text \<open>
  The answer awaited when the chat was cleared appears in the cleared chat, and the next
  message continues the conversation that was cleared.
\<close>

theorem late_answer_reopens_the_cleared_chat:
  assumes "codec_of h" "browser_works w" "wd_isModalOpen w" "i < length (wd_pending w)"
    and "cr_conversation_id r \<noteq> []"
  shows "wd_messages (widget_run h [ConfirmReset, Answer i uuid uid stamp (Inr r)] w) = [answer_message uid stamp r] \<and>
    getChatId (wh_parse h) (wd_storage (widget_run h [ConfirmReset, Answer i uuid uid stamp (Inr r)] w)) =
      Some (JStr (cr_conversation_id r))"
proof -
  let ?w1 = "widget_step h ConfirmReset w"
  have w1: "wd_messages ?w1 = []" "wd_pending ?w1 = wd_pending w" "browser_works ?w1"
    using assms(2,3) by (auto simp: handleConfirmReset_def setItem_def resetChat_def)
  let ?w2 = "?w1\<lparr>wd_pending := without i (wd_pending ?w1)\<rparr>"
  have works: "browser_works ?w2" using w1(3) by simp
  have run: "widget_run h [ConfirmReset, Answer i uuid uid stamp (Inr r)] w =
      settle_request (rq_session (wd_pending ?w1 ! i)) (sendChatMessage_answer h uuid uid stamp (Inr r) ?w2)"
    using assms(4) w1(2) by (simp del: widget_step.simps(3))
  show ?thesis
    unfolding run
    using answer_effect(1) [OF assms(1) works, of uuid uid stamp r]
      answer_effect(3) [OF assms(1) works, of r uuid uid stamp] assms(5) w1(1)
    by (simp add: settle_request_def del: widget_step.simps)
qed

subsection \<open>Otherwise\<close>

text \<open>The chat is cleared only while nothing is awaited.\<close>

fun cleared_at_rest :: "widget_host \<Rightarrow> widget_event list \<Rightarrow> widget \<Rightarrow> bool" where
  "cleared_at_rest h [] w = True"
| "cleared_at_rest h (e # es) w \<longleftrightarrow>
     (case e of ConfirmReset \<Rightarrow> wd_pending w = [] | _ \<Rightarrow> True) \<and> cleared_at_rest h es (widget_step h e w)"

definition waits :: "widget \<Rightarrow> bool" where
  "waits w \<longleftrightarrow> (if wd_isLoading w then \<exists>b. wd_pending w = [\<lparr>rq_session = wd_session w, rq_body = b\<rparr>]
     else wd_pending w = [])"

lemma waits_step:
  assumes "waits w" "e = ConfirmReset \<longrightarrow> wd_pending w = []"
  shows "waits (widget_step h e w)"
proof (cases "turn_event e")
  case False
  then show ?thesis using other_events_same_turns [of e w h] assms(1) by (simp add: same_turns_def waits_def)
next
  case True
  then show ?thesis
  proof (cases e)
    case (Answer i uuid uid stamp answer)
    show ?thesis
    proof (cases "i < length (wd_pending w)")
      case True
      then obtain b where "wd_isLoading w" "wd_pending w = [\<lparr>rq_session = wd_session w, rq_body = b\<rparr>]" "i = 0"
        using assms(1) by (auto simp: waits_def split: if_splits)
      with Answer show ?thesis by (simp add: waits_def settle_request_def without_def)
    qed (use Answer assms(1) in simp)
  qed (use assms in \<open>auto simp: turn_event_def waits_def handleSend_def sendMessage_request_def Let_def
      store_message_def addMessage_def handleConfirmReset_def resetChat_def load_widget_def split: sum.splits if_splits\<close>)
qed

text \<open>
  C25. The widget waits exactly as long as its one request is unanswered, in every state it
  reaches without the chat being cleared during a request.
\<close>

theorem waits_for_one_answer:
  assumes "cleared_at_rest h es (load_widget h st)"
  shows "waits (widget_run h es (load_widget h st))"
proof -
  have "waits w \<Longrightarrow> cleared_at_rest h es w \<Longrightarrow> waits (widget_run h es w)" for w
    by (induction es arbitrary: w)
      (simp_all add: waits_step del: widget_step.simps split: widget_event.splits)
  then show ?thesis using assms by (simp add: waits_def load_widget_def Let_def)
qed

section \<open>Consent\<close>

definition nothing_consented :: "widget \<Rightarrow> bool" where
  "nothing_consented w \<longleftrightarrow> js_get (st_items (wd_storage w)) CONSENT_DATA_KEY = None \<and>
     \<not> wd_consentGiven w \<and> chat_requests w = []"

lemma close_other:
  "j \<noteq> VISITOR_ID_KEY \<Longrightarrow>
   js_get (st_items (wd_storage (handleClose h u w))) j = js_get (st_items (wd_storage w)) j"
  "wd_consentGiven (handleClose h u w) = wd_consentGiven w"
  by (auto simp: handleClose_def Let_def clearVisibilityTimers_def submitConsentForCurrentChat_def split: option.splits)

lemma close_requests: "chat_requests (handleClose h u w) = chat_requests w"
  using close_same_turns [of w h u] by (simp add: same_turns_def)

lemma answer_consent_key [simp]:
  "js_get (st_items (wd_storage (sendChatMessage_answer h u i s a w))) CONSENT_DATA_KEY =
   js_get (st_items (wd_storage w)) CONSENT_DATA_KEY"
  by (auto simp: sendChatMessage_answer_def addMessage_def store_message_def onChatUpdate_def setChatId_def
      setParentMessageId_def onParentMessageUpdate_def handleConsentSubmit_def Let_def
      split: sum.splits js_error.splits option.splits)

lemma nothing_consented_load:
  "js_get (st_items st) CONSENT_DATA_KEY = None \<Longrightarrow> nothing_consented (load_widget h st)"
  by (auto simp: nothing_consented_def load_widget_def Let_def hasCompleteConsentData_def getItem_def)

lemma nothing_consented_step:
  assumes "nothing_consented w" "\<And>i. e \<noteq> ConsentAnswer i (Inr ())"
  shows "nothing_consented (widget_step h e w)"
proof (cases e)
  case (ConsentAnswer i a)
  then show ?thesis using assms by (auto simp: nothing_consented_def consent_answer_def split: sum.splits)
next
  case LoadPage
  then show ?thesis
    using assms(1) nothing_consented_load [of "wd_storage w" h] by (simp add: nothing_consented_def)
qed (use assms(1) in \<open>auto simp: nothing_consented_def handleSend_def settle_request_def handleConfirmReset_def
    resetChat_def setItem_def update_conv' handleOpen_def clearVisibilityTimers_def close_other close_requests
    handleConsentDecline_def consent_handleSubmit_def Let_def split: sum.splits\<close>)

text \<open>
  C26. No message is sent without consent: from a page load with no consent stored, the widget
  sends no chat request until the server has accepted a consent form, however the events fall.
\<close>

theorem no_message_without_consent:
  assumes "js_get (st_items st) CONSENT_DATA_KEY = None" "\<And>i. ConsentAnswer i (Inr ()) \<notin> set es"
  shows "chat_requests (widget_run h es (load_widget h st)) = []"
proof -
  have "nothing_consented (widget_run h es (load_widget h st))"
  proof (rule widget_run_invariant)
    show "nothing_consented (load_widget h st)" using assms(1) by (rule nothing_consented_load)
    fix e w
    assume "e \<in> set es" "nothing_consented w"
    moreover from this(1) have "e \<noteq> ConsentAnswer i (Inr ())" for i using assms(2) by metis
    ultimately show "nothing_consented (widget_step h e w)" by (intro nothing_consented_step)
  qed
  then show ?thesis by (simp add: nothing_consented_def)
qed

definition consented :: "widget_host \<Rightarrow> widget \<Rightarrow> bool" where
  "consented h w \<longleftrightarrow> browser_works w \<and>
     (\<exists>d. js_get (st_items (wd_storage w)) CONSENT_DATA_KEY = Some (wh_stringify h (consent_json d))) \<and>
     (\<exists>v. js_get (st_items (wd_storage w)) VISITOR_ID_KEY = Some v \<and> v \<noteq> [])"

lemma consented_same:
  "consented h w \<Longrightarrow> st_readable (wd_storage w') = st_readable (wd_storage w) \<Longrightarrow>
   st_accepts (wd_storage w') = st_accepts (wd_storage w) \<Longrightarrow>
   js_get (st_items (wd_storage w')) CONSENT_DATA_KEY = js_get (st_items (wd_storage w)) CONSENT_DATA_KEY \<Longrightarrow>
   js_get (st_items (wd_storage w')) VISITOR_ID_KEY = js_get (st_items (wd_storage w)) VISITOR_ID_KEY \<Longrightarrow>
   consented h w'"
  by (simp add: consented_def)

text \<open>A visitor id that is there is kept.\<close>

lemma visitor_kept:
  "js_get (st_items st) VISITOR_ID_KEY = Some v \<Longrightarrow> v \<noteq> [] \<Longrightarrow> snd (getVisitorId u st) = st"
  by (simp add: getVisitorId_def getItem_def)

lemma consented_submit: "consented h w \<Longrightarrow> consented h (submitConsentData h u d c w)"
  by (rule consented_same) (auto simp: consented_def visitor_kept)

lemma consented_field:
  "consented h w \<Longrightarrow> consented h (w\<lparr>wd_storage := updateStoredChatHistoryField p f k v (wd_storage w)\<rparr>)"
  by (erule consented_same) simp_all

lemma consented_answer: "consented h w \<Longrightarrow> consented h (sendChatMessage_answer h u i s a w)"
  using consented_submit [of h _ u] consented_field [of h]
  by (auto simp: sendChatMessage_answer_def addMessage_def store_message_def onChatUpdate_def setChatId_def
      setParentMessageId_def onParentMessageUpdate_def handleConsentSubmit_def Let_def consented_def visitor_kept
      split: sum.splits js_error.splits option.splits)

lemma consented_close: "consented h w \<Longrightarrow> consented h (handleClose h u w)"
  by (auto simp: handleClose_def Let_def clearVisibilityTimers_def submitConsentForCurrentChat_def consented_def
      visitor_kept split: option.splits)

lemma consented_step:
  assumes "consented h w" "\<And>r a. e \<noteq> BrowserChanges r a"
  shows "consented h (widget_step h e w)"
proof (cases e)
  case (Answer i uuid uid stamp answer)
  have "consented h (w\<lparr>wd_pending := without i (wd_pending w)\<rparr>)" using assms(1) by (simp add: consented_def)
  from consented_answer [OF this, of uuid uid stamp answer] show ?thesis
    using Answer assms(1) by (simp add: consented_def settle_request_def)
next
  case (ClosePanel uuid)
  then show ?thesis using assms(1) consented_close by simp
next
  case (Decline uuid)
  have "consented h (w\<lparr>wd_consentGiven := False\<rparr>)" using assms(1) by (simp add: consented_def)
  then show ?thesis using Decline assms(1) consented_close by (simp add: handleConsentDecline_def)
next
  case (SubmitConsent uuid stamp v)
  then show ?thesis
    using assms(1) consented_submit [OF assms(1)] by (simp add: consent_handleSubmit_def Let_def consented_def)
next
  case (ConsentAnswer i answer)
  then show ?thesis
    using assms(1)
    by (auto simp: consented_def consent_answer_def setConsentData_def try_set_works update_conv' split: sum.splits)
next
  case (BrowserChanges r a)
  with assms(2) show ?thesis by blast
qed (use assms(1) in \<open>auto simp: consented_def handleSend_def sendMessage_request_def Let_def store_message_def
    addMessage_def handleConfirmReset_def setItem_def resetChat_def update_conv' handleOpen_def
    clearVisibilityTimers_def load_widget_def\<close>)

lemma consented_load:
  assumes "codec_of h" "wh_parse h [] = None" "consented h w"
  shows "wd_consentGiven (load_widget h (wd_storage w))"
proof -
  obtain d where d: "js_get (st_items (wd_storage w)) CONSENT_DATA_KEY = Some (wh_stringify h (consent_json d))"
    using assms(3) by (auto simp: consented_def)
  have "wh_parse h (wh_stringify h (consent_json d)) = Some (consent_json d)"
    using json_codec.parse_stringify [OF assms(1)] .
  then have "wh_stringify h (consent_json d) \<noteq> []" using assms(2) by auto
  moreover have "parse_value (wh_parse h) (wh_stringify h (consent_json d)) = Inr (Some (consent_json d))"
    by (rule json_codec.parse_written [OF assms(1)]) (simp add: consent_json_def)
  ultimately show ?thesis
    using assms(3) d by (auto simp: consented_def load_widget_def Let_def hasCompleteConsentData_def getItem_def)
qed

text \<open>
  Consent is given once: after the server has accepted a form, every later page load, and
  whatever happens in between, finds the consent given, in a browser that stores.
\<close>

theorem consent_survives_page_loads:
  assumes "codec_of h" "wh_parse h [] = None" "browser_works w" "i < length (wd_submissions w)"
    and "js_get (st_items (wd_storage w)) VISITOR_ID_KEY = Some v" "v \<noteq> []"
    and "\<And>r a. BrowserChanges r a \<notin> set es"
  shows "wd_consentGiven (widget_run h (ConsentAnswer i (Inr ()) # es @ [LoadPage]) w)"
proof -
  let ?w1 = "widget_step h (ConsentAnswer i (Inr ())) w"
  have "consented h (widget_run h es ?w1)"
  proof (rule widget_run_invariant)
    show "consented h ?w1"
      using assms(3-6) by (auto simp: consented_def consent_answer_def setConsentData_def try_set_works update_conv')
    fix e w
    assume "e \<in> set es" "consented h w"
    moreover from this(1) have "e \<noteq> BrowserChanges r a" for r a using assms(7) by metis
    ultimately show "consented h (widget_step h e w)" by (intro consented_step)
  qed
  then show ?thesis using consented_load [OF assms(1,2)] by simp
qed

section \<open>The panel\<close>

definition panel_ok :: "widget \<Rightarrow> bool" where
  "panel_ok w \<longleftrightarrow>
     (if wd_open w then wd_shouldRender w \<and> \<not> wd_timeout w \<and> (wd_isVisible w \<or> wd_frame w)
      else \<not> wd_isVisible w \<and> \<not> wd_frame w \<and> (wd_shouldRender w \<longleftrightarrow> wd_timeout w))"

lemma close_panel:
  "wd_open (handleClose h u w) = False" "wd_shouldRender (handleClose h u w) = wd_shouldRender w"
  "wd_timeout (handleClose h u w) = True" "wd_isVisible (handleClose h u w) = False"
  "wd_frame (handleClose h u w) = False"
  by (auto simp: handleClose_def Let_def clearVisibilityTimers_def submitConsentForCurrentChat_def
      split: option.splits)

lemma panel_step: "panel_ok w \<Longrightarrow> panel_ok (widget_step h e w)"
  by (cases e)
    (auto simp: close_panel handleConsentDecline_def panel_ok_def handleSend_def sendMessage_request_def Let_def
      store_message_def addMessage_def settle_request_def handleConfirmReset_def resetChat_def handleOpen_def
      clearVisibilityTimers_def consent_handleSubmit_def consent_answer_def load_widget_def
      split: sum.splits if_splits)

text \<open>
  The panel settles to what was asked for last: in every state reached, once the pending
  timer and frame have fired the panel is shown and visible if it is open and gone if not, so
  a frame of an earlier opening never makes a closed panel visible.
\<close>

theorem panel_settles:
  "let w = widget_run h (es @ [TimeoutFires, FrameFires]) (load_widget h st)
   in wd_shouldRender w = wd_open w \<and> wd_isVisible w = wd_open w \<and> \<not> wd_timeout w \<and> \<not> wd_frame w"
proof -
  let ?w = "widget_run h es (load_widget h st)"
  have "panel_ok ?w"
  proof (rule widget_run_invariant)
    show "panel_ok (load_widget h st)" by (simp add: panel_ok_def load_widget_def Let_def)
  qed (rule panel_step)
  then show ?thesis by (auto simp: panel_ok_def Let_def split: if_splits)
qed

section \<open>The form\<close>

lemma digits_of_append [simp]: "digits_of (a @ b) = digits_of a @ digits_of b"
  by (simp add: digits_of_def)

lemma digits_of_digits: "list_all is_digit ds \<Longrightarrow> digits_of ds = ds"
  by (induction ds) (simp_all add: digits_of_def)

lemma digits_separators [simp]:
  "digits_of (CHR ''('' # s) = digits_of s" "digits_of (CHR '')'' # s) = digits_of s"
  "digits_of (CHR '' '' # s) = digits_of s"
  "digits_of (CHR ''-'' # s) = digits_of s" "digits_of [] = []"
  by (simp_all add: digits_of_def is_digit_def)

text \<open>
  The formatted phone number loses no digit and adds none: reading the formatted text of
  any input back gives the digits the form keeps of that input.
\<close>

theorem phone_reads_back: "phone_input (formatPhoneNumber s) = phone_input s"
proof -
  let ?d = "digits_of s"
  have all: "list_all is_digit ?d" by (simp add: digits_of_def list_all_iff)
  have keep: "digits_of (take n (drop k ?d)) = take n (drop k ?d)" "digits_of (drop k ?d) = drop k ?d"
      "digits_of (take n ?d) = take n ?d" "digits_of ?d = ?d" for n k
    using all by (auto intro!: digits_of_digits simp: list_all_iff dest!: in_set_takeD in_set_dropD simp del: set_drop_subset)
  have "digits_of (formatPhoneNumber s) = take 10 ?d"
  proof (cases "length ?d \<le> 6")
    case True
    then show ?thesis using keep append_take_drop_id [of 3 ?d] by (auto simp: formatPhoneNumber_def Let_def)
  next
    case False
    have "take 10 ?d = take 3 ?d @ take 3 (drop 3 ?d) @ take 4 (drop 6 ?d)"
      using take_add [of 3 7 ?d] take_add [of 3 4 "drop 3 ?d"] by simp
    with False show ?thesis using keep by (simp add: formatPhoneNumber_def Let_def)
  qed
  then show ?thesis by (simp add: phone_input_def)
qed

section \<open>Instances\<close>

definition demo_widget_host :: widget_host where
  "demo_widget_host = \<lparr>wh_parse = text_json, wh_stringify = json_text, wh_environment = [],
     wh_visible_by_default = True\<rparr>"

definition empty_storage :: storage where
  "empty_storage = \<lparr>st_items = [], st_readable = True, st_accepts = (\<lambda>_. True)\<rparr>"

definition demo_form :: consent_values where
  "demo_form = \<lparr>cv_firstName = ''Ada'', cv_lastName = ''Byron'', cv_email = ''ada@example.org'',
     cv_phone = ''5550100123'', cv_zip = ''00501''\<rparr>"

definition demo_response :: chat_response where
  "demo_response = \<lparr>cr_conversation_id = ''c1'', cr_assistant_message_id = ''m1'', cr_assistant_message = ''Hello'',
     cr_guardrails_blocked = None, cr_guardrails_blocked_message = None\<rparr>"

definition demo_consented :: "widget_event list" where
  "demo_consented = [SubmitConsent ''v'' 1 demo_form, ConsentAnswer 0 (Inr ())]"

definition demo_waiting :: "widget_event list" where
  "demo_waiting = demo_consented @ [Send ''u'' '' hi '' 2, AskReset True]"

abbreviation demo_run :: "widget_event list \<Rightarrow> widget" where
  "demo_run es \<equiv> widget_run demo_widget_host es (load_widget demo_widget_host empty_storage)"

lemma demo_codec: "codec_of demo_widget_host"
  by (simp add: demo_widget_host_def prefix_code.json_codec_axioms)

lemma demo_waiting_state:
  "wd_isLoading (demo_run demo_waiting)" "wd_isModalOpen (demo_run demo_waiting)"
  "length (wd_pending (demo_run demo_waiting)) = 1" "wd_consentGiven (demo_run demo_waiting)"
  "wd_shouldRender (demo_run demo_waiting)" "length (chat_requests (demo_run demo_waiting)) = 1"
  "rq_session (wd_pending (demo_run demo_waiting) ! 0) = wd_session (demo_run demo_waiting)"
  by code_simp+

lemma works_step:
  assumes "browser_works w" "\<And>r a. e \<noteq> BrowserChanges r a"
  shows "browser_works (widget_step h e w)"
  using assms by (cases e) (auto simp: handleSend_def sendMessage_request_def Let_def store_message_def
      addMessage_def settle_request_def handleConfirmReset_def setItem_def resetChat_def handleOpen_def close_kept
      clearVisibilityTimers_def handleConsentDecline_def consent_handleSubmit_def consent_answer_def
      load_widget_def split: sum.splits)

lemma demo_works:
  assumes "\<And>r a. BrowserChanges r a \<notin> set es"
  shows "browser_works (demo_run es)"
proof (rule widget_run_invariant)
  show "browser_works (load_widget demo_widget_host empty_storage)"
    by (simp add: load_widget_def Let_def empty_storage_def)
  fix e w
  assume "e \<in> set es" "browser_works w"
  moreover from this(1) have "e \<noteq> BrowserChanges r a" for r a using assms by metis
  ultimately show "browser_works (widget_step demo_widget_host e w)" by (intro works_step)
qed

lemma demo_waiting_works: "browser_works (demo_run demo_waiting)"
  by (rule demo_works) (simp add: demo_waiting_def demo_consented_def)

lemma next_turn_continues_the_conversation_witness:
  "last (wd_sent (widget_run demo_widget_host
     [Answer 0 ''w'' ''a'' 3 (Inr demo_response), Send ''v'' ''and then?'' 4] (demo_run demo_waiting))) =
   (CHAT_ENDPOINT, chat_body (trim ''and then?'') (Some (JStr ''c1'')) (Some (JStr ''m1'')))"
proof -
  have "0 < length (wd_pending (demo_run demo_waiting))" using demo_waiting_state(3) by simp
  moreover have "trim ''and then?'' \<noteq> []" by code_simp
  ultimately show ?thesis
    using next_turn_continues_the_conversation [OF demo_codec demo_waiting_works, of 0 demo_response
        "''and then?''" "''w''" "''a''" 3 "''v''" 4] demo_waiting_state(4,5,7)
    by (simp add: demo_response_def)
qed

lemma clearing_while_waiting_locks_witness:
  "wd_isLoading (widget_run demo_widget_host [ConfirmReset, Answer 0 ''w'' ''a'' 3 (Inr demo_response)]
     (demo_run demo_waiting))"
  using clearing_while_waiting_locks [OF refl demo_waiting_state(1,2) demo_waiting_works,
      of "[Answer 0 ''w'' ''a'' 3 (Inr demo_response)]"] by simp

lemma late_answer_reopens_the_cleared_chat_witness:
  "wd_messages (widget_run demo_widget_host [ConfirmReset, Answer 0 ''w'' ''a'' 3 (Inr demo_response)]
     (demo_run demo_waiting)) = [answer_message ''a'' 3 demo_response]"
proof -
  have "0 < length (wd_pending (demo_run demo_waiting))" using demo_waiting_state(3) by simp
  then show ?thesis
    using late_answer_reopens_the_cleared_chat [OF demo_codec demo_waiting_works demo_waiting_state(2),
      of 0 demo_response "''w''" "''a''" 3] by (simp add: demo_response_def del: widget_run_simps)
qed

lemma waits_for_one_answer_witness:
  "waits (demo_run (demo_waiting @ [Answer 0 ''w'' ''a'' 3 (Inr demo_response), ConfirmReset]))"
  by (rule waits_for_one_answer) code_simp

lemma no_message_without_consent_witness:
  "chat_requests (demo_run [Send ''u'' ''hi'' 1, SubmitConsent ''v'' 1 demo_form,
     ConsentAnswer 0 (Inl AbortError), Send ''u'' ''hi'' 2]) = []"
  by (rule no_message_without_consent) (simp_all add: empty_storage_def)

lemma consent_survives_page_loads_witness:
  "wd_consentGiven (widget_run demo_widget_host [ConsentAnswer 0 (Inr ()), LoadPage]
     (demo_run [SubmitConsent ''v'' 1 demo_form]))"
proof -
  have "wh_parse demo_widget_host [] = None" by code_simp
  moreover have "browser_works (demo_run [SubmitConsent ''v'' 1 demo_form])" by (rule demo_works) simp
  moreover have "0 < length (wd_submissions (demo_run [SubmitConsent ''v'' 1 demo_form]))" by code_simp
  moreover have "js_get (st_items (wd_storage (demo_run [SubmitConsent ''v'' 1 demo_form]))) VISITOR_ID_KEY = Some ''v''"
    by code_simp
  ultimately show ?thesis
    using consent_survives_page_loads [OF demo_codec, of "demo_run [SubmitConsent ''v'' 1 demo_form]" 0 "''v''" "[]"]
    by simp
qed

lemma stored_history_is_the_chat_witness:
  "wd_messages (widget_step demo_widget_host LoadPage
     (demo_run (demo_waiting @ [Answer 0 ''w'' ''a'' 3 (Inl (PlainError ''offline''))]))) \<noteq> []"
proof -
  define es where "es = demo_waiting @ [Answer 0 ''w'' ''a'' 3 (Inl (PlainError ''offline''))]"
  have quiet: "BrowserChanges r a \<notin> set es" for r a
    by (simp add: es_def demo_waiting_def demo_consented_def)
  have "stored_messages demo_widget_host (demo_run es) \<noteq> []" unfolding es_def by code_simp
  then show ?thesis
    using stored_history_is_the_chat [OF demo_codec _ quiet refl, of empty_storage]
    unfolding es_def [symmetric] by (auto simp: empty_storage_def)
qed

end
