(* ===== verification/ApiClient.thy ===== *)
theory ApiClient
  imports JsonText JsMap
begin

text \<open>
  The client for the server's interface (shared/src/lib/api-client.ts) and its wrapper that
  renews an expired session (app-internal/src/auth/hooks/use-authenticated-api.ts).

  A call is the request it sends and what it makes of the outcome of \<open>fetch\<close>: the response,
  or the error of the network or of an abort. A response carries the text of its body's JSON
  already parsed (\<open>None\<close>: the parser throws). What the client returns is a value or the error
  it throws.
\<close>

section \<open>Requests and responses\<close>

record client_options =
  co_headers :: "(string \<times> string) list"
  co_baseUrl :: "string option"
  co_credentials :: "string option"

record http_request =
  hq_url :: string
  hq_method :: string
  hq_headers :: "(string, string) js_map"
  hq_body :: "string option"
  hq_credentials :: "string option"

record http_response =
  hr_status :: nat
  hr_json :: "json option"
  hr_blob :: string
  hr_disposition :: "string option"

definition response_ok :: "http_response \<Rightarrow> bool" where
  "response_ok r \<longleftrightarrow> 200 \<le> hr_status r \<and> hr_status r \<le> 299"

type_synonym fetched = "js_error + http_response"

text \<open>A spread over the default header: later names replace earlier ones.\<close>

definition buildHeaders :: "client_options \<Rightarrow> (string, string) js_map" where
  "buildHeaders options = fold (\<lambda>(k, v). js_set k v) (co_headers options) [(''Content-Type'', ''application/json'')]"

definition api_request ::
  "string \<Rightarrow> string \<Rightarrow> string option \<Rightarrow> string \<Rightarrow> client_options \<Rightarrow> http_request" where
  "api_request apiUrl verb body endpoint options =
     \<lparr>hq_url = coalesce (co_baseUrl options) apiUrl @ endpoint, hq_method = verb,
      hq_headers = buildHeaders options, hq_body = body, hq_credentials = co_credentials options\<rparr>"

text \<open>The stream's request asks for events, whatever the options say.\<close>

definition stream_request ::
  "string \<Rightarrow> string option \<Rightarrow> string \<Rightarrow> client_options \<Rightarrow> http_request" where
  "stream_request apiUrl body endpoint options =
     (api_request apiUrl ''POST'' body endpoint options)
       \<lparr>hq_headers := js_set ''Accept'' ''text/event-stream'' (buildHeaders options)\<rparr>"

section \<open>Errors\<close>

fun isApiError :: "js_error \<Rightarrow> bool" where
  "isApiError (ApiError _ _) = True"
| "isApiError _ = False"

fun isAbortError :: "js_error \<Rightarrow> bool" where
  "isAbortError AbortError = True"
| "isAbortError _ = False"

definition parseErrorResponse :: "http_response \<Rightarrow> string" where
  "parseErrorResponse r = (case hr_json r of
       None \<Rightarrow> ''Request failed''
     | Some data \<Rightarrow>
         (case (if isRecord data then as_string (field_of data ''detail'') else None) of
            Some detail \<Rightarrow> detail
          | None \<Rightarrow> ''Request failed''))"

text \<open>\<open>number_text\<close> is the language's \<open>String\<close> of a status.\<close>

definition api_error_message :: "(nat \<Rightarrow> string) \<Rightarrow> nat \<Rightarrow> string \<Rightarrow> string" where
  "api_error_message status_text status detail = status_text status @ '': '' @ detail"

fun handleFetchError :: "(nat \<Rightarrow> string) \<Rightarrow> js_error \<Rightarrow> string" where
  "handleFetchError status_text AbortError = ''Request was cancelled''"
| "handleFetchError status_text (TypeError m) = m"
| "handleFetchError status_text (PlainError m) = m"
| "handleFetchError status_text (ApiError s d) = api_error_message status_text s d"

section \<open>The calls\<close>

definition response_or_error :: "fetched \<Rightarrow> js_error + http_response" where
  "response_or_error f = (case f of
       Inl e \<Rightarrow> Inl e
     | Inr r \<Rightarrow> if response_ok r then Inr r else Inl (ApiError (hr_status r) (parseErrorResponse r)))"

definition apiFetch :: "fetched \<Rightarrow> js_error + json option" where
  "apiFetch f = (case response_or_error f of
       Inl e \<Rightarrow> Inl e
     | Inr r \<Rightarrow>
         if hr_status r = 204 then Inr None
         else (case hr_json r of
             None \<Rightarrow> Inl (PlainError ''SyntaxError'')
           | Some data \<Rightarrow> Inr (Some data)))"

definition required_result :: "js_error + json option \<Rightarrow> js_error + json" where
  "required_result result = (case result of
       Inl e \<Rightarrow> Inl e
     | Inr None \<Rightarrow> Inl (PlainError ''Unexpected empty response'')
     | Inr (Some data) \<Rightarrow> Inr data)"

definition apiGet :: "fetched \<Rightarrow> js_error + json" where
  "apiGet f = required_result (apiFetch f)"

definition apiPost :: "fetched \<Rightarrow> js_error + json" where
  "apiPost f = required_result (apiFetch f)"

definition apiPut :: "fetched \<Rightarrow> js_error + json" where
  "apiPut f = required_result (apiFetch f)"

definition apiDelete :: "fetched \<Rightarrow> js_error + unit" where
  "apiDelete f = (case apiFetch f of Inl e \<Rightarrow> Inl e | Inr _ \<Rightarrow> Inr ())"

definition apiPostStream :: "fetched \<Rightarrow> js_error + http_response" where
  "apiPostStream f = response_or_error f"

subsection \<open>The name of a downloaded file\<close>

definition split_at :: "char \<Rightarrow> string \<Rightarrow> string list" where
  "split_at c s = foldr (\<lambda>x parts. if x = c then [] # parts else (x # hd parts) # tl parts) s [[]]"

text \<open>\<open>decode\<close> is \<open>decodeURIComponent\<close>, \<open>None\<close> where it throws.\<close>

definition decodeFileName :: "(string \<Rightarrow> string option) \<Rightarrow> string \<Rightarrow> string" where
  "decodeFileName decode v = coalesce (decode v) v"

text \<open>\<open>replaceAll\<close> of an escaped quote by a quote.\<close>

fun unescape_quotes :: "string \<Rightarrow> string" where
  "unescape_quotes (a # b # s) =
     (if a = CHR 0x5C \<and> b = CHR 0x22 then b # unescape_quotes s else a # unescape_quotes (b # s))"
| "unescape_quotes s = s"

definition non_empty :: "string \<Rightarrow> string option" where
  "non_empty s = (if s = [] then None else Some s)"

definition unquote :: "string \<Rightarrow> string" where
  "unquote s = (if starts_with s [CHR 0x22] \<and> ends_with s [CHR 0x22]
     then unescape_quotes (take (length s - 2) (drop 1 s)) else s)"

definition utf8_prefix :: string where
  "utf8_prefix = ''utf-8'' @ [CHR 0x27, CHR 0x27]"

definition parseContentDispositionFileName ::
  "(string \<Rightarrow> string option) \<Rightarrow> string option \<Rightarrow> string option" where
  "parseContentDispositionFileName decode header = (case header of None \<Rightarrow> None | Some header \<Rightarrow>
     (let parts = map trim (split_at (CHR '';'') header)
      in case find (\<lambda>part. starts_with (to_lower part) ''filename*='') parts of
           Some part \<Rightarrow>
             (let rawValue = trim (drop (length ''filename*='') part);
                  v = (if starts_with (to_lower rawValue) utf8_prefix
                    then drop (length utf8_prefix) rawValue else rawValue)
              in non_empty (decodeFileName decode v))
         | None \<Rightarrow> (case find (\<lambda>part. starts_with (to_lower part) ''filename='') parts of
               None \<Rightarrow> None
             | Some part \<Rightarrow> non_empty (unquote (trim (drop (length ''filename='') part))))))"

definition apiGetBlob :: "(string \<Rightarrow> string option) \<Rightarrow> fetched \<Rightarrow> js_error + string \<times> string option" where
  "apiGetBlob decode f = (case response_or_error f of
       Inl e \<Rightarrow> Inl e
     | Inr r \<Rightarrow> Inr (hr_blob r, parseContentDispositionFileName decode (hr_disposition r)))"

section \<open>Renewing the session\<close>

text \<open>
  \<open>withSessionExpiry\<close>, cut at its \<open>await\<close>s. The call is tried; an answer 401 asks for a new
  session; a renewed session tries the call a second and last time.
\<close>

datatype 'a attempt =
    Done "js_error + 'a"
  | Renew js_error

definition first_attempt :: "js_error + 'a \<Rightarrow> 'a attempt" where
  "first_attempt result = (case result of
       Inl (ApiError status detail) \<Rightarrow>
         if status = 401 then Renew (ApiError status detail) else Done (Inl (ApiError status detail))
     | r \<Rightarrow> Done r)"

datatype 'a renewal =
    TryAgain
  | Expired "js_error + 'a"
  | Refused "js_error + 'a"

definition after_refresh :: "js_error \<Rightarrow> js_error + bool \<Rightarrow> 'a renewal" where
  "after_refresh error refreshed = (case refreshed of
       Inl e \<Rightarrow> Refused (Inl e)
     | Inr refreshedSession \<Rightarrow> if refreshedSession then TryAgain else Expired (Inl error))"

text \<open>
  The whole of it on given outcomes: what is returned or thrown, whether the session was
  declared expired, and how often the call was made.
\<close>

definition withSessionExpiry ::
  "js_error + 'a \<Rightarrow> js_error + bool \<Rightarrow> js_error + 'a \<Rightarrow> (js_error + 'a) \<times> bool \<times> nat" where
  "withSessionExpiry result1 refreshed result2 = (case first_attempt result1 of
       Done r \<Rightarrow> (r, False, 1)
     | Renew error \<Rightarrow> (case after_refresh error refreshed of
           TryAgain \<Rightarrow> (result2, False, 2)
         | Expired r \<Rightarrow> (r, True, 1)
         | Refused r \<Rightarrow> (r, False, 1)))"

text \<open>The options of an authenticated call: cookies are sent unless the caller says otherwise.\<close>

definition authenticated_options :: "client_options \<Rightarrow> client_options" where
  "authenticated_options options =
     options\<lparr>co_credentials := Some (coalesce (co_credentials options) ''include'')\<rparr>"

section \<open>Facts\<close>

text \<open>
  A call never returns a value from a failed exchange: it returns the parsed body exactly
  when the network answered, the status is a success other than 204 and the body is JSON.
\<close>

lemma call_returns_iff:
  "apiGet f = Inr data \<longleftrightarrow>
     (\<exists>r. f = Inr r \<and> response_ok r \<and> hr_status r \<noteq> 204 \<and> hr_json r = Some data)"
  by (auto simp: apiGet_def required_result_def apiFetch_def response_or_error_def
      split: sum.splits option.splits if_splits)

lemma unsuccessful_status_is_thrown:
  "f = Inr r \<Longrightarrow> \<not> response_ok r \<Longrightarrow> apiGet f = Inl (ApiError (hr_status r) (parseErrorResponse r))"
  by (simp add: apiGet_def required_result_def apiFetch_def response_or_error_def)

subsection \<open>File names\<close>

lemma split_at_simps [simp]:
  "split_at c [] = [[]]"
  "split_at c (x # s) = (if x = c then [] # split_at c s else (x # hd (split_at c s)) # tl (split_at c s))"
  by (simp_all add: split_at_def)

lemma split_at_nonempty [simp]: "split_at c s \<noteq> []"
  by (cases s) simp_all

lemma split_at_join: "c \<notin> set a \<Longrightarrow> split_at c (a @ c # s) = a # split_at c s"
  by (induction a) auto

lemma split_at_none: "c \<notin> set a \<Longrightarrow> split_at c a = [a]"
  by (induction a) auto

text \<open>The name a server sends quoted, its quotes escaped.\<close>

fun escape_quotes :: "string \<Rightarrow> string" where
  "escape_quotes [] = []"
| "escape_quotes (c # s) = (if c = CHR 0x22 then [CHR 0x5C, c] else [c]) @ escape_quotes s"

lemma unescape_escape: "CHR 0x5C \<notin> set s \<Longrightarrow> unescape_quotes (escape_quotes s) = s"
proof (induction s)
  case (Cons c s)
  then have ih: "unescape_quotes (escape_quotes s) = s" by simp
  show ?case
  proof (cases "c = CHR 0x22")
    case False
    with Cons.prems ih show ?thesis by (cases "escape_quotes s") auto
  qed (use ih in simp)
qed simp

lemma set_escape_quotes: "set (escape_quotes s) \<subseteq> set s \<union> {CHR 0x5C}"
  by (induction s) auto

definition quoted_name :: "string \<Rightarrow> string" where
  "quoted_name s = ''filename='' @ [CHR 0x22] @ escape_quotes s @ [CHR 0x22]"

lemma unquote_quoted: "CHR 0x5C \<notin> set s \<Longrightarrow> unquote ([CHR 0x22] @ escape_quotes s @ [CHR 0x22]) = s"
  by (simp add: unquote_def starts_with_def ends_with_def unescape_escape)

text \<open>
  A quoted file name is read back: the name of a download is the one the server quoted,
  its quotes escaped, for every name without a semicolon and without a backslash.
\<close>

theorem quoted_file_name_reads_back:
  assumes "CHR '';'' \<notin> set s" "CHR 0x5C \<notin> set s" "s \<noteq> []"
  shows "parseContentDispositionFileName decode (Some (''attachment; '' @ quoted_name s)) = Some s"
proof -
  let ?part = "quoted_name s" and ?raw = "[CHR 0x22] @ escape_quotes s @ [CHR 0x22]"
  have "CHR '';'' \<notin> set (CHR '' '' # ?part)"
    using assms(1) set_escape_quotes [of s] by (auto simp: quoted_name_def)
  then have parts: "split_at (CHR '';'') (''attachment; '' @ ?part) = [''attachment'', CHR '' '' # ?part]"
    using split_at_join [of "CHR '';''" "''attachment''" "CHR '' '' # ?part"] split_at_none [of "CHR '';''" "CHR '' '' # ?part"]
    by simp
  have raw: "trim ?raw = ?raw" by (rule trim_id) (simp_all add: is_space_def)
  have part: "trim (CHR '' '' # ?part) = ?part"
  proof -
    have "trim ?part = ?part" by (rule trim_id) (simp_all add: quoted_name_def is_space_def)
    then show ?thesis by (simp add: trim_def is_space_def)
  qed
  have "trim ''attachment'' = ''attachment''" by (rule trim_id) (simp_all add: is_space_def)
  moreover have "\<not> starts_with (to_lower ?part) ''filename*=''" "starts_with (to_lower ?part) ''filename=''"
      "\<not> starts_with (to_lower ''attachment'') ''filename*=''" "\<not> starts_with (to_lower ''attachment'') ''filename=''"
    by (simp_all add: quoted_name_def to_lower_def lower_char_def starts_with_def)
  moreover have "drop (length ''filename='') ?part = ?raw" by (simp add: quoted_name_def)
  ultimately show ?thesis
    using parts part raw unquote_quoted [OF assms(2)] assms(3)
    by (simp add: parseContentDispositionFileName_def Let_def non_empty_def)
qed

lemma quoted_file_name_reads_back_witness:
  "parseContentDispositionFileName (\<lambda>s. Some s) (Some (''attachment; '' @ quoted_name ''report 1.csv'')) = Some ''report 1.csv''"
  by (rule quoted_file_name_reads_back) simp_all

text \<open>The parts are cut at every semicolon, also inside the quotes.\<close>

theorem semicolon_cuts_the_file_name:
  "parseContentDispositionFileName (\<lambda>s. Some s) (Some (''attachment; '' @ quoted_name ''a;b.csv'')) =
   Some [CHR 0x22, CHR ''a'']"
  by code_simp

end
