(* ===== verification/AuthSession.thy ===== *)
theory AuthSession
  imports ApiClient
begin

text \<open>
  Signing in and staying signed in (app-internal/src/auth/contexts/auth-provider.tsx and
  hooks/use-authenticated-api.ts), with every request that may be in flight, and the rotation
  of refresh tokens on the server (backend/app/core/refresh_tokens.py) the renewal relies on.

  An asynchronous function is a process: it waits for one answer, and the answer gives the new
  state and either the process it goes on as or its result. Answers come in any order. A user
  profile is the JSON the server sends. The Microsoft Teams library is third-party code: what
  it answers (a token, whether the page runs in Teams, an error) are answers like any other.
\<close>

datatype teams_mode = Outside | Inside | TeamsError

record auth_env =
  ae_teamsSsoEnabled :: bool
  ae_teamsForceMode :: bool
  ae_topLevelWindow :: bool
  ae_status_text :: "nat \<Rightarrow> string"

record auth_state =
  au_user :: "json option"
  au_loading :: bool
  au_sessionExpired :: bool
  au_authError :: "string option"
  au_teamsSsoLoading :: bool
  au_teamsAuthMode :: teams_mode
  au_effect :: nat

definition initial_auth :: auth_state where
  "initial_auth = \<lparr>au_user = None, au_loading = True, au_sessionExpired = False, au_authError = None,
     au_teamsSsoLoading = False, au_teamsAuthMode = Outside, au_effect = 0\<rparr>"

section \<open>The Teams switches\<close>

definition isTeamsForceModeEnabled :: "auth_env \<Rightarrow> bool" where
  "isTeamsForceModeEnabled env \<longleftrightarrow> ae_teamsSsoEnabled env \<and> ae_teamsForceMode env"

definition isTeamsLikelyByProxy :: "auth_env \<Rightarrow> bool" where
  "isTeamsLikelyByProxy env \<longleftrightarrow> ae_teamsSsoEnabled env \<and> \<not> ae_topLevelWindow env"

definition teams_unavailable :: string where
  "teams_unavailable = ''Microsoft Teams SSO is not available in this environment''"

definition message_of :: "auth_env \<Rightarrow> js_error \<Rightarrow> string" where
  "message_of env e = (case e of AbortError \<Rightarrow> ''The operation was aborted''
     | _ \<Rightarrow> handleFetchError (ae_status_text env) e)"

definition isTeamsUnavailableError :: "auth_env \<Rightarrow> js_error \<Rightarrow> bool" where
  "isTeamsUnavailableError env e \<longleftrightarrow> message_of env e = teams_unavailable"

definition getErrorMessage :: "auth_env \<Rightarrow> js_error \<Rightarrow> string \<Rightarrow> string" where
  "getErrorMessage env e fallback = (if message_of env e \<noteq> [] then message_of env e else fallback)"

fun isUnauthorizedError :: "js_error \<Rightarrow> bool" where
  "isUnauthorizedError (ApiError status detail) \<longleftrightarrow> status = 401"
| "isUnauthorizedError _ = False"

definition TEMPORARY_AUTH_ERROR :: string where
  "TEMPORARY_AUTH_ERROR = ''Authentication is temporarily unavailable. Please try again.''"

section \<open>Changes of the state\<close>

text \<open>Setting the user runs the effect that detects Teams again; the older run is no longer active.\<close>

definition set_user :: "json option \<Rightarrow> auth_state \<Rightarrow> auth_state" where
  "set_user u s = s\<lparr>au_user := u, au_effect := au_effect s + 1\<rparr>"

definition clearAuthState :: "bool \<Rightarrow> auth_state \<Rightarrow> auth_state" where
  "clearAuthState expired s = (set_user None s)\<lparr>au_sessionExpired := expired\<rparr>"

text \<open>\<open>completeAuthentication\<close> once the profile has come.\<close>

definition completeAuthentication :: "json \<Rightarrow> auth_state \<Rightarrow> auth_state" where
  "completeAuthentication profile s =
     (set_user (Some profile) s)\<lparr>au_sessionExpired := False, au_authError := None\<rparr>"

definition start_teams_login :: "auth_state \<Rightarrow> auth_state" where
  "start_teams_login s = s\<lparr>au_authError := None, au_teamsSsoLoading := True\<rparr>"

section \<open>Processes\<close>

datatype process =
    InitMe | InitRefresh | InitRefreshMe | InitTeamsToken | InitTeamsLogin | InitTeamsMe
  | CallFirst nat | CallRefresh nat js_error | CallRefreshMe nat js_error | CallSecond nat
  | SignInToken | SignInLogin | SignInMe
  | AuthenticateMe
  | LogoutCall
  | DetectTeams nat

type_synonym answer = "js_error + json"

record outcome =
  oc_state :: auth_state
  oc_next :: "process list"
  oc_results :: "(nat \<times> answer) list"

definition goes_on :: "auth_state \<Rightarrow> process \<Rightarrow> outcome" where
  "goes_on s p = \<lparr>oc_state = s, oc_next = [p], oc_results = []\<rparr>"

definition ends :: "auth_state \<Rightarrow> outcome" where
  "ends s = \<lparr>oc_state = s, oc_next = [], oc_results = []\<rparr>"

definition returns :: "nat \<Rightarrow> answer \<Rightarrow> auth_state \<Rightarrow> outcome" where
  "returns c r s = \<lparr>oc_state = s, oc_next = [], oc_results = [(c, r)]\<rparr>"

text \<open>The effect that asks whether the page runs in Teams starts when a user is set.\<close>

definition with_effect :: "auth_env \<Rightarrow> outcome \<Rightarrow> outcome" where
  "with_effect env oc =
     (if ae_teamsSsoEnabled env \<and> au_user (oc_state oc) \<noteq> None
      then oc\<lparr>oc_next := oc_next oc @ [DetectTeams (au_effect (oc_state oc))]\<rparr> else oc)"

text \<open>The \<open>finally\<close> of the initialisation.\<close>

definition init_ends :: "auth_state \<Rightarrow> outcome" where
  "init_ends s = ends (s\<lparr>au_loading := False\<rparr>)"

definition init_fails :: "auth_state \<Rightarrow> outcome" where
  "init_fails s = init_ends (s\<lparr>au_authError := Some TEMPORARY_AUTH_ERROR\<rparr>)"

text \<open>The initialisation once the session could not be renewed.\<close>

definition init_teams :: "auth_env \<Rightarrow> auth_state \<Rightarrow> outcome" where
  "init_teams env s =
     (if isTeamsForceModeEnabled env then goes_on (start_teams_login s) InitTeamsToken
      else let nextTeamsAuthMode = (if isTeamsLikelyByProxy env then Inside else Outside);
               s1 = s\<lparr>au_teamsAuthMode := nextTeamsAuthMode\<rparr>
           in if nextTeamsAuthMode \<noteq> Inside then init_ends s1
              else goes_on (start_teams_login s1) InitTeamsToken)"

text \<open>The \<open>catch\<close> of \<open>refreshSessionToken\<close> within the initialisation, and of the Teams login.\<close>

definition init_refresh_failed :: "auth_env \<Rightarrow> js_error \<Rightarrow> auth_state \<Rightarrow> outcome" where
  "init_refresh_failed env e s =
     (if \<not> isUnauthorizedError e then init_fails s else init_teams env (clearAuthState False s))"

definition init_teams_failed :: "auth_env \<Rightarrow> js_error \<Rightarrow> auth_state \<Rightarrow> outcome" where
  "init_teams_failed env e s =
     (let s1 = s\<lparr>au_teamsSsoLoading := False\<rparr>
      in if isTeamsUnavailableError env e then init_ends s1
         else init_ends (s1\<lparr>au_authError := Some (getErrorMessage env e ''Microsoft Teams authentication failed.'')\<rparr>))"

text \<open>
  A renewal that failed within a call: refused with 401 it clears the user and then declares
  the session expired, and the call throws its first error; any other error is thrown itself.
\<close>

definition call_refresh_failed :: "nat \<Rightarrow> js_error \<Rightarrow> js_error \<Rightarrow> auth_state \<Rightarrow> outcome" where
  "call_refresh_failed c error e s =
     (if \<not> isUnauthorizedError e then returns c (Inl e) s
      else (case after_refresh error (Inr False) of
          Expired r \<Rightarrow> returns c r (clearAuthState True (clearAuthState False s))
        | _ \<Rightarrow> returns c (Inl error) s))"

fun answered :: "auth_env \<Rightarrow> process \<Rightarrow> answer \<Rightarrow> auth_state \<Rightarrow> outcome" where
  "answered env InitMe (Inr profile) s = with_effect env (init_ends (completeAuthentication profile s))"
| "answered env InitMe (Inl e) s = (if isUnauthorizedError e then goes_on s InitRefresh else init_fails s)"
| "answered env InitRefresh (Inr _) s = goes_on s InitRefreshMe"
| "answered env InitRefresh (Inl e) s = init_refresh_failed env e s"
| "answered env InitRefreshMe (Inr profile) s = with_effect env (init_ends (completeAuthentication profile s))"
| "answered env InitRefreshMe (Inl e) s = init_refresh_failed env e s"
| "answered env InitTeamsToken (Inr _) s = goes_on s InitTeamsLogin"
| "answered env InitTeamsToken (Inl e) s = init_teams_failed env e s"
| "answered env InitTeamsLogin (Inr _) s = goes_on s InitTeamsMe"
| "answered env InitTeamsLogin (Inl e) s = init_teams_failed env e s"
| "answered env InitTeamsMe (Inr profile) s =
     with_effect env (init_ends ((completeAuthentication profile s)\<lparr>au_teamsSsoLoading := False\<rparr>))"
| "answered env InitTeamsMe (Inl e) s = init_teams_failed env e s"
| "answered env (CallFirst c) r s = (case first_attempt r of
       Done r \<Rightarrow> returns c r s | Renew e \<Rightarrow> goes_on s (CallRefresh c e))"
| "answered env (CallRefresh c error) (Inr _) s = goes_on s (CallRefreshMe c error)"
| "answered env (CallRefresh c error) (Inl e) s = call_refresh_failed c error e s"
| "answered env (CallRefreshMe c error) (Inr profile) s =
     with_effect env (goes_on (completeAuthentication profile s) (CallSecond c))"
| "answered env (CallRefreshMe c error) (Inl e) s = call_refresh_failed c error e s"
| "answered env (CallSecond c) r s = returns c r s"
| "answered env SignInToken (Inr _) s = goes_on s SignInLogin"
| "answered env SignInLogin (Inr _) s = goes_on s SignInMe"
| "answered env SignInMe (Inr profile) s =
     with_effect env (ends ((completeAuthentication profile s)\<lparr>au_teamsSsoLoading := False\<rparr>))"
| "answered env SignInToken (Inl e) s = ends (s\<lparr>au_teamsSsoLoading := False\<rparr>)"
| "answered env SignInLogin (Inl e) s = ends (s\<lparr>au_teamsSsoLoading := False\<rparr>)"
| "answered env SignInMe (Inl e) s = ends (s\<lparr>au_teamsSsoLoading := False\<rparr>)"
| "answered env AuthenticateMe (Inr profile) s = with_effect env (ends (completeAuthentication profile s))"
| "answered env AuthenticateMe (Inl e) s = ends s"
| "answered env LogoutCall (Inr _) s = ends (clearAuthState False s)"
| "answered env LogoutCall (Inl e) s = ends s"
| "answered env (DetectTeams k) (Inr b) s =
     ends (if au_effect s = k then s\<lparr>au_teamsAuthMode := (if b = JBool True then Inside else Outside)\<rparr> else s)"
| "answered env (DetectTeams k) (Inl e) s =
     ends (if au_effect s = k
       then s\<lparr>au_teamsAuthMode := TeamsError,
              au_authError := Some (getErrorMessage env e ''Failed to initialize Microsoft Teams authentication.'')\<rparr>
       else s)"

section \<open>All interleavings\<close>

record auth_world =
  aw_state :: auth_state
  aw_processes :: "process list"
  aw_results :: "(nat \<times> answer) list"
  aw_calls :: nat

datatype auth_event =
    Call
  | SignInWithTeams
  | Authenticate
  | Logout
  | ClearError
  | AnswerTo nat answer

definition start_process :: "process \<Rightarrow> auth_world \<Rightarrow> auth_world" where
  "start_process p w = w\<lparr>aw_processes := aw_processes w @ [p]\<rparr>"

text \<open>Calls are numbered as they are made. The Teams login throws where it is not enabled.\<close>

fun auth_step :: "auth_env \<Rightarrow> auth_event \<Rightarrow> auth_world \<Rightarrow> auth_world" where
  "auth_step env Call w = (start_process (CallFirst (aw_calls w)) w)\<lparr>aw_calls := aw_calls w + 1\<rparr>"
| "auth_step env SignInWithTeams w =
     (if ae_teamsSsoEnabled env
      then (start_process SignInToken w)\<lparr>aw_state := start_teams_login (aw_state w)\<rparr> else w)"
| "auth_step env Authenticate w = start_process AuthenticateMe w"
| "auth_step env Logout w = start_process LogoutCall w"
| "auth_step env ClearError w = w\<lparr>aw_state := (aw_state w)\<lparr>au_authError := None\<rparr>\<rparr>"
| "auth_step env (AnswerTo i r) w =
     (if i < length (aw_processes w)
      then let oc = answered env (aw_processes w ! i) r (aw_state w)
           in w\<lparr>aw_state := oc_state oc,
                aw_processes := take i (aw_processes w) @ drop (Suc i) (aw_processes w) @ oc_next oc,
                aw_results := aw_results w @ oc_results oc\<rparr>
      else w)"

definition initial_world :: auth_world where
  "initial_world = \<lparr>aw_state = initial_auth, aw_processes = [InitMe], aw_results = [], aw_calls = 0\<rparr>"

definition auth_run :: "auth_env \<Rightarrow> auth_event list \<Rightarrow> auth_world \<Rightarrow> auth_world" where
  "auth_run env es w = fold (auth_step env) es w"

section \<open>The server's refresh tokens\<close>

record refresh_row =
  rr_user :: ident
  rr_expires_at :: number
  rr_revoked :: bool

type_synonym token_table = "(string, refresh_row) js_map"

definition revoke_all_for_user :: "ident \<Rightarrow> token_table \<Rightarrow> token_table" where
  "revoke_all_for_user user table =
     map (\<lambda>(t, row). (t, if rr_user row = user then row\<lparr>rr_revoked := True\<rparr> else row)) table"

text \<open>The tokens stand for their hashes; the new token and its expiry are arguments.\<close>

definition rotate_refresh_token ::
  "number \<Rightarrow> string \<Rightarrow> number \<Rightarrow> string \<Rightarrow> token_table \<Rightarrow> (js_error + ident \<times> string) \<times> token_table" where
  "rotate_refresh_token now new_token new_expiry token table = (case js_get table token of
       None \<Rightarrow> (Inl (ApiError 401 ''Invalid refresh token''), table)
     | Some row \<Rightarrow>
         if rr_revoked row
         then (Inl (ApiError 401 ''Refresh token reuse detected''), revoke_all_for_user (rr_user row) table)
         else if rr_expires_at row \<le> now
         then (Inl (ApiError 401 ''Refresh token expired''), js_set token (row\<lparr>rr_revoked := True\<rparr>) table)
         else (Inr (rr_user row, new_token),
           js_set new_token \<lparr>rr_user = rr_user row, rr_expires_at = new_expiry, rr_revoked = False\<rparr>
             (js_set token (row\<lparr>rr_revoked := True\<rparr>) table)))"

text \<open>What the client sees of it.\<close>

definition refresh_answer :: "js_error + ident \<times> string \<Rightarrow> answer" where
  "refresh_answer r = (case r of Inl e \<Rightarrow> Inl e | Inr _ \<Rightarrow> Inr (JObj [(''success'', JBool True)]))"

end
