(* ===== verification/AuthFacts.thy ===== *)
theory AuthFacts
  imports AuthSession "HOL-Library.Multiset"
begin

text \<open>
  Signing in ends, a call renews the session at most once, an expired session has no user; and what two renewals at
  the same time do to a session.
\<close>

lemma auth_run_simps [simp]:
  "auth_run env [] w = w" "auth_run env (e # es) w = auth_run env es (auth_step env e w)"
  by (simp_all add: auth_run_def)

lemma auth_run_invariant:
  assumes "I w" "\<And>e w. I w \<Longrightarrow> I (auth_step env e w)"
  shows "I (auth_run env es w)"
  unfolding auth_run_def by (rule fold_keeps) (use assms in auto)

lemma outcome_simps [simp]:
  "oc_state (goes_on s p) = s" "oc_next (goes_on s p) = [p]" "oc_results (goes_on s p) = []"
  "oc_state (ends s) = s" "oc_next (ends s) = []" "oc_results (ends s) = []"
  "oc_state (returns c r s) = s" "oc_next (returns c r s) = []" "oc_results (returns c r s) = [(c, r)]"
  "oc_state (with_effect env oc) = oc_state oc" "oc_results (with_effect env oc) = oc_results oc"
  "oc_next (with_effect env oc) = oc_next oc @
     (if ae_teamsSsoEnabled env \<and> au_user (oc_state oc) \<noteq> None then [DetectTeams (au_effect (oc_state oc))] else [])"
  by (simp_all add: goes_on_def ends_def returns_def with_effect_def)

lemma state_simps [simp]:
  "au_user (set_user u s) = u" "au_sessionExpired (set_user u s) = au_sessionExpired s"
  "au_loading (set_user u s) = au_loading s"
  "au_user (clearAuthState b s) = None" "au_sessionExpired (clearAuthState b s) = b"
  "au_loading (clearAuthState b s) = au_loading s"
  "au_user (completeAuthentication p s) = Some p" "au_sessionExpired (completeAuthentication p s) = False"
  "au_loading (completeAuthentication p s) = au_loading s"
  "au_user (start_teams_login s) = au_user s" "au_sessionExpired (start_teams_login s) = au_sessionExpired s"
  "au_loading (start_teams_login s) = au_loading s"
  by (simp_all add: set_user_def clearAuthState_def completeAuthentication_def start_teams_login_def)

lemmas failing_defs = init_ends_def init_fails_def init_teams_def init_refresh_failed_def init_teams_failed_def
  call_refresh_failed_def after_refresh_def first_attempt_def Let_def

lemma mset_take_out: "i < length xs \<Longrightarrow> add_mset (xs ! i) (mset (take i xs) + mset (drop (Suc i) xs)) = mset xs"
  by (metis id_take_nth_drop mset_append mset.simps(2) union_mset_add_mset_right)

section \<open>The state\<close>

fun is_init :: "process \<Rightarrow> bool" where
  "is_init InitMe = True" | "is_init InitRefresh = True" | "is_init InitRefreshMe = True"
| "is_init InitTeamsToken = True" | "is_init InitTeamsLogin = True" | "is_init InitTeamsMe = True"
| "is_init _ = False"

definition inits :: "process list \<Rightarrow> nat" where
  "inits ps = size (filter_mset is_init (mset ps))"

lemma inits_simps [simp]:
  "inits [] = 0" "inits (p # ps) = (if is_init p then 1 else 0) + inits ps" "inits (ps @ qs) = inits ps + inits qs"
  by (simp_all add: inits_def)

lemma inits_take_out: "i < length ps \<Longrightarrow>
  inits ps = (if is_init (ps ! i) then 1 else 0) + inits (take i ps) + inits (drop (Suc i) ps)"
  unfolding inits_def by (subst mset_take_out [symmetric, of i ps]) auto

definition auth_ok :: "auth_world \<Rightarrow> bool" where
  "auth_ok w \<longleftrightarrow> (au_sessionExpired (aw_state w) \<longrightarrow> au_user (aw_state w) = None) \<and>
     inits (aw_processes w) = (if au_loading (aw_state w) then 1 else 0)"

lemma answered_expired:
  "(au_sessionExpired s \<longrightarrow> au_user s = None) \<Longrightarrow>
   au_sessionExpired (oc_state (answered env p r s)) \<Longrightarrow> au_user (oc_state (answered env p r s)) = None"
  by (induction env p r s rule: answered.induct)
    (auto simp: failing_defs split: if_splits sum.splits js_error.splits attempt.splits)

lemma answered_loading:
  "inits (oc_next (answered env p r s)) = (if is_init p \<and> au_loading (oc_state (answered env p r s)) then 1 else 0)
   \<and> (\<not> is_init p \<longrightarrow> au_loading (oc_state (answered env p r s)) = au_loading s)"
  if "is_init p \<longrightarrow> au_loading s"
  using that by (induction env p r s rule: answered.induct)
    (auto simp: failing_defs split: if_splits sum.splits js_error.splits attempt.splits)

lemma auth_ok_step: "auth_ok w \<Longrightarrow> auth_ok (auth_step env e w)"
proof (cases e)
  case (AnswerTo i r)
  assume ok: "auth_ok w"
  show ?thesis
  proof (cases "i < length (aw_processes w)")
    case True
    let ?p = "aw_processes w ! i"
    have out: "inits (aw_processes w) = (if is_init ?p then 1 else 0) +
        inits (take i (aw_processes w)) + inits (drop (Suc i) (aw_processes w))"
      using True by (rule inits_take_out)
    then have "is_init ?p \<longrightarrow> au_loading (aw_state w)" using ok by (auto simp: auth_ok_def split: if_splits)
    from answered_loading [OF this, of env r] answered_expired [of "aw_state w" env ?p r]
    show ?thesis using AnswerTo True ok out
      by (auto simp: auth_ok_def Let_def split: if_splits)
  qed (use AnswerTo ok in simp)
qed (auto simp: auth_ok_def start_process_def)

text \<open>
  In every state the sign-in reaches, however the answers are ordered, an expired session
  has no user, and the application is loading exactly while its one initialisation waits for
  an answer.
\<close>

theorem auth_state_consistent:
  "let w = auth_run env es initial_world
   in (au_sessionExpired (aw_state w) \<longrightarrow> au_user (aw_state w) = None) \<and>
      size (filter_mset is_init (mset (aw_processes w))) = (if au_loading (aw_state w) then 1 else 0)"
proof -
  have "auth_ok initial_world" by (simp add: auth_ok_def initial_world_def initial_auth_def)
  then have "auth_ok (auth_run env es initial_world)" by (rule auth_run_invariant) (rule auth_ok_step)
  then show ?thesis by (simp add: auth_ok_def inits_def Let_def)
qed

section \<open>Calls\<close>

fun call_of :: "process \<Rightarrow> nat option" where
  "call_of (CallFirst c) = Some c" | "call_of (CallRefresh c _) = Some c"
| "call_of (CallRefreshMe c _) = Some c" | "call_of (CallSecond c) = Some c"
| "call_of _ = None"

text \<open>
  What a call is to do, told by the answers that came to it, in their order: the first answer is
  its result unless it is 401; then the session is to be renewed and, once it is, the profile
  read and the call made a second and last time, whose answer is the result whatever it is. A
  renewal or profile refused with 401 gives the first error back, any other failure of them
  is thrown itself.
\<close>

fun says_401 :: "js_error \<Rightarrow> bool" where
  "says_401 (ApiError status _) \<longleftrightarrow> status = 401"
| "says_401 _ = False"

datatype call_stage =
  Trying | RenewingFor js_error | ReadingFor js_error | TryingAgain | Over answer

fun course :: "answer list \<Rightarrow> call_stage" where
  "course [] = Trying"
| "course (Inr v # _) = Over (Inr v)"
| "course [Inl e] = (if says_401 e then RenewingFor e else Over (Inl e))"
| "course (Inl e # Inl e' # _) = Over (Inl (if says_401 e' then e else e'))"
| "course [Inl e, Inr _] = ReadingFor e"
| "course (Inl e # Inr _ # Inl e' # _) = Over (Inl (if says_401 e' then e else e'))"
| "course [Inl e, Inr _, Inr _] = TryingAgain"
| "course (Inl _ # Inr _ # Inr _ # r # _) = Over r"

fun waits_as :: "nat \<Rightarrow> call_stage \<Rightarrow> process list" where
  "waits_as c Trying = [CallFirst c]"
| "waits_as c (RenewingFor e) = [CallRefresh c e]"
| "waits_as c (ReadingFor e) = [CallRefreshMe c e]"
| "waits_as c TryingAgain = [CallSecond c]"
| "waits_as c (Over r) = []"

fun ended_with :: "call_stage \<Rightarrow> answer list" where
  "ended_with (Over r) = [r]"
| "ended_with _ = []"

text \<open>
  What an answer to the call does to the session: a profile read signs the user in, a
  renewal refused with 401 leaves no user and a session declared expired, and nothing else
  changes it.
\<close>

definition session_after :: "call_stage \<Rightarrow> answer \<Rightarrow> auth_state \<Rightarrow> auth_state \<Rightarrow> bool" where
  "session_after stage r s s' \<longleftrightarrow>
     (let renews = (case stage of RenewingFor _ \<Rightarrow> True | ReadingFor _ \<Rightarrow> True | _ \<Rightarrow> False)
      in case r of
           Inl e \<Rightarrow> if renews \<and> says_401 e then au_user s' = None \<and> au_sessionExpired s' else s' = s
         | Inr v \<Rightarrow> (case stage of
               ReadingFor _ \<Rightarrow> au_user s' = Some v \<and> \<not> au_sessionExpired s' \<and> au_authError s' = None
             | _ \<Rightarrow> s' = s))"

text \<open>The answers that come to a call in a run, and what the world knows of the call.\<close>

fun answers_to :: "auth_env \<Rightarrow> nat \<Rightarrow> auth_event list \<Rightarrow> auth_world \<Rightarrow> answer list" where
  "answers_to env c [] w = []"
| "answers_to env c (e # es) w =
     (case e of
        AnswerTo i r \<Rightarrow>
          if i < length (aw_processes w) \<and> call_of (aw_processes w ! i) = Some c then [r] else []
      | _ \<Rightarrow> []) @ answers_to env c es (auth_step env e w)"

definition waiting_of :: "nat \<Rightarrow> process list \<Rightarrow> process list" where
  "waiting_of c = filter (\<lambda>p. call_of p = Some c)"

definition results_of :: "nat \<Rightarrow> (nat \<times> answer) list \<Rightarrow> answer list" where
  "results_of c rs = map snd (filter (\<lambda>x. fst x = c) rs)"

lemma of_call_simps [simp]:
  "waiting_of c [] = []" "waiting_of c (p # ps) = (if call_of p = Some c then [p] else []) @ waiting_of c ps"
  "waiting_of c (ps @ qs) = waiting_of c ps @ waiting_of c qs"
  "results_of c [] = []" "results_of c (x # rs) = (if fst x = c then [snd x] else []) @ results_of c rs"
  "results_of c (rs @ rs') = results_of c rs @ results_of c rs'"
  by (simp_all add: waiting_of_def results_of_def)

lemma answers_to_snoc:
  "answers_to env c (es @ [e]) w = answers_to env c es w @ answers_to env c [e] (auth_run env es w)"
  by (induction es arbitrary: w) simp_all

lemma answered_other:
  "call_of p \<noteq> Some c \<Longrightarrow> waiting_of c (oc_next (answered env p r s)) = [] \<and>
     results_of c (oc_results (answered env p r s)) = []"
  by (induction env p r s rule: answered.induct)
    (auto simp: failing_defs split: if_splits sum.splits js_error.splits attempt.splits)

lemma unauthorized_says_401: "isUnauthorizedError e = says_401 e"
  by (cases e) simp_all

lemma first_of: "first_attempt r = (case course [r] of RenewingFor e \<Rightarrow> Renew e | _ \<Rightarrow> Done r)"
  by (auto simp: first_attempt_def split: sum.split js_error.split)

lemma auth_error_cleared [simp]: "au_authError (completeAuthentication p s) = None"
  by (simp add: completeAuthentication_def)

lemma answered_course:
  assumes "waits_as c (course as) = [p]"
  shows "waiting_of c (oc_next (answered env p r s)) = waits_as c (course (as @ [r])) \<and>
    results_of c (oc_results (answered env p r s)) = ended_with (course (as @ [r])) \<and>
    session_after (course as) r s (oc_state (answered env p r s))"
  using assms
  by (cases as rule: course.cases; cases r)
    (auto simp: first_of call_refresh_failed_def after_refresh_def unauthorized_says_401
      session_after_def Let_def split: if_splits)

lemma waiting_split:
  assumes "i < length ps"
  shows "waiting_of c ps = waiting_of c (take i ps) @
    (if call_of (ps ! i) = Some c then [ps ! i] else []) @ waiting_of c (drop (Suc i) ps)"
  using arg_cong [OF id_take_nth_drop [OF assms], of "waiting_of c"] by (simp only: of_call_simps)

lemma only_one:
  assumes "i < length ps" "call_of (ps ! i) = Some c" "waiting_of c ps = waits_as c stage"
  shows "waits_as c stage = [ps ! i] \<and> waiting_of c (take i ps) = [] \<and> waiting_of c (drop (Suc i) ps) = []"
proof -
  have "waits_as c stage = waiting_of c (take i ps) @ [ps ! i] @ waiting_of c (drop (Suc i) ps)"
    using waiting_split [OF assms(1), of c] assms(2,3) by simp
  moreover have "length (waits_as c stage) \<le> 1" by (cases stage) simp_all
  ultimately show ?thesis by simp
qed

lemma without_other: "i < length ps \<Longrightarrow> call_of (ps ! i) \<noteq> Some c \<Longrightarrow>
  waiting_of c (take i ps) @ waiting_of c (drop (Suc i) ps) = waiting_of c ps"
  using waiting_split [of i ps c] by simp

definition follows_course :: "nat \<Rightarrow> answer list \<Rightarrow> auth_world \<Rightarrow> bool" where
  "follows_course c as w \<longleftrightarrow>
     (if c < aw_calls w
      then waiting_of c (aw_processes w) = waits_as c (course as) \<and>
        results_of c (aw_results w) = ended_with (course as)
      else waiting_of c (aw_processes w) = [] \<and> results_of c (aw_results w) = [] \<and> as = [])"

lemma waiting_has_no_result: "waits_as c stage = [p] \<Longrightarrow> ended_with stage = []"
  by (cases stage) simp_all

lemma not_waiting: "waiting_of c ps = [] \<Longrightarrow> i < length ps \<Longrightarrow> call_of (ps ! i) \<noteq> Some c"
  by (auto simp: waiting_of_def filter_empty_conv)

lemma follows_step:
  assumes "follows_course c as w"
  shows "follows_course c (as @ answers_to env c [e] w) (auth_step env e w)"
proof (cases e)
  case (AnswerTo i r)
  show ?thesis
  proof (cases "i < length (aw_processes w) \<and> call_of (aw_processes w ! i) = Some c")
    case True
    then have made: "c < aw_calls w" using assms not_waiting by (auto simp: follows_course_def split: if_splits)
    then have here: "waiting_of c (aw_processes w) = waits_as c (course as)"
        "results_of c (aw_results w) = ended_with (course as)"
      using assms by (simp_all add: follows_course_def)
    from only_one [OF _ _ here(1)] True have
      "waits_as c (course as) = [aw_processes w ! i]"
      "waiting_of c (take i (aw_processes w)) = []" "waiting_of c (drop (Suc i) (aw_processes w)) = []" by blast+
    then show ?thesis
      using AnswerTo True made here(2) answered_course [of c as "aw_processes w ! i" env r "aw_state w"]
        waiting_has_no_result [of c "course as"]
      by (simp add: follows_course_def Let_def)
  next
    case False
    then show ?thesis
      using AnswerTo assms answered_other [of "aw_processes w ! i" c env r "aw_state w"]
        without_other [of i "aw_processes w" c]
      by (auto simp: follows_course_def Let_def)
  qed
qed (use assms in \<open>auto simp: follows_course_def start_process_def less_Suc_eq split: if_splits\<close>)

lemma run_follows: "follows_course c (answers_to env c es initial_world) (auth_run env es initial_world)"
proof (induction es rule: rev_induct)
  case Nil
  then show ?case by (simp add: follows_course_def initial_world_def)
next
  case (snoc e es)
  have "auth_run env (es @ [e]) initial_world = auth_step env e (auth_run env es initial_world)"
    by (simp add: auth_run_def)
  then show ?case using follows_step [OF snoc.IH, of env e] by (simp only: answers_to_snoc)
qed

text \<open>
  C27. A call renews the session at most once and then tries once more. In every run, whatever
  the other calls, sign-ins and renewals do in between, a call that was made is exactly where
  the answers that came to it put it: a 401 to the first try, and nothing else, starts a
  renewal; a renewed session is followed by the second try, whose answer is the result even
  if it is 401; a renewal refused with 401 gives the first error back, another failure of it is
  thrown itself; a call that is over has one result and waits for nothing. An answer to a call
  changes the session only by a renewal: a profile read signs the user in, a refusal with 401
  leaves no user and declares the session expired.
\<close>

theorem calls_renew_once:
  assumes "w = auth_run env es initial_world" "c < aw_calls w"
    and "stage = course (answers_to env c es initial_world)"
  shows "waiting_of c (aw_processes w) = waits_as c stage \<and>
    results_of c (aw_results w) = ended_with stage \<and>
    (\<forall>i r. i < length (aw_processes w) \<and> call_of (aw_processes w ! i) = Some c \<longrightarrow>
      session_after stage r (aw_state w) (aw_state (auth_step env (AnswerTo i r) w)))"
proof -
  have here: "waiting_of c (aw_processes w) = waits_as c stage \<and> results_of c (aw_results w) = ended_with stage"
    using run_follows [of c env es] assms by (simp add: follows_course_def)
  moreover have "session_after stage r (aw_state w) (aw_state (auth_step env (AnswerTo i r) w))"
    if "i < length (aw_processes w)" "call_of (aw_processes w ! i) = Some c" for i r
    using only_one [OF that conjunct1 [OF here]] that assms(3)
      answered_course [of c "answers_to env c es initial_world" "aw_processes w ! i" env r "aw_state w"]
    by (simp add: Let_def)
  ultimately show ?thesis by blast
qed

section \<open>Everything ends\<close>

fun answers_left :: "process \<Rightarrow> nat" where
  "answers_left InitMe = 7" | "answers_left InitRefresh = 6" | "answers_left InitRefreshMe = 5"
| "answers_left InitTeamsToken = 4" | "answers_left InitTeamsLogin = 3" | "answers_left InitTeamsMe = 2"
| "answers_left (CallFirst _) = 5" | "answers_left (CallRefresh _ _) = 4"
| "answers_left (CallRefreshMe _ _) = 3" | "answers_left (CallSecond _) = 1"
| "answers_left SignInToken = 4" | "answers_left SignInLogin = 3" | "answers_left SignInMe = 2"
| "answers_left AuthenticateMe = 2" | "answers_left LogoutCall = 1" | "answers_left (DetectTeams _) = 1"

definition total_left :: "process list \<Rightarrow> nat" where
  "total_left ps = sum_list (map answers_left ps)"

lemma total_left_simps [simp]:
  "total_left [] = 0" "total_left (p # ps) = answers_left p + total_left ps"
  "total_left (ps @ qs) = total_left ps + total_left qs"
  by (simp_all add: total_left_def)

lemma answered_left: "total_left (oc_next (answered env p r s)) < answers_left p"
  by (induction env p r s rule: answered.induct)
    (auto simp: failing_defs split: if_splits sum.splits js_error.splits attempt.splits)

lemma total_left_take_out: "i < length ps \<Longrightarrow>
  total_left ps = answers_left (ps ! i) + total_left (take i ps) + total_left (drop (Suc i) ps)"
  by (subst id_take_nth_drop [of i ps]) simp_all

text \<open>
  Nothing waits forever: every answer leaves strictly fewer answers to wait for, so once
  the user does nothing the sign-in, the renewals and the calls are over after a bounded
  number of answers, seven for the initialisation and five for a call.
\<close>

theorem answers_run_out:
  assumes "i < length (aw_processes w)"
  shows "total_left (aw_processes (auth_step env (AnswerTo i r) w)) < total_left (aw_processes w)"
  using total_left_take_out [OF assms] answered_left [of env "aw_processes w ! i" r "aw_state w"] assms
  by (simp add: Let_def)

definition demo_env :: auth_env where
  "demo_env = \<lparr>ae_teamsSsoEnabled = True, ae_teamsForceMode = False, ae_topLevelWindow = True,
     ae_status_text = (\<lambda>_. [])\<rparr>"

text \<open>A first call finds the session expired, and its renewal is refused.\<close>

lemma auth_state_consistent_witness:
  "let w = auth_run demo_env [AnswerTo 0 (Inr JNull), Call, AnswerTo 1 (Inl (ApiError 401 [])),
       AnswerTo 1 (Inl (ApiError 401 []))] initial_world
   in au_sessionExpired (aw_state w) \<and> au_user (aw_state w) = None"
proof -
  let ?es = "[AnswerTo 0 (Inr JNull), Call, AnswerTo 1 (Inl (ApiError 401 [])), AnswerTo 1 (Inl (ApiError 401 []))]"
  have "au_sessionExpired (aw_state (auth_run demo_env ?es initial_world))" by code_simp
  then show ?thesis using auth_state_consistent [of demo_env ?es] unfolding Let_def by blast
qed

lemma calls_renew_once_witness:
  "results_of 0 (aw_results (auth_run demo_env [Call, AnswerTo 1 (Inl (ApiError 401 [])), AnswerTo 1 (Inr JNull),
     AnswerTo 1 (Inr JNull), AnswerTo 1 (Inl (ApiError 401 ''again''))] initial_world)) =
   [Inl (ApiError 401 ''again'')]"
proof -
  define es where "es = [Call, AnswerTo 1 (Inl (ApiError 401 [])), AnswerTo 1 (Inr JNull),
     AnswerTo 1 (Inr JNull), AnswerTo 1 (Inl (ApiError 401 ''again''))]"
  have "answers_to demo_env 0 es initial_world =
      [Inl (ApiError 401 []), Inr JNull, Inr JNull, Inl (ApiError 401 ''again'')]"
    and "0 < aw_calls (auth_run demo_env es initial_world)"
    unfolding es_def by code_simp+
  then show ?thesis unfolding es_def [symmetric]
    using calls_renew_once [OF refl _ refl, of 0 demo_env es] by simp
qed

lemma answers_run_out_witness:
  "total_left (aw_processes (auth_step demo_env (AnswerTo 0 (Inl AbortError)) initial_world)) < 7"
  using answers_run_out [of 0 initial_world demo_env "Inl AbortError"] by (simp add: initial_world_def)

section \<open>Two renewals at the same time\<close>

lemma revoke_all_get:
  "js_get (revoke_all_for_user u table) t =
   map_option (\<lambda>row. if rr_user row = u then row\<lparr>rr_revoked := True\<rparr> else row) (js_get table t)"
  by (simp add: revoke_all_for_user_def map_of_map)

text \<open>
  Two calls that find the session expired at the same time lose it: both renewals send the
  same refresh token; the server renews the session for the first and takes the second for a
  theft, so it revokes every token of the user, the new one included; the client then has no
  user, declares the session expired and throws the second call's error, although the session
  could have been renewed.
\<close>

theorem concurrent_renewals_lose_the_session:
  assumes "js_get table token = Some row" "\<not> rr_revoked row" "now < rr_expires_at row" "new_token \<noteq> token"
    and "aw_processes w = [CallRefresh c1 e1, CallRefresh c2 e2]"
    and "rotate_refresh_token now new_token expiry1 token table = (r1, table1)"
    and "rotate_refresh_token later newer_token expiry2 token table1 = (r2, table2)"
  shows "r1 = Inr (rr_user row, new_token) \<and>
    r2 = Inl (ApiError 401 ''Refresh token reuse detected'') \<and>
    (let w2 = auth_run env [AnswerTo 0 (refresh_answer r1), AnswerTo 0 (refresh_answer r2)] w
     in au_user (aw_state w2) = None \<and> au_sessionExpired (aw_state w2) \<and>
        aw_results w2 = aw_results w @ [(c2, Inl e2)]) \<and>
    fst (rotate_refresh_token even_later newest_token expiry3 new_token table2) =
      Inl (ApiError 401 ''Refresh token reuse detected'')"
proof -
  have r1: "r1 = Inr (rr_user row, new_token)"
      "table1 = js_set new_token \<lparr>rr_user = rr_user row, rr_expires_at = expiry1, rr_revoked = False\<rparr>
        (js_set token (row\<lparr>rr_revoked := True\<rparr>) table)"
    using assms(1-3,6) by (auto simp: rotate_refresh_token_def)
  have "js_get table1 token = Some (row\<lparr>rr_revoked := True\<rparr>)"
    using assms(4) by (simp add: r1(2) update_conv')
  then have r2: "r2 = Inl (ApiError 401 ''Refresh token reuse detected'')"
      "table2 = revoke_all_for_user (rr_user row) table1"
    using assms(7) by (auto simp: rotate_refresh_token_def)
  have "js_get table2 new_token = Some \<lparr>rr_user = rr_user row, rr_expires_at = expiry1, rr_revoked = True\<rparr>"
    by (simp add: r2(2) revoke_all_get r1(2) update_conv')
  then have "fst (rotate_refresh_token even_later newest_token expiry3 new_token table2) =
      Inl (ApiError 401 ''Refresh token reuse detected'')"
    by (simp add: rotate_refresh_token_def)
  moreover have "auth_run env [AnswerTo 0 (refresh_answer r1), AnswerTo 0 (refresh_answer r2)] w =
      w\<lparr>aw_state := clearAuthState True (clearAuthState False (aw_state w)),
        aw_processes := [CallRefreshMe c1 e1], aw_results := aw_results w @ [(c2, Inl e2)]\<rparr>"
    unfolding r1(1) r2(1)
    by (simp add: assms(5) refresh_answer_def Let_def call_refresh_failed_def after_refresh_def)
  ultimately show ?thesis using r1(1) r2(1) by (simp add: Let_def)
qed

lemma concurrent_renewals_lose_the_session_witness:
  "fst (rotate_refresh_token 3 ''c'' 9 ''a''
     (snd (rotate_refresh_token 2 ''b'' 9 ''a'' [(''a'', \<lparr>rr_user = ''u'', rr_expires_at = 9, rr_revoked = False\<rparr>)]))) =
   Inl (ApiError 401 ''Refresh token reuse detected'')"
proof -
  let ?t = "[(''a'', \<lparr>rr_user = ''u'', rr_expires_at = 9, rr_revoked = False\<rparr>)]"
  let ?w = "initial_world\<lparr>aw_processes := [CallRefresh 0 AbortError, CallRefresh 1 AbortError]\<rparr>"
  from concurrent_renewals_lose_the_session
    [of ?t "''a''" "\<lparr>rr_user = ''u'', rr_expires_at = 9, rr_revoked = False\<rparr>" 2 "''b''" ?w 0 AbortError 1 AbortError 9
      _ _ 3 "''c''" 9, OF _ _ _ _ _ prod.collapse [symmetric] prod.collapse [symmetric]]
  show ?thesis by simp
qed

end
