(* ===== verification/EvalReports.thy ===== *)
theory EvalReports
  imports TraceProjection PublicStorage
begin

text \<open>
  What the pages of evaluation reports compute (app-internal/src/evals/lib/report-utils.ts) and
  the model settings they keep in the browser (evals/lib/model-storage.ts).

  \<open>eval_host\<close> holds what is taken from the host: numbers in the locale with their bounds of
  fraction digits, the product with 100 as floating point computes it, timestamps, the three
  marks of an assertion, \<open>String\<close> of a value and \<open>localeCompare\<close>. Averages are exact here.
\<close>

record eval_host =
  eh_locale :: "number \<Rightarrow> (nat option \<times> nat option) \<Rightarrow> string"
  eh_percent :: "number \<Rightarrow> number"
  eh_timestamp :: "string \<Rightarrow> string"
  eh_passed :: string
  eh_failed :: string
  eh_dot :: string
  eh_String :: "json \<Rightarrow> string"
  eh_compare :: "string \<Rightarrow> string \<Rightarrow> number"

record eval_case =
  ec_name :: string
  ec_stats :: attributes

record eval_report =
  er_generatedAt :: string
  er_repeats :: "number option"
  er_concurrency :: "number option"
  er_caseCount :: number
  er_runCount :: number
  er_isInternal :: "bool option"
  er_modelConfigs :: attributes
  er_cases :: "eval_case list"

section \<open>Text\<close>

definition formatOptionalNumber :: "eval_host \<Rightarrow> number option \<Rightarrow> string" where
  "formatOptionalNumber h v = (case v of None \<Rightarrow> ''-'' | Some x \<Rightarrow> eh_locale h x (None, Some 4))"

definition formatModelTemperature :: "eval_host \<Rightarrow> number option \<Rightarrow> string" where
  "formatModelTemperature h v = (case v of None \<Rightarrow> [] | Some _ \<Rightarrow> formatOptionalNumber h v)"

definition formatModelValue :: "string option \<Rightarrow> string" where
  "formatModelValue v = (case v of None \<Rightarrow> ''-'' | Some s \<Rightarrow> if s = [] then ''-'' else s)"

definition formatEvalAudience :: "bool option \<Rightarrow> string" where
  "formatEvalAudience v = (case v of Some True \<Rightarrow> ''Internal VA'' | Some False \<Rightarrow> ''Public VA''
     | None \<Rightarrow> ''Mixed/unknown'')"

definition formatReportMeta :: "eval_host \<Rightarrow> eval_report \<Rightarrow> string" where
  "formatReportMeta h report = join_with ('' '' @ eh_dot h @ '' '') (
     [''Generated '' @ eh_timestamp h (er_generatedAt report),
      ''Repeats '' @ formatOptionalNumber h (er_repeats report),
      ''Concurrency '' @ formatOptionalNumber h (er_concurrency report),
      eh_locale h (er_caseCount report) (None, None) @ '' cases'',
      eh_locale h (er_runCount report) (None, None) @ '' runs''] @
     (if er_isInternal report \<noteq> None then [formatEvalAudience (er_isInternal report)] else []))"

definition is_integer :: "number \<Rightarrow> bool" where
  "is_integer x \<longleftrightarrow> snd (quotient_of x) = 1"

definition formatPercent :: "eval_host \<Rightarrow> number option \<Rightarrow> string" where
  "formatPercent h v = (case v of None \<Rightarrow> ''-'' | Some x \<Rightarrow>
     (let pct = eh_percent h x
      in (if is_integer pct then eh_locale h pct (None, None) else eh_locale h pct (Some 1, Some 1)) @ ''%''))"

definition formatDeltaPercent :: "eval_host \<Rightarrow> number option \<Rightarrow> string" where
  "formatDeltaPercent h v = (case v of None \<Rightarrow> ''-'' | Some x \<Rightarrow>
     (let pct = eh_percent h x
      in (if pct > 0 then ''+'' else []) @ eh_locale h pct (None, Some (if is_integer pct then 0 else 1)) @ ''%''))"

definition formatDurationValue :: "eval_host \<Rightarrow> number option \<Rightarrow> string" where
  "formatDurationValue h v = (case v of None \<Rightarrow> ''-'' | Some x \<Rightarrow> eh_locale h x (Some 2, Some 2) @ ''s'')"

definition formatDeltaDuration :: "eval_host \<Rightarrow> number option \<Rightarrow> string" where
  "formatDeltaDuration h v = (case v of None \<Rightarrow> ''-'' | Some x \<Rightarrow>
     (if x > 0 then ''+'' else []) @ eh_locale h x (Some 2, Some 2) @ ''s'')"

definition getDeltaClassName :: "number option \<Rightarrow> bool \<Rightarrow> string" where
  "getDeltaClassName delta positiveIsGood = (case delta of
       None \<Rightarrow> ''text-muted-foreground''
     | Some d \<Rightarrow>
         if d = 0 then ''text-muted-foreground''
         else let positiveClass = ''text-emerald-600 dark:text-emerald-400''
              in if positiveIsGood then (if d > 0 then positiveClass else ''text-destructive'')
                 else (if d > 0 then ''text-destructive'' else positiveClass))"

definition resolveModelDelta :: "string option \<Rightarrow> string option \<Rightarrow> string \<times> string" where
  "resolveModelDelta left right = (case (left, right) of
       (Some l, Some r) \<Rightarrow>
         if l = [] \<or> r = [] then (''-'', ''text-muted-foreground'')
         else if l = r then (''Same'', ''text-muted-foreground'')
         else (''Changed'', ''text-foreground'')
     | _ \<Rightarrow> (''-'', ''text-muted-foreground''))"

text \<open>The later report first; \<open>None\<close> where a date is not one, which the sort reads as equal.\<close>

definition sortReportsByGenerated :: "js_host \<Rightarrow> eval_report \<Rightarrow> eval_report \<Rightarrow> number option" where
  "sortReportsByGenerated h left right =
     (case (Date_parse h (er_generatedAt right), Date_parse h (er_generatedAt left)) of
        (Some r, Some l) \<Rightarrow> Some (r - l) | _ \<Rightarrow> None)"

section \<open>The summary of the cases\<close>

definition numberFromUnknown :: "json option \<Rightarrow> number option" where
  "numberFromUnknown v = as_number v"

definition stat :: "eval_case \<Rightarrow> string \<Rightarrow> json option" where
  "stat c k = map_of (ec_stats c) k"

text \<open>The entries of a value that is an object, and of one that is not.\<close>

definition entries_of :: "json option \<Rightarrow> (string \<times> json) list" where
  "entries_of v = (case v of Some (JObj fs) \<Rightarrow> fs | _ \<Rightarrow> [])"

record case_summary =
  cs_caseName :: string
  cs_runs :: "number option"
  cs_passRate :: "number option"
  cs_runtimeErrorRate :: "number option"
  cs_durationMin :: "number option"
  cs_durationMedian :: "number option"
  cs_durationMax :: "number option"
  cs_assertions :: string

definition formatAssertionSummary :: "eval_host \<Rightarrow> json option \<Rightarrow> string" where
  "formatAssertionSummary h assertionPassRates = join_with '', '' (map (\<lambda>(name, v).
     (let rate = numberFromUnknown (Some v);
          status = (if rate = Some 1 then eh_passed h else if rate = Some 0 then eh_failed h else ''~'')
      in status @ '' '' @ name @ '': '' @ formatPercent h rate)) (entries_of assertionPassRates))"

definition parseSummaryTable :: "eval_host \<Rightarrow> eval_report \<Rightarrow> case_summary list" where
  "parseSummaryTable h report = map (\<lambda>c.
     \<lparr>cs_caseName = ec_name c, cs_runs = numberFromUnknown (stat c ''runs''),
      cs_passRate = numberFromUnknown (stat c ''pass_rate''),
      cs_runtimeErrorRate = numberFromUnknown (stat c ''runtime_error_rate''),
      cs_durationMin = numberFromUnknown (stat c ''duration_min''),
      cs_durationMedian = numberFromUnknown (stat c ''duration_median''),
      cs_durationMax = numberFromUnknown (stat c ''duration_max''),
      cs_assertions = formatAssertionSummary h (stat c ''assertion_pass_rates'')\<rparr>) (er_cases report)"

record score_summary =
  ss_caseName :: string
  ss_scoreName :: string
  ss_min :: "number option"
  ss_median :: "number option"
  ss_max :: "number option"

definition score_stat :: "eval_case \<Rightarrow> string \<Rightarrow> string \<Rightarrow> number option" where
  "score_stat c k scoreName = numberFromUnknown (map_of (entries_of (stat c k)) scoreName)"

definition buildScoreSummaryRows :: "eval_report \<Rightarrow> score_summary list" where
  "buildScoreSummaryRows report = concat (map (\<lambda>c. map (\<lambda>(scoreName, _).
     \<lparr>ss_caseName = ec_name c, ss_scoreName = scoreName, ss_min = score_stat c ''score_mins'' scoreName,
      ss_median = score_stat c ''score_medians'' scoreName, ss_max = score_stat c ''score_maxs'' scoreName\<rparr>)
     (entries_of (stat c ''score_means''))) (er_cases report))"

section \<open>Averages over the cases\<close>

type_synonym collected = "(string, number list) js_map"

definition collect_entry :: "string \<times> json \<Rightarrow> collected \<Rightarrow> collected" where
  "collect_entry e m = (case numberFromUnknown (Some (snd e)) of
       None \<Rightarrow> m
     | Some x \<Rightarrow> js_set (fst e) (coalesce (js_get m (fst e)) [] @ [x]) m)"

definition collect_case :: "string \<Rightarrow> eval_case \<Rightarrow> collected \<Rightarrow> collected" where
  "collect_case k c m = fold collect_entry (entries_of (stat c k)) m"

definition averages :: "collected \<Rightarrow> (string \<times> number) list" where
  "averages m = map (\<lambda>(name, xs). (name, sum_list xs / of_nat (length xs))) m"

definition buildOverallAverages :: "eval_report \<Rightarrow> (string \<times> number) list \<times> (string \<times> number) list" where
  "buildOverallAverages report =
     (let (assertionRates, scoreMeans) = fold (\<lambda>c (a, s).
            (collect_case ''assertion_pass_rates'' c a, collect_case ''score_means'' c s)) (er_cases report) ([], [])
      in (averages assertionRates, averages scoreMeans))"

section \<open>Models\<close>

definition modelSupportsTemperature :: "string \<Rightarrow> bool" where
  "modelSupportsTemperature model \<longleftrightarrow> \<not> str_includes model ''gpt-5''"

datatype model_role_key = ChatbotRole | GuardrailsRole

definition resolveModelRoleKey :: "string \<Rightarrow> model_role_key option" where
  "resolveModelRoleKey role =
     (let normalized = to_lower (trim role)
      in if str_includes normalized ''chatbot'' then Some ChatbotRole
         else if str_includes normalized ''guardrail'' then Some GuardrailsRole
         else None)"

record model_config =
  mc_role :: string
  mc_model :: string
  mc_temperature :: "number option"
  mc_maxTokens :: "number option"

definition parse_model_config :: "eval_host \<Rightarrow> string \<times> json \<Rightarrow> model_config" where
  "parse_model_config h e = (case e of (role, rawConfig) \<Rightarrow>
     if \<not> is_object rawConfig
     then \<lparr>mc_role = role, mc_model = eh_String h rawConfig, mc_temperature = None, mc_maxTokens = None\<rparr>
     else let model = coalesce (as_string (field_of rawConfig ''model'')) []
          in \<lparr>mc_role = role, mc_model = model,
              mc_temperature = (if modelSupportsTemperature model
                then numberFromUnknown (field_of rawConfig ''temperature'') else None),
              mc_maxTokens = numberFromUnknown (field_of rawConfig ''max_tokens'')\<rparr>)"

definition parseModelConfigurations :: "eval_host \<Rightarrow> bool option \<Rightarrow> attributes \<Rightarrow> model_config list" where
  "parseModelConfigurations h isInternal modelConfigs =
     sort_by (\<lambda>left right. eh_compare h (mc_role left) (mc_role right))
       (map (parse_model_config h)
         (filter (\<lambda>(role, _). isInternal \<noteq> Some True \<or> role \<noteq> ''extractor'') modelConfigs))"

definition buildModelRoleMap :: "eval_host \<Rightarrow> bool option \<Rightarrow> attributes \<Rightarrow> (model_role_key, string) js_map" where
  "buildModelRoleMap h isInternal modelConfigs = fold (\<lambda>config roles.
     case resolveModelRoleKey (mc_role config) of
       None \<Rightarrow> roles | Some roleKey \<Rightarrow> js_set roleKey (mc_model config) roles)
     (parseModelConfigurations h isInternal modelConfigs) []"

section \<open>Two reports side by side\<close>

record 'a compare_row =
  xr_key :: string
  xr_left :: "'a option"
  xr_right :: "'a option"

text \<open>\<open>new Map(\<dots>)\<close> of a list: a later entry with the same key replaces an earlier one.\<close>

definition last_by :: "('a \<Rightarrow> string) \<Rightarrow> 'a list \<Rightarrow> string \<Rightarrow> 'a option" where
  "last_by key xs k = map_of (rev (map (\<lambda>x. (key x, x)) xs)) k"

definition buildCompareRows :: "case_summary list \<Rightarrow> case_summary list \<Rightarrow> case_summary compare_row list" where
  "buildCompareRows left right =
     map (\<lambda>s. \<lparr>xr_key = cs_caseName s, xr_left = Some s, xr_right = last_by cs_caseName right (cs_caseName s)\<rparr>) left @
     map (\<lambda>s. \<lparr>xr_key = cs_caseName s, xr_left = None, xr_right = Some s\<rparr>)
       (filter (\<lambda>s. last_by cs_caseName left (cs_caseName s) = None) right)"

text \<open>The keys of both maps, each once, in the order of first occurrence.\<close>

definition buildModelCompareRows ::
  "eval_host \<Rightarrow> model_config list \<Rightarrow> model_config list \<Rightarrow> model_config compare_row list" where
  "buildModelCompareRows h left right =
     (let roles = fold set_add (map mc_role left @ map mc_role right) []
      in map (\<lambda>role. \<lparr>xr_key = role, xr_left = last_by mc_role left role, xr_right = last_by mc_role right role\<rparr>)
           (sort_by (eh_compare h) roles))"

section \<open>Stored settings\<close>

record model_settings =
  ms_chatbotModel :: "string option"
  ms_guardrailModel :: "string option"
  ms_evaluationModel :: "string option"

record model_preset = model_settings +
  mp_name :: string

definition MODEL_CONFIG_STORAGE_KEY :: string where
  "MODEL_CONFIG_STORAGE_KEY = ''va.internal.evals.model-config''"

definition MODEL_FAVORITES_STORAGE_KEY :: string where
  "MODEL_FAVORITES_STORAGE_KEY = ''va.internal.evals.model-favorites''"

definition MODEL_PRESETS_STORAGE_KEY :: string where
  "MODEL_PRESETS_STORAGE_KEY = ''va.internal.evals.model-presets''"

definition settings_fields :: "'a model_settings_scheme \<Rightarrow> (string \<times> json) list" where
  "settings_fields s =
     (case ms_chatbotModel s of None \<Rightarrow> [] | Some m \<Rightarrow> [(''chatbotModel'', JStr m)]) @
     (case ms_guardrailModel s of None \<Rightarrow> [] | Some m \<Rightarrow> [(''guardrailModel'', JStr m)]) @
     (case ms_evaluationModel s of None \<Rightarrow> [] | Some m \<Rightarrow> [(''evaluationModel'', JStr m)])"

text \<open>
  Reading an item is outside the \<open>try\<close>, so it may throw; a missing, empty or unreadable text
  gives the default.
\<close>

definition read_parsed :: "json_parser \<Rightarrow> string \<Rightarrow> storage \<Rightarrow> js_error + json option" where
  "read_parsed parse k st = (case getItem k st of
       Inl e \<Rightarrow> Inl e
     | Inr None \<Rightarrow> Inr None
     | Inr (Some stored) \<Rightarrow> if stored = [] then Inr None else Inr (parse stored))"

definition readStoredModelConfig :: "json_parser \<Rightarrow> storage \<Rightarrow> js_error + model_settings option" where
  "readStoredModelConfig parse st = (case read_parsed parse MODEL_CONFIG_STORAGE_KEY st of
       Inl e \<Rightarrow> Inl e
     | Inr None \<Rightarrow> Inr None
     | Inr (Some parsed) \<Rightarrow>
         if \<not> isRecord parsed then Inr None
         else Inr (Some \<lparr>ms_chatbotModel = as_string (field_of parsed ''chatbotModel''),
           ms_guardrailModel = as_string (field_of parsed ''guardrailModel''),
           ms_evaluationModel = as_string (field_of parsed ''evaluationModel'')\<rparr>))"

definition readStoredModelFavorites :: "json_parser \<Rightarrow> storage \<Rightarrow> js_error + string list" where
  "readStoredModelFavorites parse st = (case read_parsed parse MODEL_FAVORITES_STORAGE_KEY st of
       Inl e \<Rightarrow> Inl e
     | Inr parsed \<Rightarrow> Inr (case as_array parsed of
           None \<Rightarrow> [] | Some vs \<Rightarrow> List.map_filter (\<lambda>v. as_string (Some v)) vs))"

definition named_model :: "json \<Rightarrow> string \<Rightarrow> string option" where
  "named_model entry k = (case as_string (field_of entry k) of
       Some m \<Rightarrow> if m \<noteq> [] then Some m else None | None \<Rightarrow> None)"

definition read_preset :: "json \<Rightarrow> model_preset option" where
  "read_preset entry =
     (if \<not> isRecord entry then None
      else let name = trim (coalesce (as_string (field_of entry ''name'')) [])
           in if name = [] then None
              else Some \<lparr>ms_chatbotModel = named_model entry ''chatbotModel'',
                ms_guardrailModel = named_model entry ''guardrailModel'',
                ms_evaluationModel = named_model entry ''evaluationModel'', mp_name = name\<rparr>)"

definition readStoredModelPresets :: "json_parser \<Rightarrow> storage \<Rightarrow> (js_error + model_preset list) \<times> storage" where
  "readStoredModelPresets parse st = (case getItem MODEL_PRESETS_STORAGE_KEY st of
       Inl e \<Rightarrow> (Inl e, st)
     | Inr None \<Rightarrow> (Inr [], st)
     | Inr (Some stored) \<Rightarrow>
         if stored = [] then (Inr [], st)
         else (case parse stored of
             None \<Rightarrow> (Inr [], st\<lparr>st_items := js_delete MODEL_PRESETS_STORAGE_KEY (st_items st)\<rparr>)
           | Some parsed \<Rightarrow> (case as_array (Some parsed) of
                 None \<Rightarrow> (Inr [], st)
               | Some entries \<Rightarrow> (Inr (List.map_filter read_preset entries), st))))"

definition writeStoredModelConfig :: "json_writer \<Rightarrow> model_settings \<Rightarrow> storage \<Rightarrow> js_error + storage" where
  "writeStoredModelConfig stringify s st =
     setItem MODEL_CONFIG_STORAGE_KEY (stringify (JObj (settings_fields s))) st"

definition writeStoredModelFavorites :: "json_writer \<Rightarrow> string list \<Rightarrow> storage \<Rightarrow> js_error + storage" where
  "writeStoredModelFavorites stringify favorites st =
     setItem MODEL_FAVORITES_STORAGE_KEY (stringify (JArr (map JStr favorites))) st"

definition writeStoredModelPresets :: "json_writer \<Rightarrow> model_preset list \<Rightarrow> storage \<Rightarrow> js_error + storage" where
  "writeStoredModelPresets stringify presets st = setItem MODEL_PRESETS_STORAGE_KEY
     (stringify (JArr (map (\<lambda>p. JObj ((''name'', JStr (mp_name p)) # settings_fields p)) presets))) st"

end
