(* ===== verification/EvalFacts.thy ===== *)
theory EvalFacts
  imports EvalReports TraceProjectionFacts
begin

text \<open>
  Averages are means of what the cases report, two reports are compared case by case without
  losing one, and stored settings are read back.
\<close>

section \<open>Averages\<close>

text \<open>The reference: the numbers the cases give under a name, in the order of the cases.\<close>

definition reported :: "string \<Rightarrow> string \<Rightarrow> eval_case list \<Rightarrow> number list" where
  "reported k name cs = List.map_filter (\<lambda>c. numberFromUnknown (map_of (entries_of (stat c k)) name)) cs"

lemma collect_entry_get:
  "js_get (collect_entry e m) name =
   (if name = fst e then (case numberFromUnknown (Some (snd e)) of None \<Rightarrow> js_get m name
      | Some x \<Rightarrow> Some (coalesce (js_get m name) [] @ [x])) else js_get m name)"
  by (auto simp: collect_entry_def update_conv' split: option.splits)

lemma collect_entries_get:
  "distinct (map fst es) \<Longrightarrow>
   js_get (fold collect_entry es m) name =
   (case numberFromUnknown (map_of es name) of None \<Rightarrow> js_get m name
      | Some x \<Rightarrow> Some (coalesce (js_get m name) [] @ [x]))"
proof (induction es arbitrary: m)
  case (Cons e es)
  then have ih: "js_get (fold collect_entry (e # es) m) name =
      (case numberFromUnknown (map_of es name) of None \<Rightarrow> js_get (collect_entry e m) name
        | Some x \<Rightarrow> Some (coalesce (js_get (collect_entry e m) name) [] @ [x]))" by simp
  show ?case
  proof (cases "name = fst e")
    case True
    then have "map_of es name = None" using Cons.prems by (auto simp: map_of_eq_None_iff)
    then show ?thesis unfolding ih collect_entry_get using True by (cases e) (simp add: numberFromUnknown_def)
  next
    case False
    then show ?thesis unfolding ih collect_entry_get by (cases e) simp
  qed
qed (simp add: numberFromUnknown_def)

definition reports_once :: "string \<Rightarrow> eval_case list \<Rightarrow> bool" where
  "reports_once k cs \<longleftrightarrow> list_all (\<lambda>c. distinct (map fst (entries_of (stat c k)))) cs"

lemma collect_cases_get:
  "reports_once k cs \<Longrightarrow>
   js_get (fold (collect_case k) cs m) name =
   (if reported k name cs = [] then js_get m name
    else Some (coalesce (js_get m name) [] @ reported k name cs))"
proof (induction cs arbitrary: m)
  case (Cons c cs)
  then have c: "js_get (collect_case k c m) name =
      (case numberFromUnknown (map_of (entries_of (stat c k)) name) of None \<Rightarrow> js_get m name
        | Some x \<Rightarrow> Some (coalesce (js_get m name) [] @ [x]))"
    by (simp add: collect_case_def collect_entries_get reports_once_def)
  have ih: "js_get (fold (collect_case k) (c # cs) m) name =
      (if reported k name cs = [] then js_get (collect_case k c m) name
       else Some (coalesce (js_get (collect_case k c m) name) [] @ reported k name cs))"
    using Cons by (simp add: reports_once_def)
  show ?case unfolding ih c
    by (cases "numberFromUnknown (map_of (entries_of (stat c k)) name)")
      (auto simp: reported_def map_filter_simps)
qed (simp add: reported_def map_filter_simps)

lemma fold_pair: "fold (\<lambda>c (a, s). (f c a, g c s)) cs (a, s) = (fold f cs a, fold g cs s)"
  by (induction cs arbitrary: a s) simp_all

lemma averages_get:
  "map_of (averages m) name = map_option (\<lambda>xs. sum_list xs / of_nat (length xs)) (js_get m name)"
  unfolding averages_def by (induction m) auto

definition mean :: "number list \<Rightarrow> number" where
  "mean xs = sum_list xs / of_nat (length xs)"

lemma mean_bounds:
  assumes "xs \<noteq> []" "\<And>x. x \<in> set xs \<Longrightarrow> a \<le> x \<and> x \<le> b"
  shows "a \<le> mean xs \<and> mean xs \<le> b"
proof -
  have "of_nat (length xs) * a \<le> sum_list xs \<and> sum_list xs \<le> of_nat (length xs) * b"
    using assms(2) by (induction xs) (auto simp: algebra_simps add_mono)
  then show ?thesis using assms(1) by (auto simp: mean_def field_simps)
qed

text \<open>
  C34. The overall average of an assertion, and of a score, is the mean of exactly the numbers
  the cases report under its name, and is there if and only if some case reports one; a rate
  all cases report between two bounds averages between them.
\<close>

theorem overall_average_is_the_mean:
  assumes "reports_once ''assertion_pass_rates'' (er_cases r)" "reports_once ''score_means'' (er_cases r)"
  shows "map_of (fst (buildOverallAverages r)) name =
      (let xs = reported ''assertion_pass_rates'' name (er_cases r) in if xs = [] then None else Some (mean xs)) \<and>
    map_of (snd (buildOverallAverages r)) name =
      (let xs = reported ''score_means'' name (er_cases r) in if xs = [] then None else Some (mean xs)) \<and>
    (\<forall>a b. (\<forall>x \<in> set (reported ''assertion_pass_rates'' name (er_cases r)). a \<le> x \<and> x \<le> b) \<longrightarrow>
      (\<forall>y. map_of (fst (buildOverallAverages r)) name = Some y \<longrightarrow> a \<le> y \<and> y \<le> b))"
proof -
  have eq: "buildOverallAverages r =
      (averages (fold (collect_case ''assertion_pass_rates'') (er_cases r) []),
       averages (fold (collect_case ''score_means'') (er_cases r) []))"
    by (simp add: buildOverallAverages_def fold_pair)
  have "map_of (fst (buildOverallAverages r)) name =
      (let xs = reported ''assertion_pass_rates'' name (er_cases r) in if xs = [] then None else Some (mean xs))"
    unfolding eq by (simp add: averages_get collect_cases_get [OF assms(1)] mean_def Let_def)
  moreover have "map_of (snd (buildOverallAverages r)) name =
      (let xs = reported ''score_means'' name (er_cases r) in if xs = [] then None else Some (mean xs))"
    unfolding eq by (simp add: averages_get collect_cases_get [OF assms(2)] mean_def Let_def)
  ultimately show ?thesis
    using mean_bounds [of "reported ''assertion_pass_rates'' name (er_cases r)"] by (auto simp: Let_def split: if_splits)
qed

section \<open>Two reports\<close>

lemma last_by_None: "last_by key xs k = None \<longleftrightarrow> k \<notin> key ` set xs"
  by (auto simp: last_by_def map_of_eq_None_iff image_image)

lemma last_by_Some: "last_by key xs k = Some x \<Longrightarrow> x \<in> set xs \<and> key x = k"
  unfolding last_by_def by (drule map_of_SomeD) auto

lemma last_by_distinct: "distinct (map key xs) \<Longrightarrow> x \<in> set xs \<Longrightarrow> last_by key xs (key x) = Some x"
  unfolding last_by_def by (rule map_of_is_SomeI) (auto simp: comp_def rev_map [symmetric] distinct_map)

text \<open>
  Comparing two reports loses no case: with distinct case names there is one row for every
  name of either report, the left report's cases first in their order, and a row holds
  exactly what each report has under its name.
\<close>

theorem comparison_is_complete:
  assumes "distinct (map cs_caseName left)" "distinct (map cs_caseName right)"
  shows "map xr_key (buildCompareRows left right) =
      map cs_caseName left @ filter (\<lambda>n. n \<notin> cs_caseName ` set left) (map cs_caseName right) \<and>
    distinct (map xr_key (buildCompareRows left right)) \<and>
    (\<forall>row \<in> set (buildCompareRows left right).
      xr_left row = last_by cs_caseName left (xr_key row) \<and> xr_right row = last_by cs_caseName right (xr_key row))"
proof -
  have keys: "map xr_key (buildCompareRows left right) =
      map cs_caseName left @ filter (\<lambda>n. n \<notin> cs_caseName ` set left) (map cs_caseName right)"
    by (simp add: buildCompareRows_def comp_def filter_map last_by_None)
  moreover have "distinct (map cs_caseName left @ filter (\<lambda>n. n \<notin> cs_caseName ` set left) (map cs_caseName right))"
    using assms by auto
  moreover have "xr_left row = last_by cs_caseName left (xr_key row) \<and> xr_right row = last_by cs_caseName right (xr_key row)"
    if "row \<in> set (buildCompareRows left right)" for row
    using that last_by_distinct [OF assms(1)] last_by_distinct [OF assms(2)]
    by (auto simp: buildCompareRows_def)
  ultimately show ?thesis by metis
qed

lemma sorted_insert_by:
  assumes "\<And>a b. cmp a b \<le> 0 \<or> cmp b a \<le> 0" "\<And>a b c. cmp a b \<le> 0 \<Longrightarrow> cmp b c \<le> 0 \<Longrightarrow> cmp a c \<le> (0 :: number)"
    and "sorted_wrt (\<lambda>a b. cmp a b \<le> 0) xs"
  shows "sorted_wrt (\<lambda>a b. cmp a b \<le> 0) (insert_by cmp x xs)"
proof -
  have set: "set (insert_by cmp x ys) = insert x (set ys)" for ys by (induction ys) auto
  show ?thesis using assms(3)
  proof (induction xs)
    case (Cons y ys)
    then show ?case using assms(1) [of x y] assms(2) [of x y] by (auto simp: set)
  qed simp
qed

lemma sorted_sort_by:
  assumes "\<And>a b. cmp a b \<le> 0 \<or> cmp b a \<le> 0" "\<And>a b c. cmp a b \<le> 0 \<Longrightarrow> cmp b c \<le> 0 \<Longrightarrow> cmp a c \<le> (0 :: number)"
  shows "sorted_wrt (\<lambda>a b. cmp a b \<le> 0) (sort_by cmp xs)"
proof (induction xs)
  case (Cons x xs)
  then show ?case using sorted_insert_by [OF assms] by (simp add: sort_by_def)
qed (simp add: sort_by_def)

lemma fold_set_add_distinct: "distinct ys \<Longrightarrow> distinct (fold set_add xs ys) \<and> set (fold set_add xs ys) = set xs \<union> set ys"
  by (induction xs arbitrary: ys) (auto simp: distinct_set_add)

text \<open>
  The models of two reports are compared role by role: every role of either report once,
  in the order of the locale, with what each report configures last for it.
\<close>

theorem model_comparison_by_role:
  assumes "\<And>a b. eh_compare h a b \<le> 0 \<or> eh_compare h b a \<le> 0"
    and "\<And>a b c. eh_compare h a b \<le> 0 \<Longrightarrow> eh_compare h b c \<le> 0 \<Longrightarrow> eh_compare h a c \<le> 0"
  shows "set (map xr_key (buildModelCompareRows h left right)) = mc_role ` (set left \<union> set right) \<and>
    distinct (map xr_key (buildModelCompareRows h left right)) \<and>
    sorted_wrt (\<lambda>a b. eh_compare h a b \<le> 0) (map xr_key (buildModelCompareRows h left right)) \<and>
    (\<forall>row \<in> set (buildModelCompareRows h left right).
      xr_left row = last_by mc_role left (xr_key row) \<and> xr_right row = last_by mc_role right (xr_key row))"
proof -
  let ?roles = "fold set_add (map mc_role left @ map mc_role right) []"
  have keys: "map xr_key (buildModelCompareRows h left right) = sort_by (eh_compare h) ?roles"
    by (simp add: buildModelCompareRows_def comp_def)
  have roles: "distinct ?roles \<and> set ?roles = mc_role ` (set left \<union> set right)"
    using fold_set_add_distinct [of "[]" "map mc_role left @ map mc_role right"] by (auto simp del: fold_append)
  have "distinct (sort_by (eh_compare h) ?roles)"
    using roles mset_eq_imp_distinct_iff [OF mset_sort_by [of "eh_compare h" ?roles]] by blast
  moreover have "set (sort_by (eh_compare h) ?roles) = mc_role ` (set left \<union> set right)" using roles by simp
  moreover have "sorted_wrt (\<lambda>a b. eh_compare h a b \<le> 0) (sort_by (eh_compare h) ?roles)"
    by (rule sorted_sort_by) (use assms in auto)
  ultimately show ?thesis
    unfolding keys by (auto simp: buildModelCompareRows_def)
qed

section \<open>Stored settings\<close>

lemma settings_read:
  "as_string (map_of (settings_fields s @ rest) ''chatbotModel'') =
     (case ms_chatbotModel s of Some m \<Rightarrow> Some m | None \<Rightarrow> as_string (map_of rest ''chatbotModel''))"
  "as_string (map_of (settings_fields s @ rest) ''guardrailModel'') =
     (case ms_guardrailModel s of Some m \<Rightarrow> Some m | None \<Rightarrow> as_string (map_of rest ''guardrailModel''))"
  "as_string (map_of (settings_fields s @ rest) ''evaluationModel'') =
     (case ms_evaluationModel s of Some m \<Rightarrow> Some m | None \<Rightarrow> as_string (map_of rest ''evaluationModel''))"
  by (auto simp: settings_fields_def split: option.splits)

lemma settings_read_own:
  "as_string (map_of (settings_fields s) ''chatbotModel'') = ms_chatbotModel s"
  "as_string (map_of (settings_fields s) ''guardrailModel'') = ms_guardrailModel s"
  "as_string (map_of (settings_fields s) ''evaluationModel'') = ms_evaluationModel s"
  using settings_read [of s "[]"] by (simp_all split: option.splits)

lemma written_read:
  assumes "json_codec parse stringify" "parse [] = None" "setItem k (stringify j) st = Inr st'"
  shows "getItem k st' = Inr (Some (stringify j)) \<and> stringify j \<noteq> [] \<and> read_parsed parse k st' = Inr (Some j)"
proof -
  have read: "parse (stringify j) = Some j" using json_codec.parse_stringify [OF assms(1)] .
  then have "stringify j \<noteq> []" using assms(2) by auto
  moreover have "getItem k st' = Inr (Some (stringify j))"
    using assms(3) by (auto simp: setItem_def getItem_def update_conv' split: if_splits)
  ultimately show ?thesis using read by (simp add: read_parsed_def)
qed

lemma map_filter_strings: "List.map_filter (\<lambda>v. as_string (Some v)) (map JStr ss) = ss"
  by (induction ss) (simp_all add: map_filter_simps)

text \<open>A preset the reader accepts as it is: a trimmed name and no empty model.\<close>

definition preset_ok :: "model_preset \<Rightarrow> bool" where
  "preset_ok p \<longleftrightarrow> trim (mp_name p) = mp_name p \<and> mp_name p \<noteq> [] \<and>
     ms_chatbotModel p \<noteq> Some [] \<and> ms_guardrailModel p \<noteq> Some [] \<and> ms_evaluationModel p \<noteq> Some []"

lemma read_written_preset:
  "preset_ok p \<Longrightarrow> read_preset (JObj ((''name'', JStr (mp_name p)) # settings_fields p)) = Some p"
  by (auto simp: preset_ok_def read_preset_def named_model_def settings_read_own Let_def split: option.splits)


lemma map_filter_presets:
  "list_all preset_ok ps \<Longrightarrow>
   List.map_filter read_preset (map (\<lambda>p. JObj ((''name'', JStr (mp_name p)) # settings_fields p)) ps) = ps"
  by (induction ps) (simp_all add: map_filter_simps read_written_preset)

text \<open>
  The model settings are read back: after a write that the browser accepts, the stored
  models and favourites are exactly those written, and so are presets with trimmed names and
  no empty model.
\<close>

theorem model_settings_read_back:
  assumes "json_codec parse stringify" "parse [] = None"
  shows "(writeStoredModelConfig stringify s st = Inr st' \<longrightarrow> readStoredModelConfig parse st' = Inr (Some s)) \<and>
    (writeStoredModelFavorites stringify fs st = Inr st' \<longrightarrow> readStoredModelFavorites parse st' = Inr fs) \<and>
    (writeStoredModelPresets stringify ps st = Inr st' \<longrightarrow> list_all preset_ok ps \<longrightarrow>
      readStoredModelPresets parse st' = (Inr ps, st'))"
proof (intro conjI impI)
  assume w: "writeStoredModelConfig stringify s st = Inr st'"
  then show "readStoredModelConfig parse st' = Inr (Some s)"
    using written_read [OF assms, of MODEL_CONFIG_STORAGE_KEY "JObj (settings_fields s)" st st']
    by (simp add: writeStoredModelConfig_def readStoredModelConfig_def settings_read_own)
next
  assume w: "writeStoredModelFavorites stringify fs st = Inr st'"
  then show "readStoredModelFavorites parse st' = Inr fs"
    using written_read [OF assms, of MODEL_FAVORITES_STORAGE_KEY "JArr (map JStr fs)" st st']
    by (simp add: writeStoredModelFavorites_def readStoredModelFavorites_def map_filter_strings)
next
  let ?j = "JArr (map (\<lambda>p. JObj ((''name'', JStr (mp_name p)) # settings_fields p)) ps)"
  assume w: "writeStoredModelPresets stringify ps st = Inr st'" and ok: "list_all preset_ok ps"
  then show "readStoredModelPresets parse st' = (Inr ps, st')"
    using written_read [OF assms, of MODEL_PRESETS_STORAGE_KEY ?j st st'] json_codec.parse_stringify [OF assms(1), of ?j]
      map_filter_presets [OF ok]
    by (simp add: writeStoredModelPresets_def readStoredModelPresets_def)
qed

section \<open>Instances\<close>

definition demo_case :: "string \<Rightarrow> number \<Rightarrow> eval_case" where
  "demo_case n x = \<lparr>ec_name = n, ec_stats = [(''assertion_pass_rates'', JObj [(''polite'', JNum x)])]\<rparr>"

definition demo_report :: eval_report where
  "demo_report = \<lparr>er_generatedAt = [], er_repeats = None, er_concurrency = None, er_caseCount = 2, er_runCount = 2,
     er_isInternal = None, er_modelConfigs = [], er_cases = [demo_case ''a'' 1, demo_case ''b'' 0]\<rparr>"

definition demo_summary :: "string \<Rightarrow> case_summary" where
  "demo_summary n = \<lparr>cs_caseName = n, cs_runs = None, cs_passRate = None, cs_runtimeErrorRate = None,
     cs_durationMin = None, cs_durationMedian = None, cs_durationMax = None, cs_assertions = []\<rparr>"

definition demo_model :: "string \<Rightarrow> model_config" where
  "demo_model r = \<lparr>mc_role = r, mc_model = ''m'', mc_temperature = None, mc_maxTokens = None\<rparr>"

definition length_host :: eval_host where
  "length_host = \<lparr>eh_locale = (\<lambda>_ _. []), eh_percent = (\<lambda>x. x * 100), eh_timestamp = (\<lambda>s. s), eh_passed = [],
     eh_failed = [], eh_dot = [], eh_String = (\<lambda>_. []), eh_compare = (\<lambda>a b. of_nat (length a) - of_nat (length b))\<rparr>"

lemma overall_average_is_the_mean_witness:
  "map_of (fst (buildOverallAverages demo_report)) ''polite'' = Some (1 / 2)"
proof -
  have "reports_once ''assertion_pass_rates'' (er_cases demo_report)" "reports_once ''score_means'' (er_cases demo_report)"
    by code_simp+
  from overall_average_is_the_mean [OF this, of "''polite''"]
  have "map_of (fst (buildOverallAverages demo_report)) ''polite'' =
      (let xs = reported ''assertion_pass_rates'' ''polite'' (er_cases demo_report) in if xs = [] then None else Some (mean xs))"
    by blast
  also have "\<dots> = Some (1 / 2)" by code_simp
  finally show ?thesis .
qed

lemma comparison_is_complete_witness:
  "map xr_key (buildCompareRows (map demo_summary [''a'', ''b'']) (map demo_summary [''c'', ''a''])) = [''a'', ''b'', ''c'']"
proof -
  have "distinct (map cs_caseName (map demo_summary [''a'', ''b'']))" "distinct (map cs_caseName (map demo_summary [''c'', ''a'']))"
    by (simp_all add: demo_summary_def)
  from comparison_is_complete [OF this] show ?thesis by (simp add: demo_summary_def)
qed

lemma model_comparison_by_role_witness:
  "set (map xr_key (buildModelCompareRows length_host (map demo_model [''judge'']) (map demo_model [''chatbot'', ''judge'']))) =
   {''judge'', ''chatbot''}"
proof -
  have "eh_compare length_host a b \<le> 0 \<or> eh_compare length_host b a \<le> 0" for a b
    by (simp add: length_host_def linear)
  moreover have "eh_compare length_host a c \<le> 0" if "eh_compare length_host a b \<le> 0" "eh_compare length_host b c \<le> 0" for a b c
    using that by (simp add: length_host_def)
  ultimately show ?thesis
    using model_comparison_by_role [of length_host "map demo_model [''judge'']" "map demo_model [''chatbot'', ''judge'']"]
    by (auto simp: demo_model_def)
qed

lemma model_settings_read_back_witness:
  "readStoredModelFavorites text_json
     \<lparr>st_items = [(MODEL_FAVORITES_STORAGE_KEY, json_text (JArr [JStr ''m'']))], st_readable = True, st_accepts = (\<lambda>_. True)\<rparr> =
   Inr [''m'']"
proof -
  let ?st = "\<lparr>st_items = [], st_readable = True, st_accepts = (\<lambda>_. True)\<rparr>"
  have "text_json [] = None" by code_simp
  from model_settings_read_back [OF prefix_code.json_codec_axioms this, of _ ?st _ "[''m'']"]
  show ?thesis by (simp add: writeStoredModelFavorites_def setItem_def)
qed

end
