(* ===== verification/TraceTiming.thy ===== *)
theory TraceTiming
  imports TraceProjection TraceTimeline
begin

text \<open>
  When the spans of a trace happened and how they nest: the timing part of
  traces/lib/trace-utils.ts, traces/lib/trace-view-utils.ts, the outcome of a span
  (traces/lib/trace-outcomes.ts) and the rows of the span navigator
  (traces/components/trace-turn-span-navigator.tsx).

  Instrumentations report times in several ways, some wrong (an end before the start, a
  negative duration, a log line that names a duration), hence the many ways to resolve them.
\<close>

section \<open>Formatting\<close>

definition formatPlatform :: "bool option \<Rightarrow> string" where
  "formatPlatform v = (case v of Some True \<Rightarrow> ''Public'' | Some False \<Rightarrow> ''Internal'' | None \<Rightarrow> ''Unknown'')"

section \<open>The time of a span\<close>

text \<open>
  \<open>Number\<close> of a text of digits and dots: not a number with two dots or without a digit. From
  half a unit above the largest finite number on the result is infinite.
\<close>

definition decimal_value :: "string \<Rightarrow> number option" where
  "decimal_value s =
     (let whole = takeWhile is_digit s;
          fraction = drop 1 (dropWhile is_digit s)
      in if list_all is_digit fraction \<and> whole @ fraction \<noteq> []
         then Some (digits_value whole + digits_value fraction / 10 ^ length fraction) else None)"

text \<open>
  The pattern \<open>\btook\s+([\d.]+)\s*(ms|s)\b\<close>, without case. No part can give back a character
  that a later part could use, so a match is decided from left to right; \<open>at_word\<close> tells
  whether the character before is one of a word.
\<close>

definition took_here :: "string \<Rightarrow> (string \<times> string) option" where
  "took_here s =
     (let rest = drop 4 s;
          number_on = dropWhile is_space rest;
          in_number = (\<lambda>c. is_digit c \<or> c = CHR ''.'');
          raw = takeWhile in_number number_on;
          after = to_lower (dropWhile is_space (dropWhile in_number number_on));
          ends = (\<lambda>t. t = [] \<or> \<not> word_char (hd t))
      in if to_lower (take 4 s) \<noteq> ''took'' \<or> number_on = rest \<or> raw = [] then None
         else if starts_with after ''ms'' \<and> ends (drop 2 after) then Some (raw, ''ms'')
         else if starts_with after ''s'' \<and> ends (drop 1 after) then Some (raw, ''s'')
         else None)"

fun took_match :: "bool \<Rightarrow> string \<Rightarrow> (string \<times> string) option" where
  "took_match at_word [] = None"
| "took_match at_word (c # s) = (case (if at_word then None else took_here (c # s)) of
     Some m \<Rightarrow> Some m | None \<Rightarrow> took_match (word_char c) s)"

definition parseDurationFromSpanName :: "string \<Rightarrow> number option" where
  "parseDurationFromSpanName name = (case took_match False name of
       None \<Rightarrow> None
     | Some (raw, unit) \<Rightarrow> (case finite_number (decimal_value raw) of
           None \<Rightarrow> None
         | Some x \<Rightarrow> Some (if unit = ''s'' then x * 1000 else x)))"

definition getRawSpanEnd :: "js_host \<Rightarrow> trace_span \<Rightarrow> number option" where
  "getRawSpanEnd h s = toTimestamp h (sp_end_time s)"

definition getPositiveDurationMs :: "trace_span \<Rightarrow> number option" where
  "getPositiveDurationMs s = (case sp_duration_ms s of
     None \<Rightarrow> None | Some d \<Rightarrow> if d > 0 then Some d else None)"

definition getNegativeDurationMs :: "trace_span \<Rightarrow> number option" where
  "getNegativeDurationMs s = (case sp_duration_ms s of
     None \<Rightarrow> None | Some d \<Rightarrow> if d < 0 then Some \<bar>d\<bar> else None)"

record timing =
  ti_start :: "number option"
  ti_end :: "number option"
  ti_durationMs :: "number option"

text \<open>A way to resolve the times is tried when the ways before it do not apply.\<close>

definition getResolvedSpanTiming :: "js_host \<Rightarrow> trace_span \<Rightarrow> timing" where
  "getResolvedSpanTiming h s =
     (let start = getSpanStart h s;
          finish = or_else (getRawSpanEnd h s) start;
          parsed = parseDurationFromSpanName (sp_name s);
          is_log = (getStringAttribute (span_attributes s) ''logfire.span_type'' = Some ''log'');
          resolved = (\<lambda>a b d. \<lparr>ti_start = Some a, ti_end = Some b, ti_durationMs = Some d\<rparr>);
          ordered = (case (start, finish) of
            (Some a, Some b) \<Rightarrow> if b > a then Some (resolved a b (b - a)) else None | _ \<Rightarrow> None);
          logged = (case (finish, parsed) of
            (Some b, Some d) \<Rightarrow> if is_log then Some (resolved (b - d) b d) else None | _ \<Rightarrow> None);
          lasting = (\<lambda>d. case (start, d) of
            (Some a, Some d) \<Rightarrow> Some (resolved a (a + d) d) | _ \<Rightarrow> None);
          swapped = (case (start, finish) of
            (Some a, Some b) \<Rightarrow> if b < a then Some (resolved a (a + \<bar>b - a\<bar>) \<bar>b - a\<bar>) else None | _ \<Rightarrow> None)
      in coalesce (or_else ordered (or_else logged (or_else (lasting (getNegativeDurationMs s))
           (or_else (lasting (getPositiveDurationMs s)) (or_else swapped (or_else logged (lasting parsed)))))))
         \<lparr>ti_start = start, ti_end = finish, ti_durationMs = None\<rparr>)"

definition start_of :: "js_host \<Rightarrow> trace_span \<Rightarrow> number" where
  "start_of h s = coalesce (ti_start (getResolvedSpanTiming h s)) 0"

definition getResolvedTraceTiming :: "js_host \<Rightarrow> trace_span list \<Rightarrow> timing" where
  "getResolvedTraceTiming h spans =
     (let startTimes = List.map_filter (\<lambda>s. ti_start (getResolvedSpanTiming h s)) spans;
          endTimes = List.map_filter (\<lambda>s. ti_end (getResolvedSpanTiming h s)) spans;
          start = (if startTimes \<noteq> [] then Some (Min (set startTimes)) else None);
          finish = (if endTimes \<noteq> [] then Some (Max (set endTimes)) else None)
      in \<lparr>ti_start = start, ti_end = finish,
          ti_durationMs = (case (start, finish) of
            (Some a, Some b) \<Rightarrow> if b > a then Some (b - a) else None | _ \<Rightarrow> None)\<rparr>)"

definition formatSpanDuration :: "js_host \<Rightarrow> format_host \<Rightarrow> trace_span \<Rightarrow> string" where
  "formatSpanDuration h fh s = formatDurationMs fh (ti_durationMs (getResolvedSpanTiming h s))"

record span_bar =
  sl_start :: number
  sl_end :: number
  sl_durationMs :: number
  sl_offsetMs :: number
  sl_offsetPct :: number
  sl_widthPct :: number

definition getSpanTimelineLayout ::
  "js_host \<Rightarrow> trace_span \<Rightarrow> number option \<Rightarrow> number option \<Rightarrow> span_bar option" where
  "getSpanTimelineLayout h s traceStart traceEnd =
     (let t = getResolvedSpanTiming h s
      in case (traceStart, traceEnd, ti_start t, ti_end t, ti_durationMs t) of
           (Some ts, Some te, Some a, Some b, Some d) \<Rightarrow>
             if te > ts
             then let rangeDuration = te - ts; offsetMs = a - ts
                  in Some \<lparr>sl_start = a, sl_end = b, sl_durationMs = d, sl_offsetMs = offsetMs,
                       sl_offsetPct = max (offsetMs / rangeDuration * 100) 0,
                       sl_widthPct = max (d / rangeDuration * 100) 2\<rparr>
             else None
         | _ \<Rightarrow> None)"

section \<open>The tree as a list\<close>

definition root_key :: string where
  "root_key = ''__root__''"

text \<open>The key a span is filed under, and the spans under a key in the order of their starts.\<close>

definition parent_key :: "trace_span list \<Rightarrow> trace_span \<Rightarrow> string" where
  "parent_key spans s = (case sp_parent_span_id s of
       None \<Rightarrow> root_key
     | Some p \<Rightarrow> if p \<noteq> [] \<and> p \<in> sp_span_id ` set spans then p else root_key)"

definition file_span :: "trace_span list \<Rightarrow> trace_span \<Rightarrow> (string, trace_span list) js_map \<Rightarrow>
  (string, trace_span list) js_map" where
  "file_span spans s m =
     js_set (parent_key spans s) (coalesce (js_get m (parent_key spans s)) [] @ [s]) m"

definition span_children :: "js_host \<Rightarrow> trace_span list \<Rightarrow> (string, trace_span list) js_map" where
  "span_children h spans =
     map (\<lambda>(k, ss). (k, sort_key (start_of h) ss)) (fold (file_span spans) spans [])"

text \<open>
  \<open>walk\<close> with a bound on the depth, \<open>None\<close> beyond it: where ids are not unique the recursion of
  the code may not end.
\<close>

fun walk_all :: "('a \<Rightarrow> 'b list option) \<Rightarrow> 'a list \<Rightarrow> 'b list option" where
  "walk_all f [] = Some []"
| "walk_all f (x # xs) = (case (f x, walk_all f xs) of (Some a, Some b) \<Rightarrow> Some (a @ b) | _ \<Rightarrow> None)"

fun walk_span :: "nat \<Rightarrow> (string, trace_span list) js_map \<Rightarrow> nat \<Rightarrow> trace_span \<Rightarrow>
  (trace_span \<times> nat) list option" where
  "walk_span 0 children depth s = None"
| "walk_span (Suc n) children depth s =
     map_option (\<lambda>rest. (s, depth) # rest)
       (walk_all (walk_span n children (Suc depth)) (coalesce (js_get children (sp_span_id s)) []))"

definition buildSpanTree :: "js_host \<Rightarrow> trace_span list \<Rightarrow> (trace_span \<times> nat) list option" where
  "buildSpanTree h spans =
     (let children = span_children h spans
      in walk_all (walk_span (length spans + 1) children 0) (coalesce (js_get children root_key) []))"

section \<open>The tree as a tree\<close>

text \<open>
  \<open>buildSpanHierarchy\<close> links mutable nodes, one per id, by reference. \<open>nodes\<close> gives the span of
  an id and \<open>links\<close> the ids of its children in the order they are pushed; the roots are ids, too.
\<close>

record node_store =
  nd_nodes :: "(ident, trace_span) js_map"
  nd_links :: "(ident, ident list) js_map"
  nd_roots :: "ident list"

definition node_parent :: "node_store \<Rightarrow> trace_span \<Rightarrow> ident option" where
  "node_parent st s = (case sp_parent_span_id s of
     None \<Rightarrow> None | Some p \<Rightarrow> if p \<noteq> [] \<and> js_has (nd_nodes st) p then Some p else None)"

definition link_node :: "trace_span \<Rightarrow> node_store \<Rightarrow> node_store" where
  "link_node s st = (case node_parent st s of
       Some p \<Rightarrow> st\<lparr>nd_links := js_set p (coalesce (js_get (nd_links st) p) [] @ [sp_span_id s]) (nd_links st)\<rparr>
     | None \<Rightarrow> st\<lparr>nd_roots := nd_roots st @ [sp_span_id s]\<rparr>)"

definition link_nodes :: "trace_span list \<Rightarrow> node_store" where
  "link_nodes spans = fold link_node spans
     \<lparr>nd_nodes = fold (\<lambda>s m. js_set (sp_span_id s) s m) spans [], nd_links = [], nd_roots = []\<rparr>"

datatype span_tree = SpanNode (node_span: trace_span) (node_children: "span_tree list")

definition sort_nodes :: "js_host \<Rightarrow> node_store \<Rightarrow> ident list \<Rightarrow> trace_span list" where
  "sort_nodes h st ids = sort_key (start_of h) (List.map_filter (js_get (nd_nodes st)) ids)"

fun all_some :: "'a option list \<Rightarrow> 'a list option" where
  "all_some [] = Some []"
| "all_some (x # xs) = (case (x, all_some xs) of (Some a, Some b) \<Rightarrow> Some (a # b) | _ \<Rightarrow> None)"

text \<open>\<open>sortNodes\<close>, which visits every node below; bounded in depth like \<open>walk_span\<close>.\<close>

fun grow :: "nat \<Rightarrow> js_host \<Rightarrow> node_store \<Rightarrow> trace_span \<Rightarrow> span_tree option" where
  "grow 0 h st s = None"
| "grow (Suc n) h st s =
     map_option (SpanNode s)
       (all_some (map (grow n h st) (sort_nodes h st (coalesce (js_get (nd_links st) (sp_span_id s)) []))))"

definition buildSpanHierarchy :: "js_host \<Rightarrow> trace_span list \<Rightarrow> span_tree list option" where
  "buildSpanHierarchy h spans =
     (let st = link_nodes spans
      in all_some (map (grow (length spans + 1) h st) (sort_nodes h st (nd_roots st))))"

section \<open>The navigator\<close>

fun flatten_node :: "ident set \<Rightarrow> nat \<Rightarrow> span_tree \<Rightarrow> (span_tree \<times> nat) list" where
  "flatten_node expanded depth (SpanNode s ts) =
     (SpanNode s ts, depth) #
     (if ts \<noteq> [] \<and> sp_span_id s \<in> expanded then concat (map (flatten_node expanded (Suc depth)) ts) else [])"

definition flattenExpandedSpanTree :: "span_tree list \<Rightarrow> ident set \<Rightarrow> (span_tree \<times> nat) list" where
  "flattenExpandedSpanTree tree expandedSpanIds = concat (map (flatten_node expandedSpanIds 0) tree)"

definition expandableSpanIds :: "trace_span list \<Rightarrow> ident set" where
  "expandableSpanIds spans =
     set (List.map_filter (\<lambda>s. case sp_parent_span_id s of
       None \<Rightarrow> None | Some p \<Rightarrow> if p \<noteq> [] then Some p else None) spans)"

definition toggleSpan :: "ident \<Rightarrow> ident set \<Rightarrow> ident set" where
  "toggleSpan i collapsed = (if i \<in> collapsed then collapsed - {i} else insert i collapsed)"

definition setSpansCollapsed :: "ident set \<Rightarrow> bool \<Rightarrow> ident set \<Rightarrow> ident set" where
  "setSpansCollapsed ids collapse collapsed = (if collapse then collapsed \<union> ids else collapsed - ids)"

text \<open>The button expands everything if anything is collapsed, and collapses everything otherwise.\<close>

definition collapse_all_button :: "trace_span list \<Rightarrow> ident set \<Rightarrow> ident set" where
  "collapse_all_button spans collapsed =
     setSpansCollapsed (expandableSpanIds spans) (expandableSpanIds spans \<inter> collapsed = {}) collapsed"

definition visible_nodes :: "js_host \<Rightarrow> trace_span list \<Rightarrow> ident set \<Rightarrow> (span_tree \<times> nat) list option" where
  "visible_nodes h spans collapsed =
     map_option (\<lambda>tree. flattenExpandedSpanTree tree (expandableSpanIds spans - collapsed)) (buildSpanHierarchy h spans)"

text \<open>The rows of the navigator's timeline: what trace-timeline.ts lays out.\<close>

definition span_row :: "trace_span \<times> nat \<Rightarrow> timeline_row" where
  "span_row e = \<lparr>tr_id = sp_span_id (fst e),
     tr_parentId = (case sp_parent_span_id (fst e) of None \<Rightarrow> Null | Some p \<Rightarrow> Value p), tr_depth = snd e\<rparr>"

definition span_rows :: "js_host \<Rightarrow> trace_span list \<Rightarrow> timeline_row list option" where
  "span_rows h spans = map_option (map span_row) (buildSpanTree h spans)"

section \<open>Outcomes\<close>

datatype trace_outcome = Pass | Fail | ErrorOutcome

definition getTraceSpanOutcome :: "trace_span option \<Rightarrow> trace_outcome option \<Rightarrow> trace_outcome option" where
  "getTraceSpanOutcome s overviewOutcome = or_else overviewOutcome
     (case s of None \<Rightarrow> None | Some s \<Rightarrow> if sp_status_code s = Some ''ERROR'' then Some ErrorOutcome else None)"

definition getAggregateFailedResultCount :: "overview_type \<Rightarrow> nat \<Rightarrow> nat option" where
  "getAggregateFailedResultCount kind failed =
     (if kind = EvaluationItem \<or> kind = EvaluationCaseItem then Some failed else None)"

definition traceOutcomeSurfaceClass :: "trace_outcome option \<Rightarrow> string" where
  "traceOutcomeSurfaceClass v = (case v of Some Fail \<Rightarrow> ''bg-destructive/10''
     | Some ErrorOutcome \<Rightarrow> ''bg-amber-500/10'' | _ \<Rightarrow> [])"

definition traceOutcomeRailClass :: "trace_outcome option \<Rightarrow> string" where
  "traceOutcomeRailClass v = (case v of Some Fail \<Rightarrow> ''!border-l-destructive border-l-2''
     | Some ErrorOutcome \<Rightarrow> ''!border-l-amber-600 border-l-2 dark:!border-l-amber-400'' | _ \<Rightarrow> [])"

definition traceOutcomeRowClass :: "trace_outcome option \<Rightarrow> string" where
  "traceOutcomeRowClass v =
     (let parts = filter (\<lambda>c. c \<noteq> []) [traceOutcomeRailClass v, traceOutcomeSurfaceClass v]
      in concat (map (\<lambda>(i, c). (if i = 0 then c else CHR '' '' # c)) (zip [0..<length parts] parts)))"

definition traceOutcomeBarClass :: "trace_outcome option \<Rightarrow> string \<Rightarrow> string" where
  "traceOutcomeBarClass v fallback = (case v of Some Fail \<Rightarrow> ''bg-destructive''
     | Some ErrorOutcome \<Rightarrow> ''bg-amber-600 dark:bg-amber-400''
     | Some Pass \<Rightarrow> ''bg-emerald-600 dark:bg-emerald-400''
     | None \<Rightarrow> fallback)"

definition traceTimelineBarClass :: "trace_outcome option \<Rightarrow> string" where
  "traceTimelineBarClass v = traceOutcomeBarClass v ''bg-muted-foreground''"

end
