(* ===== verification/TraceTreeFacts.thy ===== *)
theory TraceTreeFacts
  imports TraceTimingFacts "HOL-Library.Multiset"
begin

text \<open>
  The two views of the navigator: both list the spans whose ancestors end in a root, each
  once and at its depth, and spans whose parents form a circle in neither.
\<close>

section \<open>Children\<close>

lemma js_get_map: "js_get (map (\<lambda>(k, v). (k, f v)) m) k = map_option f (js_get m k)"
  by (simp add: map_of_map)

lemma file_spans_get:
  "coalesce (js_get (fold (file_span spans) xs m) k) [] =
   coalesce (js_get m k) [] @ filter (\<lambda>s. parent_key spans s = k) xs"
  by (induction xs arbitrary: m) (simp_all add: file_span_def update_conv')

definition kids_of :: "js_host \<Rightarrow> trace_span list \<Rightarrow> string \<Rightarrow> trace_span list" where
  "kids_of h spans k = sort_key (start_of h) (filter (\<lambda>s. parent_key spans s = k) spans)"

lemma children_get: "coalesce (js_get (span_children h spans) k) [] = kids_of h spans k"
proof -
  have "coalesce (js_get (span_children h spans) k) [] =
      sort_key (start_of h) (coalesce (js_get (fold (file_span spans) spans []) k) [])"
    unfolding span_children_def js_get_map by (cases "js_get (fold (file_span spans) spans []) k") simp_all
  then show ?thesis using file_spans_get [of spans spans "[]" k] by (simp add: kids_of_def)
qed

lemma set_kids_of [simp]: "set (kids_of h spans k) = {s \<in> set spans. parent_key spans s = k}"
  by (auto simp: kids_of_def)

lemma walk_all_eq:
  "walk_all f xs = (if \<forall>x \<in> set xs. f x \<noteq> None then Some (concat (map (\<lambda>x. the (f x)) xs)) else None)"
proof (induction xs)
  case (Cons x xs)
  then show ?case by (cases "f x") (auto split: if_splits)
qed simp

lemma walk_all_iff:
  "walk_all f xs = Some L \<longleftrightarrow> (\<forall>x \<in> set xs. f x \<noteq> None) \<and> L = concat (map (\<lambda>x. the (f x)) xs)"
  unfolding walk_all_eq by auto

lemma walk_all_None: "walk_all f xs = None \<longleftrightarrow> (\<exists>x \<in> set xs. f x = None)"
  unfolding walk_all_eq by auto

text \<open>What the span ids of a trace are: each once, none empty, and none the key of the roots.\<close>

definition ids_ok :: "trace_span list \<Rightarrow> bool" where
  "ids_ok spans \<longleftrightarrow> distinct (map sp_span_id spans) \<and> root_key \<notin> sp_span_id ` set spans \<and> [] \<notin> sp_span_id ` set spans"

lemma ids_okD:
  assumes "ids_ok spans"
  shows "distinct spans" "s \<in> set spans \<Longrightarrow> t \<in> set spans \<Longrightarrow> sp_span_id s = sp_span_id t \<longleftrightarrow> s = t"
    "s \<in> set spans \<Longrightarrow> sp_span_id s \<noteq> root_key"
proof -
  show "distinct spans" "s \<in> set spans \<Longrightarrow> t \<in> set spans \<Longrightarrow> sp_span_id s = sp_span_id t \<longleftrightarrow> s = t"
    using assms by (auto simp: ids_ok_def distinct_map dest: inj_onD)
  show "sp_span_id s \<noteq> root_key" if "s \<in> set spans"
    using assms imageI [OF that, of sp_span_id] unfolding ids_ok_def by metis
qed

section \<open>Rooted spans\<close>

inductive rooted :: "trace_span list \<Rightarrow> trace_span \<Rightarrow> nat \<Rightarrow> bool" for spans where
  root: "s \<in> set spans \<Longrightarrow> parent_key spans s = root_key \<Longrightarrow> rooted spans s 0"
| child: "s \<in> set spans \<Longrightarrow> rooted spans p i \<Longrightarrow> parent_key spans s = sp_span_id p \<Longrightarrow> rooted spans s (Suc i)"

inductive_cases rooted_ZeroE: "rooted spans s 0"
inductive_cases rooted_SucE: "rooted spans s (Suc i)"

lemma rooted_in: "rooted spans s i \<Longrightarrow> s \<in> set spans"
  by (auto elim: rooted.cases)

lemma rooted_unique: "rooted spans s i \<Longrightarrow> ids_ok spans \<Longrightarrow> rooted spans s j \<Longrightarrow> i = j"
proof (induction arbitrary: j rule: rooted.induct)
  case (root s)
  show ?case using root(4)
  proof (cases rule: rooted.cases)
    case (child p i)
    then have "sp_span_id p = root_key" using root(2) by simp
    then show ?thesis using ids_okD(3) [OF root(3) rooted_in [OF child(3)]] by simp
  qed simp
next
  case (child s p i)
  show ?case using child(6)
  proof (cases rule: rooted.cases)
    case root
    then show ?thesis using child ids_okD(3) rooted_in by metis
  next
    case (child p' i')
    then have "p' = p"
      using ids_okD(2) [OF \<open>ids_ok spans\<close> rooted_in rooted_in] \<open>rooted spans p i\<close> \<open>parent_key spans s = sp_span_id p\<close>
      by metis
    then show ?thesis using child \<open>ids_ok spans\<close> \<open>\<And>j. ids_ok spans \<Longrightarrow> rooted spans p j \<Longrightarrow> i = j\<close> by simp
  qed
qed

lemma rooted_above: "rooted spans s i \<Longrightarrow> j \<le> i \<Longrightarrow> \<exists>p. rooted spans p j"
proof (induction rule: rooted.induct)
  case (child s p i)
  then show ?case using rooted.child [OF child(1-3)] by (cases "j = Suc i") auto
qed (auto intro: rooted.root)

lemma rooted_bound:
  assumes "rooted spans s i" "ids_ok spans"
  shows "i < length spans"
proof -
  obtain f where f: "\<And>j. j \<le> i \<Longrightarrow> rooted spans (f j) j" using rooted_above [OF assms(1)] by metis
  have "inj_on f {..i}" using f rooted_unique [OF _ assms(2)] by (intro inj_onI) (metis atMost_iff)
  moreover have "f ` {..i} \<subseteq> set spans" using f rooted_in by auto
  ultimately have "card {..i} \<le> card (set spans)" by (rule card_inj_on_le) simp
  then show ?thesis using card_length [of spans] by simp
qed

section \<open>The walk\<close>

lemma walk_defined:
  "rooted spans s i \<Longrightarrow> ids_ok spans \<Longrightarrow> length spans \<le> n + i \<Longrightarrow>
   walk_span n (span_children h spans) d s \<noteq> None"
proof (induction n arbitrary: s i d)
  case 0
  then show ?case using rooted_bound by force
next
  case (Suc n)
  have "walk_span n (span_children h spans) (Suc d) c \<noteq> None" if "c \<in> set (kids_of h spans (sp_span_id s))" for c
    using that Suc.IH [of c "Suc i"] Suc.prems rooted.child by auto
  then show ?case by (auto simp: children_get walk_all_None)
qed

lemma walk_SucD:
  assumes "walk_span (Suc n) (span_children h spans) d s = Some L"
  shows "L = (s, d) # concat (map (\<lambda>c. the (walk_span n (span_children h spans) (Suc d) c)) (kids_of h spans (sp_span_id s)))"
    and "c \<in> set (kids_of h spans (sp_span_id s)) \<Longrightarrow>
      walk_span n (span_children h spans) (Suc d) c = Some (the (walk_span n (span_children h spans) (Suc d) c))"
  using assms by (auto simp: children_get walk_all_iff)

lemma walk_rooted:
  "walk_span n (span_children h spans) i s = Some L \<Longrightarrow> rooted spans s i \<Longrightarrow> (t, j) \<in> set L \<Longrightarrow> rooted spans t j"
proof (induction n arbitrary: s i L)
  case (Suc n)
  consider "t = s" "j = i" | c where "c \<in> set (kids_of h spans (sp_span_id s))"
      "(t, j) \<in> set (the (walk_span n (span_children h spans) (Suc i) c))"
    using Suc.prems(3) unfolding walk_SucD(1) [OF Suc.prems(1)] by auto
  then show ?case
  proof cases
    case 2
    then show ?thesis
      using Suc.IH [OF walk_SucD(2) [OF Suc.prems(1) 2(1)]] rooted.child Suc.prems(2) by auto
  qed (use Suc.prems in simp)
qed simp

text \<open>How often a span is in a list of the walk.\<close>

definition times :: "trace_span \<Rightarrow> (trace_span \<times> nat) list \<Rightarrow> nat" where
  "times t L = count_list (map fst L) t"

lemma times_simps [simp]:
  "times t [] = 0" "times t ((s, d) # L) = (if s = t then 1 else 0) + times t L"
  "times t (L @ M) = times t L + times t M"
  by (simp_all add: times_def)

lemma times_concat: "times t (concat (map f xs)) = (\<Sum>x \<leftarrow> xs. times t (f x))"
  by (induction xs) simp_all

lemma times_kids:
  assumes "ids_ok spans" "t \<in> set spans"
  shows "(\<Sum>c \<leftarrow> kids_of h spans k. if c = t then 1 else 0) = (if parent_key spans t = k then 1 else (0 :: nat))"
proof -
  have "(\<Sum>c \<leftarrow> xs. if c = t then 1 else 0) = count_list xs t" for xs :: "trace_span list"
    by (induction xs) auto
  moreover have "distinct (kids_of h spans k)" using ids_okD(1) [OF assms(1)] by (simp add: kids_of_def)
  moreover have "t \<in> set (kids_of h spans k) \<longleftrightarrow> parent_key spans t = k" using assms(2) by simp
  ultimately show ?thesis
    by (metis count_list_0_iff distinct_count_atmost_1 count_mset)
qed

lemma walk_times:
  assumes "ids_ok spans" "t \<in> set spans"
  shows "walk_span n (span_children h spans) d s = Some L \<Longrightarrow> s \<in> set spans \<Longrightarrow>
    (parent_key spans t = root_key \<longrightarrow> times t L = (if s = t then 1 else 0)) \<and>
    (\<forall>q \<in> set spans. parent_key spans t = sp_span_id q \<longrightarrow> times t L = (if s = t then 1 else 0) + times q L)"
proof (induction n arbitrary: s d L)
  case (Suc n)
  let ?g = "\<lambda>c. the (walk_span n (span_children h spans) (Suc d) c)"
  let ?kids = "kids_of h spans (sp_span_id s)"
  note L = walk_SucD [OF Suc.prems(1)]
  note IH = Suc.IH [OF L(2)]
  have tL: "times t L = (if s = t then 1 else 0) + (\<Sum>c \<leftarrow> ?kids. times t (?g c))" for t
    unfolding L(1) by (simp add: times_concat)
  have parent: "parent_key spans t = sp_span_id s \<Longrightarrow> parent_key spans t \<noteq> root_key"
    using ids_okD(3) [OF assms(1) Suc.prems(2)] by simp
  show ?case
  proof (intro conjI ballI impI)
    assume p: "parent_key spans t = root_key"
    have "times t (?g c) = (if c = t then 1 else 0)" if "c \<in> set ?kids" for c using IH [of c] that p by auto
    then have "(\<Sum>c \<leftarrow> ?kids. times t (?g c)) = (\<Sum>c \<leftarrow> ?kids. if c = t then 1 else 0)"
      by (intro arg_cong [of _ _ sum_list] map_cong) auto
    also have "\<dots> = 0" using times_kids [OF assms, of h "sp_span_id s"] p parent by auto
    finally show "times t L = (if s = t then 1 else 0)" unfolding tL [of t] by simp
  next
    fix q
    assume q: "q \<in> set spans" "parent_key spans t = sp_span_id q"
    have "times t (?g c) = (if c = t then 1 else 0) + times q (?g c)" if "c \<in> set ?kids" for c
      using IH [of c] that q by auto
    then have "(\<Sum>c \<leftarrow> ?kids. times t (?g c)) = (\<Sum>c \<leftarrow> ?kids. (if c = t then 1 else 0) + times q (?g c))"
      by (intro arg_cong [of _ _ sum_list] map_cong) auto
    also have "\<dots> = (\<Sum>c \<leftarrow> ?kids. if c = t then 1 else 0) + (\<Sum>c \<leftarrow> ?kids. times q (?g c))"
      by (rule sum_list_addf)
    also have "(\<Sum>c \<leftarrow> ?kids. if c = t then 1 else 0) = (if parent_key spans t = sp_span_id s then 1 else (0 :: nat))"
      by (rule times_kids [OF assms])
    also have "\<dots> = (if s = q then 1 else 0)"
      using q(2) ids_okD(2) [OF assms(1) q(1) Suc.prems(2)] by auto
    finally show "times t L = (if s = t then 1 else 0) + times q L" unfolding tL [of t] tL [of q] by simp
  qed
qed simp

lemma tree_shape:
  assumes "ids_ok spans"
  shows "buildSpanTree h spans = Some (concat (map (\<lambda>r. the (walk_span (length spans + 1) (span_children h spans) 0 r))
      (kids_of h spans root_key)))"
    and "r \<in> set (kids_of h spans root_key) \<Longrightarrow> walk_span (length spans + 1) (span_children h spans) 0 r =
      Some (the (walk_span (length spans + 1) (span_children h spans) 0 r))"
proof -
  have "walk_span (length spans + 1) (span_children h spans) 0 r \<noteq> None" if "r \<in> set (kids_of h spans root_key)" for r
    using that walk_defined [OF rooted.root assms, of r "length spans + 1" h 0] by auto
  then show "buildSpanTree h spans = Some (concat (map (\<lambda>r. the (walk_span (length spans + 1) (span_children h spans) 0 r))
      (kids_of h spans root_key)))"
    and "r \<in> set (kids_of h spans root_key) \<Longrightarrow> walk_span (length spans + 1) (span_children h spans) 0 r =
      Some (the (walk_span (length spans + 1) (span_children h spans) 0 r))"
    by (auto simp: buildSpanTree_def Let_def children_get walk_all_iff)
qed

lemma tree_rooted: "ids_ok spans \<Longrightarrow> buildSpanTree h spans = Some L \<Longrightarrow> (t, j) \<in> set L \<Longrightarrow> rooted spans t j"
proof -
  assume ok: "ids_ok spans" and L: "buildSpanTree h spans = Some L" and t: "(t, j) \<in> set L"
  obtain r where r: "r \<in> set (kids_of h spans root_key)"
      "(t, j) \<in> set (the (walk_span (length spans + 1) (span_children h spans) 0 r))"
    using t L unfolding tree_shape(1) [OF ok] by auto
  then have "rooted spans r 0" by (auto intro: rooted.root)
  then show "rooted spans t j" using walk_rooted [OF tree_shape(2) [OF ok r(1)] _ r(2)] by blast
qed

lemma tree_times:
  assumes "ids_ok spans" "buildSpanTree h spans = Some L"
  shows "rooted spans t i \<Longrightarrow> times t L = 1"
proof (induction rule: rooted.induct)
  case (root t)
  let ?g = "\<lambda>r. the (walk_span (length spans + 1) (span_children h spans) 0 r)"
  have L: "L = concat (map ?g (kids_of h spans root_key))" using tree_shape(1) [OF assms(1), of h] assms(2) by simp
  have "times t (?g r) = (if r = t then 1 else 0)" if "r \<in> set (kids_of h spans root_key)" for r
    using walk_times [OF assms(1) root(1) tree_shape(2) [OF assms(1) that]] that root by auto
  then have "times t L = (\<Sum>r \<leftarrow> kids_of h spans root_key. if r = t then 1 else 0)"
    unfolding L times_concat by (intro arg_cong [of _ _ sum_list] map_cong) auto
  then show ?case using times_kids [OF assms(1) root(1)] root(2) by simp
next
  case (child t q i)
  let ?g = "\<lambda>r. the (walk_span (length spans + 1) (span_children h spans) 0 r)"
  have L: "L = concat (map ?g (kids_of h spans root_key))" using tree_shape(1) [OF assms(1), of h] assms(2) by simp
  have "times t (?g r) = (if r = t then 1 else 0) + times q (?g r)" if "r \<in> set (kids_of h spans root_key)" for r
    using walk_times [OF assms(1) child(1) tree_shape(2) [OF assms(1) that]] that child rooted_in by auto
  then have "times t L = (\<Sum>r \<leftarrow> kids_of h spans root_key. (if r = t then 1 else 0) + times q (?g r))"
    unfolding L times_concat by (intro arg_cong [of _ _ sum_list] map_cong) auto
  also have "\<dots> = (\<Sum>r \<leftarrow> kids_of h spans root_key. if r = t then 1 else 0) + times q L"
    unfolding L times_concat by (rule sum_list_addf)
  also have "(\<Sum>r \<leftarrow> kids_of h spans root_key. if r = t then 1 else 0) = (0 :: nat)"
    using times_kids [OF assms(1) child(1), of h root_key] child ids_okD(3) [OF assms(1)] rooted_in by metis
  finally show ?case using child by simp
qed

lemma rooted_spans_listed:
  assumes "ids_ok spans"
  shows "\<exists>L. buildSpanTree h spans = Some L \<and> distinct (map fst L) \<and> set L = {(s, i). rooted spans s i}"
proof -
  obtain L where L: "buildSpanTree h spans = Some L" using tree_shape(1) [OF assms] by blast
  have one: "times s L = 1" if "rooted spans s i" for s i using tree_times [OF assms L that] .
  have "(s, i) \<in> set L" if r: "rooted spans s i" for s i
  proof -
    have "s \<in> fst ` set L" using one [OF r] count_list_0_iff [of "map fst L" s] by (auto simp: times_def)
    then obtain j where j: "(s, j) \<in> set L" by auto
    then have "i = j" using rooted_unique [OF r assms tree_rooted [OF assms L j]] by simp
    then show ?thesis using j by simp
  qed
  then have set: "set L = {(s, i). rooted spans s i}" using tree_rooted [OF assms L] by auto
  moreover have "distinct (map fst L)"
  proof -
    have "count (mset (map fst L)) s = (if s \<in> set (map fst L) then 1 else 0)" for s
    proof (cases "s \<in> set (map fst L)")
      case True
      then obtain i where "(s, i) \<in> set L" by auto
      then have "times s L = 1" using one set by blast
      then show ?thesis unfolding count_mset using True by (simp add: times_def)
    next
      case False
      then show ?thesis unfolding count_mset by simp
    qed
    then show ?thesis by (metis distinct_count_atmost_1)
  qed
  ultimately show ?thesis using L by blast
qed

text \<open>
  C36. The list of spans has every span whose ancestors end in a root exactly once, with the
  number of its ancestors as its depth, and no other span.
\<close>

theorem span_tree_lists_rooted_spans:
  assumes "ids_ok spans"
  shows "\<exists>L. buildSpanTree h spans = Some L \<and> distinct (map fst L) \<and> set L = {(s, i). rooted spans s i}"
  using assms by (rule rooted_spans_listed)

section \<open>The tree as a tree\<close>

lemma nodes_get:
  fixes xs :: "trace_span list"
  shows "js_get (fold (\<lambda>s m. js_set (sp_span_id s) s m) xs m) k =
    or_else (find (\<lambda>s. sp_span_id s = k) (rev xs)) (js_get m k)"
proof (induction xs arbitrary: m)
  case (Cons x xs)
  have "find P (ys @ [x]) = or_else (find P ys) (if P x then Some x else None)" for P ys
    by (induction ys) simp_all
  then show ?case using Cons by (cases "find (\<lambda>s. sp_span_id s = k) (rev xs)") (simp_all add: update_conv')
qed simp

lemma link_nodes_nodes: "nd_nodes (fold link_node xs st) = nd_nodes st"
  by (induction xs arbitrary: st) (simp_all add: link_node_def split: option.splits)

lemma link_node_parts:
  "coalesce (js_get (nd_links (link_node s st)) p) [] =
     coalesce (js_get (nd_links st) p) [] @ (if node_parent st s = Some p then [sp_span_id s] else [])"
  "nd_roots (link_node s st) = nd_roots st @ (if node_parent st s = None then [sp_span_id s] else [])"
  "node_parent (link_node s st) = node_parent st"
  by (auto simp: link_node_def node_parent_def fun_eq_iff update_conv' split: option.splits)

lemma link_nodes_parts:
  "coalesce (js_get (nd_links (fold link_node xs st)) p) [] =
     coalesce (js_get (nd_links st) p) [] @ map sp_span_id (filter (\<lambda>s. node_parent st s = Some p) xs) \<and>
   nd_roots (fold link_node xs st) = nd_roots st @ map sp_span_id (filter (\<lambda>s. node_parent st s = None) xs)"
  by (induction xs arbitrary: st) (simp_all add: link_node_parts)

lemma find_id:
  fixes s :: trace_span
  shows "distinct (map sp_span_id spans) \<Longrightarrow> s \<in> set spans \<Longrightarrow>
    find (\<lambda>t. sp_span_id t = sp_span_id s) (rev spans) = Some s"
  by (induction spans rule: rev_induct) (auto simp: rev_image_eqI)

lemma node_lookup:
  assumes "ids_ok spans" "s \<in> set spans"
  shows "js_get (nd_nodes (link_nodes spans)) (sp_span_id s) = Some s"
  using find_id [OF _ assms(2)] assms(1) by (simp add: link_nodes_def link_nodes_nodes nodes_get ids_ok_def)

lemma node_known: "js_has (nd_nodes (link_nodes spans)) p \<longleftrightarrow> p \<in> sp_span_id ` set spans"
  by (auto simp: js_has_iff link_nodes_def link_nodes_nodes nodes_get find_None_iff or_else_None_iff
      intro: rev_image_eqI)

lemma node_unknown: "js_get (nd_nodes (link_nodes spans)) p = None \<longleftrightarrow> p \<notin> sp_span_id ` set spans"
  using node_known [of spans p] by blast

lemma same_parents: "node_parent (fold link_node xs st) = node_parent st"
  by (rule ext) (simp only: node_parent_def link_nodes_nodes)

lemma parent_key_node: "parent_key spans s = coalesce (node_parent (link_nodes spans) s) root_key"
  by (cases "sp_parent_span_id s") (auto simp: parent_key_def node_parent_def node_unknown)

lemma node_parent_in: "node_parent (link_nodes spans) s = Some p \<Longrightarrow> p \<in> sp_span_id ` set spans"
  by (cases "sp_parent_span_id s") (auto simp: node_parent_def node_unknown split: if_splits)

lemma node_parent_key:
  assumes "ids_ok spans" "s \<in> set spans"
  shows "node_parent (link_nodes spans) s = None \<longleftrightarrow> parent_key spans s = root_key"
    and "q \<in> set spans \<Longrightarrow> node_parent (link_nodes spans) s = Some (sp_span_id q) \<longleftrightarrow> parent_key spans s = sp_span_id q"
proof -
  have "p \<noteq> root_key" if "node_parent (link_nodes spans) s = Some p" for p
    using node_parent_in [OF that] assms(1) by (metis ids_ok_def)
  then show "node_parent (link_nodes spans) s = None \<longleftrightarrow> parent_key spans s = root_key"
    unfolding parent_key_node by (cases "node_parent (link_nodes spans) s") simp_all
  show "node_parent (link_nodes spans) s = Some (sp_span_id q) \<longleftrightarrow> parent_key spans s = sp_span_id q" if "q \<in> set spans"
    using ids_okD(3) [OF assms(1) that] unfolding parent_key_node by (cases "node_parent (link_nodes spans) s") auto
qed

lemma sort_nodes_ids:
  assumes "ids_ok spans"
  shows "set xs \<subseteq> set spans \<Longrightarrow>
    sort_nodes h (link_nodes spans) (map sp_span_id xs) = sort_key (start_of h) xs"
proof -
  assume xs: "set xs \<subseteq> set spans"
  then have "List.map_filter (js_get (nd_nodes (link_nodes spans))) (map sp_span_id xs) = xs"
    using node_lookup [OF assms] by (induction xs) (simp_all add: map_filter_simps)
  then show ?thesis by (simp add: sort_nodes_def)
qed

lemma hierarchy_kids:
  assumes "ids_ok spans" "q \<in> set spans"
  shows "sort_nodes h (link_nodes spans) (coalesce (js_get (nd_links (link_nodes spans)) (sp_span_id q)) []) =
    kids_of h spans (sp_span_id q)"
proof -
  let ?st = "\<lparr>nd_nodes = fold (\<lambda>s m. js_set (sp_span_id s) s m) spans [], nd_links = [], nd_roots = []\<rparr>"
  have same: "node_parent ?st = node_parent (link_nodes spans)"
    unfolding link_nodes_def by (rule same_parents [symmetric])
  have "coalesce (js_get (nd_links (link_nodes spans)) (sp_span_id q)) [] =
      map sp_span_id (filter (\<lambda>s. node_parent (link_nodes spans) s = Some (sp_span_id q)) spans)"
    using link_nodes_parts [of spans ?st "sp_span_id q"] unfolding same by (simp add: link_nodes_def)
  moreover have "filter (\<lambda>s. node_parent (link_nodes spans) s = Some (sp_span_id q)) spans =
      filter (\<lambda>s. parent_key spans s = sp_span_id q) spans"
    by (rule filter_cong) (simp_all add: node_parent_key(2) [OF assms(1) _ assms(2)])
  ultimately show ?thesis by (simp add: sort_nodes_ids [OF assms(1)] kids_of_def)
qed

lemma hierarchy_roots:
  assumes "ids_ok spans"
  shows "sort_nodes h (link_nodes spans) (nd_roots (link_nodes spans)) = kids_of h spans root_key"
proof -
  let ?st = "\<lparr>nd_nodes = fold (\<lambda>s m. js_set (sp_span_id s) s m) spans [], nd_links = [], nd_roots = []\<rparr>"
  have same: "node_parent ?st = node_parent (link_nodes spans)"
    unfolding link_nodes_def by (rule same_parents [symmetric])
  have "nd_roots (link_nodes spans) = map sp_span_id (filter (\<lambda>s. node_parent (link_nodes spans) s = None) spans)"
    using link_nodes_parts [of spans ?st] unfolding same by (simp add: link_nodes_def)
  moreover have "filter (\<lambda>s. node_parent (link_nodes spans) s = None) spans = filter (\<lambda>s. parent_key spans s = root_key) spans"
    by (rule filter_cong) (simp_all add: node_parent_key(1) [OF assms])
  ultimately show ?thesis by (simp add: sort_nodes_ids [OF assms] kids_of_def)
qed

lemma flatten_walk:
  assumes "\<And>x. x \<in> set xs \<Longrightarrow> f x = map_option F (g x)"
  shows "walk_all f xs = map_option (\<lambda>ts. concat (map F ts)) (all_some (map g xs))"
  using assms
proof (induction xs)
  case (Cons x xs)
  then have "f x = map_option F (g x)" "walk_all f xs = map_option (\<lambda>ts. concat (map F ts)) (all_some (map g xs))" by simp_all
  then show ?case by (cases "g x"; cases "all_some (map g xs)") auto
qed simp

definition span_at :: "span_tree \<times> nat \<Rightarrow> trace_span \<times> nat" where
  "span_at e = (node_span (fst e), snd e)"

lemma child_expandable: "s \<in> set (kids_of h spans (sp_span_id q)) \<Longrightarrow> ids_ok spans \<Longrightarrow> q \<in> set spans \<Longrightarrow>
    sp_span_id q \<in> expandableSpanIds spans"
  using ids_okD(3) [of spans q]
  by (force simp: parent_key_def expandableSpanIds_def set_map_filter split: option.splits if_splits)

lemma grow_walk:
  assumes "ids_ok spans"
  shows "s \<in> set spans \<Longrightarrow> walk_span n (span_children h spans) d s =
    map_option (\<lambda>t. map span_at (flatten_node (expandableSpanIds spans) d t)) (grow n h (link_nodes spans) s)"
proof (induction n arbitrary: s d)
  case (Suc n)
  let ?E = "expandableSpanIds spans"
  let ?kids = "kids_of h spans (sp_span_id s)"
  let ?F = "\<lambda>t. map span_at (flatten_node ?E (Suc d) t)"
  have kids: "walk_all (walk_span n (span_children h spans) (Suc d)) ?kids =
      map_option (\<lambda>ts. concat (map ?F ts)) (all_some (map (grow n h (link_nodes spans)) ?kids))"
    by (rule flatten_walk) (use Suc.IH in simp)
  have node: "map span_at (flatten_node ?E d (SpanNode s ts)) = (s, d) # concat (map ?F ts)"
    if "all_some (map (grow n h (link_nodes spans)) ?kids) = Some ts" for ts
  proof (cases "?kids")
    case Nil
    then show ?thesis using that by (simp add: span_at_def)
  next
    case (Cons c cs)
    then have "sp_span_id s \<in> ?E" using child_expandable [of c h spans s] assms Suc.prems by simp
    then show ?thesis by (simp add: span_at_def map_concat comp_def)
  qed
  have "grow (Suc n) h (link_nodes spans) s = map_option (SpanNode s) (all_some (map (grow n h (link_nodes spans)) ?kids))"
    by (simp add: hierarchy_kids [OF assms Suc.prems])
  moreover have "walk_span (Suc n) (span_children h spans) d s =
      map_option (\<lambda>rest. (s, d) # rest) (walk_all (walk_span n (span_children h spans) (Suc d)) ?kids)"
    by (simp add: children_get)
  ultimately show ?case
    using node unfolding kids by (cases "all_some (map (grow n h (link_nodes spans)) ?kids)") (simp_all del: flatten_node.simps)
qed simp

lemma tree_of_hierarchy:
  assumes "ids_ok spans"
  shows "buildSpanTree h spans = map_option (map span_at) (visible_nodes h spans {})"
proof -
  let ?E = "expandableSpanIds spans"
  have "walk_all (walk_span (length spans + 1) (span_children h spans) 0) (kids_of h spans root_key) =
      map_option (\<lambda>ts. concat (map (\<lambda>t. map span_at (flatten_node ?E 0 t)) ts))
        (all_some (map (grow (length spans + 1) h (link_nodes spans)) (kids_of h spans root_key)))"
    by (rule flatten_walk) (simp add: grow_walk [OF assms] del: grow.simps walk_span.simps)
  then show ?thesis
    by (simp add: visible_nodes_def buildSpanHierarchy_def buildSpanTree_def hierarchy_roots [OF assms] children_get
        option.map_comp comp_def flattenExpandedSpanTree_def map_concat del: grow.simps walk_span.simps)
qed

text \<open>
  The two views of the navigator agree: with nothing collapsed, the tree view shows
  exactly the spans of the timeline view, in the same order and at the same depths.
\<close>

theorem navigator_views_agree:
  assumes "ids_ok spans"
  shows "buildSpanTree h spans = map_option (map span_at) (visible_nodes h spans {})"
  using assms by (rule tree_of_hierarchy)

end
