(* ===== verification/TraceNavigator.thy ===== *)
theory TraceNavigator
  imports TraceTreeFacts TraceTimelineOutline
begin

text \<open>
  The span navigator as a whole: its timeline view goes through trace-timeline.ts, its tree
  view does not, and both hide the same spans when spans are collapsed.
\<close>

section \<open>The list of spans is filed like the tree\<close>

lemma walk_depth: "walk_span n (span_children h spans) d s = Some L \<Longrightarrow> (t, j) \<in> set L \<Longrightarrow> d \<le> j"
proof (induction n arbitrary: s d L)
  case (Suc n)
  consider "j = d" | c where "c \<in> set (kids_of h spans (sp_span_id s))"
      "(t, j) \<in> set (the (walk_span n (span_children h spans) (Suc d) c))"
    using Suc.prems(2) unfolding walk_SucD(1) [OF Suc.prems(1)] by auto
  then show ?case
    by cases (use Suc.IH [OF walk_SucD(2) [OF Suc.prems(1)]] in fastforce)+
qed simp

lemma concat_at_most_one:
  "(\<Sum>x \<leftarrow> xs. n x) \<le> (1 :: nat) \<Longrightarrow>
   concat (map (\<lambda>x. if n x \<noteq> 0 then ys else []) xs) = (if (\<Sum>x \<leftarrow> xs. n x) \<noteq> 0 then ys else [])"
proof (induction xs)
  case (Cons x xs)
  then consider "n x = 0" | "n x \<noteq> 0" "(\<Sum>x \<leftarrow> xs. n x) = 0" by fastforce
  then show ?case by cases (use Cons in auto)
qed simp

lemma times_0_iff: "times q L = 0 \<longleftrightarrow> q \<notin> fst ` set L"
  by (simp add: times_def count_list_0_iff)

lemma walk_filter:
  assumes "ids_ok spans" "q \<in> set spans"
  shows "walk_span n (span_children h spans) i s = Some L \<Longrightarrow> rooted spans s i \<Longrightarrow> times q L \<le> 1 \<Longrightarrow>
    filter (\<lambda>t. parent_key spans t = sp_span_id q) (map fst L) =
    (if parent_key spans s = sp_span_id q then [s] else []) @ (if times q L \<noteq> 0 then kids_of h spans (sp_span_id q) else [])"
proof (induction n arbitrary: s i L)
  case (Suc n)
  let ?g = "\<lambda>c. the (walk_span n (span_children h spans) (Suc i) c)"
  let ?P = "\<lambda>t. parent_key spans t = sp_span_id q"
  let ?kids = "kids_of h spans (sp_span_id s)"
  note L = walk_SucD [OF Suc.prems(1)]
  have kid: "rooted spans c (Suc i)" "parent_key spans c = sp_span_id s" if "c \<in> set ?kids" for c
    using that rooted.child Suc.prems(2) by auto
  have qL: "times q L = (if s = q then 1 else 0) + (\<Sum>c \<leftarrow> ?kids. times q (?g c))"
    unfolding L(1) by (simp add: times_concat)
  have le: "times q (?g c) \<le> 1" if "c \<in> set ?kids" for c
    using Suc.prems(3) member_le_sum_list [of "times q (?g c)" "map (\<lambda>c. times q (?g c)) ?kids"] that qL by simp
  have IH: "filter ?P (map fst (?g c)) =
      (if s = q then [c] else []) @ (if times q (?g c) \<noteq> 0 then kids_of h spans (sp_span_id q) else [])"
    if "c \<in> set ?kids" for c
    using Suc.IH [OF L(2) [OF that] kid(1) [OF that] le [OF that]] kid(2) [OF that]
      ids_okD(2) [OF assms(1) rooted_in [OF Suc.prems(2)] assms(2)] by simp
  have filt: "filter ?P (map fst L) = (if ?P s then [s] else []) @ concat (map (\<lambda>c. filter ?P (map fst (?g c))) ?kids)"
    unfolding L(1) by (simp add: map_concat filter_concat comp_def)
  show ?case
  proof (cases "s = q")
    case True
    have none: "times q (?g c) = 0" if "c \<in> set ?kids" for c
    proof -
      have False if "(q, j) \<in> set (?g c)" for j
        using walk_depth [OF L(2) that] walk_rooted [OF L(2) kid(1) that] \<open>c \<in> set ?kids\<close>
          rooted_unique [OF Suc.prems(2) assms(1), of j] True by fastforce
      then show ?thesis unfolding times_0_iff by auto
    qed
    have "concat (map (\<lambda>c. filter ?P (map fst (?g c))) ?kids) = concat (map (\<lambda>c. [c]) ?kids)"
      using IH none True by (intro arg_cong [of _ _ concat] map_cong) auto
    then show ?thesis unfolding filt qL using True by simp
  next
    case False
    have "concat (map (\<lambda>c. filter ?P (map fst (?g c))) ?kids) =
        concat (map (\<lambda>c. if times q (?g c) \<noteq> 0 then kids_of h spans (sp_span_id q) else []) ?kids)"
      using IH False by (intro arg_cong [of _ _ concat] map_cong) auto
    also have "\<dots> = (if (\<Sum>c \<leftarrow> ?kids. times q (?g c)) \<noteq> 0 then kids_of h spans (sp_span_id q) else [])"
      using Suc.prems(3) qL by (intro concat_at_most_one) simp
    finally show ?thesis unfolding filt qL using False by simp
  qed
qed simp

lemma tree_filter:
  assumes "ids_ok spans" "buildSpanTree h spans = Some L"
  shows "filter (\<lambda>t. parent_key spans t = root_key) (map fst L) = kids_of h spans root_key"
    and "rooted spans q i \<Longrightarrow> filter (\<lambda>t. parent_key spans t = sp_span_id q) (map fst L) = kids_of h spans (sp_span_id q)"
proof -
  let ?g = "\<lambda>r. the (walk_span (length spans + 1) (span_children h spans) 0 r)"
  let ?roots = "kids_of h spans root_key"
  have L: "L = concat (map ?g ?roots)" using tree_shape(1) [OF assms(1), of h] assms(2) by simp
  have filt: "filter P (map fst L) = concat (map (\<lambda>r. filter P (map fst (?g r))) ?roots)" for P
    unfolding L by (simp add: map_concat filter_concat comp_def)
  have root: "walk_span (length spans + 1) (span_children h spans) 0 r = Some (?g r)" "rooted spans r 0"
      "parent_key spans r = root_key" if "r \<in> set ?roots" for r
    using tree_shape(2) [OF assms(1) that] that by (auto intro: rooted.root)
  have "filter (\<lambda>t. parent_key spans t = root_key) (map fst (?g r)) = [r]" if r: "r \<in> set ?roots" for r
  proof -
    note w = walk_SucD(1) [OF root(1) [OF r, unfolded Suc_eq_plus1 [symmetric]]]
    have "parent_key spans t \<noteq> root_key" if c: "c \<in> set (kids_of h spans (sp_span_id r))" and t:
      "t \<in> fst ` set (the (walk_span (length spans) (span_children h spans) (Suc 0) c))" for c t
    proof -
      note wc = walk_SucD(2) [OF root(1) [OF r, unfolded Suc_eq_plus1 [symmetric]] c]
      obtain j where j: "(t, j) \<in> set (the (walk_span (length spans) (span_children h spans) (Suc 0) c))" using t by auto
      have "rooted spans c (Suc 0)" using c root(2) [OF r] by (auto intro: rooted.child)
      then have "rooted spans t j" "0 < j" using walk_rooted [OF wc _ j] walk_depth [OF wc j] by auto
      then show ?thesis
        using rooted_unique [of spans t j 0] assms(1) rooted_in by (metis less_irrefl rooted.root)
    qed
    then have none: "filter (\<lambda>t. parent_key spans t = root_key) (map fst
        (concat (map (\<lambda>c. the (walk_span (length spans) (span_children h spans) (Suc 0) c)) (kids_of h spans (sp_span_id r))))) = []"
      by (fastforce simp: filter_empty_conv)
    have gr: "?g r = (r, 0) # concat (map (\<lambda>c. the (walk_span (length spans) (span_children h spans) (Suc 0) c))
        (kids_of h spans (sp_span_id r)))"
      using w by (simp only: Suc_eq_plus1)
    show ?thesis using root(3) [OF r] none unfolding gr by simp
  qed
  then have "concat (map (\<lambda>r. filter (\<lambda>t. parent_key spans t = root_key) (map fst (?g r))) ?roots) =
      concat (map (\<lambda>r. [r]) ?roots)"
    by (intro arg_cong [of _ _ concat] map_cong) auto
  then show "filter (\<lambda>t. parent_key spans t = root_key) (map fst L) = ?roots" unfolding filt by simp
  assume q: "rooted spans q i"
  have qL: "(\<Sum>r \<leftarrow> ?roots. times q (?g r)) = 1"
    using tree_times [OF assms q] unfolding L times_concat .
  have "filter (\<lambda>t. parent_key spans t = sp_span_id q) (map fst (?g r)) =
      (if times q (?g r) \<noteq> 0 then kids_of h spans (sp_span_id q) else [])" if r: "r \<in> set ?roots" for r
  proof -
    have "times q (?g r) \<le> 1"
      using member_le_sum_list [of "times q (?g r)" "map (\<lambda>r. times q (?g r)) ?roots"] r qL by simp
    from walk_filter [OF assms(1) rooted_in [OF q] root(1,2) [OF r] this]
    show ?thesis using root(3) [OF r] ids_okD(3) [OF assms(1) rooted_in [OF q]] by simp
  qed
  then have "concat (map (\<lambda>r. filter (\<lambda>t. parent_key spans t = sp_span_id q) (map fst (?g r))) ?roots) =
      concat (map (\<lambda>r. if times q (?g r) \<noteq> 0 then kids_of h spans (sp_span_id q) else []) ?roots)"
    by (intro arg_cong [of _ _ concat] map_cong) auto
  also have "\<dots> = kids_of h spans (sp_span_id q)" using qL by (subst concat_at_most_one) simp_all
  finally show "filter (\<lambda>t. parent_key spans t = sp_span_id q) (map fst L) = kids_of h spans (sp_span_id q)"
    unfolding filt .
qed

section \<open>The rows of the timeline view\<close>

lemma parent_steps:
  "distinct (map tr_id rs) \<Longrightarrow> r \<in> set rs \<Longrightarrow> tr_parentId r \<noteq> Undefined \<Longrightarrow>
   js_get (fst (fold (parent_step ids) rs st)) (tr_id r) = Some (row_parent ids r [])"
proof (induction rs arbitrary: st)
  case (Cons a rs)
  have other: "i \<notin> tr_id ` set rs \<Longrightarrow> js_get (fst (fold (parent_step ids) rs st)) i = js_get (fst st) i" for i st
    by (induction rs arbitrary: st) (auto simp: parent_step_def update_conv')
  show ?case
  proof (cases "r = a")
    case True
    have row: "row_parent ids r (snd st) = row_parent ids r []"
      using Cons.prems(3) by (simp add: row_parent_def split: nullable.splits)
    have "js_get (fst (fold (parent_step ids) (a # rs) st)) (tr_id a) = js_get (fst (parent_step ids a st)) (tr_id a)"
      using other [of "tr_id a" "parent_step ids a st"] Cons.prems(1) by simp
    also have "\<dots> = Some (row_parent ids a (snd st))" by (simp add: parent_step_def update_conv')
    finally show ?thesis using True row by simp
  qed (use Cons in simp)
qed simp

lemma root_key_only: "(if p \<noteq> [] \<and> p \<in> S then p else k) = k \<Longrightarrow> k \<notin> S \<Longrightarrow> [] \<notin> S \<Longrightarrow> p \<notin> S"
  by (cases "p = []"; cases "p \<in> S") auto

lemma rows_initial_parent:
  assumes "ids_ok spans" "buildSpanTree h spans = Some L" "rooted spans s i"
  shows "parent_of (initial_parents (map span_row L)) (sp_span_id s) =
    (if parent_key spans s = root_key then None else Some (parent_key spans s))"
proof -
  obtain L' where "buildSpanTree h spans = Some L'" "distinct (map fst L')" "set L' = {(s, i). rooted spans s i}"
    using rooted_spans_listed [OF assms(1)] by blast
  then have L: "distinct (map fst L)" "set L = {(s, i). rooted spans s i}" using assms(2) by simp_all
  let ?ids = "tr_id ` set (map span_row L)"
  have ids: "?ids = {sp_span_id t |t. \<exists>j. rooted spans t j}" using L(2) by (force simp: span_row_def)
  have "inj_on sp_span_id (fst ` set L)"
    using ids_okD(2) [OF assms(1)] rooted_in by (intro inj_onI) (auto simp: L(2))
  then have "distinct (map sp_span_id (map fst L))" using L(1) by (simp only: distinct_map set_map simp_thms)
  moreover have "map tr_id (map span_row L) = map sp_span_id (map fst L)" by (simp add: span_row_def)
  ultimately have dist: "distinct (map tr_id (map span_row L))" by (simp only:)
  have "span_row (s, i) \<in> set (map span_row L)" using L(2) assms(3) by auto
  moreover have "tr_parentId (span_row (s, i)) \<noteq> Undefined" by (simp add: span_row_def split: option.split)
  ultimately have "js_get (initial_parents (map span_row L)) (tr_id (span_row (s, i))) = Some (row_parent ?ids (span_row (s, i)) [])"
    unfolding initial_parents_def by (rule parent_steps [OF dist])
  then have get: "parent_of (initial_parents (map span_row L)) (sp_span_id s) = row_parent ?ids (span_row (s, i)) []"
    by (simp add: parent_of_def span_row_def)
  show ?thesis
  proof (cases "parent_key spans s = root_key")
    case True
    have "p \<notin> ?ids" if "sp_parent_span_id s = Some p" for p
    proof -
      have "(if p \<noteq> [] \<and> p \<in> sp_span_id ` set spans then p else root_key) = root_key"
        using True that by (simp add: parent_key_def)
      moreover have "root_key \<notin> sp_span_id ` set spans" "[] \<notin> sp_span_id ` set spans"
        using assms(1) unfolding ids_ok_def by (rule conjunct1 [OF conjunct2], rule conjunct2 [OF conjunct2])
      ultimately have "p \<notin> sp_span_id ` set spans" by (rule root_key_only)
      moreover have "?ids \<subseteq> sp_span_id ` set spans" unfolding ids by (auto dest: rooted_in)
      ultimately show ?thesis by (rule contra_subsetD [rotated])
    qed
    then show ?thesis using True unfolding get by (simp add: row_parent_def span_row_def split: option.splits)
  next
    case False
    from assms(3) obtain q j where q: "i = Suc j" "rooted spans q j" "parent_key spans s = sp_span_id q"
      by (cases rule: rooted.cases) (use False in auto)
    have "sp_parent_span_id s = Some (parent_key spans s)"
      using False unfolding parent_key_def by (cases "sp_parent_span_id s") (simp_all split: if_splits)
    then have p: "sp_parent_span_id s = Some (sp_span_id q)" using q(3) by simp
    have "q \<noteq> s"
    proof
      assume "q = s"
      then have "rooted spans q i" using assms(3) by simp
      then show False using rooted_unique [OF q(2) assms(1), of i] q(1) by simp
    qed
    then have "sp_span_id q \<noteq> sp_span_id s" using ids_okD(2) [OF assms(1) rooted_in [OF q(2)] rooted_in [OF assms(3)]] by simp
    moreover have "sp_span_id q \<in> ?ids" unfolding ids using q(2) by auto
    ultimately show ?thesis using False p q(3) unfolding get by (simp add: row_parent_def span_row_def)
  qed
qed

lemma rows_keep_parents:
  assumes "ids_ok spans" "buildSpanTree h spans = Some L"
  shows "resolveTimelineParents (map span_row L) = initial_parents (map span_row L)"
proof (rule timeline_parents_kept)
  fix i
  have lvl: "rooted spans s n \<Longrightarrow> level (initial_parents (map span_row L)) (sp_span_id s) n" for s n
  proof (induction rule: rooted.induct)
    case (root s)
    then show ?case using rows_initial_parent [OF assms rooted.root] by (auto intro: level_root)
  next
    case (child s p n)
    then have "parent_of (initial_parents (map span_row L)) (sp_span_id s) = Some (sp_span_id p)"
      using rows_initial_parent [OF assms rooted.child [OF child(1-3)]] ids_okD(3) [OF assms(1) rooted_in [OF child(2)]] by simp
    then show ?case using child by (auto intro: level_up)
  qed
  show "\<exists>n. level (initial_parents (map span_row L)) i n"
  proof (cases "\<exists>s n. rooted spans s n \<and> sp_span_id s = i")
    case False
    then have "i \<notin> tr_id ` set (map span_row L)"
      using tree_rooted [OF assms] by (force simp: span_row_def)
    then have "parent_of (initial_parents (map span_row L)) i = None"
      using initial_keys [of "map span_row L" i] by (auto simp: parent_of_def split: option.split)
    then show ?thesis by (blast intro: level_root)
  qed (use lvl in blast)
qed

lemma rows_children:
  assumes "ids_ok spans" "buildSpanTree h spans = Some L"
  shows "map tr_id (children_of (childrenByParent (map span_row L)) None) = map sp_span_id (kids_of h spans root_key)"
    and "rooted spans q i \<Longrightarrow> map tr_id (children_of (childrenByParent (map span_row L)) (Some (sp_span_id q))) =
      map sp_span_id (kids_of h spans (sp_span_id q))"
proof -
  have row: "parent_of (resolveTimelineParents (map span_row L)) (tr_id (span_row e)) =
      (if parent_key spans (fst e) = root_key then None else Some (parent_key spans (fst e)))" if "e \<in> set L" for e
    using rows_initial_parent [OF assms tree_rooted [OF assms, of "fst e" "snd e"]] that
    by (simp add: rows_keep_parents [OF assms] span_row_def)
  have kids: "map tr_id (children_of (childrenByParent (map span_row L)) p) =
      map sp_span_id (filter (\<lambda>t. (if parent_key spans t = root_key then None else Some (parent_key spans t)) = p) (map fst L))" for p
  proof -
    have "filter (\<lambda>r. parent_of (resolveTimelineParents (map span_row L)) (tr_id r) = p) (map span_row L) =
        map span_row (filter (\<lambda>e. (if parent_key spans (fst e) = root_key then None else Some (parent_key spans (fst e))) = p) L)"
      using row by (auto simp: filter_map comp_def intro!: arg_cong [of _ _ "map span_row"] filter_cong)
    then show ?thesis by (simp add: children_filter filter_map comp_def span_row_def)
  qed
  have "filter (\<lambda>t. (if parent_key spans t = root_key then None else Some (parent_key spans t)) = None) (map fst L) =
      filter (\<lambda>t. parent_key spans t = root_key) (map fst L)" by (rule filter_cong) simp_all
  then show "map tr_id (children_of (childrenByParent (map span_row L)) None) = map sp_span_id (kids_of h spans root_key)"
    unfolding kids using tree_filter(1) [OF assms] by simp
  assume q: "rooted spans q i"
  have "filter (\<lambda>t. (if parent_key spans t = root_key then None else Some (parent_key spans t)) = Some (sp_span_id q)) (map fst L) =
      filter (\<lambda>t. parent_key spans t = sp_span_id q) (map fst L)"
    using ids_okD(3) [OF assms(1) rooted_in [OF q]] by (intro filter_cong) auto
  then show "map tr_id (children_of (childrenByParent (map span_row L)) (Some (sp_span_id q))) =
      map sp_span_id (kids_of h spans (sp_span_id q))"
    unfolding kids using tree_filter(2) [OF assms q] by simp
qed

section \<open>Collapsing\<close>

definition shown_row :: "timeline_row visible_row \<Rightarrow> ident \<times> nat" where
  "shown_row v = (tr_id (vr_row v), tr_depth (vr_row v))"

definition shown_node :: "span_tree \<times> nat \<Rightarrow> ident \<times> nat" where
  "shown_node e = (sp_span_id (node_span (fst e)), snd e)"

lemma all_some_ConsD:
  "all_some (x # xs) = Some ts \<Longrightarrow> \<exists>t us. x = Some t \<and> all_some xs = Some us \<and> ts = t # us"
  by (auto split: option.splits)

lemma outline_flatten:
  assumes "ids_ok spans" "buildSpanTree h spans = Some L"
  shows "map tr_id rs = map sp_span_id xs \<Longrightarrow> \<forall>x \<in> set xs. rooted spans x d \<Longrightarrow>
    all_some (map (grow n h (link_nodes spans)) xs) = Some ts \<Longrightarrow>
    map shown_row (outline n (childrenByParent (map span_row L)) C d conts rs) =
    concat (map (\<lambda>t. map shown_node (flatten_node (expandableSpanIds spans - C) d t)) ts)"
proof (induction n arbitrary: d conts rs xs ts)
  case 0
  then show ?case by (cases xs) (auto split: option.splits)
next
  case (Suc n)
  show ?case using Suc.prems
  proof (induction xs arbitrary: rs ts)
    case (Cons x xs)
    let ?m = "childrenByParent (map span_row L)"
    let ?kids = "kids_of h spans (sp_span_id x)"
    let ?F = "\<lambda>d t. map shown_node (flatten_node (expandableSpanIds spans - C) d t)"
    from Cons.prems(1) obtain r sibs where rs: "rs = r # sibs" "tr_id r = sp_span_id x" "map tr_id sibs = map sp_span_id xs"
      by (cases rs) auto
    from all_some_ConsD [OF Cons.prems(3) [unfolded list.map]] obtain t us where
      t: "grow (Suc n) h (link_nodes spans) x = Some t" "all_some (map (grow (Suc n) h (link_nodes spans)) xs) = Some us" "ts = t # us"
      by blast
    have x: "rooted spans x d" using Cons.prems(2) by simp
    then obtain ks where ks: "all_some (map (grow n h (link_nodes spans)) ?kids) = Some ks" "t = SpanNode x ks"
      using t(1) by (auto simp: hierarchy_kids [OF assms(1) rooted_in])
    have kid_rows: "map shown_row (outline n ?m C (Suc d) conts' (children_of ?m (Some (sp_span_id x)))) =
        concat (map (?F (Suc d)) ks)" for conts'
      by (rule Suc.IH [OF rows_children(2) [OF assms x] _ ks(1)]) (use x in \<open>auto intro: rooted.child\<close>)
    have below: "(if sp_span_id x \<in> C then [] else concat (map (?F (Suc d)) ks)) =
        (if ks \<noteq> [] \<and> sp_span_id x \<in> expandableSpanIds spans - C then concat (map (?F (Suc d)) ks) else [])"
    proof (cases "?kids")
      case Nil
      then show ?thesis using ks(1) by simp
    next
      case (Cons c cs)
      then show ?thesis using child_expandable [of c h spans x] assms(1) rooted_in [OF x] by simp
    qed
    have rest: "map shown_row (outline (Suc n) ?m C d conts sibs) = concat (map (?F d) us)"
      using Cons.IH [OF rs(3) _ t(2)] Cons.prems(2) by simp
    have "map shown_row (outline (Suc n) ?m C d conts rs) =
        (sp_span_id x, d) # (if sp_span_id x \<in> C then [] else concat (map (?F (Suc d)) ks)) @ concat (map (?F d) us)"
      using kid_rows rest by (simp add: rs Let_def shown_row_def)
    also have "\<dots> = concat (map (?F d) ts)"
      unfolding below by (simp add: t(3) ks(2) shown_node_def map_concat comp_def)
    finally show ?case .
  qed simp
qed

text \<open>
  C35. Collapsing spans hides the same spans in both views: whatever set of spans is collapsed,
  the timeline view, with its own derivation of parents from the rows, shows exactly the rows
  of the tree view, in the same order and at the same depths.
\<close>

theorem views_collapse_alike:
  assumes "ids_ok spans"
  shows "map_option (\<lambda>rows. map shown_row (buildVisibleTraceTimelineRows rows collapsed)) (span_rows h spans) =
    map_option (map shown_node) (visible_nodes h spans collapsed)"
proof -
  obtain L where L: "buildSpanTree h spans = Some L" "distinct (map fst L)" "set L = {(s, i). rooted spans s i}"
    using rooted_spans_listed [OF assms] by blast
  let ?n = "length spans + 1"
  have "buildSpanHierarchy h spans \<noteq> None"
    using L(1) tree_of_hierarchy [OF assms, of h] by (auto simp: visible_nodes_def)
  then obtain ts where ts: "buildSpanHierarchy h spans = Some ts"
      "all_some (map (grow ?n h (link_nodes spans)) (kids_of h spans root_key)) = Some ts"
    by (auto simp: buildSpanHierarchy_def hierarchy_roots [OF assms] simp del: grow.simps)
  have inj: "inj_on sp_span_id (fst ` set L)"
    using ids_okD(2) [OF assms] rooted_in by (intro inj_onI) (auto simp: L(3))
  then have "distinct (map sp_span_id (map fst L))" using L(2) by (simp only: distinct_map set_map simp_thms)
  moreover have "map tr_id (map span_row L) = map sp_span_id (map fst L)" by (simp add: span_row_def)
  ultimately have dist: "distinct (map tr_id (map span_row L))" by (simp only:)
  have "card (set (map fst L)) \<le> card (set spans)" using rooted_in by (intro card_mono) (auto simp: L(3))
  then have len: "length (map span_row L) \<le> ?n"
    using distinct_card [OF L(2)] card_length [of spans] by simp
  have "buildVisibleTraceTimelineRows (map span_row L) collapsed =
      outline ?n (childrenByParent (map span_row L)) collapsed 0 [] (children_of (childrenByParent (map span_row L)) None)"
    using visible_rows_outline [OF dist len len] by blast
  moreover have "map shown_row (outline ?n (childrenByParent (map span_row L)) collapsed 0 []
        (children_of (childrenByParent (map span_row L)) None)) =
      concat (map (\<lambda>t. map shown_node (flatten_node (expandableSpanIds spans - collapsed) 0 t)) ts)"
    by (rule outline_flatten [OF assms L(1) rows_children(1) [OF assms L(1)] _ ts(2)]) (auto intro: rooted.root)
  ultimately show ?thesis
    by (simp add: span_rows_def L(1) visible_nodes_def ts(1) flattenExpandedSpanTree_def map_concat comp_def)
qed

section \<open>Circular parents\<close>

lemma circular_not_rooted:
  assumes "ids_ok spans" "a \<in> set spans" "b \<in> set spans"
    and "sp_parent_span_id a = Some (sp_span_id b)" "sp_parent_span_id b = Some (sp_span_id a)"
  shows "\<not> rooted spans a n \<and> \<not> rooted spans b n"
proof -
  have "sp_span_id a \<noteq> []" "sp_span_id b \<noteq> []" using assms(1-3) unfolding ids_ok_def by (metis imageI)+
  then have keys: "parent_key spans a = sp_span_id b" "parent_key spans b = sp_span_id a"
    using assms(2-5) by (simp_all add: parent_key_def)
  have "s = a \<or> s = b \<Longrightarrow> False" if "rooted spans s n" for s n
    using that
  proof (induction rule: rooted.induct)
    case (root s)
    then show ?case using keys ids_okD(3) [OF assms(1,2)] ids_okD(3) [OF assms(1,3)] by auto
  next
    case (child s p i)
    then have "p = a \<or> p = b"
      using keys ids_okD(2) [OF assms(1) assms(2), of p] ids_okD(2) [OF assms(1) assms(3), of p] rooted_in [OF child(2)] by auto
    then show ?case using child by simp
  qed
  then show ?thesis by blast
qed

text \<open>
  Spans whose parents form a circle are shown in neither view, although the overview of the
  same trace lists circular items and the timeline cuts circles.
\<close>

theorem circular_spans_are_not_shown:
  assumes "ids_ok spans" "a \<in> set spans" "b \<in> set spans"
    and "sp_parent_span_id a = Some (sp_span_id b)" "sp_parent_span_id b = Some (sp_span_id a)"
  shows "\<exists>L. buildSpanTree h spans = Some L \<and> a \<notin> fst ` set L \<and> b \<notin> fst ` set L"
proof -
  obtain L where "buildSpanTree h spans = Some L" "set L = {(s, i). rooted spans s i}"
    using rooted_spans_listed [OF assms(1)] by blast
  then show ?thesis using circular_not_rooted [OF assms] by (intro exI [of _ L]) auto
qed

section \<open>Instances\<close>

definition nav_host :: js_host where
  "nav_host = \<lparr>JSON_parse = (\<lambda>_. None), JSON_stringify = (\<lambda>_. []), JSON_pretty = (\<lambda>_. []), number_string = (\<lambda>_. []),
     Date_parse = (\<lambda>s. Some (of_nat (length s)))\<rparr>"

definition nav_span :: "ident \<Rightarrow> ident option \<Rightarrow> nat \<Rightarrow> nat \<Rightarrow> trace_span" where
  "nav_span i p a b = \<lparr>sp_span_id = i, sp_parent_span_id = p, sp_name = [], sp_status_code = None,
     sp_status_message = None, sp_start_time = Some (replicate a CHR ''x''), sp_end_time = Some (replicate b CHR ''x''),
     sp_duration_ms = None, sp_attributes = None\<rparr>"

definition nav_spans :: "trace_span list" where
  "nav_spans = [nav_span ''c'' (Some ''b'') 4 5, nav_span ''a'' None 1 9, nav_span ''b'' (Some ''a'') 2 6,
     nav_span ''d'' (Some ''a'') 1 3, nav_span ''x'' (Some ''y'') 1 2, nav_span ''y'' (Some ''x'') 1 2]"

lemma nav_ids_ok: "ids_ok nav_spans"
  by (simp add: ids_ok_def nav_spans_def nav_span_def root_key_def)

lemma span_bar_lies_in_the_trace_witness:
  "case getSpanTimelineLayout nav_host (nav_span ''b'' (Some ''a'') 2 6) (Some 1) (Some 9) of
     None \<Rightarrow> False | Some l \<Rightarrow> sl_offsetMs l + sl_durationMs l \<le> 8"
proof -
  have "getResolvedTraceTiming nav_host nav_spans = \<lparr>ti_start = Some 1, ti_end = Some 9, ti_durationMs = Some 8\<rparr>" by code_simp
  moreover have "ti_durationMs (getResolvedSpanTiming nav_host (nav_span ''b'' (Some ''a'') 2 6)) = Some 4" by code_simp
  moreover have "nav_span ''b'' (Some ''a'') 2 6 \<in> set nav_spans" by (simp add: nav_spans_def)
  ultimately show ?thesis
    using span_bar_lies_in_the_trace [of "nav_span ''b'' (Some ''a'') 2 6" nav_spans _ nav_host, OF _ refl]
    by (auto split: option.splits)
qed

lemma span_tree_lists_rooted_spans_witness:
  "\<exists>L. buildSpanTree nav_host nav_spans = Some L \<and> distinct (map fst L)"
  using span_tree_lists_rooted_spans [OF nav_ids_ok, of nav_host] by blast

lemma navigator_views_agree_witness:
  "map_option (map shown_node) (visible_nodes nav_host nav_spans {}) = Some [(''a'', 0), (''d'', 1), (''b'', 1), (''c'', 2)]"
proof -
  have "map_option (map (\<lambda>e. (sp_span_id (fst e), snd e))) (buildSpanTree nav_host nav_spans) =
      Some [(''a'', 0), (''d'', 1), (''b'', 1), (''c'', 2)]" by code_simp
  then show ?thesis
    unfolding navigator_views_agree [OF nav_ids_ok] by (simp add: option.map_comp comp_def span_at_def shown_node_def [abs_def])
qed

lemma views_collapse_alike_witness:
  "map_option (map shown_node) (visible_nodes nav_host nav_spans {''b''}) = Some [(''a'', 0), (''d'', 1), (''b'', 1)]"
proof -
  have "map_option (\<lambda>rows. map shown_row (buildVisibleTraceTimelineRows rows {''b''})) (span_rows nav_host nav_spans) =
      Some [(''a'', 0), (''d'', 1), (''b'', 1)]" by code_simp
  then show ?thesis unfolding views_collapse_alike [OF nav_ids_ok] .
qed

lemma circular_spans_are_not_shown_witness:
  "\<exists>L. buildSpanTree nav_host nav_spans = Some L \<and> nav_span ''x'' (Some ''y'') 1 2 \<notin> fst ` set L"
  using circular_spans_are_not_shown [OF nav_ids_ok, of "nav_span ''x'' (Some ''y'') 1 2" "nav_span ''y'' (Some ''x'') 1 2" nav_host]
  by (auto simp: nav_spans_def nav_span_def)

end
