(* ===== verification/TraceMessages.thy ===== *)
theory TraceMessages
  imports TraceTiming "HOL-Library.Sublist"
begin

text \<open>
  The messages and tool calls the trace pages show (the rest of traces/lib/trace-utils.ts):
  attributes hold them as JSON or as text of JSON, in the shapes several instrumentations
  write. A missing value is \<open>None\<close>, a stored \<open>null\<close> is \<open>JNull\<close>.
\<close>

record trace_part =
  tp_type :: string
  tp_content :: "string option"
  tp_raw :: json

record trace_message =
  tm_role :: string
  tm_content :: string
  tm_parts :: "trace_part list option"

definition LF_text :: string where
  "LF_text = [CHR 0x0A]"

section \<open>Content\<close>

definition is_structured :: "json \<Rightarrow> bool" where
  "is_structured v \<longleftrightarrow> (case v of JObj _ \<Rightarrow> True | JArr _ \<Rightarrow> True | _ \<Rightarrow> False)"

definition resolveMessageContent :: "js_host \<Rightarrow> json option \<Rightarrow> string" where
  "resolveMessageContent h v = (case v of
       None \<Rightarrow> []
     | Some (JArr parts) \<Rightarrow>
         if list_ex is_structured parts then JSON_pretty h (JArr parts)
         else join_with LF_text (map (stringifyValue h) parts)
     | Some j \<Rightarrow> stringifyValue h j)"

definition message_part :: "js_host \<Rightarrow> json \<Rightarrow> trace_part" where
  "message_part h part =
     (if \<not> is_object part
      then \<lparr>tp_type = ''unknown'', tp_content = Some (resolveMessageContent h (Some part)), tp_raw = part\<rparr>
      else
        let functionData = coalesce (as_object (field_of part ''function'')) (JObj []);
            contentValue = first_present [field_of part ''content'', field_of part ''text'',
              field_of part ''output'', field_of part ''arguments'', field_of functionData ''arguments'',
              field_of part ''result'']
        in \<lparr>tp_type = coalesce (as_string (field_of part ''type'')) ''unknown'',
            tp_content = (case contentValue of None \<Rightarrow> None | Some v \<Rightarrow> Some (resolveMessageContent h (Some v))),
            tp_raw = part\<rparr>)"

definition normalizeMessageParts :: "js_host \<Rightarrow> json \<Rightarrow> trace_part list" where
  "normalizeMessageParts h v = map (message_part h) (coalesce (as_array (Some (parseJsonValue h v))) [])"

definition buildToolCallMessagePart :: "js_host \<Rightarrow> json \<Rightarrow> trace_part" where
  "buildToolCallMessagePart h toolCall =
     \<lparr>tp_type = ''tool_call'',
      tp_content = Some (case normalizeDetailedToolCallEntry h toolCall of
        Some c \<Rightarrow> dc_arguments c | None \<Rightarrow> resolveMessageContent h (Some toolCall)),
      tp_raw = toolCall\<rparr>"

definition getMessagePartKey :: "js_host \<Rightarrow> trace_part \<Rightarrow> string" where
  "getMessagePartKey h part =
     (case (if tp_type part = ''tool_call'' then normalizeDetailedToolCallEntry h (tp_raw part) else None) of
        Some c \<Rightarrow> ''tool_call:'' @ coalesce (dc_id c) [] @ '':'' @ dc_name c @ '':'' @ dc_arguments c
      | None \<Rightarrow> tp_type part @ '':'' @ coalesce (tp_content part) [] @ '':'' @
          resolveMessageContent h (Some (tp_raw part)))"

definition dedupe_step :: "js_host \<Rightarrow> trace_part \<Rightarrow> string list \<times> trace_part list \<Rightarrow> string list \<times> trace_part list" where
  "dedupe_step h part st =
     (let key = getMessagePartKey h part
      in if key \<in> set (fst st) then st else (fst st @ [key], snd st @ [part]))"

definition dedupeMessageParts :: "js_host \<Rightarrow> trace_part list \<Rightarrow> trace_part list" where
  "dedupeMessageParts h parts = snd (fold (dedupe_step h) parts ([], []))"

section \<open>Messages\<close>

definition trace_message_of :: "js_host \<Rightarrow> json \<Rightarrow> trace_message option" where
  "trace_message_of h item =
     (if \<not> is_object item then None
      else
        let parts = field_of item ''parts'';
            normalizedParts = dedupeMessageParts h (
              (case parts of None \<Rightarrow> [] | Some p \<Rightarrow> normalizeMessageParts h p) @
              (case as_array (field_of item ''tool_calls'') of
                 None \<Rightarrow> [] | Some calls \<Rightarrow> map (buildToolCallMessagePart h) calls));
            resolvedContent = resolveMessageContent h (first_present [field_of item ''content'',
              field_of item ''text'', field_of item ''message'', field_of item ''data'', parts])
        in Some \<lparr>tm_role = coalesce (as_string (field_of item ''role'')) ''message'',
             tm_content = resolvedContent,
             tm_parts = (if normalizedParts \<noteq> [] then Some normalizedParts else None)\<rparr>)"

definition extractMessages :: "js_host \<Rightarrow> attributes \<Rightarrow> string \<Rightarrow> trace_message list" where
  "extractMessages h attrs key = List.map_filter (trace_message_of h) (normalizeMessages h (map_of attrs key))"

definition extractRequestMessages :: "js_host \<Rightarrow> attributes \<Rightarrow> trace_message list" where
  "extractRequestMessages h attrs = firstNonEmpty
     [extractMessages h attrs ''gen_ai.request.messages'', extractMessages h attrs ''gen_ai.input.messages'',
      extractMessages h attrs ''request_data'']"

definition extractResponseMessages :: "js_host \<Rightarrow> attributes \<Rightarrow> trace_message list" where
  "extractResponseMessages h attrs = firstNonEmpty
     [extractMessages h attrs ''gen_ai.response.messages'', extractMessages h attrs ''gen_ai.output.messages'',
      extractMessages h attrs ''response_data'']"

section \<open>Tool calls by name\<close>

definition normalizeToolCallEntry :: "js_host \<Rightarrow> json \<Rightarrow> (string \<times> string) option" where
  "normalizeToolCallEntry h entry = (case normalizeDetailedToolCallEntry h entry of
     None \<Rightarrow> None | Some c \<Rightarrow> Some (dc_name c, dc_arguments c))"

definition extractToolCallAttributes :: "js_host \<Rightarrow> attributes \<Rightarrow> (string \<times> string) list" where
  "extractToolCallAttributes h attrs =
     (let callArguments = map_of attrs ''gen_ai.tool.call.arguments'';
          callName = getStringAttribute attrs ''gen_ai.tool.call.name'';
          toolName = getStringAttribute attrs ''gen_ai.tool.name'';
          own = (if callName \<noteq> None \<or> toolName \<noteq> None \<or> callArguments \<noteq> None
            then [(coalesce (or_else callName toolName) ''tool'',
                   stringifyValue h (parseJsonValue h (the (first_present [callArguments, Some (JObj [])]))))]
            else []);
          payload = (case map_of attrs ''gen_ai.tool.call'' of
              None \<Rightarrow> []
            | Some v \<Rightarrow> (case normalizeToolCallEntry h (parseJsonValue h v) of None \<Rightarrow> [] | Some c \<Rightarrow> [c]));
          listed = (case map_option (parseJsonValue h) (map_of attrs ''gen_ai.tool.calls'') of
              Some (JArr es) \<Rightarrow> List.map_filter (normalizeToolCallEntry h) es
            | _ \<Rightarrow> [])
      in own @ payload @ listed)"

definition extractAppChatToolInputAttributes :: "js_host \<Rightarrow> attributes \<Rightarrow> (string \<times> string) list" where
  "extractAppChatToolInputAttributes h attrs =
     (case map_of attrs ''app.chat.tool.input'' of
        None \<Rightarrow> []
      | Some v \<Rightarrow> [(coalesce (getStringAttribute attrs ''app.chat.tool.name'') ''tool'',
                    stringifyValue h (parseJsonValue h v))])"

definition extractToolCalls :: "js_host \<Rightarrow> attributes \<Rightarrow> string \<Rightarrow> (string \<times> string) list" where
  "extractToolCalls h attrs key =
     List.map_filter (normalizeToolCallEntry h) (normalizeToolCalls h (map_of attrs key))"

definition extractResponseToolCalls :: "js_host \<Rightarrow> attributes \<Rightarrow> (string \<times> string) list" where
  "extractResponseToolCalls h attrs = firstNonEmpty
     [extractToolCalls h attrs ''gen_ai.response.tool_calls'', extractToolCalls h attrs ''response_data'',
      extractToolCallAttributes h attrs]"

definition extractRequestTools :: "js_host \<Rightarrow> attributes \<Rightarrow> (string \<times> string) list" where
  "extractRequestTools h attrs = firstNonEmpty
     [extractAppChatToolInputAttributes h attrs, extractToolCalls h attrs ''gen_ai.request.tools'',
      extractToolCalls h attrs ''request_data'', extractToolCallAttributes h attrs]"

section \<open>Keys of the list of messages\<close>

definition getStringField :: "json option \<Rightarrow> string \<Rightarrow> string option" where
  "getStringField v key = (case v of None \<Rightarrow> None | Some j \<Rightarrow> as_string (field_of j key))"

definition buildMessagePartKey :: "trace_part \<Rightarrow> string" where
  "buildMessagePartKey part =
     (let raw = as_object (Some (tp_raw part))
      in tp_type part @ ''-'' @
         coalesce (or_else (getStringField raw ''id'') (getStringField raw ''name'')) (coalesce (tp_content part) []))"

definition buildMessageKey :: "trace_message \<Rightarrow> string" where
  "buildMessageKey m = tm_role m @ ''-'' @ tm_content m @ ''-'' @
     nat_string (case tm_parts m of None \<Rightarrow> 0 | Some ps \<Rightarrow> length ps)"

section \<open>The two kinds of tool calls\<close>

definition plain_call :: "detailed_call \<Rightarrow> string \<times> string" where
  "plain_call c = (dc_name c, dc_arguments c)"

lemma normalize_plain: "normalizeToolCallEntry h e = map_option plain_call (normalizeDetailedToolCallEntry h e)"
  by (simp add: normalizeToolCallEntry_def plain_call_def split: option.split)

lemma map_filter_plain:
  "List.map_filter (normalizeToolCallEntry h) es = map plain_call (List.map_filter (normalizeDetailedToolCallEntry h) es)"
  by (induction es) (simp_all add: map_filter_simps normalize_plain split: option.split)

lemma attributes_plain:
  "extractToolCallAttributes h attrs = map plain_call (extractDetailedToolCallAttributes h attrs)"
  by (auto simp: extractToolCallAttributes_def extractDetailedToolCallAttributes_def Let_def plain_call_def
      normalize_plain map_filter_plain split: option.split json.split)

lemma firstNonEmpty_map: "firstNonEmpty (map (map f) xss) = map f (firstNonEmpty xss)"
  by (induction xss) simp_all

text \<open>
  The tool calls shown of a response are exactly its detailed calls without their ids, from
  whichever attribute they are read.
\<close>

theorem plain_calls_are_the_detailed_calls:
  "extractResponseToolCalls h attrs = map (\<lambda>c. (dc_name c, dc_arguments c)) (extractResponseToolCallDetails h attrs)"
  unfolding extractResponseToolCalls_def extractResponseToolCallDetails_def extractToolCalls_def
    extractDetailedToolCalls_def map_filter_plain attributes_plain plain_call_def [abs_def]
  using firstNonEmpty_map [of "\<lambda>c. (dc_name c, dc_arguments c)"
      "[extractDetailedToolCalls h attrs ''gen_ai.response.tool_calls'', extractDetailedToolCalls h attrs ''response_data'',
        extractDetailedToolCallAttributes h attrs]"]
  by (simp add: extractDetailedToolCalls_def)

section \<open>Parts\<close>

fun fresh_parts :: "js_host \<Rightarrow> string set \<Rightarrow> trace_part list \<Rightarrow> trace_part list" where
  "fresh_parts h seen [] = []"
| "fresh_parts h seen (p # ps) =
     (if getMessagePartKey h p \<in> seen then fresh_parts h seen ps
      else p # fresh_parts h (insert (getMessagePartKey h p) seen) ps)"

lemma dedupe_fold:
  "fold (dedupe_step h) parts st =
   (fst st @ map (getMessagePartKey h) (fresh_parts h (set (fst st)) parts), snd st @ fresh_parts h (set (fst st)) parts)"
  by (induction parts arbitrary: st) (simp_all add: dedupe_step_def Let_def)

lemma fresh_keys:
  "getMessagePartKey h ` set (fresh_parts h seen ps) = getMessagePartKey h ` set ps - seen"
  by (induction ps arbitrary: seen) auto

lemma fresh_distinct: "distinct (map (getMessagePartKey h) (fresh_parts h seen ps))"
proof (induction ps arbitrary: seen)
  case (Cons p ps)
  have "getMessagePartKey h p \<notin> getMessagePartKey h ` set (fresh_parts h (insert (getMessagePartKey h p) seen) ps)"
    unfolding fresh_keys by simp
  then show ?case using Cons.IH by simp
qed simp

lemma fresh_subseq: "subseq (fresh_parts h seen ps) ps"
  by (induction ps arbitrary: seen) (auto intro: list_emb_Cons)

lemma dedupe_parts:
  "distinct (map (getMessagePartKey h) (dedupeMessageParts h parts))"
  "getMessagePartKey h ` set (dedupeMessageParts h parts) = getMessagePartKey h ` set parts"
  "subseq (dedupeMessageParts h parts) parts"
  by (simp_all add: dedupeMessageParts_def dedupe_fold fresh_distinct fresh_keys fresh_subseq)

lemma dedupe_distinct:
  assumes "distinct (map (getMessagePartKey h) parts)"
  shows "dedupeMessageParts h parts = parts"
proof -
  let ?ps = "dedupeMessageParts h parts"
  have "length parts = card (getMessagePartKey h ` set parts)"
    using distinct_card [OF assms] by simp
  also have "\<dots> = card (getMessagePartKey h ` set ?ps)" by (simp only: dedupe_parts(2))
  also have "\<dots> = length ?ps" using distinct_card [OF dedupe_parts(1) [of h parts]] by simp
  finally show ?thesis using dedupe_parts(3) [of h parts] subseq_same_length by metis
qed

text \<open>
  The parts of a message are listed once: no two have the same key, every key of the parts
  written is there, and the order is that of the message.
\<close>

theorem parts_are_listed_once:
  "distinct (map (getMessagePartKey h) (dedupeMessageParts h parts)) \<and>
   getMessagePartKey h ` set (dedupeMessageParts h parts) = getMessagePartKey h ` set parts \<and>
   subseq (dedupeMessageParts h parts) parts"
  using dedupe_parts by blast

section \<open>Messages are read back\<close>

definition message_json :: "trace_message \<Rightarrow> json" where
  "message_json m = JObj ([(''role'', JStr (tm_role m)), (''content'', JStr (tm_content m))] @
     (case tm_parts m of None \<Rightarrow> [] | Some ps \<Rightarrow> [(''parts'', JArr (map tp_raw ps))]))"

definition text_part :: "string \<Rightarrow> string \<Rightarrow> trace_part" where
  "text_part t c = \<lparr>tp_type = t, tp_content = Some c, tp_raw = JObj [(''type'', JStr t), (''content'', JStr c)]\<rparr>"

text \<open>A message of text parts with different keys.\<close>

definition plain_message_ok :: "js_host \<Rightarrow> trace_message \<Rightarrow> bool" where
  "plain_message_ok h m \<longleftrightarrow> (case tm_parts m of None \<Rightarrow> True
     | Some ps \<Rightarrow> ps \<noteq> [] \<and> list_all (\<lambda>p. p = text_part (tp_type p) (coalesce (tp_content p) [])) ps \<and>
         distinct (map (getMessagePartKey h) ps))"

lemma text_part_read: "message_part h (tp_raw (text_part t c)) = text_part t c"
  by (simp add: message_part_def text_part_def resolveMessageContent_def Let_def)

lemma plain_message_read:
  assumes "plain_message_ok h m"
  shows "trace_message_of h (message_json m) = Some m"
proof (cases "tm_parts m")
  case None
  then show ?thesis
    by (simp add: trace_message_of_def message_json_def dedupeMessageParts_def resolveMessageContent_def Let_def)
next
  case (Some ps)
  have "list_all (\<lambda>p. p = text_part (tp_type p) (coalesce (tp_content p) [])) ps"
    using assms Some by (simp add: plain_message_ok_def)
  then have "map (message_part h \<circ> tp_raw) ps = ps"
  proof (induction ps)
    case (Cons p ps)
    then have "p = text_part (tp_type p) (coalesce (tp_content p) [])" by simp
    then have "message_part h (tp_raw p) = p" by (metis text_part_read)
    then show ?case using Cons by simp
  qed simp
  then have "normalizeMessageParts h (JArr (map tp_raw ps)) = ps"
    by (simp add: normalizeMessageParts_def parseJsonValue_def)
  moreover have "dedupeMessageParts h ps = ps" "ps \<noteq> []"
    using assms Some dedupe_distinct by (simp_all add: plain_message_ok_def)
  ultimately show ?thesis using Some
    by (simp add: trace_message_of_def message_json_def resolveMessageContent_def Let_def)
qed

text \<open>
  Messages written as text of JSON are read back exactly: role, content and parts, in their
  order, wherever the attribute is stored.
\<close>

theorem messages_read_back:
  assumes "JSON_parse h written = Some (JArr (map message_json ms))" "map_of attrs key = Some (JStr written)"
    and "list_all (plain_message_ok h) ms"
  shows "extractMessages h attrs key = ms"
proof -
  have "List.map_filter (trace_message_of h) (map message_json ms) = ms"
    using assms(3) by (induction ms) (simp_all add: map_filter_simps plain_message_read)
  then show ?thesis using assms(1,2) by (simp add: extractMessages_def normalizeMessages_def parseJsonValue_def)
qed

definition demo_message :: trace_message where
  "demo_message = \<lparr>tm_role = ''user'', tm_content = ''hi'', tm_parts = Some [text_part ''text'' ''hi'']\<rparr>"

definition message_host :: js_host where
  "message_host = \<lparr>JSON_parse = (\<lambda>s. if s = ''[..]'' then Some (JArr [message_json demo_message]) else None),
     JSON_stringify = (\<lambda>_. []), JSON_pretty = (\<lambda>_. []), number_string = (\<lambda>_. []), Date_parse = (\<lambda>_. None)\<rparr>"

lemma messages_read_back_witness:
  "extractMessages message_host [(''request_data'', JStr ''[..]'')] ''request_data'' = [demo_message]"
  by (rule messages_read_back [of message_host "''[..]''"])
    (simp_all add: message_host_def plain_message_ok_def demo_message_def text_part_def)

end
