(* ===== verification/TurnSummary.thy ===== *)
theory TurnSummary
  imports TraceMessages TraceActivity
begin

text \<open>
  The summary of a conversation turn (traces/components/trace-turn-summary-model.ts, with
  trace-turn-metrics-utils.ts and the \<open>stringifyValue\<close> of trace-turn-content-utils.tsx): the rows
  of its timeline, where consecutive model calls of an agent are one row, and what is shown of
  the row selected.

  \<open>summary_host\<close> has, beside the hosts of the traces, \<open>toISOString\<close> of a time in milliseconds
  and the bullet between the parts of the token summary.
\<close>

record summary_host =
  su_js :: js_host
  su_format :: format_host
  su_ISO :: "number \<Rightarrow> string"
  su_bullet :: string

section \<open>Attributes\<close>

definition content_stringifyValue :: "summary_host \<Rightarrow> json option \<Rightarrow> string" where
  "content_stringifyValue h v = (case v of
       None \<Rightarrow> ''-''
     | Some JNull \<Rightarrow> ''null''
     | Some (JStr s) \<Rightarrow> s
     | Some (JNum n) \<Rightarrow> fh_locale (su_format h) n (Some (0, 4))
     | Some (JBool b) \<Rightarrow> if b then ''true'' else ''false''
     | Some j \<Rightarrow> JSON_pretty (su_js h) j)"

definition getNumericAttribute :: "summary_host \<Rightarrow> attributes \<Rightarrow> string \<Rightarrow> number option" where
  "getNumericAttribute h attrs key = (case map_of attrs key of
       Some (JNum n) \<Rightarrow> Some n
     | Some (JStr s) \<Rightarrow> fh_Number (su_format h) s
     | _ \<Rightarrow> None)"

definition formatNumeric :: "summary_host \<Rightarrow> number option \<Rightarrow> string" where
  "formatNumeric h v = (case v of
       None \<Rightarrow> ''-''
     | Some x \<Rightarrow> if x = of_int \<lfloor>x\<rfloor> then fh_locale (su_format h) x None
         else fh_locale (su_format h) x (Some (0, 4)))"

definition formatOffsetMs :: "summary_host \<Rightarrow> number option \<Rightarrow> string" where
  "formatOffsetMs h v = (case v of
       None \<Rightarrow> ''-''
     | Some x \<Rightarrow> if x < 1000 then fh_locale (su_format h) (math_round x) None @ ''ms''
         else fh_locale (su_format h) (x / 1000) (Some (2, 2)) @ ''s'')"

definition parseJsonAttribute :: "summary_host \<Rightarrow> json option \<Rightarrow> json option" where
  "parseJsonAttribute h v = (case v of
     Some (JStr s) \<Rightarrow> (case JSON_parse (su_js h) s of Some j \<Rightarrow> Some j | None \<Rightarrow> v) | _ \<Rightarrow> v)"

fun resolveAttributeValue :: "attributes \<Rightarrow> string list \<Rightarrow> json option" where
  "resolveAttributeValue attrs [] = None"
| "resolveAttributeValue attrs (key # keys) = (case map_of attrs key of
       None \<Rightarrow> resolveAttributeValue attrs keys
     | Some JNull \<Rightarrow> resolveAttributeValue attrs keys
     | Some (JStr s) \<Rightarrow> if is_blank s then resolveAttributeValue attrs keys else Some (JStr s)
     | Some j \<Rightarrow> Some j)"

definition firstNonEmptyFromSpans :: "trace_span list \<Rightarrow> (attributes \<Rightarrow> 'a list) \<Rightarrow> 'a list" where
  "firstNonEmptyFromSpans spans selector = firstNonEmpty (map (\<lambda>s. selector (span_attributes s)) spans)"

definition usable_attribute :: "attributes \<Rightarrow> string \<Rightarrow> string option" where
  "usable_attribute attrs key = (case getStringAttribute attrs key of
     None \<Rightarrow> None | Some s \<Rightarrow> if is_blank s then None else Some s)"

fun first_some :: "'a option list \<Rightarrow> 'a option" where
  "first_some [] = None"
| "first_some (x # xs) = or_else x (first_some xs)"

definition firstStringAttributeFromSpans :: "trace_span list \<Rightarrow> string list \<Rightarrow> string option" where
  "firstStringAttributeFromSpans spans keys =
     first_some (concat (map (\<lambda>s. map (usable_attribute (span_attributes s)) keys) spans))"

definition buildTokenSummary ::
  "summary_host \<Rightarrow> number option \<Rightarrow> number option \<Rightarrow> number option \<Rightarrow> bool \<Rightarrow> string option" where
  "buildTokenSummary h inputTokens cacheTokens outputTokens isLlm =
     (let parts = (if inputTokens \<noteq> None then [''input '' @ formatNumeric h inputTokens] else []) @
            (if isLlm \<and> cacheTokens \<noteq> None then [''cache '' @ formatNumeric h cacheTokens] else []) @
            (if isLlm \<and> outputTokens \<noteq> None then [''output '' @ formatNumeric h outputTokens] else [])
      in if parts \<noteq> [] then Some (join_with ('' '' @ su_bullet h @ '' '') parts) else None)"

definition hasToolAttributes :: "attributes \<Rightarrow> bool" where
  "hasToolAttributes attrs \<longleftrightarrow> list_ex (\<lambda>k. map_of attrs k \<noteq> None)
     [''app.chat.tool.name'', ''app.chat.tool.input'', ''app.chat.tool.result'', ''gen_ai.tool.name'',
      ''gen_ai.tool.call'', ''gen_ai.tool.calls'', ''gen_ai.tool.call.name'', ''gen_ai.tool.call.arguments'',
      ''gen_ai.tool.call.result'']"

definition hasRequestOrResponseContent :: "js_host \<Rightarrow> trace_span \<Rightarrow> bool" where
  "hasRequestOrResponseContent h s \<longleftrightarrow>
     (let attrs = span_attributes s
      in extractRequestMessages h attrs \<noteq> [] \<or> extractResponseMessages h attrs \<noteq> [] \<or>
         extractResponseToolCalls h attrs \<noteq> [] \<or> extractToolResults h attrs \<noteq> [] \<or>
         getStringAttribute attrs ''gen_ai.response.text'' \<noteq> None \<or>
         getStringAttribute attrs ''gen_ai.response.message'' \<noteq> None \<or> hasToolAttributes attrs)"

section \<open>Relatives of a span\<close>

definition add_to_parent :: "trace_span \<Rightarrow> (ident, trace_span list) js_map \<Rightarrow> (ident, trace_span list) js_map" where
  "add_to_parent s m = (case sp_parent_span_id s of
       None \<Rightarrow> m
     | Some p \<Rightarrow> if is_blank p then m else js_set p (coalesce (js_get m p) [] @ [s]) m)"

definition buildChildrenByParent :: "trace_span list \<Rightarrow> (ident, trace_span list) js_map" where
  "buildChildrenByParent spans = fold add_to_parent spans []"

definition children_at :: "(ident, trace_span list) js_map \<Rightarrow> ident \<Rightarrow> trace_span list" where
  "children_at m i = coalesce (js_get m i) []"

text \<open>\<open>getDirectAgentName\<close> is the \<open>agent_attribute\<close> of the activity log; the ancestors are climbed alike.\<close>

function named_ancestor ::
  "(ident, trace_span) js_map \<Rightarrow> ident list \<Rightarrow> ident option \<Rightarrow> string option" where
  "named_ancestor lookup visited parentId = (case parentId of
     None \<Rightarrow> None
   | Some i \<Rightarrow>
       if is_blank i \<or> i \<in> set visited then None
       else (case js_get lookup i of
           None \<Rightarrow> None
         | Some parent \<Rightarrow> (case agent_attribute parent of
               Some nm \<Rightarrow> Some nm
             | None \<Rightarrow> named_ancestor lookup (i # visited) (sp_parent_span_id parent))))"
  by auto

termination
proof (relation "measure (\<lambda>(lookup, visited, _). card (set (js_keys lookup) - set visited))", goal_cases)
  case (2 lookup visited parentId i parent)
  then have "i \<in> set (js_keys lookup) - set visited"
    by (auto dest: js_get_in_set intro: rev_image_eqI)
  then have "card (set (js_keys lookup) - insert i (set visited)) < card (set (js_keys lookup) - set visited)"
    by (intro psubset_card_mono) auto
  then show ?case by simp
qed simp

declare named_ancestor.simps [simp del]

definition turn_resolveAgentName :: "trace_span \<Rightarrow> (ident, trace_span) js_map \<Rightarrow> string option" where
  "turn_resolveAgentName s lookup = (case agent_attribute s of
     Some nm \<Rightarrow> Some nm | None \<Rightarrow> named_ancestor lookup [] (sp_parent_span_id s))"

text \<open>
  The queue of \<open>getSortedDescendants\<close>, which nothing keeps from visiting a span again: on
  circular parents it never ends, which is \<open>None\<close>.
\<close>

partial_function (option) descendants_queue ::
  "(ident, trace_span list) js_map \<Rightarrow> trace_span list \<Rightarrow> trace_span list option" where
  "descendants_queue m queue = (case queue of
       [] \<Rightarrow> Some []
     | s # rest \<Rightarrow> Option.bind (descendants_queue m (rest @ children_at m (sp_span_id s))) (\<lambda>ds. Some (s # ds)))"

definition getSortedDescendants ::
  "js_host \<Rightarrow> ident \<Rightarrow> (ident, trace_span list) js_map \<Rightarrow> trace_span list option" where
  "getSortedDescendants h i m = map_option (sort_key (start_of h)) (descendants_queue m (children_at m i))"

definition last_or :: "'a list \<Rightarrow> 'a \<Rightarrow> 'a" where
  "last_or xs d = (if xs = [] then d else last xs)"

definition pickRepresentativeDetailSpan :: "js_host \<Rightarrow> trace_span \<Rightarrow> trace_span list \<Rightarrow> trace_span" where
  "pickRepresentativeDetailSpan h displaySpan descendants =
     last_or (filter (hasRequestOrResponseContent h) descendants)
       (last_or (filter (\<lambda>s. usable_attribute (span_attributes s) ''gen_ai.request.model'' \<noteq> None) descendants)
          displaySpan)"

section \<open>Kinds of spans\<close>

definition isStreamingSummaryLog :: "trace_span \<Rightarrow> bool" where
  "isStreamingSummaryLog s \<longleftrightarrow> map_of (span_attributes s) ''logfire.span_type'' = Some (JStr ''log'') \<and>
     starts_with (sp_name s) ''streaming response from ''"

definition isUrlGuardrailsSpan :: "trace_span \<Rightarrow> bool" where
  "isUrlGuardrailsSpan s \<longleftrightarrow> sp_name s = ''url_guardrails''"

definition getOperationName :: "trace_span \<Rightarrow> string option" where
  "getOperationName s = getStringAttribute (span_attributes s) ''gen_ai.operation.name''"

definition isLlmOperationSpan :: "trace_span \<Rightarrow> bool" where
  "isLlmOperationSpan s \<longleftrightarrow> getOperationName s \<noteq> None \<and> getOperationName s \<noteq> Some ''embeddings''"

definition normalizeOperationLabel :: "trace_span \<Rightarrow> string" where
  "normalizeOperationLabel s =
     (if starts_with (sp_name s) ''create embedding for '' then ''Embedding lookup''
      else if starts_with (sp_name s) ''retrieve documents:'' then ''Retrieve documents''
      else map (\<lambda>c. if c = CHR ''_'' then CHR '' '' else c) (sp_name s))"

datatype standalone_category = TitleCategory | SummaryCategory

definition classifyStandaloneLlm :: "trace_span \<Rightarrow> standalone_category option" where
  "classifyStandaloneLlm s =
     (let filepath = getStringAttribute (span_attributes s) ''code.filepath'';
          functionName = getStringAttribute (span_attributes s) ''code.function'';
          in_file = (\<lambda>f. case filepath of None \<Rightarrow> False | Some p \<Rightarrow> ends_with p f)
      in if functionName = Some ''_run_title_prompt'' \<or> in_file ''/app/chat/title.py'' \<or> in_file ''app/chat/title.py''
         then Some TitleCategory
         else if functionName = Some ''_generate_internal_summary'' \<or> in_file ''/app/chat/internal_summary.py'' \<or>
           in_file ''app/chat/internal_summary.py''
         then Some SummaryCategory
         else None)"

section \<open>Metrics\<close>

definition sumNumericAttributes :: "summary_host \<Rightarrow> trace_span list \<Rightarrow> string \<Rightarrow> number option" where
  "sumNumericAttributes h spans key =
     (let values = List.map_filter (\<lambda>s. getNumericAttribute h (span_attributes s) key) spans
      in if values \<noteq> [] then Some (sum_list values) else None)"

definition hasUsageMetrics :: "summary_host \<Rightarrow> trace_span \<Rightarrow> bool" where
  "hasUsageMetrics h s \<longleftrightarrow>
     (let attrs = span_attributes s
      in list_ex (\<lambda>k. getNumericAttribute h attrs k \<noteq> None)
           [''gen_ai.usage.input_tokens'', ''gen_ai.usage.cache_read.input_tokens'', ''gen_ai.usage.output_tokens'',
            ''operation.cost''] \<or>
         getStringAttribute attrs ''app.llm_response_metrics'' \<noteq> None)"

record llm_metric =
  lm_requestIndex :: "number option"
  lm_inputTokens :: "number option"
  lm_cacheReadTokens :: "number option"
  lm_outputTokens :: "number option"
  lm_cost :: "number option"

definition fields_of :: "json \<Rightarrow> attributes" where
  "fields_of j = (case j of JObj fs \<Rightarrow> fs | _ \<Rightarrow> [])"

definition parseLlmResponseMetrics :: "summary_host \<Rightarrow> trace_span \<Rightarrow> llm_metric list" where
  "parseLlmResponseMetrics h s =
     (case Option.bind (getStringAttribute (span_attributes s) ''app.llm_response_metrics'') (JSON_parse (su_js h)) of
        Some (JArr items) \<Rightarrow> map (\<lambda>item. let num = getNumericAttribute h (fields_of item) in
          \<lparr>lm_requestIndex = num ''request_index'', lm_inputTokens = num ''input_tokens'',
           lm_cacheReadTokens = num ''cache_read_tokens'', lm_outputTokens = num ''output_tokens'',
           lm_cost = num ''cost''\<rparr>) (filter isRecord items)
      | _ \<Rightarrow> [])"

definition set_number :: "string \<Rightarrow> number option \<Rightarrow> attributes \<Rightarrow> attributes" where
  "set_number key v attrs = (case v of None \<Rightarrow> attrs | Some x \<Rightarrow> js_set key (JNum x) attrs)"

definition buildMetricSpan :: "trace_span \<Rightarrow> llm_metric \<Rightarrow> trace_span" where
  "buildMetricSpan s metric = s\<lparr>sp_attributes := Some (
     set_number ''operation.cost'' (lm_cost metric)
       (set_number ''gen_ai.usage.output_tokens'' (lm_outputTokens metric)
         (set_number ''gen_ai.usage.cache_read.input_tokens'' (lm_cacheReadTokens metric)
           (set_number ''gen_ai.usage.input_tokens'' (lm_inputTokens metric)
             (js_set ''gen_ai.operation.name'' (JStr ''chat'') (span_attributes s))))))\<rparr>"

section \<open>Rows\<close>

record timing_row =
  rw_spanId :: ident
  rw_label :: string
  rw_value :: string
  rw_offsetMs :: number
  rw_durationMs :: number
  rw_start :: number
  rw_depth :: nat
  rw_displaySpan :: trace_span
  rw_detailSpan :: trace_span
  rw_metricSpans :: "trace_span list"
  rw_contentSpans :: "trace_span list"

text \<open>The range of the trace, with the host: what every row is drawn in.\<close>

record row_context =
  rc_host :: summary_host
  rc_start :: "number option"
  rc_end :: "number option"

definition createTimingRow ::
  "row_context \<Rightarrow> nat \<Rightarrow> trace_span \<Rightarrow> trace_span \<Rightarrow> string \<Rightarrow> trace_span list option \<Rightarrow> trace_span list option \<Rightarrow>
   timing_row option" where
  "createTimingRow c depth detailSpan displaySpan label metricSpans contentSpans =
     map_option (\<lambda>l. \<lparr>rw_spanId = sp_span_id displaySpan, rw_label = label,
        rw_value = formatSpanDuration (su_js (rc_host c)) (su_format (rc_host c)) displaySpan,
        rw_offsetMs = sl_offsetMs l, rw_durationMs = sl_durationMs l, rw_start = sl_start l, rw_depth = depth,
        rw_displaySpan = displaySpan, rw_detailSpan = detailSpan,
        rw_metricSpans = coalesce metricSpans [detailSpan], rw_contentSpans = coalesce contentSpans [detailSpan]\<rparr>)
       (getSpanTimelineLayout (su_js (rc_host c)) displaySpan (rc_start c) (rc_end c))"

definition push_row :: "timing_row option \<Rightarrow> timing_row list \<Rightarrow> timing_row list" where
  "push_row row rows = (case row of None \<Rightarrow> rows | Some r \<Rightarrow> rows @ [r])"

definition getRawSpanBounds :: "js_host \<Rightarrow> trace_span \<Rightarrow> (number \<times> number) option" where
  "getRawSpanBounds h s = (case (getSpanStart h s, getSpanEnd h s) of
       (None, None) \<Rightarrow> None
     | (None, Some b) \<Rightarrow> Some (b, b)
     | (Some a, None) \<Rightarrow> Some (a, a)
     | (Some a, Some b) \<Rightarrow> Some (min a b, max a b))"

definition buildSyntheticSpanFromBounds :: "summary_host \<Rightarrow> trace_span \<Rightarrow> number \<Rightarrow> number \<Rightarrow> trace_span" where
  "buildSyntheticSpanFromBounds h s startTimeMs endTimeMs = s\<lparr>
     sp_duration_ms := Some (max (endTimeMs - startTimeMs) 0),
     sp_end_time := Some (su_ISO h endTimeMs), sp_start_time := Some (su_ISO h startTimeMs)\<rparr>"

section \<open>The phases of an agent\<close>

record phase_state =
  ph_rows :: "timing_row list"
  ph_llmCount :: nat
  ph_spans :: "trace_span list"
  ph_logs :: "trace_span list"

definition phase_end_of :: "js_host \<Rightarrow> trace_span \<Rightarrow> number option" where
  "phase_end_of h s = or_else (ti_end (getResolvedSpanTiming h s)) (ti_start (getResolvedSpanTiming h s))"

definition phase_row :: "row_context \<Rightarrow> llm_metric list \<Rightarrow> nat \<Rightarrow> trace_span list \<Rightarrow> trace_span list \<Rightarrow>
  (number \<times> number) list \<Rightarrow> timing_row option" where
  "phase_row c metrics llmCount spans logs phaseBounds =
     (let phaseStart = Min (set (map fst phaseBounds));
          phaseEnd = Max (set (map snd phaseBounds @ List.map_filter (phase_end_of (su_js (rc_host c))) logs));
          detailSpan = last spans
      in createTimingRow c 1 detailSpan
           (buildSyntheticSpanFromBounds (rc_host c) detailSpan phaseStart phaseEnd)
           (''LLM #'' @ nat_string llmCount)
           (Some (if llmCount - 1 < length metrics then [buildMetricSpan detailSpan (metrics ! (llmCount - 1))] else spans))
           (Some (spans @ logs)))"

definition flushLlmPhase :: "row_context \<Rightarrow> llm_metric list \<Rightarrow> phase_state \<Rightarrow> phase_state" where
  "flushLlmPhase c metrics st =
     (if ph_spans st = [] then st
      else
        let phaseBounds = List.map_filter (getRawSpanBounds (su_js (rc_host c))) (ph_spans st)
        in if phaseBounds = [] then st\<lparr>ph_spans := [], ph_logs := []\<rparr>
           else let llmCount = ph_llmCount st + 1
                in \<lparr>ph_rows = push_row (phase_row c metrics llmCount (ph_spans st) (ph_logs st) phaseBounds) (ph_rows st),
                    ph_llmCount = llmCount, ph_spans = [], ph_logs = []\<rparr>)"

definition child_step :: "row_context \<Rightarrow> llm_metric list \<Rightarrow> trace_span \<Rightarrow> phase_state \<Rightarrow> phase_state" where
  "child_step c metrics child st =
     (if isStreamingSummaryLog child
      then (if ph_spans st \<noteq> [] then st\<lparr>ph_logs := ph_logs st @ [child]\<rparr> else st)
      else if isLlmOperationSpan child then st\<lparr>ph_spans := ph_spans st @ [child]\<rparr>
      else let st1 = flushLlmPhase c metrics st
           in st1\<lparr>ph_rows := push_row (createTimingRow c 1 child child
                (if isUrlGuardrailsSpan child then ''URL Guardrails'' else normalizeOperationLabel child) None None)
                (ph_rows st1)\<rparr>)"

definition agent_child_rows :: "row_context \<Rightarrow> llm_metric list \<Rightarrow> trace_span list \<Rightarrow> timing_row list" where
  "agent_child_rows c metrics directChildren =
     ph_rows (flushLlmPhase c metrics (fold (child_step c metrics) directChildren
       \<lparr>ph_rows = [], ph_llmCount = 0, ph_spans = [], ph_logs = []\<rparr>))"

section \<open>All rows\<close>

record row_counts =
  ct_search :: nat
  ct_chatbot :: nat
  ct_guardrails :: nat
  ct_title :: nat
  ct_summary :: nat

definition agent_label :: "string \<Rightarrow> trace_span \<Rightarrow> row_counts \<Rightarrow> string \<times> row_counts" where
  "agent_label name s n =
     (if name = ''search'' then (let k = ct_search n + 1 in
        (if k > 1 then ''Search #'' @ nat_string k else ''Search'', n\<lparr>ct_search := k\<rparr>))
      else if name = ''chatbot'' then (let k = ct_chatbot n + 1 in
        (''Chatbot Attempt #'' @ nat_string k, n\<lparr>ct_chatbot := k\<rparr>))
      else if name = ''guardrails'' then (let k = ct_guardrails n + 1 in
        (''Guardrails #'' @ nat_string k, n\<lparr>ct_guardrails := k\<rparr>))
      else (sp_name s, n))"

definition standalone_label :: "trace_span list \<Rightarrow> trace_span \<Rightarrow> row_counts \<Rightarrow> string \<times> row_counts" where
  "standalone_label sortedSpans s n =
     (let total = (\<lambda>k. length (filter (\<lambda>t. classifyStandaloneLlm t = Some k) sortedSpans))
      in case classifyStandaloneLlm s of
           Some TitleCategory \<Rightarrow> (let k = ct_title n + 1 in
             (if total TitleCategory > 1 then ''Title generation #'' @ nat_string k else ''Title generation'',
              n\<lparr>ct_title := k\<rparr>))
         | Some SummaryCategory \<Rightarrow> (let k = ct_summary n + 1 in
             (if total SummaryCategory > 1 then ''Summary generation #'' @ nat_string k else ''Summary generation'',
              n\<lparr>ct_summary := k\<rparr>))
         | None \<Rightarrow> (sp_name s, n))"

definition isTurnSpan :: "trace_span \<Rightarrow> bool" where
  "isTurnSpan s \<longleftrightarrow> str_includes (sp_name s) ''handle_conversation_turn''"

definition agent_parent :: "trace_span \<Rightarrow> string option" where
  "agent_parent s = (if starts_with (sp_name s) ''chat '' then agent_attribute s else None)"

definition agent_rows :: "row_context \<Rightarrow> (ident, trace_span list) js_map \<Rightarrow> string \<Rightarrow> trace_span \<Rightarrow> timing_row list option" where
  "agent_rows c m label s =
     map_option (\<lambda>descendants.
        push_row (createTimingRow c 0 (pickRepresentativeDetailSpan (su_js (rc_host c)) s descendants) s label
          (Some (if hasUsageMetrics (rc_host c) s then [s] else descendants)) None) [] @
        agent_child_rows c (parseLlmResponseMetrics (rc_host c) s)
          (sort_key (start_of (su_js (rc_host c))) (children_at m (sp_span_id s))))
       (getSortedDescendants (su_js (rc_host c)) (sp_span_id s) m)"

definition span_rows_step ::
  "row_context \<Rightarrow> trace_span list \<Rightarrow> (ident, trace_span list) js_map \<Rightarrow> (ident, trace_span) js_map \<Rightarrow> trace_span \<Rightarrow>
   (row_counts \<times> timing_row list) option \<Rightarrow> (row_counts \<times> timing_row list) option" where
  "span_rows_step c sortedSpans m lookup s st = (case st of
       None \<Rightarrow> None
     | Some (n, rows) \<Rightarrow>
         if isTurnSpan s then Some (n, push_row (createTimingRow c 0 s s ''Turn'' None None) rows)
         else (case agent_parent s of
             Some name \<Rightarrow>
               (let (label, n1) = agent_label name s n
                in map_option (\<lambda>rs. (n1, rows @ rs)) (agent_rows c m label s))
           | None \<Rightarrow>
               if isLlmOperationSpan s \<and> turn_resolveAgentName s lookup = None
               then (let (label, n1) = standalone_label sortedSpans s n
                     in Some (n1, push_row (createTimingRow c 0 s s label None None) rows))
               else Some (n, rows)))"

text \<open>URL guardrails that have no row yet; \<open>rowSpanIds\<close> is read off the rows.\<close>

definition guardrails_step :: "row_context \<Rightarrow> trace_span \<Rightarrow> timing_row list \<Rightarrow> timing_row list" where
  "guardrails_step c s rows =
     (if isUrlGuardrailsSpan s \<and> sp_span_id s \<notin> rw_spanId ` set rows
      then push_row (createTimingRow c 1 s s ''URL Guardrails'' None None) rows else rows)"

definition buildTimingRows ::
  "summary_host \<Rightarrow> trace_span list \<Rightarrow> number option \<Rightarrow> number option \<Rightarrow> timing_row list option" where
  "buildTimingRows h sourceSpans rangeStart rangeDuration =
     (let rangeEnd = (case (rangeStart, rangeDuration) of (Some a, Some d) \<Rightarrow> Some (a + d) | _ \<Rightarrow> None);
          c = \<lparr>rc_host = h, rc_start = rangeStart, rc_end = rangeEnd\<rparr>;
          sortedSpans = sort_key (start_of (su_js h)) sourceSpans
      in map_option (\<lambda>(n, rows). sort_key rw_start (fold (guardrails_step c) sortedSpans rows))
           (fold (span_rows_step c sortedSpans (buildChildrenByParent sourceSpans) (buildSpanLookup sourceSpans))
             sortedSpans (Some (\<lparr>ct_search = 0, ct_chatbot = 0, ct_guardrails = 0, ct_title = 0, ct_summary = 0\<rparr>, []))))"

section \<open>The row selected\<close>

record overview_selection =
  os_headerRows :: "(string \<times> string) list"
  os_systemInstructions :: "string option"
  os_requestLabel :: "string option"
  os_responseLabel :: "string option"
  os_requestMessages :: "trace_message list"
  os_responseMessages :: "trace_message list"
  os_hasSummaryContent :: bool
  os_showToolName :: bool
  os_isEmbeddings :: bool

definition summary_message :: "string \<Rightarrow> string \<Rightarrow> trace_message" where
  "summary_message r content = \<lparr>tm_role = r, tm_content = content, tm_parts = None\<rparr>"

definition url_guardrails_message :: "summary_host \<Rightarrow> attributes \<Rightarrow> trace_message" where
  "url_guardrails_message h attrs =
     (let present = (\<lambda>k v. case v of None \<Rightarrow> [] | Some j \<Rightarrow> [(k, j)])
      in summary_message ''url_guardrails'' (content_stringifyValue h (Some (JObj (
        present ''is_valid'' (map_of attrs ''app.guardrails.url.is_valid'') @
        present ''blog_urls'' (parseJsonAttribute h (map_of attrs ''app.guardrails.url.blog_urls'')) @
        present ''unknown_urls'' (parseJsonAttribute h (map_of attrs ''app.guardrails.url.unknown_urls'')))))))"

definition buildToolCallParts :: "(string \<times> string) list \<Rightarrow> trace_part list" where
  "buildToolCallParts calls = map (\<lambda>(name, arguments). \<lparr>tp_type = ''tool_call'', tp_content = Some arguments,
     tp_raw = JObj [(''name'', JStr name), (''arguments'', JStr arguments)]\<rparr>) calls"

definition buildToolResultParts :: "(string \<times> string) list \<Rightarrow> trace_part list" where
  "buildToolResultParts results = map (\<lambda>(name, result). \<lparr>tp_type = ''tool_result'', tp_content = Some result,
     tp_raw = JObj [(''name'', JStr name), (''result'', JStr result)]\<rparr>) results"

definition tool_calls_message :: "(string \<times> string) list \<Rightarrow> trace_message" where
  "tool_calls_message calls =
     \<lparr>tm_role = ''assistant'', tm_content = ''Tool calls'', tm_parts = Some (buildToolCallParts calls)\<rparr>"

definition tool_results_message :: "(string \<times> string) list \<Rightarrow> trace_message" where
  "tool_results_message results =
     \<lparr>tm_role = ''tool'', tm_content = ''Tool results'', tm_parts = Some (buildToolResultParts results)\<rparr>"

text \<open>A prompt or input that is there and whose text is not blank, as one message.\<close>

definition value_message :: "summary_host \<Rightarrow> string \<Rightarrow> json option \<Rightarrow> trace_message list option" where
  "value_message h r v = (case v of
       None \<Rightarrow> None
     | Some j \<Rightarrow> if is_blank (content_stringifyValue h v) then None
         else Some [summary_message r (content_stringifyValue h v)])"

definition operation_names :: "trace_span list \<Rightarrow> string list" where
  "operation_names spans = fold set_add (List.map_filter (\<lambda>s. case getOperationName s of
     None \<Rightarrow> None | Some name \<Rightarrow> if is_blank name then None else Some name) spans) []"

definition selection_of :: "summary_host \<Rightarrow> number option \<Rightarrow> timing_row \<Rightarrow> overview_selection" where
  "selection_of h traceStart row =
     (let js = su_js h;
          attrs = span_attributes (rw_detailSpan row);
          metricSpans = rw_metricSpans row;
          contentSpans = rw_contentSpans row;
          sum = sumNumericAttributes h metricSpans;
          spanStart = ti_start (getResolvedSpanTiming js (rw_displaySpan row));
          offset = (case (traceStart, spanStart) of (Some t, Some a) \<Rightarrow> Some (a - t) | _ \<Rightarrow> None);
          names = operation_names metricSpans;
          isEmbeddings = (names \<noteq> [] \<and> list_all (\<lambda>v. v = ''embeddings'') names);
          isLlm = (names \<noteq> [] \<and> list_all (\<lambda>v. v \<noteq> ''embeddings'') names);
          tokenSummary = (if isLlm \<or> isEmbeddings
            then buildTokenSummary h (sum ''gen_ai.usage.input_tokens'') (sum ''gen_ai.usage.cache_read.input_tokens'')
              (sum ''gen_ai.usage.output_tokens'') isLlm else None);
          prompt = value_message h ''prompt'' (resolveAttributeValue attrs [''gen_ai.request.prompt'']);
          embeddingInput = value_message h ''embedding input'' (resolveAttributeValue attrs
            [''inputs'', ''gen_ai.request.text'', ''gen_ai.request.input'', ''gen_ai.request.prompt'']);
          requestMessages = firstNonEmptyFromSpans contentSpans (extractRequestMessages js);
          responseMessages = firstNonEmptyFromSpans contentSpans (extractResponseMessages js);
          responseText = firstStringAttributeFromSpans contentSpans [''gen_ai.response.text'', ''gen_ai.response.message''];
          toolCalls = firstNonEmptyFromSpans contentSpans (extractResponseToolCalls js);
          toolResults = firstNonEmptyFromSpans contentSpans (extractToolResults js);
          urlGuardrails = map_option (url_guardrails_message h)
            (Option.bind (find isUrlGuardrailsSpan contentSpans) sp_attributes);
          hasTools = (hasToolAttributes attrs \<or> toolCalls \<noteq> [] \<or> toolResults \<noteq> []);
          resolvedRequest = (if isLlm \<and> requestMessages \<noteq> [] then requestMessages
            else if isLlm \<and> prompt \<noteq> None then the prompt
            else if isEmbeddings \<and> embeddingInput \<noteq> None then the embeddingInput
            else if \<not> isLlm \<and> hasTools \<and> toolCalls \<noteq> [] then [tool_calls_message toolCalls]
            else []);
          resolvedResponse = (if isLlm \<and> responseMessages \<noteq> [] then responseMessages
            else if isLlm \<and> responseText \<noteq> None then [summary_message ''assistant'' (the responseText)]
            else if toolCalls \<noteq> [] then [tool_calls_message toolCalls]
            else if toolResults \<noteq> [] then [tool_results_message toolResults]
            else []);
          isToolSpanSummary = (hasTools \<and> \<not> isLlm \<and> \<not> isEmbeddings)
      in \<lparr>os_headerRows = [(''Span'', rw_label row),
            (''Duration'', formatSpanDuration js (su_format h) (rw_displaySpan row)),
            (''Offset'', formatOffsetMs h offset)] @
            (case tokenSummary of None \<Rightarrow> [] | Some t \<Rightarrow> if is_blank t then [] else [(''Tokens'', t)]),
          os_systemInstructions = firstStringAttributeFromSpans contentSpans [''gen_ai.system_instructions''],
          os_requestLabel = (if isToolSpanSummary then None else Some ''Request''),
          os_responseLabel = (if isToolSpanSummary then None else Some ''Response''),
          os_requestMessages = resolvedRequest,
          os_responseMessages = (case urlGuardrails of Some m \<Rightarrow> [m] | None \<Rightarrow> resolvedResponse),
          os_hasSummaryContent = (isLlm \<or> isEmbeddings \<or> hasTools \<or> urlGuardrails \<noteq> None),
          os_showToolName = (isLlm \<or> isToolSpanSummary),
          os_isEmbeddings = isEmbeddings\<rparr>)"

definition buildSpanOverviewModel ::
  "summary_host \<Rightarrow> trace_span list \<Rightarrow> number option \<Rightarrow> number option \<Rightarrow> ident option \<Rightarrow>
   (timing_row list \<times> overview_selection option) option" where
  "buildSpanOverviewModel h spans traceStart traceEnd selectedSpanId =
     (let overallRangeDuration = (case (traceStart, traceEnd) of (Some a, Some b) \<Rightarrow> Some (b - a) | _ \<Rightarrow> None)
      in map_option (\<lambda>timingRows. (timingRows,
           Option.bind selectedSpanId (\<lambda>i. map_option (selection_of h traceStart)
             (find (\<lambda>row. rw_spanId row = i) timingRows))))
         (buildTimingRows h spans traceStart overallRangeDuration))"

end
