(* ===== verification/TurnSummaryFacts.thy ===== *)
theory TurnSummaryFacts
  imports TurnSummary TraceTimingFacts "HOL-Library.Multiset_Order"
begin

text \<open>
  When the summary of a turn returns and when it does not, what its rows are, and that it
  attributes spans to agents as the activity log of the chat does.
\<close>

section \<open>Agents\<close>

lemma named_ancestor_allowed:
  "resolve_upwards lookup visited i = Option.bind (named_ancestor lookup visited i) if_allowed"
  by (induction lookup visited i rule: resolve_upwards.induct)
    (subst resolve_upwards.simps, subst named_ancestor.simps, auto split: option.splits)

text \<open>
  The summary and the activity log attribute a span to the same agent: the log's agent is
  the summary's, if the log shows that agent at all.
\<close>

theorem summary_and_log_agree_on_agents:
  "resolveAgentName s lookup = Option.bind (turn_resolveAgentName s lookup) if_allowed"
  by (simp add: resolveAgentName_def turn_resolveAgentName_def named_ancestor_allowed split: option.split)

section \<open>Descendants\<close>

lemma turn_children_fold:
  "children_at (fold add_to_parent xs m) i =
   children_at m i @ filter (\<lambda>s. sp_parent_span_id s = Some i \<and> \<not> is_blank i) xs"
  by (induction xs arbitrary: m) (auto simp: children_at_def add_to_parent_def update_conv' split: option.splits)

lemma children_at_build:
  "children_at (buildChildrenByParent spans) i =
   filter (\<lambda>s. sp_parent_span_id s = Some i \<and> \<not> is_blank i) spans"
  using turn_children_fold [of spans "[]" i] by (simp add: buildChildrenByParent_def children_at_def)

text \<open>The parents have no circle: some rank grows from parent to child.\<close>

definition ranks :: "(ident \<Rightarrow> nat) \<Rightarrow> trace_span list \<Rightarrow> bool" where
  "ranks d spans \<longleftrightarrow> (\<forall>s \<in> set spans. \<forall>p. sp_parent_span_id s = Some p \<longrightarrow> \<not> is_blank p \<longrightarrow> d p < d (sp_span_id s))"

lemma queue_ends:
  assumes "ranks d spans" "\<forall>s \<in> set spans. d (sp_span_id s) \<le> n"
  shows "set queue \<subseteq> set spans \<Longrightarrow> descendants_queue (buildChildrenByParent spans) queue \<noteq> None"
proof (induction "image_mset (\<lambda>s. n - d (sp_span_id s)) (mset queue)" arbitrary: queue rule: less_induct)
  case less
  let ?m = "buildChildrenByParent spans" and ?w = "\<lambda>s. n - d (sp_span_id s)"
  show ?case
  proof (cases queue)
    case Nil
    then show ?thesis by (simp add: descendants_queue.simps)
  next
    case (Cons s rest)
    let ?kids = "children_at ?m (sp_span_id s)"
    have kid: "c \<in> set spans" "?w c < ?w s" if "c \<in> set ?kids" for c
    proof -
      have c: "c \<in> set spans" "sp_parent_span_id c = Some (sp_span_id s)" "\<not> is_blank (sp_span_id s)"
        using that by (auto simp: children_at_build)
      then have "d (sp_span_id s) < d (sp_span_id c)" using assms(1) unfolding ranks_def by blast
      moreover have "d (sp_span_id c) \<le> n" using assms(2) c(1) by blast
      ultimately show "c \<in> set spans" "?w c < ?w s" using c(1) by auto
    qed
    have "image_mset ?w (mset ?kids) < {#?w s#}"
      by (rule ex_gt_imp_less_multiset) (use kid(2) in auto)
    then have "image_mset ?w (mset rest) + image_mset ?w (mset ?kids) < image_mset ?w (mset rest) + {#?w s#}"
      by (rule add_strict_left_mono)
    then have small: "image_mset ?w (mset (rest @ ?kids)) < image_mset ?w (mset queue)"
      unfolding Cons by simp
    have "set (rest @ ?kids) \<subseteq> set spans"
    proof
      fix x
      assume "x \<in> set (rest @ ?kids)"
      then show "x \<in> set spans" using less.prems kid(1) [of x] unfolding Cons by auto
    qed
    then have "descendants_queue ?m (rest @ ?kids) \<noteq> None" by (rule less.hyps [OF small])
    then show ?thesis unfolding Cons by (subst descendants_queue.simps) auto
  qed
qed

lemma descendants_end:
  assumes "ranks d spans"
  shows "getSortedDescendants h i (buildChildrenByParent spans) \<noteq> None"
proof -
  let ?n = "Max (insert 0 ((\<lambda>s. d (sp_span_id s)) ` set spans))"
  have "\<forall>s \<in> set spans. d (sp_span_id s) \<le> ?n" by simp
  moreover have "set (children_at (buildChildrenByParent spans) i) \<subseteq> set spans" by (auto simp: children_at_build)
  ultimately have "descendants_queue (buildChildrenByParent spans) (children_at (buildChildrenByParent spans) i) \<noteq> None"
    by (rule queue_ends [OF assms])
  then show ?thesis by (simp add: getSortedDescendants_def)
qed

lemma steps_return:
  assumes "ranks d spans"
  shows "st \<noteq> None \<Longrightarrow>
    fold (span_rows_step c sorted_spans (buildChildrenByParent spans) lookup) xs st \<noteq> None"
proof (induction xs arbitrary: st)
  case (Cons s xs)
  have "agent_rows c (buildChildrenByParent spans) label s \<noteq> None" for label
    using descendants_end [OF assms] by (simp add: agent_rows_def)
  then have "span_rows_step c sorted_spans (buildChildrenByParent spans) lookup s st \<noteq> None"
    using Cons.prems by (auto simp: span_rows_step_def split: option.splits prod.splits)
  then show ?case using Cons.IH by simp
qed simp

text \<open>
  C38. The summary of a turn returns for every trace whose parents have no circle: its rows and
  the row selected are computed after finitely many steps.
\<close>

theorem summary_returns:
  assumes "ranks d spans"
  shows "buildSpanOverviewModel h spans traceStart traceEnd selectedSpanId \<noteq> None"
  using steps_return [OF assms] by (simp add: buildSpanOverviewModel_def buildTimingRows_def Let_def split: option.splits)

section \<open>Circular parents\<close>

lemma queue_hangs:
  assumes "\<forall>x \<in> C. \<exists>y \<in> C. y \<in> set (children_at m (sp_span_id x))"
  shows "descendants_queue m queue = Some ds \<Longrightarrow> set queue \<inter> C = {}"
proof (induction "length ds" arbitrary: ds queue rule: less_induct)
  case less
  show ?case
  proof (cases queue)
    case (Cons s rest)
    with less.prems obtain ds' where ds: "descendants_queue m (rest @ children_at m (sp_span_id s)) = Some ds'" "ds = s # ds'"
      by (subst (asm) descendants_queue.simps) (auto split: Option.bind_splits)
    then have "set (rest @ children_at m (sp_span_id s)) \<inter> C = {}" by (intro less.hyps [OF _ ds(1)]) simp
    then show ?thesis using assms Cons by auto
  qed simp
qed

lemma steps_None: "fold (span_rows_step c sorted_spans m lookup) xs None = None"
  by (induction xs) (simp_all add: span_rows_step_def)

text \<open>
  On a circle of parents with an agent's span on it the summary never returns: the queue of
  descendants grows forever, although the search for an agent's name guards against circles.
\<close>

theorem summary_hangs_on_circles:
  assumes "C \<subseteq> set spans" "\<forall>x \<in> C. \<not> is_blank (sp_span_id x) \<and> (\<exists>y \<in> C. sp_parent_span_id y = Some (sp_span_id x))"
    and "s \<in> C" "agent_parent s \<noteq> None" "\<not> isTurnSpan s"
  shows "buildSpanOverviewModel h spans traceStart traceEnd selectedSpanId = None"
proof -
  let ?m = "buildChildrenByParent spans"
  have kids: "\<forall>x \<in> C. \<exists>y \<in> C. y \<in> set (children_at ?m (sp_span_id x))"
    using assms(1,2) by (fastforce simp: children_at_build)
  have "descendants_queue ?m (children_at ?m (sp_span_id s)) = None"
  proof (rule ccontr)
    assume "descendants_queue ?m (children_at ?m (sp_span_id s)) \<noteq> None"
    then have "set (children_at ?m (sp_span_id s)) \<inter> C = {}" using queue_hangs [OF kids] by blast
    then show False using kids assms(3) by blast
  qed
  then have rows: "agent_rows c ?m label s = None" for c label by (simp add: agent_rows_def getSortedDescendants_def)
  have step: "span_rows_step c sorted_spans ?m lookup s st = None" for c sorted_spans lookup st
    using assms(4,5) rows by (auto simp: span_rows_step_def split: option.splits prod.splits)
  have "fold (span_rows_step c sorted_spans ?m lookup) xs st = None" if "s \<in> set xs" for c sorted_spans lookup xs st
    using that by (induction xs arbitrary: st) (auto simp: step steps_None)
  moreover have "s \<in> set (sort_key (start_of (su_js h)) spans)" using assms(1,3) by auto
  ultimately show ?thesis by (simp add: buildSpanOverviewModel_def buildTimingRows_def Let_def)
qed

section \<open>The phases of an agent\<close>

definition is_call_child :: "trace_span \<Rightarrow> bool" where
  "is_call_child s \<longleftrightarrow> \<not> isStreamingSummaryLog s \<and> isLlmOperationSpan s"

definition in_phase :: "trace_span \<Rightarrow> bool" where
  "in_phase s \<longleftrightarrow> isStreamingSummaryLog s \<or> isLlmOperationSpan s"

text \<open>
  The reference. A row is drawn for a span that has a place in the trace, with its name, the
  span it opens, the spans its numbers are taken from and those its content is taken from.
\<close>

definition row_of :: "row_context \<Rightarrow> string \<Rightarrow> trace_span \<Rightarrow> trace_span \<Rightarrow> trace_span list \<Rightarrow> trace_span list \<Rightarrow>
  timing_row list" where
  "row_of c label shown opened metric_spans content_spans =
     (case getSpanTimelineLayout (su_js (rc_host c)) shown (rc_start c) (rc_end c) of
        None \<Rightarrow> []
      | Some l \<Rightarrow>
          [\<lparr>rw_spanId = sp_span_id shown, rw_label = label,
            rw_value = formatSpanDuration (su_js (rc_host c)) (su_format (rc_host c)) shown,
            rw_offsetMs = sl_offsetMs l, rw_durationMs = sl_durationMs l, rw_start = sl_start l, rw_depth = 1,
            rw_displaySpan = shown, rw_detailSpan = opened,
            rw_metricSpans = metric_spans, rw_contentSpans = content_spans\<rparr>])"

definition operation_row :: "row_context \<Rightarrow> trace_span \<Rightarrow> timing_row list" where
  "operation_row c op =
     row_of c (if isUrlGuardrailsSpan op then ''URL Guardrails'' else normalizeOperationLabel op) op op [op] [op]"

text \<open>
  The row of a stretch of model calls: from the first known time of its calls to the last one of
  its calls and of the logs of their streams, opening its last call, with the numbers of the
  metric with its number, or of its calls if there is none, and the content of calls and logs.
\<close>

definition span_times :: "js_host \<Rightarrow> trace_span \<Rightarrow> number list" where
  "span_times h s = List.map_filter id [getSpanStart h s, getSpanEnd h s]"

definition log_times :: "js_host \<Rightarrow> trace_span \<Rightarrow> number list" where
  "log_times h s = (case getResolvedSpanTiming h s of t \<Rightarrow> (case (ti_start t, ti_end t) of
       (_, Some b) \<Rightarrow> [b] | (Some a, None) \<Rightarrow> [a] | _ \<Rightarrow> []))"

definition calls_row :: "row_context \<Rightarrow> llm_metric list \<Rightarrow> nat \<Rightarrow> trace_span list \<Rightarrow> trace_span list \<Rightarrow> timing_row list" where
  "calls_row c metrics k calls logs =
     (let h = su_js (rc_host c);
          call_times = concat (map (span_times h) calls);
          first = Min (set call_times);
          final = Max (set (call_times @ concat (map (log_times h) logs)));
          shown = (last calls)\<lparr>sp_start_time := Some (su_ISO (rc_host c) first),
            sp_end_time := Some (su_ISO (rc_host c) final), sp_duration_ms := Some (final - first)\<rparr>
      in row_of c (''LLM #'' @ nat_string (k + 1)) shown (last calls)
           (if k < length metrics then [buildMetricSpan (last calls) (metrics ! k)] else calls) (calls @ logs))"

text \<open>
  A stretch of model calls and streaming logs is one row of its calls and of the logs after its
  first call, with the next number, if any call has a time; another operation is a row of its own.
\<close>

definition stretch_row :: "row_context \<Rightarrow> llm_metric list \<Rightarrow> nat \<Rightarrow> trace_span list \<Rightarrow> nat \<times> timing_row list" where
  "stretch_row c metrics k stretch =
     (let calls = filter is_call_child stretch;
          logs = filter isStreamingSummaryLog (dropWhile (\<lambda>s. \<not> is_call_child s) stretch)
      in if list_ex (\<lambda>s. span_times (su_js (rc_host c)) s \<noteq> []) calls
         then (k + 1, calls_row c metrics k calls logs) else (k, []))"

function phase_rows :: "row_context \<Rightarrow> llm_metric list \<Rightarrow> nat \<Rightarrow> trace_span list \<Rightarrow> timing_row list" where
  "phase_rows c metrics k children =
     (let (k', rows) = stretch_row c metrics k (takeWhile in_phase children)
      in rows @ (case dropWhile in_phase children of
           [] \<Rightarrow> []
         | op # others \<Rightarrow>
             operation_row c op @ phase_rows c metrics k' others))"
  by auto

termination
proof (relation "measure (\<lambda>(c, metrics, k, children). length children)", goal_cases)
  case (2 c metrics k children x k' rows op others)
  then have "length (op # others) \<le> length children" using length_dropWhile_le [of in_phase children] by metis
  then show ?case by simp
qed simp

declare phase_rows.simps [simp del]

lemma push_created:
  "push_row (createTimingRow c 1 opened shown label ms cs) rows =
   rows @ row_of c label shown opened (coalesce ms [opened]) (coalesce cs [opened])"
  by (simp add: push_row_def createTimingRow_def row_of_def split: option.split)

lemma bounds_and_times:
  "getRawSpanBounds h s = (if span_times h s = [] then None
     else Some (Min (set (span_times h s)), Max (set (span_times h s))))"
  by (simp add: getRawSpanBounds_def span_times_def map_filter_simps split: option.split)

lemma no_bounds:
  "List.map_filter (getRawSpanBounds h) calls = [] \<longleftrightarrow> \<not> list_ex (\<lambda>s. span_times h s \<noteq> []) calls"
  by (induction calls) (simp_all add: map_filter_simps bounds_and_times)

lemma first_time:
  assumes "list_ex (\<lambda>s. span_times h s \<noteq> []) calls"
  shows "Min (set (map fst (List.map_filter (getRawSpanBounds h) calls))) = Min (set (concat (map (span_times h) calls)))"
  using assms
proof (induction calls)
  case (Cons s calls)
  show ?case
  proof (cases "list_ex (\<lambda>s. span_times h s \<noteq> []) calls")
    case True
    then have "concat (map (span_times h) calls) \<noteq> []" "map fst (List.map_filter (getRawSpanBounds h) calls) \<noteq> []"
      using no_bounds [of h calls] by (auto simp: list_ex_iff)
    then show ?thesis using Cons.IH [OF True]
      by (cases "span_times h s = []")
        (simp_all add: map_filter_simps bounds_and_times [of h s] Min_Un del: set_concat set_map)
  next
    case False
    then have "concat (map (span_times h) calls) = []" "List.map_filter (getRawSpanBounds h) calls = []"
      using no_bounds [of h calls] by (auto simp: list_ex_iff)
    then show ?thesis using Cons.prems False
      by (simp add: map_filter_simps bounds_and_times [of h s] del: concat_eq_Nil_conv)
  qed
qed simp

lemma logs_after: "List.map_filter (phase_end_of h) logs = concat (map (log_times h) logs)"
  by (induction logs) (simp_all add: map_filter_simps phase_end_of_def log_times_def or_else_def split: option.split)

lemma last_time:
  assumes "list_ex (\<lambda>s. span_times h s \<noteq> []) calls"
  shows "Max (set (map snd (List.map_filter (getRawSpanBounds h) calls) @ xs)) =
    Max (set (concat (map (span_times h) calls) @ xs))"
  using assms
proof (induction calls)
  case (Cons s calls)
  show ?case
  proof (cases "list_ex (\<lambda>s. span_times h s \<noteq> []) calls")
    case True
    then have "concat (map (span_times h) calls) @ xs \<noteq> []" "map snd (List.map_filter (getRawSpanBounds h) calls) @ xs \<noteq> []"
      using no_bounds [of h calls] by (auto simp: list_ex_iff)
    then show ?thesis using Cons.IH [OF True]
      by (cases "span_times h s = []")
        (simp_all add: map_filter_simps bounds_and_times [of h s] Max_Un Un_assoc del: set_concat set_map)
  next
    case False
    then have "concat (map (span_times h) calls) = []" "List.map_filter (getRawSpanBounds h) calls = []"
      using no_bounds [of h calls] by (auto simp: list_ex_iff)
    then show ?thesis using Cons.prems False
      by (cases "xs = []") (simp_all add: map_filter_simps bounds_and_times [of h s] Max_Un del: concat_eq_Nil_conv)
  qed
qed simp

lemma min_below_max:
  assumes "xs \<noteq> []"
  shows "Min (set xs) \<le> Max (set (xs @ ys :: number list))"
proof -
  have "Min (set xs) \<in> set (xs @ ys)" using assms Min_in [of "set xs"] by simp
  then show ?thesis by (intro Max_ge) simp_all
qed

lemma synthetic_span:
  "a \<le> b \<Longrightarrow> buildSyntheticSpanFromBounds h s a b =
     s\<lparr>sp_start_time := Some (su_ISO h a), sp_end_time := Some (su_ISO h b), sp_duration_ms := Some (b - a)\<rparr>"
  by (cases s) (simp add: buildSyntheticSpanFromBounds_def)

lemma phase_row_is_calls_row:
  assumes "list_ex (\<lambda>s. span_times (su_js (rc_host c)) s \<noteq> []) calls"
  shows "push_row (phase_row c metrics (Suc k) calls logs
      (List.map_filter (getRawSpanBounds (su_js (rc_host c))) calls)) rows = rows @ calls_row c metrics k calls logs"
proof -
  have "concat (map (span_times (su_js (rc_host c))) calls) \<noteq> []" using assms by (auto simp: list_ex_iff)
  from min_below_max [OF this, of "concat (map (log_times (su_js (rc_host c))) logs)"] show ?thesis
    unfolding phase_row_def Let_def first_time [OF assms] last_time [OF assms] logs_after push_created
    by (simp add: calls_row_def Let_def synthetic_span)
qed

lemma stretch_fold:
  "list_all in_phase xs \<Longrightarrow>
   fold (child_step c metrics) xs st = st\<lparr>ph_spans := ph_spans st @ filter is_call_child xs,
     ph_logs := ph_logs st @ filter isStreamingSummaryLog
       (if ph_spans st \<noteq> [] then xs else dropWhile (\<lambda>s. \<not> is_call_child s) xs)\<rparr>"
proof (induction xs arbitrary: st)
  case (Cons x xs)
  then show ?case
    by (auto simp: child_step_def is_call_child_def in_phase_def Let_def)
qed simp

lemma flush_stretch:
  "flushLlmPhase c metrics \<lparr>ph_rows = rows, ph_llmCount = k, ph_spans = filter is_call_child xs,
     ph_logs = filter isStreamingSummaryLog (dropWhile (\<lambda>s. \<not> is_call_child s) xs)\<rparr> =
   \<lparr>ph_rows = rows @ snd (stretch_row c metrics k xs), ph_llmCount = fst (stretch_row c metrics k xs), ph_spans = [], ph_logs = []\<rparr>"
proof (cases "filter is_call_child xs = []")
  case True
  then have "dropWhile (\<lambda>s. \<not> is_call_child s) xs = []" unfolding filter_empty_conv dropWhile_eq_Nil_conv .
  then have "filter isStreamingSummaryLog (dropWhile (\<lambda>s. \<not> is_call_child s) xs) = []" by (simp only: filter.simps)
  then show ?thesis using True by (simp add: flushLlmPhase_def stretch_row_def map_filter_simps del: filter_empty_conv)
next
  case False
  then show ?thesis
    using no_bounds [of "su_js (rc_host c)" "filter is_call_child xs"]
    by (simp add: flushLlmPhase_def stretch_row_def Let_def phase_row_is_calls_row)
qed

lemma phases_fold:
  "ph_rows (flushLlmPhase c metrics (fold (child_step c metrics) children
     \<lparr>ph_rows = rows, ph_llmCount = k, ph_spans = [], ph_logs = []\<rparr>)) = rows @ phase_rows c metrics k children"
proof (induction "length children" arbitrary: children rows k rule: less_induct)
  case less
  let ?xs = "takeWhile in_phase children" and ?rest = "dropWhile in_phase children"
  let ?st = "\<lparr>ph_rows = rows, ph_llmCount = k, ph_spans = [], ph_logs = []\<rparr>"
  have "list_all in_phase ?xs" by (auto simp: list_all_iff dest: set_takeWhileD)
  from stretch_fold [OF this, of c metrics ?st]
  have xs: "fold (child_step c metrics) ?xs ?st = \<lparr>ph_rows = rows, ph_llmCount = k, ph_spans = filter is_call_child ?xs,
      ph_logs = filter isStreamingSummaryLog (dropWhile (\<lambda>s. \<not> is_call_child s) ?xs)\<rparr>" by simp
  have split: "fold (child_step c metrics) children ?st = fold (child_step c metrics) ?rest (fold (child_step c metrics) ?xs ?st)"
    using fold_append [of "child_step c metrics" ?xs ?rest] by simp
  show ?case
  proof (cases "?rest")
    case Nil
    then show ?thesis
      unfolding split xs by (subst phase_rows.simps) (simp only: Nil fold_simps id_apply flush_stretch split_beta Let_def
          phase_state.simps list.case append_Nil2)
  next
    case (Cons op others)
    have op: "\<not> in_phase op" using Cons by (metis dropWhile_eq_Cons_conv)
    have len: "length others < length children" using Cons length_dropWhile_le [of in_phase children] by simp
    have "child_step c metrics op (fold (child_step c metrics) ?xs ?st) =
        \<lparr>ph_rows = rows @ snd (stretch_row c metrics k ?xs) @ operation_row c op,
         ph_llmCount = fst (stretch_row c metrics k ?xs), ph_spans = [], ph_logs = []\<rparr>"
      using op unfolding xs
      by (simp add: child_step_def in_phase_def flush_stretch Let_def push_created [unfolded One_nat_def] operation_row_def)
    then show ?thesis
      using less.hyps [OF len]
      unfolding split by (subst phase_rows.simps) (simp add: Cons split_beta)
  qed
qed

text \<open>
  C39. The rows below an agent are its phases, in their order. A stretch of model calls between
  other operations, one of which has a time, is one row: it has the next number, lasts from the
  first time of its calls to the last time of its calls and the logs of their streams, opens
  its last call, takes its numbers from the response metric of the same number, if there is
  one, and else from its calls, and has the content of its calls and of the logs after the first
  of them. Every other operation is a row of its own. A row without a place in the trace, for
  want of a time or of a trace that lasts, is left out; a stretch without times is left out
  and not numbered.
\<close>

theorem agent_rows_are_its_phases:
  "agent_child_rows c metrics children = phase_rows c metrics 0 children"
  using phases_fold [of c metrics children "[]" 0] by (simp add: agent_child_rows_def)

section \<open>The rows of a turn\<close>

abbreviation row_layout :: "row_context \<Rightarrow> trace_span \<Rightarrow> span_bar option" where
  "row_layout c s \<equiv> getSpanTimelineLayout (su_js (rc_host c)) s (rc_start c) (rc_end c)"

text \<open>A row is drawn where its span is.\<close>

definition row_ok :: "row_context \<Rightarrow> timing_row \<Rightarrow> bool" where
  "row_ok c row \<longleftrightarrow> rw_spanId row = sp_span_id (rw_displaySpan row) \<and>
     (case row_layout c (rw_displaySpan row) of None \<Rightarrow> False
      | Some l \<Rightarrow> rw_start row = sl_start l \<and> rw_offsetMs row = sl_offsetMs l \<and> rw_durationMs row = sl_durationMs l)"

lemma set_push_row: "set (push_row r rows) = set rows \<union> (case r of None \<Rightarrow> {} | Some x \<Rightarrow> {x})"
  by (simp add: push_row_def split: option.split)

lemma create_row_ok: "createTimingRow c d detail display label ms cs = Some row \<Longrightarrow> row_ok c row"
  by (auto simp: createTimingRow_def row_ok_def)

lemma push_row_ok:
  "list_all (row_ok c) (push_row (createTimingRow c d detail display label ms cs) rows) \<longleftrightarrow> list_all (row_ok c) rows"
  using create_row_ok [of c d detail display label ms cs]
  by (auto simp: push_row_def split: option.split)

lemma row_of_ok: "list_all (row_ok c) (row_of c label shown opened ms cs)"
  by (simp add: row_of_def row_ok_def split: option.split)

lemma phase_rows_ok: "list_all (row_ok c) (phase_rows c metrics k children)"
proof (induction c metrics k children rule: phase_rows.induct)
  case (1 c metrics k children)
  have "list_all (row_ok c) (snd (stretch_row c metrics k xs))" for xs
    by (simp add: stretch_row_def calls_row_def row_of_ok Let_def)
  moreover have "list_all (row_ok c) (phase_rows c metrics (fst (stretch_row c metrics k (takeWhile in_phase children))) others)"
    if "dropWhile in_phase children = op # others" for op others
    using 1 [OF refl prod.collapse that] .
  ultimately show ?case
    by (subst phase_rows.simps) (auto simp: operation_row_def row_of_ok split_beta split: list.split)
qed

lemma step_rows:
  assumes "span_rows_step c sorted_spans m lookup s (Some (n, rows)) = Some (n', rows')"
  shows "list_all (row_ok c) rows \<Longrightarrow> list_all (row_ok c) rows'" "set rows \<subseteq> set rows'"
    and "isTurnSpan s \<Longrightarrow> row_layout c s \<noteq> None \<Longrightarrow>
      \<exists>row \<in> set rows'. rw_displaySpan row = s \<and> rw_label row = ''Turn'' \<and> rw_depth row = 0"
proof -
  show "list_all (row_ok c) rows \<Longrightarrow> list_all (row_ok c) rows'" "set rows \<subseteq> set rows'"
    using assms by (auto simp: span_rows_step_def agent_rows_def push_row_ok agent_child_rows_def phases_fold phase_rows_ok
        set_push_row split: if_splits option.splits prod.splits)
  show "\<exists>row \<in> set rows'. rw_displaySpan row = s \<and> rw_label row = ''Turn'' \<and> rw_depth row = 0"
    if "isTurnSpan s" "row_layout c s \<noteq> None"
    using assms that by (auto simp: span_rows_step_def set_push_row createTimingRow_def)
qed

lemma fold_rows:
  assumes "fold (span_rows_step c sorted_spans m lookup) xs (Some (n, rows)) = Some (n', rows')"
  shows "(list_all (row_ok c) rows \<longrightarrow> list_all (row_ok c) rows') \<and> set rows \<subseteq> set rows' \<and>
    (\<forall>s \<in> set xs. isTurnSpan s \<longrightarrow> row_layout c s \<noteq> None \<longrightarrow>
      (\<exists>row \<in> set rows'. rw_displaySpan row = s \<and> rw_label row = ''Turn'' \<and> rw_depth row = 0))"
  using assms
proof (induction xs arbitrary: n rows)
  case (Cons x xs)
  then obtain n1 rows1 where st: "span_rows_step c sorted_spans m lookup x (Some (n, rows)) = Some (n1, rows1)"
      "fold (span_rows_step c sorted_spans m lookup) xs (Some (n1, rows1)) = Some (n', rows')"
    using steps_None [of c sorted_spans m lookup xs]
    by (cases "span_rows_step c sorted_spans m lookup x (Some (n, rows))") auto
  note head = step_rows [OF st(1)] and rest = Cons.IH [OF st(2)]
  show ?case
  proof (intro conjI ballI impI)
    show "list_all (row_ok c) rows \<Longrightarrow> list_all (row_ok c) rows'" using head(1) rest by blast
    show "set rows \<subseteq> set rows'" using head(2) rest by blast
    fix s
    assume "s \<in> set (x # xs)" "isTurnSpan s" "row_layout c s \<noteq> None"
    then show "\<exists>row \<in> set rows'. rw_displaySpan row = s \<and> rw_label row = ''Turn'' \<and> rw_depth row = 0"
      using head(3) rest by (cases "s = x") (blast, simp)
  qed
qed simp

lemma guardrails_fold:
  "(list_all (row_ok c) rows \<longrightarrow> list_all (row_ok c) (fold (guardrails_step c) xs rows)) \<and>
   set rows \<subseteq> set (fold (guardrails_step c) xs rows) \<and>
   (\<forall>s \<in> set xs. isUrlGuardrailsSpan s \<longrightarrow> row_layout c s \<noteq> None \<longrightarrow>
     (\<exists>row \<in> set (fold (guardrails_step c) xs rows). rw_spanId row = sp_span_id s))"
proof (induction xs arbitrary: rows)
  case (Cons x xs)
  let ?rows = "guardrails_step c x rows"
  note rest = Cons.IH [of ?rows]
  have here: "\<exists>row \<in> set ?rows. rw_spanId row = sp_span_id x" if "isUrlGuardrailsSpan x" "row_layout c x \<noteq> None"
    using that by (auto simp: guardrails_step_def set_push_row createTimingRow_def)
  have keep: "set rows \<subseteq> set ?rows" by (auto simp: guardrails_step_def set_push_row)
  have ok: "list_all (row_ok c) ?rows" if "list_all (row_ok c) rows" using that by (simp add: guardrails_step_def push_row_ok)
  show ?case
  proof (intro conjI ballI impI)
    show "list_all (row_ok c) rows \<Longrightarrow> list_all (row_ok c) (fold (guardrails_step c) (x # xs) rows)" using ok rest by simp
    show "set rows \<subseteq> set (fold (guardrails_step c) (x # xs) rows)" using keep rest by fastforce
    fix s
    assume s: "s \<in> set (x # xs)" "isUrlGuardrailsSpan s" "row_layout c s \<noteq> None"
    show "\<exists>row \<in> set (fold (guardrails_step c) (x # xs) rows). rw_spanId row = sp_span_id s"
    proof (cases "s = x")
      case True
      then obtain row where "row \<in> set ?rows" "rw_spanId row = sp_span_id s" using here s by blast
      then show ?thesis using rest by fastforce
    next
      case False
      then show ?thesis using rest s by simp
    qed
  qed
qed simp

text \<open>
  C40. The rows of a turn are in the order of their starts and drawn where their spans are, and
  no turn and no check of URLs that has a time is left out.
\<close>

theorem turn_rows_in_place:
  assumes "buildTimingRows h spans (Some a) (Some len) = Some rows"
  shows "sorted (map rw_start rows) \<and>
    list_all (row_ok \<lparr>rc_host = h, rc_start = Some a, rc_end = Some (a + len)\<rparr>) rows \<and>
    (\<forall>s \<in> set spans. getSpanTimelineLayout (su_js h) s (Some a) (Some (a + len)) \<noteq> None \<longrightarrow>
      (isTurnSpan s \<longrightarrow> (\<exists>row \<in> set rows. rw_displaySpan row = s \<and> rw_label row = ''Turn'' \<and> rw_depth row = 0)) \<and>
      (isUrlGuardrailsSpan s \<longrightarrow> (\<exists>row \<in> set rows. rw_spanId row = sp_span_id s)))"
proof -
  let ?c = "\<lparr>rc_host = h, rc_start = Some a, rc_end = Some (a + len)\<rparr>"
  let ?sorted = "sort_key (start_of (su_js h)) spans"
  obtain n rows0 where rows0: "fold (span_rows_step ?c ?sorted (buildChildrenByParent spans) (buildSpanLookup spans)) ?sorted
        (Some (\<lparr>ct_search = 0, ct_chatbot = 0, ct_guardrails = 0, ct_title = 0, ct_summary = 0\<rparr>, [])) = Some (n, rows0)"
      "rows = sort_key rw_start (fold (guardrails_step ?c) ?sorted rows0)"
    using assms by (auto simp: buildTimingRows_def Let_def)
  note first = fold_rows [OF rows0(1)] and second = guardrails_fold [of ?c rows0 ?sorted]
  have "sorted (map rw_start rows)" unfolding rows0(2) by simp
  moreover have "list_all (row_ok ?c) rows" using first second by (simp add: rows0(2) list_all_iff)
  moreover have "(isTurnSpan s \<longrightarrow> (\<exists>row \<in> set rows. rw_displaySpan row = s \<and> rw_label row = ''Turn'' \<and> rw_depth row = 0)) \<and>
      (isUrlGuardrailsSpan s \<longrightarrow> (\<exists>row \<in> set rows. rw_spanId row = sp_span_id s))"
    if s: "s \<in> set spans" and l: "getSpanTimelineLayout (su_js h) s (Some a) (Some (a + len)) \<noteq> None" for s
  proof -
    have l': "row_layout ?c s \<noteq> None" using l by simp
    have s': "s \<in> set ?sorted" using s by simp
    have same: "set rows = set (fold (guardrails_step ?c) ?sorted rows0)" unfolding rows0(2) by simp
    have "\<exists>row \<in> set rows. rw_displaySpan row = s \<and> rw_label row = ''Turn'' \<and> rw_depth row = 0" if t: "isTurnSpan s"
    proof -
      obtain row where "row \<in> set rows0" "rw_displaySpan row = s \<and> rw_label row = ''Turn'' \<and> rw_depth row = 0"
        using first s' l' t by blast
      then show ?thesis using second same by blast
    qed
    moreover have "\<exists>row \<in> set rows. rw_spanId row = sp_span_id s" if "isUrlGuardrailsSpan s"
      using second s' l' that same by blast
    ultimately show ?thesis by blast
  qed
  ultimately show ?thesis by blast
qed

section \<open>Instances\<close>

definition turn_host :: summary_host where
  "turn_host = \<lparr>su_js = \<lparr>JSON_parse = (\<lambda>_. None), JSON_stringify = (\<lambda>_. []), JSON_pretty = (\<lambda>_. []),
       number_string = (\<lambda>_. []), Date_parse = (\<lambda>s. Some (of_nat (length s)))\<rparr>,
     su_format = \<lparr>fh_locale = (\<lambda>_ _. []), fh_Number = (\<lambda>_. None)\<rparr>,
     su_ISO = (\<lambda>x. replicate (nat \<lfloor>x\<rfloor>) CHR ''x''), su_bullet = ''-''\<rparr>"

definition turn_span :: "ident \<Rightarrow> ident option \<Rightarrow> string \<Rightarrow> nat \<Rightarrow> nat \<Rightarrow> attributes \<Rightarrow> trace_span" where
  "turn_span i p name a b attrs = \<lparr>sp_span_id = i, sp_parent_span_id = p, sp_name = name, sp_status_code = None,
     sp_status_message = None, sp_start_time = Some (replicate a CHR ''x''), sp_end_time = Some (replicate b CHR ''x''),
     sp_duration_ms = None, sp_attributes = Some attrs\<rparr>"

definition llm_attributes :: attributes where
  "llm_attributes = [(''gen_ai.operation.name'', JStr ''chat'')]"

definition turn_spans :: "trace_span list" where
  "turn_spans = [turn_span ''t'' None ''handle_conversation_turn'' 1 9 [],
     turn_span ''a'' (Some ''t'') ''chat model'' 2 8 [(''gen_ai.agent.name'', JStr ''chatbot'')],
     turn_span ''l'' (Some ''a'') ''call'' 3 4 llm_attributes, turn_span ''m'' (Some ''a'') ''call'' 4 6 llm_attributes,
     turn_span ''u'' (Some ''a'') ''url_guardrails'' 6 7 [], turn_span ''n'' (Some ''a'') ''call'' 7 8 llm_attributes]"

definition loop_span :: trace_span where
  "loop_span = turn_span ''a'' (Some ''a'') ''chat model'' 2 8 [(''gen_ai.agent.name'', JStr ''chatbot'')]"

lemma summary_returns_witness:
  "buildSpanOverviewModel turn_host turn_spans (Some 1) (Some 9) (Some ''t'') \<noteq> None"
proof (rule summary_returns)
  show "ranks (\<lambda>i. if i = ''t'' then 0 else if i = ''a'' then 1 else 2) turn_spans"
    by (simp add: ranks_def turn_spans_def turn_span_def)
qed

lemma summary_hangs_on_circles_witness:
  "buildSpanOverviewModel turn_host [loop_span] (Some 1) (Some 9) None = None"
  by (rule summary_hangs_on_circles [of "{loop_span}" _ loop_span])
    (simp add: loop_span_def turn_span_def is_blank_def trim_def is_space_def,
     simp add: loop_span_def turn_span_def is_blank_def trim_def is_space_def,
     simp, code_simp, code_simp)

lemma turn_rows_in_place_witness:
  "case buildTimingRows turn_host turn_spans (Some 1) (Some 8) of
     None \<Rightarrow> False
   | Some rows \<Rightarrow> sorted (map rw_start rows) \<and> (\<exists>row \<in> set rows. rw_label row = ''Turn'')"
proof -
  have "ranks (\<lambda>i. if i = ''t'' then 0 else if i = ''a'' then 1 else 2) turn_spans"
    by (simp add: ranks_def turn_spans_def turn_span_def)
  then obtain rows where rows: "buildTimingRows turn_host turn_spans (Some 1) (Some 8) = Some rows"
    using steps_return by (force simp: buildTimingRows_def Let_def)
  have turn: "hd turn_spans \<in> set turn_spans" "isTurnSpan (hd turn_spans)" by (simp add: turn_spans_def) code_simp
  have "getSpanTimelineLayout (su_js turn_host) (hd turn_spans) (Some 1) (Some (1 + 8)) \<noteq> None" by code_simp
  with turn_rows_in_place [OF rows] turn have "sorted (map rw_start rows)" "\<exists>row \<in> set rows. rw_label row = ''Turn''" by blast+
  then show ?thesis by (simp add: rows)
qed

end
