(* ===== verification/SearchParams.thy ===== *)
theory SearchParams
  imports ChatTypes
begin

text \<open>
  What the list pages and dashboards read from their URL and their stored filters: numbers,
  flags and date ranges (the parsers shared by the search-state.ts files,
  chats/lib/review-search-state.ts), time ranges (lib/time-range.ts, lib/time-series.ts and
  lib/hooks/use-persisted-time-range.ts) and the filter by user (chats/lib/user-filter-options.ts).

  The router gives a page the parameters of the URL as JSON values; \<open>search.x\<close> is the lookup of
  \<open>x\<close>. \<open>search_host\<close> holds the functions of the language taken as they are: the time of
  \<open>new Date(text)\<close> (\<open>None\<close>: invalid), \<open>Number(text)\<close> (\<open>None\<close>: not a finite number),
  \<open>toISOString\<close> and \<open>String(number)\<close>.
\<close>

record search_host =
  sh_Date :: "string \<Rightarrow> number option"
  sh_Number :: "string \<Rightarrow> number option"
  sh_ISO :: "number \<Rightarrow> string"
  sh_String :: "number \<Rightarrow> string"

type_synonym search_params = "(string \<times> json) list"

section \<open>Numbers and flags\<close>

definition is_whole :: "number \<Rightarrow> bool" where
  "is_whole x \<longleftrightarrow> x = of_int \<lfloor>x\<rfloor>"

text \<open>
  \<open>Number.parseInt(text, 10)\<close>: white space, a sign, then as many digits as there are, whatever
  follows. Exact where the language rounds (from 2 to the 53 on).
\<close>

definition parse_int :: "string \<Rightarrow> number option" where
  "parse_int s =
     (let t = dropWhile is_space s;
          signed = (t \<noteq> [] \<and> (hd t = CHR ''-'' \<or> hd t = CHR ''+''));
          digits = takeWhile is_digit (if signed then tl t else t)
      in if digits = [] then None
         else if signed \<and> hd t = CHR ''-'' then Some (- digits_value digits)
         else finite_number (Some (digits_value digits)))"

definition parsePositiveInt :: "json option \<Rightarrow> number option" where
  "parsePositiveInt v = (case v of
       Some (JNum n) \<Rightarrow> if is_whole n \<and> n > 0 then Some n else None
     | Some (JStr s) \<Rightarrow> (case parse_int s of None \<Rightarrow> None | Some n \<Rightarrow> if n > 0 then Some n else None)
     | _ \<Rightarrow> None)"

definition parseBoolean :: "json option \<Rightarrow> bool option" where
  "parseBoolean v = (case v of
       Some (JBool b) \<Rightarrow> Some b
     | Some (JStr s) \<Rightarrow> if s = ''true'' then Some True else if s = ''false'' then Some False else None
     | _ \<Rightarrow> None)"

text \<open>A number that is one, or the number of a text that is not blank (\<open>Number\<close> of a blank text is 0).\<close>

definition given_number :: "search_host \<Rightarrow> json option \<Rightarrow> number option" where
  "given_number h v = (case v of
       Some (JNum n) \<Rightarrow> Some n
     | Some (JStr s) \<Rightarrow> if trim s \<noteq> [] then sh_Number h s else None
     | _ \<Rightarrow> None)"

definition parseNonnegativeNumber :: "search_host \<Rightarrow> json option \<Rightarrow> number option" where
  "parseNonnegativeNumber h v = (case given_number h v of
     None \<Rightarrow> None | Some n \<Rightarrow> if n \<ge> 0 then Some n else None)"

definition parseNonnegativeInteger :: "search_host \<Rightarrow> json option \<Rightarrow> number option" where
  "parseNonnegativeInteger h v = (case given_number h v of
     None \<Rightarrow> None | Some n \<Rightarrow> if is_whole n \<and> n \<ge> 0 then Some n else None)"

text \<open>A text that is one of the given ones.\<close>

definition one_of :: "string list \<Rightarrow> json option \<Rightarrow> string option" where
  "one_of options v = (case as_string v of None \<Rightarrow> None | Some s \<Rightarrow> if s \<in> set options then Some s else None)"

definition nonempty_string :: "json option \<Rightarrow> string option" where
  "nonempty_string v = (case as_string v of None \<Rightarrow> None | Some s \<Rightarrow> if s \<noteq> [] then Some s else None)"

text \<open>A flag that is set or left out.\<close>

definition set_flag :: "json option \<Rightarrow> bool option" where
  "set_flag v = (if parseBoolean v = Some True then Some True else None)"

definition DATA_TABLE_PAGE_SIZE_OPTIONS :: "number list" where
  "DATA_TABLE_PAGE_SIZE_OPTIONS = [10, 25, 50, 100]"

definition DATA_TABLE_DEFAULT_PAGE_SIZE :: number where
  "DATA_TABLE_DEFAULT_PAGE_SIZE = 25"

definition isDataTablePageSize :: "number option \<Rightarrow> bool" where
  "isDataTablePageSize v \<longleftrightarrow> (case v of None \<Rightarrow> False | Some n \<Rightarrow> n \<in> set DATA_TABLE_PAGE_SIZE_OPTIONS)"

definition page_size_of :: "number option \<Rightarrow> number" where
  "page_size_of v = (if isDataTablePageSize v then the v else DATA_TABLE_DEFAULT_PAGE_SIZE)"

section \<open>Dates\<close>

definition parseRouteDate :: "search_host \<Rightarrow> string option \<Rightarrow> number option" where
  "parseRouteDate h v = (case v of None \<Rightarrow> None | Some s \<Rightarrow> if s = [] then None else sh_Date h s)"

record date_range =
  dr_start :: "string option"
  dr_end :: "string option"
  dr_endBefore :: "string option"

definition route_date_ok :: "search_host \<Rightarrow> json option \<Rightarrow> bool" where
  "route_date_ok h v \<longleftrightarrow> (case v of
     None \<Rightarrow> True | Some (JStr s) \<Rightarrow> parseRouteDate h (Some s) \<noteq> None | _ \<Rightarrow> False)"

text \<open>Whether the first of two dates, where both are given, is later than the second.\<close>

definition date_after :: "search_host \<Rightarrow> string option \<Rightarrow> string option \<Rightarrow> bool" where
  "date_after h a b \<longleftrightarrow> (case (parseRouteDate h a, parseRouteDate h b) of (Some x, Some y) \<Rightarrow> x > y | _ \<Rightarrow> False)"

definition parseRouteDateRange ::
  "search_host \<Rightarrow> json option \<Rightarrow> json option \<Rightarrow> json option \<Rightarrow> date_range option" where
  "parseRouteDateRange h start finish endBefore =
     (let dates = \<lparr>dr_start = as_string start, dr_end = as_string finish, dr_endBefore = as_string endBefore\<rparr>
      in if finish \<noteq> None \<and> endBefore \<noteq> None then None
         else if \<not> (route_date_ok h start \<and> route_date_ok h finish \<and> route_date_ok h endBefore) then None
         else if date_after h (dr_start dates) (dr_end dates) then None
         else if dr_start dates \<noteq> None \<and> dr_start dates = dr_endBefore dates then None
         else if date_after h (dr_start dates) (dr_endBefore dates) then None
         else Some dates)"

section \<open>Time ranges\<close>

record custom_range =
  cr_start :: "number option"
  cr_end :: "number option"

definition DAY_MS :: number where
  "DAY_MS = 24 * 60 * 60 * 1000"

definition timeRangeOptions :: "(string \<times> number option) list" where
  "timeRangeOptions = [(''24h'', Some DAY_MS), (''7d'', Some (7 * DAY_MS)), (''14d'', Some (14 * DAY_MS)),
     (''30d'', Some (30 * DAY_MS)), (''60d'', Some (60 * DAY_MS)), (''90d'', Some (90 * DAY_MS)),
     (''180d'', Some (180 * DAY_MS)), (''365d'', Some (365 * DAY_MS)), (''all'', None), (''custom'', None)]"

definition isTimeRangeValue :: "string \<Rightarrow> bool" where
  "isTimeRangeValue v \<longleftrightarrow> v \<in> fst ` set timeRangeOptions"

definition getTimeRangeStart :: "string \<Rightarrow> number \<Rightarrow> number option" where
  "getTimeRangeStart period referenceDate =
     (if period = ''custom'' then None
      else case map_of timeRangeOptions period of
        Some (Some d) \<Rightarrow> Some (referenceDate - d) | _ \<Rightarrow> None)"

definition getCustomRangeQueryParams :: "search_host \<Rightarrow> custom_range \<Rightarrow> string option \<times> string option" where
  "getCustomRangeQueryParams h c = (case cr_start c of
       None \<Rightarrow> (None, None)
     | Some a \<Rightarrow> (Some (sh_ISO h a), map_option (sh_ISO h) (cr_end c)))"

definition getTimeRangeQueryParams ::
  "search_host \<Rightarrow> string \<Rightarrow> number \<Rightarrow> custom_range \<Rightarrow> string option \<times> string option" where
  "getTimeRangeQueryParams h period referenceDate c =
     (if period = ''custom'' then getCustomRangeQueryParams h c
      else case getTimeRangeStart period referenceDate of
        None \<Rightarrow> (None, None)
      | Some a \<Rightarrow> (Some (sh_ISO h a), Some (sh_ISO h referenceDate)))"

text \<open>The period of a point of a chart: from the start of its bucket to just before the end.\<close>

record chart_point =
  bp_bucket_start :: string
  bp_bucket_end :: string

definition getTimeSeriesBucketRange :: "chart_point \<Rightarrow> date_range" where
  "getTimeSeriesBucketRange point =
     \<lparr>dr_start = Some (bp_bucket_start point), dr_end = None, dr_endBefore = Some (bp_bucket_end point)\<rparr>"

subsection \<open>The time range of a dashboard, kept in the browser\<close>

record persisted_range =
  pr_timeRange :: string
  pr_customRange :: custom_range

definition parseStoredDate :: "search_host \<Rightarrow> json option \<Rightarrow> number option" where
  "parseStoredDate h v = parseRouteDate h (as_string v)"

text \<open>\<open>stored\<close> is what \<open>getItem\<close> gives, \<open>parse\<close> is \<open>JSON.parse\<close> (\<open>None\<close>: it throws).\<close>

definition loadTimeRange ::
  "search_host \<Rightarrow> (string \<Rightarrow> json option) \<Rightarrow> string option \<Rightarrow> string \<Rightarrow> persisted_range" where
  "loadTimeRange h parse stored defaultTimeRange =
     (let fallback = \<lparr>pr_timeRange = defaultTimeRange, pr_customRange = \<lparr>cr_start = None, cr_end = None\<rparr>\<rparr>
      in case stored of
           None \<Rightarrow> fallback
         | Some s \<Rightarrow> (case (if s = [] then None else parse s) of
               None \<Rightarrow> fallback
             | Some parsed \<Rightarrow>
                 if \<not> isRecord parsed then fallback
                 else let customRange = as_record (field_of parsed ''customRange'');
                          part = (\<lambda>k. parseStoredDate h (Option.bind customRange (\<lambda>c. field_of c k)))
                      in \<lparr>pr_timeRange = coalesce (one_of (map fst timeRangeOptions) (field_of parsed ''timeRange''))
                            defaultTimeRange,
                          pr_customRange = \<lparr>cr_start = part ''start'', cr_end = part ''end''\<rparr>\<rparr>))"

definition stored_date :: "search_host \<Rightarrow> string \<Rightarrow> number option \<Rightarrow> (string \<times> json) list" where
  "stored_date h k v = (case v of None \<Rightarrow> [] | Some t \<Rightarrow> [(k, JStr (sh_ISO h t))])"

text \<open>What the effect of \<open>usePersistedTimeRange\<close> passes to \<open>JSON.stringify\<close>.\<close>

definition time_range_json :: "search_host \<Rightarrow> persisted_range \<Rightarrow> json" where
  "time_range_json h r = JObj [(''timeRange'', JStr (pr_timeRange r)),
     (''customRange'', JObj (stored_date h ''start'' (cr_start (pr_customRange r)) @
        stored_date h ''end'' (cr_end (pr_customRange r))))]"

section \<open>The filter by user\<close>

record chat_user_option =
  uo_name :: "string option"
  uo_email :: string
  uo_platform :: string
  uo_ownerGroup :: "string option"

definition group_option :: "string \<Rightarrow> chat_user_option" where
  "group_option userGroup = \<lparr>uo_name = Some (if userGroup = ''staff'' then ''Staff'' else ''Devs''),
     uo_email = ''__owner_group:'' @ userGroup, uo_platform = ''internal'', uo_ownerGroup = Some userGroup\<rparr>"

definition routeUserOption :: "string option \<Rightarrow> string option \<Rightarrow> string option \<Rightarrow> chat_user_option option" where
  "routeUserOption userEmail userGroup platform = (case userGroup of
       Some g \<Rightarrow> Some (group_option g)
     | None \<Rightarrow> (case userEmail of
           None \<Rightarrow> None
         | Some e \<Rightarrow> if e = [] then None
             else Some \<lparr>uo_name = None, uo_email = e, uo_platform = coalesce platform ''internal'', uo_ownerGroup = None\<rparr>))"

record user_params =
  up_userEmail :: "string option"
  up_userGroup :: "string option"

definition buildUserFilterParams :: "chat_user_option option \<Rightarrow> user_params" where
  "buildUserFilterParams selectedUser = (case Option.bind selectedUser uo_ownerGroup of
       Some g \<Rightarrow> \<lparr>up_userEmail = None, up_userGroup = Some g\<rparr>
     | None \<Rightarrow> \<lparr>up_userEmail = (case selectedUser of
           None \<Rightarrow> None | Some u \<Rightarrow> if trim (uo_email u) = [] then None else Some (trim (uo_email u))),
         up_userGroup = None\<rparr>)"

definition parseStoredUserFilter :: "json option \<Rightarrow> chat_user_option option" where
  "parseStoredUserFilter v = (case Option.bind v (\<lambda>j. if isRecord j then Some j else None) of
       None \<Rightarrow> None
     | Some j \<Rightarrow> (case (nonempty_string (field_of j ''email''),
                        one_of [''internal'', ''public''] (field_of j ''platform'')) of
           (Some email, Some platform) \<Rightarrow>
             if field_of j ''ownerGroup'' \<noteq> None \<and> one_of [''staff'', ''devs''] (field_of j ''ownerGroup'') = None
             then None
             else Some \<lparr>uo_name = as_string (field_of j ''name''), uo_email = email, uo_platform = platform,
               uo_ownerGroup = one_of [''staff'', ''devs''] (field_of j ''ownerGroup'')\<rparr>
         | _ \<Rightarrow> None))"

text \<open>The option as the pages store it.\<close>

definition user_option_json :: "chat_user_option \<Rightarrow> json" where
  "user_option_json u =
     (let given = (\<lambda>k v. case v of None \<Rightarrow> [] | Some s \<Rightarrow> [(k, JStr s)])
      in JObj ([(''email'', JStr (uo_email u))] @ given ''name'' (uo_name u) @
           given ''ownerGroup'' (uo_ownerGroup u) @ [(''platform'', JStr (uo_platform u))]))"

definition buildOwnerGroupFilterOptions :: "(string \<Rightarrow> bool) \<Rightarrow> chat_user_option list" where
  "buildOwnerGroupFilterOptions hasPermission =
     (if hasPermission ''chats_view_users'' \<and> hasPermission ''chats_view_admins'' then [group_option ''staff''] else []) @
     (if hasPermission ''chats_view_devs'' then [group_option ''devs''] else [])"

definition getUserOptionPrimaryLabel :: "chat_user_option \<Rightarrow> string" where
  "getUserOptionPrimaryLabel u = coalesce (uo_name u) (uo_email u)"

definition getUserOptionSecondaryLabel :: "chat_user_option \<Rightarrow> string option" where
  "getUserOptionSecondaryLabel u =
     (if uo_ownerGroup u = None \<and> uo_name u \<noteq> None \<and> uo_name u \<noteq> Some [] then Some (uo_email u) else None)"

end
