(* ===== verification/ListSearches.thy ===== *)
theory ListSearches
  imports SearchParams
begin

text \<open>
  The search state of the list pages: what each makes of the parameters of its URL
  (search-state.ts of chats, messages, feedback, rag-viewer and resources, the two of evals, and
  the one in compliance/lib/presentation.ts), and the parameters a link with such a search
  has, where absent fields are left out.
\<close>

definition given_text :: "string \<Rightarrow> string option \<Rightarrow> search_params" where
  "given_text k v = (case v of None \<Rightarrow> [] | Some s \<Rightarrow> [(k, JStr s)])"

definition given_count :: "string \<Rightarrow> number option \<Rightarrow> search_params" where
  "given_count k v = (case v of None \<Rightarrow> [] | Some n \<Rightarrow> [(k, JNum n)])"

definition given_flag :: "string \<Rightarrow> bool option \<Rightarrow> search_params" where
  "given_flag k v = (case v of None \<Rightarrow> [] | Some b \<Rightarrow> [(k, JBool b)])"

lemma given_lookup [simp]:
  "map_of (given_text k v @ ps) i = or_else (if i = k then map_option JStr v else None) (map_of ps i)"
  "map_of (given_count k n @ ps) i = or_else (if i = k then map_option JNum n else None) (map_of ps i)"
  "map_of (given_flag k b @ ps) i = or_else (if i = k then map_option JBool b else None) (map_of ps i)"
  by (simp_all add: given_text_def given_count_def given_flag_def split: option.split)

lemma given_lookup_last [simp]:
  "map_of (given_text k v) i = (if i = k then map_option JStr v else None)"
  "map_of (given_count k n) i = (if i = k then map_option JNum n else None)"
  "map_of (given_flag k b) i = (if i = k then map_option JBool b else None)"
  by (simp_all add: given_text_def given_count_def given_flag_def split: option.split)

section \<open>Documents of the knowledge base\<close>

record rag_viewer_search =
  rv_document :: "string option"
  rv_query :: string
  rv_fileExtension :: string
  rv_searchMode :: string
  rv_source :: string
  rv_exclusion :: string
  rv_sortBy :: string
  rv_desc :: bool
  rv_page :: number
  rv_pageSize :: number

definition rag_sort_keys :: "string list" where
  "rag_sort_keys = [''modified_at'', ''created_at'', ''title'', ''url'', ''source_type'', ''source_id'',
     ''token_count'', ''character_count'', ''chunk_count'']"

definition rag_source_filters :: "string list" where
  "rag_source_filters = [''all'', ''website'', ''catalog'', ''training'', ''website_page'', ''website_program'',
     ''catalog_page'', ''catalog_program'', ''catalog_course'', ''training_material'']"

definition exclusion_filters :: "string list" where
  "exclusion_filters = [''all'', ''included'', ''excluded'']"

definition parseSearchMode :: "json option \<Rightarrow> string" where
  "parseSearchMode v = coalesce (one_of [''exact'', ''full_text'', ''similarity''] v) ''exact''"

text \<open>Leading dots are removed; one character class decides on the rest.\<close>

definition extension_char :: "char \<Rightarrow> bool" where
  "extension_char c \<longleftrightarrow> is_digit c \<or> ((of_char (CHR ''a'') :: nat) \<le> of_char c \<and> (of_char c :: nat) \<le> of_char (CHR ''z''))"

definition parseFileExtension :: "json option \<Rightarrow> string" where
  "parseFileExtension v = (case as_string v of
       None \<Rightarrow> []
     | Some s \<Rightarrow> (let normalized = dropWhile (\<lambda>c. c = CHR ''.'') (to_lower (trim s))
         in if normalized \<noteq> [] \<and> list_all extension_char normalized then normalized else []))"

definition validateRagViewerSearch :: "search_params \<Rightarrow> rag_viewer_search" where
  "validateRagViewerSearch search =
     \<lparr>rv_document = nonempty_string (map_of search ''document''),
      rv_query = coalesce (as_string (map_of search ''query'')) [],
      rv_fileExtension = parseFileExtension (map_of search ''fileExtension''),
      rv_searchMode = parseSearchMode (map_of search ''searchMode''),
      rv_source = coalesce (one_of rag_source_filters (map_of search ''source'')) ''all'',
      rv_exclusion = coalesce (one_of exclusion_filters (map_of search ''exclusion'')) ''included'',
      rv_sortBy = coalesce (one_of rag_sort_keys (map_of search ''sortBy'')) ''modified_at'',
      rv_desc = coalesce (parseBoolean (map_of search ''desc'')) True,
      rv_page = coalesce (parsePositiveInt (map_of search ''page'')) 1,
      rv_pageSize = page_size_of (parsePositiveInt (map_of search ''pageSize''))\<rparr>"

definition rag_viewer_params :: "rag_viewer_search \<Rightarrow> search_params" where
  "rag_viewer_params s =
     given_text ''document'' (rv_document s) @ given_text ''query'' (Some (rv_query s)) @
     given_text ''fileExtension'' (Some (rv_fileExtension s)) @ given_text ''searchMode'' (Some (rv_searchMode s)) @
     given_text ''source'' (Some (rv_source s)) @ given_text ''exclusion'' (Some (rv_exclusion s)) @
     given_text ''sortBy'' (Some (rv_sortBy s)) @ given_flag ''desc'' (Some (rv_desc s)) @
     given_count ''page'' (Some (rv_page s)) @ given_count ''pageSize'' (Some (rv_pageSize s))"

section \<open>Resources\<close>

record resources_search =
  rs_document :: "string option"
  rs_view :: string
  rs_query :: string
  rs_exclusion :: string
  rs_source :: string
  rs_sortBy :: string
  rs_desc :: bool
  rs_page :: number
  rs_pageSize :: number

definition parseView :: "json option \<Rightarrow> string" where
  "parseView v = (if v = Some (JStr ''folders'') \<or> v = Some (JStr ''browse'') then ''folders''
     else if v = Some (JStr ''history'') then ''history'' else ''list'')"

definition resources_list_sort_keys :: "string list" where
  "resources_list_sort_keys = [''title'', ''source_type'', ''source_id'', ''excluded'']"

definition resources_history_sort_keys :: "string list" where
  "resources_history_sort_keys = [''created_at'', ''action'', ''document_title'', ''source_type'', ''actor'']"

definition defaultResourcesSortBy :: "string \<Rightarrow> string" where
  "defaultResourcesSortBy view = (if view = ''history'' then ''created_at'' else ''title'')"

definition defaultResourcesDescending :: "string \<Rightarrow> bool" where
  "defaultResourcesDescending view \<longleftrightarrow> view = ''history''"

definition resources_parseSortBy :: "json option \<Rightarrow> string \<Rightarrow> string" where
  "resources_parseSortBy v view =
     (if view = ''history'' then coalesce (one_of resources_history_sort_keys v) ''created_at''
      else coalesce (one_of resources_list_sort_keys v) ''title'')"

definition validateResourcesSearch :: "search_params \<Rightarrow> resources_search" where
  "validateResourcesSearch search =
     (let view = parseView (map_of search ''view'')
      in \<lparr>rs_document = nonempty_string (map_of search ''document''), rs_view = view,
          rs_query = coalesce (as_string (map_of search ''query'')) [],
          rs_exclusion = coalesce (one_of exclusion_filters (map_of search ''exclusion'')) ''all'',
          rs_source = coalesce (one_of rag_source_filters (map_of search ''source'')) ''all'',
          rs_sortBy = resources_parseSortBy (map_of search ''sortBy'') view,
          rs_desc = coalesce (parseBoolean (map_of search ''desc'')) (defaultResourcesDescending view),
          rs_page = coalesce (parsePositiveInt (map_of search ''page'')) 1,
          rs_pageSize = page_size_of (parsePositiveInt (map_of search ''pageSize''))\<rparr>)"

definition resources_params :: "resources_search \<Rightarrow> search_params" where
  "resources_params s =
     given_text ''document'' (rs_document s) @ given_text ''view'' (Some (rs_view s)) @
     given_text ''query'' (Some (rs_query s)) @ given_text ''exclusion'' (Some (rs_exclusion s)) @
     given_text ''source'' (Some (rs_source s)) @ given_text ''sortBy'' (Some (rs_sortBy s)) @
     given_flag ''desc'' (Some (rs_desc s)) @ given_count ''page'' (Some (rs_page s)) @
     given_count ''pageSize'' (Some (rs_pageSize s))"

section \<open>Evaluation reports and cases\<close>

record eval_reports_search =
  er_desc :: bool
  er_page :: number
  er_pageSize :: number
  er_query :: string
  er_report :: "string option"
  er_sortBy :: string

definition report_sort_keys :: "string list" where
  "report_sort_keys = [''audience'', ''case_count'', ''concurrency'', ''generated_at'', ''pass_threshold'', ''repeats'',
     ''run_count'', ''status'', ''suite'', ''title'']"

definition validateEvalReportsSearch :: "search_params \<Rightarrow> eval_reports_search" where
  "validateEvalReportsSearch search =
     \<lparr>er_desc = coalesce (parseBoolean (map_of search ''desc'')) True,
      er_page = coalesce (parsePositiveInt (map_of search ''page'')) 1,
      er_pageSize = page_size_of (parsePositiveInt (map_of search ''pageSize'')),
      er_query = coalesce (as_string (map_of search ''query'')) [],
      er_report = nonempty_string (map_of search ''report''),
      er_sortBy = coalesce (one_of report_sort_keys (map_of search ''sortBy'')) ''generated_at''\<rparr>"

definition eval_reports_params :: "eval_reports_search \<Rightarrow> search_params" where
  "eval_reports_params s =
     given_flag ''desc'' (Some (er_desc s)) @ given_count ''page'' (Some (er_page s)) @
     given_count ''pageSize'' (Some (er_pageSize s)) @ given_text ''query'' (Some (er_query s)) @
     given_text ''report'' (er_report s) @ given_text ''sortBy'' (Some (er_sortBy s))"

record eval_cases_search =
  ec_caseId :: "string option"
  ec_desc :: bool
  ec_page :: number
  ec_pageSize :: number
  ec_query :: string
  ec_sortBy :: string
  ec_suite :: string

definition case_sort_keys :: "string list" where
  "case_sort_keys = [''case_id'', ''message'', ''verified'', ''expected'', ''criteria'']"

definition parseSuite :: "json option \<Rightarrow> string" where
  "parseSuite v = (if v = Some (JStr ''guardrails'') then ''guardrails'' else ''chatbot'')"

definition validateEvalCasesSearch :: "search_params \<Rightarrow> eval_cases_search" where
  "validateEvalCasesSearch search =
     \<lparr>ec_caseId = nonempty_string (map_of search ''caseId''),
      ec_desc = coalesce (parseBoolean (map_of search ''desc'')) False,
      ec_page = coalesce (parsePositiveInt (map_of search ''page'')) 1,
      ec_pageSize = page_size_of (parsePositiveInt (map_of search ''pageSize'')),
      ec_query = coalesce (as_string (map_of search ''query'')) [],
      ec_sortBy = coalesce (one_of case_sort_keys (map_of search ''sortBy'')) ''case_id'',
      ec_suite = parseSuite (map_of search ''suite'')\<rparr>"

definition eval_cases_params :: "eval_cases_search \<Rightarrow> search_params" where
  "eval_cases_params s =
     given_text ''caseId'' (ec_caseId s) @ given_flag ''desc'' (Some (ec_desc s)) @
     given_count ''page'' (Some (ec_page s)) @ given_count ''pageSize'' (Some (ec_pageSize s)) @
     given_text ''query'' (Some (ec_query s)) @ given_text ''sortBy'' (Some (ec_sortBy s)) @
     given_text ''suite'' (Some (ec_suite s))"

section \<open>Findings of a screening\<close>

record compliance_search =
  cs_page :: "number option"
  cs_pageSize :: "number option"

definition serializeComplianceSearch :: "number \<Rightarrow> number \<Rightarrow> compliance_search" where
  "serializeComplianceSearch pageIndex pageSize =
     \<lparr>cs_page = (if pageIndex = 0 then None else Some (pageIndex + 1)),
      cs_pageSize = (if pageSize = DATA_TABLE_DEFAULT_PAGE_SIZE then None else Some pageSize)\<rparr>"

definition validateComplianceSearch :: "search_params \<Rightarrow> compliance_search" where
  "validateComplianceSearch search =
     (let given = (\<lambda>k. as_number (map_of search k));
          page = (case given ''page'' of
            None \<Rightarrow> 1 | Some n \<Rightarrow> if is_whole n \<and> n < 2 ^ 53 \<and> n > 0 then n else 1)
      in serializeComplianceSearch (page - 1) (page_size_of (given ''pageSize'')))"

definition compliance_params :: "compliance_search \<Rightarrow> search_params" where
  "compliance_params s = given_count ''page'' (cs_page s) @ given_count ''pageSize'' (cs_pageSize s)"

section \<open>Chats, messages and feedback\<close>

record chats_search =
  hs_chat :: "string option"
  hs_minTurns :: "number option"
  hs_maxTurns :: "number option"
  hs_platform :: "string option"
  hs_analyticsStart :: "string option"
  hs_analyticsEnd :: "string option"
  hs_analyticsEndBefore :: "string option"
  hs_userEmail :: "string option"
  hs_userGroup :: "string option"

definition platforms :: "string list" where
  "platforms = [''internal'', ''public'']"

definition owner_groups :: "string list" where
  "owner_groups = [''staff'', ''devs'']"

text \<open>
  The filters of a drill-down count together: bounds on the number of turns, or a period in which
  the chats were created, and no part of it that is malformed.
\<close>

definition analytics_dates :: "search_host \<Rightarrow> search_params \<Rightarrow> date_range option" where
  "analytics_dates h search = parseRouteDateRange h (map_of search ''analyticsStart'') (map_of search ''analyticsEnd'')
     (map_of search ''analyticsEndBefore'')"

definition validTurnBounds :: "search_host \<Rightarrow> search_params \<Rightarrow> bool" where
  "validTurnBounds h search \<longleftrightarrow> (case parseNonnegativeInteger h (map_of search ''minTurns'') of
       None \<Rightarrow> False
     | Some a \<Rightarrow> map_of search ''maxTurns'' = None \<or>
         (case parseNonnegativeInteger h (map_of search ''maxTurns'') of None \<Rightarrow> False | Some b \<Rightarrow> b \<ge> a))"

definition validAnalyticsDrilldown :: "search_host \<Rightarrow> search_params \<Rightarrow> bool" where
  "validAnalyticsDrilldown h search \<longleftrightarrow>
     (let dates = analytics_dates h search;
          creationOnly = (map_of search ''minTurns'' = None \<and> map_of search ''maxTurns'' = None \<and>
            (case dates of None \<Rightarrow> False
             | Some r \<Rightarrow> dr_start r \<noteq> None \<or> dr_end r \<noteq> None \<or> dr_endBefore r \<noteq> None))
      in dates \<noteq> None \<and> (validTurnBounds h search \<or> creationOnly))"

definition validateChatsSearch :: "search_host \<Rightarrow> search_params \<Rightarrow> chats_search" where
  "validateChatsSearch h search =
     (let valid = validAnalyticsDrilldown h search;
          date = (\<lambda>f. if valid then Option.bind (analytics_dates h search) f else None)
      in \<lparr>hs_chat = as_string (map_of search ''chat''),
          hs_minTurns = (if valid then parseNonnegativeInteger h (map_of search ''minTurns'') else None),
          hs_maxTurns = (if valid then parseNonnegativeInteger h (map_of search ''maxTurns'') else None),
          hs_platform = (if valid then one_of platforms (map_of search ''platform'') else None),
          hs_analyticsStart = date dr_start,
          hs_analyticsEnd = date dr_end,
          hs_analyticsEndBefore = date dr_endBefore,
          hs_userEmail = (if valid then as_string (map_of search ''userEmail'') else None),
          hs_userGroup = (if valid then one_of owner_groups (map_of search ''userGroup'') else None)\<rparr>)"

definition chats_params :: "chats_search \<Rightarrow> search_params" where
  "chats_params s =
     given_text ''chat'' (hs_chat s) @ given_count ''minTurns'' (hs_minTurns s) @
     given_count ''maxTurns'' (hs_maxTurns s) @ given_text ''platform'' (hs_platform s) @
     given_text ''analyticsStart'' (hs_analyticsStart s) @ given_text ''analyticsEnd'' (hs_analyticsEnd s) @
     given_text ''analyticsEndBefore'' (hs_analyticsEndBefore s) @ given_text ''userEmail'' (hs_userEmail s) @
     given_text ''userGroup'' (hs_userGroup s)"

record messages_search =
  ms_excludeDraft :: "bool option"
  ms_guardrailStatus :: "string option"
  ms_minGenerationTimeMs :: "number option"
  ms_maxGenerationTimeMs :: "number option"
  ms_platform :: "string option"
  ms_role :: "string option"
  ms_search :: "string option"
  ms_sortBy :: "string option"
  ms_descending :: "bool option"
  ms_start :: "string option"
  ms_end :: "string option"
  ms_endBefore :: "string option"
  ms_conversationStart :: "string option"
  ms_conversationEnd :: "string option"
  ms_timeRange :: "string option"
  ms_userEmail :: "string option"
  ms_userGroup :: "string option"

definition messageSortKeys :: "string list" where
  "messageSortKeys = [''content_length'', ''created_at'', ''updated_at'', ''role'', ''conversation_title'',
     ''generation_time_ms'', ''uncached_input_tokens'', ''cache_read_input_tokens'', ''output_tokens'',
     ''response_cost'', ''tool_call_count'', ''guardrail_failure_count'', ''guardrail_retry_count'',
     ''guardrails_blocked'']"

definition validateMessagesSearch :: "search_host \<Rightarrow> search_params \<Rightarrow> messages_search" where
  "validateMessagesSearch h search =
     (let conversationRange = parseRouteDateRange h (map_of search ''conversationStart'')
            (map_of search ''conversationEnd'') None;
          dates = parseRouteDateRange h (map_of search ''start'') (map_of search ''end'') (map_of search ''endBefore'')
      in \<lparr>ms_excludeDraft = set_flag (map_of search ''excludeDraft''),
          ms_guardrailStatus = one_of [''retried'', ''blocked'', ''all''] (map_of search ''guardrailStatus''),
          ms_minGenerationTimeMs = parseNonnegativeNumber h (map_of search ''minGenerationTimeMs''),
          ms_maxGenerationTimeMs = parseNonnegativeNumber h (map_of search ''maxGenerationTimeMs''),
          ms_platform = one_of platforms (map_of search ''platform''),
          ms_role = one_of [''assistant'', ''user'', ''all''] (map_of search ''role''),
          ms_search = as_string (map_of search ''search''),
          ms_sortBy = one_of messageSortKeys (map_of search ''sortBy''),
          ms_descending = parseBoolean (map_of search ''descending''),
          ms_start = Option.bind dates dr_start,
          ms_end = Option.bind dates dr_end,
          ms_endBefore = Option.bind dates dr_endBefore,
          ms_conversationStart = Option.bind conversationRange dr_start,
          ms_conversationEnd = Option.bind conversationRange dr_end,
          ms_timeRange = one_of (map fst timeRangeOptions) (map_of search ''timeRange''),
          ms_userEmail = as_string (map_of search ''userEmail''),
          ms_userGroup = one_of owner_groups (map_of search ''userGroup'')\<rparr>)"

definition messages_params :: "messages_search \<Rightarrow> search_params" where
  "messages_params s =
     given_flag ''excludeDraft'' (ms_excludeDraft s) @ given_text ''guardrailStatus'' (ms_guardrailStatus s) @
     given_count ''minGenerationTimeMs'' (ms_minGenerationTimeMs s) @
     given_count ''maxGenerationTimeMs'' (ms_maxGenerationTimeMs s) @ given_text ''platform'' (ms_platform s) @
     given_text ''role'' (ms_role s) @ given_text ''search'' (ms_search s) @ given_text ''sortBy'' (ms_sortBy s) @
     given_flag ''descending'' (ms_descending s) @ given_text ''start'' (ms_start s) @ given_text ''end'' (ms_end s) @
     given_text ''endBefore'' (ms_endBefore s) @ given_text ''conversationStart'' (ms_conversationStart s) @
     given_text ''conversationEnd'' (ms_conversationEnd s) @ given_text ''timeRange'' (ms_timeRange s) @
     given_text ''userEmail'' (ms_userEmail s) @ given_text ''userGroup'' (ms_userGroup s)"

record feedback_search =
  fs_chat :: "string option"
  fs_excludeDraft :: "bool option"
  fs_message :: "string option"
  fs_platform :: "string option"
  fs_rating :: "string option"
  fs_search :: "string option"
  fs_start :: "string option"
  fs_end :: "string option"
  fs_endBefore :: "string option"
  fs_timeRange :: "string option"
  fs_userEmail :: "string option"
  fs_userGroup :: "string option"

definition validateFeedbackSearch :: "search_host \<Rightarrow> search_params \<Rightarrow> feedback_search" where
  "validateFeedbackSearch h search =
     (let dates = parseRouteDateRange h (map_of search ''start'') (map_of search ''end'') (map_of search ''endBefore'')
      in \<lparr>fs_chat = as_string (map_of search ''chat''),
          fs_excludeDraft = set_flag (map_of search ''excludeDraft''),
          fs_message = as_string (map_of search ''message''),
          fs_platform = one_of platforms (map_of search ''platform''),
          fs_rating = one_of [''thumbs_up'', ''thumbs_down''] (map_of search ''rating''),
          fs_search = as_string (map_of search ''search''),
          fs_start = Option.bind dates dr_start,
          fs_end = Option.bind dates dr_end,
          fs_endBefore = Option.bind dates dr_endBefore,
          fs_timeRange = one_of (map fst timeRangeOptions) (map_of search ''timeRange''),
          fs_userEmail = as_string (map_of search ''userEmail''),
          fs_userGroup = one_of owner_groups (map_of search ''userGroup'')\<rparr>)"

definition feedback_params :: "feedback_search \<Rightarrow> search_params" where
  "feedback_params s =
     given_text ''chat'' (fs_chat s) @ given_flag ''excludeDraft'' (fs_excludeDraft s) @
     given_text ''message'' (fs_message s) @ given_text ''platform'' (fs_platform s) @
     given_text ''rating'' (fs_rating s) @ given_text ''search'' (fs_search s) @ given_text ''start'' (fs_start s) @
     given_text ''end'' (fs_end s) @ given_text ''endBefore'' (fs_endBefore s) @
     given_text ''timeRange'' (fs_timeRange s) @ given_text ''userEmail'' (fs_userEmail s) @
     given_text ''userGroup'' (fs_userGroup s)"

end
