(* ===== verification/SearchFacts.thy ===== *)
theory SearchFacts
  imports ListSearches
begin

text \<open>
  What the search states guarantee: a validated search is its own canonical form, pages and sort
  keys are always allowed ones, and date ranges are ordered.
\<close>

named_theorems read_back \<open>what a parser makes of a value it has given itself\<close>

section \<open>Parsers\<close>

lemma text_read [read_back]:
  "as_string (map_option JStr v) = v"
  by (cases v) simp_all

lemma flag_read [read_back]:
  "parseBoolean (map_option JBool v) = v"
  "parseBoolean (Some (JBool b)) = Some b"
  by (cases v) (simp_all add: parseBoolean_def)

lemma set_flag_read [read_back]:
  "set_flag (map_option JBool (set_flag v)) = set_flag v"
  by (cases "parseBoolean v = Some True") (simp_all add: set_flag_def parseBoolean_def)

lemma one_of_read [read_back]:
  "one_of opts (map_option JStr (one_of opts v)) = one_of opts v"
  by (auto simp: one_of_def split: option.splits)

lemma one_of_kept:
  "d \<in> set opts \<Longrightarrow>
   one_of opts (Some (JStr (coalesce (one_of opts v) d))) = Some (coalesce (one_of opts v) d)"
  by (auto simp: one_of_def split: option.splits)

lemma one_of_in: "d \<in> set opts \<Longrightarrow> coalesce (one_of opts v) d \<in> set opts"
  by (auto simp: one_of_def split: option.splits)

lemma nonempty_read [read_back]:
  "nonempty_string (map_option JStr (nonempty_string v)) =
   nonempty_string v"
  by (auto simp: nonempty_string_def split: option.splits)

lemma is_whole_int [simp]: "is_whole (of_int i)" "is_whole (of_nat n)" "is_whole 1"
  by (simp_all add: is_whole_def)

lemma digits_value_whole: "\<exists>n :: int. digits_value ds = of_int n"
proof (induction ds rule: rev_induct)
  case Nil
  show ?case by (intro exI [of _ 0]) (simp add: digits_value_def)
next
  case (snoc c ds)
  then obtain n where "digits_value ds = of_int n" by blast
  then have "digits_value (ds @ [c]) = of_int (10 * n + (of_nat (of_char c) - 48))"
    by (simp add: digits_value_def)
  then show ?case by blast
qed

lemma parse_int_whole: "parse_int s = Some n \<Longrightarrow> is_whole n"
  using digits_value_whole
  by (auto simp: parse_int_def Let_def finite_number_def is_whole_def split: if_splits)
    (metis floor_of_int is_whole_def of_int_minus)+

lemma parsePositiveInt_range: "parsePositiveInt v = Some n \<Longrightarrow> is_whole n \<and> n > 0"
  by (auto simp: parsePositiveInt_def dest: parse_int_whole split: option.splits json.splits if_splits)

lemma page_range: "is_whole (coalesce (parsePositiveInt v) 1) \<and> coalesce (parsePositiveInt v) 1 > 0"
  by (cases "parsePositiveInt v") (auto dest: parsePositiveInt_range)

lemma page_at_least: "coalesce (parsePositiveInt v) 1 \<ge> 1"
proof -
  obtain i :: int where "coalesce (parsePositiveInt v) 1 = of_int i"
    using page_range [of v] unfolding is_whole_def by blast
  then show ?thesis using page_range [of v] by simp
qed

lemma page_read [read_back]:
  "parsePositiveInt (Some (JNum (coalesce (parsePositiveInt v) 1))) = Some (coalesce (parsePositiveInt v) 1)"
  using page_range [of v] by (simp add: parsePositiveInt_def)

lemma page_size_range: "page_size_of v \<in> set DATA_TABLE_PAGE_SIZE_OPTIONS"
  by (auto simp: page_size_of_def isDataTablePageSize_def DATA_TABLE_PAGE_SIZE_OPTIONS_def
      DATA_TABLE_DEFAULT_PAGE_SIZE_def split: option.splits)

lemma page_size_kept: "n \<in> set DATA_TABLE_PAGE_SIZE_OPTIONS \<Longrightarrow> page_size_of (Some n) = n"
  by (simp add: page_size_of_def isDataTablePageSize_def)

lemma page_size_read [read_back]:
  "page_size_of (parsePositiveInt (Some (JNum (page_size_of v)))) = page_size_of v"
proof -
  have "parsePositiveInt (Some (JNum (page_size_of v))) = Some (page_size_of v)"
    using page_size_range [of v] by (auto simp: parsePositiveInt_def is_whole_def DATA_TABLE_PAGE_SIZE_OPTIONS_def)
  then show ?thesis by (simp add: page_size_kept page_size_range)
qed

lemma nonnegative_read [read_back]:
  "parseNonnegativeNumber h (map_option JNum (parseNonnegativeNumber h v)) = parseNonnegativeNumber h v"
  by (auto simp: parseNonnegativeNumber_def given_number_def split: option.splits)

lemma nonnegative_integer_kept:
  "parseNonnegativeInteger h v = Some n \<Longrightarrow> parseNonnegativeInteger h (Some (JNum n)) = Some n"
  by (auto simp: parseNonnegativeInteger_def given_number_def split: option.splits if_splits)

text \<open>The characters of a file extension are kept by \<open>trim\<close>, \<open>toLowerCase\<close> and the removal of dots.\<close>

lemma extension_char_kept: "extension_char c \<Longrightarrow> lower_char c = c \<and> \<not> is_space c \<and> c \<noteq> CHR ''.''"
  by (auto simp: extension_char_def is_digit_def lower_char_def is_space_def)

lemma file_extension_read [read_back]:
  "parseFileExtension (Some (JStr (parseFileExtension v))) = parseFileExtension v"
proof (cases "parseFileExtension v")
  case Nil
  then show ?thesis by (simp add: parseFileExtension_def to_lower_def trim_def)
next
  case (Cons c s)
  let ?x = "parseFileExtension v"
  have all: "list_all extension_char ?x"
    by (auto simp: parseFileExtension_def Let_def split: option.splits)
  then have kept: "\<forall>d \<in> set ?x. lower_char d = d \<and> \<not> is_space d \<and> d \<noteq> CHR ''.''"
    using extension_char_kept by (auto simp: list_all_iff)
  have "trim ?x = ?x" using kept Cons by (intro trim_id) (auto simp: hd_in_set)
  moreover have "to_lower ?x = ?x" using kept by (auto simp: to_lower_def intro: map_idI)
  moreover have "dropWhile (\<lambda>d. d = CHR ''.'') ?x = ?x"
    using kept by (auto simp: dropWhile_eq_self_iff Cons)
  ultimately show ?thesis using all Cons
    by (subst parseFileExtension_def) simp
qed

lemma search_mode_read [read_back]: "parseSearchMode (Some (JStr (parseSearchMode v))) = parseSearchMode v"
  by (simp add: parseSearchMode_def one_of_kept)

lemma view_read [read_back]: "parseView (Some (JStr (parseView v))) = parseView v"
  by (simp add: parseView_def)

lemma suite_read [read_back]: "parseSuite (Some (JStr (parseSuite v))) = parseSuite v"
  by (simp add: parseSuite_def)

lemma resources_sort_range:
  "resources_parseSortBy v view \<in>
   set (if view = ''history'' then resources_history_sort_keys else resources_list_sort_keys)"
  using one_of_in [of "''created_at''" resources_history_sort_keys v] one_of_in [of "''title''" resources_list_sort_keys v]
  by (simp add: resources_parseSortBy_def resources_history_sort_keys_def resources_list_sort_keys_def)

lemma resources_sort_read [read_back]:
  "resources_parseSortBy (Some (JStr (resources_parseSortBy v view))) view = resources_parseSortBy v view"
  by (simp add: resources_parseSortBy_def one_of_kept resources_history_sort_keys_def resources_list_sort_keys_def)

lemmas filters_read [read_back] =
  one_of_kept [of "''all''" rag_source_filters, simplified rag_source_filters_def, simplified, folded rag_source_filters_def]
  one_of_kept [of "''all''" exclusion_filters, simplified exclusion_filters_def, simplified, folded exclusion_filters_def]
  one_of_kept [of "''included''" exclusion_filters, simplified exclusion_filters_def, simplified, folded exclusion_filters_def]
  one_of_kept [of "''modified_at''" rag_sort_keys, simplified rag_sort_keys_def, simplified, folded rag_sort_keys_def]
  one_of_kept [of "''generated_at''" report_sort_keys, simplified report_sort_keys_def, simplified, folded report_sort_keys_def]
  one_of_kept [of "''case_id''" case_sort_keys, simplified case_sort_keys_def, simplified, folded case_sort_keys_def]

section \<open>Date ranges\<close>

lemma range_of_dates:
  assumes "parseRouteDateRange h a b c = Some r"
  shows "r = \<lparr>dr_start = as_string a, dr_end = as_string b, dr_endBefore = as_string c\<rparr>"
    and "map_option JStr (dr_start r) = a" "map_option JStr (dr_end r) = b" "map_option JStr (dr_endBefore r) = c"
  using assms
  by (auto simp: parseRouteDateRange_def Let_def route_date_ok_def split: if_splits option.splits json.splits)

lemma absent_dates: "parseRouteDateRange h None None None = Some \<lparr>dr_start = None, dr_end = None, dr_endBefore = None\<rparr>"
  by (simp add: parseRouteDateRange_def Let_def route_date_ok_def date_after_def parseRouteDate_def)

text \<open>A range that is read gives itself when it is written and read again; one that is refused leaves nothing.\<close>

lemma dates_read [read_back]:
  "parseRouteDateRange h (map_option JStr (Option.bind (parseRouteDateRange h a b c) dr_start))
     (map_option JStr (Option.bind (parseRouteDateRange h a b c) dr_end))
     (map_option JStr (Option.bind (parseRouteDateRange h a b c) dr_endBefore)) =
   Some (coalesce (parseRouteDateRange h a b c) \<lparr>dr_start = None, dr_end = None, dr_endBefore = None\<rparr>)"
proof (cases "parseRouteDateRange h a b c")
  case None
  then show ?thesis by (simp add: absent_dates)
next
  case (Some r)
  then show ?thesis using range_of_dates(2-4) [OF Some] by simp
qed

lemma dates_bind [read_back]:
  "dr_start (coalesce x \<lparr>dr_start = None, dr_end = None, dr_endBefore = None\<rparr>) = Option.bind x dr_start"
  "dr_end (coalesce x \<lparr>dr_start = None, dr_end = None, dr_endBefore = None\<rparr>) = Option.bind x dr_end"
  "dr_endBefore (coalesce x \<lparr>dr_start = None, dr_end = None, dr_endBefore = None\<rparr>) = Option.bind x dr_endBefore"
  by (cases x; simp)+

lemma closed_dates_read [read_back]:
  "parseRouteDateRange h (map_option JStr (Option.bind (parseRouteDateRange h a b None) dr_start))
     (map_option JStr (Option.bind (parseRouteDateRange h a b None) dr_end)) None =
   Some (coalesce (parseRouteDateRange h a b None) \<lparr>dr_start = None, dr_end = None, dr_endBefore = None\<rparr>)"
proof -
  have "Option.bind (parseRouteDateRange h a b None) dr_endBefore = None"
    by (cases "parseRouteDateRange h a b None") (auto dest!: range_of_dates(1))
  then show ?thesis using dates_read [of h a b None] by simp
qed

section \<open>Validated searches\<close>

declare map_of_append [simp del]

lemma rag_viewer_stable: "validateRagViewerSearch (rag_viewer_params (validateRagViewerSearch p)) = validateRagViewerSearch p"
  by (simp add: validateRagViewerSearch_def rag_viewer_params_def read_back)

lemma resources_stable: "validateResourcesSearch (resources_params (validateResourcesSearch p)) = validateResourcesSearch p"
  by (simp add: validateResourcesSearch_def resources_params_def Let_def read_back)

lemma eval_reports_stable:
  "validateEvalReportsSearch (eval_reports_params (validateEvalReportsSearch p)) = validateEvalReportsSearch p"
  by (simp add: validateEvalReportsSearch_def eval_reports_params_def read_back)

lemma eval_cases_stable: "validateEvalCasesSearch (eval_cases_params (validateEvalCasesSearch p)) = validateEvalCasesSearch p"
  by (simp add: validateEvalCasesSearch_def eval_cases_params_def read_back)

lemma messages_stable: "validateMessagesSearch h (messages_params (validateMessagesSearch h p)) = validateMessagesSearch h p"
  by (simp add: validateMessagesSearch_def messages_params_def Let_def read_back)

lemma feedback_stable: "validateFeedbackSearch h (feedback_params (validateFeedbackSearch h p)) = validateFeedbackSearch h p"
  by (simp add: validateFeedbackSearch_def feedback_params_def Let_def read_back)

lemma compliance_stable: "validateComplianceSearch (compliance_params (validateComplianceSearch p)) = validateComplianceSearch p"
proof -
  define n where "n = (case as_number (map_of p ''page'') of
    None \<Rightarrow> 1 | Some n \<Rightarrow> if is_whole n \<and> n < 2 ^ 53 \<and> n > 0 then n else 1)"
  define k where "k = page_size_of (as_number (map_of p ''pageSize''))"
  have n: "is_whole n" "n < 2 ^ 53" "n > 0" by (auto simp: n_def split: option.splits)
  have k: "page_size_of (Some k) = k" by (simp add: k_def page_size_kept page_size_range)
  have absent: "page_size_of None = DATA_TABLE_DEFAULT_PAGE_SIZE"
    by (simp add: page_size_of_def isDataTablePageSize_def)
  have "validateComplianceSearch p = serializeComplianceSearch (n - 1) k"
    by (simp add: validateComplianceSearch_def n_def k_def)
  moreover have "validateComplianceSearch (compliance_params (serializeComplianceSearch (n - 1) k)) =
      serializeComplianceSearch (n - 1) k"
    using n k absent by (auto simp: validateComplianceSearch_def compliance_params_def serializeComplianceSearch_def)
  ultimately show ?thesis by simp
qed

lemma nonnegative_integer_read [read_back]:
  "parseNonnegativeInteger h (map_option JNum (parseNonnegativeInteger h v)) = parseNonnegativeInteger h v"
  by (cases "parseNonnegativeInteger h v")
    (simp_all add: nonnegative_integer_kept, simp add: parseNonnegativeInteger_def given_number_def)

lemma nonnegative_integer_absent: "parseNonnegativeInteger h None = None"
  by (simp add: parseNonnegativeInteger_def given_number_def)

lemma chats_stable: "validateChatsSearch h (chats_params (validateChatsSearch h p)) = validateChatsSearch h p"
proof (cases "validAnalyticsDrilldown h p")
  case True
  let ?q = "chats_params (validateChatsSearch h p)"
  have dates: "analytics_dates h ?q = analytics_dates h p"
    using True dates_read [of h "map_of p ''analyticsStart''" "map_of p ''analyticsEnd''" "map_of p ''analyticsEndBefore''"]
    by (auto simp: analytics_dates_def validateChatsSearch_def chats_params_def Let_def validAnalyticsDrilldown_def)
  have turns: "map_of ?q ''minTurns'' = map_option JNum (parseNonnegativeInteger h (map_of p ''minTurns''))"
      "map_of ?q ''maxTurns'' = map_option JNum (parseNonnegativeInteger h (map_of p ''maxTurns''))"
    using True by (simp_all add: validateChatsSearch_def chats_params_def Let_def)
  have "validAnalyticsDrilldown h ?q"
  proof (cases "validTurnBounds h p")
    case bounds: True
    then have "validTurnBounds h ?q"
      by (auto simp: validTurnBounds_def turns read_back nonnegative_integer_absent split: option.splits)
    then show ?thesis using True by (simp add: validAnalyticsDrilldown_def dates Let_def)
  next
    case False
    then show ?thesis using True
      by (simp add: validAnalyticsDrilldown_def dates turns Let_def nonnegative_integer_absent)
  qed
  then show ?thesis using True
    by (simp add: validateChatsSearch_def [of h ?q] dates turns Let_def read_back)
      (simp add: validateChatsSearch_def chats_params_def Let_def read_back)
next
  case False
  let ?q = "chats_params (validateChatsSearch h p)"
  have "validateChatsSearch h p = \<lparr>hs_chat = as_string (map_of p ''chat''), hs_minTurns = None, hs_maxTurns = None,
      hs_platform = None, hs_analyticsStart = None, hs_analyticsEnd = None, hs_analyticsEndBefore = None,
      hs_userEmail = None, hs_userGroup = None\<rparr>"
    using False by (simp add: validateChatsSearch_def Let_def)
  moreover from this have "\<not> validAnalyticsDrilldown h ?q" "as_string (map_of ?q ''chat'') = as_string (map_of p ''chat'')"
    by (simp_all add: validAnalyticsDrilldown_def analytics_dates_def validTurnBounds_def chats_params_def absent_dates
        nonnegative_integer_absent read_back)
  ultimately show ?thesis
    by (subst validateChatsSearch_def) (simp only: Let_def if_False)
qed

text \<open>
  The contract of a list page with the router: \<open>validate\<close> reads the parameters of a URL, \<open>link\<close>
  gives those of a link, and a search that was read is read again from its own link.
\<close>

locale search_state =
  fixes validate :: "search_params \<Rightarrow> 's"
    and link :: "'s \<Rightarrow> search_params"
  assumes stable: "validate (link (validate p)) = validate p"
begin

lemma canonical_iff: "validate (link s) = s \<longleftrightarrow> s \<in> range validate"
proof
  assume "s \<in> range validate"
  then show "validate (link s) = s" using stable by auto
qed (metis rangeI)

lemma reloads: "((\<lambda>s. validate (link s)) ^^ n) (validate p) = validate p"
  by (induction n) (simp_all add: stable)

end

interpretation rag_state: search_state validateRagViewerSearch rag_viewer_params
  by unfold_locales (rule rag_viewer_stable)

interpretation resources_state: search_state validateResourcesSearch resources_params
  by unfold_locales (rule resources_stable)

interpretation reports_state: search_state validateEvalReportsSearch eval_reports_params
  by unfold_locales (rule eval_reports_stable)

interpretation cases_state: search_state validateEvalCasesSearch eval_cases_params
  by unfold_locales (rule eval_cases_stable)

interpretation compliance_state: search_state validateComplianceSearch compliance_params
  by unfold_locales (rule compliance_stable)

interpretation chats_state: search_state "validateChatsSearch h" chats_params for h
  by unfold_locales (rule chats_stable)

interpretation messages_state: search_state "validateMessagesSearch h" messages_params for h
  by unfold_locales (rule messages_stable)

interpretation feedback_state: search_state "validateFeedbackSearch h" feedback_params for h
  by unfold_locales (rule feedback_stable)

text \<open>
  C33. A validated search is its own canonical form: whatever the URL of a list page says, after
  any number of page loads from the links to what the page made of it the search is the same.
  The pages rewrite their URL from it, so nothing drifts.
\<close>

theorem validated_searches_are_stable:
  "((\<lambda>s. validateRagViewerSearch (rag_viewer_params s)) ^^ n) (validateRagViewerSearch p) = validateRagViewerSearch p \<and>
   ((\<lambda>s. validateResourcesSearch (resources_params s)) ^^ n) (validateResourcesSearch p) = validateResourcesSearch p \<and>
   ((\<lambda>s. validateEvalReportsSearch (eval_reports_params s)) ^^ n) (validateEvalReportsSearch p) = validateEvalReportsSearch p \<and>
   ((\<lambda>s. validateEvalCasesSearch (eval_cases_params s)) ^^ n) (validateEvalCasesSearch p) = validateEvalCasesSearch p \<and>
   ((\<lambda>s. validateComplianceSearch (compliance_params s)) ^^ n) (validateComplianceSearch p) = validateComplianceSearch p \<and>
   ((\<lambda>s. validateChatsSearch h (chats_params s)) ^^ n) (validateChatsSearch h p) = validateChatsSearch h p \<and>
   ((\<lambda>s. validateMessagesSearch h (messages_params s)) ^^ n) (validateMessagesSearch h p) = validateMessagesSearch h p \<and>
   ((\<lambda>s. validateFeedbackSearch h (feedback_params s)) ^^ n) (validateFeedbackSearch h p) = validateFeedbackSearch h p"
  by (simp only: rag_state.reloads resources_state.reloads reports_state.reloads cases_state.reloads compliance_state.reloads chats_state.reloads
      messages_state.reloads feedback_state.reloads simp_thms)

section \<open>Allowed values\<close>

lemma page_sizes: "page_size_of v \<in> {10, 25, 50, 100}"
  using page_size_range [of v] by (simp add: DATA_TABLE_PAGE_SIZE_OPTIONS_def)

lemma sort_key_range:
  "coalesce (one_of rag_sort_keys v) ''modified_at'' \<in> set rag_sort_keys"
  "coalesce (one_of report_sort_keys v) ''generated_at'' \<in> set report_sort_keys"
  "coalesce (one_of case_sort_keys v) ''case_id'' \<in> set case_sort_keys"
  by (rule one_of_in, simp add: rag_sort_keys_def report_sort_keys_def case_sort_keys_def)+

text \<open>
  Whatever the URL says, a list page asks for a page with a positive whole number, of a size
  it offers, sorted by a column of the view it shows.
\<close>

theorem list_pages_are_bounded:
  "is_whole (rv_page (validateRagViewerSearch p)) \<and> rv_page (validateRagViewerSearch p) \<ge> 1 \<and>
   rv_pageSize (validateRagViewerSearch p) \<in> {10, 25, 50, 100} \<and>
   rv_sortBy (validateRagViewerSearch p) \<in> set rag_sort_keys \<and>
   is_whole (rs_page (validateResourcesSearch p)) \<and> rs_page (validateResourcesSearch p) \<ge> 1 \<and>
   rs_pageSize (validateResourcesSearch p) \<in> {10, 25, 50, 100} \<and>
   rs_sortBy (validateResourcesSearch p) \<in> set (if rs_view (validateResourcesSearch p) = ''history''
     then resources_history_sort_keys else resources_list_sort_keys) \<and>
   is_whole (er_page (validateEvalReportsSearch p)) \<and> er_page (validateEvalReportsSearch p) \<ge> 1 \<and>
   er_pageSize (validateEvalReportsSearch p) \<in> {10, 25, 50, 100} \<and>
   er_sortBy (validateEvalReportsSearch p) \<in> set report_sort_keys \<and>
   is_whole (ec_page (validateEvalCasesSearch p)) \<and> ec_page (validateEvalCasesSearch p) \<ge> 1 \<and>
   ec_pageSize (validateEvalCasesSearch p) \<in> {10, 25, 50, 100} \<and>
   ec_sortBy (validateEvalCasesSearch p) \<in> set case_sort_keys"
  using page_range page_at_least page_sizes resources_sort_range sort_key_range
  by (simp add: validateRagViewerSearch_def validateResourcesSearch_def validateEvalReportsSearch_def
      validateEvalCasesSearch_def Let_def)

end
