(* ===== verification/Drilldown.thy ===== *)
theory Drilldown
  imports SearchFacts
begin

text \<open>
  From a chart to the rows behind it: the links of the dashboards
  (chat-analytics/lib/drilldown.ts, quality/lib/drilldown.ts and the click handlers of
  quality/components/quality-page.tsx), what the target pages derive from the validated search
  (messages/components/messages-page.tsx, feedback/components/feedback-page.tsx,
  chats/components/chats-page.tsx), and the queries they send (the api.ts of messages, feedback
  and chats).
\<close>

section \<open>Links\<close>

text \<open>The period a dashboard was loaded for, as the strings that were sent, and what it is filtered by.\<close>

type_synonym applied_range = "string option \<times> string option"

definition platform_filter :: "string \<Rightarrow> string option" where
  "platform_filter platform = (if platform = ''both'' then None else Some platform)"

record chat_bucket =
  cb_min_turns :: number
  cb_max_turns :: "number option"

definition getChatVolumeDrilldownSearch :: "chart_point \<Rightarrow> string \<Rightarrow> user_params \<Rightarrow> chats_search" where
  "getChatVolumeDrilldownSearch point platform owner =
     (let dates = getTimeSeriesBucketRange point
      in \<lparr>hs_chat = None, hs_minTurns = None, hs_maxTurns = None, hs_platform = platform_filter platform,
          hs_analyticsStart = dr_start dates, hs_analyticsEnd = None, hs_analyticsEndBefore = dr_endBefore dates,
          hs_userEmail = up_userEmail owner, hs_userGroup = up_userGroup owner\<rparr>)"

definition getChatLengthDrilldownSearch :: "chat_bucket \<Rightarrow> applied_range \<Rightarrow> string \<Rightarrow> user_params \<Rightarrow> chats_search" where
  "getChatLengthDrilldownSearch bucket appliedRange platform owner =
     \<lparr>hs_chat = None, hs_minTurns = Some (cb_min_turns bucket), hs_maxTurns = cb_max_turns bucket,
      hs_platform = platform_filter platform, hs_analyticsStart = fst appliedRange, hs_analyticsEnd = snd appliedRange,
      hs_analyticsEndBefore = None, hs_userEmail = up_userEmail owner, hs_userGroup = up_userGroup owner\<rparr>"

definition no_messages_search :: messages_search where
  "no_messages_search = \<lparr>ms_excludeDraft = None, ms_guardrailStatus = None, ms_minGenerationTimeMs = None,
     ms_maxGenerationTimeMs = None, ms_platform = None, ms_role = None, ms_search = None, ms_sortBy = None,
     ms_descending = None, ms_start = None, ms_end = None, ms_endBefore = None, ms_conversationStart = None,
     ms_conversationEnd = None, ms_timeRange = None, ms_userEmail = None, ms_userGroup = None\<rparr>"

definition getTurnsVolumeDrilldownSearch ::
  "chart_point \<Rightarrow> applied_range \<Rightarrow> string \<Rightarrow> user_params \<Rightarrow> messages_search" where
  "getTurnsVolumeDrilldownSearch point appliedRange platform owner =
     (let dates = getTimeSeriesBucketRange point
      in no_messages_search\<lparr>ms_start := dr_start dates, ms_endBefore := dr_endBefore dates, ms_timeRange := Some ''custom'',
          ms_conversationStart := fst appliedRange, ms_conversationEnd := snd appliedRange, ms_role := Some ''user'',
          ms_platform := platform_filter platform, ms_userEmail := up_userEmail owner, ms_userGroup := up_userGroup owner\<rparr>)"

text \<open>The range of the quality dashboard says whether it is all of the time; a point of a chart replaces it.\<close>

definition quality_applied_range :: "applied_range \<Rightarrow> date_range \<times> string" where
  "quality_applied_range a = (\<lparr>dr_start = fst a, dr_end = snd a, dr_endBefore = None\<rparr>,
     if fst a = None then ''all'' else ''custom'')"

definition getQualityDrilldownRange :: "date_range \<times> string \<Rightarrow> chart_point option \<Rightarrow> date_range \<times> string" where
  "getQualityDrilldownRange appliedRange point = (case point of
     None \<Rightarrow> appliedRange | Some p \<Rightarrow> (getTimeSeriesBucketRange p, ''custom''))"

record time_bucket =
  tb_lower_bound :: number
  tb_upper_bound :: "number option"

definition getResponsivenessDurationSearch :: "time_bucket option \<Rightarrow> number \<times> number option" where
  "getResponsivenessDurationSearch bucket = (case bucket of
     None \<Rightarrow> (0, None) | Some b \<Rightarrow> (tb_lower_bound b * 1000, map_option (\<lambda>u. u * 1000) (tb_upper_bound b)))"

definition with_range :: "date_range \<times> string \<Rightarrow> messages_search \<Rightarrow> messages_search" where
  "with_range r s = s\<lparr>ms_start := dr_start (fst r), ms_end := dr_end (fst r), ms_endBefore := dr_endBefore (fst r),
     ms_timeRange := Some (snd r)\<rparr>"

text \<open>
  The handlers of the quality dashboard: where they navigate to, if its user may see that page.
  \<open>canInspect\<close> is \<open>canInspectMessages\<close> or \<open>canInspectFeedback\<close>.
\<close>

definition canInspect :: "bool \<Rightarrow> (string \<Rightarrow> bool) \<Rightarrow> string \<Rightarrow> string \<Rightarrow> string \<Rightarrow> bool" where
  "canInspect loading permissions permission platform group_slug \<longleftrightarrow>
     \<not> loading \<and> permissions permission \<and>
     (platform = ''internal'' \<or> group_slug = ''admin'' \<or> group_slug = ''dev'')"

definition inspect_messages_search ::
  "date_range \<times> string \<Rightarrow> string \<Rightarrow> user_params \<Rightarrow> string option \<Rightarrow> chart_point option \<Rightarrow> messages_search" where
  "inspect_messages_search currentBounds platform owner status point =
     with_range (getQualityDrilldownRange currentBounds point)
       (no_messages_search\<lparr>ms_excludeDraft := Some True, ms_guardrailStatus := Some (coalesce status ''all''),
         ms_platform := platform_filter platform, ms_role := Some ''assistant'',
         ms_userEmail := up_userEmail owner, ms_userGroup := up_userGroup owner\<rparr>)"

definition inspect_responsiveness_search ::
  "date_range \<times> string \<Rightarrow> string \<Rightarrow> user_params \<Rightarrow> chart_point option \<Rightarrow> time_bucket option \<Rightarrow> messages_search" where
  "inspect_responsiveness_search currentBounds platform owner point bucket =
     with_range (getQualityDrilldownRange currentBounds point)
       (no_messages_search\<lparr>ms_descending := Some True, ms_excludeDraft := Some True, ms_guardrailStatus := Some ''all'',
         ms_minGenerationTimeMs := Some (fst (getResponsivenessDurationSearch bucket)),
         ms_maxGenerationTimeMs := snd (getResponsivenessDurationSearch bucket),
         ms_platform := platform_filter platform, ms_role := Some ''assistant'', ms_sortBy := Some ''generation_time_ms'',
         ms_userEmail := up_userEmail owner, ms_userGroup := up_userGroup owner\<rparr>)"

definition inspect_feedback_search ::
  "date_range \<times> string \<Rightarrow> string \<Rightarrow> user_params \<Rightarrow> string option \<Rightarrow> chart_point option \<Rightarrow> feedback_search" where
  "inspect_feedback_search currentBounds platform owner rating point =
     (let r = getQualityDrilldownRange currentBounds point
      in \<lparr>fs_chat = None, fs_excludeDraft = Some True, fs_message = None, fs_platform = platform_filter platform,
          fs_rating = rating, fs_search = None, fs_start = dr_start (fst r), fs_end = dr_end (fst r),
          fs_endBefore = dr_endBefore (fst r), fs_timeRange = Some (snd r),
          fs_userEmail = up_userEmail owner, fs_userGroup = up_userGroup owner\<rparr>)"

definition inspectMessages ::
  "bool \<Rightarrow> date_range \<times> string \<Rightarrow> string \<Rightarrow> user_params \<Rightarrow> string option \<Rightarrow> chart_point option \<Rightarrow>
   messages_search option" where
  "inspectMessages can currentBounds platform owner status point =
     (if \<not> can then None else Some (inspect_messages_search currentBounds platform owner status point))"

definition inspectResponsiveness ::
  "bool \<Rightarrow> date_range \<times> string \<Rightarrow> string \<Rightarrow> user_params \<Rightarrow> chart_point option \<Rightarrow> time_bucket option \<Rightarrow>
   messages_search option" where
  "inspectResponsiveness can currentBounds platform owner point bucket =
     (if \<not> can then None else Some (inspect_responsiveness_search currentBounds platform owner point bucket))"

definition inspectFeedback ::
  "bool \<Rightarrow> date_range \<times> string \<Rightarrow> string \<Rightarrow> user_params \<Rightarrow> string option \<Rightarrow> chart_point option \<Rightarrow>
   feedback_search option" where
  "inspectFeedback can currentBounds platform owner rating point =
     (if \<not> can then None else Some (inspect_feedback_search currentBounds platform owner rating point))"

section \<open>Queries\<close>

text \<open>\<open>URLSearchParams\<close> with every key set at most once, as the list of its entries.\<close>

type_synonym query = "(string \<times> string) list"

definition entry :: "string \<Rightarrow> string option \<Rightarrow> query" where
  "entry k v = (case v of None \<Rightarrow> [] | Some s \<Rightarrow> [(k, s)])"

definition trimmed_entry :: "string \<Rightarrow> string option \<Rightarrow> query" where
  "trimmed_entry k v = (case v of None \<Rightarrow> [] | Some s \<Rightarrow> if trim s \<noteq> [] then [(k, trim s)] else [])"

definition bool_text :: "bool \<Rightarrow> string" where
  "bool_text b = (if b then ''true'' else ''false'')"

lemma entry_lookup [simp]:
  "map_of (entry k v @ q) i = or_else (if i = k then v else None) (map_of q i)"
  "map_of (entry k v) i = (if i = k then v else None)"
  "map_of (trimmed_entry k v @ q) i =
     or_else (if i = k then Option.bind v (\<lambda>s. if trim s \<noteq> [] then Some (trim s) else None) else None) (map_of q i)"
  "map_of (trimmed_entry k v) i = (if i = k then Option.bind v (\<lambda>s. if trim s \<noteq> [] then Some (trim s) else None) else None)"
  by (simp_all add: entry_def trimmed_entry_def split: option.split)

text \<open>A page of a list: where it starts, how many rows it has, and how they are sorted.\<close>

record list_view =
  lv_pageIndex :: number
  lv_pageSize :: number
  lv_sortBy :: string
  lv_descending :: bool

definition paging :: "search_host \<Rightarrow> list_view \<Rightarrow> query" where
  "paging h lv = [(''limit'', sh_String h (lv_pageSize lv)), (''offset'', sh_String h (lv_pageIndex lv * lv_pageSize lv))]"

definition sorting :: "list_view \<Rightarrow> query" where
  "sorting lv = (if lv_sortBy lv \<noteq> [] then [(''sort_by'', lv_sortBy lv)] else []) @
     [(''descending'', bool_text (lv_descending lv))]"

text \<open>The period of a list of messages or feedback: an exclusive end replaces the end of a custom range.\<close>

definition period_entries :: "search_host \<Rightarrow> number \<Rightarrow> string \<Rightarrow> custom_range \<Rightarrow> string option \<Rightarrow> query" where
  "period_entries h now timeRange customRange endBefore =
     (let p = getTimeRangeQueryParams h timeRange now customRange
      in entry ''start'' (fst p) @
         (if timeRange = ''custom'' \<and> endBefore \<noteq> None then entry ''end_before'' endBefore else entry ''end'' (snd p)))"

definition visible_platform :: "bool \<Rightarrow> string option \<Rightarrow> string option" where
  "visible_platform canViewPublic platform =
     (if platform = Some ''public'' \<and> \<not> canViewPublic then None else platform)"

definition route_time_range :: "string option \<Rightarrow> string option \<Rightarrow> string" where
  "route_time_range timeRange start = coalesce timeRange (if start = None then ''30d'' else ''custom'')"

definition route_custom_range :: "search_host \<Rightarrow> date_range \<Rightarrow> custom_range" where
  "route_custom_range h d = \<lparr>cr_start = parseRouteDate h (dr_start d),
     cr_end = parseRouteDate h (or_else (dr_endBefore d) (dr_end d))\<rparr>"

definition owner_entries :: "bool \<Rightarrow> chat_user_option option \<Rightarrow> query" where
  "owner_entries canFilterUsers selectedUser =
     (if canFilterUsers
      then trimmed_entry ''user_email'' (up_userEmail (buildUserFilterParams selectedUser)) @
           entry ''user_group'' (up_userGroup (buildUserFilterParams selectedUser))
      else [])"

text \<open>
  Whether the user of a target page may filter by user there, and see the public platform:
  \<open>canFilterUsers\<close> and \<open>canViewPublic\<close> of the two pages. The permission that opens the list of
  feedback, \<open>access_chats\<close>, is none of those that allow filtering it.
\<close>

definition messages_canFilterUsers :: "(string \<Rightarrow> bool) \<Rightarrow> bool" where
  "messages_canFilterUsers permissions \<longleftrightarrow> permissions ''access_messages''"

definition feedback_canFilterUsers :: "(string \<Rightarrow> bool) \<Rightarrow> bool" where
  "feedback_canFilterUsers permissions \<longleftrightarrow> permissions ''chats_view_users'' \<or>
     permissions ''chats_view_admins'' \<or> permissions ''chats_view_devs''"

definition page_canViewPublic :: "string \<Rightarrow> bool" where
  "page_canViewPublic group_slug \<longleftrightarrow> group_slug = ''admin'' \<or> group_slug = ''dev''"

definition messages_list_query ::
  "search_host \<Rightarrow> number \<Rightarrow> bool \<Rightarrow> bool \<Rightarrow> number \<Rightarrow> number \<Rightarrow> messages_search \<Rightarrow> query" where
  "messages_list_query h now canFilterUsers canViewPublic pageIndex pageSize s =
     (let platform = visible_platform canViewPublic (ms_platform s);
          lv = \<lparr>lv_pageIndex = pageIndex, lv_pageSize = pageSize, lv_sortBy = coalesce (ms_sortBy s) ''created_at'',
            lv_descending = coalesce (ms_descending s) True\<rparr>
      in entry ''platform'' platform @ entry ''role'' (Some (coalesce (ms_role s) ''assistant'')) @
         entry ''guardrail_status'' (Some (coalesce (ms_guardrailStatus s) ''all'')) @
         entry ''exclude_draft'' (if ms_excludeDraft s = Some True then Some ''true'' else None) @
         entry ''min_generation_time_ms'' (map_option (sh_String h) (ms_minGenerationTimeMs s)) @
         entry ''max_generation_time_ms'' (map_option (sh_String h) (ms_maxGenerationTimeMs s)) @
         entry ''conversation_start'' (ms_conversationStart s) @ entry ''conversation_end'' (ms_conversationEnd s) @
         paging h lv @ trimmed_entry ''search'' (ms_search s) @
         owner_entries canFilterUsers (routeUserOption (ms_userEmail s) (ms_userGroup s) platform) @ sorting lv @
         period_entries h now (route_time_range (ms_timeRange s) (ms_start s))
           (route_custom_range h \<lparr>dr_start = ms_start s, dr_end = ms_end s, dr_endBefore = ms_endBefore s\<rparr>)
           (ms_endBefore s))"

definition feedback_list_query ::
  "search_host \<Rightarrow> number \<Rightarrow> bool \<Rightarrow> bool \<Rightarrow> list_view \<Rightarrow> feedback_search \<Rightarrow> query" where
  "feedback_list_query h now canFilterUsers canViewPublic lv s =
     (let platform = visible_platform canViewPublic (fs_platform s)
      in paging h lv @ entry ''exclude_draft'' (if fs_excludeDraft s = Some True then Some ''true'' else None) @
         entry ''platform'' platform @ entry ''rating'' (fs_rating s) @ trimmed_entry ''search'' (fs_search s) @
         owner_entries canFilterUsers (routeUserOption (fs_userEmail s) (fs_userGroup s) platform) @ sorting lv @
         period_entries h now (route_time_range (fs_timeRange s) (fs_start s))
           (route_custom_range h \<lparr>dr_start = fs_start s, dr_end = fs_end s, dr_endBefore = fs_endBefore s\<rparr>)
           (fs_endBefore s))"

subsection \<open>The list of chats\<close>

record chat_drilldown =
  cd_minTurns :: "number option"
  cd_maxTurns :: "number option"
  cd_platform :: "string option"
  cd_dates :: date_range
  cd_timeRange :: string
  cd_userEmail :: "string option"
  cd_userGroup :: "string option"

definition chats_drilldown :: "chats_search \<Rightarrow> chat_drilldown option" where
  "chats_drilldown s =
     (let noDates = (hs_analyticsStart s = None \<and> hs_analyticsEnd s = None \<and> hs_analyticsEndBefore s = None)
      in if hs_minTurns s = None \<and> noDates then None
         else Some \<lparr>cd_minTurns = hs_minTurns s, cd_maxTurns = hs_maxTurns s, cd_platform = hs_platform s,
           cd_dates = \<lparr>dr_start = hs_analyticsStart s, dr_end = hs_analyticsEnd s, dr_endBefore = hs_analyticsEndBefore s\<rparr>,
           cd_timeRange = (if noDates then ''all'' else ''custom''),
           cd_userEmail = hs_userEmail s, cd_userGroup = hs_userGroup s\<rparr>)"

definition clearAnalyticsDrilldown :: "chats_search \<Rightarrow> chats_search" where
  "clearAnalyticsDrilldown previous = previous\<lparr>hs_maxTurns := None, hs_minTurns := None, hs_platform := None,
     hs_analyticsEnd := None, hs_analyticsEndBefore := None, hs_analyticsStart := None, hs_userEmail := None,
     hs_userGroup := None\<rparr>"

text \<open>The filters the page keeps of its own, which a drill-down sets aside.\<close>

record review_filters =
  rf_searchQuery :: string
  rf_phraseSearch :: bool
  rf_platform :: string
  rf_selectedUser :: "chat_user_option option"
  rf_timeRange :: string
  rf_customRange :: custom_range
  rf_view :: list_view

text \<open>The scope of the URL has changed: the first page, and no search within a drill-down.\<close>

definition scope_changed :: "chat_drilldown option \<Rightarrow> review_filters \<Rightarrow> review_filters" where
  "scope_changed drilldown f = f\<lparr>rf_view := (rf_view f)\<lparr>lv_pageIndex := 0\<rparr>,
     rf_searchQuery := (if drilldown \<noteq> None then [] else rf_searchQuery f)\<rparr>"

definition analytics_entries :: "search_host \<Rightarrow> chat_drilldown \<Rightarrow> query" where
  "analytics_entries h d =
     entry ''min_turns'' (map_option (sh_String h) (cd_minTurns d)) @
     entry ''max_turns'' (map_option (sh_String h) (cd_maxTurns d)) @
     entry ''analytics_start'' (dr_start (cd_dates d)) @ entry ''analytics_end'' (dr_end (cd_dates d)) @
     entry ''analytics_end_before'' (dr_endBefore (cd_dates d))"

definition chats_list_query ::
  "search_host \<Rightarrow> number \<Rightarrow> string \<Rightarrow> bool \<Rightarrow> chat_drilldown option \<Rightarrow> review_filters \<Rightarrow> query" where
  "chats_list_query h now kind canFilterUsers drilldown f =
     (let effectivePlatform = (case drilldown of None \<Rightarrow> rf_platform f | Some d \<Rightarrow> coalesce (cd_platform d) ''both'');
          requestPlatform = (if kind = ''investigation'' then Some ''internal'' else platform_filter effectivePlatform);
          selectedUser = (if canFilterUsers
            then (case drilldown of None \<Rightarrow> rf_selectedUser f
              | Some d \<Rightarrow> routeUserOption (cd_userEmail d) (cd_userGroup d) (cd_platform d))
            else None);
          period = getTimeRangeQueryParams h (rf_timeRange f) now (rf_customRange f)
      in paging h (rf_view f) @ entry ''kind'' (Some kind) @ entry ''platform'' requestPlatform @
         (if trim (rf_searchQuery f) \<noteq> []
          then [(''search'', trim (rf_searchQuery f))] @ (if rf_phraseSearch f then [(''phrase_search'', ''true'')] else [])
          else []) @
         owner_entries canFilterUsers selectedUser @ sorting (rf_view f) @
         (case drilldown of
            Some d \<Rightarrow> analytics_entries h d
          | None \<Rightarrow> entry ''start'' (fst period) @ entry ''end'' (snd period)))"

end
