(* ===== verification/DrilldownFacts.thy ===== *)
theory DrilldownFacts
  imports Drilldown
begin

text \<open>
  A click on a chart leads to a query for exactly what was clicked on: the link survives the
  validation of the target page, and the page's query asks for the period of the bucket, the
  platform and the user the dashboard was filtered by. Stored filters are read back.
\<close>

section \<open>What validation keeps\<close>

lemma no_route_date [simp]: "parseRouteDate h None = None"
  by (simp add: parseRouteDate_def)

definition period_ok :: "search_host \<Rightarrow> string option \<Rightarrow> string option \<Rightarrow> string option \<Rightarrow> bool" where
  "period_ok h a b c \<longleftrightarrow> (b = None \<or> c = None) \<and>
     list_all (\<lambda>v. v = None \<or> parseRouteDate h v \<noteq> None) [a, b, c] \<and>
     \<not> date_after h a b \<and> \<not> date_after h a c \<and> (a = None \<or> a \<noteq> c)"

lemma period_kept:
  assumes "period_ok h a b c"
  shows "parseRouteDateRange h (map_option JStr a) (map_option JStr b) (map_option JStr c) =
    Some \<lparr>dr_start = a, dr_end = b, dr_endBefore = c\<rparr>"
proof -
  have "route_date_ok h (map_option JStr v)" if "v = None \<or> parseRouteDate h v \<noteq> None" for v
    using that by (cases v) (auto simp: route_date_ok_def)
  then show ?thesis using assms
    by (auto simp: parseRouteDateRange_def Let_def period_ok_def text_read)
qed

lemma open_period_kept:
  "period_ok h a b None \<Longrightarrow>
   parseRouteDateRange h (map_option JStr a) (map_option JStr b) None = Some \<lparr>dr_start = a, dr_end = b, dr_endBefore = None\<rparr>"
  using period_kept [of h a b None] by simp

lemma one_of_text: "v = None \<or> the v \<in> set opts \<Longrightarrow> one_of opts (map_option JStr v) = v"
  by (cases v) (auto simp: one_of_def)

lemma one_of_simps [simp]:
  "one_of opts None = None"
  "one_of opts (Some (JStr v)) = (if v \<in> set opts then Some v else None)"
  by (simp_all add: one_of_def)

lemma flag_simps [simp]: "set_flag None = None" "set_flag (Some (JBool True)) = Some True"
    "parseBoolean None = None" "parseBoolean (Some (JBool b)) = Some b"
  by (simp_all add: set_flag_def parseBoolean_def)

lemma number_simps [simp]:
  "parseNonnegativeNumber h None = None"
  "0 \<le> n \<Longrightarrow> parseNonnegativeNumber h (Some (JNum n)) = Some n"
  by (simp_all add: parseNonnegativeNumber_def given_number_def)

text \<open>What a dashboard filters by, and that its links give the same parameters back.\<close>

definition dashboard_ok :: "string \<Rightarrow> user_params \<Rightarrow> bool" where
  "dashboard_ok platform owner \<longleftrightarrow> platform \<in> {''both'', ''internal'', ''public''} \<and>
     (\<exists>u. owner = buildUserFilterParams u \<and> (Option.bind u uo_ownerGroup = None \<or> the (Option.bind u uo_ownerGroup) \<in> set owner_groups))"

lemma dashboard_platform: "dashboard_ok platform owner \<Longrightarrow> one_of platforms (map_option JStr (platform_filter platform)) = platform_filter platform"
  by (intro one_of_text) (auto simp: dashboard_ok_def platform_filter_def platforms_def)

lemma dashboard_group: "dashboard_ok platform owner \<Longrightarrow> one_of owner_groups (map_option JStr (up_userGroup owner)) = up_userGroup owner"
  by (intro one_of_text) (auto simp: dashboard_ok_def buildUserFilterParams_def split: option.splits)

lemma trim_Nil [simp]: "trim [] = []"
  by (simp add: trim_def)

lemma trim_trim [simp]: "trim (trim s) = trim s"
proof (cases "trim s = []")
  case True
  then show ?thesis by simp
next
  case False
  have "\<not> is_space (hd (trim s))" "\<not> is_space (last (trim s))"
  proof -
    let ?t = "dropWhile is_space s"
    have t: "?t \<noteq> []"
    proof
      assume "?t = []"
      then show False using False by (simp only: trim_def) simp
    qed
    have r: "dropWhile is_space (rev ?t) \<noteq> []" using False by (simp add: trim_def)
    show "\<not> is_space (last (trim s))"
      using hd_dropWhile [OF r] by (simp add: trim_def last_rev)
    obtain pre where "rev ?t = pre @ dropWhile is_space (rev ?t)" by (metis takeWhile_dropWhile_id)
    then have "?t = trim s @ rev pre" by (metis trim_def rev_append rev_rev_ident)
    then have "hd ?t = hd (trim s)" using False by (metis hd_append2)
    then show "\<not> is_space (hd (trim s))" using hd_dropWhile [OF t] by simp
  qed
  then show ?thesis using False by (rule_tac trim_id)
qed

lemma owner_kept:
  assumes "dashboard_ok platform owner"
  shows "buildUserFilterParams (routeUserOption (up_userEmail owner) (up_userGroup owner) p) = owner"
proof -
  obtain u where u: "owner = buildUserFilterParams u" using assms by (auto simp: dashboard_ok_def)
  show ?thesis
    by (auto simp: u buildUserFilterParams_def routeUserOption_def group_option_def split: option.splits)
qed

lemma owner_email: "dashboard_ok platform owner \<Longrightarrow> up_userEmail owner = Some e \<Longrightarrow> e \<noteq> [] \<and> trim e = e"
  by (auto simp: dashboard_ok_def buildUserFilterParams_def split: option.splits if_splits)

lemma owner_entry:
  assumes "dashboard_ok platform owner"
  shows "Option.bind (up_userEmail owner) (\<lambda>s. if trim s \<noteq> [] then Some (trim s) else None) = up_userEmail owner"
  using owner_email [OF assms] by (cases "up_userEmail owner") auto

section \<open>What the query asks for\<close>

definition asked_period :: "search_host \<Rightarrow> query \<Rightarrow> number option \<times> number option \<times> number option" where
  "asked_period h q = (parseRouteDate h (map_of q ''start''), parseRouteDate h (map_of q ''end''),
     parseRouteDate h (map_of q ''end_before''))"

text \<open>A time that \<open>toISOString\<close> writes is the time the language reads.\<close>

definition keeps_time :: "search_host \<Rightarrow> number \<Rightarrow> bool" where
  "keeps_time h t \<longleftrightarrow> sh_ISO h t \<noteq> [] \<and> sh_Date h (sh_ISO h t) = Some t"

lemma kept_time: "keeps_time h t \<Longrightarrow> parseRouteDate h (Some (sh_ISO h t)) = Some t"
  by (simp add: keeps_time_def parseRouteDate_def)

lemma bucket_period:
  assumes "parseRouteDate h (Some (bp_bucket_start point)) = Some a" "parseRouteDate h (Some (bp_bucket_end point)) = Some b"
    and "a < b"
  shows "period_ok h (Some (bp_bucket_start point)) None (Some (bp_bucket_end point))"
  using assms by (auto simp: period_ok_def date_after_def)

lemmas query_defs = messages_list_query_def feedback_list_query_def chats_list_query_def owner_entries_def paging_def
  sorting_def period_entries_def route_custom_range_def route_time_range_def getTimeRangeQueryParams_def
  getCustomRangeQueryParams_def Let_def

lemma turns_link_kept:
  assumes "dashboard_ok platform owner" "period_ok h (fst applied) (snd applied) None"
    and "period_ok h (Some (bp_bucket_start point)) None (Some (bp_bucket_end point))"
  shows "validateMessagesSearch h (messages_params (getTurnsVolumeDrilldownSearch point applied platform owner)) =
    getTurnsVolumeDrilldownSearch point applied platform owner"
  using open_period_kept [OF assms(2)] period_kept [OF assms(3)] dashboard_platform [OF assms(1)] dashboard_group [OF assms(1)]
  by (simp add: validateMessagesSearch_def messages_params_def getTurnsVolumeDrilldownSearch_def no_messages_search_def
      getTimeSeriesBucketRange_def Let_def text_read)
    (simp add: timeRangeOptions_def)

lemma quality_range_kept:
  assumes "period_ok h (fst applied) (snd applied) None"
    and "case point of None \<Rightarrow> True | Some p \<Rightarrow> period_ok h (Some (bp_bucket_start p)) None (Some (bp_bucket_end p))"
    and "r = getQualityDrilldownRange (quality_applied_range applied) point"
  shows "period_ok h (dr_start (fst r)) (dr_end (fst r)) (dr_endBefore (fst r))" "snd r \<in> {''all'', ''custom''}"
    "snd r = ''all'' \<Longrightarrow> dr_start (fst r) = None \<and> dr_endBefore (fst r) = None"
  using assms
  by (auto simp: getQualityDrilldownRange_def quality_applied_range_def getTimeSeriesBucketRange_def split: option.splits)

lemma messages_link_kept:
  assumes "dashboard_ok platform owner" "status \<in> {None, Some ''retried'', Some ''blocked''}"
    and "period_ok h (dr_start (fst r)) (dr_end (fst r)) (dr_endBefore (fst r))" "snd r \<in> {''all'', ''custom''}"
    and "s = with_range r (no_messages_search\<lparr>ms_excludeDraft := Some True, ms_guardrailStatus := Some (coalesce status ''all''),
         ms_platform := platform_filter platform, ms_role := Some ''assistant'',
         ms_userEmail := up_userEmail owner, ms_userGroup := up_userGroup owner\<rparr>)"
  shows "validateMessagesSearch h (messages_params s) = s"
  using period_kept [OF assms(3)] dashboard_platform [OF assms(1)] dashboard_group [OF assms(1)] assms(2,4) absent_dates [of h]
  unfolding assms(5)
  by (simp add: validateMessagesSearch_def messages_params_def with_range_def no_messages_search_def Let_def text_read)
    (auto simp: timeRangeOptions_def)

lemma feedback_link_kept:
  assumes "dashboard_ok platform owner" "rating \<in> {None, Some ''thumbs_up'', Some ''thumbs_down''}"
    and "period_ok h (dr_start (fst r)) (dr_end (fst r)) (dr_endBefore (fst r))" "snd r \<in> {''all'', ''custom''}"
    and "r = getQualityDrilldownRange bounds point"
  shows "validateFeedbackSearch h (feedback_params (inspect_feedback_search bounds platform owner rating point)) =
    inspect_feedback_search bounds platform owner rating point"
  using period_kept [OF assms(3)] dashboard_platform [OF assms(1)] dashboard_group [OF assms(1)] assms(2,4)
  by (simp add: validateFeedbackSearch_def feedback_params_def inspect_feedback_search_def Let_def text_read assms(5) [symmetric])
    (auto simp: timeRangeOptions_def)

text \<open>
  A click on a point of the chart of turns asks for the messages of users in exactly that
  bucket, from its start to just before its end, within the conversations of the dashboard's
  period, on its platform and of its user, whatever the target page showed before.
\<close>

theorem turns_drilldown_asks_for_the_bucket:
  assumes "dashboard_ok platform owner" "platform = ''public'' \<longrightarrow> canViewPublic"
    and "period_ok h (fst applied) (snd applied) None"
    and "parseRouteDate h (Some (bp_bucket_start point)) = Some a" "parseRouteDate h (Some (bp_bucket_end point)) = Some b"
    and "a < b" "keeps_time h a"
    and "q = messages_list_query h now True canViewPublic pageIndex pageSize
      (validateMessagesSearch h (messages_params (getTurnsVolumeDrilldownSearch point applied platform owner)))"
  shows "asked_period h q = (Some a, None, Some b) \<and>
    map_of q ''conversation_start'' = fst applied \<and> map_of q ''conversation_end'' = snd applied \<and>
    map_of q ''role'' = Some ''user'' \<and> map_of q ''platform'' = platform_filter platform \<and>
    map_of q ''user_email'' = up_userEmail owner \<and> map_of q ''user_group'' = up_userGroup owner"
proof -
  have "validateMessagesSearch h (messages_params (getTurnsVolumeDrilldownSearch point applied platform owner)) =
      getTurnsVolumeDrilldownSearch point applied platform owner"
    by (rule turns_link_kept [OF assms(1,3) bucket_period [OF assms(4-6)]])
  moreover have "visible_platform canViewPublic (platform_filter platform) = platform_filter platform"
    using assms(2) by (auto simp: visible_platform_def platform_filter_def)
  ultimately show ?thesis
    unfolding assms(8)
    by (simp add: query_defs getTurnsVolumeDrilldownSearch_def no_messages_search_def
      getTimeSeriesBucketRange_def asked_period_def owner_kept [OF assms(1)] owner_entry [OF assms(1)] assms(4,5)
      kept_time [OF assms(7)])
qed

section \<open>From the quality dashboard\<close>

text \<open>The period that was clicked on: the bucket of a point, or all of the dashboard's period.\<close>

definition clicked_period :: "search_host \<Rightarrow> applied_range \<Rightarrow> chart_point option \<Rightarrow>
  number option \<times> number option \<times> number option" where
  "clicked_period h applied point = (case point of
       None \<Rightarrow> (parseRouteDate h (fst applied), parseRouteDate h (snd applied), None)
     | Some p \<Rightarrow> (parseRouteDate h (Some (bp_bucket_start p)), None, parseRouteDate h (Some (bp_bucket_end p))))"

definition clickable :: "search_host \<Rightarrow> applied_range \<Rightarrow> chart_point option \<Rightarrow> bool" where
  "clickable h applied point \<longleftrightarrow> period_ok h (fst applied) (snd applied) None \<and>
     (fst applied = None \<longrightarrow> snd applied = None) \<and>
     (case point of None \<Rightarrow> True
      | Some p \<Rightarrow> period_ok h (Some (bp_bucket_start p)) None (Some (bp_bucket_end p))) \<and>
     list_all (\<lambda>v. case parseRouteDate h v of None \<Rightarrow> True | Some t \<Rightarrow> keeps_time h t)
       [fst applied, snd applied, map_option bp_bucket_start point]"

lemma asked_custom:
  assumes "a = None \<or> (\<exists>t. parseRouteDate h a = Some t \<and> keeps_time h t)"
    and "b = None \<or> (\<exists>t. parseRouteDate h b = Some t \<and> keeps_time h t)"
    and "a = None \<Longrightarrow> b = None"
  shows "parseRouteDate h (fst (getCustomRangeQueryParams h \<lparr>cr_start = parseRouteDate h a, cr_end = parseRouteDate h b\<rparr>)) =
      parseRouteDate h a"
    and "parseRouteDate h (snd (getCustomRangeQueryParams h \<lparr>cr_start = parseRouteDate h a, cr_end = parseRouteDate h b\<rparr>)) =
      parseRouteDate h b"
  using assms by (auto simp: getCustomRangeQueryParams_def kept_time split: option.splits)

lemma asked_in_range:
  assumes "clickable h applied point" "r = getQualityDrilldownRange (quality_applied_range applied) point"
  shows "asked_period h (period_entries h now (snd r) (route_custom_range h (fst r)) (dr_endBefore (fst r))) =
    clicked_period h applied point"
proof (cases point)
  case None
  have ok: "\<forall>v \<in> {fst applied, snd applied}. v = None \<or> (\<exists>t. parseRouteDate h v = Some t \<and> keeps_time h t)"
    using assms(1) by (auto simp: clickable_def period_ok_def)
  show ?thesis
  proof (cases "fst applied")
    case all: None
    then have "snd applied = None" using assms(1) by (simp add: clickable_def)
    then show ?thesis using None all
      by (simp add: assms(2) getQualityDrilldownRange_def quality_applied_range_def period_entries_def asked_period_def
          getTimeRangeQueryParams_def getTimeRangeStart_def timeRangeOptions_def clicked_period_def Let_def)
  next
    case (Some a)
    then show ?thesis using None asked_custom [of "fst applied" h "snd applied"] ok assms(1)
      by (simp add: assms(2) getQualityDrilldownRange_def quality_applied_range_def period_entries_def asked_period_def
          getTimeRangeQueryParams_def clicked_period_def route_custom_range_def Let_def)
  qed
next
  case (Some p)
  obtain t where t: "parseRouteDate h (Some (bp_bucket_start p)) = Some t" "keeps_time h t"
    using assms(1) Some by (auto simp: clickable_def period_ok_def)
  then show ?thesis using Some
    by (simp add: assms(2) getQualityDrilldownRange_def getTimeSeriesBucketRange_def period_entries_def asked_period_def
        getTimeRangeQueryParams_def getCustomRangeQueryParams_def clicked_period_def route_custom_range_def Let_def kept_time)
qed

lemma asked_after:
  assumes "map_of q ''start'' = None" "map_of q ''end'' = None" "map_of q ''end_before'' = None"
  shows "asked_period h (q @ p) = asked_period h p"
  using assms by (simp add: asked_period_def map_of_append map_add_def split: option.split)

lemma dashboard_visible:
  "platform = ''public'' \<longrightarrow> canViewPublic \<Longrightarrow>
   visible_platform canViewPublic (platform_filter platform) = platform_filter platform"
  by (auto simp: visible_platform_def platform_filter_def)

lemma messages_query_split:
  "\<exists>q. messages_list_query h now canFilterUsers canViewPublic pageIndex pageSize s =
     q @ period_entries h now (route_time_range (ms_timeRange s) (ms_start s))
       (route_custom_range h \<lparr>dr_start = ms_start s, dr_end = ms_end s, dr_endBefore = ms_endBefore s\<rparr>) (ms_endBefore s) \<and>
     (\<forall>k \<in> {''start'', ''end'', ''end_before''}. map_of q k = None)"
  unfolding messages_list_query_def Let_def append_assoc [symmetric]
  by (intro exI conjI, rule refl) (simp add: append_assoc owner_entries_def paging_def sorting_def)

lemma feedback_query_split:
  "\<exists>q. feedback_list_query h now canFilterUsers canViewPublic lv s =
     q @ period_entries h now (route_time_range (fs_timeRange s) (fs_start s))
       (route_custom_range h \<lparr>dr_start = fs_start s, dr_end = fs_end s, dr_endBefore = fs_endBefore s\<rparr>) (fs_endBefore s) \<and>
     (\<forall>k \<in> {''start'', ''end'', ''end_before''}. map_of q k = None)"
  unfolding feedback_list_query_def Let_def append_assoc [symmetric]
  by (intro exI conjI, rule refl) (simp add: append_assoc owner_entries_def paging_def sorting_def)

lemma filtered_owner:
  assumes "dashboard_ok platform owner"
  shows "map_of (owner_entries may (routeUserOption (up_userEmail owner) (up_userGroup owner) p) @ q) ''user_email'' =
      (if may then or_else (up_userEmail owner) (map_of q ''user_email'') else map_of q ''user_email'')"
    and "map_of (owner_entries may (routeUserOption (up_userEmail owner) (up_userGroup owner) p) @ q) ''user_group'' =
      (if may then or_else (up_userGroup owner) (map_of q ''user_group'') else map_of q ''user_group'')"
  by (simp_all add: owner_entries_def owner_kept [OF assms] owner_entry [OF assms])

text \<open>
  C31. A click on the quality dashboard, on a point of a chart or on a number of its whole
  period, asks for the messages, or the feedback, of exactly that period and on its platform,
  with the status or the rating clicked on and without drafts. Whoever may click through to the
  messages asks for those of the dashboard's user. The feedback asked for is that of the
  dashboard's user if one of the permissions \<open>chats_view_users\<close>, \<open>chats_view_admins\<close> and
  \<open>chats_view_devs\<close> allows the page to filter by user; otherwise the click, which needs
  \<open>access_chats\<close> only, asks for feedback without naming a user.
\<close>

theorem quality_drilldown_asks_for_what_was_clicked:
  assumes "dashboard_ok platform owner" "clickable h applied point"
    and "status \<in> {None, Some ''retried'', Some ''blocked''}" "rating \<in> {None, Some ''thumbs_up'', Some ''thumbs_down''}"
    and "inspectMessages (canInspect loading permissions ''access_messages'' platform group_slug)
      (quality_applied_range applied) platform owner status point = Some ms"
    and "inspectFeedback (canInspect loading permissions' ''access_chats'' platform group_slug')
      (quality_applied_range applied) platform owner rating point = Some fs"
    and "m = messages_list_query h now (messages_canFilterUsers permissions) (page_canViewPublic group_slug)
      pageIndex pageSize (validateMessagesSearch h (messages_params ms))"
    and "f = feedback_list_query h now (feedback_canFilterUsers permissions') (page_canViewPublic group_slug')
      lv (validateFeedbackSearch h (feedback_params fs))"
  shows "asked_period h m = clicked_period h applied point \<and> asked_period h f = clicked_period h applied point \<and>
    map_of m ''guardrail_status'' = Some (coalesce status ''all'') \<and> map_of f ''rating'' = rating \<and>
    map_of m ''role'' = Some ''assistant'' \<and>
    map_of m ''user_email'' = up_userEmail owner \<and> map_of m ''user_group'' = up_userGroup owner \<and>
    map_of f ''user_email'' = (if feedback_canFilterUsers permissions' then up_userEmail owner else None) \<and>
    map_of f ''user_group'' = (if feedback_canFilterUsers permissions' then up_userGroup owner else None) \<and>
    list_all (\<lambda>q. map_of q ''platform'' = platform_filter platform \<and> map_of q ''exclude_draft'' = Some ''true'') [m, f]"
proof -
  define r where "r = getQualityDrilldownRange (quality_applied_range applied) point"
  note range_kept = quality_range_kept [OF _ _ r_def]
  have r: "period_ok h (dr_start (fst r)) (dr_end (fst r)) (dr_endBefore (fst r))" "snd r \<in> {''all'', ''custom''}"
    using assms(2) range_kept(1,2) by (auto simp: clickable_def)
  have ms_def: "ms = inspect_messages_search (quality_applied_range applied) platform owner status point"
    and fs_def: "fs = inspect_feedback_search (quality_applied_range applied) platform owner rating point"
    and may: "messages_canFilterUsers permissions" "platform = ''public'' \<longrightarrow> page_canViewPublic group_slug"
      "platform = ''public'' \<longrightarrow> page_canViewPublic group_slug'"
    using assms(5,6) by (auto simp: inspectMessages_def inspectFeedback_def canInspect_def
        messages_canFilterUsers_def page_canViewPublic_def split: if_splits)
  have links: "m = messages_list_query h now True (page_canViewPublic group_slug) pageIndex pageSize ms"
      "f = feedback_list_query h now (feedback_canFilterUsers permissions') (page_canViewPublic group_slug') lv fs"
    unfolding assms(7,8) ms_def fs_def
    using messages_link_kept [OF assms(1,3) r] feedback_link_kept [OF assms(1,4) r r_def]
    by (simp_all add: inspect_messages_search_def r_def [symmetric] may(1))
  have dates: "\<lparr>dr_start = ms_start ms, dr_end = ms_end ms, dr_endBefore = dr_endBefore (fst r)\<rparr> = fst r"
      "\<lparr>dr_start = fs_start fs, dr_end = fs_end fs, dr_endBefore = dr_endBefore (fst r)\<rparr> = fst r"
      "ms_timeRange ms = Some (snd r)" "fs_timeRange fs = Some (snd r)"
      "ms_endBefore ms = dr_endBefore (fst r)" "fs_endBefore fs = dr_endBefore (fst r)"
    by (simp_all add: ms_def fs_def inspect_messages_search_def inspect_feedback_search_def with_range_def r_def [symmetric] Let_def)
  have "asked_period h m = clicked_period h applied point" "asked_period h f = clicked_period h applied point"
    using messages_query_split [of h now True "page_canViewPublic group_slug" pageIndex pageSize ms]
      feedback_query_split [of h now "feedback_canFilterUsers permissions'" "page_canViewPublic group_slug'" lv fs]
      asked_in_range [OF assms(2) r_def, of now]
    by (auto simp: links dates route_time_range_def asked_after)
  then show ?thesis
    by (simp add: links messages_list_query_def feedback_list_query_def Let_def paging_def ms_def fs_def
        inspect_messages_search_def inspect_feedback_search_def with_range_def no_messages_search_def
        dashboard_visible [OF may(2)] dashboard_visible [OF may(3)] filtered_owner [OF assms(1)])
      (simp add: owner_entries_def sorting_def period_entries_def Let_def)
qed

text \<open>A link from the dashboard to the feedback of a user does not name the user for those who may not filter by user.\<close>

lemma feedback_ignores_the_user:
  "\<not> feedback_canFilterUsers permissions \<Longrightarrow>
   map_of (feedback_list_query h now (feedback_canFilterUsers permissions) canViewPublic lv s) ''user_email'' = None \<and>
   map_of (feedback_list_query h now (feedback_canFilterUsers permissions) canViewPublic lv s) ''user_group'' = None"
  by (simp add: feedback_list_query_def Let_def paging_def owner_entries_def sorting_def period_entries_def)

text \<open>
  The bars of response times ask for the slowest answers first, and for those within the bar in
  milliseconds.
\<close>

lemma responsiveness_asks_for_slow_answers:
  assumes "inspectResponsiveness can bounds platform owner point (Some bucket) = Some ms"
    and "0 \<le> tb_lower_bound bucket" "\<forall>u. tb_upper_bound bucket = Some u \<longrightarrow> 0 \<le> u"
    and "q = messages_list_query h now True canViewPublic pageIndex pageSize (validateMessagesSearch h (messages_params ms))"
  shows "map_of q ''min_generation_time_ms'' = Some (sh_String h (tb_lower_bound bucket * 1000))"
    and "map_of q ''max_generation_time_ms'' = map_option (\<lambda>u. sh_String h (u * 1000)) (tb_upper_bound bucket)"
    and "map_of q ''sort_by'' = Some ''generation_time_ms''" "map_of q ''descending'' = Some ''true''"
proof -
  have ms: "ms = inspect_responsiveness_search bounds platform owner point (Some bucket)"
    using assms(1) by (auto simp: inspectResponsiveness_def split: if_splits)
  have times: "parseNonnegativeNumber h (Some (JNum (tb_lower_bound bucket * 1000))) = Some (tb_lower_bound bucket * 1000)"
      "parseNonnegativeNumber h (map_option JNum (map_option (\<lambda>u. u * 1000) (tb_upper_bound bucket))) =
       map_option (\<lambda>u. u * 1000) (tb_upper_bound bucket)"
    using assms(2,3) by (auto simp: parseNonnegativeNumber_def given_number_def split: option.splits)
  have "ms_minGenerationTimeMs (validateMessagesSearch h (messages_params ms)) = Some (tb_lower_bound bucket * 1000)"
      "ms_maxGenerationTimeMs (validateMessagesSearch h (messages_params ms)) = map_option (\<lambda>u. u * 1000) (tb_upper_bound bucket)"
      "ms_sortBy (validateMessagesSearch h (messages_params ms)) = Some ''generation_time_ms''"
      "ms_descending (validateMessagesSearch h (messages_params ms)) = Some True"
    using times
    by (simp_all add: ms validateMessagesSearch_def messages_params_def inspect_responsiveness_search_def with_range_def
        no_messages_search_def getResponsivenessDurationSearch_def Let_def messageSortKeys_def text_read one_of_def parseBoolean_def
        flip: option.map_comp)
  then show "map_of q ''min_generation_time_ms'' = Some (sh_String h (tb_lower_bound bucket * 1000))"
    and "map_of q ''max_generation_time_ms'' = map_option (\<lambda>u. sh_String h (u * 1000)) (tb_upper_bound bucket)"
    and "map_of q ''sort_by'' = Some ''generation_time_ms''" "map_of q ''descending'' = Some ''true''"
    by (simp_all add: assms(4) messages_list_query_def Let_def paging_def owner_entries_def sorting_def bool_text_def period_entries_def
        option.map_comp comp_def)
qed

section \<open>From the charts of chats\<close>

text \<open>What a drill-down into the list of chats asks for, beside the page of it.\<close>

definition asked_chats :: "query \<Rightarrow> string option list" where
  "asked_chats q = map (map_of q) [''min_turns'', ''max_turns'', ''analytics_start'', ''analytics_end'',
     ''analytics_end_before'', ''start'', ''end'', ''search'', ''platform'', ''user_email'', ''user_group'', ''offset'']"

lemma chats_query_drilldown:
  assumes "dashboard_ok platform owner" "drill = chats_drilldown s" "drill \<noteq> None"
    and "hs_platform s = platform_filter platform" "hs_userEmail s = up_userEmail owner" "hs_userGroup s = up_userGroup owner"
  shows "asked_chats (chats_list_query h now ''chat'' True drill (scope_changed drill f)) =
    [map_option (sh_String h) (hs_minTurns s), map_option (sh_String h) (hs_maxTurns s), hs_analyticsStart s,
     hs_analyticsEnd s, hs_analyticsEndBefore s, None, None, None, platform_filter platform, up_userEmail owner,
     up_userGroup owner, Some (sh_String h 0)]"
proof -
  have "platform_filter (coalesce (platform_filter platform) ''both'') = platform_filter platform"
    by (simp add: platform_filter_def)
  moreover obtain d where d: "drill = Some d" using assms(3) by auto
  ultimately show ?thesis using assms(2)
    by (auto simp: chats_list_query_def asked_chats_def scope_changed_def chats_drilldown_def Let_def paging_def
      sorting_def owner_entries_def analytics_entries_def assms(4-6) owner_kept [OF assms(1)] owner_entry [OF assms(1)]
      split: if_splits)
qed

lemma volume_link_kept:
  assumes "dashboard_ok platform owner"
    and "period_ok h (Some (bp_bucket_start point)) None (Some (bp_bucket_end point))"
  shows "validateChatsSearch h (chats_params (getChatVolumeDrilldownSearch point platform owner)) =
    getChatVolumeDrilldownSearch point platform owner"
  using period_kept [OF assms(2)] dashboard_platform [OF assms(1)] dashboard_group [OF assms(1)]
  by (simp add: validateChatsSearch_def validAnalyticsDrilldown_def analytics_dates_def validTurnBounds_def chats_params_def
      getChatVolumeDrilldownSearch_def getTimeSeriesBucketRange_def Let_def text_read nonnegative_integer_absent)

definition bucket_ok :: "chat_bucket \<Rightarrow> bool" where
  "bucket_ok b \<longleftrightarrow> is_whole (cb_min_turns b) \<and> 0 \<le> cb_min_turns b \<and>
     (case cb_max_turns b of None \<Rightarrow> True | Some m \<Rightarrow> is_whole m \<and> cb_min_turns b \<le> m)"

lemma length_link_kept:
  assumes "dashboard_ok platform owner" "period_ok h (fst applied) (snd applied) None" "bucket_ok bucket"
  shows "validateChatsSearch h (chats_params (getChatLengthDrilldownSearch bucket applied platform owner)) =
    getChatLengthDrilldownSearch bucket applied platform owner"
proof -
  have "parseNonnegativeInteger h (Some (JNum (cb_min_turns bucket))) = Some (cb_min_turns bucket)"
      "parseNonnegativeInteger h (map_option JNum (cb_max_turns bucket)) = cb_max_turns bucket"
    using assms(3) by (auto simp: bucket_ok_def parseNonnegativeInteger_def given_number_def split: option.splits)
  then show ?thesis
    using open_period_kept [OF assms(2)] dashboard_platform [OF assms(1)] dashboard_group [OF assms(1)] assms(3)
    by (auto simp: validateChatsSearch_def validAnalyticsDrilldown_def analytics_dates_def validTurnBounds_def
      chats_params_def getChatLengthDrilldownSearch_def Let_def text_read bucket_ok_def split: option.splits)
qed

text \<open>
  C32. A click on the charts of chats asks for the chats created in the bucket of the point, or
  for the chats with the numbers of turns of the bar in the dashboard's period, on its platform
  and of its user, from the first page on; the search, the period and the user the list had
  been filtered by are set aside.
\<close>

theorem chats_drilldown_asks_for_the_bar:
  assumes "dashboard_ok platform owner"
    and "period_ok h (Some (bp_bucket_start point)) None (Some (bp_bucket_end point))"
    and "period_ok h (fst applied) (snd applied) None" "bucket_ok bucket"
    and "d1 = chats_drilldown (validateChatsSearch h (chats_params (getChatVolumeDrilldownSearch point platform owner)))"
    and "d2 = chats_drilldown (validateChatsSearch h (chats_params
      (getChatLengthDrilldownSearch bucket applied platform owner)))"
  shows "asked_chats (chats_list_query h now ''chat'' True d1 (scope_changed d1 f)) =
      [None, None, Some (bp_bucket_start point), None, Some (bp_bucket_end point), None, None, None,
       platform_filter platform, up_userEmail owner, up_userGroup owner, Some (sh_String h 0)] \<and>
    asked_chats (chats_list_query h now ''chat'' True d2 (scope_changed d2 f)) =
      [Some (sh_String h (cb_min_turns bucket)), map_option (sh_String h) (cb_max_turns bucket), fst applied, snd applied,
       None, None, None, None, platform_filter platform, up_userEmail owner, up_userGroup owner, Some (sh_String h 0)]"
  using chats_query_drilldown [OF assms(1) assms(5) [unfolded volume_link_kept [OF assms(1,2)]]]
    chats_query_drilldown [OF assms(1) assms(6) [unfolded length_link_kept [OF assms(1,3,4)]]]
  by (simp add: assms(5,6) volume_link_kept [OF assms(1,2)] length_link_kept [OF assms(1,3,4)])
    (simp add: chats_drilldown_def getChatVolumeDrilldownSearch_def getChatLengthDrilldownSearch_def
      getTimeSeriesBucketRange_def Let_def)

section \<open>Stored filters\<close>

definition user_option_ok :: "chat_user_option \<Rightarrow> bool" where
  "user_option_ok u \<longleftrightarrow> uo_email u \<noteq> [] \<and> uo_platform u \<in> set platforms \<and>
     uo_ownerGroup u \<in> {None, Some ''staff'', Some ''devs''}"

lemma user_option_read: "user_option_ok u \<Longrightarrow> parseStoredUserFilter (Some (user_option_json u)) = Some u"
  by (cases u) (auto simp: user_option_ok_def parseStoredUserFilter_def user_option_json_def nonempty_string_def platforms_def
      split: option.split)

text \<open>
  What a dashboard stores of its filters is what it finds after the next page load: the
  selected user, and the time range with the dates of a custom one.
\<close>

theorem stored_filters_read_back:
  assumes "user_option_ok u"
    and "parse written = Some (time_range_json h r)" "written \<noteq> []" "isTimeRangeValue (pr_timeRange r)"
    and "list_all (\<lambda>v. case v of None \<Rightarrow> True | Some t \<Rightarrow> keeps_time h t)
      [cr_start (pr_customRange r), cr_end (pr_customRange r)]"
  shows "parseStoredUserFilter (Some (user_option_json u)) = Some u \<and> loadTimeRange h parse (Some written) d = r"
proof -
  obtain tr c a b where r: "r = \<lparr>pr_timeRange = tr, pr_customRange = c\<rparr>" "c = \<lparr>cr_start = a, cr_end = b\<rparr>"
    by (metis persisted_range.cases custom_range.cases)
  have "tr \<in> set (map fst timeRangeOptions)" using assms(4) by (simp add: r isTimeRangeValue_def)
  then have "coalesce (one_of (map fst timeRangeOptions) (Some (JStr tr))) d = tr" by simp
  then have "loadTimeRange h parse (Some written) d = r"
    using assms(2,3,5)
    by (auto simp: loadTimeRange_def r time_range_json_def stored_date_def parseStoredDate_def kept_time Let_def
        split: option.splits)
  then show ?thesis using user_option_read [OF assms(1)] by blast
qed

section \<open>Instances\<close>

text \<open>A host where the time of a text is its length.\<close>

definition length_dates :: search_host where
  "length_dates = \<lparr>sh_Date = (\<lambda>s. Some (of_nat (length s))), sh_Number = (\<lambda>_. None),
     sh_ISO = (\<lambda>t. replicate (nat \<lfloor>t\<rfloor>) CHR ''x''), sh_String = (\<lambda>t. if t = 0 then ''0'' else ''n'')\<rparr>"

definition demo_point :: chart_point where
  "demo_point = \<lparr>bp_bucket_start = ''abc'', bp_bucket_end = ''abcde''\<rparr>"

definition demo_range :: applied_range where
  "demo_range = (Some ''ab'', Some ''abcdef'')"

definition staff_params :: user_params where
  "staff_params = \<lparr>up_userEmail = None, up_userGroup = Some ''staff''\<rparr>"

lemma demo_dashboard: "dashboard_ok ''internal'' staff_params"
  unfolding dashboard_ok_def
  by (auto simp: staff_params_def buildUserFilterParams_def group_option_def owner_groups_def
      intro!: exI [of _ "Some (group_option ''staff'')"])

lemmas demo_defs = length_dates_def demo_point_def demo_range_def parseRouteDate_def period_ok_def date_after_def keeps_time_def

lemma demo_times:
  "parseRouteDate length_dates (Some (bp_bucket_start demo_point)) = Some 3"
  "parseRouteDate length_dates (Some (bp_bucket_end demo_point)) = Some 5"
  "period_ok length_dates (fst demo_range) (snd demo_range) None"
  "period_ok length_dates (Some (bp_bucket_start demo_point)) None (Some (bp_bucket_end demo_point))"
  "keeps_time length_dates 2" "keeps_time length_dates 3" "keeps_time length_dates 6"
  by (simp_all add: demo_defs)

lemma turns_drilldown_asks_for_the_bucket_witness:
  "asked_period length_dates (messages_list_query length_dates 9 True False 0 25 (validateMessagesSearch length_dates
     (messages_params (getTurnsVolumeDrilldownSearch demo_point demo_range ''internal'' staff_params)))) = (Some 3, None, Some 5)"
  using turns_drilldown_asks_for_the_bucket [OF demo_dashboard _ demo_times(3,1,2) _ demo_times(6) refl, of False 9 0 25]
  by simp

definition demo_reviewer :: "string \<Rightarrow> bool" where
  "demo_reviewer key \<longleftrightarrow> key \<in> {''access_messages'', ''access_chats''}"

lemma quality_drilldown_asks_for_what_was_clicked_witness:
  "\<exists>ms fs. inspectMessages (canInspect False demo_reviewer ''access_messages'' ''internal'' ''user'')
       (quality_applied_range demo_range) ''internal'' staff_params None (Some demo_point) = Some ms \<and>
     inspectFeedback (canInspect False demo_reviewer ''access_chats'' ''internal'' ''user'')
       (quality_applied_range demo_range) ''internal'' staff_params None (Some demo_point) = Some fs \<and>
     map_of (messages_list_query length_dates 9 (messages_canFilterUsers demo_reviewer) (page_canViewPublic ''user'') 0 25
       (validateMessagesSearch length_dates (messages_params ms))) ''user_group'' = Some ''staff'' \<and>
     map_of (feedback_list_query length_dates 9 (feedback_canFilterUsers demo_reviewer) (page_canViewPublic ''user'') undefined
       (validateFeedbackSearch length_dates (feedback_params fs))) ''user_group'' = None"
proof -
  obtain ms fs where links:
    "inspectMessages (canInspect False demo_reviewer ''access_messages'' ''internal'' ''user'')
       (quality_applied_range demo_range) ''internal'' staff_params None (Some demo_point) = Some ms"
    "inspectFeedback (canInspect False demo_reviewer ''access_chats'' ''internal'' ''user'')
       (quality_applied_range demo_range) ''internal'' staff_params None (Some demo_point) = Some fs"
    by (simp add: inspectMessages_def inspectFeedback_def canInspect_def demo_reviewer_def)
  have "clickable length_dates demo_range (Some demo_point)"
    using demo_times by (simp add: clickable_def) (simp add: demo_defs)
  from quality_drilldown_asks_for_what_was_clicked [OF demo_dashboard this _ _ links refl refl, of 9 0 25 undefined]
    links show ?thesis by (simp add: feedback_canFilterUsers_def demo_reviewer_def staff_params_def)
qed

definition demo_filters :: review_filters where
  "demo_filters = \<lparr>rf_searchQuery = ''visa'', rf_phraseSearch = True, rf_platform = ''public'', rf_selectedUser = None,
     rf_timeRange = ''7d'', rf_customRange = \<lparr>cr_start = None, cr_end = None\<rparr>,
     rf_view = \<lparr>lv_pageIndex = 3, lv_pageSize = 25, lv_sortBy = ''updated_at'', lv_descending = True\<rparr>\<rparr>"

lemma chats_drilldown_asks_for_the_bar_witness:
  "asked_chats (chats_list_query length_dates 9 ''chat'' True
     (chats_drilldown (validateChatsSearch length_dates (chats_params
        (getChatVolumeDrilldownSearch demo_point ''internal'' staff_params))))
     (scope_changed (chats_drilldown (validateChatsSearch length_dates (chats_params
        (getChatVolumeDrilldownSearch demo_point ''internal'' staff_params)))) demo_filters)) =
   [None, None, Some ''abc'', None, Some ''abcde'', None, None, None, Some ''internal'', None, Some ''staff'', Some ''0'']"
  using chats_drilldown_asks_for_the_bar [OF demo_dashboard demo_times(4,3) _ refl refl,
      of "\<lparr>cb_min_turns = 1, cb_max_turns = None\<rparr>" 9 demo_filters]
  by (simp add: bucket_ok_def) (simp add: demo_point_def platform_filter_def staff_params_def length_dates_def)

lemma stored_filters_read_back_witness:
  "loadTimeRange length_dates (\<lambda>_. Some (time_range_json length_dates
       \<lparr>pr_timeRange = ''custom'', pr_customRange = \<lparr>cr_start = Some 2, cr_end = Some 6\<rparr>\<rparr>)) (Some ''stored'') ''30d'' =
     \<lparr>pr_timeRange = ''custom'', pr_customRange = \<lparr>cr_start = Some 2, cr_end = Some 6\<rparr>\<rparr>"
  using stored_filters_read_back [of "group_option ''staff''" "\<lambda>_. Some (time_range_json length_dates
       \<lparr>pr_timeRange = ''custom'', pr_customRange = \<lparr>cr_start = Some 2, cr_end = Some 6\<rparr>\<rparr>)" "''stored''" length_dates
       "\<lparr>pr_timeRange = ''custom'', pr_customRange = \<lparr>cr_start = Some 2, cr_end = Some 6\<rparr>\<rparr>" "''30d''"] demo_times
  by (simp add: user_option_ok_def group_option_def platforms_def isTimeRangeValue_def timeRangeOptions_def)

end
