(* ===== verification/ViewAccess.thy ===== *)
theory ViewAccess
  imports JsMap
begin

text \<open>
  Who sees which page: the views and their permissions (app/feature-flags.ts,
  app/view-access.ts, auth/lib/permissions.ts), the view a path asks for and the redirect of
  the shell (app/components/app.tsx), and the paths of the routes (app/router.ts).

  A user is the set of the permissions that are \<open>true\<close>. Matching a path against a route is the
  router library's; \<open>written_as\<close> are the paths spelled as a route is, which all links of the
  application are. The library takes other spellings too unless it is told not to: see
  \<open>other_spellings_are_unchecked\<close>.
\<close>

type_synonym permissions = "string \<Rightarrow> bool"

definition hasPermission :: "permissions option \<Rightarrow> string \<Rightarrow> bool" where
  "hasPermission user permissionKey \<longleftrightarrow> (case user of None \<Rightarrow> False | Some p \<Rightarrow> p permissionKey)"

text \<open>The permission of every view but the chat, which has none, in the order of \<open>APP_VIEWS\<close>.\<close>

definition view_permissions :: "(string \<times> string option) list" where
  "view_permissions = [(''chat'', None), (''chats'', Some ''access_chats''), (''messages'', Some ''access_messages''),
     (''feedback'', Some ''access_chats''), (''compliance'', Some ''access_compliance''),
     (''investigate'', Some ''access_investigations''), (''investigations'', Some ''access_investigations''),
     (''usage'', Some ''access_usage''), (''traces'', Some ''access_traces''), (''analytics'', Some ''access_analytics''),
     (''chat-insights'', Some ''access_chat_insights''), (''quality'', Some ''access_analytics''),
     (''adoption'', Some ''access_adoption''), (''public-analytics'', Some ''access_public_analytics''),
     (''evals'', Some ''access_evals''), (''eval-cases'', Some ''access_evals''), (''eval-reports'', Some ''access_evals''),
     (''eval-traces'', Some ''access_evals''), (''instructions'', Some ''access_instructions''),
     (''rag'', Some ''access_rag''), (''rag-jobs'', Some ''access_rag''), (''rag-viewer'', Some ''access_rag_viewer''),
     (''resources'', Some ''access_resources''), (''rbac'', Some ''access_rbac''), (''settings'', Some ''access_settings'')]"

definition APP_VIEWS :: "string list" where
  "APP_VIEWS = map fst view_permissions"

definition isAppView :: "string \<Rightarrow> bool" where
  "isAppView v \<longleftrightarrow> v \<in> set APP_VIEWS"

definition canAccessView :: "string \<Rightarrow> permissions option \<Rightarrow> bool" where
  "canAccessView view user \<longleftrightarrow> (case map_of view_permissions view of
     Some None \<Rightarrow> True | Some (Some key) \<Rightarrow> hasPermission user key | None \<Rightarrow> False)"

definition getDefaultAccessibleView :: "permissions option \<Rightarrow> string" where
  "getDefaultAccessibleView user = coalesce (find (\<lambda>v. canAccessView v user) APP_VIEWS) ''chat''"

section \<open>The view of a path\<close>

definition normalized_path :: "string \<Rightarrow> string" where
  "normalized_path pathname = dropWhile (\<lambda>c. c = CHR ''/'') pathname"

text \<open>The views with pages below them, by the prefix of their paths.\<close>

definition nested_views :: "string list" where
  "nested_views = [''chats'', ''compliance'', ''investigations'', ''traces'', ''eval-traces'']"

definition nested_view :: "string \<Rightarrow> string option" where
  "nested_view s = find (\<lambda>v. starts_with s (v @ ''/'')) nested_views"

definition getRequestedView :: "string \<Rightarrow> string option" where
  "getRequestedView pathname =
     (let normalized = normalized_path pathname
      in if normalized = [] then None
         else or_else (nested_view normalized) (if isAppView normalized then Some normalized else None))"

definition resolveView :: "string \<Rightarrow> permissions option \<Rightarrow> string" where
  "resolveView pathname user =
     (let defaultView = getDefaultAccessibleView user;
          normalized = normalized_path pathname;
          resolved = (if normalized = [] then defaultView else normalized)
      in case nested_view resolved of
           Some v \<Rightarrow> if canAccessView v user then v else defaultView
         | None \<Rightarrow> if \<not> isAppView resolved then defaultView
             else if \<not> canAccessView resolved user then defaultView else resolved)"

section \<open>The shell\<close>

datatype shell_content = LoadingScreen | AuthScreen | PageOutlet

definition redirectView :: "string \<Rightarrow> permissions option \<Rightarrow> string option" where
  "redirectView pathname user = (case (user, getRequestedView pathname) of
       (Some _, Some v) \<Rightarrow> if canAccessView v user then None else Some (getDefaultAccessibleView user)
     | _ \<Rightarrow> None)"

definition app_content :: "bool \<Rightarrow> string \<Rightarrow> permissions option \<Rightarrow> shell_content" where
  "app_content authLoading pathname user =
     (if authLoading then LoadingScreen
      else if user \<noteq> None \<and> redirectView pathname user \<noteq> None then LoadingScreen
      else if user \<noteq> None then PageOutlet else AuthScreen)"

text \<open>Where the effect of the shell navigates to, if it does.\<close>

definition shell_navigates :: "string \<Rightarrow> permissions option \<Rightarrow> string option" where
  "shell_navigates pathname user =
     (if user = None then None else map_option (\<lambda>v. CHR ''/'' # v) (redirectView pathname user))"

section \<open>Routes\<close>

text \<open>The paths of the route tree with the view their page belongs to; a \<open>$\<close> starts a parameter.\<close>

definition app_routes :: "(string \<times> string) list" where
  "app_routes = [(''/chat'', ''chat''), (''/chats'', ''chats''), (''/chats/$chatId'', ''chats''),
     (''/messages'', ''messages''), (''/compliance'', ''compliance''), (''/compliance/instructions'', ''compliance''),
     (''/compliance/screenings/$screeningId'', ''compliance''),
     (''/compliance/screenings/$screeningId/flags/$flagId'', ''compliance''), (''/feedback'', ''feedback''),
     (''/investigate'', ''investigate''), (''/investigations'', ''investigations''),
     (''/investigations/$chatId'', ''investigations''), (''/usage'', ''usage''), (''/traces'', ''traces''),
     (''/traces/$traceId'', ''traces''), (''/analytics'', ''analytics''), (''/chat-insights'', ''chat-insights''),
     (''/quality'', ''quality''), (''/adoption'', ''adoption''), (''/public-analytics'', ''public-analytics''),
     (''/evals'', ''evals''), (''/eval-cases'', ''eval-cases''), (''/eval-reports'', ''eval-reports''),
     (''/eval-traces'', ''eval-traces''), (''/eval-traces/$traceId'', ''eval-traces''),
     (''/instructions'', ''instructions''), (''/rag'', ''rag''), (''/rag-jobs'', ''rag-jobs''),
     (''/rag-viewer'', ''rag-viewer''), (''/resources'', ''resources''), (''/rbac'', ''rbac''), (''/settings'', ''settings'')]"

text \<open>
  A path spelled as a route: it agrees with the route up to its first parameter, and exactly if
  the route has none.
\<close>

definition static_part :: "string \<Rightarrow> string" where
  "static_part pattern = takeWhile (\<lambda>c. c \<noteq> CHR ''$'') pattern"

definition written_as :: "string \<Rightarrow> string \<Rightarrow> bool" where
  "written_as pattern path \<longleftrightarrow>
     starts_with path (static_part pattern) \<and> (static_part pattern = pattern \<longrightarrow> path = pattern)"

section \<open>Facts\<close>

lemma default_accessible: "canAccessView (getDefaultAccessibleView user) user"
proof -
  have "canAccessView ''chat'' user" by (simp add: canAccessView_def view_permissions_def)
  then show ?thesis
    by (simp add: getDefaultAccessibleView_def APP_VIEWS_def view_permissions_def)
qed

lemma default_is_chat: "getDefaultAccessibleView user = ''chat''"
  by (simp add: getDefaultAccessibleView_def APP_VIEWS_def view_permissions_def canAccessView_def)

lemma redirect_target: "redirectView pathname user = Some v \<Longrightarrow> v = ''chat''"
  by (auto simp: redirectView_def default_is_chat split: option.splits if_splits)

lemmas request_eval = getRequestedView_def normalized_path_def nested_view_def nested_views_def starts_with_def
  isAppView_def APP_VIEWS_def view_permissions_def static_part_def

lemma static_routes:
  "list_all (\<lambda>(p, v). static_part p = p \<longrightarrow> getRequestedView p = Some v) app_routes"
  by (simp add: app_routes_def request_eval)

lemma nested_routes:
  "list_all (\<lambda>(p, v). static_part p \<noteq> p \<longrightarrow>
     starts_with (static_part p) (CHR ''/'' # v @ ''/'') \<and> v \<in> set nested_views) app_routes"
  by (simp add: app_routes_def static_part_def nested_views_def starts_with_def)

lemma view_cases:
  assumes "view \<in> set nested_views"
  obtains "view = ''chats''" | "view = ''compliance''" | "view = ''investigations''" | "view = ''traces''"
  | "view = ''eval-traces''"
  using assms unfolding nested_views_def by (simp only: list.set insert_iff empty_iff) blast

lemma nested_request:
  assumes "view \<in> set nested_views"
  shows "getRequestedView (CHR ''/'' # view @ ''/'' @ rest) = Some view"
proof -
  have "normalized_path (CHR ''/'' # view @ ''/'' @ rest) = view @ ''/'' @ rest"
    using assms by (elim view_cases) (simp_all add: normalized_path_def)
  moreover have "nested_view (view @ ''/'' @ rest) = Some view"
    using assms by (elim view_cases) (simp_all add: nested_views_def nested_view_def starts_with_def)
  ultimately show ?thesis by (simp add: getRequestedView_def)
qed

lemma requested_of_route:
  assumes "(pattern, view) \<in> set app_routes" "written_as pattern path"
  shows "getRequestedView path = Some view"
proof (cases "static_part pattern = pattern")
  case True
  then show ?thesis using assms(2) bspec [OF static_routes [unfolded list_all_iff] assms(1)]
    by (simp add: written_as_def)
next
  case False
  then have "starts_with (static_part pattern) (CHR ''/'' # view @ ''/'')" "view \<in> set nested_views"
    using bspec [OF nested_routes [unfolded list_all_iff] assms(1)] by simp_all
  moreover obtain rest where "path = static_part pattern @ rest"
    using assms(2) by (auto simp: written_as_def starts_with_iff)
  ultimately obtain more where "path = CHR ''/'' # view @ ''/'' @ more" by (auto simp: starts_with_iff)
  then show ?thesis using nested_request \<open>view \<in> set nested_views\<close> by simp
qed

text \<open>
  C8. No page is shown to a user who lacks its permission: on every path spelled as a route of
  the application, the page of the route is rendered only when the user is signed in and may see
  the view it belongs to.
\<close>

theorem no_page_without_permission:
  assumes "(pattern, view) \<in> set app_routes" "written_as pattern path"
    and "app_content authLoading path user = PageOutlet"
  shows "user \<noteq> None \<and> canAccessView view user"
  using assms(3) requested_of_route [OF assms(1,2)]
  by (auto simp: app_content_def redirectView_def split: if_splits option.splits)

text \<open>
  The check is by the exact spelling of the path. A router that ignores the case of letters, as
  the library does by default, finds the page of messages for this path, and the shell shows it
  to a user without any permission.
\<close>

lemma other_spellings_are_unchecked:
  "app_content False ''/Messages'' (Some (\<lambda>_. False)) = PageOutlet"
  "\<not> canAccessView ''messages'' (Some (\<lambda>_. False))"
  by (simp_all add: app_content_def redirectView_def request_eval canAccessView_def hasPermission_def)

text \<open>
  The redirect of the shell settles at once: it leads to a page that is shown to the user,
  from which it does not redirect again, and a user is redirected only away from a view that
  is not theirs to see.
\<close>

theorem redirect_settles:
  "case shell_navigates path user of
     None \<Rightarrow> user = None \<or> getRequestedView path = None \<or> canAccessView (the (getRequestedView path)) user
   | Some target \<Rightarrow> shell_navigates target user = None \<and> app_content False target user = PageOutlet \<and>
       \<not> canAccessView (the (getRequestedView path)) user"
proof (cases "shell_navigates path user")
  case None
  then show ?thesis by (auto simp: shell_navigates_def redirectView_def split: option.splits if_splits)
next
  case (Some target)
  then obtain v p where v: "target = CHR ''/'' # v" "redirectView path user = Some v" "user = Some p"
    by (auto simp: shell_navigates_def split: if_splits)
  then have "target = ''/chat''" using redirect_target by auto
  then have "redirectView target user = None"
    by (simp add: redirectView_def getRequestedView_def normalized_path_def nested_view_def nested_views_def starts_with_def
        isAppView_def APP_VIEWS_def canAccessView_def view_permissions_def split: option.split)
  then show ?thesis using Some v
    by (auto simp: shell_navigates_def app_content_def redirectView_def split: option.splits if_splits)
qed

text \<open>The title and the navigation show the view that is requested, or the default one.\<close>

lemma active_view: "resolveView path user =
  (case getRequestedView path of
     Some v \<Rightarrow> if canAccessView v user then v else getDefaultAccessibleView user
   | None \<Rightarrow> getDefaultAccessibleView user)"
  by (auto simp: resolveView_def getRequestedView_def Let_def default_is_chat nested_view_def nested_views_def starts_with_def
      split: option.split)

lemma no_page_without_permission_witness:
  "canAccessView ''chats'' (Some (\<lambda>k. k = ''access_chats''))"
  using no_page_without_permission [of "''/chats/$chatId''" "''chats''" "''/chats/7''" False "Some (\<lambda>k. k = ''access_chats'')"]
  by (simp add: app_routes_def written_as_def app_content_def redirectView_def request_eval canAccessView_def hasPermission_def)

end
