(* ===== verification/AsyncData.thy ===== *)
theory AsyncData
  imports ApiClient RequestTracking
begin

text \<open>
  Loading data for a page (lib/hooks/use-async-data.ts): a hook is called with its options on
  every render, starts a load when they or the version of a refresh change, and shows the
  answer of the newest one.

  A loader is known by its identity, a number. The memoised request of a render has a number
  of its own: two requests are the same object exactly if it is the same number. Effects run
  after a render at some later time, but before the next render; until then the load of the
  previous request is still the one that counts. An answer comes for any load that has been
  started and has none, with the signal of its load aborted or not.
\<close>

record async_options =
  ao_clearDataOnError :: bool
  ao_enabled :: bool
  ao_errorMessage :: string
  ao_load :: nat

record async_request =
  rq_id :: nat
  rq_options :: async_options
  rq_refreshVersion :: nat

text \<open>
  \<open>ah_effect\<close> is the request whose effect runs, \<open>ah_flights\<close> the loads without an answer by the
  number of their request, with whether their signal is aborted.
\<close>

record 'a async_hook =
  ah_refreshVersion :: nat
  ah_request :: async_request
  ah_completedRequest :: "nat option"
  ah_data :: 'a
  ah_error :: "string option"
  ah_hasSucceeded :: bool
  ah_initialData :: 'a
  ah_effect :: "async_request option"
  ah_flights :: "(nat, async_request \<times> bool) js_map"

definition async_mount :: "async_options \<Rightarrow> 'a \<Rightarrow> 'a async_hook" where
  "async_mount options initialData =
     \<lparr>ah_refreshVersion = 0, ah_request = \<lparr>rq_id = 0, rq_options = options, rq_refreshVersion = 0\<rparr>,
      ah_completedRequest = None, ah_data = initialData, ah_error = None, ah_hasSucceeded = False,
      ah_initialData = initialData, ah_effect = None, ah_flights = []\<rparr>"

text \<open>The clean-up of the effect that runs, and the effect of the request of the last render.\<close>

definition abort_effect :: "'a async_hook \<Rightarrow> 'a async_hook" where
  "abort_effect h = (case ah_effect h of
       None \<Rightarrow> h
     | Some r \<Rightarrow> (case js_get (ah_flights h) (rq_id r) of
           None \<Rightarrow> h
         | Some (q, _) \<Rightarrow> h\<lparr>ah_flights := js_set (rq_id r) (q, True) (ah_flights h)\<rparr>))"

definition run_effect :: "'a async_hook \<Rightarrow> 'a async_hook" where
  "run_effect h =
     (if ah_effect h = Some (ah_request h) then h
      else let q = ah_request h;
               h1 = (abort_effect h)\<lparr>ah_effect := Some q\<rparr>
           in if ao_enabled (rq_options q)
              then h1\<lparr>ah_flights := js_set (rq_id q) (q, False) (ah_flights h1)\<rparr> else h1)"

text \<open>A render: the request is the one of the last render unless something it is made of has changed.\<close>

definition async_render :: "async_options \<Rightarrow> 'a async_hook \<Rightarrow> 'a async_hook" where
  "async_render options h0 =
     (let h = run_effect h0;
          q = ah_request h
      in if rq_options q = options \<and> rq_refreshVersion q = ah_refreshVersion h then h
         else h\<lparr>ah_request := \<lparr>rq_id = Suc (rq_id q), rq_options = options, rq_refreshVersion = ah_refreshVersion h\<rparr>\<rparr>)"

definition async_refresh :: "'a async_hook \<Rightarrow> 'a async_hook" where
  "async_refresh h = h\<lparr>ah_refreshVersion := Suc (ah_refreshVersion h)\<rparr>"

text \<open>\<open>message_text\<close> is the message of an error, empty for a value that is none.\<close>

definition async_error :: "(js_error \<Rightarrow> string) \<Rightarrow> string \<Rightarrow> js_error \<Rightarrow> string" where
  "async_error message_text errorMessage e = (if message_text e \<noteq> [] then message_text e else errorMessage)"

definition async_answer ::
  "(js_error \<Rightarrow> string) \<Rightarrow> nat \<Rightarrow> js_error + 'a \<Rightarrow> 'a async_hook \<Rightarrow> 'a async_hook" where
  "async_answer message_text n answer h = (case js_get (ah_flights h) n of
       None \<Rightarrow> h
     | Some (q, aborted) \<Rightarrow>
         let h1 = h\<lparr>ah_flights := js_delete n (ah_flights h)\<rparr>
         in if aborted then h1
            else (case answer of
               Inr d \<Rightarrow> h1\<lparr>ah_completedRequest := Some n, ah_data := d, ah_error := None, ah_hasSucceeded := True\<rparr>
             | Inl e \<Rightarrow>
                 if isAbortError e then h1
                 else h1\<lparr>ah_completedRequest := Some n,
                        ah_data := (if ao_clearDataOnError (rq_options q) then ah_initialData h else ah_data h),
                        ah_error := Some (async_error message_text (ao_errorMessage (rq_options q)) e)\<rparr>))"

record 'a async_result =
  ar_data :: 'a
  ar_error :: "string option"
  ar_hasLoaded :: bool
  ar_hasSucceeded :: bool
  ar_loading :: bool

definition useAsyncData :: "'a async_hook \<Rightarrow> 'a async_result" where
  "useAsyncData h =
     (let q = ah_request h;
          requestHasCompleted = (ah_completedRequest h = Some (rq_id q));
          enabled = ao_enabled (rq_options q)
      in \<lparr>ar_data = (if enabled then ah_data h else ah_initialData h),
          ar_error = (if requestHasCompleted then ah_error h else None),
          ar_hasLoaded = (ah_completedRequest h \<noteq> None), ar_hasSucceeded = ah_hasSucceeded h,
          ar_loading = (enabled \<and> \<not> requestHasCompleted)\<rparr>)"

section \<open>Runs\<close>

datatype 'a async_event = RenderWith async_options | RunEffect | Refresh | LoadAnswer nat "js_error + 'a"

fun async_step :: "(js_error \<Rightarrow> string) \<Rightarrow> 'a async_event \<Rightarrow> 'a async_hook \<Rightarrow> 'a async_hook" where
  "async_step message_text (RenderWith options) h = async_render options h"
| "async_step message_text RunEffect h = run_effect h"
| "async_step message_text Refresh h = async_refresh h"
| "async_step message_text (LoadAnswer n answer) h = async_answer message_text n answer h"

text \<open>
  A loader rejects with an abort only when its signal is aborted, as \<open>fetch\<close> does.
\<close>

fun async_possible :: "'a async_event \<Rightarrow> 'a async_hook \<Rightarrow> bool" where
  "async_possible (LoadAnswer n answer) h =
     (case js_get (ah_flights h) n of
        None \<Rightarrow> False | Some (q, aborted) \<Rightarrow> answer = Inl AbortError \<longrightarrow> aborted)"
| "async_possible _ h = True"

inductive async_reachable :: "(js_error \<Rightarrow> string) \<Rightarrow> 'a async_hook \<Rightarrow> bool" for message_text where
  mounted: "async_reachable message_text (async_mount options initialData)"
| stepped: "async_reachable message_text h \<Longrightarrow> async_possible e h \<Longrightarrow> async_reachable message_text (async_step message_text e h)"

definition live_load :: "'a async_hook \<Rightarrow> nat \<Rightarrow> bool" where
  "live_load h n \<longleftrightarrow> (case js_get (ah_flights h) n of None \<Rightarrow> False | Some (q, aborted) \<Rightarrow> \<not> aborted)"

section \<open>The invariant\<close>

text \<open>
  A load is of the request with its number, no load is newer than the effect that runs and no
  effect newer than the request of the last render, and only the load of the running effect
  is not aborted.
\<close>

definition loads_until :: "async_request \<Rightarrow> (nat, async_request \<times> bool) js_map \<Rightarrow> bool" where
  "loads_until r fs \<longleftrightarrow>
     (\<forall>n q a. js_get fs n = Some (q, a) \<longrightarrow> rq_id q = n \<and> n \<le> rq_id r \<and> (\<not> a \<longrightarrow> q = r))"

definition async_ok :: "'a async_hook \<Rightarrow> bool" where
  "async_ok h \<longleftrightarrow>
     (case ah_effect h of
        None \<Rightarrow> ah_flights h = [] \<and> ah_completedRequest h = None
      | Some r \<Rightarrow> rq_id r \<le> rq_id (ah_request h) \<and> (rq_id r = rq_id (ah_request h) \<longrightarrow> r = ah_request h) \<and>
          loads_until r (ah_flights h) \<and> (\<forall>n. ah_completedRequest h = Some n \<longrightarrow> n \<le> rq_id r))"

lemma loads_untilD:
  "loads_until r fs \<Longrightarrow> js_get fs n = Some (q, a) \<Longrightarrow> rq_id q = n \<and> n \<le> rq_id r \<and> (\<not> a \<longrightarrow> q = r)"
  by (simp add: loads_until_def)

lemma loads_until_delete: "loads_until r fs \<Longrightarrow> loads_until r (js_delete n fs)"
  by (auto simp: loads_until_def)

lemma async_ok_mount: "async_ok (async_mount options initialData)"
  by (simp add: async_ok_def async_mount_def)

lemma async_ok_run_effect: "async_ok h \<Longrightarrow> async_ok (run_effect h)"
  by (fastforce simp: async_ok_def loads_until_def run_effect_def abort_effect_def Let_def split: option.splits if_splits)

lemma async_ok_render: "async_ok h \<Longrightarrow> async_ok (async_render options h)"
  using async_ok_run_effect [of h]
  by (fastforce simp: async_ok_def async_render_def Let_def split: option.splits)

lemma async_ok_answer:
  assumes "async_ok h" shows "async_ok (async_answer message_text n answer h)"
proof (cases "js_get (ah_flights h) n")
  case None
  then show ?thesis using assms by (simp add: async_answer_def)
next
  case (Some f)
  obtain q a where f: "f = (q, a)" by (cases f)
  from Some obtain r where r: "ah_effect h = Some r" "loads_until r (ah_flights h)"
    using assms by (auto simp: async_ok_def split: option.splits)
  then show ?thesis using assms Some f loads_untilD [OF r(2), of n q a] loads_until_delete [OF r(2), of n]
    by (simp add: async_ok_def async_answer_def Let_def split: sum.split)
qed

lemma async_ok_step: "async_ok h \<Longrightarrow> async_ok (async_step message_text e h)"
  by (cases e) (simp_all add: async_ok_run_effect async_ok_render async_ok_answer,
      simp add: async_ok_def async_refresh_def split: option.splits)

end
