(* ===== verification/AsyncFacts.thy ===== *)
theory AsyncFacts
  imports AsyncData
begin

text \<open>
  The data hook under every order of renders, effects, refreshes and answers: what it shows is
  the answer to the request of the last render, and it is loading exactly while that answer
  is on its way.
\<close>

section \<open>Loads own the hook\<close>

definition known_load :: "'a async_hook \<Rightarrow> nat \<Rightarrow> bool" where
  "known_load h n \<longleftrightarrow> (\<exists>r. ah_effect h = Some r \<and> n \<le> rq_id r \<and> rq_id r \<le> rq_id (ah_request h))"

lemma run_effect_effect: "ah_effect (run_effect h) = Some (ah_request h)"
  by (simp add: run_effect_def Let_def)

lemma run_effect_keeps [simp]:
  "ah_request (run_effect h) = ah_request h" "ah_refreshVersion (run_effect h) = ah_refreshVersion h"
  "ah_completedRequest (run_effect h) = ah_completedRequest h" "ah_data (run_effect h) = ah_data h"
  "ah_error (run_effect h) = ah_error h" "ah_initialData (run_effect h) = ah_initialData h"
  "ah_hasSucceeded (run_effect h) = ah_hasSucceeded h"
  by (simp_all add: run_effect_def abort_effect_def Let_def split: option.split)

lemma render_keeps [simp]:
  "ah_completedRequest (async_render options h) = ah_completedRequest h" "ah_data (async_render options h) = ah_data h"
  "ah_error (async_render options h) = ah_error h" "ah_flights (async_render options h) = ah_flights (run_effect h)"
  "ah_effect (async_render options h) = Some (ah_request h)"
  by (simp_all add: async_render_def Let_def run_effect_effect)

lemma async_answer_keeps [simp]:
  "ah_request (async_answer m n answer h) = ah_request h" "ah_effect (async_answer m n answer h) = ah_effect h"
  by (simp_all add: async_answer_def Let_def split: option.split sum.split prod.split)

lemma answer_flights: "ah_flights (async_answer m n answer h) = js_delete n (ah_flights h)"
proof (cases "js_get (ah_flights h) n")
  case None
  then have "n \<notin> fst ` set (ah_flights h)" by (simp add: map_of_eq_None_iff)
  then show ?thesis using None by (simp add: async_answer_def delete_idem)
qed (simp add: async_answer_def Let_def split: sum.split prod.split)

lemma refresh_keeps [simp]:
  "ah_request (async_refresh h) = ah_request h" "ah_effect (async_refresh h) = ah_effect h"
  "ah_flights (async_refresh h) = ah_flights h" "ah_completedRequest (async_refresh h) = ah_completedRequest h"
  "ah_data (async_refresh h) = ah_data h" "ah_error (async_refresh h) = ah_error h"
  by (simp_all add: async_refresh_def)

lemma run_effect_flights:
  "js_get (ah_flights (run_effect h)) n =
     (if ah_effect h = Some (ah_request h) then js_get (ah_flights h) n
      else if n = rq_id (ah_request h) \<and> ao_enabled (rq_options (ah_request h)) then Some (ah_request h, False)
      else if map_option rq_id (ah_effect h) = Some n
        then map_option (\<lambda>f. (fst f, True)) (js_get (ah_flights h) n)
      else js_get (ah_flights h) n)"
  by (auto simp: run_effect_def abort_effect_def Let_def split: option.split)

lemma request_grows: "rq_id (ah_request h) \<le> rq_id (ah_request (async_render options h))"
  by (simp add: async_render_def Let_def)

lemma known_after_step: "known_load h n \<Longrightarrow> known_load (async_step m e h) n"
  using request_grows [of h] by (cases e) (auto simp: known_load_def run_effect_effect)

lemma live_after_effect:
  "known_load h n \<Longrightarrow> async_ok h \<Longrightarrow> live_load (run_effect h) n \<Longrightarrow> live_load h n"
  by (auto simp: live_load_def known_load_def run_effect_flights async_ok_def split: option.splits if_splits)

lemma live_after_step:
  assumes "async_ok h" "known_load h n" "live_load (async_step m e h) n"
  shows "live_load h n"
proof (cases e)
  case (LoadAnswer k answer)
  then show ?thesis using assms(3) by (auto simp: live_load_def answer_flights split: option.splits if_splits)
qed (use assms live_after_effect in \<open>auto simp: live_load_def\<close>)

interpretation async: ownership live_load known_load async_ok "async_step message_text"
  by unfold_locales (simp_all add: async_ok_step known_after_step live_after_step)

section \<open>Loading\<close>

definition async_waits :: "'a async_hook \<Rightarrow> bool" where
  "async_waits h \<longleftrightarrow> (\<forall>r. ah_effect h = Some r \<longrightarrow>
     live_load h (rq_id r) = (ao_enabled (rq_options r) \<and> ah_completedRequest h \<noteq> Some (rq_id r)))"

lemma older_than_request:
  assumes "async_ok h" "ah_effect h \<noteq> Some (ah_request h)"
  shows "js_get (ah_flights h) (rq_id (ah_request h)) = None" "ah_completedRequest h \<noteq> Some (rq_id (ah_request h))"
proof -
  show "js_get (ah_flights h) (rq_id (ah_request h)) = None"
  proof (rule ccontr)
    assume "js_get (ah_flights h) (rq_id (ah_request h)) \<noteq> None"
    then obtain q a where "js_get (ah_flights h) (rq_id (ah_request h)) = Some (q, a)" by auto
    then show False using assms by (auto simp: async_ok_def dest: loads_untilD split: option.splits)
  qed
  show "ah_completedRequest h \<noteq> Some (rq_id (ah_request h))"
    using assms by (auto simp: async_ok_def split: option.splits)
qed

lemma waits_after_effect: "async_ok h \<Longrightarrow> async_waits h \<Longrightarrow> async_waits (run_effect h)"
proof (cases "ah_effect h = Some (ah_request h)")
  case True
  moreover assume "async_waits h"
  ultimately show ?thesis by (simp add: run_effect_def)
next
  case False
  moreover assume "async_ok h"
  ultimately show ?thesis using older_than_request [of h]
    by (auto simp: async_waits_def run_effect_effect live_load_def run_effect_flights)
qed

lemma waits_after_answer:
  assumes "async_ok h" "async_waits h" "async_possible (LoadAnswer n answer) h"
  shows "async_waits (async_answer m n answer h)"
proof -
  obtain q a where f: "js_get (ah_flights h) n = Some (q, a)" "answer = Inl AbortError \<Longrightarrow> a"
    using assms(3) by (auto split: option.splits)
  then obtain r where r: "ah_effect h = Some r" "rq_id q = n" "\<not> a \<Longrightarrow> q = r"
    using assms(1) by (auto simp: async_ok_def dest: loads_untilD split: option.splits)
  show ?thesis
  proof (cases a)
    case True
    then show ?thesis using assms(2) r(1) f
      by (auto simp: async_waits_def live_load_def async_answer_def)
  next
    case False
    then have "answer \<noteq> Inl AbortError" using f(2) by auto
    then have "ah_completedRequest (async_answer m n answer h) = Some n"
      using False f(1) by (auto simp: async_answer_def Let_def split: sum.split elim: isAbortError.elims)
    then show ?thesis using False r by (auto simp: async_waits_def live_load_def answer_flights)
  qed
qed

lemma reachable_waits: "async_reachable m h \<Longrightarrow> async_ok h \<and> async_waits h"
proof (induction rule: async_reachable.induct)
  case (mounted options initialData)
  then show ?case by (simp add: async_ok_mount) (simp add: async_waits_def async_mount_def)
next
  case (stepped h e)
  have "async_waits (async_step m e h)"
  proof (cases e)
    case (RenderWith options)
    then show ?thesis using stepped.IH waits_after_effect [of h]
      by (auto simp: async_waits_def live_load_def run_effect_effect)
  next
    case RunEffect
    then show ?thesis using stepped.IH waits_after_effect [of h] by simp
  next
    case Refresh
    then show ?thesis using stepped.IH by (simp add: async_waits_def live_load_def)
  next
    case (LoadAnswer n answer)
    then show ?thesis using stepped waits_after_answer [of h n answer] by simp
  qed
  then show ?case using stepped.IH async_ok_step by blast
qed

lemma live_is_the_effects: "async_ok h \<Longrightarrow> live_load h n \<Longrightarrow> map_option rq_id (ah_effect h) = Some n"
  by (auto simp: live_load_def async_ok_def split: option.splits dest: loads_untilD)

text \<open>
  C28. The hook is loading exactly while it waits: in every reachable state in which the effect
  of the last render has run, it shows itself as loading if and only if the load of the last
  request is on its way, no other load counts, and whatever the answer is, it ends the loading.
\<close>

theorem loading_until_the_answer:
  assumes "async_reachable message_text h" "ah_effect h = Some (ah_request h)"
  shows "ar_loading (useAsyncData h) = live_load h (rq_id (ah_request h)) \<and>
    (\<forall>n. live_load h n \<longrightarrow> n = rq_id (ah_request h) \<and>
      (\<forall>answer. async_possible (LoadAnswer n answer) h \<longrightarrow>
        \<not> ar_loading (useAsyncData (async_step message_text (LoadAnswer n answer) h))))"
proof (intro conjI allI impI)
  have ok: "async_ok h" "async_waits h" using reachable_waits [OF assms(1)] by auto
  show "ar_loading (useAsyncData h) = live_load h (rq_id (ah_request h))"
    using ok(2) assms(2) by (auto simp: async_waits_def useAsyncData_def Let_def)
  fix n answer
  assume live: "live_load h n"
  show n: "n = rq_id (ah_request h)" using live_is_the_effects [OF ok(1) live] assms(2) by simp
  assume "async_possible (LoadAnswer n answer) h"
  then have "async_waits (async_answer message_text n answer h)" by (rule waits_after_answer [OF ok])
  then show "\<not> ar_loading (useAsyncData (async_step message_text (LoadAnswer n answer) h))"
    using assms(2) n by (auto simp: async_waits_def live_load_def answer_flights useAsyncData_def Let_def)
qed

section \<open>What is shown\<close>

definition async_run :: "(js_error \<Rightarrow> string) \<Rightarrow> async_options \<Rightarrow> 'a \<Rightarrow> 'a async_event list \<Rightarrow> 'a async_hook" where
  "async_run m options initialData es = fold (async_step m) es (async_mount options initialData)"

definition rendered_with :: "async_options \<Rightarrow> 'a async_event list \<Rightarrow> async_options" where
  "rendered_with options es = fold (\<lambda>e current. case e of RenderWith o' \<Rightarrow> o' | _ \<Rightarrow> current) es options"

lemma run_snoc [simp]: "async_run m options d (es @ [e]) = async_step m e (async_run m options d es)"
  by (simp add: async_run_def)

lemma run_ok: "async_ok (async_run m options d es)"
  unfolding async_run_def by (rule async.wf_ops [OF async_ok_mount])

lemma run_options: "rq_options (ah_request (async_run m options d es)) = rendered_with options es"
proof (induction es rule: rev_induct)
  case Nil
  then show ?case by (simp add: async_run_def rendered_with_def async_mount_def)
next
  case (snoc e es)
  then show ?case
    by (cases e) (simp_all add: rendered_with_def async_render_def Let_def)
qed

text \<open>The answer a completed request was completed with.\<close>

definition answered_with ::
  "(js_error \<Rightarrow> string) \<Rightarrow> async_request \<Rightarrow> js_error + 'a \<Rightarrow> 'a async_hook \<Rightarrow> bool" where
  "answered_with m q answer h \<longleftrightarrow> (case answer of
       Inr d \<Rightarrow> ah_data h = d \<and> ah_error h = None
     | Inl e \<Rightarrow> ah_error h = Some (async_error m (ao_errorMessage (rq_options q)) e) \<and>
         (ao_clearDataOnError (rq_options q) \<longrightarrow> ah_data h = ah_initialData h))"

lemma render_initial [simp]: "ah_initialData (async_render options h) = ah_initialData h"
  by (simp add: async_render_def Let_def)

lemma refresh_initial [simp]: "ah_initialData (async_refresh h) = ah_initialData h"
  by (simp add: async_refresh_def)

lemma answer_cases:
  obtains (counts) q where "js_get (ah_flights h) n = Some (q, False)" "answer \<noteq> Inl AbortError"
    "ah_completedRequest (async_answer m n answer h) = Some n"
  | (ignored) "async_answer m n answer h = h\<lparr>ah_flights := js_delete n (ah_flights h)\<rparr>"
proof (cases "\<exists>q. js_get (ah_flights h) n = Some (q, False) \<and> answer \<noteq> Inl AbortError")
  case True
  then obtain q where "js_get (ah_flights h) n = Some (q, False)" "answer \<noteq> Inl AbortError" by auto
  then show ?thesis
    by (intro counts [of q]) (auto simp: async_answer_def Let_def split: sum.split elim: isAbortError.elims)
next
  case False
  show ?thesis
  proof (cases "js_get (ah_flights h) n")
    case None
    then have "n \<notin> fst ` set (ah_flights h)" by (simp add: map_of_eq_None_iff)
    then show ?thesis using None by (intro ignored) (simp add: async_answer_def delete_idem)
  next
    case (Some f)
    then show ?thesis using False by (intro ignored) (cases f; auto simp: async_answer_def Let_def)
  qed
qed

lemma unchanged_unless_answered:
  assumes "ah_completedRequest (async_step m e h) = Some n"
  shows "(\<exists>answer q. e = LoadAnswer n answer \<and> js_get (ah_flights h) n = Some (q, False) \<and> answer \<noteq> Inl AbortError) \<or>
    (ah_completedRequest h = Some n \<and> ah_data (async_step m e h) = ah_data h \<and>
     ah_error (async_step m e h) = ah_error h \<and> ah_initialData (async_step m e h) = ah_initialData h)"
proof (cases e)
  case (LoadAnswer k answer)
  show ?thesis
  proof (cases rule: answer_cases [of h k answer m])
    case (counts q)
    then show ?thesis using assms LoadAnswer by auto
  next
    case ignored
    then show ?thesis using assms LoadAnswer by simp
  qed
qed (use assms in simp_all)

lemma request_of_number:
  assumes "async_ok h" "n \<le> rq_id (ah_request h)" "n = rq_id (ah_request (async_step m e h))"
  shows "ah_request (async_step m e h) = ah_request h"
  using assms(2,3) by (cases e) (auto simp: async_render_def Let_def split: if_splits)

lemma completed_by_its_answer:
  assumes "ah_completedRequest (async_run m options d es) = Some n"
  shows "\<exists>es1 answer es2 q. es = es1 @ LoadAnswer n answer # es2 \<and>
    js_get (ah_flights (async_run m options d es1)) n = Some (q, False) \<and>
    (n = rq_id (ah_request (async_run m options d es)) \<longrightarrow> q = ah_request (async_run m options d es)) \<and>
    answered_with m q answer (async_run m options d es)"
  using assms
proof (induction es rule: rev_induct)
  case Nil
  then show ?case by (simp add: async_run_def async_mount_def)
next
  case (snoc e es)
  let ?h = "async_run m options d es" and ?h' = "async_run m options d (es @ [e])"
  have ok: "async_ok ?h" by (rule run_ok)
  show ?case
  proof (cases "\<exists>answer q. e = LoadAnswer n answer \<and> js_get (ah_flights ?h) n = Some (q, False) \<and> answer \<noteq> Inl AbortError")
    case True
    then obtain answer q where e: "e = LoadAnswer n answer" "js_get (ah_flights ?h) n = Some (q, False)" "answer \<noteq> Inl AbortError"
      by auto
    then have "answered_with m q answer ?h'"
      by (auto simp: answered_with_def async_answer_def Let_def split: sum.split elim: isAbortError.elims)
    moreover have "n = rq_id (ah_request ?h') \<longrightarrow> q = ah_request ?h'"
      using ok e by (auto simp: async_ok_def split: option.splits dest!: loads_untilD)
    ultimately show ?thesis using e by blast
  next
    case False
    have same: "ah_completedRequest ?h = Some n" "ah_data ?h' = ah_data ?h" "ah_error ?h' = ah_error ?h"
      "ah_initialData ?h' = ah_initialData ?h"
      using unchanged_unless_answered [of m e ?h n] snoc.prems False by auto
    from snoc.IH [OF same(1)] obtain es1 answer es2 q where
      ih: "es = es1 @ LoadAnswer n answer # es2" "js_get (ah_flights (async_run m options d es1)) n = Some (q, False)"
      "n = rq_id (ah_request ?h) \<longrightarrow> q = ah_request ?h" "answered_with m q answer ?h"
      by blast
    have q: "n = rq_id (ah_request ?h') \<longrightarrow> q = ah_request ?h'"
      using request_of_number [OF ok, of n m e] ih(3) same(1) ok by (auto simp: async_ok_def split: option.splits)
    have "answered_with m q answer ?h'" using ih(4) same by (cases answer) (simp_all add: answered_with_def)
    moreover have "es @ [e] = es1 @ LoadAnswer n answer # (es2 @ [e])" using ih(1) by simp
    ultimately show ?thesis using ih(2) q by blast
  qed
qed

lemma abort_keeps [simp]: "ah_initialData (abort_effect h) = ah_initialData h"
  by (simp add: abort_effect_def split: option.split)

lemma answer_initial [simp]: "ah_initialData (async_answer m n answer h) = ah_initialData h"
  by (simp add: async_answer_def Let_def split: option.split sum.split prod.split)

lemma run_initial: "ah_initialData (async_run m options d es) = d"
proof (induction es rule: rev_induct)
  case Nil
  then show ?case by (simp add: async_run_def async_mount_def)
next
  case (snoc e es)
  then show ?case by (cases e) simp_all
qed

text \<open>Only an enabled request is loaded.\<close>

definition loads_enabled :: "'a async_hook \<Rightarrow> bool" where
  "loads_enabled h \<longleftrightarrow> (\<forall>n q a. js_get (ah_flights h) n = Some (q, a) \<longrightarrow> ao_enabled (rq_options q))"

lemma enabled_after_effect: "loads_enabled h \<Longrightarrow> loads_enabled (run_effect h)"
  by (auto simp: loads_enabled_def run_effect_flights split: if_splits)

lemma run_loads_enabled: "loads_enabled (async_run m options d es)"
proof (induction es rule: rev_induct)
  case Nil
  then show ?case by (simp add: loads_enabled_def async_run_def async_mount_def)
next
  case (snoc e es)
  show ?case
  proof (cases e)
    case (RenderWith options')
    then show ?thesis using enabled_after_effect [OF snoc.IH] by (simp add: loads_enabled_def)
  next
    case RunEffect
    then show ?thesis using enabled_after_effect [OF snoc.IH] by simp
  next
    case Refresh
    then show ?thesis using snoc.IH by (simp add: loads_enabled_def)
  next
    case (LoadAnswer n answer)
    then show ?thesis using snoc.IH by (simp add: loads_enabled_def answer_flights)
  qed
qed

lemma completed_is_enabled:
  assumes "h = async_run m options d es" "ah_completedRequest h = Some (rq_id (ah_request h))"
  shows "ao_enabled (rq_options (ah_request h))"
  using completed_by_its_answer [OF assms(2) [unfolded assms(1)]] run_loads_enabled [of m options d]
  unfolding assms(1) loads_enabled_def by metis

text \<open>
  C9. What the hook shows is the answer to what it was asked. Whenever it is not loading, in
  every order of renders, effects, refreshes and answers, its request has the options of the
  last render. If they enable it, its data or its error are those of an answer to the load of
  this request, not aborted when the answer came; if they do not, it shows its initial data
  and no error.
\<close>

theorem shows_the_answer_to_the_last_request:
  assumes "h = async_run message_text options initialData es" "\<not> ar_loading (useAsyncData h)"
  shows "rq_options (ah_request h) = rendered_with options es \<and>
    (if ao_enabled (rendered_with options es)
     then \<exists>es1 answer es2. es = es1 @ LoadAnswer (rq_id (ah_request h)) answer # es2 \<and>
       js_get (ah_flights (async_run message_text options initialData es1)) (rq_id (ah_request h)) =
         Some (ah_request h, False) \<and>
       (case answer of
          Inr d \<Rightarrow> ar_data (useAsyncData h) = d \<and> ar_error (useAsyncData h) = None
        | Inl e \<Rightarrow> ar_error (useAsyncData h) =
            Some (async_error message_text (ao_errorMessage (rendered_with options es)) e))
     else ar_data (useAsyncData h) = initialData \<and> ar_error (useAsyncData h) = None)"
proof -
  have options: "rq_options (ah_request h) = rendered_with options es"
    by (simp add: assms(1) run_options)
  show ?thesis
  proof (cases "ao_enabled (rendered_with options es)")
    case True
    then have "ah_completedRequest h = Some (rq_id (ah_request h))"
      using assms(2) options by (simp add: useAsyncData_def Let_def)
    then show ?thesis
      using True options completed_by_its_answer [of message_text options initialData es "rq_id (ah_request h)"]
      unfolding assms(1) [symmetric]
      by (fastforce simp: answered_with_def useAsyncData_def Let_def split: sum.splits)
  next
    case False
    then have "ah_completedRequest h \<noteq> Some (rq_id (ah_request h))"
      using completed_is_enabled [OF assms(1)] options by auto
    then show ?thesis
      using False options run_initial [of message_text options initialData es]
      by (simp add: useAsyncData_def Let_def assms(1))
  qed
qed

text \<open>An answer to a load that lost the hook is never shown, whatever happens in between.\<close>

lemma superseded_loads_are_silent:
  assumes "async_ok h" "known_load h n" "\<not> live_load h n"
  shows "useAsyncData (async_step m (LoadAnswer n answer) (fold (async_step m) es h)) =
    useAsyncData (fold (async_step m) es h)"
proof -
  let ?h = "fold (async_step m) es h"
  have "\<not> live_load ?h n" by (rule async.lost_forever [OF assms])
  then have "async_answer m n answer ?h = ?h\<lparr>ah_flights := js_delete n (ah_flights ?h)\<rparr>"
    by (cases rule: answer_cases [of ?h n answer m]) (auto simp: live_load_def)
  then show ?thesis by (simp add: useAsyncData_def Let_def)
qed

section \<open>Witnesses\<close>

definition demo_options :: "nat \<Rightarrow> async_options" where
  "demo_options k = \<lparr>ao_clearDataOnError = False, ao_enabled = True, ao_errorMessage = ''Failed'', ao_load = k\<rparr>"

definition demo_events :: "nat async_event list" where
  "demo_events = [RunEffect, RenderWith (demo_options 1), RunEffect, LoadAnswer 0 (Inr 5), LoadAnswer 1 (Inr 7)]"

lemmas demo_hook_simps = async_run_def demo_events_def demo_options_def async_mount_def run_effect_def abort_effect_def
  async_render_def async_answer_def useAsyncData_def rendered_with_def live_load_def

lemma shows_the_answer_to_the_last_request_witness:
  "ar_data (useAsyncData (async_run (\<lambda>_. []) (demo_options 0) (0 :: nat) demo_events)) = 7"
  using shows_the_answer_to_the_last_request
    [of "async_run (\<lambda>_. []) (demo_options 0) (0 :: nat) demo_events" "\<lambda>_. []" "demo_options 0" 0 demo_events]
  by (simp add: demo_hook_simps Let_def)

lemma loading_until_the_answer_witness:
  "ar_loading (useAsyncData (run_effect (async_mount (demo_options 0) (0 :: nat))))"
proof -
  have "async_reachable (\<lambda>_. []) (async_step (\<lambda>_. []) RunEffect (async_mount (demo_options 0) (0 :: nat)))"
    by (intro async_reachable.intros) simp
  then show ?thesis
    using loading_until_the_answer [of "\<lambda>_. []" "run_effect (async_mount (demo_options 0) (0 :: nat))"]
    by (simp add: demo_hook_simps Let_def)
qed

end
