(* ===== verification/CompliancePolling.thy ===== *)
theory CompliancePolling
  imports ApiClient
begin

text \<open>
  The data of the compliance pages (compliance/hooks/use-compliance-data.ts): a hook that loads
  once, again every five seconds while the page is visible, and again on request; it never has
  two loads of one effect on the way, and a request that comes during a load is kept for
  after it.

  The effects are numbered in the order they ran; each keeps the variables of its closure. An
  effect has at most one load on its way, exactly while it is \<open>pf_pending\<close>. A loader is known by
  its identity, a number, and so is the memoised request.
\<close>

record poll_options =
  po_load :: nat
  po_errorMessage :: string
  po_retainPreviousData :: bool
  po_enabled :: bool
  po_poll :: bool

record poll_request =
  pq_id :: nat
  pq_load :: nat
  pq_enabled :: bool

record 'a poll_result =
  ps_request :: poll_request
  ps_data :: "'a option"
  ps_error :: "string option"

record poll_effect =
  pf_request :: poll_request
  pf_errorMessage :: string
  pf_poll :: bool
  pf_aborted :: bool
  pf_pending :: bool
  pf_refreshQueued :: bool

text \<open>
  \<open>ph_options\<close> are the options of the last render, \<open>ph_running\<close> is what the effect that ran
  last was made of, \<open>ph_refreshRef\<close> the effect a refresh goes to.
\<close>

record 'a poll_hook =
  ph_options :: poll_options
  ph_request :: poll_request
  ph_result :: "'a poll_result option"
  ph_running :: "(poll_request \<times> poll_options) option"
  ph_effects :: "poll_effect list"
  ph_refreshRef :: "nat option"

definition poll_mount :: "poll_options \<Rightarrow> 'a poll_hook" where
  "poll_mount options = \<lparr>ph_options = options,
     ph_request = \<lparr>pq_id = 0, pq_load = po_load options, pq_enabled = po_enabled options\<rparr>, ph_result = None,
     ph_running = None, ph_effects = [], ph_refreshRef = None\<rparr>"

section \<open>Loads\<close>

definition fetchData :: "nat \<Rightarrow> 'a poll_hook \<Rightarrow> nat list \<times> 'a poll_hook" where
  "fetchData k h =
     (let f = ph_effects h ! k
      in if k \<ge> length (ph_effects h) \<or> pf_pending f \<or> pf_aborted f then ([], h)
         else ([k], h\<lparr>ph_effects := (ph_effects h)[k := f\<lparr>pf_pending := True\<rparr>]\<rparr>))"

definition poll_refresh :: "'a poll_hook \<Rightarrow> nat list \<times> 'a poll_hook" where
  "poll_refresh h = (case ph_refreshRef h of
       None \<Rightarrow> ([], h)
     | Some k \<Rightarrow>
         if pf_pending (ph_effects h ! k)
         then ([], h\<lparr>ph_effects := (ph_effects h)[k := (ph_effects h ! k)\<lparr>pf_refreshQueued := True\<rparr>]\<rparr>)
         else fetchData k h)"

text \<open>
  The clean-up of the last effect and the next one, when what it depends on has changed. The
  clean-up stops its timer and its signal. An effect that is not enabled has neither.
\<close>

definition poll_cleanup :: "'a poll_hook \<Rightarrow> 'a poll_hook" where
  "poll_cleanup h = (if ph_effects h = [] then h
     else h\<lparr>ph_effects := (ph_effects h)[length (ph_effects h) - 1 := (last (ph_effects h))\<lparr>pf_aborted := True\<rparr>]\<rparr>)"

definition poll_dependencies :: "'a poll_hook \<Rightarrow> poll_request \<times> poll_options" where
  "poll_dependencies h = (ph_request h, (ph_options h)\<lparr>po_retainPreviousData := False\<rparr>)"

definition poll_run_effect :: "'a poll_hook \<Rightarrow> nat list \<times> 'a poll_hook" where
  "poll_run_effect h =
     (if ph_running h = Some (poll_dependencies h) then ([], h)
      else let options = ph_options h;
               h1 = (poll_cleanup h)\<lparr>ph_running := Some (poll_dependencies h), ph_refreshRef := None\<rparr>;
               k = length (ph_effects h1);
               f = \<lparr>pf_request = ph_request h, pf_errorMessage = po_errorMessage options, pf_poll = po_poll options,
                    pf_aborted = False, pf_pending = False, pf_refreshQueued = False\<rparr>
           in if \<not> po_enabled options then ([], h1)
              else fetchData k (h1\<lparr>ph_effects := ph_effects h1 @ [f], ph_refreshRef := Some k\<rparr>))"

definition poll_render :: "poll_options \<Rightarrow> 'a poll_hook \<Rightarrow> nat list \<times> 'a poll_hook" where
  "poll_render options h0 =
     (let (loads, h) = poll_run_effect h0;
          q = ph_request h;
          q' = (if pq_load q = po_load options \<and> pq_enabled q = po_enabled options then q
                else \<lparr>pq_id = Suc (pq_id q), pq_load = po_load options, pq_enabled = po_enabled options\<rparr>)
      in (loads, h\<lparr>ph_options := options, ph_request := q'\<rparr>))"

text \<open>The timer of an effect, or the page becoming visible or hidden.\<close>

definition whileVisible :: "bool \<Rightarrow> nat \<Rightarrow> 'a poll_hook \<Rightarrow> nat list \<times> 'a poll_hook" where
  "whileVisible visible k h =
     (if k < length (ph_effects h) \<and> pf_poll (ph_effects h ! k) \<and> \<not> pf_aborted (ph_effects h ! k) \<and> visible
      then fetchData k h else ([], h))"

section \<open>Answers\<close>

definition transient_error :: "js_error \<Rightarrow> bool" where
  "transient_error e \<longleftrightarrow> (case e of
     ApiError status detail \<Rightarrow> status \<ge> 500 \<or> status = 408 \<or> status = 429 | _ \<Rightarrow> True)"

text \<open>
  What an answer makes of the result. Where the code returns the current object because it
  would not change, the values are the same.
\<close>

definition poll_result_of ::
  "(js_error \<Rightarrow> string) \<Rightarrow> poll_effect \<Rightarrow> js_error + 'a \<Rightarrow> 'a poll_result option \<Rightarrow> 'a poll_result" where
  "poll_result_of message_text f answer current = (case answer of
       Inr d \<Rightarrow> \<lparr>ps_request = pf_request f, ps_data = Some d, ps_error = None\<rparr>
     | Inl e \<Rightarrow>
         let message = (if message_text e \<noteq> [] then message_text e else pf_errorMessage f);
             previous = (if transient_error e \<and> map_option ps_request current = Some (pf_request f)
                         then current else None)
         in \<lparr>ps_request = pf_request f, ps_data = Option.bind previous ps_data, ps_error = Some message\<rparr>)"

definition poll_settle :: "nat \<Rightarrow> 'a poll_hook \<Rightarrow> nat list \<times> 'a poll_hook" where
  "poll_settle k h =
     (let f = ph_effects h ! k;
          h1 = h\<lparr>ph_effects := (ph_effects h)[k := f\<lparr>pf_pending := False, pf_refreshQueued := False\<rparr>]\<rparr>
      in if pf_refreshQueued f then fetchData k h1 else ([], h1))"

definition poll_answer ::
  "(js_error \<Rightarrow> string) \<Rightarrow> nat \<Rightarrow> js_error + 'a \<Rightarrow> 'a poll_hook \<Rightarrow> nat list \<times> 'a poll_hook" where
  "poll_answer message_text k answer h =
     (let f = ph_effects h ! k
      in if k \<ge> length (ph_effects h) \<or> \<not> pf_pending f then ([], h)
         else poll_settle k
           (if pf_aborted f then h
            else h\<lparr>ph_result := Some (poll_result_of message_text f answer (ph_result h))\<rparr>))"

section \<open>What is shown\<close>

record 'a poll_shown =
  pv_data :: "'a option"
  pv_error :: "string option"
  pv_loading :: bool

definition current_result :: "'a poll_hook \<Rightarrow> 'a poll_result option" where
  "current_result h = (case ph_result h of
     None \<Rightarrow> None | Some r \<Rightarrow> if ps_request r = ph_request h then Some r else None)"

definition useComplianceData :: "'a poll_hook \<Rightarrow> 'a poll_shown" where
  "useComplianceData h =
     (let current = current_result h;
          options = ph_options h;
          retained = (case ph_result h of
            None \<Rightarrow> None
          | Some r \<Rightarrow>
              if po_enabled options \<and> current = None \<and> po_retainPreviousData options \<and>
                 pq_load (ps_request r) \<noteq> po_load options
              then ps_data r else None)
      in \<lparr>pv_data = or_else (Option.bind current ps_data) retained, pv_error = Option.bind current ps_error,
          pv_loading = (po_enabled options \<and> current = None)\<rparr>)"

section \<open>Runs\<close>

datatype 'a poll_event =
    PollRender poll_options
  | PollEffect
  | PollRefresh
  | PollTick bool nat
  | PollAnswer nat "js_error + 'a"

fun poll_step :: "(js_error \<Rightarrow> string) \<Rightarrow> 'a poll_event \<Rightarrow> 'a poll_hook \<Rightarrow> nat list \<times> 'a poll_hook" where
  "poll_step m (PollRender options) h = poll_render options h"
| "poll_step m PollEffect h = poll_run_effect h"
| "poll_step m PollRefresh h = poll_refresh h"
| "poll_step m (PollTick visible k) h = whileVisible visible k h"
| "poll_step m (PollAnswer k answer) h = poll_answer m k answer h"

text \<open>A run from a state, with the loads started in it.\<close>

fun poll_run :: "(js_error \<Rightarrow> string) \<Rightarrow> 'a poll_event list \<Rightarrow> 'a poll_hook \<Rightarrow> nat list \<times> 'a poll_hook" where
  "poll_run m [] h = ([], h)"
| "poll_run m (e # es) h =
     (let (loads, h1) = poll_step m e h; (more_loads, h2) = poll_run m es h1 in (loads @ more_loads, h2))"

end
