(* ===== verification/PollingFacts.thy ===== *)
theory PollingFacts
  imports CompliancePolling
begin

text \<open>
  The polling hook: at most one load counts, a refresh is never lost, and what is shown belongs
  to the request of the last render, with its old data through passing errors only.
\<close>

section \<open>The invariant\<close>

text \<open>
  Only the effect a refresh goes to is not aborted. It is of what ran last, and it waits for an
  answer unless one has been shown. A refresh is queued only behind a load.
\<close>

definition live_effect :: "'a poll_hook \<Rightarrow> nat \<Rightarrow> bool" where
  "live_effect h k \<longleftrightarrow> k < length (ph_effects h) \<and> \<not> pf_aborted (ph_effects h ! k)"

definition effect_ok :: "(poll_request \<times> poll_options) option \<Rightarrow> 'a poll_result option \<Rightarrow> poll_effect \<Rightarrow> bool" where
  "effect_ok running result f \<longleftrightarrow> 
     map_option (\<lambda>(q, options). (q, po_errorMessage options)) running = Some (pf_request f, pf_errorMessage f) \<and>
     (pf_refreshQueued f \<longrightarrow> pf_pending f) \<and> (pf_pending f \<or> map_option ps_request result = Some (pf_request f))"

definition poll_ok :: "'a poll_hook \<Rightarrow> bool" where
  "poll_ok h \<longleftrightarrow>
     (\<forall>k. live_effect h k = (ph_refreshRef h = Some k)) \<and>
     (\<forall>k. ph_refreshRef h = Some k \<longrightarrow>
        Suc k = length (ph_effects h) \<and> effect_ok (ph_running h) (ph_result h) (ph_effects h ! k)) \<and>
     (case ph_running h of None \<Rightarrow> ph_effects h = [] | Some x \<Rightarrow> po_enabled (snd x) = (ph_refreshRef h \<noteq> None))"

lemma poll_ok_mount: "poll_ok (poll_mount options)"
  by (simp add: poll_ok_def poll_mount_def live_effect_def)

text \<open>An effect changes in place: its neighbours and what is live stay.\<close>

lemma poll_ok_update:
  assumes "poll_ok h" "pf_aborted f' = pf_aborted (ph_effects h ! k)"
    and "live_effect h k \<Longrightarrow> effect_ok (ph_running h) (ph_result h) f'"
  shows "poll_ok (h\<lparr>ph_effects := (ph_effects h)[k := f']\<rparr>)"
proof -
  have live: "live_effect (h\<lparr>ph_effects := (ph_effects h)[k := f']\<rparr>) j = live_effect h j" for j
    using assms(2) by (cases "j = k") (auto simp: live_effect_def)
  have "ph_refreshRef h = Some j \<Longrightarrow> effect_ok (ph_running h) (ph_result h) ((ph_effects h)[k := f'] ! j)" for j
    using assms(1,3) by (cases "j = k") (auto simp: poll_ok_def live_effect_def)
  then show ?thesis using assms(1) live by (cases "ph_running h") (simp_all add: poll_ok_def)
qed

lemma fetch_cases:
  obtains (idle) "fetchData k h = ([], h)" "live_effect h k \<Longrightarrow> pf_pending (ph_effects h ! k)"
  | (starts) "fetchData k h = ([k], h\<lparr>ph_effects := (ph_effects h)[k := (ph_effects h ! k)\<lparr>pf_pending := True\<rparr>]\<rparr>)"
    "live_effect h k"
  by (cases "live_effect h k \<and> \<not> pf_pending (ph_effects h ! k)") (auto simp: fetchData_def live_effect_def Let_def)

lemma poll_ok_fetch:
  assumes "poll_ok h" shows "poll_ok (snd (fetchData k h))"
proof (cases rule: fetch_cases [of k h])
  case starts
  then have "effect_ok (ph_running h) (ph_result h) (ph_effects h ! k)" using assms by (simp add: poll_ok_def)
  then show ?thesis using starts assms by (auto intro!: poll_ok_update simp: effect_ok_def)
qed (use assms in simp)

lemma poll_ok_refresh:
  assumes "poll_ok h" shows "poll_ok (snd (poll_refresh h))"
proof (cases "ph_refreshRef h")
  case (Some k)
  then have "effect_ok (ph_running h) (ph_result h) (ph_effects h ! k)" using assms by (simp add: poll_ok_def)
  then show ?thesis using Some assms poll_ok_fetch [OF assms]
    by (auto simp: poll_refresh_def effect_ok_def intro!: poll_ok_update)
qed (use assms in \<open>simp add: poll_refresh_def\<close>)

lemma poll_ok_tick: "poll_ok h \<Longrightarrow> poll_ok (snd (whileVisible visible k h))"
  by (simp add: whileVisible_def poll_ok_fetch)

subsection \<open>Answers\<close>

lemma poll_ok_result:
  assumes "poll_ok h" "live_effect h k" "ps_request r = pf_request (ph_effects h ! k)"
  shows "poll_ok (h\<lparr>ph_result := Some r\<rparr>)"
proof -
  have k: "ph_refreshRef h = Some k" "effect_ok (ph_running h) (ph_result h) (ph_effects h ! k)"
    using assms(1,2) by (simp_all add: poll_ok_def)
  have "effect_ok (ph_running h) (Some r) (ph_effects h ! k)" using k(2) assms(3) by (simp add: effect_ok_def)
  moreover have "live_effect (h\<lparr>ph_result := Some r\<rparr>) j = live_effect h j" for j by (simp add: live_effect_def)
  ultimately show ?thesis using assms(1) k(1) by (cases "ph_running h") (auto simp: poll_ok_def)
qed

lemma poll_ok_settle:
  assumes "poll_ok h" "live_effect h k \<Longrightarrow> map_option ps_request (ph_result h) = Some (pf_request (ph_effects h ! k))"
  shows "poll_ok (snd (poll_settle k h))"
proof -
  have "poll_ok (h\<lparr>ph_effects := (ph_effects h)[k := (ph_effects h ! k)\<lparr>pf_pending := False, pf_refreshQueued := False\<rparr>]\<rparr>)"
    using assms by (intro poll_ok_update) (auto simp: poll_ok_def effect_ok_def)
  then show ?thesis by (simp add: poll_settle_def Let_def poll_ok_fetch)
qed

lemma result_request [simp]: "ps_request (poll_result_of m f answer current) = pf_request f"
  by (simp add: poll_result_of_def Let_def split: sum.split)

lemma poll_ok_answer:
  assumes "poll_ok h" shows "poll_ok (snd (poll_answer m k answer h))"
proof (cases "live_effect h k")
  case True
  then show ?thesis using assms
    by (auto simp: poll_answer_def Let_def live_effect_def intro!: poll_ok_settle poll_ok_result)
next
  case False
  then show ?thesis using assms
    by (auto simp: poll_answer_def Let_def live_effect_def intro!: poll_ok_settle)
qed

subsection \<open>Effects and renders\<close>

lemma cleanup_keeps [simp]:
  "ph_options (poll_cleanup h) = ph_options h" "ph_request (poll_cleanup h) = ph_request h"
  "ph_result (poll_cleanup h) = ph_result h" "length (ph_effects (poll_cleanup h)) = length (ph_effects h)"
  by (simp_all add: poll_cleanup_def)

lemma cleanup_effect:
  "j < length (ph_effects h) \<Longrightarrow> ph_effects (poll_cleanup h) ! j =
     (if Suc j = length (ph_effects h) then (ph_effects h ! j)\<lparr>pf_aborted := True\<rparr> else ph_effects h ! j)"
  by (auto simp: poll_cleanup_def nth_list_update last_conv_nth)

lemma cleanup_ends_all:
  assumes "poll_ok h" shows "\<not> live_effect (poll_cleanup h) k"
proof
  assume "live_effect (poll_cleanup h) k"
  then have "k < length (ph_effects h)" "Suc k \<noteq> length (ph_effects h)" "\<not> pf_aborted (ph_effects h ! k)"
    by (auto simp: live_effect_def cleanup_effect split: if_splits)
  then show False using assms by (auto simp: poll_ok_def live_effect_def)
qed

text \<open>The effect that begins when an enabled effect runs, before its first load.\<close>

definition new_effect :: "'a poll_hook \<Rightarrow> poll_effect" where
  "new_effect h = \<lparr>pf_request = ph_request h, pf_errorMessage = po_errorMessage (ph_options h),
     pf_poll = po_poll (ph_options h), pf_aborted = False, pf_pending = False, pf_refreshQueued = False\<rparr>"

lemma run_effect_cases:
  obtains (same) "poll_run_effect h = ([], h)" "ph_running h = Some (poll_dependencies h)"
  | (ends) "\<not> po_enabled (ph_options h)" "poll_run_effect h =
      ([], (poll_cleanup h)\<lparr>ph_running := Some (poll_dependencies h), ph_refreshRef := None\<rparr>)"
  | (begins) "po_enabled (ph_options h)" "poll_run_effect h = ([length (ph_effects h)],
      (poll_cleanup h)\<lparr>ph_running := Some (poll_dependencies h), ph_refreshRef := Some (length (ph_effects h)),
        ph_effects := ph_effects (poll_cleanup h) @ [(new_effect h)\<lparr>pf_pending := True\<rparr>]\<rparr>)"
proof -
  have fetch: "fetchData (length es) (h'\<lparr>ph_effects := es @ [f]\<rparr>) = ([length es], h'\<lparr>ph_effects := es @ [f\<lparr>pf_pending := True\<rparr>]\<rparr>)"
    if "\<not> pf_pending f" "\<not> pf_aborted f" for es f and h' :: "'a poll_hook"
    using that by (simp add: fetchData_def Let_def)
  consider "ph_running h = Some (poll_dependencies h)"
    | "ph_running h \<noteq> Some (poll_dependencies h)" "\<not> po_enabled (ph_options h)"
    | "ph_running h \<noteq> Some (poll_dependencies h)" "po_enabled (ph_options h)" by blast
  then show ?thesis
  proof cases
    case 3
    have "poll_run_effect h = fetchData (length (ph_effects (poll_cleanup h)))
        ((poll_cleanup h)\<lparr>ph_running := Some (poll_dependencies h), ph_effects := ph_effects (poll_cleanup h) @ [new_effect h],
          ph_refreshRef := Some (length (ph_effects h))\<rparr>)"
      using 3 by (simp add: poll_run_effect_def new_effect_def Let_def)
    then show ?thesis using begins 3(2)
      by (simp add: fetchData_def new_effect_def Let_def del: cleanup_keeps(4)) (simp add: new_effect_def)
  qed (use same ends in \<open>simp_all add: poll_run_effect_def Let_def\<close>)
qed

lemma poll_ok_run_effect:
  assumes "poll_ok h" shows "poll_ok (snd (poll_run_effect h))"
proof (cases rule: run_effect_cases [of h])
  case ends
  then show ?thesis using cleanup_ends_all [OF assms]
    by (auto simp: poll_ok_def live_effect_def poll_dependencies_def)
next
  case begins
  then show ?thesis using cleanup_ends_all [OF assms]
    by (auto simp: poll_ok_def live_effect_def poll_dependencies_def nth_append effect_ok_def new_effect_def
        split: if_splits)
qed (use assms in simp)

lemma poll_ok_options: "poll_ok (h\<lparr>ph_options := options, ph_request := q\<rparr>) = poll_ok h"
  by (cases "ph_running h") (simp_all add: poll_ok_def live_effect_def)

lemma poll_ok_render: "poll_ok h \<Longrightarrow> poll_ok (snd (poll_render options h))"
  using poll_ok_run_effect [of h] by (simp add: poll_render_def case_prod_beta Let_def poll_ok_options)

lemma poll_ok_step: "poll_ok h \<Longrightarrow> poll_ok (snd (poll_step m e h))"
  by (cases e) (simp_all add: poll_ok_render poll_ok_run_effect poll_ok_refresh poll_ok_tick poll_ok_answer)

lemma poll_ok_run: "poll_ok h \<Longrightarrow> poll_ok (snd (poll_run m es h))"
  by (induction es arbitrary: h) (simp_all add: case_prod_beta poll_ok_step)

section \<open>Loading\<close>

lemma settle_keeps [simp]:
  "ph_options (snd (poll_settle k h)) = ph_options h" "ph_request (snd (poll_settle k h)) = ph_request h"
  "ph_result (snd (poll_settle k h)) = ph_result h"
  by (cases rule: fetch_cases; simp add: poll_settle_def Let_def fetchData_def)+

lemma fetch_shown [simp]:
  "ph_options (snd (fetchData k h)) = ph_options h" "ph_request (snd (fetchData k h)) = ph_request h"
  "ph_result (snd (fetchData k h)) = ph_result h"
  by (simp_all add: fetchData_def Let_def)

text \<open>
  The polling hook is loading only while it waits for the answer that ends it, and at most
  one load counts: whatever happened, in a state in which the effect of the last render has
  run, a load that is not aborted belongs to the effect of the last request, if the hook is
  loading such a load is on its way, and its answer, data or error, ends the loading.
\<close>

theorem polling_waits_for_one_load:
  assumes "h = snd (poll_run m es (poll_mount options))" "ph_running h = Some (poll_dependencies h)"
  shows "(\<forall>j k. live_effect h j \<and> live_effect h k \<longrightarrow> j = k) \<and>
    (pv_loading (useComplianceData h) \<longrightarrow>
      (\<exists>k. live_effect h k \<and> pf_pending (ph_effects h ! k) \<and>
        (\<forall>answer. \<not> pv_loading (useComplianceData (snd (poll_step m (PollAnswer k answer) h))))))"
proof (intro conjI impI)
  have ok: "poll_ok h" unfolding assms(1) by (rule poll_ok_run [OF poll_ok_mount])
  then show "\<forall>j k. live_effect h j \<and> live_effect h k \<longrightarrow> j = k" by (auto simp: poll_ok_def)
  assume loading: "pv_loading (useComplianceData h)"
  then have enabled: "po_enabled (ph_options h)" and none: "current_result h = None"
    by (simp_all add: useComplianceData_def Let_def)
  then obtain k where k: "ph_refreshRef h = Some k" using ok assms(2) by (auto simp: poll_ok_def poll_dependencies_def)
  then have live: "live_effect h k" and f: "effect_ok (ph_running h) (ph_result h) (ph_effects h ! k)"
    using ok by (simp_all add: poll_ok_def)
  then have request: "pf_request (ph_effects h ! k) = ph_request h"
    using assms(2) by (simp add: effect_ok_def poll_dependencies_def)
  then have pending: "pf_pending (ph_effects h ! k)"
    using f none by (auto simp: effect_ok_def current_result_def split: option.splits)
  have "\<not> pv_loading (useComplianceData (snd (poll_step m (PollAnswer k answer) h)))" for answer
    using live pending request
    by (simp add: poll_answer_def Let_def live_effect_def useComplianceData_def current_result_def)
  then show "\<exists>k. live_effect h k \<and> pf_pending (ph_effects h ! k) \<and>
      (\<forall>answer. \<not> pv_loading (useComplianceData (snd (poll_step m (PollAnswer k answer) h))))"
    using live pending by blast
qed

section \<open>What an answer shows\<close>

lemma shown_cong:
  assumes "ph_options h' = ph_options h" "ph_request h' = ph_request h" "ph_result h' = ph_result h"
  shows "useComplianceData h' = useComplianceData h"
  unfolding useComplianceData_def current_result_def assms by (rule refl)

text \<open>
  C30. An answer replaces what is shown by what it says: data and no error, or the error with the
  data that were loaded before for the same request if the error is a passing one, and never
  with the data of another request or after an error that lasts; and an answer to an
  aborted load changes nothing.
\<close>

theorem errors_keep_only_this_requests_data:
  assumes "h = snd (poll_run m es (poll_mount options))" "ph_running h = Some (poll_dependencies h)"
    and "k < length (ph_effects h)" "pf_pending (ph_effects h ! k)"
  shows "useComplianceData (snd (poll_step m (PollAnswer k answer) h)) =
    (if pf_aborted (ph_effects h ! k) then useComplianceData h
     else case answer of
       Inr d \<Rightarrow> \<lparr>pv_data = Some d, pv_error = None, pv_loading = False\<rparr>
     | Inl e \<Rightarrow>
         \<lparr>pv_data = (if transient_error e then Option.bind (current_result h) ps_data else None),
          pv_error = Some (if m e \<noteq> [] then m e else po_errorMessage (ph_options h)),
          pv_loading = False\<rparr>)"
proof (cases "pf_aborted (ph_effects h ! k)")
  case True
  then have "useComplianceData (snd (poll_answer m k answer h)) = useComplianceData h"
    by (intro shown_cong) (simp_all add: poll_answer_def Let_def)
  then show ?thesis using True by simp
next
  case False
  have ok: "poll_ok h" unfolding assms(1) by (rule poll_ok_run [OF poll_ok_mount])
  have live: "live_effect h k" using False assms(3) by (simp add: live_effect_def)
  then have f: "pf_request (ph_effects h ! k) = ph_request h"
      "pf_errorMessage (ph_effects h ! k) = po_errorMessage (ph_options h)"
    using ok assms(2) by (simp_all add: poll_ok_def effect_ok_def poll_dependencies_def)
  let ?h = "h\<lparr>ph_result := Some (poll_result_of m (ph_effects h ! k) answer (ph_result h))\<rparr>"
  have "useComplianceData (snd (poll_answer m k answer h)) = useComplianceData ?h"
    using False assms(3,4) by (intro shown_cong) (simp_all add: poll_answer_def Let_def)
  then show ?thesis using False f
    by (auto simp: Let_def useComplianceData_def current_result_def poll_result_of_def split: sum.split option.split)
qed

section \<open>Refreshes\<close>

text \<open>A refresh waits behind a load, or its effect has ended.\<close>

definition refresh_waits :: "nat \<Rightarrow> 'a poll_hook \<Rightarrow> bool" where
  "refresh_waits k h \<longleftrightarrow> k < length (ph_effects h) \<and>
     (pf_aborted (ph_effects h ! k) \<or> pf_pending (ph_effects h ! k) \<and> pf_refreshQueued (ph_effects h ! k))"

lemma waits_update:
  assumes "refresh_waits k h"
    and "j = k \<Longrightarrow> pf_aborted f' \<or> pf_pending f' \<and> pf_refreshQueued f'"
  shows "refresh_waits k (h\<lparr>ph_effects := (ph_effects h)[j := f']\<rparr>)"
  using assms by (cases "j = k") (auto simp: refresh_waits_def)

lemma waits_fetch:
  assumes "refresh_waits k h" shows "refresh_waits k (snd (fetchData j h))"
proof (cases rule: fetch_cases [of j h])
  case starts
  have "refresh_waits k (h\<lparr>ph_effects := (ph_effects h)[j := (ph_effects h ! j)\<lparr>pf_pending := True\<rparr>]\<rparr>)"
    using assms by (intro waits_update) (auto simp: refresh_waits_def)
  then show ?thesis using starts by simp
qed (use assms in simp)

lemma waits_run_effect: "refresh_waits k h \<Longrightarrow> refresh_waits k (snd (poll_run_effect h))"
  by (cases rule: run_effect_cases [of h]) (auto simp: refresh_waits_def cleanup_effect nth_append)

lemma waits_settle:
  assumes "refresh_waits k h" "pf_pending (ph_effects h ! j)"
  shows "k \<in> set (fst (poll_settle j h)) \<or> refresh_waits k (snd (poll_settle j h))"
proof (cases "j = k \<and> \<not> pf_aborted (ph_effects h ! k)")
  case True
  then show ?thesis using assms by (simp add: refresh_waits_def poll_settle_def fetchData_def Let_def)
next
  case False
  let ?h = "h\<lparr>ph_effects := (ph_effects h)[j := (ph_effects h ! j)\<lparr>pf_pending := False, pf_refreshQueued := False\<rparr>]\<rparr>"
  have "refresh_waits k ?h" using False assms(1) by (intro waits_update) auto
  then show ?thesis using waits_fetch [of k ?h j] by (simp add: poll_settle_def Let_def)
qed

lemma refresh_waits_step:
  assumes "refresh_waits k h"
  shows "k \<in> set (fst (poll_step m e h)) \<or> refresh_waits k (snd (poll_step m e h))"
proof (cases e)
  case (PollRender options)
  then show ?thesis using waits_run_effect [OF assms]
    by (simp add: poll_render_def case_prod_beta Let_def refresh_waits_def)
next
  case PollRefresh
  show ?thesis
  proof (cases "ph_refreshRef h")
    case (Some j)
    then show ?thesis using PollRefresh assms waits_fetch [OF assms, of j]
      by (auto simp: poll_refresh_def intro!: waits_update)
  qed (use PollRefresh assms in \<open>simp add: poll_refresh_def\<close>)
next
  case (PollAnswer j answer)
  let ?h = "if pf_aborted (ph_effects h ! j) then h
    else h\<lparr>ph_result := Some (poll_result_of m (ph_effects h ! j) answer (ph_result h))\<rparr>"
  have "refresh_waits k ?h" using assms by (simp add: refresh_waits_def)
  then show ?thesis using PollAnswer assms waits_settle [of k ?h j]
    by (auto simp: poll_answer_def Let_def)
qed (use assms waits_fetch [OF assms] waits_run_effect [OF assms] in \<open>simp_all add: whileVisible_def\<close>)

lemma waits_run:
  "refresh_waits k h \<Longrightarrow> k \<in> set (fst (poll_run m es h)) \<or> refresh_waits k (snd (poll_run m es h))"
proof (induction es arbitrary: h)
  case (Cons e es)
  then show ?case using refresh_waits_step [OF Cons.prems, of m e] Cons.IH [of "snd (poll_step m e h)"]
    by (auto simp: case_prod_beta)
qed simp

text \<open>
  C29. A refresh is never lost: after it is asked for, in any state and whatever happens next,
  once the effect it went to has no load on the way, either a load of that effect has started
  since, or its page has gone on to another request.
\<close>

theorem refresh_is_never_lost:
  assumes "h = snd (poll_run m es (poll_mount options))" "ph_refreshRef h = Some k"
    and "poll_run m (PollRefresh # es') h = (loads, h')"
  shows "k \<in> set loads \<or> pf_pending (ph_effects h' ! k) \<or> pf_aborted (ph_effects h' ! k)"
proof -
  have "poll_ok h" unfolding assms(1) by (rule poll_ok_run [OF poll_ok_mount])
  then have k: "live_effect h k" using assms(2) by (simp add: poll_ok_def)
  let ?h = "snd (poll_refresh h)"
  have "k \<in> set (fst (poll_refresh h)) \<or> refresh_waits k ?h"
    using k assms(2) by (auto simp: poll_refresh_def fetchData_def Let_def live_effect_def refresh_waits_def)
  then have "k \<in> set loads \<or> refresh_waits k h'"
    using waits_run [of k ?h m es'] assms(3) by (auto simp: case_prod_beta)
  then show ?thesis by (auto simp: refresh_waits_def)
qed

section \<open>Witnesses\<close>

definition demo_poll :: poll_options where
  "demo_poll = \<lparr>po_load = 1, po_errorMessage = ''Failed'', po_retainPreviousData = False, po_enabled = True, po_poll = True\<rparr>"

lemmas demo_poll_simps = demo_poll_def poll_mount_def poll_run_effect_def poll_dependencies_def poll_cleanup_def fetchData_def
  live_effect_def useComplianceData_def current_result_def poll_refresh_def poll_answer_def poll_settle_def poll_result_of_def
  transient_error_def

lemma polling_waits_for_one_load_witness:
  "\<exists>k. live_effect (snd (poll_run (\<lambda>_. []) [PollEffect] (poll_mount demo_poll) :: _ \<times> nat poll_hook)) k"
  using polling_waits_for_one_load [of "snd (poll_run (\<lambda>_. []) [PollEffect] (poll_mount demo_poll) :: _ \<times> nat poll_hook)"
      "\<lambda>_. []" "[PollEffect]" demo_poll]
  by (simp add: demo_poll_simps Let_def)

lemma errors_keep_only_this_requests_data_witness:
  "pv_error (useComplianceData (snd (poll_step (\<lambda>_. []) (PollAnswer 0 (Inl AbortError))
     (snd (poll_run (\<lambda>_. []) [PollEffect] (poll_mount demo_poll) :: _ \<times> nat poll_hook))))) = Some ''Failed''"
  using errors_keep_only_this_requests_data
    [of "snd (poll_run (\<lambda>_. []) [PollEffect] (poll_mount demo_poll) :: _ \<times> nat poll_hook)"
      "\<lambda>_. []" "[PollEffect]" demo_poll 0 "Inl AbortError"]
  by (simp add: demo_poll_simps Let_def)

lemma refresh_is_never_lost_witness:
  "0 \<in> set (fst (poll_run (\<lambda>_. []) [PollRefresh, PollAnswer 0 (Inr 5), PollAnswer 0 (Inr 6)]
     (snd (poll_run (\<lambda>_. []) [PollEffect] (poll_mount demo_poll) :: _ \<times> nat poll_hook))))"
  using refresh_is_never_lost
    [of "snd (poll_run (\<lambda>_. []) [PollEffect] (poll_mount demo_poll) :: _ \<times> nat poll_hook)"
      "\<lambda>_. []" "[PollEffect]" demo_poll 0 "[PollAnswer 0 (Inr 5), PollAnswer 0 (Inr 6)]"]
  by (simp add: demo_poll_simps Let_def)

end
