(* ===== verification/TraceSheet.thy ===== *)
theory TraceSheet
  imports TraceProjection PublicStorage
begin

text \<open>
  The sheet a trace is shown in beside a page: its widths and the widths of its two panes
  (traces/lib/trace-layout.ts) and resizing it by pointer and keyboard
  (traces/hooks/use-trace-sheet-panel.ts).

  Widths are exact fractions. The listeners of a drag are those of the drag that has not been
  torn down, so a pointer event reaches at most one drag; its pointer is a number. A window
  in which a pointer moves has a positive width.
\<close>

section \<open>Widths\<close>

definition TRACE_SHEET_MIN_WIDTH_FRACTION :: number where "TRACE_SHEET_MIN_WIDTH_FRACTION = 4 / 10"
definition TRACE_SHEET_MAX_WIDTH_FRACTION :: number where "TRACE_SHEET_MAX_WIDTH_FRACTION = 9 / 10"
definition TRACE_SHEET_DEFAULT_WIDTH_FRACTION :: number where "TRACE_SHEET_DEFAULT_WIDTH_FRACTION = 5 / 10"
definition TRACE_SHEET_EXPAND_ENTER_FRACTION :: number where "TRACE_SHEET_EXPAND_ENTER_FRACTION = 95 / 100"
definition TRACE_SHEET_KEYBOARD_RESIZE_STEP :: number where "TRACE_SHEET_KEYBOARD_RESIZE_STEP = 5 / 100"
definition TRACE_SHEET_MAX_DEFAULT_WIDTH_PX :: number where "TRACE_SHEET_MAX_DEFAULT_WIDTH_PX = 1400"

lemmas sheet_constants = TRACE_SHEET_MIN_WIDTH_FRACTION_def TRACE_SHEET_MAX_WIDTH_FRACTION_def
  TRACE_SHEET_DEFAULT_WIDTH_FRACTION_def TRACE_SHEET_EXPAND_ENTER_FRACTION_def
  TRACE_SHEET_KEYBOARD_RESIZE_STEP_def TRACE_SHEET_MAX_DEFAULT_WIDTH_PX_def

datatype sheet_width = Fraction number | Expanded

definition clampTraceSheetWidthFraction :: "number \<Rightarrow> number" where
  "clampTraceSheetWidthFraction fraction =
     min TRACE_SHEET_MAX_WIDTH_FRACTION (max TRACE_SHEET_MIN_WIDTH_FRACTION fraction)"

definition getTraceSheetKeyboardWidth :: "number \<Rightarrow> bool \<Rightarrow> bool \<Rightarrow> sheet_width" where
  "getTraceSheetKeyboardWidth widthFraction expanded grow =
     (if expanded then (if grow then Expanded else Fraction TRACE_SHEET_MAX_WIDTH_FRACTION)
      else let nextWidth = widthFraction +
                 (if grow then TRACE_SHEET_KEYBOARD_RESIZE_STEP else - TRACE_SHEET_KEYBOARD_RESIZE_STEP)
           in if nextWidth \<ge> TRACE_SHEET_EXPAND_ENTER_FRACTION then Expanded
              else Fraction (clampTraceSheetWidthFraction nextWidth))"

definition resolveTraceSheetDefaultWidthFraction :: "number \<Rightarrow> number" where
  "resolveTraceSheetDefaultWidthFraction viewportWidthPx =
     (if \<not> viewportWidthPx > 0 then TRACE_SHEET_DEFAULT_WIDTH_FRACTION
      else max TRACE_SHEET_MIN_WIDTH_FRACTION
        (min TRACE_SHEET_DEFAULT_WIDTH_FRACTION (TRACE_SHEET_MAX_DEFAULT_WIDTH_PX / viewportWidthPx)))"

subsection \<open>The two panes\<close>

definition TRACE_NAVIGATION_PANEL_MIN_PX :: number where "TRACE_NAVIGATION_PANEL_MIN_PX = 260"
definition TRACE_DETAIL_PANEL_MIN_PX :: number where "TRACE_DETAIL_PANEL_MIN_PX = 360"
definition TRACE_RESIZE_HANDLE_PX :: number where "TRACE_RESIZE_HANDLE_PX = 1"
definition TRACE_BOTH_PANELS_MIN_WIDTH_PX :: number where
  "TRACE_BOTH_PANELS_MIN_WIDTH_PX = TRACE_NAVIGATION_PANEL_MIN_PX + TRACE_DETAIL_PANEL_MIN_PX + TRACE_RESIZE_HANDLE_PX"
definition TRACE_DETAIL_COMFORTABLE_TARGET_PX :: number where "TRACE_DETAIL_COMFORTABLE_TARGET_PX = 560"
definition TRACE_NAVIGATION_COMFORTABLE_MIN_PX :: number where "TRACE_NAVIGATION_COMFORTABLE_MIN_PX = 340"
definition TRACE_NAVIGATION_COMFORTABLE_MAX_PX :: number where "TRACE_NAVIGATION_COMFORTABLE_MAX_PX = 460"

lemmas pane_constants = TRACE_NAVIGATION_PANEL_MIN_PX_def TRACE_DETAIL_PANEL_MIN_PX_def TRACE_RESIZE_HANDLE_PX_def
  TRACE_BOTH_PANELS_MIN_WIDTH_PX_def TRACE_DETAIL_COMFORTABLE_TARGET_PX_def TRACE_NAVIGATION_COMFORTABLE_MIN_PX_def
  TRACE_NAVIGATION_COMFORTABLE_MAX_PX_def

definition getTraceNavigationDefaultWidth :: "number \<Rightarrow> number" where
  "getTraceNavigationDefaultWidth containerWidthPx =
     (let comfortableWidth = min TRACE_NAVIGATION_COMFORTABLE_MAX_PX
            (max TRACE_NAVIGATION_COMFORTABLE_MIN_PX (containerWidthPx - TRACE_DETAIL_COMFORTABLE_TARGET_PX));
          widthWithDetailMinimum = containerWidthPx - TRACE_DETAIL_PANEL_MIN_PX - TRACE_RESIZE_HANDLE_PX
      in max TRACE_NAVIGATION_PANEL_MIN_PX (min comfortableWidth widthWithDetailMinimum))"

definition getTraceNavigationDefaultPercent :: "number \<Rightarrow> number option" where
  "getTraceNavigationDefaultPercent containerWidthPx =
     (if \<not> containerWidthPx > 0 then None
      else let layoutWidthPx = max containerWidthPx TRACE_BOTH_PANELS_MIN_WIDTH_PX
           in Some (getTraceNavigationDefaultWidth layoutWidthPx / layoutWidthPx * 100))"

section \<open>Resizing the sheet\<close>

record resize_drag =
  rz_pointerId :: nat
  rz_nextWidth :: sheet_width
  rz_previousUserSelect :: string
  rz_previousCursor :: string

record trace_sheet =
  sw_widthFraction :: number
  sw_expanded :: bool
  sw_draftWidth :: "sheet_width option"
  sw_drag :: "resize_drag option"
  sw_userSelect :: string
  sw_cursor :: string
  sw_storage :: storage

definition TRACE_SHEET_WIDTH_STORAGE_KEY :: string where
  "TRACE_SHEET_WIDTH_STORAGE_KEY = ''internal-trace-sheet-width-fraction''"

definition getInitialWidthFraction :: "json_parser \<Rightarrow> number \<Rightarrow> storage \<Rightarrow> number" where
  "getInitialWidthFraction parse innerWidth st =
     (case getItem TRACE_SHEET_WIDTH_STORAGE_KEY st of
        Inr (Some stored) \<Rightarrow> (case parse stored of
            Some (JNum parsed) \<Rightarrow> clampTraceSheetWidthFraction parsed
          | _ \<Rightarrow> resolveTraceSheetDefaultWidthFraction innerWidth)
      | _ \<Rightarrow> resolveTraceSheetDefaultWidthFraction innerWidth)"

definition storeWidthFraction :: "json_writer \<Rightarrow> number \<Rightarrow> storage \<Rightarrow> storage" where
  "storeWidthFraction stringify fraction st = try_set TRACE_SHEET_WIDTH_STORAGE_KEY (stringify (JNum fraction)) st"

definition open_sheet :: "json_parser \<Rightarrow> number \<Rightarrow> string \<Rightarrow> string \<Rightarrow> storage \<Rightarrow> trace_sheet" where
  "open_sheet parse innerWidth userSelect cursor st =
     \<lparr>sw_widthFraction = getInitialWidthFraction parse innerWidth st, sw_expanded = False, sw_draftWidth = None,
      sw_drag = None, sw_userSelect = userSelect, sw_cursor = cursor, sw_storage = st\<rparr>"

text \<open>The teardown of the drag under way gives the page its styles back.\<close>

definition drag_teardown :: "trace_sheet \<Rightarrow> trace_sheet" where
  "drag_teardown s = (case sw_drag s of
       None \<Rightarrow> s
     | Some d \<Rightarrow> s\<lparr>sw_userSelect := rz_previousUserSelect d, sw_cursor := rz_previousCursor d, sw_drag := None\<rparr>)"

definition cancelResize :: "trace_sheet \<Rightarrow> trace_sheet" where
  "cancelResize s = (drag_teardown s)\<lparr>sw_draftWidth := None\<rparr>"

text \<open>\<open>Number(x.toFixed(4))\<close>.\<close>

definition to_fixed4 :: "number \<Rightarrow> number" where
  "to_fixed4 x = of_int \<lfloor>x * 10000 + 1 / 2\<rfloor> / 10000"

definition commitWidth :: "json_writer \<Rightarrow> number \<Rightarrow> trace_sheet \<Rightarrow> trace_sheet" where
  "commitWidth stringify fraction s =
     (let clamped = to_fixed4 (clampTraceSheetWidthFraction fraction)
      in s\<lparr>sw_widthFraction := clamped, sw_storage := storeWidthFraction stringify clamped (sw_storage s)\<rparr>)"

definition onPointerDown :: "nat \<Rightarrow> nat \<Rightarrow> trace_sheet \<Rightarrow> trace_sheet" where
  "onPointerDown button pointerId s =
     (if button \<noteq> 0 then s
      else let s1 = cancelResize s;
               nextWidth = (if sw_expanded s then Expanded else Fraction (sw_widthFraction s))
           in s1\<lparr>sw_userSelect := ''none'', sw_cursor := ''ew-resize'', sw_draftWidth := Some nextWidth,
                sw_drag := Some \<lparr>rz_pointerId = pointerId, rz_nextWidth = nextWidth,
                  rz_previousUserSelect = sw_userSelect s1, rz_previousCursor = sw_cursor s1\<rparr>\<rparr>)"

definition onPointerMove :: "nat \<Rightarrow> number \<Rightarrow> number \<Rightarrow> trace_sheet \<Rightarrow> trace_sheet" where
  "onPointerMove pointerId clientX innerWidth s = (case sw_drag s of
       None \<Rightarrow> s
     | Some d \<Rightarrow>
         if pointerId \<noteq> rz_pointerId d then s
         else let fraction = 1 - clientX / innerWidth;
                  nextWidth = (if fraction \<ge> TRACE_SHEET_EXPAND_ENTER_FRACTION then Expanded
                    else Fraction (clampTraceSheetWidthFraction fraction))
              in s\<lparr>sw_drag := Some (d\<lparr>rz_nextWidth := nextWidth\<rparr>), sw_draftWidth := Some nextWidth\<rparr>)"

definition onPointerUp :: "json_writer \<Rightarrow> nat \<Rightarrow> trace_sheet \<Rightarrow> trace_sheet" where
  "onPointerUp stringify pointerId s = (case sw_drag s of
       None \<Rightarrow> s
     | Some d \<Rightarrow>
         if pointerId \<noteq> rz_pointerId d then s
         else let s1 = drag_teardown s;
                  s2 = (case rz_nextWidth d of
                      Expanded \<Rightarrow> s1\<lparr>sw_expanded := True\<rparr>
                    | Fraction f \<Rightarrow> (commitWidth stringify f s1)\<lparr>sw_expanded := False\<rparr>)
              in s2\<lparr>sw_draftWidth := None\<rparr>)"

definition onPointerCancel :: "nat \<Rightarrow> trace_sheet \<Rightarrow> trace_sheet" where
  "onPointerCancel pointerId s = (case sw_drag s of
       None \<Rightarrow> s
     | Some d \<Rightarrow> if pointerId \<noteq> rz_pointerId d then s else cancelResize s)"

definition onKeyDown :: "json_writer \<Rightarrow> string \<Rightarrow> trace_sheet \<Rightarrow> trace_sheet" where
  "onKeyDown stringify key s =
     (if key \<noteq> ''ArrowLeft'' \<and> key \<noteq> ''ArrowRight'' then s
      else case getTraceSheetKeyboardWidth (sw_widthFraction s) (sw_expanded s) (key = ''ArrowLeft'') of
        Expanded \<Rightarrow> s\<lparr>sw_expanded := True\<rparr>
      | Fraction f \<Rightarrow> (commitWidth stringify f s)\<lparr>sw_expanded := False\<rparr>)"

definition handleToggleExpanded :: "trace_sheet \<Rightarrow> trace_sheet" where
  "handleToggleExpanded s = (cancelResize s)\<lparr>sw_expanded := \<not> sw_expanded s\<rparr>"

text \<open>What is shown: whether it fills the window, whether it is being resized, and its width in percent.\<close>

definition effectiveExpanded :: "trace_sheet \<Rightarrow> bool" where
  "effectiveExpanded s \<longleftrightarrow> sw_draftWidth s = Some Expanded \<or> (sw_draftWidth s = None \<and> sw_expanded s)"

definition isResizing :: "trace_sheet \<Rightarrow> bool" where
  "isResizing s \<longleftrightarrow> sw_draftWidth s \<noteq> None"

definition effectiveWidthFraction :: "trace_sheet \<Rightarrow> number" where
  "effectiveWidthFraction s = (case sw_draftWidth s of Some (Fraction f) \<Rightarrow> f | _ \<Rightarrow> sw_widthFraction s)"

definition widthPercent :: "trace_sheet \<Rightarrow> number" where
  "widthPercent s = (if effectiveExpanded s then 100 else math_round (effectiveWidthFraction s * 100))"

section \<open>Runs\<close>

datatype sheet_event =
    PointerDown nat nat
  | PointerMove nat number number
  | PointerUp nat
  | PointerCancel nat
  | KeyDown string
  | ToggleExpanded
  | CancelResize

fun sheet_step :: "json_writer \<Rightarrow> sheet_event \<Rightarrow> trace_sheet \<Rightarrow> trace_sheet" where
  "sheet_step stringify (PointerDown button p) s = onPointerDown button p s"
| "sheet_step stringify (PointerMove p x w) s = onPointerMove p x w s"
| "sheet_step stringify (PointerUp p) s = onPointerUp stringify p s"
| "sheet_step stringify (PointerCancel p) s = onPointerCancel p s"
| "sheet_step stringify (KeyDown key) s = onKeyDown stringify key s"
| "sheet_step stringify ToggleExpanded s = handleToggleExpanded s"
| "sheet_step stringify CancelResize s = cancelResize s"

section \<open>Bounds\<close>

definition usable_width :: "number \<Rightarrow> bool" where
  "usable_width f \<longleftrightarrow> TRACE_SHEET_MIN_WIDTH_FRACTION \<le> f \<and> f \<le> TRACE_SHEET_MAX_WIDTH_FRACTION"

lemma clamp_usable [simp]: "usable_width (clampTraceSheetWidthFraction f)"
  by (simp add: usable_width_def clampTraceSheetWidthFraction_def sheet_constants)

lemma clamp_id: "usable_width f \<Longrightarrow> clampTraceSheetWidthFraction f = f"
  by (simp add: usable_width_def clampTraceSheetWidthFraction_def)

lemma default_usable [simp]: "usable_width (resolveTraceSheetDefaultWidthFraction w)"
  by (auto simp: usable_width_def resolveTraceSheetDefaultWidthFraction_def sheet_constants)

lemma fixed_usable [simp]:
  assumes "usable_width f" shows "usable_width (to_fixed4 f)"
proof -
  have f: "4 / 10 \<le> f" "f \<le> 9 / 10" using assms by (simp_all add: usable_width_def sheet_constants)
  let ?k = "\<lfloor>f * 10000 + 1 / 2\<rfloor>"
  have "4000 \<le> ?k" using f(1) by (intro le_floor_iff [THEN iffD2]) simp
  then have "(of_int 4000 :: number) \<le> of_int ?k" by (simp only: of_int_le_iff)
  moreover have "?k \<le> 9000" using f(2) by (intro floor_le_iff [THEN iffD2]) simp
  then have "(of_int ?k :: number) \<le> of_int 9000" by (simp only: of_int_le_iff)
  ultimately show ?thesis by (simp add: usable_width_def sheet_constants to_fixed4_def)
qed

lemma initial_usable [simp]: "usable_width (getInitialWidthFraction parse w st)"
  by (auto simp: getInitialWidthFraction_def split: sum.split option.split json.split)

section \<open>The invariant\<close>

text \<open>
  A drag is under way exactly while a draft width is shown, the draft is the width it would end
  with, and it keeps the styles the page had.
\<close>

definition sheet_ok :: "string \<Rightarrow> string \<Rightarrow> trace_sheet \<Rightarrow> bool" where
  "sheet_ok userSelect cursor s \<longleftrightarrow> usable_width (sw_widthFraction s) \<and>
     (case sw_drag s of
        None \<Rightarrow> sw_draftWidth s = None \<and> sw_userSelect s = userSelect \<and> sw_cursor s = cursor
      | Some d \<Rightarrow> sw_draftWidth s = Some (rz_nextWidth d) \<and>
          rz_previousUserSelect d = userSelect \<and> rz_previousCursor d = cursor \<and>
          (case rz_nextWidth d of Expanded \<Rightarrow> True | Fraction f \<Rightarrow> usable_width f))"

lemma ok_open: "sheet_ok userSelect cursor (open_sheet parse w userSelect cursor st)"
  by (simp add: sheet_ok_def open_sheet_def)

lemma keyboard_usable: "getTraceSheetKeyboardWidth f expanded grow = Fraction g \<Longrightarrow> usable_width g"
  by (auto simp: getTraceSheetKeyboardWidth_def Let_def split: if_splits)
    (simp add: usable_width_def sheet_constants)

lemma teardown_free: "sw_drag (drag_teardown s) = None"
  by (simp add: drag_teardown_def split: option.split)

lemma ok_cancel: "sheet_ok us cu s \<Longrightarrow> sheet_ok us cu (cancelResize s)"
  by (auto simp: sheet_ok_def cancelResize_def drag_teardown_def split: option.splits)

lemma ok_commit: "sheet_ok us cu s \<Longrightarrow> sheet_ok us cu (commitWidth stringify f s)"
  by (simp add: sheet_ok_def commitWidth_def Let_def cong: option.case_cong)

lemma ok_expanded: "sheet_ok us cu (s\<lparr>sw_expanded := b\<rparr>) = sheet_ok us cu s"
  by (simp add: sheet_ok_def cong: option.case_cong)

lemma ok_down: "sheet_ok us cu s \<Longrightarrow> sheet_ok us cu (onPointerDown button p s)"
  using ok_cancel [of us cu s] teardown_free [of s]
  by (auto simp: onPointerDown_def Let_def sheet_ok_def cancelResize_def)

lemma ok_move: "sheet_ok us cu s \<Longrightarrow> sheet_ok us cu (onPointerMove p x w s)"
  by (auto simp: onPointerMove_def sheet_ok_def Let_def split: option.splits)

lemma ok_up:
  assumes "sheet_ok us cu s" shows "sheet_ok us cu (onPointerUp stringify p s)"
proof (cases "sw_drag s")
  case (Some d)
  have "sheet_ok us cu (cancelResize s)" by (rule ok_cancel [OF assms])
  then show ?thesis using Some assms
    by (auto simp: onPointerUp_def Let_def sheet_ok_def cancelResize_def drag_teardown_def commitWidth_def split: sheet_width.split)
qed (use assms in \<open>simp add: onPointerUp_def\<close>)

lemma ok_step: "sheet_ok us cu s \<Longrightarrow> sheet_ok us cu (sheet_step stringify e s)"
  by (cases e)
    (auto simp: ok_down ok_move ok_up ok_cancel ok_commit ok_expanded onPointerCancel_def onKeyDown_def handleToggleExpanded_def
      split: option.split sheet_width.split)

lemma ok_run: "sheet_ok us cu s \<Longrightarrow> sheet_ok us cu (fold (sheet_step stringify) es s)"
  by (rule fold_keeps) (rule ok_step)

text \<open>
  The sheet of a trace stays usable: whatever the pointer and the keyboard do, what it shows
  is as wide as the window or between four and nine tenths of it, and whenever it is not being
  resized the page has its own text selection and cursor.
\<close>

theorem trace_sheet_stays_usable:
  "let s = fold (sheet_step stringify) es (open_sheet parse w userSelect cursor st)
   in usable_width (sw_widthFraction s) \<and> usable_width (effectiveWidthFraction s) \<and>
    40 \<le> widthPercent s \<and> widthPercent s \<le> 100 \<and>
    (isResizing s \<or> sw_userSelect s = userSelect \<and> sw_cursor s = cursor)"
proof -
  define s where "s = fold (sheet_step stringify) es (open_sheet parse w userSelect cursor st)"
  have ok: "sheet_ok userSelect cursor s" unfolding s_def by (rule ok_run [OF ok_open])
  then have width: "usable_width (effectiveWidthFraction s)"
    by (auto simp: sheet_ok_def effectiveWidthFraction_def split: option.splits sheet_width.splits)
  then have "(40 :: int) \<le> \<lfloor>effectiveWidthFraction s * 100 + 1 / 2\<rfloor>" "\<lfloor>effectiveWidthFraction s * 100 + 1 / 2\<rfloor> \<le> (100 :: int)"
    by (auto simp: usable_width_def sheet_constants le_floor_iff floor_le_iff)
  then have "(of_int 40 :: number) \<le> math_round (effectiveWidthFraction s * 100)"
      "math_round (effectiveWidthFraction s * 100) \<le> of_int 100"
    unfolding math_round_def by (simp_all only: of_int_le_iff)
  then have "40 \<le> widthPercent s \<and> widthPercent s \<le> 100" by (simp add: widthPercent_def)
  then show ?thesis using ok width unfolding s_def [symmetric] Let_def
    by (auto simp: sheet_ok_def isResizing_def split: option.splits)
qed

section \<open>Drags\<close>

lemma move_keeps_the_drag:
  assumes "sw_drag s = Some d"
  obtains n v where "onPointerMove q x w s = s\<lparr>sw_drag := Some (d\<lparr>rz_nextWidth := n\<rparr>), sw_draftWidth := v\<rparr>"
proof (cases "q = rz_pointerId d")
  case True
  then show ?thesis using assms that by (simp add: onPointerMove_def Let_def)
next
  case False
  then show ?thesis using assms that [of "sw_draftWidth s" "rz_nextWidth d"] by (simp add: onPointerMove_def)
qed

lemma moves_keep_the_drag:
  assumes "sw_drag s = Some d"
  shows "\<exists>n v. fold (sheet_step stringify) (map (\<lambda>(q, x, w). PointerMove q x w) ms) s =
    s\<lparr>sw_drag := Some (d\<lparr>rz_nextWidth := n\<rparr>), sw_draftWidth := v\<rparr>"
  using assms
proof (induction ms arbitrary: s d)
  case Nil
  then show ?case by (intro exI [of _ "rz_nextWidth d"] exI [of _ "sw_draftWidth s"]) simp
next
  case (Cons m ms)
  obtain q x w where m: "m = (q, x, w)" by (cases m)
  obtain n v where s1: "onPointerMove q x w s = s\<lparr>sw_drag := Some (d\<lparr>rz_nextWidth := n\<rparr>), sw_draftWidth := v\<rparr>"
    by (rule move_keeps_the_drag [OF Cons.prems])
  have "sw_drag (onPointerMove q x w s) = Some (d\<lparr>rz_nextWidth := n\<rparr>)" by (simp add: s1)
  from Cons.IH [OF this] show ?case by (simp add: m s1)
qed

text \<open>
  A drag that is cancelled leaves no trace: after pressing the handle, moving the pointer any
  way and losing it, the sheet, its stored width and the styles of the page are as before.
\<close>

theorem cancelled_drag_changes_nothing:
  assumes "sw_drag s = None" "sw_draftWidth s = None"
  shows "onPointerCancel p (fold (sheet_step stringify) (map (\<lambda>(q, x, w). PointerMove q x w) ms) (onPointerDown 0 p s)) = s"
proof -
  let ?t = "onPointerDown 0 p s"
  obtain nw where t: "?t = s\<lparr>sw_userSelect := ''none'', sw_cursor := ''ew-resize'', sw_draftWidth := Some nw,
      sw_drag := Some \<lparr>rz_pointerId = p, rz_nextWidth = nw, rz_previousUserSelect = sw_userSelect s,
        rz_previousCursor = sw_cursor s\<rparr>\<rparr>"
    using assms by (simp add: onPointerDown_def cancelResize_def drag_teardown_def Let_def)
  obtain n v where "fold (sheet_step stringify) (map (\<lambda>(q, x, w). PointerMove q x w) ms) ?t =
      ?t\<lparr>sw_drag := Some \<lparr>rz_pointerId = p, rz_nextWidth = n, rz_previousUserSelect = sw_userSelect s,
        rz_previousCursor = sw_cursor s\<rparr>, sw_draftWidth := v\<rparr>"
    using moves_keep_the_drag [of ?t _ stringify ms] by (auto simp: t)
  then show ?thesis using assms by (simp add: onPointerCancel_def cancelResize_def drag_teardown_def t)
qed

section \<open>The stored width\<close>

text \<open>A browser that can be read and takes every text keeps the last width, in bounds.\<close>

definition width_stored :: "json_parser \<Rightarrow> number \<Rightarrow> trace_sheet \<Rightarrow> bool" where
  "width_stored parse w s \<longleftrightarrow> st_readable (sw_storage s) \<and> (\<forall>v. st_accepts (sw_storage s) v) \<and>
     getInitialWidthFraction parse w (sw_storage s) = sw_widthFraction s"

lemma stored_commit:
  assumes "\<And>x. parse (stringify (JNum x)) = Some (JNum x)" "width_stored parse w s"
  shows "width_stored parse w (commitWidth stringify f s)"
  using assms
  by (simp add: width_stored_def commitWidth_def Let_def storeWidthFraction_def try_set_def setItem_def getItem_def
      getInitialWidthFraction_def clamp_id)

lemma stored_same:
  assumes "sw_storage s' = sw_storage s" "sw_widthFraction s' = sw_widthFraction s" "width_stored parse w s"
  shows "width_stored parse w s'"
  using assms by (simp add: width_stored_def)

lemma cancel_keeps_width [simp]:
  "sw_storage (cancelResize s) = sw_storage s" "sw_widthFraction (cancelResize s) = sw_widthFraction s"
  "sw_storage (drag_teardown s) = sw_storage s" "sw_widthFraction (drag_teardown s) = sw_widthFraction s"
  by (simp_all add: cancelResize_def drag_teardown_def split: option.split)

lemma stored_step:
  assumes "\<And>x. parse (stringify (JNum x)) = Some (JNum x)" "width_stored parse w s"
  shows "width_stored parse w (sheet_step stringify e s)"
proof -
  have commit: "width_stored parse w ((commitWidth stringify f s')\<lparr>sw_expanded := b, sw_draftWidth := v\<rparr>)"
      "width_stored parse w ((commitWidth stringify f s')\<lparr>sw_expanded := b\<rparr>)"
    if "width_stored parse w s'" for f s' b v
    using stored_commit [OF assms(1) that, of f] by (auto intro: stored_same)
  have teardown: "width_stored parse w (drag_teardown s)" "width_stored parse w (cancelResize s)"
    using assms(2) by (auto intro: stored_same)
  show ?thesis
  proof (cases e)
    case (PointerUp p)
    then show ?thesis using assms(2) teardown
      by (auto simp: onPointerUp_def Let_def commit split: option.split sheet_width.split intro: stored_same)
  next
    case (KeyDown key)
    then show ?thesis using assms(2)
      by (auto simp: onKeyDown_def commit split: sheet_width.split intro: stored_same)
  qed (use assms(2) teardown in \<open>auto simp: onPointerDown_def onPointerMove_def onPointerCancel_def handleToggleExpanded_def Let_def
      split: option.split intro: stored_same\<close>)
qed

text \<open>
  The width of the sheet is the one the next page opens it with, after any use of pointer and
  keyboard, as long as the browser stores.
\<close>

theorem sheet_width_is_read_back:
  assumes "\<And>x. parse (stringify (JNum x)) = Some (JNum x)" "st_readable st" "\<And>v. st_accepts st v"
  shows "sw_widthFraction (open_sheet parse w us' cu'
      (sw_storage (fold (sheet_step stringify) es (open_sheet parse w us cu st)))) =
    sw_widthFraction (fold (sheet_step stringify) es (open_sheet parse w us cu st))"
proof -
  have "width_stored parse w (open_sheet parse w us cu st)"
    using assms(2,3) by (simp add: width_stored_def open_sheet_def)
  then have "width_stored parse w (fold (sheet_step stringify) es (open_sheet parse w us cu st))"
    by (rule fold_keeps [rotated]) (rule stored_step [OF assms(1)])
  then show ?thesis by (simp add: width_stored_def open_sheet_def)
qed

section \<open>The panes fit\<close>

text \<open>
  Both panes of a trace get at least their minimum width: the default split of a layout that
  is wide enough for both gives the navigation 260 pixels or more and leaves the detail 360 or
  more beside the handle.
\<close>

theorem both_panes_fit:
  "case getTraceNavigationDefaultPercent c of
     None \<Rightarrow> c \<le> 0
   | Some percent \<Rightarrow>
       let layout = max c TRACE_BOTH_PANELS_MIN_WIDTH_PX; navigation = percent / 100 * layout
       in TRACE_NAVIGATION_PANEL_MIN_PX \<le> navigation \<and>
          TRACE_DETAIL_PANEL_MIN_PX \<le> layout - navigation - TRACE_RESIZE_HANDLE_PX"
  by (auto simp: getTraceNavigationDefaultPercent_def getTraceNavigationDefaultWidth_def pane_constants Let_def)

end
