(* ===== verification/Spec2Isabelle.thy ===== *)
theory Spec2Isabelle
  imports ChatAnnotations StreamApiFacts ActivityHydration InstructionsRuns AssistantDraft RagStream
    TraceTimelineOutline TraceScale TraceProjectionFacts PublicChatOutcomes AuthFacts EvalFacts
    TraceNavigator TurnSummaryFacts DrilldownFacts ViewAccess AsyncFacts PollingFacts
    TraceSheet
begin

text \<open>
  The client logic of the enrollment assistant: the parts of its web applications
  (frontend/packages/app-internal, app-public and shared) that decide something, as opposed
  to showing it. Paths below are within app-internal/src unless they name another package. Every theory
  names its source file and keeps the source's function names; record fields have a prefix
  because field names are global here.

  \<^bold>\<open>The program and its parts.\<close> A chat store holds conversations and drives message streams;
  a reader cuts server-sent events out of a response and calls the store's callbacks; the
  activity of an answer is shown from events or rebuilt from its trace; an instructions
  editor edits prompt files and saves versions; traces are laid out on a timeline; RAG builds
  report progress on a stream of their own; evaluation reports are summarised and compared.
  Every request goes through an API client that renews an expired session, which the sign-in
  shares. Pages load their data through two hooks, read what they show from their URL, and are
  reached only by who may see them; dashboards link to the lists behind their charts. The public
  chat is a widget of its own with one stored conversation and a consent form.

  \<^item> Shared: \<open>Prelude\<close> (absent values, strings, lists), \<open>JsMap\<close> (the language's \<open>Map\<close> as the
    locale \<open>dictionary\<close> and its interpretation on association lists).
  \<^item> Chat data and bookkeeping: \<open>ChatTypes\<close> (chat/types, shared/types), \<open>RequestTracking\<close>
    (chat/lib/active-request-tracker.ts and the latest-request coordinator, with the locale of
    stream ownership), \<open>ConversationTree\<close> (conversation-tree.ts), \<open>MessageLifecycle\<close>
    (message-stream-lifecycle.ts, generation-attempt.ts, message-retry.ts, guardrails.ts).
  \<^item> Chat store (chat/lib/store.ts, chat-list-state.ts): \<open>ChatState\<close> (state, selectors, list
    merge), \<open>ChatStore\<close> (actions, cut where they wait for an answer), \<open>ChatStream\<close> (sending, the
    stream's callbacks, reconciliation), \<open>ChatSystem\<close> (all interleavings of actions, events,
    timers and answers, and reachability).
  \<^item> Message stream reader (chat/lib/api.ts): \<open>StreamApi\<close>. RAG progress stream
    (rag/lib/operation-stream.ts): \<open>RagStream\<close>, on the same cutting of events.
  \<^item> Activity from traces: \<open>TraceData\<close> (traces/lib/trace-utils.ts, the extractors of tool calls),
    \<open>TraceMessages\<close> (its extractors of messages, parts and keys), \<open>PendingCalls\<close>, \<open>ActivityMerge\<close>, \<open>TraceActivity\<close> (chat/lib/trace-activity.ts).
  \<^item> Instructions editor: \<open>InstructionSections\<close> (instructions/lib/sections.ts, types),
    \<open>InstructionsStore\<close> (instructions/lib/store.ts, one definition per action and per answer),
    \<open>InstructionsSystem\<close> (what is stored and read back, requests in flight, reachability),
    \<open>AssistantDraft\<close> (assistant-draft.ts).
  \<^item> Timeline (traces/lib/trace-timeline.ts): \<open>TraceTimeline\<close> (parents, visible rows),
    \<open>TraceScale\<close> (bars, ticks, labels). Overview of a trace
    (traces/lib/trace-projection-utils.ts): \<open>TraceProjection\<close>.
  \<^item> Spans of a trace: \<open>TraceTiming\<close> (times, durations and bars, the span tree of
    traces/lib/trace-utils.ts), \<open>TraceNavigator\<close> (the list and the tree a page shows, collapsing,
    outcomes: trace-view-utils.ts, trace-outcomes.ts, components/trace-turn-span-navigator.tsx,
    hooks/use-trace-collapse.ts), \<open>TurnSummary\<close> (components/trace-turn-summary-model.ts),
    \<open>TraceSheet\<close> (trace-layout.ts, hooks/use-trace-sheet-panel.ts, with its bounds, cancelled
    drags and the stored width).
  \<^item> Requests and sign-in: \<open>ApiClient\<close> (shared/lib/api-client.ts and the retry of
    auth/hooks/use-authenticated-api.ts), \<open>AuthSession\<close> (auth/contexts/auth-provider.tsx,
    auth/lib/teams-sso.ts as processes that wait for answers, and the server's rotation of
    refresh tokens, backend/app/core/refresh_tokens.py).
  \<^item> Public chat (app-public): \<open>PublicStorage\<close> (lib/storage.ts), \<open>PublicChat\<close>
    (hooks/use-chat.ts, lib/chat-api.ts, lib/consent-api.ts, components/app.tsx,
    components/consent-banner.tsx), over \<open>JsonText\<close> (what is assumed of \<open>JSON.parse\<close> and
    \<open>JSON.stringify\<close>, as the locale \<open>json_codec\<close>, with a codec that satisfies it).
  \<^item> Evaluation reports: \<open>EvalReports\<close> (evals/lib/report-utils.ts, evals/lib/model-storage.ts).
  \<^item> List pages: \<open>SearchParams\<close> (lib/time-range.ts, lib/time-series.ts,
    lib/hooks/use-persisted-time-range.ts, chats/lib/review-search-state.ts,
    chats/lib/user-filter-options.ts), \<open>ListSearches\<close> (the search-state.ts files of eight pages,
    one record and one validation for each), \<open>Drilldown\<close> (drilldown.ts of chat-analytics and
    quality, what the pages of messages, feedback and chats make of their search, and the
    queries of their api.ts).
  \<^item> Access: \<open>ViewAccess\<close> (app/feature-flags.ts, app/view-access.ts, app/components/app.tsx, the
    paths of app/router.ts).
  \<^item> Data hooks: \<open>AsyncData\<close> (lib/hooks/use-async-data.ts), \<open>CompliancePolling\<close>
    (compliance/hooks/use-compliance-data.ts): renders, effects, timers and answers are events.

  \<^bold>\<open>What is shown.\<close>

  \<^item> \<open>ChatInvariant\<close>, \<open>ChatProperties\<close>: in every reachable state the data are well formed and
    at most one live stream writes to a chat; a stream that lost its chat is silent.
    \<open>ChatOutcomes\<close>, \<open>ChatRecovery\<close>, \<open>ChatAnnotations\<close>: what answers, failures, retries, aborts,
    adoption of a real id, feedback and source checks do.
  \<^item> \<open>StreamApiFacts\<close>: chunking does not matter, one outcome per stream, callbacks never throw,
    encoded events are read back; \<open>RagStream\<close> has the same for typed events.
  \<^item> \<open>ActivityMergeFacts\<close>, \<open>TraceActivityFacts\<close>, \<open>ActivityHydration\<close>: the log rebuilt from a trace
    is well formed, shows the agents, and keeps its entries when stored calls are merged.
  \<^item> \<open>InstructionsFacts\<close>, \<open>InstructionsOutcomes\<close>: the edited text is the draft, the draft of a file
    is lost by the steps that are to discard it and no others, busy flags end, payloads of new versions are sound, page loads keep drafts
    and are idempotent. \<open>InstructionsRuns\<close> has the witnesses and runs that show defects.
  \<^item> \<open>TraceTimelineFacts\<close>, \<open>TraceTimelineOutline\<close>: parents have no cycle and are cut only to
    break one; the visible rows are the outline of the forest, each once unless hidden, under
    its parent. \<open>TraceScale\<close>: five to ten ticks, bars in place.
  \<^item> \<open>TraceProjectionFacts\<close>: the overview lists every item once, parents first and siblings by
    start; the entries of an item are its visible data; completing spans is idempotent.
  \<^item> \<open>ApiClient\<close>, \<open>AuthFacts\<close>: a call of the server is where the answers to it put
    it (one renewal after a 401, one second try), the waiting ends after a bounded number of answers, the sign-in's state is consistent under every order of answers; two
    renewals at a time lose the session.
  \<^item> \<open>PublicChatFacts\<close>, \<open>PublicChatOutcomes\<close>: the stored history is the conversation shown
    without errors and is what a page load shows, the next turn continues it, nothing is sent without consent, the widget waits for one answer
    unless the chat is cleared meanwhile, and what goes wrong then.
  \<^item> \<open>EvalFacts\<close>: averages are means, comparisons lose no case, settings are read back.
  \<^item> \<open>TraceTimingFacts\<close>, \<open>TraceTreeFacts\<close>, \<open>TraceNavigator\<close>: bars lie in their trace, the list of
    spans has every rooted span once, both views hide the same spans when spans are collapsed.
    \<open>TurnSummaryFacts\<close>: the summary returns for traces without circles, the rows below an
    agent are those of an independent description of its phases, rows are in order and complete.
  \<^item> \<open>SearchFacts\<close>: the locale \<open>search_state\<close> of pages whose validated search is read back from its
    own link, interpreted on eight pages. \<open>DrilldownFacts\<close>: a click on a chart asks for exactly
    what was clicked, from the link through the validation to the query, and for the user only
    where the target page lets its user filter by user; stored filters are read back.
  \<^item> \<open>ViewAccess\<close>: no page without its permission on the paths of the application, one redirect at
    most. \<open>AsyncFacts\<close> (loads as an instance of \<open>ownership\<close>), \<open>PollingFacts\<close>: only the answer to
    the last request is shown, loading ends with it, no refresh is lost.

  \<^bold>\<open>How the code is rendered.\<close> An asynchronous function is cut at each \<open>await\<close>: the part before
  is a definition that also gives the requests it sends, the part after is a definition of the
  answer and of what was captured. A thrown error is the left value of a sum. Objects and
  maps keyed by strings are association lists in insertion order. Numbers are rationals: the
  code compares, adds and scales times and costs and never depends on rounding. Strings are
  of single-byte characters. What the code only takes from its host (\<open>JSON.parse\<close>, \<open>Date.parse\<close>,
  \<open>toISOString\<close>, clocks, identifiers) is a parameter.

  \<^bold>\<open>Bounds.\<close> Loops are recursive functions with a termination proof where the measure is in the
  data (cutting events, the decade of a number, breaking cycles). Fuel is used for nested
  JSON (the length of the longest text; \<open>nested_parsing_is_complete\<close>), for climbing to a span's ancestors and for walking the span
  tree (the number of spans; a longer climb repeats a span, and a tree of rooted spans is not
  deeper) and for the walks over a timeline (the number of rows;
  \<open>outline_fuel\<close> shows that more changes nothing). The queue of descendants of the turn summary
  may not end in the code and is a partial function; it does for traces without circles.

  \<^bold>\<open>Not modelled.\<close> React components (their meaning is markup) and the hooks that only drive
  them, the router library, charts and styling, one-line wrappers of requests, and the Python
  backend, against whose every behaviour the clients are modelled; the one exception is the
  rotation of refresh tokens. Of the stores: toasts, logging, memoised selectors and the storage
  keys. Of the sign-in: the timeouts of the Teams library. Of the public chat: the form's
  buttons are always enabled, so more submissions are allowed than the page allows. Of the
  traces: locale formatting and virtual scrolling. Of the list pages: tables, exports, dialogs
  and the search for users.
\<close>

end
